(* ===== verification/Prelude.thy ===== *)
theory Prelude
  imports Main "HOL-Library.Product_Lexorder" "HOL-Library.Sublist" "HOL-Library.Multiset"
begin

text \<open>
  What every component of the development shares: the result of a computation that may
  throw (a sum, \<open>Inl\<close> for the thrown value), the transaction body (a function of the
  database state that either throws or returns a value and the next state), decimal
  rendering of numbers (template literals and \<open>String(n)\<close> of the source), JavaScript
  numbers as far as the code tells them apart, and generic facts on lists of rows.
\<close>

section \<open>Collections of the development\<close>

named_theorems tx_simps \<open>successful runs of transaction bodies, taken apart\<close>
named_theorems read_simps \<open>successful reads, taken apart\<close>
named_theorems row_simps \<open>what a statement leaves of the rows of a table\<close>

section \<open>Computations that may throw\<close>

text \<open>
  A synchronous function of the source that throws: \<open>rbind\<close> is the sequencing of two
  statements, \<open>throwUnless\<close> an \<open>if (!b) throw e;\<close>.
\<close>

definition rbind :: "'e + 'a \<Rightarrow> ('a \<Rightarrow> 'e + 'b) \<Rightarrow> 'e + 'b" where
  "rbind r f = (case r of Inl e \<Rightarrow> Inl e | Inr a \<Rightarrow> f a)"

definition throwUnless :: "bool \<Rightarrow> 'e \<Rightarrow> 'e + unit" where
  "throwUnless b e = (if b then Inr () else Inl e)"

lemma rbind_Inl [simp]: "rbind (Inl e) f = Inl e"
  by (simp add: rbind_def)

lemma rbind_Inr [simp]: "rbind (Inr a) f = f a"
  by (simp add: rbind_def)

lemma rbind_eq_Inr [read_simps]: "rbind r f = Inr b \<longleftrightarrow> (\<exists>a. r = Inr a \<and> f a = Inr b)"
  by (simp add: rbind_def split: sum.split)

lemma rbind_eq_Inl: "rbind r f = Inl e \<longleftrightarrow> r = Inl e \<or> (\<exists>a. r = Inr a \<and> f a = Inl e)"
  by (auto simp: rbind_def split: sum.split)

lemma throwUnless_eq_Inr [simp]: "throwUnless b e = Inr u \<longleftrightarrow> b"
  by (simp add: throwUnless_def)

lemma throwUnless_eq_Inl [simp]: "throwUnless b e = Inl e' \<longleftrightarrow> \<not> b \<and> e' = e"
  by (auto simp: throwUnless_def)

lemma throwUnless_True [simp]: "throwUnless True e = Inr ()"
  by (simp add: throwUnless_def)

lemma throwUnless_False [simp]: "throwUnless False e = Inl e"
  by (simp add: throwUnless_def)

text \<open>A list mapped with a function that may throw stops at the first throw (\<open>Array.map\<close>).\<close>

fun mapThrow :: "('a \<Rightarrow> 'e + 'b) \<Rightarrow> 'a list \<Rightarrow> 'e + 'b list" where
  "mapThrow f [] = Inr []"
| "mapThrow f (x # xs) =
     rbind (f x) (\<lambda>y. rbind (mapThrow f xs) (\<lambda>ys. Inr (y # ys)))"

lemma mapThrow_eq_Inr:
  "mapThrow f xs = Inr ys \<longleftrightarrow> list_all2 (\<lambda>x y. f x = Inr y) xs ys"
proof (induction xs arbitrary: ys)
  case Nil
  then show ?case by auto
next
  case (Cons x xs)
  then show ?case by (cases ys) (auto simp: rbind_eq_Inr)
qed

section \<open>Transaction bodies\<close>

text \<open>
  The body of a transaction runs on a state: it throws (and the transaction rolls back,
  so no state is kept) or returns a value and the next state.
\<close>

type_synonym ('e, 's, 'a) tx = "'s \<Rightarrow> 'e + ('a \<times> 's)"

definition returnT :: "'a \<Rightarrow> ('e, 's, 'a) tx" where
  "returnT a = (\<lambda>s. Inr (a, s))"

definition throwT :: "'e \<Rightarrow> ('e, 's, 'a) tx" where
  "throwT e = (\<lambda>s. Inl e)"

definition bindT :: "('e, 's, 'a) tx \<Rightarrow> ('a \<Rightarrow> ('e, 's, 'b) tx) \<Rightarrow> ('e, 's, 'b) tx" where
  "bindT m f = (\<lambda>s. case m s of Inl e \<Rightarrow> Inl e | Inr (a, s') \<Rightarrow> f a s')"

definition liftT :: "'e + 'a \<Rightarrow> ('e, 's, 'a) tx" where
  "liftT r = (\<lambda>s. case r of Inl e \<Rightarrow> Inl e | Inr a \<Rightarrow> Inr (a, s))"

definition readT :: "('s \<Rightarrow> 'e + 'a) \<Rightarrow> ('e, 's, 'a) tx" where
  "readT q = (\<lambda>s. case q s of Inl e \<Rightarrow> Inl e | Inr a \<Rightarrow> Inr (a, s))"

definition guardT :: "bool \<Rightarrow> 'e \<Rightarrow> ('e, 's, unit) tx" where
  "guardT b e = (if b then returnT () else throwT e)"

fun forEachT :: "('a \<Rightarrow> ('e, 's, unit) tx) \<Rightarrow> 'a list \<Rightarrow> ('e, 's, unit) tx" where
  "forEachT f [] = returnT ()"
| "forEachT f (x # xs) = bindT (f x) (\<lambda>_. forEachT f xs)"

lemma bindT_eq_Inr [tx_simps]:
  "bindT m f s = Inr r \<longleftrightarrow> (\<exists>a s'. m s = Inr (a, s') \<and> f a s' = Inr r)"
  by (auto simp: bindT_def split: sum.split)

lemma bindT_eq_Inl:
  "bindT m f s = Inl e \<longleftrightarrow> m s = Inl e \<or> (\<exists>a s'. m s = Inr (a, s') \<and> f a s' = Inl e)"
  by (auto simp: bindT_def split: sum.split)

lemma returnT_eq_Inr [tx_simps]: "returnT a s = Inr r \<longleftrightarrow> r = (a, s)"
  by (auto simp: returnT_def)

lemma throwT_eq_Inr [tx_simps]: "throwT e s = Inr r \<longleftrightarrow> False"
  by (simp add: throwT_def)

lemma liftT_eq_Inr [tx_simps]: "liftT q s = Inr r \<longleftrightarrow> (\<exists>a. q = Inr a \<and> r = (a, s))"
  by (auto simp: liftT_def split: sum.split)

lemma readT_eq_Inr [tx_simps]: "readT q s = Inr r \<longleftrightarrow> (\<exists>a. q s = Inr a \<and> r = (a, s))"
  by (auto simp: readT_def split: sum.split)

lemma guardT_eq_Inr [tx_simps]: "guardT b e s = Inr r \<longleftrightarrow> b \<and> r = ((), s)"
  by (auto simp: guardT_def returnT_def throwT_def)

lemma returnT_apply [simp]: "returnT a s = Inr (a, s)"
  by (simp add: returnT_def)

lemma throwT_apply [simp]: "throwT e s = Inl e"
  by (simp add: throwT_def)

lemma bindT_return [simp]: "bindT m returnT = m"
  by (rule ext) (auto simp: bindT_def split: sum.split)

lemma bindT_assoc: "bindT (bindT m f) g = bindT m (\<lambda>a. bindT (f a) g)"
  by (rule ext) (auto simp: bindT_def split: sum.split)

lemma bindT_Inr: "m s = Inr (a, s') \<Longrightarrow> bindT m f s = f a s'"
  by (simp add: bindT_def)

lemma bindT_Inl: "m s = Inl e \<Longrightarrow> bindT m f s = Inl e"
  by (simp add: bindT_def)

lemma readT_Inr [simp]: "q s = Inr a \<Longrightarrow> readT q s = Inr (a, s)"
  by (simp add: readT_def)

lemma readT_Inl [simp]: "q s = Inl e \<Longrightarrow> readT q s = Inl e"
  by (simp add: readT_def)

lemma liftT_simps [simp]: "liftT (Inr a) s = Inr (a, s)" "liftT (Inl e) s = Inl e"
  by (simp_all add: liftT_def)

lemma guardT_simps [simp]: "guardT True e = returnT ()" "guardT False e = throwT e"
  by (simp_all add: guardT_def)

text \<open>A body whose every step keeps a property of the state keeps it as a whole.\<close>

definition preservesT :: "('s \<Rightarrow> bool) \<Rightarrow> ('e, 's, 'a) tx \<Rightarrow> bool" where
  "preservesT P m \<longleftrightarrow> (\<forall>s a s'. P s \<longrightarrow> m s = Inr (a, s') \<longrightarrow> P s')"

lemma preservesT_bind:
  "preservesT P m \<Longrightarrow> (\<And>a. preservesT P (f a)) \<Longrightarrow> preservesT P (bindT m f)"
  unfolding preservesT_def by (metis bindT_eq_Inr)

lemma preservesT_forEach:
  "(\<And>x. x \<in> set xs \<Longrightarrow> preservesT P (f x)) \<Longrightarrow> preservesT P (forEachT f xs)"
proof (induction xs)
  case Nil
  then show ?case by (simp add: preservesT_def returnT_def)
next
  case (Cons x xs)
  then show ?case by (simp add: preservesT_bind)
qed

section \<open>Decimal text\<close>

text \<open>\<open>String(n)\<close> and \<open>${n}\<close> of an integer, and the decimal reading of a text.\<close>

definition digitChar :: "nat \<Rightarrow> char" where
  "digitChar d = char_of (48 + d)"

definition digitValue :: "char \<Rightarrow> nat option" where
  "digitValue c = (let n = (of_char c :: nat) in if 48 \<le> n \<and> n \<le> 57 then Some (n - 48) else None)"

fun showNat :: "nat \<Rightarrow> string" where
  "showNat n = (if n < 10 then [digitChar n] else showNat (n div 10) @ [digitChar (n mod 10)])"

declare showNat.simps [simp del]

definition showInt :: "int \<Rightarrow> string" where
  "showInt i = (if i < 0 then ''-'' @ showNat (nat (- i)) else showNat (nat i))"

fun readDigits :: "nat \<Rightarrow> string \<Rightarrow> nat option" where
  "readDigits acc [] = Some acc"
| "readDigits acc (c # cs) =
     (case digitValue c of None \<Rightarrow> None | Some d \<Rightarrow> readDigits (10 * acc + d) cs)"

definition readInt :: "string \<Rightarrow> int option" where
  "readInt s = (case s of
      [] \<Rightarrow> None
    | c # cs \<Rightarrow> (if c = CHR ''-'' \<and> cs \<noteq> [] then map_option (\<lambda>n. - int n) (readDigits 0 cs)
                else map_option int (readDigits 0 s)))"

lemma digitValue_digitChar [simp]: "d < 10 \<Longrightarrow> digitValue (digitChar d) = Some d"
  by (simp add: digitValue_def digitChar_def Let_def)

lemma digitChar_not_minus: "d < 10 \<Longrightarrow> digitChar d \<noteq> CHR ''-''"
proof
  assume "d < 10" and "digitChar d = CHR ''-''"
  then have "(of_char (char_of (48 + d) :: char) :: nat) = of_char (CHR ''-'')"
    by (simp add: digitChar_def)
  with \<open>d < 10\<close> show False by simp
qed

lemma readDigits_append:
  "readDigits acc (xs @ ys) = (case readDigits acc xs of None \<Rightarrow> None | Some a \<Rightarrow> readDigits a ys)"
  by (induction xs arbitrary: acc) (auto split: option.split)

lemma readDigits_showNat: "readDigits 0 (showNat n) = Some n"
proof (induction n rule: showNat.induct)
  case (1 n)
  show ?case
  proof (cases "n < 10")
    case True
    then show ?thesis by (simp add: showNat.simps)
  next
    case False
    with 1 have "readDigits 0 (showNat (n div 10)) = Some (n div 10)" by simp
    with False show ?thesis
      by (subst showNat.simps) (simp add: readDigits_append)
  qed
qed

lemma showNat_nonempty [simp]: "showNat n \<noteq> []"
  by (subst showNat.simps) simp

lemma hd_showNat: "hd (showNat n) \<noteq> CHR ''-''"
proof (induction n rule: showNat.induct)
  case (1 n)
  then show ?case
    by (subst showNat.simps) (auto simp: digitChar_not_minus hd_append)
qed

lemma readInt_showInt [simp]: "readInt (showInt i) = Some i"
proof (cases "i < 0")
  case True
  then show ?thesis
    by (simp add: showInt_def readInt_def readDigits_showNat)
next
  case False
  obtain c cs where s: "showNat (nat i) = c # cs"
    by (cases "showNat (nat i)") auto
  moreover have "c \<noteq> CHR ''-''" using hd_showNat [of "nat i"] s by simp
  moreover have "readDigits 0 (c # cs) = Some (nat i)"
    using readDigits_showNat [of "nat i"] s by simp
  ultimately show ?thesis using False by (simp add: showInt_def readInt_def)
qed

lemma showInt_inject [simp]: "showInt i = showInt j \<longleftrightarrow> i = j"
  by (metis option.inject readInt_showInt)

lemma showInt_nonempty [simp]: "showInt i \<noteq> []"
  by (simp add: showInt_def)

section \<open>JavaScript numbers\<close>

text \<open>
  What the code asks of a number that reaches it from outside is whether it is an integer
  (\<open>Number.isInteger\<close>), and how it is rendered in a message. \<open>JInt n\<close> is an integer;
  \<open>JNonInt t\<close> is any other number (a fraction, \<open>NaN\<close>, an infinity), rendered as \<open>t\<close>.
  Amounts and identifiers are PostgreSQL \<open>int4\<close> columns, so that sums of two of them are
  exact in an IEEE double and are written as sums of HOL integers.
\<close>

datatype js_number = JInt int | JNonInt string

fun isInteger :: "js_number \<Rightarrow> bool" where
  "isInteger (JInt n) = True"
| "isInteger (JNonInt t) = False"

fun intOf :: "js_number \<Rightarrow> int" where
  "intOf (JInt n) = n"
| "intOf (JNonInt t) = 0"

fun numText :: "js_number \<Rightarrow> string" where
  "numText (JInt n) = showInt n"
| "numText (JNonInt t) = t"

definition maxSafeInteger :: int where
  "maxSafeInteger = 2 ^ 53 - 1"

definition isSafeInteger :: "js_number \<Rightarrow> bool" where
  "isSafeInteger x \<longleftrightarrow> isInteger x \<and> - maxSafeInteger \<le> intOf x \<and> intOf x \<le> maxSafeInteger"

lemma isInteger_iff: "isInteger x \<longleftrightarrow> x = JInt (intOf x)"
  by (cases x) auto

section \<open>Rows and keys\<close>

text \<open>An update of every row that matches (\<open>updateMany\<close>) and the number of rows it matched.\<close>

definition updateWhere :: "('r \<Rightarrow> bool) \<Rightarrow> ('r \<Rightarrow> 'r) \<Rightarrow> 'r list \<Rightarrow> 'r list" where
  "updateWhere p f rows = map (\<lambda>r. if p r then f r else r) rows"

definition countWhere :: "('r \<Rightarrow> bool) \<Rightarrow> 'r list \<Rightarrow> nat" where
  "countWhere p rows = length (filter p rows)"

lemma countWhere_one_distinct:
  assumes "countWhere p rows = 1"
  shows "\<exists>r \<in> set rows. p r \<and> (\<forall>r' \<in> set rows. p r' \<longrightarrow> r' = r)"
proof -
  from assms obtain r where f: "filter p rows = [r]"
    by (auto simp: countWhere_def length_Suc_conv)
  have "set (filter p rows) = {r}" by (simp add: f)
  then show ?thesis by auto
qed

lemma set_updateWhere: "set (updateWhere p f rows) = (\<lambda>r. if p r then f r else r) ` set rows"
  by (simp add: updateWhere_def)

lemma updateWhere_append [row_simps]:
  "updateWhere p f (xs @ ys) = updateWhere p f xs @ updateWhere p f ys"
  by (simp add: updateWhere_def)

lemma map_key_updateWhere:
  "(\<And>r. k (f r) = k r) \<Longrightarrow> map k (updateWhere p f rows) = map k rows"
  by (simp add: updateWhere_def)

lemma filter_updateWhere_other:
  "(\<And>r. r \<in> set rows \<Longrightarrow> p r \<Longrightarrow> \<not> q r \<and> \<not> q (f r)) \<Longrightarrow>
     filter q (updateWhere p f rows) = filter q rows"
  by (induction rows) (auto simp: updateWhere_def)

lemma sum_list_updateWhere:
  fixes g :: "'r \<Rightarrow> int"
  shows "(\<Sum>r\<leftarrow>updateWhere p f rows. g r) =
    (\<Sum>r\<leftarrow>rows. g r) + (\<Sum>r\<leftarrow>filter p rows. g (f r) - g r)"
  by (induction rows) (auto simp: updateWhere_def)

lemma distinct_key_unique:
  "distinct (map k rows) \<Longrightarrow> r \<in> set rows \<Longrightarrow> r' \<in> set rows \<Longrightarrow> k r = k r' \<Longrightarrow> r = r'"
  by (meson distinct_map inj_onD)

lemma countWhere_key:
  assumes "distinct (map k rows)" and "\<And>r. p r \<Longrightarrow> k r = key"
  shows "countWhere p rows \<le> 1"
proof -
  have "distinct (map k (filter p rows))" using assms(1) by (rule distinct_map_filter)
  then have "length (filter p rows) = card (set (map k (filter p rows)))"
    by (metis distinct_card length_map)
  also have "\<dots> \<le> card {key}"
    by (rule card_mono) (use assms(2) in auto)
  finally show ?thesis by (simp add: countWhere_def)
qed

lemma filter_one:
  assumes d: "distinct (map k rows)" and r: "r \<in> set rows" "p r"
    and key: "\<And>r'. r' \<in> set rows \<Longrightarrow> p r' \<Longrightarrow> k r' = k r"
  shows "filter p rows = [r]"
proof -
  have "r' = r" if "r' \<in> set rows" "p r'" for r'
    by (rule distinct_key_unique [OF d that(1) r(1) key [OF that]])
  then have "set (filter p rows) \<subseteq> {r}" by (intro subsetI) (unfold set_filter, blast)
  moreover have "{r} \<subseteq> set (filter p rows)" using r by simp
  ultimately have "set (filter p rows) = {r}" by (rule equalityI)
  moreover have "distinct (filter p rows)"
    using d by (simp add: distinct_map)
  ultimately have "length (filter p rows) = 1"
    using distinct_card [of "filter p rows"] by simp
  then obtain x where "filter p rows = [x]" by (auto simp: length_Suc_conv)
  with \<open>set (filter p rows) = {r}\<close> show ?thesis by simp
qed

lemma countWhere_one_key:
  assumes "distinct (map k rows)" "r \<in> set rows" "p r"
    and "\<And>r'. r' \<in> set rows \<Longrightarrow> p r' \<Longrightarrow> k r' = k r"
  shows "countWhere p rows = 1"
proof -
  have "filter p rows = [r]"
  proof (rule filter_one [where k = k])
    show "k r' = k r" if "r' \<in> set rows" "p r'" for r' using assms(4) that by blast
  qed (use assms in blast)+
  then show ?thesis by (simp add: countWhere_def)
qed

lemma countWhere_oneE:
  assumes "countWhere p rows = 1"
  obtains r where "r \<in> set rows" "p r" "filter p rows = [r]"
proof -
  from assms obtain r where f: "filter p rows = [r]" by (auto simp: countWhere_def length_Suc_conv)
  have "r \<in> set (filter p rows)" by (simp add: f)
  then have "r \<in> set rows" "p r" by simp_all
  with f that show ?thesis by blast
qed

lemma subseq_set: "subseq xs ys \<Longrightarrow> set xs \<subseteq> set ys"
  by (induction rule: list_emb.induct) auto

lemma subseq_distinct: "subseq xs ys \<Longrightarrow> distinct ys \<Longrightarrow> distinct xs"
  by (metis subseqs_distinctD set_subseqs_eq mem_Collect_eq)

lemma sum_list_sort_key: "(\<Sum>c\<leftarrow>sort_key k xs. (f c :: int)) = (\<Sum>c\<leftarrow>xs. f c)"
proof -
  have "mset (map f (sort_key k xs)) = mset (map f xs)" by simp
  then show ?thesis by (metis sum_mset_sum_list)
qed

lemma sum_list_filter_nonneg:
  fixes g :: "'a \<Rightarrow> int"
  shows "(\<And>x. x \<in> set xs \<Longrightarrow> 0 \<le> g x) \<Longrightarrow> 0 \<le> (\<Sum>x\<leftarrow>xs. g x)"
  by (rule sum_list_nonneg) auto

lemma first_of_sorted: "sort_key k (filter p xs) = x # ys \<Longrightarrow> x \<in> set xs \<and> p x"
  by (metis (mono_tags, lifting) filter_is_subset filter_sort list.set_intros(1) mem_Collect_eq set_filter set_sort subsetD)

lemma updated_member: "r \<in> set rows \<Longrightarrow> p r \<Longrightarrow> f r \<in> set (updateWhere p f rows)"
  by (auto simp: set_updateWhere intro!: rev_image_eqI)

section \<open>Systems of steps\<close>

text \<open>The contract of an inductive invariant, and what it gives of every reachable state.\<close>

locale invariant_system =
  fixes start :: "'s \<Rightarrow> bool" and step :: "'s \<Rightarrow> 's \<Rightarrow> bool" and inv :: "'s \<Rightarrow> bool"
  assumes start_inv: "start s \<Longrightarrow> inv s"
    and step_inv: "step s t \<Longrightarrow> inv s \<Longrightarrow> inv t"
begin

lemma reach_inv: "rtranclp step s t \<Longrightarrow> inv s \<Longrightarrow> inv t"
  by (induction rule: rtranclp_induct) (auto intro: step_inv)

lemma reachable_inv: "start s \<Longrightarrow> rtranclp step s t \<Longrightarrow> inv t"
  by (rule reach_inv) (auto intro: start_inv)

end

text \<open>
  A simulation: what the steps do is, seen through \<open>abs\<close>, a step of the abstract machine or
  nothing.
\<close>

locale simulation = invariant_system start step inv
  for start :: "'s \<Rightarrow> bool" and step :: "'s \<Rightarrow> 's \<Rightarrow> bool" and inv :: "'s \<Rightarrow> bool" +
  fixes abs :: "'s \<Rightarrow> 'a" and astep :: "'a \<Rightarrow> 'a \<Rightarrow> bool"
  assumes sim: "step s t \<Longrightarrow> inv s \<Longrightarrow> abs t = abs s \<or> astep (abs s) (abs t)"
begin

lemma simulates: "rtranclp step s t \<Longrightarrow> inv s \<Longrightarrow> rtranclp astep (abs s) (abs t)"
proof (induction rule: rtranclp_induct)
  case base
  then show ?case by simp
next
  case (step t u)
  then have "inv t" using reach_inv [OF step.hyps(1)] by simp
  from sim [OF step.hyps(2) this] step.IH step.prems show ?case
    by (auto intro: rtranclp.rtrancl_into_rtrancl)
qed

end

end
