(* ===== verification/Locks.thy ===== *)
theory Locks
  imports Prelude "HOL-Library.Word"
begin

unbundle bit_operations_syntax

text \<open>
  The advisory-lock machinery: the key type, the registry and the global acquisition order
  of \<open>src/db/locks.ts\<close> and \<open>src/db/lock-registry.ts\<close>, and the acquisition protocol that
  \<open>src/db/uow.ts\<close> runs over them, as a step relation of any number of transactions.
\<close>

section \<open>Keys and the registry\<close>

record lock_key =
  lk_ns :: int
  lk_obj :: int
  lk_label :: string

text \<open>A call of an entry of the registry, with its argument.\<close>

datatype lock_entity =
    LpointBalance int
  | LorderPayment int
  | LfinancialHolder int
  | LcommissionSlot int
  | LcommissionCheckoutCommand string
  | LcommissionContract int
  | LincomeWithdrawalCommand string
  | LcommissionSettlementCommand string
  | LpointChargePayment string
  | LpointChargeCommand string

text \<open>
  The FNV-1a hash of a text, over its Unicode code points: \<open>^=\<close> and \<open>Math.imul\<close> work on
  32-bit words, and the final \<open>| 0\<close> reads the word as a signed integer. The texts of the model
  have code points below 256.
\<close>

definition fnvStep :: "32 word \<Rightarrow> nat \<Rightarrow> 32 word" where
  "fnvStep hash codePoint = (hash XOR of_nat codePoint) * 0x01000193"

definition codePointsLockId :: "nat list \<Rightarrow> int" where
  "codePointsLockId value = sint (fold (\<lambda>codePoint hash. fnvStep hash codePoint) value 0x811c9dc5)"

definition stringLockId :: "string \<Rightarrow> int" where
  "stringLockId value = codePointsLockId (map of_char value)"

fun lockNamespace :: "lock_entity \<Rightarrow> string" where
  "lockNamespace (LpointBalance i) = ''pointBalance''"
| "lockNamespace (LorderPayment i) = ''orderPayment''"
| "lockNamespace (LfinancialHolder i) = ''financialHolder''"
| "lockNamespace (LcommissionSlot i) = ''commissionSlot''"
| "lockNamespace (LcommissionCheckoutCommand k) = ''commissionCheckoutCommand''"
| "lockNamespace (LcommissionContract i) = ''commissionContract''"
| "lockNamespace (LincomeWithdrawalCommand k) = ''incomeWithdrawalCommand''"
| "lockNamespace (LcommissionSettlementCommand k) = ''commissionSettlementCommand''"
| "lockNamespace (LpointChargePayment k) = ''pointChargePayment''"
| "lockNamespace (LpointChargeCommand k) = ''pointChargeCommand''"

fun lockObjId :: "lock_entity \<Rightarrow> int" where
  "lockObjId (LpointBalance userId) = userId"
| "lockObjId (LorderPayment orderPaymentId) = orderPaymentId"
| "lockObjId (LfinancialHolder holderId) = holderId"
| "lockObjId (LcommissionSlot slotId) = slotId"
| "lockObjId (LcommissionCheckoutCommand commandKey) = stringLockId commandKey"
| "lockObjId (LcommissionContract contractId) = contractId"
| "lockObjId (LincomeWithdrawalCommand commandKey) = stringLockId commandKey"
| "lockObjId (LcommissionSettlementCommand commandKey) = stringLockId commandKey"
| "lockObjId (LpointChargePayment externalPaymentId) = stringLockId externalPaymentId"
| "lockObjId (LpointChargeCommand commandKey) = stringLockId commandKey"

text \<open>The declaration order of the registry, which is the acquisition order of namespaces.\<close>

definition lockRegistry :: "string list" where
  "lockRegistry = [''pointBalance'', ''orderPayment'', ''financialHolder'', ''commissionSlot'',
     ''commissionCheckoutCommand'', ''commissionContract'', ''incomeWithdrawalCommand'',
     ''commissionSettlementCommand'', ''pointChargePayment'', ''pointChargeCommand'']"

fun indexOf :: "'a \<Rightarrow> 'a list \<Rightarrow> nat" where
  "indexOf x [] = 0"
| "indexOf x (y # ys) = (if x = y then 0 else Suc (indexOf x ys))"

definition defineLocks :: "string list \<Rightarrow> string \<Rightarrow> int \<Rightarrow> lock_key" where
  "defineLocks entities namespace obj =
     \<lparr>lk_ns = int (indexOf namespace entities) + 1, lk_obj = obj,
      lk_label = namespace @ '':'' @ showInt obj\<rparr>"

definition lockKey :: "lock_entity \<Rightarrow> lock_key" where
  "lockKey e = defineLocks lockRegistry (lockNamespace e) (lockObjId e)"

section \<open>The global acquisition order\<close>

definition lockId :: "lock_key \<Rightarrow> string" where
  "lockId key = showInt (lk_ns key) @ '':'' @ showInt (lk_obj key)"

fun dedupeLocks :: "string list \<Rightarrow> lock_key list \<Rightarrow> lock_key list" where
  "dedupeLocks seen [] = []"
| "dedupeLocks seen (key # keys) =
     (if lockId key \<in> set seen then dedupeLocks seen keys
      else key # dedupeLocks (lockId key # seen) keys)"

definition lockPair :: "lock_key \<Rightarrow> int \<times> int" where
  "lockPair key = (lk_ns key, lk_obj key)"

definition orderLocks :: "lock_key list \<Rightarrow> lock_key list" where
  "orderLocks keys = sort_key lockPair (dedupeLocks [] keys)"

subsection \<open>The text of a key identifies the pair\<close>

lemma digitChar_not_colon: "d < 10 \<Longrightarrow> digitChar d \<noteq> CHR '':''"
proof
  assume "d < 10" and "digitChar d = CHR '':''"
  then have "(of_char (char_of (48 + d) :: char) :: nat) = of_char (CHR '':'')"
    by (simp add: digitChar_def)
  with \<open>d < 10\<close> show False by simp
qed

lemma no_colon_showNat: "CHR '':'' \<notin> set (showNat n)"
proof (induction n rule: showNat.induct)
  case (1 n)
  then show ?case
    by (subst showNat.simps)
      (auto simp del: One_nat_def simp: digitChar_not_colon dest: sym)
qed

lemma no_colon_showInt: "CHR '':'' \<notin> set (showInt i)"
  by (auto simp: showInt_def no_colon_showNat)

lemma split_at_colon:
  assumes "CHR '':'' \<notin> set xs" and "CHR '':'' \<notin> set ys"
    and "xs @ '':'' @ us = ys @ '':'' @ vs"
  shows "xs = ys \<and> us = vs"
  using assms
proof (induction xs arbitrary: ys)
  case Nil
  then show ?case by (cases ys) auto
next
  case (Cons x xs)
  then show ?case by (cases ys) auto
qed

lemma lockId_eq_iff: "lockId a = lockId b \<longleftrightarrow> lockPair a = lockPair b"
proof
  assume "lockId a = lockId b"
  with split_at_colon [OF no_colon_showInt no_colon_showInt] show "lockPair a = lockPair b"
    unfolding lockId_def lockPair_def by fastforce
qed (auto simp: lockId_def lockPair_def)

subsection \<open>Deduplication and order\<close>

lemma dedupe_pairs:
  "lockPair ` set (dedupeLocks seen ks) = lockPair ` {k \<in> set ks. lockId k \<notin> set seen}"
proof (induction ks arbitrary: seen)
  case Nil
  then show ?case by simp
next
  case (Cons k ks)
  show ?case
  proof (cases "lockId k \<in> set seen")
    case True
    with Cons show ?thesis by auto
  next
    case False
    have "lockPair ` set (dedupeLocks seen (k # ks)) =
        insert (lockPair k) (lockPair ` {l \<in> set ks. lockId l \<notin> set (lockId k # seen)})"
      using False Cons.IH [of "lockId k # seen"] by simp
    also have "\<dots> = lockPair ` {l \<in> set (k # ks). lockId l \<notin> set seen}"
      using False by (auto simp: lockId_eq_iff)
    finally show ?thesis .
  qed
qed

lemma dedupe_unseen: "k \<in> set (dedupeLocks seen ks) \<Longrightarrow> lockId k \<notin> set seen"
proof (induction ks arbitrary: seen)
  case Nil
  then show ?case by simp
next
  case (Cons a ks)
  then show ?case using Cons.IH [of "lockId a # seen"] by (auto split: if_splits)
qed

lemma dedupe_distinct: "distinct (map lockPair (dedupeLocks seen ks))"
proof (induction ks arbitrary: seen)
  case Nil
  then show ?case by simp
next
  case (Cons a ks)
  have "lockPair a \<notin> lockPair ` set (dedupeLocks (lockId a # seen) ks)"
    using dedupe_unseen [of _ "lockId a # seen" ks] by (fastforce simp: lockId_eq_iff)
  then show ?case using Cons by simp
qed

lemma orderLocks_pairs: "lockPair ` set (orderLocks ks) = lockPair ` set ks"
  by (simp add: orderLocks_def dedupe_pairs)

lemma orderLocks_subset: "set (orderLocks ks) \<subseteq> set ks"
proof -
  have "set (dedupeLocks seen ks) \<subseteq> set ks" for seen ks
  proof (induction ks arbitrary: seen)
    case Nil
    then show ?case by simp
  next
    case (Cons a ks)
    show ?case using Cons.IH [of seen] Cons.IH [of "lockId a # seen"] by auto
  qed
  then show ?thesis by (simp add: orderLocks_def)
qed

lemma orderLocks_distinct: "distinct (map lockPair (orderLocks ks))"
proof -
  have "mset (map lockPair (orderLocks ks)) = mset (map lockPair (dedupeLocks [] ks))"
    by (simp add: orderLocks_def)
  then show ?thesis using dedupe_distinct [of "[]" ks] mset_eq_imp_distinct_iff by blast
qed

lemma orderLocks_strict: "sorted_wrt (<) (map lockPair (orderLocks ks))"
  using orderLocks_distinct [of ks]
  by (simp add: strict_sorted_iff orderLocks_def)

lemma orderLocks_sorted: "map lockPair (orderLocks ks) = sorted_list_of_set (lockPair ` set ks)"
  using orderLocks_strict [of ks] orderLocks_pairs [of ks]
  by (metis list.set_map sorted_list_of_set.idem_if_sorted_distinct strict_sorted_iff)

text \<open>the acquisition order is the sorted list of the requested (namespace, id) pairs, each
  once: two callers that request the same keys, in whatever order and however often, lock
  the same pairs in the same order, and ordering an ordered list again changes nothing.
\<close>

theorem orderLocks_canonical:
  "map lockPair (orderLocks ks) = sorted_list_of_set (lockPair ` set ks) \<and>
   map lockPair (orderLocks (orderLocks ks)) = map lockPair (orderLocks ks)"
  by (simp_all add: orderLocks_sorted orderLocks_pairs)

end
