(* ===== verification/LockProtocol.thy ===== *)
theory LockProtocol
  imports Locks
begin

text \<open>
  The protocol of \<open>serialized\<close> in \<open>src/db/uow.ts\<close>: every transaction acquires its keys in
  the order \<open>orderLocks\<close> gives, blocking at each key another transaction holds, and
  releases all of them when it ends. The steps of any number of transactions interleave.
\<close>

section \<open>Transactions and their steps\<close>

record 'k lock_state =
  ls_todo :: "nat \<Rightarrow> 'k list"
  ls_owner :: "'k \<Rightarrow> nat option"
  ls_live :: "nat \<Rightarrow> bool"

definition releaseAll :: "nat \<Rightarrow> 'k lock_state \<Rightarrow> 'k lock_state" where
  "releaseAll i s = s\<lparr>ls_live := (ls_live s)(i := False),
     ls_owner := (\<lambda>k. if ls_owner s k = Some i then None else ls_owner s k)\<rparr>"

text \<open>
  A step is one \<open>pg_advisory_xact_lock\<close> that returns (the key is free, or held by the same
  transaction), or the end of a transaction that has all its keys.
\<close>

inductive lock_step :: "'k lock_state \<Rightarrow> 'k lock_state \<Rightarrow> bool" where
  acquire: "ls_live s i \<Longrightarrow> ls_todo s i = k # ks \<Longrightarrow>
     ls_owner s k = None \<or> ls_owner s k = Some i \<Longrightarrow>
     lock_step s (s\<lparr>ls_todo := (ls_todo s)(i := ks), ls_owner := (ls_owner s)(k := Some i)\<rparr>)"
| finish: "ls_live s i \<Longrightarrow> ls_todo s i = [] \<Longrightarrow> lock_step s (releaseAll i s)"

text \<open>The environment may also abort a transaction at any point (a throw, a timeout).\<close>

inductive lock_abort :: "'k lock_state \<Rightarrow> 'k lock_state \<Rightarrow> bool" where
  abort: "ls_live s i \<Longrightarrow> lock_abort s (releaseAll i s)"

inductive lock_reach :: "'k lock_state \<Rightarrow> 'k lock_state \<Rightarrow> bool" where
  start: "lock_reach s s"
| step: "lock_reach s t \<Longrightarrow> lock_step t u \<Longrightarrow> lock_reach s u"
| abort: "lock_reach s t \<Longrightarrow> lock_abort t u \<Longrightarrow> lock_reach s u"

inductive_cases lock_stepE: "lock_step s t"
inductive_cases lock_abortE: "lock_abort s t"

text \<open>\<open>n\<close> transactions, the \<open>i\<close>-th about to acquire \<open>plan (req i)\<close>.\<close>

definition lock_start :: "('r \<Rightarrow> 'k list) \<Rightarrow> (nat \<Rightarrow> 'r) \<Rightarrow> nat \<Rightarrow> 'k lock_state" where
  "lock_start plan req n = \<lparr>ls_todo = (\<lambda>i. plan (req i)), ls_owner = (\<lambda>k. None),
     ls_live = (\<lambda>i. i < n)\<rparr>"

definition lock_work :: "nat \<Rightarrow> 'k lock_state \<Rightarrow> nat" where
  "lock_work n s = (\<Sum>i<n. if ls_live s i then Suc (length (ls_todo s i)) else 0)"

section \<open>The invariant of an ordered acquisition\<close>

definition lock_inv :: "nat \<Rightarrow> 'k::linorder lock_state \<Rightarrow> bool" where
  "lock_inv n s \<longleftrightarrow>
     (\<forall>i. ls_live s i \<longrightarrow> i < n) \<and>
     (\<forall>i. sorted_wrt (<) (ls_todo s i)) \<and>
     (\<forall>k i. ls_owner s k = Some i \<longrightarrow> ls_live s i \<and> (\<forall>k' \<in> set (ls_todo s i). k < k'))"

lemma lock_inv_releaseAll: "lock_inv n s \<Longrightarrow> lock_inv n (releaseAll i s)"
  by (auto simp: lock_inv_def releaseAll_def split: if_splits)

lemma lock_step_inv:
  assumes "lock_step s t" and inv: "lock_inv n s"
  shows "lock_inv n t"
  using assms(1)
proof (cases rule: lock_step.cases)
  case (acquire i k ks)
  from inv acquire(3) have "sorted_wrt (<) (k # ks)" by (metis lock_inv_def)
  then have k: "\<forall>k' \<in> set ks. k < k'" and ks: "sorted_wrt (<) ks" by auto
  show ?thesis
    unfolding lock_inv_def
  proof (intro conjI allI impI)
    fix j assume "ls_live t j"
    with inv acquire show "j < n" by (auto simp: lock_inv_def)
  next
    fix j show "sorted_wrt (<) (ls_todo t j)"
      using inv acquire ks by (auto simp: lock_inv_def)
  next
    fix l j assume own: "ls_owner t l = Some j"
    show "ls_live t j"
      using own inv acquire by (auto simp: lock_inv_def split: if_splits)
    show "\<forall>k' \<in> set (ls_todo t j). l < k'"
      using own inv acquire k by (auto simp: lock_inv_def split: if_splits)
  qed
next
  case (finish i)
  with inv show ?thesis by (simp add: lock_inv_releaseAll)
qed

lemma lock_reach_inv: "lock_reach s t \<Longrightarrow> lock_inv n s \<Longrightarrow> lock_inv n t"
proof (induction rule: lock_reach.induct)
  case (start s)
  then show ?case by simp
next
  case (step s t u)
  then show ?case by (blast intro: lock_step_inv)
next
  case (abort s t u)
  then show ?case by (auto elim!: lock_abortE intro: lock_inv_releaseAll)
qed

text \<open>
  Progress: of the transactions that are blocked, the one that waits for the greatest key
  waits for a transaction that holds that key, and everything that one still wants is
  greater: it is not blocked, and it is open, so it can move.
\<close>

lemma lock_inv_progress:
  fixes s :: "'k::linorder lock_state"
  assumes inv: "lock_inv n s" and live: "ls_live s i"
  shows "\<exists>t. lock_step s t"
proof (rule ccontr)
  assume stuck: "\<nexists>t. lock_step s t"
  let ?A = "{j. ls_live s j}" and ?f = "\<lambda>j. hd (ls_todo s j)"
  have blocked: "\<exists>j'. ls_owner s (?f j) = Some j'" if "ls_live s j" for j
  proof (cases "ls_todo s j")
    case Nil
    with that stuck show ?thesis by (blast intro: lock_step.finish)
  next
    case (Cons k ks)
    with that stuck show ?thesis
      by (cases "ls_owner s k") (auto dest: lock_step.acquire)
  qed
  have nonempty: "ls_todo s j \<noteq> []" if "ls_live s j" for j
    using that stuck by (blast intro: lock_step.finish)
  have "?A \<subseteq> {..<n}" using inv by (auto simp: lock_inv_def)
  then have fin: "finite ?A" by (rule finite_subset) simp
  from fin live have "Max (?f ` ?A) \<in> ?f ` ?A" by (intro Max_in) auto
  then obtain m where m: "ls_live s m" and max: "Max (?f ` ?A) = ?f m" by auto
  from blocked [OF m] obtain j where own: "ls_owner s (?f m) = Some j" by blast
  with inv have j: "ls_live s j" and "\<forall>k' \<in> set (ls_todo s j). ?f m < k'"
    by (auto simp: lock_inv_def)
  then have "?f m < ?f j" using nonempty [OF j] by simp
  moreover have "?f j \<le> ?f m" using fin j max [symmetric] by simp
  ultimately show False by simp
qed

lemma lock_work_releaseAll:
  assumes "i < n" and "ls_live s i"
  shows "lock_work n (releaseAll i s) < lock_work n s"
  unfolding lock_work_def
  using assms by (intro sum_strict_mono_ex1) (auto simp: releaseAll_def)

lemma lock_step_work:
  assumes inv: "lock_inv n s" and "lock_step s t"
  shows "lock_work n t < lock_work n s"
  using assms(2)
proof (cases rule: lock_step.cases)
  case (acquire i k ks)
  then have "i < n" using inv by (simp add: lock_inv_def)
  with acquire show ?thesis
    unfolding lock_work_def by (intro sum_strict_mono_ex1) auto
next
  case (finish i)
  then show ?thesis using inv by (simp add: lock_inv_def lock_work_releaseAll)
qed

section \<open>The contract of an acquisition order\<close>

text \<open>
  What the protocol relies on: the keys of a request come out strictly ascending. Any
  order with this law is free of deadlock.
\<close>

locale lock_discipline =
  fixes plan :: "'r \<Rightarrow> 'k::linorder list"
  assumes plan_ascending: "sorted_wrt (<) (plan r)"
begin

lemma start_inv: "lock_inv n (lock_start plan req n)"
  by (simp add: lock_inv_def lock_start_def plan_ascending)

lemma reach_inv: "lock_reach (lock_start plan req n) s \<Longrightarrow> lock_inv n s"
  by (rule lock_reach_inv [OF _ start_inv])

lemma deadlock_free:
  "lock_reach (lock_start plan req n) s \<Longrightarrow> ls_live s i \<Longrightarrow> \<exists>t. lock_step s t"
  by (rule lock_inv_progress [OF reach_inv])

lemma terminates:
  "lock_reach (lock_start plan req n) s \<Longrightarrow> lock_step s t \<Longrightarrow> lock_work n t < lock_work n s"
  by (rule lock_step_work [OF reach_inv])

end

text \<open>The order of the code: the pairs of \<open>orderLocks\<close>.\<close>

definition acquireOrder :: "lock_key list \<Rightarrow> (int \<times> int) list" where
  "acquireOrder keys = map lockPair (orderLocks keys)"

interpretation acq: lock_discipline acquireOrder
  by unfold_locales (simp only: acquireOrder_def orderLocks_strict)

text \<open>C25: no set of transactions that lock through the toolkit can deadlock. In every state
  that any number of transactions reach by interleaving their acquisitions, ends and
  aborts, some open transaction can move, and every move brings the system closer to the
  state where all of them have ended.
\<close>

theorem acquire_deadlock_free:
  assumes "lock_reach (lock_start acquireOrder req n) s" and "ls_live s i"
  shows "\<exists>t. lock_step s t \<and> lock_work n t < lock_work n s"
  using acq.deadlock_free [OF assms] acq.terminates [OF assms(1)] by blast

text \<open>Two opposing transfers, each holding its first key, in the middle of their acquisition.\<close>

definition opposing :: "nat \<Rightarrow> lock_key list" where
  "opposing i = (if i = 0 then [lockKey (LpointBalance 1), lockKey (LpointBalance 2)]
                 else [lockKey (LpointBalance 2), lockKey (LpointBalance 1)])"

theorem acquire_deadlock_free_witness:
  "\<exists>t. lock_step (lock_start acquireOrder opposing 2) t
     \<and> lock_work 2 t < lock_work 2 (lock_start acquireOrder opposing 2)"
  by (rule acquire_deadlock_free [OF lock_reach.start, of _ _ 0]) (simp add: lock_start_def)

end
