(* ===== verification/Foundation.thy ===== *)
theory Foundation
  imports Prelude
begin

text \<open>
  The cross-cutting primitives: JavaScript values of unknown shape, the values the program
  throws (\<open>src/foundation/errors.ts\<close>), the classification of Prisma failures
  (\<open>src/db/prisma-errors.ts\<close>), the log level parser (\<open>src/foundation/logger.ts\<close>), the
  composite error reporter (\<open>src/foundation/error-reporter.ts\<close>) and \<open>JSON.stringify\<close> of a
  string, which the messages of several errors use.
\<close>

section \<open>Values of unknown shape\<close>

datatype js =
    JUndefined
  | JNull
  | JBool bool
  | JNum js_number
  | JStr string
  | JArray "js list"
  | JObject "(string \<times> js) list"

text \<open>\<open>typeof v === 'object' && v !== null\<close>, and the read of a property of such a value.\<close>

fun isObject :: "js \<Rightarrow> bool" where
  "isObject (JArray vs) = True"
| "isObject (JObject fs) = True"
| "isObject _ = False"

fun jsProp :: "string \<Rightarrow> js \<Rightarrow> js" where
  "jsProp k (JObject fs) = (case map_of fs k of None \<Rightarrow> JUndefined | Some v \<Rightarrow> v)"
| "jsProp k _ = JUndefined"

section \<open>JSON text of a string\<close>

definition hexDigit :: "nat \<Rightarrow> char" where
  "hexDigit d = (if d < 10 then char_of (48 + d) else char_of (87 + d))"

definition jsonChar :: "char \<Rightarrow> string" where
  "jsonChar c = (let n = (of_char c :: nat) in
     if n = 34 \<or> n = 92 then [CHR 0x5C, c]
     else if n = 8 then [CHR 0x5C, CHR ''b'']
     else if n = 9 then [CHR 0x5C, CHR ''t'']
     else if n = 10 then [CHR 0x5C, CHR ''n'']
     else if n = 12 then [CHR 0x5C, CHR ''f'']
     else if n = 13 then [CHR 0x5C, CHR ''r'']
     else if n < 32 then [CHR 0x5C, CHR ''u'', CHR ''0'', CHR ''0'', hexDigit (n div 16), hexDigit (n mod 16)]
     else [c])"

definition jsonString :: "string \<Rightarrow> string" where
  "jsonString s = [CHR 0x22] @ concat (map jsonChar s) @ [CHR 0x22]"

section \<open>Thrown values\<close>

text \<open>
  A thrown value is a \<open>DomainError\<close> (class name, message, client code), another \<open>Error\<close>
  of the program (class name, message), a Prisma request error (its code) or a value some
  library threw. Every error class of the program is a function into this type, with the
  message and the code its constructor passes to \<open>super\<close>.
\<close>

datatype thrown =
    DomainError string string string
  | PlainError string string
  | PrismaError string string
  | OtherThrown js

definition baseDomainError :: "string \<Rightarrow> thrown" where
  "baseDomainError message = DomainError ''DomainError'' message ''BAD_REQUEST''"

definition ConcurrentUpdateError :: "string \<Rightarrow> thrown" where
  "ConcurrentUpdateError what = DomainError ''ConcurrentUpdateError''
     (''Concurrent update on '' @ what @ ''; retry the operation'') ''CONFLICT''"

definition FeatureDisabledError :: "string \<Rightarrow> thrown" where
  "FeatureDisabledError flag = DomainError ''FeatureDisabledError''
     (''Feature '' @ [CHR 0x27] @ flag @ [CHR 0x27] @ '' is not enabled'') ''UNAVAILABLE''"

text \<open>The thrown value as the object a \<open>catch\<close> clause inspects.\<close>

fun toJs :: "thrown \<Rightarrow> js" where
  "toJs (DomainError n m c) = JObject
     [(''name'', JStr n), (''message'', JStr m), (''code'', JStr c), (''isDomainError'', JBool True)]"
| "toJs (PlainError n m) = JObject [(''name'', JStr n), (''message'', JStr m)]"
| "toJs (PrismaError c m) = JObject
     [(''name'', JStr ''PrismaClientKnownRequestError''), (''message'', JStr m), (''code'', JStr c)]"
| "toJs (OtherThrown v) = v"

definition isDomainError :: "js \<Rightarrow> bool" where
  "isDomainError error \<longleftrightarrow> isObject error \<and> jsProp ''isDomainError'' error = JBool True"

fun errorCode :: "thrown \<Rightarrow> string option" where
  "errorCode (DomainError n m c) = Some c"
| "errorCode _ = None"

lemma isDomainError_toJs:
  "(\<And>v. e \<noteq> OtherThrown v) \<Longrightarrow> isDomainError (toJs e) \<longleftrightarrow> errorCode e \<noteq> None"
  by (cases e) (auto simp: isDomainError_def)

lemma isDomainError_cases [simp]:
  "isDomainError (toJs (DomainError n m c))"
  "\<not> isDomainError (toJs (PlainError n m))"
  "\<not> isDomainError (toJs (PrismaError c m))"
  by (simp_all add: isDomainError_def)

lemma ConcurrentUpdateError_inject [simp]:
  "ConcurrentUpdateError a = ConcurrentUpdateError b \<longleftrightarrow> a = b"
  by (simp add: ConcurrentUpdateError_def)

lemma errorCode_ConcurrentUpdateError [simp]:
  "errorCode (ConcurrentUpdateError w) = Some ''CONFLICT''"
  by (simp add: ConcurrentUpdateError_def)

lemma errorCode_FeatureDisabledError [simp]:
  "errorCode (FeatureDisabledError w) = Some ''UNAVAILABLE''"
  by (simp add: FeatureDisabledError_def)

section \<open>Prisma error codes\<close>

definition prismaErrorCode :: "js \<Rightarrow> js" where
  "prismaErrorCode error = (if isObject error then jsProp ''code'' error else JUndefined)"

definition isUniqueViolation :: "js \<Rightarrow> bool" where
  "isUniqueViolation error \<longleftrightarrow> prismaErrorCode error = JStr ''P2002''"

definition isRecordNotFound :: "js \<Rightarrow> bool" where
  "isRecordNotFound error \<longleftrightarrow> prismaErrorCode error = JStr ''P2025''"

definition isSerializationConflict :: "js \<Rightarrow> bool" where
  "isSerializationConflict error \<longleftrightarrow> prismaErrorCode error = JStr ''P2034''"

lemma prismaErrorCode_PrismaError [simp]: "prismaErrorCode (toJs (PrismaError c m)) = JStr c"
  by (simp add: prismaErrorCode_def)

lemma prismaErrorCode_DomainError [simp]: "prismaErrorCode (toJs (DomainError n m c)) = JStr c"
  by (simp add: prismaErrorCode_def)

lemma prismaErrorCode_PlainError [simp]: "prismaErrorCode (toJs (PlainError n m)) = JUndefined"
  by (simp add: prismaErrorCode_def)

lemmas prisma_class_defs = isUniqueViolation_def isRecordNotFound_def isSerializationConflict_def

declare toJs.simps [simp del]

text \<open>The three classes of Prisma failure are disjoint.\<close>

lemma prisma_classes_disjoint:
  "isUniqueViolation e \<Longrightarrow> \<not> isRecordNotFound e"
  "isUniqueViolation e \<Longrightarrow> \<not> isSerializationConflict e"
  "isRecordNotFound e \<Longrightarrow> \<not> isSerializationConflict e"
  by (simp_all add: isUniqueViolation_def isRecordNotFound_def isSerializationConflict_def)

section \<open>Log level\<close>

definition LOG_LEVELS :: "string list" where
  "LOG_LEVELS = [''fatal'', ''error'', ''warn'', ''info'', ''debug'', ''trace'', ''silent'']"

definition parseLogLevel :: "js \<Rightarrow> string" where
  "parseLogLevel value = (case value of
      JStr s \<Rightarrow> (if s \<in> set LOG_LEVELS then s else ''info'')
    | _ \<Rightarrow> ''info'')"

lemma parseLogLevel_known: "parseLogLevel v \<in> set LOG_LEVELS"
  by (auto simp: parseLogLevel_def LOG_LEVELS_def split: js.split)

section \<open>The composite error reporter\<close>

text \<open>
  A reporter receives an error and its context and changes the outside world; it may throw
  after having changed it. The composite gives the report to every reporter in order and
  swallows what one of them throws.
\<close>

type_synonym 'w reporter = "js \<Rightarrow> js \<Rightarrow> 'w \<Rightarrow> js option \<times> 'w"

definition noopErrorReporter :: "'w reporter" where
  "noopErrorReporter error context w = (None, w)"

fun compositeErrorReporter :: "'w reporter list \<Rightarrow> 'w reporter" where
  "compositeErrorReporter [] error context w = (None, w)"
| "compositeErrorReporter (r # rs) error context w =
     (let (threw, w') = r error context w in compositeErrorReporter rs error context w')"

lemma composite_never_throws: "fst (compositeErrorReporter rs e c w) = None"
  by (induction rs arbitrary: w) (auto simp: Let_def split: prod.split)

lemma composite_reaches_all:
  "snd (compositeErrorReporter rs e c w) = fold (\<lambda>r w. snd (r e c w)) rs w"
  by (induction rs arbitrary: w) (auto simp: Let_def split: prod.split)

end
