(* ===== verification/Uow.thy ===== *)
theory Uow
  imports Foundation Locks
begin

text \<open>
  The unit of work, \<open>src/db/uow.ts\<close>: the four ways to open a transaction. What PostgreSQL
  does for them is an argument, the record \<open>session\<close>: raising the isolation level, taking
  an advisory lock, trying one, and failing the transaction at a statement or at commit
  (a violated constraint, a serialization failure).
\<close>

section \<open>The session of a transaction\<close>

record 's session =
  ses_repeatableRead :: "(thrown, 's, unit) tx"
  ses_lock :: "int \<Rightarrow> int \<Rightarrow> (thrown, 's, unit) tx"
  ses_tryLock :: "int \<Rightarrow> int \<Rightarrow> (thrown, 's, bool) tx"
  ses_reject :: "'s \<Rightarrow> 's \<Rightarrow> thrown option"

text \<open>Named hypothesis: session statements do not change the tables.\<close>

definition session_frame :: "'s session \<Rightarrow> bool" where
  "session_frame db \<longleftrightarrow>
     (\<forall>s a s'. ses_repeatableRead db s = Inr (a, s') \<longrightarrow> s' = s) \<and>
     (\<forall>ns obj s a s'. ses_lock db ns obj s = Inr (a, s') \<longrightarrow> s' = s) \<and>
     (\<forall>ns obj s a s'. ses_tryLock db ns obj s = Inr (a, s') \<longrightarrow> s' = s)"

text \<open>Named hypothesis: no lock is contended and nothing fails (a transaction that runs alone).\<close>

definition session_quiet :: "'s session \<Rightarrow> bool" where
  "session_quiet db \<longleftrightarrow>
     (\<forall>s. ses_repeatableRead db s = Inr ((), s)) \<and>
     (\<forall>ns obj s. ses_lock db ns obj s = Inr ((), s)) \<and>
     (\<forall>ns obj s. ses_tryLock db ns obj s = Inr (True, s)) \<and>
     (\<forall>s s'. ses_reject db s s' = None)"

lemma session_quiet_frame: "session_quiet db \<Longrightarrow> session_frame db"
  by (auto simp: session_quiet_def session_frame_def)

section \<open>The rungs\<close>

definition beginSnapshot :: "'s session \<Rightarrow> (thrown, 's, unit) tx" where
  "beginSnapshot db = ses_repeatableRead db"

definition acquire :: "'s session \<Rightarrow> lock_key list \<Rightarrow> (thrown, 's, unit) tx" where
  "acquire db keys = forEachT (\<lambda>key. ses_lock db (lk_ns key) (lk_obj key)) (orderLocks keys)"

fun tryEach :: "'s session \<Rightarrow> lock_key list \<Rightarrow> (thrown, 's, bool) tx" where
  "tryEach db [] = returnT True"
| "tryEach db (key # keys) =
     bindT (ses_tryLock db (lk_ns key) (lk_obj key)) (\<lambda>locked.
       if \<not> locked then returnT False else tryEach db keys)"

definition tryAcquire :: "'s session \<Rightarrow> lock_key list \<Rightarrow> (thrown, 's, bool) tx" where
  "tryAcquire db keys = tryEach db (orderLocks keys)"

text \<open>
  \<open>$transaction\<close> runs the body and commits; a throw of the body or a failure of the engine
  rolls back. A serialization failure is translated into the retryable conflict.
\<close>

definition transaction :: "'s session \<Rightarrow> (thrown, 's, 'a) tx \<Rightarrow> (thrown, 's, 'a) tx" where
  "transaction db body s = (case body s of
      Inl e \<Rightarrow> Inl e
    | Inr (a, s') \<Rightarrow> (case ses_reject db s s' of Some e \<Rightarrow> Inl e | None \<Rightarrow> Inr (a, s')))"

definition runTx :: "'s session \<Rightarrow> (thrown, 's, 'a) tx \<Rightarrow> (thrown, 's, 'a) tx" where
  "runTx db body s = (case transaction db body s of
      Inr r \<Rightarrow> Inr r
    | Inl error \<Rightarrow> Inl (if isSerializationConflict (toJs error)
                      then ConcurrentUpdateError ''the transaction'' else error))"

definition run :: "'s session \<Rightarrow> (thrown, 's, 'a) tx \<Rightarrow> (thrown, 's, 'a) tx" where
  "run db body = runTx db body"

definition snapshot :: "'s session \<Rightarrow> (thrown, 's, 'a) tx \<Rightarrow> (thrown, 's, 'a) tx" where
  "snapshot db body = runTx db (bindT (beginSnapshot db) (\<lambda>_. body))"

definition serialized ::
  "'s session \<Rightarrow> lock_key list \<Rightarrow> (thrown, 's, 'a) tx \<Rightarrow> bool \<Rightarrow> (thrown, 's, 'a) tx" where
  "serialized db keys body asSnapshot = runTx db
     (bindT (if asSnapshot then beginSnapshot db else returnT ()) (\<lambda>_.
      bindT (acquire db keys) (\<lambda>_. body)))"

datatype 'a try_result = Acquired 'a | NotAcquired

definition trySerialized ::
  "'s session \<Rightarrow> lock_key list \<Rightarrow> (thrown, 's, 'a) tx \<Rightarrow> bool \<Rightarrow> (thrown, 's, 'a try_result) tx" where
  "trySerialized db keys body asSnapshot = runTx db
     (bindT (if asSnapshot then beginSnapshot db else returnT ()) (\<lambda>_.
      bindT (tryAcquire db keys) (\<lambda>ok.
        if \<not> ok then returnT NotAcquired else bindT body (\<lambda>a. returnT (Acquired a)))))"

text \<open>The state of the database after a transaction: unchanged when it threw.\<close>

definition stateAfter :: "'s \<Rightarrow> 'e + 'a \<times> 's \<Rightarrow> 's" where
  "stateAfter s r = (case r of Inl e \<Rightarrow> s | Inr (a, s') \<Rightarrow> s')"

lemma stateAfter_simps [simp]:
  "stateAfter s (Inl e) = s" "stateAfter s (Inr (a, s')) = s'"
  by (simp_all add: stateAfter_def)

section \<open>Successful transactions\<close>

lemma transaction_eq_Inr:
  "transaction db body s = Inr (a, s') \<longleftrightarrow> body s = Inr (a, s') \<and> ses_reject db s s' = None"
  by (auto simp: transaction_def split: sum.splits option.splits)

lemma runTx_eq_Inr [tx_simps]:
  "runTx db body s = Inr r \<longleftrightarrow> body s = Inr r \<and> ses_reject db s (snd r) = None"
  by (cases r) (auto simp: runTx_def transaction_def split: sum.splits option.splits if_splits)

lemma forEachT_frame:
  assumes f: "\<And>x s a s'. f x s = Inr (a, s') \<Longrightarrow> s' = s" and ok: "forEachT f xs s = Inr (a, s')"
  shows "s' = s"
  using ok
proof (induction xs arbitrary: s)
  case Nil
  then show ?case by (simp add: tx_simps)
next
  case (Cons x xs)
  then obtain b s1 where "f x s = Inr (b, s1)" and "forEachT f xs s1 = Inr (a, s')"
    by (auto simp: tx_simps)
  with f Cons.IH show ?case by blast
qed

lemma acquire_frame:
  assumes fr: "session_frame db" and ok: "acquire db keys s = Inr (a, s')"
  shows "s' = s"
proof (rule forEachT_frame)
  show "forEachT (\<lambda>key. ses_lock db (lk_ns key) (lk_obj key)) (orderLocks keys) s = Inr (a, s')"
    using ok by (simp add: acquire_def)
next
  fix key :: lock_key and t u t'
  assume "ses_lock db (lk_ns key) (lk_obj key) t = Inr (u, t')"
  then show "t' = t" using fr unfolding session_frame_def by metis
qed

lemma tryEach_frame: "session_frame db \<Longrightarrow> tryEach db keys s = Inr (b, s') \<Longrightarrow> s' = s"
  by (induction keys arbitrary: s)
    (auto simp: tx_simps session_frame_def split: if_splits, blast)

lemma run_success:
  "run db body s = Inr (a, s') \<Longrightarrow> body s = Inr (a, s')"
  by (simp add: run_def tx_simps)

lemma snapshot_success:
  "session_frame db \<Longrightarrow> snapshot db body s = Inr (a, s') \<Longrightarrow> body s = Inr (a, s')"
  by (auto simp: snapshot_def beginSnapshot_def tx_simps session_frame_def)

lemma serialized_success:
  assumes fr: "session_frame db" and ok: "serialized db keys body snap s = Inr (a, s')"
  shows "body s = Inr (a, s')"
proof -
  from ok obtain s1 s2 where
    s1: "(if snap then beginSnapshot db else returnT ()) s = Inr ((), s1)" and
    s2: "acquire db keys s1 = Inr ((), s2)" and b: "body s2 = Inr (a, s')"
    by (auto simp: serialized_def tx_simps)
  from s1 fr have "s1 = s"
    by (auto simp: beginSnapshot_def session_frame_def split: if_splits)
  moreover from acquire_frame [OF fr s2] have "s2 = s1" .
  ultimately show ?thesis using b by simp
qed

lemma runTx_quiet:
  "session_quiet db \<Longrightarrow> body s = Inr r \<Longrightarrow> runTx db body s = Inr r"
  by (simp add: tx_simps session_quiet_def)

lemma run_quiet: "session_quiet db \<Longrightarrow> body s = Inr r \<Longrightarrow> run db body s = Inr r"
  by (simp add: run_def runTx_quiet)

lemma snapshot_quiet: "session_quiet db \<Longrightarrow> body s = Inr r \<Longrightarrow> snapshot db body s = Inr r"
  by (simp add: snapshot_def beginSnapshot_def tx_simps session_quiet_def)

lemma acquire_quiet: "session_quiet db \<Longrightarrow> acquire db keys s = Inr ((), s)"
proof -
  assume q: "session_quiet db"
  have "forEachT (\<lambda>key. ses_lock db (lk_ns key) (lk_obj key)) ks s = Inr ((), s)" for ks
    by (induction ks) (use q in \<open>auto simp: session_quiet_def bindT_def\<close>)
  then show ?thesis by (simp add: acquire_def)
qed

lemma serialized_quiet:
  "session_quiet db \<Longrightarrow> body s = Inr r \<Longrightarrow> serialized db keys body snap s = Inr r"
  by (auto simp: serialized_def runTx_quiet acquire_quiet bindT_Inr beginSnapshot_def tx_simps
      session_quiet_def)

section \<open>Failures\<close>

text \<open>every rung fails in one way on a lost race: a serialization failure of the engine
  (Prisma \<open>P2034\<close>), at any statement or at commit, surfaces as the retryable client error
  \<open>CONFLICT\<close>, and every other throw surfaces unchanged.
\<close>

theorem runTx_error_translation:
  "transaction db body s = Inl e \<Longrightarrow>
     (isSerializationConflict (toJs e) \<longrightarrow>
        runTx db body s = Inl (ConcurrentUpdateError ''the transaction'')) \<and>
     (\<not> isSerializationConflict (toJs e) \<longrightarrow> runTx db body s = Inl e)"
  by (simp add: runTx_def)

definition quietSession :: "'s session" where
  "quietSession = \<lparr>ses_repeatableRead = returnT (), ses_lock = (\<lambda>_ _. returnT ()),
     ses_tryLock = (\<lambda>_ _. returnT True), ses_reject = (\<lambda>_ _. None)\<rparr>"

lemma quietSession_quiet [simp]: "session_quiet quietSession"
  by (simp add: quietSession_def session_quiet_def)

definition conflictSession :: "'s session" where
  "conflictSession = quietSession\<lparr>ses_reject := (\<lambda>_ _. Some (PrismaError ''P2034'' ''write conflict''))\<rparr>"

theorem runTx_error_translation_witness:
  "runTx conflictSession (returnT (5::int)) (0::int)
     = Inl (ConcurrentUpdateError ''the transaction'')"
proof -
  have "transaction conflictSession (returnT (5::int)) (0::int)
      = Inl (PrismaError ''P2034'' ''write conflict'')"
    by (simp add: transaction_def conflictSession_def)
  from runTx_error_translation [OF this] show ?thesis
    by (simp add: isSerializationConflict_def)
qed

section \<open>What the toolkit asks of the session, in order\<close>

text \<open>
  The statements of a transaction as a log: the session instance that records them, over a
  set of pairs that other transactions hold.
\<close>

datatype statement = SetRepeatableRead | TakeLock "int \<times> int" | TryLock "int \<times> int"

definition loggingSession :: "(int \<times> int) set \<Rightarrow> ('d \<times> statement list) session" where
  "loggingSession held = \<lparr>
     ses_repeatableRead = (\<lambda>(d, log). Inr ((), (d, log @ [SetRepeatableRead]))),
     ses_lock = (\<lambda>ns obj (d, log). Inr ((), (d, log @ [TakeLock (ns, obj)]))),
     ses_tryLock = (\<lambda>ns obj (d, log). Inr ((ns, obj) \<notin> held, (d, log @ [TryLock (ns, obj)]))),
     ses_reject = (\<lambda>_ _. None)\<rparr>"

lemma acquire_log:
  "acquire (loggingSession held) keys (d, log) =
     Inr ((), (d, log @ map TakeLock (map lockPair (orderLocks keys))))"
proof -
  have "forEachT (\<lambda>key. ses_lock (loggingSession held) (lk_ns key) (lk_obj key)) ks (d, log) =
      Inr ((), (d, log @ map TakeLock (map lockPair ks)))" for ks
    by (induction ks arbitrary: log) (simp_all add: loggingSession_def bindT_def lockPair_def)
  then show ?thesis by (simp add: acquire_def)
qed

text \<open>a locked section runs its body only after the isolation level was raised, as the first
  statement, and after every requested key was taken, once each and in the global order.
\<close>

theorem serialized_statement_order:
  "serialized (loggingSession held) keys body snap (d, []) =
     runTx (loggingSession held) (\<lambda>_. body (d,
       (if snap then [SetRepeatableRead] else []) @
       map TakeLock (sorted_list_of_set (lockPair ` set keys)))) (d, [])"
proof -
  have "(bindT (if snap then beginSnapshot (loggingSession held) else returnT ()) (\<lambda>_.
      bindT (acquire (loggingSession held) keys) (\<lambda>_. body))) (d, []) =
    body (d, (if snap then [SetRepeatableRead] else []) @
       map TakeLock (sorted_list_of_set (lockPair ` set keys)))"
    by (simp add: bindT_def acquire_log orderLocks_sorted beginSnapshot_def loggingSession_def
        returnT_def acquire_log [unfolded loggingSession_def])
  then show ?thesis by (simp add: serialized_def runTx_def transaction_def)
qed

lemma tryEach_log:
  "\<exists>log'. tryEach (loggingSession held) ks (d, log) =
     Inr (\<forall>k \<in> set ks. lockPair k \<notin> held, (d, log'))"
proof (induction ks arbitrary: log)
  case Nil
  then show ?case by simp
next
  case (Cons k ks)
  then show ?case
    by (auto simp: bindT_def loggingSession_def lockPair_def)
qed

text \<open>the non-blocking rung runs its body exactly when none of the requested keys is held
  elsewhere; otherwise it does no work and says so.
\<close>

theorem trySerialized_yields:
  assumes "lockPair ` set keys \<inter> held \<noteq> {}"
  shows "\<exists>log. trySerialized (loggingSession held) keys body False (d, []) =
           Inr (NotAcquired, (d, log))"
proof -
  from tryEach_log [of held "orderLocks keys" d "[]"]
  obtain log where "tryEach (loggingSession held) (orderLocks keys) (d, []) =
      Inr (\<forall>k \<in> set (orderLocks keys). lockPair k \<notin> held, (d, log))"
    by blast
  moreover have "\<not> (\<forall>k \<in> set (orderLocks keys). lockPair k \<notin> held)"
  proof -
    from assms obtain p where "p \<in> lockPair ` set (orderLocks keys)" and "p \<in> held"
      by (auto simp: orderLocks_pairs)
    then show ?thesis by auto
  qed
  ultimately have "tryAcquire (loggingSession held) keys (d, []) = Inr (False, (d, log))"
    by (simp add: tryAcquire_def)
  then have "runTx (loggingSession held) (bindT (returnT ()) (\<lambda>_.
      bindT (tryAcquire (loggingSession held) keys) (\<lambda>ok.
        if \<not> ok then returnT NotAcquired else bindT body (\<lambda>a. returnT (Acquired a))))) (d, [])
      = Inr (NotAcquired, (d, log))"
    by (simp add: runTx_def transaction_def bindT_def) (simp add: loggingSession_def)
  then show ?thesis by (auto simp: trySerialized_def)
qed

theorem trySerialized_yields_witness:
  "\<exists>log. trySerialized (loggingSession {(1, 7)}) [lockKey (LpointBalance 7)] (returnT (1::int))
     False ((0::int), []) = Inr (NotAcquired, (0, log))"
  by (rule trySerialized_yields)
    (simp add: lockKey_def defineLocks_def lockRegistry_def lockPair_def)

end
