(* ===== verification/TimeKst.thy ===== *)
theory TimeKst
  imports Prelude
begin

text \<open>
  The calendar module \<open>src/foundation/time.ts\<close>. An instant (\<open>Date\<close>) is its number of
  milliseconds since the epoch. The module is a wrapper of the date library dayjs in UTC
  mode, whose operations are arguments of the model (the record \<open>dayjs\<close>); \<open>dayjs_utc\<close> names
  what its documentation says of them: in UTC mode a day is 24 hours and an hour 3600
  seconds, and the end of a day is the last millisecond of the UTC day of the instant.
\<close>

type_synonym instant = int

definition msPerHour :: int where "msPerHour = 3600000"
definition msPerDay :: int where "msPerDay = 86400000"

record dayjs =
  addDay :: "instant \<Rightarrow> int \<Rightarrow> instant"
  addHour :: "instant \<Rightarrow> int \<Rightarrow> instant"
  subtractHour :: "instant \<Rightarrow> int \<Rightarrow> instant"
  endOfDay :: "instant \<Rightarrow> instant"
  formatYMD :: "instant \<Rightarrow> string"

definition dayjs_utc :: "dayjs \<Rightarrow> bool" where
  "dayjs_utc dj \<longleftrightarrow>
     (\<forall>t n. addDay dj t n = t + n * msPerDay) \<and>
     (\<forall>t n. addHour dj t n = t + n * msPerHour) \<and>
     (\<forall>t n. subtractHour dj t n = t - n * msPerHour) \<and>
     (\<forall>t. endOfDay dj t = t div msPerDay * msPerDay + msPerDay - 1)"

definition KST_UTC_OFFSET_HOURS :: int where
  "KST_UTC_OFFSET_HOURS = 9"

definition addDays :: "dayjs \<Rightarrow> instant \<Rightarrow> int \<Rightarrow> instant" where
  "addDays dj instant days = addDay dj instant days"

definition kstCalendarDate :: "dayjs \<Rightarrow> instant \<Rightarrow> string" where
  "kstCalendarDate dj instant = formatYMD dj (addHour dj instant KST_UTC_OFFSET_HOURS)"

definition kstEndOfDay :: "dayjs \<Rightarrow> instant \<Rightarrow> instant" where
  "kstEndOfDay dj instant =
     subtractHour dj (endOfDay dj (addHour dj instant KST_UTC_OFFSET_HOURS)) KST_UTC_OFFSET_HOURS"

section \<open>The business day\<close>

text \<open>The KST calendar day of an instant, counted from the epoch: the specification.\<close>

definition kstDay :: "instant \<Rightarrow> int" where
  "kstDay t = (t + 9 * msPerHour) div msPerDay"

lemma less_div_iff:
  fixes q a d :: int
  assumes "0 < d"
  shows "q < a div d \<longleftrightarrow> (q + 1) * d \<le> a"
proof
  assume "q < a div d"
  then have "(q + 1) * d \<le> a div d * d"
    using assms by (intro mult_right_mono) auto
  also have "\<dots> \<le> a" using assms by (metis div_mult_mod_eq le_add_same_cancel1 pos_mod_sign)
  finally show "(q + 1) * d \<le> a" .
next
  assume "(q + 1) * d \<le> a"
  from zdiv_mono1 [OF this assms] show "q < a div d" using assms by simp
qed

lemma kstEndOfDay_eq:
  "dayjs_utc dj \<Longrightarrow> kstEndOfDay dj t = kstDay t * msPerDay + msPerDay - 1 - 9 * msPerHour"
  by (simp add: kstEndOfDay_def dayjs_utc_def KST_UTC_OFFSET_HOURS_def kstDay_def)

lemma kstDay_kstEndOfDay: "dayjs_utc dj \<Longrightarrow> kstDay (kstEndOfDay dj t) = kstDay t"
  by (simp add: kstEndOfDay_eq kstDay_def msPerDay_def msPerHour_def) 

lemma kstDay_after_end: "dayjs_utc dj \<Longrightarrow> kstDay (kstEndOfDay dj t + 1) = kstDay t + 1"
  by (simp add: kstEndOfDay_eq kstDay_def msPerDay_def msPerHour_def) 

lemma kstEndOfDay_ge: "dayjs_utc dj \<Longrightarrow> t \<le> kstEndOfDay dj t"
  using kstEndOfDay_eq [of dj t] less_div_iff [of msPerDay "kstDay t" "t + 9 * msPerHour"]
  by (simp add: kstDay_def algebra_simps msPerDay_def)

lemma kstDay_mono: "t \<le> u \<Longrightarrow> kstDay t \<le> kstDay u"
  by (simp add: kstDay_def msPerDay_def msPerHour_def zdiv_mono1)

lemma kstEndOfDay_le_iff:
  "dayjs_utc dj \<Longrightarrow> u > kstEndOfDay dj t \<longleftrightarrow> kstDay u > kstDay t"
  using less_div_iff [of msPerDay "kstDay t" "u + 9 * msPerHour"]
  by (simp add: kstEndOfDay_eq kstDay_def [of u] algebra_simps) (auto simp: msPerDay_def)

lemma kstEndOfDay_mono:
  "dayjs_utc dj \<Longrightarrow> t \<le> u \<Longrightarrow> kstEndOfDay dj t \<le> kstEndOfDay dj u"
  using kstDay_mono [of t u] by (simp add: kstEndOfDay_eq msPerDay_def)

lemma kstDay_addDays: "dayjs_utc dj \<Longrightarrow> kstDay (addDays dj t n) = kstDay t + n"
  by (simp add: addDays_def dayjs_utc_def kstDay_def msPerDay_def msPerHour_def) 

lemma addDays_mono: "dayjs_utc dj \<Longrightarrow> addDays dj t n \<le> addDays dj u n \<longleftrightarrow> t \<le> u"
  by (simp add: addDays_def dayjs_utc_def)

text \<open>The arithmetic instance of the library's operations, for evaluation.\<close>

definition dayjsArith :: dayjs where
  "dayjsArith = \<lparr>addDay = (\<lambda>t n. t + n * 86400000), addHour = (\<lambda>t n. t + n * 3600000),
     subtractHour = (\<lambda>t n. t - n * 3600000),
     endOfDay = (\<lambda>t. t div 86400000 * 86400000 + 86399999), formatYMD = (\<lambda>t. showInt t)\<rparr>"

lemma dayjsArith_utc: "dayjs_utc dayjsArith"
  by (simp add: dayjs_utc_def dayjsArith_def msPerDay_def msPerHour_def)

text \<open>the end of the KST day of an instant belongs to the business day of that instant and is
  its last instant: another instant is past it exactly when its KST calendar day is later.
\<close>

theorem kst_deadline_is_day_granular:
  assumes "dayjs_utc dj"
  shows "kstDay (kstEndOfDay dj t) = kstDay t \<and> (u > kstEndOfDay dj t \<longleftrightarrow> kstDay u > kstDay t)"
  using kstEndOfDay_le_iff [OF assms] kstDay_kstEndOfDay [OF assms] by auto

theorem kst_deadline_is_day_granular_witness:
  "kstEndOfDay dayjsArith 0 = 53999999 \<and> (54000000 > kstEndOfDay dayjsArith 0)"
  using kst_deadline_is_day_granular [OF dayjsArith_utc, of 0 54000000]
  by (simp add: kstEndOfDay_def dayjsArith_def KST_UTC_OFFSET_HOURS_def kstDay_def msPerDay_def
      msPerHour_def)

end
