(* ===== verification/Schema.thy ===== *)
theory Schema
  imports Uow TimeKst
begin

text \<open>
  The data model of \<open>prisma/schema.prisma\<close>: one record per model, with the columns the code
  reads or writes, and the state of the database as the list of rows of every table.
  What PostgreSQL supplies (identifiers of \<open>autoincrement()\<close> and \<open>uuid()\<close> columns, the
  transaction's \<open>now()\<close>, the deferred constraints, the session) is an argument, the record
  \<open>engine\<close>.
\<close>

section \<open>Kinds\<close>

datatype flow_kind = COMMISSION | WITHDRAWAL | POINT_CHARGE

datatype command_kind = PAY | EXTRA_PAY | SETTLE | REFUND | CANCEL | WITHDRAW | CHARGE

section \<open>Users, posts, points, flags\<close>

record user_row =
  u_id :: int
  u_email :: string
  u_name :: "string option"
  u_status :: string
  u_createdAt :: instant

record post_row =
  po_id :: int
  po_title :: string
  po_content :: "string option"
  po_published :: bool
  po_authorId :: int
  po_createdAt :: instant

record balance_row =
  b_userId :: int
  b_paidAmount :: int
  b_freeAmount :: int
  b_totalAmount :: int

record charge_row =
  c_id :: int
  c_userId :: int
  c_state :: string
  c_paidAmount :: int
  c_freeAmount :: int
  c_unspentPaid :: int
  c_unspentFree :: int
  c_chargedAt :: instant
  c_expiredAt :: "instant option"

record spend_row =
  sp_id :: int
  sp_userId :: int
  sp_paidAmount :: int
  sp_freeAmount :: int
  sp_totalAmount :: int
  sp_reason :: string
  sp_createdAt :: instant

record flag_row =
  f_id :: int
  f_name :: string
  f_description :: "string option"
  f_stage :: "string option"
  f_value :: "string option"
  f_enableAfter :: "instant option"
  f_disableAfter :: "instant option"
  f_deletedAt :: "instant option"

section \<open>Commission\<close>

record commission_type_row =
  ct_id :: int
  ct_workerId :: int
  ct_price :: int

record slot_row =
  sl_id :: int
  sl_workerId :: int
  sl_state :: string

record order_row =
  o_id :: int
  o_buyerId :: int
  o_commissionTypeId :: int
  o_slotId :: int
  o_flowId :: string
  o_amount :: int
  o_currency :: string
  o_state :: string

record payment_row =
  pay_id :: int
  pay_orderId :: int
  pay_flowId :: string
  pay_amount :: int
  pay_currency :: string
  pay_state :: string

record link_row =
  ln_orderPaymentId :: int
  ln_flowId :: string
  ln_reservationId :: int

record contract_row =
  k_id :: int
  k_orderId :: int
  k_flowId :: string
  k_buyerId :: int
  k_workerId :: int

section \<open>Ledger\<close>

record holder_row =
  h_id :: int
  h_namespace :: string
  h_key :: string

record reservation_row =
  r_id :: int
  r_flowId :: string
  r_bindingNamespace :: string
  r_bindingKey :: string
  r_holderId :: int
  r_purpose :: string
  r_currency :: string
  r_targetAmount :: int
  r_state :: string

record account_row =
  a_id :: int
  a_currency :: string
  a_purpose :: string
  a_holderId :: "int option"
  a_reservationId :: "int option"

record lot_row =
  l_id :: int
  l_accountId :: int
  l_currency :: string
  l_sourceKind :: string
  l_sourceOperationId :: "string option"
  l_sourceSwapActionId :: "string option"
  l_sourceFlowId :: "string option"
  l_sourceFlowKind :: "flow_kind option"
  l_sourceOperationKind :: "command_kind option"
  l_issuanceReason :: "string option"
  l_accountingCategory :: "string option"
  l_accountingPolicyVersion :: "string option"
  l_originalAmount :: int
  l_remainingAmount :: int
  l_createdAt :: instant

record transfer_row =
  t_id :: int
  t_reservationId :: int
  t_flowId :: string
  t_currency :: string
  t_fromAccountId :: int
  t_toAccountId :: int
  t_amount :: int
  t_actionId :: string

record alloc_row =
  ta_transferId :: int
  ta_fromAccountId :: int
  ta_currency :: string
  ta_lotId :: int
  ta_amount :: int

record taction_row =
  tac_id :: string
  tac_flowId :: string
  tac_operationId :: string
  tac_operationKind :: command_kind

record swap_row =
  sw_id :: string
  sw_flowId :: string
  sw_operationId :: string
  sw_operationKind :: command_kind
  sw_reservationId :: int
  sw_beneficiaryHolderId :: int

record leg_row =
  lg_actionId :: string
  lg_flowId :: string
  lg_currency :: string
  lg_fromAccountId :: int
  lg_toAccountId :: int
  lg_amount :: int

record withdrawal_row =
  w_id :: string
  w_flowId :: string
  w_flowKind :: flow_kind
  w_operationId :: string
  w_operationKind :: command_kind
  w_transferActionId :: string
  w_reservationId :: int

section \<open>The transaction spine\<close>

record flow_row =
  fl_id :: string
  fl_kind :: flow_kind

record policy_row =
  pol_flowId :: string
  pol_commandKind :: command_kind

record command_row =
  cm_id :: string
  cm_flowId :: string
  cm_flowKind :: flow_kind
  cm_kind :: command_kind
  cm_principalId :: int
  cm_idempotencyKey :: string
  cm_payloadHash :: string
  cm_subjectNamespace :: string
  cm_subjectKey :: string
  cm_resultOperationId :: "string option"
  cm_createdAt :: instant

record operation_row =
  oper_id :: string
  oper_flowId :: string
  oper_kind :: command_kind
  oper_commandId :: string

section \<open>The database\<close>

record db =
  users :: "user_row list"
  posts :: "post_row list"
  pointBalances :: "balance_row list"
  pointCharges :: "charge_row list"
  pointSpends :: "spend_row list"
  featureFlags :: "flag_row list"
  commissionTypes :: "commission_type_row list"
  commissionSlots :: "slot_row list"
  orders :: "order_row list"
  orderPayments :: "payment_row list"
  orderFinancialLinks :: "link_row list"
  contracts :: "contract_row list"
  financialHolders :: "holder_row list"
  financialReservations :: "reservation_row list"
  financialAccounts :: "account_row list"
  financialLots :: "lot_row list"
  financialTransfers :: "transfer_row list"
  financialTransferAllocations :: "alloc_row list"
  financialTransferActions :: "taction_row list"
  financialSwapActions :: "swap_row list"
  financialSwapLegs :: "leg_row list"
  financialWithdrawals :: "withdrawal_row list"
  transactionFlows :: "flow_row list"
  flowCommandPolicies :: "policy_row list"
  financialCommandRuns :: "command_row list"
  financialOperations :: "operation_row list"

definition emptyDb :: db where
  "emptyDb = \<lparr>users = [], posts = [], pointBalances = [], pointCharges = [], pointSpends = [],
     featureFlags = [], commissionTypes = [], commissionSlots = [], orders = [],
     orderPayments = [], orderFinancialLinks = [], contracts = [], financialHolders = [],
     financialReservations = [], financialAccounts = [], financialLots = [],
     financialTransfers = [], financialTransferAllocations = [],
     financialTransferActions = [], financialSwapActions = [], financialSwapLegs = [],
     financialWithdrawals = [], transactionFlows = [], flowCommandPolicies = [],
     financialCommandRuns = [], financialOperations = []\<rparr>"

type_synonym 'a dbtx = "(thrown, db, 'a) tx"

section \<open>The engine\<close>

record engine =
  e_nextId :: "string \<Rightarrow> db \<Rightarrow> int"
  e_uuid :: "string \<Rightarrow> db \<Rightarrow> string"
  e_now :: "db \<Rightarrow> instant"
  e_deferred :: "string list \<Rightarrow> db \<Rightarrow> thrown option"
  e_session :: "db session"

text \<open>
  Named hypothesis: a sequence never hands out the identifier of a row that exists
  (\<open>autoincrement()\<close>), nor does \<open>uuid()\<close>. The name of a table selects its sequence.
\<close>

definition engine_fresh :: "engine \<Rightarrow> bool" where
  "engine_fresh eng \<longleftrightarrow> (\<forall>s.
     e_nextId eng ''User'' s \<notin> u_id ` set (users s) \<and>
     e_nextId eng ''Post'' s \<notin> po_id ` set (posts s) \<and>
     e_nextId eng ''PointCharge'' s \<notin> c_id ` set (pointCharges s) \<and>
     e_nextId eng ''PointSpend'' s \<notin> sp_id ` set (pointSpends s) \<and>
     e_nextId eng ''FeatureFlag'' s \<notin> f_id ` set (featureFlags s) \<and>
     e_nextId eng ''Contract'' s \<notin> k_id ` set (contracts s) \<and>
     e_nextId eng ''FinancialReservation'' s \<notin> r_id ` set (financialReservations s) \<and>
     e_nextId eng ''FinancialAccount'' s \<notin> a_id ` set (financialAccounts s) \<and>
     e_nextId eng ''FinancialLot'' s \<notin> l_id ` set (financialLots s) \<and>
     e_nextId eng ''FinancialTransfer'' s \<notin> t_id ` set (financialTransfers s) \<and>
     e_uuid eng ''TransactionFlow'' s \<notin> fl_id ` set (transactionFlows s) \<and>
     e_uuid eng ''FinancialCommandRun'' s \<notin> cm_id ` set (financialCommandRuns s) \<and>
     e_uuid eng ''FinancialOperation'' s \<notin> oper_id ` set (financialOperations s) \<and>
     e_uuid eng ''FinancialTransferAction'' s \<notin> tac_id ` set (financialTransferActions s) \<and>
     e_uuid eng ''FinancialSwapAction'' s \<notin> sw_id ` set (financialSwapActions s) \<and>
     e_uuid eng ''FinancialWithdrawal'' s \<notin> w_id ` set (financialWithdrawals s) \<and>
     (\<forall>table. e_uuid eng table s \<noteq> []))"

text \<open>\<open>SET CONSTRAINTS ... IMMEDIATE\<close>: the named deferred triggers run now and may throw.\<close>

definition setConstraintsImmediate :: "engine \<Rightarrow> string list \<Rightarrow> unit dbtx" where
  "setConstraintsImmediate eng names = (\<lambda>s. case e_deferred eng names s of
      None \<Rightarrow> Inr ((), s) | Some e \<Rightarrow> Inl e)"

lemma setConstraintsImmediate_eq_Inr [tx_simps]:
  "setConstraintsImmediate eng names s = Inr r \<longleftrightarrow> e_deferred eng names s = None \<and> r = ((), s)"
  by (auto simp: setConstraintsImmediate_def split: option.split)

section \<open>Statements\<close>

text \<open>
  A guarded update (\<open>updateMany\<close> of the rows that match, then a throw unless it matched
  exactly one): \<open>get\<close> and \<open>put\<close> select the table.
\<close>

definition guardedUpdate ::
  "(db \<Rightarrow> 'r list) \<Rightarrow> ('r list \<Rightarrow> db \<Rightarrow> db) \<Rightarrow> ('r \<Rightarrow> bool) \<Rightarrow> ('r \<Rightarrow> 'r) \<Rightarrow> thrown \<Rightarrow> unit dbtx" where
  "guardedUpdate get put p f e =
     (\<lambda>s. if countWhere p (get s) \<noteq> 1 then Inl e else Inr ((), put (updateWhere p f (get s)) s))"

lemma guardedUpdate_eq_Inr [tx_simps]:
  "guardedUpdate get put p f e s = Inr r \<longleftrightarrow>
     countWhere p (get s) = 1 \<and> r = ((), put (updateWhere p f (get s)) s)"
  by (auto simp: guardedUpdate_def)

lemma guardedUpdate_eq_Inl:
  "guardedUpdate get put p f e s = Inl e' \<longleftrightarrow> countWhere p (get s) \<noteq> 1 \<and> e' = e"
  by (auto simp: guardedUpdate_def)

text \<open>The row of a unique column (\<open>findUnique\<close>).\<close>

definition findRow :: "('r \<Rightarrow> bool) \<Rightarrow> 'r list \<Rightarrow> 'r option" where
  "findRow p rows = find p rows"

lemma findRow_Some: "findRow p rows = Some r \<Longrightarrow> r \<in> set rows \<and> p r"
  by (auto simp: findRow_def find_Some_iff)

lemma findRow_None: "findRow p rows = None \<longleftrightarrow> (\<forall>r \<in> set rows. \<not> p r)"
  by (auto simp: findRow_def find_None_iff)

lemma findRow_key:
  assumes "distinct (map k rows)" "r \<in> set rows"
  shows "findRow (\<lambda>x. k x = k r) rows = Some r"
proof (cases "findRow (\<lambda>x. k x = k r) rows")
  case None
  with assms(2) show ?thesis by (auto simp: findRow_None)
next
  case (Some r')
  with findRow_Some [OF Some] assms show ?thesis
    by (metis (mono_tags, lifting) distinct_key_unique)
qed

lemma findRow_append:
  "findRow p (xs @ ys) = (case findRow p xs of None \<Rightarrow> findRow p ys | Some r \<Rightarrow> Some r)"
  by (induction xs) (auto simp: findRow_def)

lemma findRow_simps [simp]:
  "findRow p [] = None" "findRow p (x # xs) = (if p x then Some x else findRow p xs)"
  by (simp_all add: findRow_def)

lemma findRow_updateWhere:
  "(\<And>r. p (f r) = p r) \<Longrightarrow>
     findRow p (updateWhere q f rows) = map_option (\<lambda>r. if q r then f r else r) (findRow p rows)"
  by (induction rows) (auto simp: findRow_def updateWhere_def)

text \<open>The absence a \<open>findUniqueOrThrow\<close> reports.\<close>

definition noRowFound :: thrown where
  "noRowFound = PrismaError ''P2025'' ''No record was found for a query.''"

definition orThrow :: "'r option \<Rightarrow> thrown + 'r" where
  "orThrow r = (case r of None \<Rightarrow> Inl noRowFound | Some x \<Rightarrow> Inr x)"

lemma orThrow_eq_Inr [simp]: "orThrow r = Inr x \<longleftrightarrow> r = Some x"
  by (auto simp: orThrow_def split: option.split)

text \<open>
  What the program asks of its runtime beside the database: the SHA-256 digest, in hexadecimal,
  of a text, and \<open>Number(text)\<close>. Named hypothesis: \<open>Number\<close> reads back what \<open>String\<close> wrote of
  a safe integer.
\<close>

record runtime =
  rt_sha256 :: "string \<Rightarrow> string"
  rt_number :: "string \<Rightarrow> js_number"

definition runtime_ok :: "runtime \<Rightarrow> bool" where
  "runtime_ok rt \<longleftrightarrow> (\<forall>i. isSafeInteger (JInt i) \<longrightarrow> rt_number rt (showInt i) = JInt i)"

definition refRuntime :: runtime where
  "refRuntime = \<lparr>rt_sha256 = (\<lambda>t. t),
     rt_number = (\<lambda>t. case readInt t of Some i \<Rightarrow> JInt i | None \<Rightarrow> JNonInt t)\<rparr>"

lemma refRuntime_ok: "runtime_ok refRuntime"
  by (simp add: runtime_ok_def refRuntime_def)

section \<open>A concrete engine, for evaluation\<close>

definition nextOf :: "int list \<Rightarrow> int" where
  "nextOf ids = fold max ids 0 + 1"

lemma fold_max_ge: "(m::int) \<le> fold max ids m"
  by (induction ids arbitrary: m) (auto, metis max.bounded_iff)

lemma fold_max_mem: "(i::int) \<in> set ids \<Longrightarrow> i \<le> fold max ids m"
proof (induction ids arbitrary: m)
  case Nil
  then show ?case by simp
next
  case (Cons j ids)
  then show ?case using fold_max_ge [of "max j m" ids] by auto
qed

lemma nextOf_fresh: "nextOf ids \<notin> set ids"
  using fold_max_mem [of "nextOf ids" ids 0] by (auto simp: nextOf_def)

definition nextText :: "string list \<Rightarrow> string" where
  "nextText ids = CHR ''x'' # concat ids"

lemma nextText_nonempty: "nextText ids \<noteq> []"
  by (simp add: nextText_def)

lemma length_mem_concat: "x \<in> set ids \<Longrightarrow> length x \<le> length (concat ids)"
  by (induction ids) auto

lemma nextText_fresh: "nextText ids \<notin> set ids"
  using length_mem_concat [of "nextText ids" ids] by (auto simp: nextText_def)

definition serialOf :: "string \<Rightarrow> db \<Rightarrow> int" where
  "serialOf table s =
     (if table = ''User'' then nextOf (map u_id (users s))
      else if table = ''Post'' then nextOf (map po_id (posts s))
      else if table = ''PointCharge'' then nextOf (map c_id (pointCharges s))
      else if table = ''PointSpend'' then nextOf (map sp_id (pointSpends s))
      else if table = ''FeatureFlag'' then nextOf (map f_id (featureFlags s))
      else if table = ''Contract'' then nextOf (map k_id (contracts s))
      else if table = ''FinancialReservation'' then nextOf (map r_id (financialReservations s))
      else if table = ''FinancialAccount'' then nextOf (map a_id (financialAccounts s))
      else if table = ''FinancialLot'' then nextOf (map l_id (financialLots s))
      else nextOf (map t_id (financialTransfers s)))"

definition uuidOf :: "string \<Rightarrow> db \<Rightarrow> string" where
  "uuidOf table s =
     (if table = ''TransactionFlow'' then nextText (map fl_id (transactionFlows s))
      else if table = ''FinancialCommandRun'' then nextText (map cm_id (financialCommandRuns s))
      else if table = ''FinancialOperation'' then nextText (map oper_id (financialOperations s))
      else if table = ''FinancialTransferAction'' then nextText (map tac_id (financialTransferActions s))
      else if table = ''FinancialSwapAction'' then nextText (map sw_id (financialSwapActions s))
      else nextText (map w_id (financialWithdrawals s)))"

definition refEngine :: engine where
  "refEngine = \<lparr>e_nextId = serialOf, e_uuid = uuidOf, e_now = (\<lambda>_. 0),
     e_deferred = (\<lambda>_ _. None), e_session = quietSession\<rparr>"

lemma refEngine_fresh: "engine_fresh refEngine"
proof -
  have n: "nextOf (map f xs) \<notin> f ` set xs" for f and xs :: "'r list"
    using nextOf_fresh [of "map f xs"] by simp
  have t: "nextText (map f xs) \<notin> f ` set xs" for f and xs :: "'r list"
    using nextText_fresh [of "map f xs"] by simp
  show ?thesis
    by (simp add: engine_fresh_def refEngine_def serialOf_def uuidOf_def n t nextText_nonempty)
qed

lemma refEngine_session [simp]: "e_session refEngine = quietSession"
  by (simp add: refEngine_def)

lemma quietSession_frame [simp]: "session_frame quietSession"
  by (rule session_quiet_frame) simp

end
