(* ===== verification/Fifo.thy ===== *)
theory Fifo
  imports Prelude
begin

text \<open>
  First-in-first-out consumption, the contract that the spend loop of the point core, the
  reservation loop of the financial ledger and the loop of the income withdrawal share. The
  specification \<open>fifoShare n xs\<close> says how much of each source, in order, a request of \<open>n\<close>
  takes; the locale \<open>fifo_loop\<close> states the loop the code runs and derives what its clients
  rely on.
\<close>

section \<open>Specification\<close>

fun fifoShare :: "int \<Rightarrow> int list \<Rightarrow> int list" where
  "fifoShare n [] = []"
| "fifoShare n (x # xs) = min n x # fifoShare (n - min n x) xs"

lemma length_fifoShare [simp]: "length (fifoShare n xs) = length xs"
  by (induction xs arbitrary: n) auto

lemma fifoShare_zero: "\<forall>x \<in> set xs. 0 \<le> x \<Longrightarrow> fifoShare 0 xs = map (\<lambda>_. 0) xs"
  by (induction xs) auto

lemma fifoShare_bounds:
  "0 \<le> n \<Longrightarrow> \<forall>x \<in> set xs. 0 \<le> x \<Longrightarrow> list_all2 (\<lambda>x y. 0 \<le> y \<and> y \<le> x) xs (fifoShare n xs)"
  by (induction xs arbitrary: n) auto

lemma sum_list_fifoShare:
  "0 \<le> n \<Longrightarrow> \<forall>x \<in> set xs. 0 \<le> x \<Longrightarrow> sum_list (fifoShare n xs) = min n (sum_list xs)"
proof (induction xs arbitrary: n)
  case Nil
  then show ?case by simp
next
  case (Cons x xs)
  then have "0 \<le> n - min n x" and "0 \<le> sum_list xs" by (auto intro: sum_list_nonneg)
  with Cons show ?case by (auto simp: min_def)
qed

text \<open>The closed form: the source at a position gives what the ones before it left to take.\<close>

lemma fifoShare_nth:
  "i < length xs \<Longrightarrow> 0 \<le> n \<Longrightarrow> \<forall>x \<in> set xs. 0 \<le> x \<Longrightarrow>
     fifoShare n xs ! i = min (xs ! i) (max 0 (n - sum_list (take i xs)))"
proof (induction xs arbitrary: n i)
  case Nil
  then show ?case by simp
next
  case (Cons x xs)
  show ?case
  proof (cases i)
    case 0
    with Cons.prems show ?thesis by auto
  next
    case (Suc j)
    have "0 \<le> sum_list (take j xs)"
      using Cons.prems by (intro sum_list_nonneg) (auto dest: in_set_takeD)
    with Suc Cons.prems Cons.IH [of j "n - min n x"] show ?thesis
      by (auto simp: min_def max_def)
  qed
qed

text \<open>A source is touched only when every source before it was emptied.\<close>

lemma fifoShare_in_order:
  assumes "j < i" "i < length xs" "0 \<le> n" "\<forall>x \<in> set xs. 0 \<le> x" "0 < fifoShare n xs ! i"
  shows "fifoShare n xs ! j = xs ! j"
proof -
  have j: "fifoShare n xs ! j = min (xs ! j) (max 0 (n - sum_list (take j xs)))"
    using assms by (intro fifoShare_nth) auto
  have "0 < n - sum_list (take i xs)"
    using assms fifoShare_nth [of i xs n] by auto
  moreover have "sum_list (take (Suc j) xs) \<le> sum_list (take i xs)"
  proof -
    have "take i xs = take (Suc j) xs @ take (i - Suc j) (drop (Suc j) xs)"
      using assms(1) by (metis Suc_leI add_diff_inverse_nat not_less take_add)
    moreover have "0 \<le> sum_list (take (i - Suc j) (drop (Suc j) xs))"
      using assms(4) by (intro sum_list_nonneg) (auto dest: in_set_takeD in_set_dropD)
    ultimately show ?thesis by simp
  qed
  moreover have "sum_list (take (Suc j) xs) = sum_list (take j xs) + xs ! j"
    using assms by (simp add: take_Suc_conv_app_nth)
  ultimately show ?thesis using j by simp
qed

section \<open>The loop\<close>

text \<open>
  \<open>avail\<close> is what a source has, \<open>item\<close> the record an allocation of a source and an amount
  is, and \<open>loop r xs\<close> the loop over the sources with \<open>r\<close> left to take: the records it
  pushed and what is left.
\<close>

definition fifoSpec :: "('a \<Rightarrow> int) \<Rightarrow> ('a \<Rightarrow> int \<Rightarrow> 'b) \<Rightarrow> int \<Rightarrow> 'a list \<Rightarrow> 'b list" where
  "fifoSpec avail item r xs =
     map (\<lambda>(x, a). item x a)
       (filter (\<lambda>(x, a). 0 < a) (zip xs (fifoShare r (map (\<lambda>x. max 0 (avail x)) xs))))"

lemma fifoSpec_Nil [simp]: "fifoSpec avail item r [] = []"
  by (simp add: fifoSpec_def)

lemma fifoSpec_Cons:
  "fifoSpec avail item r (x # xs) =
     (if 0 < min r (max 0 (avail x)) then [item x (min r (max 0 (avail x)))] else []) @
     fifoSpec avail item (r - min r (max 0 (avail x))) xs"
  by (simp add: fifoSpec_def)

locale fifo_loop =
  fixes avail :: "'a \<Rightarrow> int" and item :: "'a \<Rightarrow> int \<Rightarrow> 'b" and taken :: "'b \<Rightarrow> int"
    and loop :: "int \<Rightarrow> 'a list \<Rightarrow> 'b list \<times> int"
  assumes loop_nil: "loop r [] = ([], r)"
    and loop_break: "loop 0 (x # xs) = ([], 0)"
    and loop_take: "0 < r \<Longrightarrow> 0 < avail x \<Longrightarrow> loop r (x # xs) =
      (item x (min (avail x) r) # fst (loop (r - min (avail x) r) xs),
       snd (loop (r - min (avail x) r) xs))"
    and loop_skip: "0 < r \<Longrightarrow> avail x \<le> 0 \<Longrightarrow> loop r (x # xs) = loop r xs"
    and taken_item: "taken (item x a) = a"
begin

lemma fifoSpec_zero: "fifoSpec avail item 0 xs = []"
proof -
  have "fifoShare 0 (map (\<lambda>x. max 0 (avail x)) xs) = map (\<lambda>_. 0) xs"
    using fifoShare_zero [of "map (\<lambda>x. max 0 (avail x)) xs"] by simp
  then show ?thesis
    by (auto simp: fifoSpec_def filter_empty_conv dest: set_zip_rightD)
qed

lemma loop_spec:
  "0 \<le> r \<Longrightarrow> loop r xs =
     (fifoSpec avail item r xs, max 0 (r - (\<Sum>x\<leftarrow>xs. max 0 (avail x))))"
proof (induction xs arbitrary: r)
  case Nil
  then show ?case by (simp add: loop_nil fifoSpec_def)
next
  case (Cons x xs)
  have nonneg: "0 \<le> (\<Sum>x\<leftarrow>xs. max 0 (avail x))" by (rule sum_list_nonneg) auto
  consider "r = 0" | "0 < r" "0 < avail x" | "0 < r" "avail x \<le> 0"
    using Cons.prems by linarith
  then show ?case
  proof cases
    case 1
    with nonneg show ?thesis
      by (simp add: loop_break fifoSpec_zero)
  next
    case 2
    then have "0 \<le> r - min (avail x) r" by simp
    with Cons.IH [OF this] 2 nonneg show ?thesis
      by (simp add: loop_take fifoSpec_def min.commute max_def) (auto simp: min_def)
  next
    case 3
    with Cons.IH [of r] show ?thesis by (simp add: loop_skip fifoSpec_def)
  qed
qed

lemma spec_total:
  "0 \<le> r \<Longrightarrow> (\<Sum>b\<leftarrow>fifoSpec avail item r xs. taken b) = min r (\<Sum>x\<leftarrow>xs. max 0 (avail x))"
proof (induction xs arbitrary: r)
  case Nil
  then show ?case by (simp add: fifoSpec_def)
next
  case (Cons x xs)
  let ?a = "min r (max 0 (avail x))"
  have nonneg: "0 \<le> (\<Sum>x\<leftarrow>xs. max 0 (avail x))" by (rule sum_list_nonneg) auto
  have "(\<Sum>b\<leftarrow>fifoSpec avail item r (x # xs). taken b)
      = (if 0 < ?a then ?a else 0) + (\<Sum>b\<leftarrow>fifoSpec avail item (r - ?a) xs. taken b)"
    by (simp add: fifoSpec_Cons taken_item)
  also have "\<dots> = ?a + min (r - ?a) (\<Sum>x\<leftarrow>xs. max 0 (avail x))"
    using Cons.prems by (subst Cons.IH) auto
  also have "\<dots> = min r (max 0 (avail x) + (\<Sum>x\<leftarrow>xs. max 0 (avail x)))"
    using Cons.prems nonneg by linarith
  finally show ?case by simp
qed

text \<open>The loop takes all it was asked for exactly when the sources hold as much.\<close>

lemma loop_takes_all:
  assumes "0 \<le> r"
  shows "snd (loop r xs) = 0 \<longleftrightarrow> r \<le> (\<Sum>x\<leftarrow>xs. max 0 (avail x))"
    and "(\<Sum>b\<leftarrow>fst (loop r xs). taken b) + snd (loop r xs) = r"
  using assms spec_total [OF assms, of xs] by (auto simp: loop_spec)

lemma loop_items:
  assumes "0 \<le> r" "b \<in> set (fst (loop r xs))"
  shows "\<exists>x \<in> set xs. \<exists>a. b = item x a \<and> 0 < a \<and> a \<le> avail x"
proof -
  let ?ys = "fifoShare r (map (\<lambda>x. max 0 (avail x)) xs)"
  from assms obtain x a where xa: "(x, a) \<in> set (zip xs ?ys)" "0 < a" "b = item x a"
    by (auto simp: loop_spec fifoSpec_def)
  then have "x \<in> set xs" by (auto dest: set_zip_leftD)
  moreover have "a \<le> avail x"
  proof -
    have "list_all2 (\<lambda>x y. 0 \<le> y \<and> y \<le> x) (map (\<lambda>x. max 0 (avail x)) xs) ?ys"
      using assms(1) by (intro fifoShare_bounds) auto
    then have "list_all2 (\<lambda>x y. y \<le> max 0 (avail x)) xs ?ys"
      by (auto simp: list_all2_conv_all_nth)
    with xa(1) have "a \<le> max 0 (avail x)" by (auto simp: list_all2_iff)
    with xa(2) show ?thesis by simp
  qed
  ultimately show ?thesis using xa by auto
qed

text \<open>Sources with distinct names are named at most once, in their order.\<close>

lemma loop_names:
  assumes "0 \<le> r" and name: "\<And>x a. name (item x a) = k x"
  shows "subseq (map name (fst (loop r xs))) (map k xs)"
proof -
  let ?zs = "zip xs (fifoShare r (map (\<lambda>x. max 0 (avail x)) xs))"
  have "map name (fst (loop r xs)) = map (k \<circ> fst) (filter (\<lambda>(x, a). 0 < a) ?zs)"
    using assms by (simp add: loop_spec fifoSpec_def case_prod_beta)
  moreover have "subseq (map (k \<circ> fst) (filter (\<lambda>(x, a). 0 < a) ?zs)) (map (k \<circ> fst) ?zs)"
    by (intro subseq_map subseq_filter_left)
  moreover have "map (k \<circ> fst) ?zs = map k xs"
    by (metis length_fifoShare length_map map_fst_zip map_map)
  ultimately show ?thesis by simp
qed

end

end
