(* ===== verification/PointCore.thy ===== *)
theory PointCore
  imports Foundation TimeKst Fifo
begin

text \<open>
  The pure core of the point domain, \<open>src/modules/point/point.core.ts\<close>: the decisions of a
  charge, a spend, a transfer and an expiry, as functions from the world that was read to the
  plan that will be written, with every error they throw. The amounts of the ledger are
  PostgreSQL \<open>int4\<close> values; the amounts of a request are JavaScript numbers.
\<close>

section \<open>Data\<close>

definition POINT_CHARGE_STATES :: "string list" where
  "POINT_CHARGE_STATES = [''USABLE'', ''CONSUMED'', ''EXPIRED'']"

record PointSnapshot =
  ps_paidAmount :: int
  ps_freeAmount :: int
  ps_totalAmount :: int

record ChargeBalance =
  cb_id :: int
  cb_unspentPaid :: int
  cb_unspentFree :: int

record AssumedUnspent =
  au_unspentPaid :: int
  au_unspentFree :: int

record SpendAllocation =
  sa_chargeId :: int
  sa_paid :: int
  sa_free :: int
  sa_assumed :: AssumedUnspent
  sa_depleted :: bool

record SpendPlan =
  pl_paidUsage :: int
  pl_freeUsage :: int
  pl_allocations :: "SpendAllocation list"
  pl_assumedBalance :: PointSnapshot
  pl_balanceAfter :: PointSnapshot

record ChargePlan =
  cp_paidAmount :: int
  cp_freeAmount :: int
  cp_totalAmount :: int
  cp_chargedAt :: instant

record TransferPlan =
  tp_spend :: SpendPlan
  tp_charge :: ChargePlan

record ExpirableCharge =
  ec_id :: int
  ec_unspentPaid :: int
  ec_unspentFree :: int
  ec_chargedAt :: instant

record ChargeExpiration =
  cx_chargeId :: int
  cx_expiredPaid :: int
  cx_expiredFree :: int
  cx_assumed :: AssumedUnspent

record ExpiryPlan =
  xp_expirations :: "ChargeExpiration list"
  xp_expiredAt :: instant
  xp_assumedBalance :: PointSnapshot
  xp_balanceAfter :: PointSnapshot

section \<open>Errors\<close>

definition PointAmountNotPositiveError :: "js_number \<Rightarrow> thrown" where
  "PointAmountNotPositiveError amount = DomainError ''PointAmountNotPositiveError''
     (''Point amount must be a positive integer, got '' @ numText amount) ''INVALID_POINT_AMOUNT''"

definition InsufficientPointError :: "int \<Rightarrow> int \<Rightarrow> thrown" where
  "InsufficientPointError available requested = DomainError ''InsufficientPointError''
     (''Insufficient points: have '' @ showInt available @ '', need '' @ showInt requested)
     ''INSUFFICIENT_POINT''"

text \<open>\<open>JSON.stringify\<close> of a snapshot (the three amounts the type names).\<close>

definition snapshotJson :: "PointSnapshot \<Rightarrow> string" where
  "snapshotJson snap = ''{'' @ jsonString ''paidAmount'' @ '':'' @ showInt (ps_paidAmount snap) @
     '','' @ jsonString ''freeAmount'' @ '':'' @ showInt (ps_freeAmount snap) @
     '','' @ jsonString ''totalAmount'' @ '':'' @ showInt (ps_totalAmount snap) @ ''}''"

definition PointLedgerInconsistencyError :: "PointSnapshot \<Rightarrow> int \<Rightarrow> int \<Rightarrow> thrown" where
  "PointLedgerInconsistencyError snap paid free = PlainError ''PointLedgerInconsistencyError''
     (''Point ledger inconsistent: snapshot '' @ snapshotJson snap @ '' not covered by charges '' @
      ''(paid '' @ showInt paid @ '', free '' @ showInt free @ '' unallocatable)'')"

definition UnknownPointChargeStateError :: "string \<Rightarrow> thrown" where
  "UnknownPointChargeStateError value = PlainError ''UnknownPointChargeStateError''
     (''Unknown point charge state read from the database: '' @ jsonString value)"

definition PointBalanceDriftError :: "int \<Rightarrow> PointSnapshot \<Rightarrow> PointSnapshot \<Rightarrow> thrown" where
  "PointBalanceDriftError userId stored computed = PlainError ''PointBalanceDriftError''
     (''Point balance drift for user '' @ showInt userId @ '': stored '' @ snapshotJson stored @
      '' does not equal ledger '' @ snapshotJson computed)"

definition PointTransferToSelfError :: "int \<Rightarrow> thrown" where
  "PointTransferToSelfError userId = DomainError ''PointTransferToSelfError''
     (''Cannot transfer points to the same user ('' @ showInt userId @ '')'')
     ''POINT_TRANSFER_TO_SELF''"

lemmas point_error_defs = PointAmountNotPositiveError_def InsufficientPointError_def
  PointLedgerInconsistencyError_def PointBalanceDriftError_def PointTransferToSelfError_def
  UnknownPointChargeStateError_def

lemma point_error_codes [simp]:
  "errorCode (PointAmountNotPositiveError a) = Some ''INVALID_POINT_AMOUNT''"
  "errorCode (InsufficientPointError i j) = Some ''INSUFFICIENT_POINT''"
  "errorCode (PointTransferToSelfError u) = Some ''POINT_TRANSFER_TO_SELF''"
  "errorCode (PointLedgerInconsistencyError s p f) = None"
  "errorCode (PointBalanceDriftError u s t) = None"
  by (simp_all add: point_error_defs)

section \<open>States, balances, amounts\<close>

definition isPointChargeState :: "string \<Rightarrow> bool" where
  "isPointChargeState value \<longleftrightarrow> value \<in> set POINT_CHARGE_STATES"

definition parsePointChargeState :: "string \<Rightarrow> thrown + string" where
  "parsePointChargeState value =
     (if \<not> isPointChargeState value then Inl (UnknownPointChargeStateError value) else Inr value)"

definition sumUsableBalance :: "ChargeBalance list \<Rightarrow> PointSnapshot" where
  "sumUsableBalance charges =
     (let (paidAmount, freeAmount) =
            fold (\<lambda>charge (p, f). (p + cb_unspentPaid charge, f + cb_unspentFree charge)) charges (0, 0)
      in \<lparr>ps_paidAmount = paidAmount, ps_freeAmount = freeAmount,
          ps_totalAmount = paidAmount + freeAmount\<rparr>)"

definition balancesAgree :: "PointSnapshot \<Rightarrow> PointSnapshot \<Rightarrow> bool" where
  "balancesAgree a b \<longleftrightarrow> ps_paidAmount a = ps_paidAmount b \<and> ps_freeAmount a = ps_freeAmount b \<and>
     ps_totalAmount a = ps_totalAmount b"

definition assertBalanceConsistent ::
  "int \<Rightarrow> PointSnapshot \<Rightarrow> ChargeBalance list \<Rightarrow> thrown + unit" where
  "assertBalanceConsistent userId stored charges =
     (let computed = sumUsableBalance charges in
      if \<not> balancesAgree stored computed then Inl (PointBalanceDriftError userId stored computed)
      else Inr ())"

definition isValidPointAmount :: "js_number \<Rightarrow> bool" where
  "isValidPointAmount amount \<longleftrightarrow> isInteger amount \<and> 0 < intOf amount"

definition assertValidAmount :: "js_number \<Rightarrow> thrown + unit" where
  "assertValidAmount amount =
     (if \<not> isValidPointAmount amount then Inl (PointAmountNotPositiveError amount) else Inr ())"

section \<open>Charge\<close>

definition isValidChargeSide :: "js_number \<Rightarrow> bool" where
  "isValidChargeSide n \<longleftrightarrow> isInteger n \<and> 0 \<le> intOf n"

definition planCharge :: "js_number \<Rightarrow> js_number \<Rightarrow> instant \<Rightarrow> thrown + ChargePlan" where
  "planCharge paidAmount freeAmount now =
     (if \<not> isValidChargeSide paidAmount then Inl (PointAmountNotPositiveError paidAmount)
      else if \<not> isValidChargeSide freeAmount then Inl (PointAmountNotPositiveError freeAmount)
      else if intOf paidAmount + intOf freeAmount = 0 then Inl (PointAmountNotPositiveError (JInt 0))
      else Inr \<lparr>cp_paidAmount = intOf paidAmount, cp_freeAmount = intOf freeAmount,
                cp_totalAmount = intOf paidAmount + intOf freeAmount, cp_chargedAt = now\<rparr>)"

section \<open>Spend\<close>

text \<open>The loop over the charges: the allocations it pushed, and what is left of each side.\<close>

fun allocateCharges :: "int \<Rightarrow> int \<Rightarrow> ChargeBalance list \<Rightarrow> SpendAllocation list \<times> int \<times> int" where
  "allocateCharges paidLeft freeLeft [] = ([], paidLeft, freeLeft)"
| "allocateCharges paidLeft freeLeft (charge # charges) =
     (if paidLeft = 0 \<and> freeLeft = 0 then ([], paidLeft, freeLeft)
      else let paid = min paidLeft (cb_unspentPaid charge);
               free = min freeLeft (cb_unspentFree charge)
        in if paid + free = 0 then allocateCharges paidLeft freeLeft charges
           else let (allocations, p, f) = allocateCharges (paidLeft - paid) (freeLeft - free) charges
             in (\<lparr>sa_chargeId = cb_id charge, sa_paid = paid, sa_free = free,
                  sa_assumed = \<lparr>au_unspentPaid = cb_unspentPaid charge,
                                au_unspentFree = cb_unspentFree charge\<rparr>,
                  sa_depleted = (cb_unspentPaid charge + cb_unspentFree charge - paid - free = 0)\<rparr>
                 # allocations, p, f))"

definition usages :: "PointSnapshot \<Rightarrow> int \<Rightarrow> bool \<Rightarrow> int \<times> int" where
  "usages snap amount preferFree =
     (if preferFree
      then (let freeUsage = min amount (ps_freeAmount snap) in (amount - freeUsage, freeUsage))
      else (let paidUsage = min amount (ps_paidAmount snap) in (paidUsage, amount - paidUsage)))"

definition planSpend ::
  "PointSnapshot \<Rightarrow> ChargeBalance list \<Rightarrow> js_number \<Rightarrow> bool \<Rightarrow> thrown + SpendPlan" where
  "planSpend snap charges amount preferFree =
     rbind (assertValidAmount amount) (\<lambda>_.
     if ps_totalAmount snap < intOf amount
     then Inl (InsufficientPointError (ps_totalAmount snap) (intOf amount))
     else let (paidUsage, freeUsage) = usages snap (intOf amount) preferFree;
              (allocations, paidLeft, freeLeft) = allocateCharges paidUsage freeUsage charges
       in if paidLeft \<noteq> 0 \<or> freeLeft \<noteq> 0
          then Inl (PointLedgerInconsistencyError snap paidLeft freeLeft)
          else Inr \<lparr>pl_paidUsage = paidUsage, pl_freeUsage = freeUsage,
                    pl_allocations = allocations, pl_assumedBalance = snap,
                    pl_balanceAfter = \<lparr>
                      ps_paidAmount = ps_paidAmount snap - paidUsage,
                      ps_freeAmount = ps_freeAmount snap - freeUsage,
                      ps_totalAmount = ps_totalAmount snap - intOf amount\<rparr>\<rparr>)"

section \<open>Transfer\<close>

definition planTransfer ::
  "int \<Rightarrow> int \<Rightarrow> PointSnapshot \<Rightarrow> ChargeBalance list \<Rightarrow> js_number \<Rightarrow> instant \<Rightarrow> bool \<Rightarrow>
   thrown + TransferPlan" where
  "planTransfer fromUserId toUserId snap charges amount now preferFree =
     (if fromUserId = toUserId then Inl (PointTransferToSelfError fromUserId)
      else rbind (planSpend snap charges amount preferFree) (\<lambda>spend.
           rbind (planCharge (JInt (pl_paidUsage spend)) (JInt (pl_freeUsage spend)) now) (\<lambda>charge.
           Inr \<lparr>tp_spend = spend, tp_charge = charge\<rparr>)))"

section \<open>Expiry\<close>

definition EXPIRE_AFTER_DAYS :: int where
  "EXPIRE_AFTER_DAYS = 365"

text \<open>The deadline of a charge, and the loop over the charges: the expirations and the sums removed.\<close>

definition chargeDeadline :: "dayjs \<Rightarrow> instant \<Rightarrow> instant" where
  "chargeDeadline dj chargedAt = kstEndOfDay dj (addDays dj chargedAt EXPIRE_AFTER_DAYS)"

fun expireCharges ::
  "dayjs \<Rightarrow> instant \<Rightarrow> ExpirableCharge list \<Rightarrow> ChargeExpiration list \<times> int \<times> int" where
  "expireCharges dj now [] = ([], 0, 0)"
| "expireCharges dj now (charge # charges) =
     (if chargeDeadline dj (ec_chargedAt charge) > now then expireCharges dj now charges
      else let (expirations, paid, free) = expireCharges dj now charges
        in (\<lparr>cx_chargeId = ec_id charge, cx_expiredPaid = ec_unspentPaid charge,
             cx_expiredFree = ec_unspentFree charge,
             cx_assumed = \<lparr>au_unspentPaid = ec_unspentPaid charge,
                           au_unspentFree = ec_unspentFree charge\<rparr>\<rparr> # expirations,
            ec_unspentPaid charge + paid, ec_unspentFree charge + free))"

definition planExpiry ::
  "dayjs \<Rightarrow> PointSnapshot \<Rightarrow> ExpirableCharge list \<Rightarrow> instant \<Rightarrow> ExpiryPlan" where
  "planExpiry dj snap charges now =
     (let (expirations, paidRemoved, freeRemoved) = expireCharges dj now charges in
      \<lparr>xp_expirations = expirations, xp_expiredAt = now, xp_assumedBalance = snap,
       xp_balanceAfter = \<lparr>
         ps_paidAmount = ps_paidAmount snap - paidRemoved,
         ps_freeAmount = ps_freeAmount snap - freeRemoved,
         ps_totalAmount = ps_totalAmount snap - paidRemoved - freeRemoved\<rparr>\<rparr>)"

section \<open>Balances\<close>

lemma sumUsable_fold:
  "fold (\<lambda>charge (p, f). (p + cb_unspentPaid charge, f + cb_unspentFree charge)) charges (a, b) =
     (a + (\<Sum>c\<leftarrow>charges. cb_unspentPaid c), b + (\<Sum>c\<leftarrow>charges. cb_unspentFree c))"
  by (induction charges arbitrary: a b) (auto simp: algebra_simps)

lemma sumUsableBalance_eq:
  "sumUsableBalance charges = \<lparr>ps_paidAmount = (\<Sum>c\<leftarrow>charges. cb_unspentPaid c),
     ps_freeAmount = (\<Sum>c\<leftarrow>charges. cb_unspentFree c),
     ps_totalAmount = (\<Sum>c\<leftarrow>charges. cb_unspentPaid c) + (\<Sum>c\<leftarrow>charges. cb_unspentFree c)\<rparr>"
  by (simp add: sumUsableBalance_def sumUsable_fold)

lemma balancesAgree_iff [simp]: "balancesAgree a b \<longleftrightarrow> a = b"
  by (cases a; cases b) (simp add: balancesAgree_def)

lemma assertBalanceConsistent_eq_Inr:
  "assertBalanceConsistent u stored charges = Inr r \<longleftrightarrow> stored = sumUsableBalance charges"
  by (simp add: assertBalanceConsistent_def Let_def)

lemma assertBalanceConsistent_eq_Inl:
  "assertBalanceConsistent u stored charges = Inl e \<longleftrightarrow> stored \<noteq> sumUsableBalance charges \<and>
     e = PointBalanceDriftError u stored (sumUsableBalance charges)"
  by (auto simp: assertBalanceConsistent_def Let_def)

definition nonnegCharges :: "ChargeBalance list \<Rightarrow> bool" where
  "nonnegCharges charges \<longleftrightarrow>
     (\<forall>c \<in> set charges. 0 \<le> cb_unspentPaid c \<and> 0 \<le> cb_unspentFree c)"

lemma nonnegCharges_Cons [simp]:
  "nonnegCharges (c # cs) \<longleftrightarrow> 0 \<le> cb_unspentPaid c \<and> 0 \<le> cb_unspentFree c \<and> nonnegCharges cs"
  by (auto simp: nonnegCharges_def)

lemma nonnegCharges_sums:
  "nonnegCharges cs \<Longrightarrow> 0 \<le> (\<Sum>c\<leftarrow>cs. cb_unspentPaid c) \<and> 0 \<le> (\<Sum>c\<leftarrow>cs. cb_unspentFree c)"
  by (auto simp: nonnegCharges_def intro!: sum_list_nonneg)

section \<open>The spend loop\<close>

lemma allocateCharges_skip:
  "\<not> (p = 0 \<and> f = 0) \<Longrightarrow> min p (cb_unspentPaid c) + min f (cb_unspentFree c) = 0 \<Longrightarrow>
     allocateCharges p f (c # cs) = allocateCharges p f cs"
  by (simp only: allocateCharges.simps if_False Let_def) simp

lemma allocateCharges_take:
  assumes "\<not> (p = 0 \<and> f = 0)" "min p (cb_unspentPaid c) + min f (cb_unspentFree c) \<noteq> 0"
    "allocateCharges (p - min p (cb_unspentPaid c)) (f - min f (cb_unspentFree c)) cs = (bs, q, g)"
  shows "allocateCharges p f (c # cs) =
    (\<lparr>sa_chargeId = cb_id c, sa_paid = min p (cb_unspentPaid c), sa_free = min f (cb_unspentFree c),
      sa_assumed = \<lparr>au_unspentPaid = cb_unspentPaid c, au_unspentFree = cb_unspentFree c\<rparr>,
      sa_depleted = (cb_unspentPaid c + cb_unspentFree c - min p (cb_unspentPaid c)
        - min f (cb_unspentFree c) = 0)\<rparr> # bs, q, g)"
  using assms by (simp only: allocateCharges.simps if_False Let_def prod.case)

lemma allocateCharges_conserves:
  "allocateCharges p f cs = (as, p', f') \<Longrightarrow>
     (\<Sum>a\<leftarrow>as. sa_paid a) + p' = p \<and> (\<Sum>a\<leftarrow>as. sa_free a) + f' = f"
proof (induction cs arbitrary: p f as p' f')
  case Nil
  then show ?case by simp
next
  case (Cons c cs)
  consider (stop) "p = 0 \<and> f = 0"
    | (skip) "\<not> (p = 0 \<and> f = 0)" "min p (cb_unspentPaid c) + min f (cb_unspentFree c) = 0"
    | (take) "\<not> (p = 0 \<and> f = 0)" "min p (cb_unspentPaid c) + min f (cb_unspentFree c) \<noteq> 0"
    by blast
  then show ?case
  proof cases
    case stop
    with Cons.prems show ?thesis by simp
  next
    case skip
    from Cons.prems have "allocateCharges p f cs = (as, p', f')"
      by (simp only: allocateCharges_skip [OF skip])
    from Cons.IH [OF this] show ?thesis .
  next
    case take
    obtain bs q g where rest:
      "allocateCharges (p - min p (cb_unspentPaid c)) (f - min f (cb_unspentFree c)) cs = (bs, q, g)"
      by (metis prod_cases3)
    from Cons.prems Cons.IH [OF rest] show ?thesis
      unfolding allocateCharges_take [OF take rest] by auto
  qed
qed

text \<open>Every allocation is of a charge of the list, in the order of the list.\<close>

lemma allocateCharges_ids: "subseq (map sa_chargeId (fst (allocateCharges p f cs))) (map cb_id cs)"
  by (induction p f cs rule: allocateCharges.induct)
    (auto simp: Let_def split: prod.splits)

text \<open>Each allocation takes within the bounds of its charge, and records what it assumed.\<close>

definition allocationOf :: "SpendAllocation \<Rightarrow> ChargeBalance \<Rightarrow> bool" where
  "allocationOf a c \<longleftrightarrow> sa_chargeId a = cb_id c \<and>
     sa_assumed a = \<lparr>au_unspentPaid = cb_unspentPaid c, au_unspentFree = cb_unspentFree c\<rparr> \<and>
     0 \<le> sa_paid a \<and> sa_paid a \<le> cb_unspentPaid c \<and> 0 \<le> sa_free a \<and> sa_free a \<le> cb_unspentFree c \<and>
     0 < sa_paid a + sa_free a \<and>
     (sa_depleted a \<longleftrightarrow> sa_paid a = cb_unspentPaid c \<and> sa_free a = cb_unspentFree c)"

lemma allocateCharges_items:
  "nonnegCharges cs \<Longrightarrow> 0 \<le> p \<Longrightarrow> 0 \<le> f \<Longrightarrow> allocateCharges p f cs = (as, p', f') \<Longrightarrow>
     a \<in> set as \<Longrightarrow> \<exists>c \<in> set cs. allocationOf a c"
proof (induction cs arbitrary: p f as p' f')
  case Nil
  then show ?case by simp
next
  case (Cons c cs)
  let ?paid = "min p (cb_unspentPaid c)" and ?free = "min f (cb_unspentFree c)"
  have bounds: "0 \<le> ?paid" "0 \<le> ?free" "?paid \<le> cb_unspentPaid c" "?free \<le> cb_unspentFree c"
    "0 \<le> p - ?paid" "0 \<le> f - ?free" "nonnegCharges cs"
    using Cons.prems by auto
  consider (stop) "p = 0 \<and> f = 0" | (skip) "\<not> (p = 0 \<and> f = 0)" "?paid + ?free = 0"
    | (take) "\<not> (p = 0 \<and> f = 0)" "?paid + ?free \<noteq> 0"
    by blast
  then show ?case
  proof cases
    case stop
    with Cons.prems show ?thesis by simp
  next
    case skip
    from Cons.prems(4) have "allocateCharges p f cs = (as, p', f')"
      by (simp only: allocateCharges_skip [OF skip])
    from Cons.IH [OF bounds(7) Cons.prems(2,3) this Cons.prems(5)] show ?thesis by auto
  next
    case take
    obtain bs q g where rest: "allocateCharges (p - ?paid) (f - ?free) cs = (bs, q, g)"
      by (metis prod_cases3)
    show ?thesis
    proof (cases "a \<in> set bs")
      case True
      from Cons.IH [OF bounds(7,5,6) rest True] show ?thesis by auto
    next
      case False
      with Cons.prems(4,5) bounds take(2) have "allocationOf a c"
        unfolding allocateCharges_take [OF take rest] allocationOf_def by auto
      then show ?thesis by auto
    qed
  qed
qed

subsection \<open>Closed form\<close>

definition allocSpec :: "int \<Rightarrow> int \<Rightarrow> ChargeBalance list \<Rightarrow> SpendAllocation list" where
  "allocSpec p f cs = map (\<lambda>(c, paid, free).
       \<lparr>sa_chargeId = cb_id c, sa_paid = paid, sa_free = free,
        sa_assumed = \<lparr>au_unspentPaid = cb_unspentPaid c, au_unspentFree = cb_unspentFree c\<rparr>,
        sa_depleted = (paid = cb_unspentPaid c \<and> free = cb_unspentFree c)\<rparr>)
     (filter (\<lambda>(c, paid, free). 0 < paid + free)
       (zip cs (zip (fifoShare p (map cb_unspentPaid cs)) (fifoShare f (map cb_unspentFree cs)))))"

lemma allocSpec_Cons:
  "allocSpec p f (c # cs) =
    (if 0 < min p (cb_unspentPaid c) + min f (cb_unspentFree c)
     then [\<lparr>sa_chargeId = cb_id c, sa_paid = min p (cb_unspentPaid c),
        sa_free = min f (cb_unspentFree c),
        sa_assumed = \<lparr>au_unspentPaid = cb_unspentPaid c, au_unspentFree = cb_unspentFree c\<rparr>,
        sa_depleted = (min p (cb_unspentPaid c) = cb_unspentPaid c \<and>
          min f (cb_unspentFree c) = cb_unspentFree c)\<rparr>] else [])
    @ allocSpec (p - min p (cb_unspentPaid c)) (f - min f (cb_unspentFree c)) cs"
  by (simp add: allocSpec_def)

lemma allocSpec_zero: "nonnegCharges cs \<Longrightarrow> allocSpec 0 0 cs = []"
  by (induction cs) (auto simp: allocSpec_Cons allocSpec_def [of 0 0 "[]"])

lemma allocateCharges_closed_form:
  "nonnegCharges cs \<Longrightarrow> 0 \<le> p \<Longrightarrow> 0 \<le> f \<Longrightarrow>
     allocateCharges p f cs = (allocSpec p f cs,
       max 0 (p - (\<Sum>c\<leftarrow>cs. cb_unspentPaid c)), max 0 (f - (\<Sum>c\<leftarrow>cs. cb_unspentFree c)))"
proof (induction cs arbitrary: p f)
  case Nil
  then show ?case by (simp add: allocSpec_def)
next
  case (Cons c cs)
  let ?paid = "min p (cb_unspentPaid c)" and ?free = "min f (cb_unspentFree c)"
  have nn: "nonnegCharges cs" using Cons.prems by simp
  note sums = nonnegCharges_sums [OF nn]
  have bounds: "0 \<le> ?paid" "0 \<le> ?free" "0 \<le> p - ?paid" "0 \<le> f - ?free" using Cons.prems by auto
  consider (stop) "p = 0 \<and> f = 0" | (skip) "\<not> (p = 0 \<and> f = 0)" "?paid + ?free = 0"
    | (take) "\<not> (p = 0 \<and> f = 0)" "?paid + ?free \<noteq> 0"
    by blast
  then show ?case
  proof cases
    case stop
    with Cons.prems sums allocSpec_zero [of "c # cs"] show ?thesis by simp
  next
    case skip
    with bounds have z: "?paid = 0" "?free = 0" by linarith+
    have "max 0 (p - (\<Sum>c\<leftarrow>cs. cb_unspentPaid c)) = max 0 (p - (\<Sum>c\<leftarrow>c # cs. cb_unspentPaid c))"
      using z(1) Cons.prems sums by (auto simp: min_def split: if_splits)
    moreover have "max 0 (f - (\<Sum>c\<leftarrow>cs. cb_unspentFree c)) = max 0 (f - (\<Sum>c\<leftarrow>c # cs. cb_unspentFree c))"
      using z(2) Cons.prems sums by (auto simp: min_def split: if_splits)
    moreover have "allocSpec p f (c # cs) = allocSpec p f cs"
      by (simp add: allocSpec_Cons z)
    ultimately show ?thesis
      by (simp only: allocateCharges_skip [OF skip] Cons.IH [OF nn Cons.prems(2,3)])
  next
    case take
    have pos: "0 < ?paid + ?free" using take(2) bounds by linarith
    have depl: "cb_unspentPaid c + cb_unspentFree c - ?paid - ?free = 0 \<longleftrightarrow>
        ?paid = cb_unspentPaid c \<and> ?free = cb_unspentFree c" by linarith
    have left: "max 0 (p - ?paid - (\<Sum>c\<leftarrow>cs. cb_unspentPaid c)) = max 0 (p - (\<Sum>c\<leftarrow>c # cs. cb_unspentPaid c))"
      "max 0 (f - ?free - (\<Sum>c\<leftarrow>cs. cb_unspentFree c)) = max 0 (f - (\<Sum>c\<leftarrow>c # cs. cb_unspentFree c))"
      using Cons.prems sums by auto
    show ?thesis
      using allocateCharges_take [OF take Cons.IH [OF nn bounds(3,4)]]
      by (simp only: allocSpec_Cons pos if_True depl left append_Cons append_Nil)
  qed
qed

section \<open>The decision of a spend\<close>

lemma usages_sum: "usages snap n pf = (p, f) \<Longrightarrow> p + f = n"
  by (auto simp: usages_def Let_def split: if_splits)

lemma usages_nonneg:
  "usages snap n pf = (p, f) \<Longrightarrow> 0 \<le> n \<Longrightarrow> 0 \<le> ps_paidAmount snap \<Longrightarrow> 0 \<le> ps_freeAmount snap \<Longrightarrow>
     0 \<le> p \<and> 0 \<le> f"
  by (auto simp: usages_def Let_def split: if_splits)

lemma usages_within:
  "usages snap n pf = (p, f) \<Longrightarrow> n \<le> ps_paidAmount snap + ps_freeAmount snap \<Longrightarrow>
     0 \<le> ps_paidAmount snap \<Longrightarrow> 0 \<le> ps_freeAmount snap \<Longrightarrow>
     p \<le> ps_paidAmount snap \<and> f \<le> ps_freeAmount snap"
  by (auto simp: usages_def Let_def split: if_splits)

lemma planSpend_eq_Inr:
  "planSpend snap cs amount pf = Inr plan \<longleftrightarrow>
     isValidPointAmount amount \<and> intOf amount \<le> ps_totalAmount snap \<and>
     (\<exists>as. allocateCharges (fst (usages snap (intOf amount) pf)) (snd (usages snap (intOf amount) pf)) cs
        = (as, 0, 0) \<and>
      plan = \<lparr>pl_paidUsage = fst (usages snap (intOf amount) pf),
        pl_freeUsage = snd (usages snap (intOf amount) pf),
        pl_allocations = as, pl_assumedBalance = snap,
        pl_balanceAfter = \<lparr>
          ps_paidAmount = ps_paidAmount snap - fst (usages snap (intOf amount) pf),
          ps_freeAmount = ps_freeAmount snap - snd (usages snap (intOf amount) pf),
          ps_totalAmount = ps_totalAmount snap - intOf amount\<rparr>\<rparr>)"
  by (auto simp: planSpend_def rbind_eq_Inr assertValidAmount_def Let_def
      split: prod.splits if_splits)

text \<open>What every plan says, whatever the world: the shape the executor relies on.\<close>

lemma planSpend_plan:
  assumes "planSpend snap cs amount pf = Inr plan"
  shows "pl_paidUsage plan + pl_freeUsage plan = intOf amount"
    and "(\<Sum>a\<leftarrow>pl_allocations plan. sa_paid a) = pl_paidUsage plan"
    and "(\<Sum>a\<leftarrow>pl_allocations plan. sa_free a) = pl_freeUsage plan"
    and "pl_assumedBalance plan = snap"
    and "pl_balanceAfter plan = \<lparr>ps_paidAmount = ps_paidAmount snap - pl_paidUsage plan,
           ps_freeAmount = ps_freeAmount snap - pl_freeUsage plan,
           ps_totalAmount = ps_totalAmount snap - intOf amount\<rparr>"
    and "isValidPointAmount amount" and "intOf amount \<le> ps_totalAmount snap"
    and "subseq (map sa_chargeId (pl_allocations plan)) (map cb_id cs)"
proof -
  let ?u = "usages snap (intOf amount) pf"
  from assms obtain as where as: "allocateCharges (fst ?u) (snd ?u) cs = (as, 0, 0)"
    and plan: "plan = \<lparr>pl_paidUsage = fst ?u, pl_freeUsage = snd ?u,
        pl_allocations = as, pl_assumedBalance = snap,
        pl_balanceAfter = \<lparr>ps_paidAmount = ps_paidAmount snap - fst ?u,
          ps_freeAmount = ps_freeAmount snap - snd ?u,
          ps_totalAmount = ps_totalAmount snap - intOf amount\<rparr>\<rparr>"
    and "isValidPointAmount amount" "intOf amount \<le> ps_totalAmount snap"
    by (auto simp: planSpend_eq_Inr)
  show "pl_paidUsage plan + pl_freeUsage plan = intOf amount"
    using usages_sum [of snap "intOf amount" pf "fst ?u" "snd ?u"] by (simp add: plan)
  show "(\<Sum>a\<leftarrow>pl_allocations plan. sa_paid a) = pl_paidUsage plan"
    "(\<Sum>a\<leftarrow>pl_allocations plan. sa_free a) = pl_freeUsage plan"
    using allocateCharges_conserves [OF as] by (simp_all add: plan)
  show "subseq (map sa_chargeId (pl_allocations plan)) (map cb_id cs)"
    using allocateCharges_ids [of "fst ?u" "snd ?u" cs] as by (simp add: plan)
qed (use assms in \<open>auto simp: planSpend_eq_Inr\<close>)

lemma planSpend_allocations:
  assumes ok: "planSpend snap cs amount pf = Inr plan" and nn: "nonnegCharges cs"
    and snap: "0 \<le> ps_paidAmount snap" "0 \<le> ps_freeAmount snap"
  shows "\<forall>a \<in> set (pl_allocations plan). \<exists>c \<in> set cs. allocationOf a c"
    and "0 \<le> pl_paidUsage plan" "0 \<le> pl_freeUsage plan"
proof -
  let ?u = "usages snap (intOf amount) pf"
  from ok obtain as where as: "allocateCharges (fst ?u) (snd ?u) cs = (as, 0, 0)"
    and plan: "pl_allocations plan = as" "pl_paidUsage plan = fst ?u" "pl_freeUsage plan = snd ?u"
    and valid: "isValidPointAmount amount"
    by (auto simp: planSpend_eq_Inr)
  have nonneg: "0 \<le> fst ?u \<and> 0 \<le> snd ?u"
    using valid snap by (intro usages_nonneg [of snap "intOf amount" pf]) (auto simp: isValidPointAmount_def)
  then show "0 \<le> pl_paidUsage plan" "0 \<le> pl_freeUsage plan" by (simp_all add: plan)
  show "\<forall>a \<in> set (pl_allocations plan). \<exists>c \<in> set cs. allocationOf a c"
    using allocateCharges_items [OF nn _ _ as] nonneg by (auto simp: plan)
qed

lemma planSpend_succeeds:
  assumes nn: "nonnegCharges cs" and valid: "isValidPointAmount amount"
    and le: "intOf amount \<le> ps_totalAmount (sumUsableBalance cs)"
  shows "\<exists>plan. planSpend (sumUsableBalance cs) cs amount pf = Inr plan"
proof -
  let ?snap = "sumUsableBalance cs"
  obtain p f where u: "usages ?snap (intOf amount) pf = (p, f)" by fastforce
  have snap: "0 \<le> ps_paidAmount ?snap" "0 \<le> ps_freeAmount ?snap"
    using nonnegCharges_sums [OF nn] by (simp_all add: sumUsableBalance_eq)
  have "0 \<le> p \<and> 0 \<le> f"
    using valid by (intro usages_nonneg [OF u] snap) (simp add: isValidPointAmount_def)
  moreover have "p \<le> ps_paidAmount ?snap \<and> f \<le> ps_freeAmount ?snap"
    using le by (intro usages_within [OF u] snap) (simp add: sumUsableBalance_eq)
  ultimately have "allocateCharges p f cs = (allocSpec p f cs, 0, 0)"
    using allocateCharges_closed_form [OF nn, of p f] by (simp add: sumUsableBalance_eq)
  then show ?thesis using valid le unfolding planSpend_eq_Inr u by simp
qed

text \<open>C20: the decision of a spend in closed form. Over charges and a snapshot without negative
  sides, the loop of the code computes, error branches included, this function: an amount that
  is not a positive integer is rejected, then one above the balance; the amount is then taken
  from free points as far as they go and the rest from paid ones when free is preferred, and
  from paid points as far as they go and the rest from free ones otherwise; a ledger that does
  not cover the two usages is rejected (with what is uncovered of each), and otherwise each
  charge in turn gives what the charges before it left to take (\<open>fifoShare\<close>).
\<close>

theorem planSpend_closed_form:
  assumes "nonnegCharges cs" "0 \<le> ps_paidAmount snap" "0 \<le> ps_freeAmount snap"
  shows "planSpend snap cs amount preferFree =
    (if \<not> isValidPointAmount amount then Inl (PointAmountNotPositiveError amount)
     else if ps_totalAmount snap < intOf amount
     then Inl (InsufficientPointError (ps_totalAmount snap) (intOf amount))
     else let n = intOf amount;
              p = (if preferFree then n - min n (ps_freeAmount snap) else min n (ps_paidAmount snap));
              f = n - p;
              paid = (\<Sum>c\<leftarrow>cs. cb_unspentPaid c); free = (\<Sum>c\<leftarrow>cs. cb_unspentFree c)
       in if paid < p \<or> free < f
          then Inl (PointLedgerInconsistencyError snap (max 0 (p - paid)) (max 0 (f - free)))
          else Inr \<lparr>pl_paidUsage = p, pl_freeUsage = f, pl_allocations = allocSpec p f cs,
                    pl_assumedBalance = snap,
                    pl_balanceAfter = \<lparr>ps_paidAmount = ps_paidAmount snap - p,
                      ps_freeAmount = ps_freeAmount snap - f,
                      ps_totalAmount = ps_totalAmount snap - n\<rparr>\<rparr>)"
proof (cases "isValidPointAmount amount \<and> intOf amount \<le> ps_totalAmount snap")
  case False
  then show ?thesis by (auto simp: planSpend_def assertValidAmount_def)
next
  case True
  let ?n = "intOf amount"
  let ?p = "if preferFree then ?n - min ?n (ps_freeAmount snap) else min ?n (ps_paidAmount snap)"
  have u: "usages snap ?n preferFree = (?p, ?n - ?p)" by (simp add: usages_def Let_def)
  from True assms have "0 \<le> ?p" "0 \<le> ?n - ?p"
    using usages_nonneg [OF u] by (auto simp: isValidPointAmount_def)
  note closed = allocateCharges_closed_form [OF assms(1) this]
  have l: "max 0 (x - y) \<noteq> 0 \<longleftrightarrow> y < x" for x y :: int by auto
  from True show ?thesis
    by (simp only: planSpend_def assertValidAmount_def u closed Let_def prod.case rbind_Inr l
        not_less simp_thms if_True if_False)
qed

definition sampleCharges :: "ChargeBalance list" where
  "sampleCharges = [\<lparr>cb_id = 1, cb_unspentPaid = 30, cb_unspentFree = 20\<rparr>,
     \<lparr>cb_id = 2, cb_unspentPaid = 50, cb_unspentFree = 0\<rparr>]"

lemma sampleCharges_nonneg: "nonnegCharges sampleCharges"
  by (simp add: sampleCharges_def nonnegCharges_def)

theorem planSpend_closed_form_witness:
  "planSpend (sumUsableBalance sampleCharges) sampleCharges (JInt 90) False =
     Inr \<lparr>pl_paidUsage = 80, pl_freeUsage = 10, pl_allocations = allocSpec 80 10 sampleCharges,
       pl_assumedBalance = \<lparr>ps_paidAmount = 80, ps_freeAmount = 20, ps_totalAmount = 100\<rparr>,
       pl_balanceAfter = \<lparr>ps_paidAmount = 0, ps_freeAmount = 10, ps_totalAmount = 10\<rparr>\<rparr>"
  by (subst planSpend_closed_form [OF sampleCharges_nonneg])
    (auto simp: sumUsableBalance_eq sampleCharges_def isValidPointAmount_def usages_def)

text \<open>on a consistent ledger (the snapshot is the sum of charges without negative sides) a
  spend never finds the ledger inconsistent: it yields a plan exactly when the amount is a
  positive integer within the balance, and the plan drains the preferred side first.
\<close>

theorem planSpend_total_on_consistent_ledger:
  assumes "nonnegCharges cs"
  shows "(\<exists>plan. planSpend (sumUsableBalance cs) cs amount preferFree = Inr plan \<and>
            (if preferFree
             then pl_freeUsage plan = min (intOf amount) (ps_freeAmount (sumUsableBalance cs))
             else pl_paidUsage plan = min (intOf amount) (ps_paidAmount (sumUsableBalance cs))))
     \<longleftrightarrow> isValidPointAmount amount \<and> intOf amount \<le> ps_totalAmount (sumUsableBalance cs)"
proof
  assume "\<exists>plan. planSpend (sumUsableBalance cs) cs amount preferFree = Inr plan \<and>
            (if preferFree
             then pl_freeUsage plan = min (intOf amount) (ps_freeAmount (sumUsableBalance cs))
             else pl_paidUsage plan = min (intOf amount) (ps_paidAmount (sumUsableBalance cs)))"
  then show "isValidPointAmount amount \<and> intOf amount \<le> ps_totalAmount (sumUsableBalance cs)"
    using planSpend_plan(6,7) by blast
next
  assume ok: "isValidPointAmount amount \<and> intOf amount \<le> ps_totalAmount (sumUsableBalance cs)"
  then obtain plan where plan: "planSpend (sumUsableBalance cs) cs amount preferFree = Inr plan"
    using planSpend_succeeds [OF assms] by blast
  then have "pl_paidUsage plan = fst (usages (sumUsableBalance cs) (intOf amount) preferFree)"
    "pl_freeUsage plan = snd (usages (sumUsableBalance cs) (intOf amount) preferFree)"
    by (auto simp: planSpend_eq_Inr)
  with plan show "\<exists>plan. planSpend (sumUsableBalance cs) cs amount preferFree = Inr plan \<and>
            (if preferFree
             then pl_freeUsage plan = min (intOf amount) (ps_freeAmount (sumUsableBalance cs))
             else pl_paidUsage plan = min (intOf amount) (ps_paidAmount (sumUsableBalance cs)))"
    by (auto simp: usages_def Let_def)
qed

theorem planSpend_total_on_consistent_ledger_witness:
  "\<exists>plan. planSpend (sumUsableBalance sampleCharges) sampleCharges (JInt 100) True = Inr plan \<and>
     pl_freeUsage plan = 20"
  using planSpend_total_on_consistent_ledger [OF sampleCharges_nonneg, of "JInt 100" True]
  by (auto simp: isValidPointAmount_def sumUsableBalance_eq sampleCharges_def)

section \<open>The decisions of a charge and of a transfer\<close>

lemma planCharge_eq_Inr:
  "planCharge paid free now = Inr plan \<longleftrightarrow>
     isValidChargeSide paid \<and> isValidChargeSide free \<and> intOf paid + intOf free \<noteq> 0 \<and>
     plan = \<lparr>cp_paidAmount = intOf paid, cp_freeAmount = intOf free,
             cp_totalAmount = intOf paid + intOf free, cp_chargedAt = now\<rparr>"
  by (auto simp: planCharge_def)

lemma planCharge_plan:
  assumes "planCharge paid free now = Inr plan"
  shows "0 \<le> cp_paidAmount plan" "0 \<le> cp_freeAmount plan" "0 < cp_totalAmount plan"
    "cp_totalAmount plan = cp_paidAmount plan + cp_freeAmount plan" "cp_chargedAt plan = now"
  using assms by (auto simp: planCharge_eq_Inr isValidChargeSide_def)

lemma planTransfer_eq_Inr:
  "planTransfer a b snap cs amount now pf = Inr plan \<longleftrightarrow> a \<noteq> b \<and>
     (\<exists>spend charge. planSpend snap cs amount pf = Inr spend \<and>
        planCharge (JInt (pl_paidUsage spend)) (JInt (pl_freeUsage spend)) now = Inr charge \<and>
        plan = \<lparr>tp_spend = spend, tp_charge = charge\<rparr>)"
  by (auto simp: planTransfer_def rbind_eq_Inr)

text \<open>a transfer conserves each kind of point: what the receiver is credited of paid and of
  free points is what the charges of the sender are debited of each, and together the
  requested amount; the sender's own spend is the plain spend decision.
\<close>

theorem planTransfer_conserves_kinds:
  assumes "planTransfer fromUserId toUserId snap cs amount now preferFree = Inr plan"
  shows "fromUserId \<noteq> toUserId \<and> planSpend snap cs amount preferFree = Inr (tp_spend plan) \<and>
    cp_paidAmount (tp_charge plan) = (\<Sum>a\<leftarrow>pl_allocations (tp_spend plan). sa_paid a) \<and>
    cp_freeAmount (tp_charge plan) = (\<Sum>a\<leftarrow>pl_allocations (tp_spend plan). sa_free a) \<and>
    amount = JInt (cp_totalAmount (tp_charge plan))"
proof -
  from assms obtain spend charge where s: "planSpend snap cs amount preferFree = Inr spend"
    and c: "planCharge (JInt (pl_paidUsage spend)) (JInt (pl_freeUsage spend)) now = Inr charge"
    and plan: "plan = \<lparr>tp_spend = spend, tp_charge = charge\<rparr>" and "fromUserId \<noteq> toUserId"
    by (auto simp: planTransfer_eq_Inr)
  moreover have "amount = JInt (intOf amount)"
    using planSpend_plan(6) [OF s] by (simp add: isValidPointAmount_def isInteger_iff)
  ultimately show ?thesis
    using planSpend_plan(1-3) [OF s] by (auto simp: planCharge_eq_Inr)
qed

theorem planTransfer_conserves_kinds_witness:
  "\<exists>plan. planTransfer 1 2 (sumUsableBalance sampleCharges) sampleCharges (JInt 90) 5 False = Inr plan \<and>
     cp_paidAmount (tp_charge plan) = (\<Sum>a\<leftarrow>pl_allocations (tp_spend plan). sa_paid a)"
proof -
  have "\<exists>plan. planTransfer 1 2 (sumUsableBalance sampleCharges) sampleCharges (JInt 90) 5 False = Inr plan"
    by (simp add: planTransfer_def planSpend_def planCharge_def usages_def assertValidAmount_def
        isValidPointAmount_def isValidChargeSide_def sumUsableBalance_eq sampleCharges_def)
  then show ?thesis using planTransfer_conserves_kinds by blast
qed

section \<open>The decision of an expiry\<close>

definition isDue :: "dayjs \<Rightarrow> instant \<Rightarrow> ExpirableCharge \<Rightarrow> bool" where
  "isDue dj now c \<longleftrightarrow> chargeDeadline dj (ec_chargedAt c) \<le> now"

definition expirationOf :: "ExpirableCharge \<Rightarrow> ChargeExpiration" where
  "expirationOf c = \<lparr>cx_chargeId = ec_id c, cx_expiredPaid = ec_unspentPaid c,
     cx_expiredFree = ec_unspentFree c,
     cx_assumed = \<lparr>au_unspentPaid = ec_unspentPaid c, au_unspentFree = ec_unspentFree c\<rparr>\<rparr>"

definition balanceOf :: "ExpirableCharge \<Rightarrow> ChargeBalance" where
  "balanceOf c = \<lparr>cb_id = ec_id c, cb_unspentPaid = ec_unspentPaid c, cb_unspentFree = ec_unspentFree c\<rparr>"

lemma expireCharges_eq:
  "expireCharges dj now cs = (map expirationOf (filter (isDue dj now) cs),
     \<Sum>c\<leftarrow>filter (isDue dj now) cs. ec_unspentPaid c, \<Sum>c\<leftarrow>filter (isDue dj now) cs. ec_unspentFree c)"
  by (induction cs) (auto simp: isDue_def expirationOf_def)

lemma planExpiry_eq:
  "planExpiry dj snap cs now =
    \<lparr>xp_expirations = map expirationOf (filter (isDue dj now) cs), xp_expiredAt = now,
     xp_assumedBalance = snap, xp_balanceAfter = \<lparr>
       ps_paidAmount = ps_paidAmount snap - (\<Sum>c\<leftarrow>filter (isDue dj now) cs. ec_unspentPaid c),
       ps_freeAmount = ps_freeAmount snap - (\<Sum>c\<leftarrow>filter (isDue dj now) cs. ec_unspentFree c),
       ps_totalAmount = ps_totalAmount snap - (\<Sum>c\<leftarrow>filter (isDue dj now) cs. ec_unspentPaid c)
         - (\<Sum>c\<leftarrow>filter (isDue dj now) cs. ec_unspentFree c)\<rparr>\<rparr>"
  by (simp add: planExpiry_def expireCharges_eq)

lemma isDue_iff_day:
  assumes "dayjs_utc dj"
  shows "isDue dj now c \<longleftrightarrow> kstDay (now + 1) > kstDay (ec_chargedAt c) + EXPIRE_AFTER_DAYS"
proof -
  have "isDue dj now c \<longleftrightarrow> now + 1 > kstEndOfDay dj (addDays dj (ec_chargedAt c) EXPIRE_AFTER_DAYS)"
    by (auto simp: isDue_def chargeDeadline_def)
  then show ?thesis by (simp only: kstEndOfDay_le_iff [OF assms] kstDay_addDays [OF assms])
qed

lemma isDue_mono: "now \<le> later \<Longrightarrow> isDue dj now c \<Longrightarrow> isDue dj later c"
  by (simp add: isDue_def)

text \<open>Older charges are due first: what is due of a list in FIFO order is a prefix of it.\<close>

lemma due_prefix:
  assumes "dayjs_utc dj" "sorted (map ec_chargedAt cs)"
  shows "filter (isDue dj now) cs = takeWhile (isDue dj now) cs"
  using assms(2)
proof (induction cs)
  case Nil
  then show ?case by simp
next
  case (Cons c cs)
  have "\<not> isDue dj now d" if "\<not> isDue dj now c" "d \<in> set cs" for d
  proof -
    have "ec_chargedAt c \<le> ec_chargedAt d" using Cons.prems that(2) by auto
    then have "kstDay (ec_chargedAt c) \<le> kstDay (ec_chargedAt d)" by (rule kstDay_mono)
    with that(1) show ?thesis by (simp add: isDue_iff_day [OF assms(1)])
  qed
  with Cons show ?case by (auto simp: filter_empty_conv)
qed

lemma filter_prefix_rest:
  "filter p xs = takeWhile p xs \<Longrightarrow> dropWhile p xs = filter (\<lambda>x. \<not> p x) xs"
proof (induction xs)
  case Nil
  then show ?case by simp
next
  case (Cons x xs)
  show ?case
  proof (cases "p x")
    case True
    with Cons show ?thesis by simp
  next
    case False
    with Cons.prems have "filter p xs = []" by simp
    with False show ?thesis by (auto simp: filter_empty_conv filter_id_conv)
  qed
qed

lemma sum_filter_split:
  fixes g :: "'a \<Rightarrow> int"
  shows "(\<Sum>x\<leftarrow>xs. g x) = (\<Sum>x\<leftarrow>filter p xs. g x) + (\<Sum>x\<leftarrow>filter (\<lambda>x. \<not> p x) xs. g x)"
  by (induction xs) auto

text \<open>an expiry takes exactly the charges whose business day has passed by a year: on the
  charges in FIFO order it expires a prefix, each charge of it when the KST calendar day of
  the next instant is more than 365 days after the one of the charge; on a consistent world
  the balance it leaves is the sum of the charges it leaves.
\<close>

theorem planExpiry_expires_due:
  assumes dj: "dayjs_utc dj" and sorted: "sorted (map ec_chargedAt cs)"
    and consistent: "snap = sumUsableBalance (map balanceOf cs)"
  shows "let due = (\<lambda>c. kstDay (now + 1) > kstDay (ec_chargedAt c) + EXPIRE_AFTER_DAYS);
             plan = planExpiry dj snap cs now
    in xp_expirations plan = map expirationOf (takeWhile due cs) \<and>
       dropWhile due cs = filter (\<lambda>c. \<not> due c) cs \<and>
       xp_balanceAfter plan = sumUsableBalance (map balanceOf (dropWhile due cs))"
proof -
  let ?due = "\<lambda>c. kstDay (now + 1) > kstDay (ec_chargedAt c) + EXPIRE_AFTER_DAYS"
  have due: "isDue dj now = ?due" by (rule ext) (simp add: isDue_iff_day [OF dj])
  have pre: "filter ?due cs = takeWhile ?due cs"
    using due_prefix [OF dj sorted, of now] by (simp add: due)
  have post: "dropWhile ?due cs = filter (\<lambda>c. \<not> ?due c) cs"
    by (rule filter_prefix_rest [OF pre])
  have "xp_balanceAfter (planExpiry dj snap cs now)
      = sumUsableBalance (map balanceOf (filter (\<lambda>c. \<not> ?due c) cs))"
    using sum_filter_split [of ec_unspentPaid cs ?due] sum_filter_split [of ec_unspentFree cs ?due]
    by (simp add: planExpiry_eq due consistent sumUsableBalance_eq comp_def balanceOf_def)
  then show ?thesis by (simp add: planExpiry_eq due pre post Let_def)
qed

theorem planExpiry_expires_due_witness:
  "xp_expirations (planExpiry dayjsArith \<lparr>ps_paidAmount = 12, ps_freeAmount = 0, ps_totalAmount = 12\<rparr>
     [\<lparr>ec_id = 1, ec_unspentPaid = 5, ec_unspentFree = 0, ec_chargedAt = 0\<rparr>,
      \<lparr>ec_id = 2, ec_unspentPaid = 7, ec_unspentFree = 0, ec_chargedAt = 86400000\<rparr>] 31590000000) =
   [expirationOf \<lparr>ec_id = 1, ec_unspentPaid = 5, ec_unspentFree = 0, ec_chargedAt = 0\<rparr>]"
proof -
  let ?cs = "[\<lparr>ec_id = 1, ec_unspentPaid = 5, ec_unspentFree = 0, ec_chargedAt = 0\<rparr>,
      \<lparr>ec_id = 2, ec_unspentPaid = 7, ec_unspentFree = 0, ec_chargedAt = 86400000\<rparr>]"
  have "sorted (map ec_chargedAt ?cs)" by simp
  from planExpiry_expires_due [OF dayjsArith_utc this refl, of 31590000000] show ?thesis
    by (simp add: Let_def sumUsableBalance_eq balanceOf_def kstDay_def msPerDay_def msPerHour_def
        EXPIRE_AFTER_DAYS_def)
qed

end
