(* ===== verification/PointRepo.thy ===== *)
theory PointRepo
  imports Schema PointCore
begin

text \<open>
  Point persistence: the executors of \<open>src/modules/point/point.write.repo.ts\<close> (the world a
  decision reads, the plans applied with their optimistic guards) and the projections of
  \<open>src/modules/point/point.read.repo.ts\<close>; and the ledger invariant that every executor keeps.
\<close>

section \<open>Reads\<close>

definition ZERO_SNAPSHOT :: PointSnapshot where
  "ZERO_SNAPSHOT = \<lparr>ps_paidAmount = 0, ps_freeAmount = 0, ps_totalAmount = 0\<rparr>"

definition balanceSnapshot :: "balance_row \<Rightarrow> PointSnapshot" where
  "balanceSnapshot b = \<lparr>ps_paidAmount = b_paidAmount b, ps_freeAmount = b_freeAmount b,
     ps_totalAmount = b_totalAmount b\<rparr>"

record PointWorld =
  pw_snapshot :: PointSnapshot
  pw_charges :: "ChargeBalance list"

record ExpiryWorld =
  xw_snapshot :: PointSnapshot
  xw_charges :: "ExpirableCharge list"

definition isUsableOf :: "int \<Rightarrow> charge_row \<Rightarrow> bool" where
  "isUsableOf userId c \<longleftrightarrow> c_userId c = userId \<and> c_state c = ''USABLE''"

text \<open>The USABLE charges of a user, ordered by \<open>chargedAt\<close> and then \<open>id\<close>.\<close>

definition usableCharges :: "int \<Rightarrow> db \<Rightarrow> charge_row list" where
  "usableCharges userId s =
     sort_key (\<lambda>c. (c_chargedAt c, c_id c)) (filter (isUsableOf userId) (pointCharges s))"

definition storedSnapshot :: "int \<Rightarrow> db \<Rightarrow> PointSnapshot" where
  "storedSnapshot userId s =
     (case findRow (\<lambda>b. b_userId b = userId) (pointBalances s) of
        None \<Rightarrow> ZERO_SNAPSHOT | Some b \<Rightarrow> balanceSnapshot b)"

definition toChargeBalance :: "charge_row \<Rightarrow> ChargeBalance" where
  "toChargeBalance c = \<lparr>cb_id = c_id c, cb_unspentPaid = c_unspentPaid c, cb_unspentFree = c_unspentFree c\<rparr>"

definition toExpirable :: "charge_row \<Rightarrow> ExpirableCharge" where
  "toExpirable c = \<lparr>ec_id = c_id c, ec_unspentPaid = c_unspentPaid c,
     ec_unspentFree = c_unspentFree c, ec_chargedAt = c_chargedAt c\<rparr>"

definition loadPointWorld :: "int \<Rightarrow> db \<Rightarrow> PointWorld" where
  "loadPointWorld userId s = \<lparr>pw_snapshot = storedSnapshot userId s,
     pw_charges = map toChargeBalance (usableCharges userId s)\<rparr>"

definition loadExpiryWorld :: "int \<Rightarrow> db \<Rightarrow> ExpiryWorld" where
  "loadExpiryWorld userId s = \<lparr>xw_snapshot = storedSnapshot userId s,
     xw_charges = map toExpirable (usableCharges userId s)\<rparr>"

definition findUserIdsWithBalanceOrUsableCharges :: "db \<Rightarrow> int list" where
  "findUserIdsWithBalanceOrUsableCharges s =
     sort (remdups (map b_userId (pointBalances s) @
       map c_userId (filter (\<lambda>c. c_state c = ''USABLE'') (pointCharges s))))"

section \<open>Executors\<close>

definition putCharges :: "charge_row list \<Rightarrow> db \<Rightarrow> db" where
  "putCharges rows s = s\<lparr>pointCharges := rows\<rparr>"

definition putBalances :: "balance_row list \<Rightarrow> db \<Rightarrow> db" where
  "putBalances rows s = s\<lparr>pointBalances := rows\<rparr>"

definition assumedCharge :: "int \<Rightarrow> AssumedUnspent \<Rightarrow> charge_row \<Rightarrow> bool" where
  "assumedCharge chargeId assumed c \<longleftrightarrow> c_id c = chargeId \<and> c_state c = ''USABLE'' \<and>
     c_unspentPaid c = au_unspentPaid assumed \<and> c_unspentFree c = au_unspentFree assumed"

definition consumeCharge :: "SpendAllocation \<Rightarrow> charge_row \<Rightarrow> charge_row" where
  "consumeCharge a c = c\<lparr>c_state := (if sa_depleted a then ''CONSUMED'' else c_state c),
     c_unspentPaid := c_unspentPaid c - sa_paid a, c_unspentFree := c_unspentFree c - sa_free a\<rparr>"

definition applyAllocation :: "SpendAllocation \<Rightarrow> unit dbtx" where
  "applyAllocation a = guardedUpdate pointCharges putCharges
     (assumedCharge (sa_chargeId a) (sa_assumed a)) (consumeCharge a)
     (ConcurrentUpdateError (''point charge '' @ showInt (sa_chargeId a)))"

text \<open>The guarded write of a user's balance.\<close>

definition assumedBalanceRow :: "int \<Rightarrow> PointSnapshot \<Rightarrow> balance_row \<Rightarrow> bool" where
  "assumedBalanceRow userId snap b \<longleftrightarrow> b_userId b = userId \<and> b_paidAmount b = ps_paidAmount snap \<and>
     b_freeAmount b = ps_freeAmount snap \<and> b_totalAmount b = ps_totalAmount snap"

definition setBalance :: "PointSnapshot \<Rightarrow> balance_row \<Rightarrow> balance_row" where
  "setBalance snap b = b\<lparr>b_paidAmount := ps_paidAmount snap, b_freeAmount := ps_freeAmount snap,
     b_totalAmount := ps_totalAmount snap\<rparr>"

definition applyBalance :: "int \<Rightarrow> PointSnapshot \<Rightarrow> PointSnapshot \<Rightarrow> unit dbtx" where
  "applyBalance userId assumed after = guardedUpdate pointBalances putBalances
     (assumedBalanceRow userId assumed) (setBalance after)
     (ConcurrentUpdateError (''point balance of user '' @ showInt userId))"

definition createSpend :: "engine \<Rightarrow> int \<Rightarrow> string \<Rightarrow> SpendPlan \<Rightarrow> spend_row dbtx" where
  "createSpend eng userId reason plan = (\<lambda>s.
     let row = \<lparr>sp_id = e_nextId eng ''PointSpend'' s, sp_userId = userId,
           sp_paidAmount = pl_paidUsage plan, sp_freeAmount = pl_freeUsage plan,
           sp_totalAmount = pl_paidUsage plan + pl_freeUsage plan, sp_reason = reason,
           sp_createdAt = e_now eng s\<rparr>
     in Inr (row, s\<lparr>pointSpends := pointSpends s @ [row]\<rparr>))"

definition applySpendPlan :: "engine \<Rightarrow> int \<Rightarrow> string \<Rightarrow> SpendPlan \<Rightarrow> spend_row dbtx" where
  "applySpendPlan eng userId reason plan =
     bindT (forEachT applyAllocation (pl_allocations plan)) (\<lambda>_.
     bindT (applyBalance userId (pl_assumedBalance plan) (pl_balanceAfter plan)) (\<lambda>_.
     createSpend eng userId reason plan))"

definition createCharge :: "engine \<Rightarrow> int \<Rightarrow> ChargePlan \<Rightarrow> charge_row dbtx" where
  "createCharge eng userId plan = (\<lambda>s.
     let row = \<lparr>c_id = e_nextId eng ''PointCharge'' s, c_userId = userId, c_state = ''USABLE'',
           c_paidAmount = cp_paidAmount plan, c_freeAmount = cp_freeAmount plan,
           c_unspentPaid = cp_paidAmount plan, c_unspentFree = cp_freeAmount plan,
           c_chargedAt = cp_chargedAt plan, c_expiredAt = None\<rparr>
     in Inr (row, s\<lparr>pointCharges := pointCharges s @ [row]\<rparr>))"

definition creditBalance :: "ChargePlan \<Rightarrow> balance_row \<Rightarrow> balance_row" where
  "creditBalance plan b = b\<lparr>b_paidAmount := b_paidAmount b + cp_paidAmount plan,
     b_freeAmount := b_freeAmount b + cp_freeAmount plan,
     b_totalAmount := b_totalAmount b + cp_totalAmount plan\<rparr>"

definition upsertBalance :: "int \<Rightarrow> ChargePlan \<Rightarrow> unit dbtx" where
  "upsertBalance userId plan = (\<lambda>s.
     Inr ((), putBalances
       (if \<exists>b \<in> set (pointBalances s). b_userId b = userId
        then updateWhere (\<lambda>b. b_userId b = userId) (creditBalance plan) (pointBalances s)
        else pointBalances s @ [\<lparr>b_userId = userId, b_paidAmount = cp_paidAmount plan,
               b_freeAmount = cp_freeAmount plan, b_totalAmount = cp_totalAmount plan\<rparr>]) s))"

definition applyChargePlan :: "engine \<Rightarrow> int \<Rightarrow> ChargePlan \<Rightarrow> charge_row dbtx" where
  "applyChargePlan eng userId plan =
     bindT (createCharge eng userId plan) (\<lambda>charge.
     bindT (upsertBalance userId plan) (\<lambda>_.
     returnT charge))"

definition applyTransferPlan ::
  "engine \<Rightarrow> int \<Rightarrow> int \<Rightarrow> TransferPlan \<Rightarrow> (spend_row \<times> charge_row) dbtx" where
  "applyTransferPlan eng fromUserId toUserId plan =
     bindT (applySpendPlan eng fromUserId (''transfer to user '' @ showInt toUserId) (tp_spend plan)) (\<lambda>spend.
     bindT (applyChargePlan eng toUserId (tp_charge plan)) (\<lambda>charge.
     returnT (spend, charge)))"

definition expireRow :: "instant \<Rightarrow> charge_row \<Rightarrow> charge_row" where
  "expireRow expiredAt c = c\<lparr>c_state := ''EXPIRED'', c_unspentPaid := 0, c_unspentFree := 0,
     c_expiredAt := Some expiredAt\<rparr>"

definition applyExpiration :: "instant \<Rightarrow> ChargeExpiration \<Rightarrow> unit dbtx" where
  "applyExpiration expiredAt x = guardedUpdate pointCharges putCharges
     (assumedCharge (cx_chargeId x) (cx_assumed x)) (expireRow expiredAt)
     (ConcurrentUpdateError (''point charge '' @ showInt (cx_chargeId x)))"

definition applyExpiryPlan :: "int \<Rightarrow> ExpiryPlan \<Rightarrow> nat dbtx" where
  "applyExpiryPlan userId plan =
     (if length (xp_expirations plan) = 0 then returnT 0
      else bindT (forEachT (applyExpiration (xp_expiredAt plan)) (xp_expirations plan)) (\<lambda>_.
           bindT (applyBalance userId (xp_assumedBalance plan) (xp_balanceAfter plan)) (\<lambda>_.
           returnT (length (xp_expirations plan)))))"

section \<open>Projections\<close>

definition findBalance :: "int \<Rightarrow> db \<Rightarrow> balance_row option" where
  "findBalance userId s = findRow (\<lambda>b. b_userId b = userId) (pointBalances s)"

definition findCharges :: "int \<Rightarrow> db \<Rightarrow> charge_row list" where
  "findCharges userId s =
     sort_key (\<lambda>c. (c_chargedAt c, c_id c)) (filter (\<lambda>c. c_userId c = userId) (pointCharges s))"

definition findSpends :: "int \<Rightarrow> db \<Rightarrow> spend_row list" where
  "findSpends userId s =
     sort_key (\<lambda>sp. - sp_createdAt sp) (filter (\<lambda>sp. sp_userId sp = userId) (pointSpends s))"

definition getChargeById :: "int \<Rightarrow> db \<Rightarrow> thrown + charge_row" where
  "getChargeById i s = orThrow (findRow (\<lambda>c. c_id c = i) (pointCharges s))"

definition getSpendById :: "int \<Rightarrow> db \<Rightarrow> thrown + spend_row" where
  "getSpendById i s = orThrow (findRow (\<lambda>sp. sp_id sp = i) (pointSpends s))"

section \<open>The ledger invariant\<close>

text \<open>
  A charge row is well formed when its remainders lie within what was charged and it is
  USABLE exactly while something of it is left. A ledger is consistent when every stored
  balance is the sum of the USABLE charges of its user.
\<close>

definition charge_ok :: "charge_row \<Rightarrow> bool" where
  "charge_ok c \<longleftrightarrow> isPointChargeState (c_state c) \<and>
     0 \<le> c_unspentPaid c \<and> c_unspentPaid c \<le> c_paidAmount c \<and>
     0 \<le> c_unspentFree c \<and> c_unspentFree c \<le> c_freeAmount c \<and>
     (c_state c = ''USABLE'' \<longleftrightarrow> 0 < c_unspentPaid c + c_unspentFree c)"

definition usableSum :: "(charge_row \<Rightarrow> int) \<Rightarrow> int \<Rightarrow> db \<Rightarrow> int" where
  "usableSum f userId s = (\<Sum>c\<leftarrow>filter (isUsableOf userId) (pointCharges s). f c)"

definition ledgerSnapshot :: "int \<Rightarrow> db \<Rightarrow> PointSnapshot" where
  "ledgerSnapshot userId s = \<lparr>ps_paidAmount = usableSum c_unspentPaid userId s,
     ps_freeAmount = usableSum c_unspentFree userId s,
     ps_totalAmount = usableSum c_unspentPaid userId s + usableSum c_unspentFree userId s\<rparr>"

definition ledger_ok :: "db \<Rightarrow> bool" where
  "ledger_ok s \<longleftrightarrow> distinct (map c_id (pointCharges s)) \<and> distinct (map b_userId (pointBalances s)) \<and>
     (\<forall>c \<in> set (pointCharges s). charge_ok c) \<and> (\<forall>u. storedSnapshot u s = ledgerSnapshot u s)"

text \<open>What a point transaction may touch: charges, balances and spends.\<close>

definition point_frame :: "db \<Rightarrow> db \<Rightarrow> bool" where
  "point_frame s s' \<longleftrightarrow> s' = s\<lparr>pointCharges := pointCharges s', pointBalances := pointBalances s',
     pointSpends := pointSpends s'\<rparr>"

text \<open>A charge never changes its owner.\<close>

definition owners :: "db \<Rightarrow> (int \<times> int) list" where
  "owners s = map (\<lambda>c. (c_id c, c_userId c)) (pointCharges s)"

lemma ids_of_owners: "map c_id (pointCharges s) = map fst (owners s)"
  by (simp add: owners_def comp_def)

lemma set_usableCharges: "set (usableCharges u s) = {c \<in> set (pointCharges s). isUsableOf u c}"
  by (simp add: usableCharges_def)

lemma sum_usableCharges: "(\<Sum>c\<leftarrow>usableCharges u s. f c) = usableSum f u s"
  by (simp add: usableCharges_def usableSum_def sum_list_sort_key)

lemma world_sum: "sumUsableBalance (map toChargeBalance (usableCharges u s)) = ledgerSnapshot u s"
  by (simp add: sumUsableBalance_eq ledgerSnapshot_def toChargeBalance_def comp_def sum_usableCharges)

lemma expiry_world_sum:
  "sumUsableBalance (map balanceOf (map toExpirable (usableCharges u s))) = ledgerSnapshot u s"
  by (simp add: sumUsableBalance_eq ledgerSnapshot_def toExpirable_def balanceOf_def comp_def
      sum_usableCharges)

lemma world_nonneg:
  "ledger_ok s \<Longrightarrow> nonnegCharges (map toChargeBalance (usableCharges u s))"
  by (auto simp: nonnegCharges_def toChargeBalance_def ledger_ok_def charge_ok_def set_usableCharges)

lemma world_consistent:
  "ledger_ok s \<Longrightarrow> pw_snapshot (loadPointWorld u s) = sumUsableBalance (pw_charges (loadPointWorld u s))"
  by (simp add: loadPointWorld_def world_sum ledger_ok_def)

lemma usableSum_as_sum:
  "usableSum f u s = (\<Sum>c\<leftarrow>pointCharges s. if isUsableOf u c then f c else 0)"
  by (simp add: usableSum_def sum_list_map_filter')

text \<open>A guarded update of one charge row, whatever it writes.\<close>

lemma guarded_charge_update:
  assumes "guardedUpdate pointCharges putCharges p g e s = Inr (x, s')"
    and keep: "\<And>c. c_id (g c) = c_id c \<and> c_userId (g c) = c_userId c"
  obtains r where "r \<in> set (pointCharges s)" "p r" "owners s' = owners s"
    "\<And>f u. usableSum f u s' = usableSum f u s +
        ((if isUsableOf u (g r) then f (g r) else 0) - (if isUsableOf u r then f r else 0))"
    "\<And>P. (\<forall>c \<in> set (pointCharges s). P c) \<Longrightarrow> P (g r) \<Longrightarrow> (\<forall>c \<in> set (pointCharges s'). P c)"
    "s' = s\<lparr>pointCharges := pointCharges s'\<rparr>"
proof -
  from assms(1) have one: "countWhere p (pointCharges s) = 1"
    and s': "s' = putCharges (updateWhere p g (pointCharges s)) s" by (auto simp: tx_simps)
  from one obtain r where r: "r \<in> set (pointCharges s)" "p r" "filter p (pointCharges s) = [r]"
    by (rule countWhere_oneE)
  have charges: "pointCharges s' = updateWhere p g (pointCharges s)" by (simp add: s' putCharges_def)
  have "owners s' = owners s"
    by (simp add: owners_def charges updateWhere_def keep)
  moreover have "usableSum f u s' = usableSum f u s +
        ((if isUsableOf u (g r) then f (g r) else 0) - (if isUsableOf u r then f r else 0))" for f u
    unfolding usableSum_as_sum charges sum_list_updateWhere r(3) by simp
  moreover have "\<forall>c \<in> set (pointCharges s'). P c"
    if "\<forall>c \<in> set (pointCharges s). P c" "P (g r)" for P
  proof
    fix c assume "c \<in> set (pointCharges s')"
    then obtain d where d: "d \<in> set (pointCharges s)" "c = (if p d then g d else d)"
      by (auto simp: charges set_updateWhere)
    show "P c"
    proof (cases "p d")
      case True
      with d(1) have "d \<in> set (filter p (pointCharges s))" by simp
      with r(3) True d(2) that show ?thesis by simp
    next
      case False
      with d that show ?thesis by simp
    qed
  qed
  moreover have "s' = s\<lparr>pointCharges := pointCharges s'\<rparr>" by (simp add: s' putCharges_def)
  ultimately show ?thesis using that r by blast
qed

section \<open>Spending\<close>

definition allocation_ok :: "SpendAllocation \<Rightarrow> bool" where
  "allocation_ok a \<longleftrightarrow> 0 \<le> sa_paid a \<and> sa_paid a \<le> au_unspentPaid (sa_assumed a) \<and>
     0 \<le> sa_free a \<and> sa_free a \<le> au_unspentFree (sa_assumed a) \<and>
     (sa_depleted a \<longleftrightarrow> sa_paid a = au_unspentPaid (sa_assumed a) \<and>
        sa_free a = au_unspentFree (sa_assumed a))"

text \<open>An allocation is of a charge of the user, if that charge exists.\<close>

definition allocated_to :: "int \<Rightarrow> int \<Rightarrow> db \<Rightarrow> bool" where
  "allocated_to userId chargeId s \<longleftrightarrow> (\<forall>u. (chargeId, u) \<in> set (owners s) \<longrightarrow> u = userId)"

lemma consumeCharge_key: "c_id (consumeCharge a c) = c_id c \<and> c_userId (consumeCharge a c) = c_userId c"
  by (simp add: consumeCharge_def)

lemma expireRow_key: "c_id (expireRow t c) = c_id c \<and> c_userId (expireRow t c) = c_userId c"
  by (simp add: expireRow_def)

lemma applyAllocation_effect:
  assumes ok: "applyAllocation a s = Inr (x, s')" and a: "allocation_ok a"
    and own: "allocated_to userId (sa_chargeId a) s"
    and rows: "\<forall>c \<in> set (pointCharges s). charge_ok c"
  shows "owners s' = owners s" "\<forall>c \<in> set (pointCharges s'). charge_ok c"
    "usableSum c_unspentPaid u s' = usableSum c_unspentPaid u s - (if u = userId then sa_paid a else 0)"
    "usableSum c_unspentFree u s' = usableSum c_unspentFree u s - (if u = userId then sa_free a else 0)"
    "s' = s\<lparr>pointCharges := pointCharges s'\<rparr>"
proof -
  obtain r where r: "r \<in> set (pointCharges s)" "assumedCharge (sa_chargeId a) (sa_assumed a) r"
    and owners: "owners s' = owners s"
    and sums: "\<And>f u. usableSum f u s' = usableSum f u s +
        ((if isUsableOf u (consumeCharge a r) then f (consumeCharge a r) else 0)
          - (if isUsableOf u r then f r else 0))"
    and rows': "\<And>P. (\<forall>c \<in> set (pointCharges s). P c) \<Longrightarrow> P (consumeCharge a r) \<Longrightarrow>
        (\<forall>c \<in> set (pointCharges s'). P c)"
    and frame: "s' = s\<lparr>pointCharges := pointCharges s'\<rparr>"
    using guarded_charge_update [OF ok [unfolded applyAllocation_def] consumeCharge_key] by metis
  show "owners s' = owners s" "s' = s\<lparr>pointCharges := pointCharges s'\<rparr>" by fact+
  have user: "c_userId r = userId"
    using own r by (force simp: allocated_to_def owners_def assumedCharge_def)
  have "charge_ok (consumeCharge a r)"
    using rows r a
    by (auto simp: charge_ok_def consumeCharge_def assumedCharge_def allocation_ok_def
        isPointChargeState_def POINT_CHARGE_STATES_def)
  then show "\<forall>c \<in> set (pointCharges s'). charge_ok c" using rows rows' by blast
  show "usableSum c_unspentPaid u s' = usableSum c_unspentPaid u s - (if u = userId then sa_paid a else 0)"
    "usableSum c_unspentFree u s' = usableSum c_unspentFree u s - (if u = userId then sa_free a else 0)"
    unfolding sums using r(2) user a
    by (auto simp: isUsableOf_def consumeCharge_def assumedCharge_def allocation_ok_def)
qed

lemma forEach_allocations_effect:
  assumes "forEachT applyAllocation as s = Inr (x, s')"
    and "\<forall>a \<in> set as. allocation_ok a" "\<forall>a \<in> set as. allocated_to userId (sa_chargeId a) s"
    and "\<forall>c \<in> set (pointCharges s). charge_ok c"
  shows "owners s' = owners s \<and> (\<forall>c \<in> set (pointCharges s'). charge_ok c) \<and>
    (\<forall>u. usableSum c_unspentPaid u s' =
       usableSum c_unspentPaid u s - (if u = userId then (\<Sum>a\<leftarrow>as. sa_paid a) else 0)) \<and>
    (\<forall>u. usableSum c_unspentFree u s' =
       usableSum c_unspentFree u s - (if u = userId then (\<Sum>a\<leftarrow>as. sa_free a) else 0)) \<and>
    s' = s\<lparr>pointCharges := pointCharges s'\<rparr>"
  using assms
proof (induction as arbitrary: s x)
  case Nil
  then show ?case by (simp add: tx_simps)
next
  case (Cons a as)
  from Cons.prems(1) obtain y s1 where s1: "applyAllocation a s = Inr (y, s1)"
    and rest: "forEachT applyAllocation as s1 = Inr (x, s')"
    by (auto simp: tx_simps)
  have a: "allocation_ok a" "allocated_to userId (sa_chargeId a) s" using Cons.prems by auto
  note step = applyAllocation_effect [OF s1 a Cons.prems(4)]
  have "\<forall>a \<in> set as. allocated_to userId (sa_chargeId a) s1"
    using Cons.prems(3) by (simp add: allocated_to_def step(1))
  moreover have "\<forall>a \<in> set as. allocation_ok a" using Cons.prems(2) by simp
  ultimately have ih: "owners s' = owners s1 \<and> (\<forall>c \<in> set (pointCharges s'). charge_ok c) \<and>
    (\<forall>u. usableSum c_unspentPaid u s' =
       usableSum c_unspentPaid u s1 - (if u = userId then (\<Sum>a\<leftarrow>as. sa_paid a) else 0)) \<and>
    (\<forall>u. usableSum c_unspentFree u s' =
       usableSum c_unspentFree u s1 - (if u = userId then (\<Sum>a\<leftarrow>as. sa_free a) else 0)) \<and>
    s' = s1\<lparr>pointCharges := pointCharges s'\<rparr>"
    using Cons.IH [OF rest _ _ step(2)] by blast
  moreover have "s' = s\<lparr>pointCharges := pointCharges s'\<rparr>"
    using ih step(5) by (metis (no_types, lifting) db.surjective db.update_convs(4))
  ultimately show ?case using step by simp
qed

lemma setBalance_key: "b_userId (setBalance snap b) = b_userId b"
  by (simp add: setBalance_def)

lemma applyBalance_effect:
  assumes ok: "applyBalance userId before after s = Inr (x, s')"
    and d: "distinct (map b_userId (pointBalances s))"
  shows "storedSnapshot userId s = before"
    "storedSnapshot u s' = (if u = userId then after else storedSnapshot u s)"
    "map b_userId (pointBalances s') = map b_userId (pointBalances s)"
    "s' = s\<lparr>pointBalances := pointBalances s'\<rparr>"
proof -
  let ?p = "assumedBalanceRow userId before"
  from ok have one: "countWhere ?p (pointBalances s) = 1"
    and s': "s' = putBalances (updateWhere ?p (setBalance after) (pointBalances s)) s"
    by (auto simp: applyBalance_def tx_simps)
  from one obtain r where r: "r \<in> set (pointBalances s)" "?p r" by (rule countWhere_oneE)
  have balances: "pointBalances s' = updateWhere ?p (setBalance after) (pointBalances s)"
    by (simp add: s' putBalances_def)
  have found: "findRow (\<lambda>b. b_userId b = userId) (pointBalances s) = Some r"
    using findRow_key [OF d r(1)] r(2) by (simp add: assumedBalanceRow_def)
  then show "storedSnapshot userId s = before"
    using r(2) by (cases before) (simp add: storedSnapshot_def balanceSnapshot_def assumedBalanceRow_def)
  have upd: "findRow (\<lambda>b. b_userId b = u) (pointBalances s') =
      map_option (\<lambda>b. if ?p b then setBalance after b else b) (findRow (\<lambda>b. b_userId b = u) (pointBalances s))"
    unfolding balances by (rule findRow_updateWhere) (simp add: setBalance_key)
  show "storedSnapshot u s' = (if u = userId then after else storedSnapshot u s)"
  proof (cases "u = userId")
    case True
    with upd found r(2) show ?thesis
      by (cases after) (simp add: storedSnapshot_def balanceSnapshot_def setBalance_def)
  next
    case False
    show ?thesis
    proof (cases "findRow (\<lambda>b. b_userId b = u) (pointBalances s)")
      case None
      with upd False show ?thesis by (simp add: storedSnapshot_def)
    next
      case (Some b)
      then have "\<not> ?p b" using False by (auto dest: findRow_Some simp: assumedBalanceRow_def)
      with upd Some False show ?thesis by (simp add: storedSnapshot_def)
    qed
  qed
  show "map b_userId (pointBalances s') = map b_userId (pointBalances s)"
    unfolding balances by (rule map_key_updateWhere) (rule setBalance_key)
  show "s' = s\<lparr>pointBalances := pointBalances s'\<rparr>" by (simp add: s' putBalances_def)
qed

lemma frame_simps:
  "s' = s\<lparr>pointBalances := pointBalances s'\<rparr> \<Longrightarrow> pointCharges s' = pointCharges s"
  "s' = s\<lparr>pointBalances := pointBalances s'\<rparr> \<Longrightarrow> owners s' = owners s"
  "s' = s\<lparr>pointBalances := pointBalances s'\<rparr> \<Longrightarrow> usableSum f u s' = usableSum f u s"
  "s' = s\<lparr>pointCharges := pointCharges s'\<rparr> \<Longrightarrow> pointBalances s' = pointBalances s"
  "s' = s\<lparr>pointCharges := pointCharges s'\<rparr> \<Longrightarrow> storedSnapshot u s' = storedSnapshot u s"
proof -
  assume f: "s' = s\<lparr>pointBalances := pointBalances s'\<rparr>"
  show c: "pointCharges s' = pointCharges s" by (subst f) simp
  then show "owners s' = owners s" "usableSum f u s' = usableSum f u s"
    by (simp_all add: owners_def usableSum_def)
next
  assume f: "s' = s\<lparr>pointCharges := pointCharges s'\<rparr>"
  show "pointBalances s' = pointBalances s" by (subst f) simp
  then show "storedSnapshot u s' = storedSnapshot u s" by (simp add: storedSnapshot_def)
qed

text \<open>What makes a plan one that may be applied to the ledger of a user, whenever it was made.\<close>

definition spend_plan_ok :: "SpendPlan \<Rightarrow> bool" where
  "spend_plan_ok plan \<longleftrightarrow> (\<forall>a \<in> set (pl_allocations plan). allocation_ok a) \<and>
     (\<Sum>a\<leftarrow>pl_allocations plan. sa_paid a) = pl_paidUsage plan \<and>
     (\<Sum>a\<leftarrow>pl_allocations plan. sa_free a) = pl_freeUsage plan \<and>
     pl_balanceAfter plan = \<lparr>
       ps_paidAmount = ps_paidAmount (pl_assumedBalance plan) - pl_paidUsage plan,
       ps_freeAmount = ps_freeAmount (pl_assumedBalance plan) - pl_freeUsage plan,
       ps_totalAmount = ps_totalAmount (pl_assumedBalance plan) - pl_paidUsage plan - pl_freeUsage plan\<rparr>"

lemma point_frame_parts:
  assumes "s1 = s\<lparr>pointCharges := pointCharges s1\<rparr>" "s2 = s1\<lparr>pointBalances := pointBalances s2\<rparr>"
    "s3 = s2\<lparr>pointSpends := rows\<rparr>"
  shows "point_frame s s3"
proof -
  have "s3 = s\<lparr>pointCharges := pointCharges s1, pointBalances := pointBalances s2, pointSpends := rows\<rparr>"
    by (subst assms(3), subst assms(2), subst assms(1)) simp
  then show ?thesis by (auto simp: point_frame_def)
qed

lemma applySpendPlan_effect:
  assumes ok: "applySpendPlan eng userId reason plan s = Inr (row, s')"
    and inv: "ledger_ok s" and plan: "spend_plan_ok plan"
    and own: "\<forall>a \<in> set (pl_allocations plan). allocated_to userId (sa_chargeId a) s"
  shows "ledger_ok s'" "owners s' = owners s"
    "storedSnapshot userId s = pl_assumedBalance plan"
    "storedSnapshot u s' = (if u = userId then pl_balanceAfter plan else storedSnapshot u s)"
    "pointSpends s' = pointSpends s @ [row]" "sp_userId row = userId"
    "sp_paidAmount row = pl_paidUsage plan" "sp_freeAmount row = pl_freeUsage plan"
    "sp_reason row = reason" "point_frame s s'"
proof -
  from ok obtain s1 s2 where
    s1: "forEachT applyAllocation (pl_allocations plan) s = Inr ((), s1)" and
    s2: "applyBalance userId (pl_assumedBalance plan) (pl_balanceAfter plan) s1 = Inr ((), s2)" and
    s3: "createSpend eng userId reason plan s2 = Inr (row, s')"
    by (auto simp: applySpendPlan_def tx_simps)
  have p: "\<forall>a \<in> set (pl_allocations plan). allocation_ok a" using plan by (simp add: spend_plan_ok_def)
  have rows: "\<forall>c \<in> set (pointCharges s). charge_ok c" using inv by (simp add: ledger_ok_def)
  note e1 = forEach_allocations_effect [OF s1 p own rows]
  have f1: "s1 = s\<lparr>pointCharges := pointCharges s1\<rparr>" using e1 by blast
  have d1: "distinct (map b_userId (pointBalances s1))"
    using inv by (simp add: ledger_ok_def frame_simps(4) [OF f1])
  note e2 = applyBalance_effect [OF s2 d1]
  from s3 have s': "s' = s2\<lparr>pointSpends := pointSpends s2 @ [row]\<rparr>"
    and row: "row = \<lparr>sp_id = e_nextId eng ''PointSpend'' s2, sp_userId = userId,
           sp_paidAmount = pl_paidUsage plan, sp_freeAmount = pl_freeUsage plan,
           sp_totalAmount = pl_paidUsage plan + pl_freeUsage plan, sp_reason = reason,
           sp_createdAt = e_now eng s2\<rparr>"
    by (auto simp: createSpend_def Let_def)
  have same: "pointCharges s' = pointCharges s1" "pointBalances s' = pointBalances s2"
    using frame_simps(1) [OF e2(4)] by (simp_all add: s')
  have sums: "usableSum c_unspentPaid u s' = usableSum c_unspentPaid u s -
        (if u = userId then pl_paidUsage plan else 0)"
    "usableSum c_unspentFree u s' = usableSum c_unspentFree u s -
        (if u = userId then pl_freeUsage plan else 0)" for u
    using e1 plan by (simp_all add: usableSum_def same spend_plan_ok_def)
  have stored: "storedSnapshot u s' = (if u = userId then pl_balanceAfter plan else storedSnapshot u s)" for u
    using e2(2) [of u] frame_simps(5) [OF f1] by (simp add: storedSnapshot_def same)
  show before: "storedSnapshot userId s = pl_assumedBalance plan"
    using e2(1) by (simp add: frame_simps(5) [OF f1])
  show "storedSnapshot u s' = (if u = userId then pl_balanceAfter plan else storedSnapshot u s)"
    by (rule stored)
  have st: "storedSnapshot u s = ledgerSnapshot u s" for u using inv by (simp add: ledger_ok_def)
  then have "pl_assumedBalance plan = ledgerSnapshot userId s" using before by simp
  then have after: "pl_balanceAfter plan = ledgerSnapshot userId s'"
    using plan by (simp add: spend_plan_ok_def ledgerSnapshot_def sums)
  have "storedSnapshot u s' = ledgerSnapshot u s'" for u
    using after st [of u] by (cases "u = userId") (simp_all add: stored ledgerSnapshot_def sums)
  moreover show own': "owners s' = owners s" using e1 by (simp add: owners_def same)
  moreover have "distinct (map c_id (pointCharges s'))"
    using inv by (simp add: ids_of_owners own' ledger_ok_def)
  moreover have "distinct (map b_userId (pointBalances s'))"
    using d1 e2(3) by (simp add: same)
  moreover have "\<forall>c \<in> set (pointCharges s'). charge_ok c" using e1 by (simp add: same)
  ultimately show "ledger_ok s'" by (simp add: ledger_ok_def)
  have "pointSpends s2 = pointSpends s" by (subst e2(4), subst f1) simp
  then show "pointSpends s' = pointSpends s @ [row]" by (simp add: s')
  show "sp_userId row = userId" "sp_paidAmount row = pl_paidUsage plan"
    "sp_freeAmount row = pl_freeUsage plan" "sp_reason row = reason" by (simp_all add: row)
  show "point_frame s s'" using f1 e2(4) s' by (rule point_frame_parts)
qed

text \<open>The plan the core makes of the world it read is such a plan.\<close>

lemma planSpend_world_ok:
  assumes inv: "ledger_ok s"
    and ok: "planSpend (pw_snapshot (loadPointWorld u s)) (pw_charges (loadPointWorld u s)) amount pf = Inr plan"
  shows "spend_plan_ok plan" "\<forall>a \<in> set (pl_allocations plan). allocated_to u (sa_chargeId a) s"
    "pl_assumedBalance plan = storedSnapshot u s" "pl_paidUsage plan + pl_freeUsage plan = intOf amount"
    "0 \<le> pl_paidUsage plan" "0 \<le> pl_freeUsage plan" "0 < intOf amount"
    "intOf amount \<le> ps_totalAmount (storedSnapshot u s)"
proof -
  let ?cs = "map toChargeBalance (usableCharges u s)"
  have ok': "planSpend (storedSnapshot u s) ?cs amount pf = Inr plan"
    using ok by (simp add: loadPointWorld_def)
  have nn: "nonnegCharges ?cs" by (rule world_nonneg [OF inv])
  have st: "storedSnapshot u s = sumUsableBalance ?cs"
    using inv by (simp add: world_sum ledger_ok_def)
  have "0 \<le> ps_paidAmount (storedSnapshot u s)" "0 \<le> ps_freeAmount (storedSnapshot u s)"
    using nonnegCharges_sums [OF nn] by (simp_all add: st sumUsableBalance_eq)
  note allocs = planSpend_allocations [OF ok' nn this]
  note shape = planSpend_plan [OF ok']
  show "pl_assumedBalance plan = storedSnapshot u s" "pl_paidUsage plan + pl_freeUsage plan = intOf amount"
    "0 \<le> pl_paidUsage plan" "0 \<le> pl_freeUsage plan" "0 < intOf amount"
    "intOf amount \<le> ps_totalAmount (storedSnapshot u s)"
    using shape allocs(2,3) by (simp_all add: isValidPointAmount_def)
  have "\<forall>a \<in> set (pl_allocations plan). allocation_ok a"
    using allocs(1) by (fastforce simp: allocationOf_def allocation_ok_def)
  with shape show "spend_plan_ok plan" by (simp add: spend_plan_ok_def)
  show "\<forall>a \<in> set (pl_allocations plan). allocated_to u (sa_chargeId a) s"
  proof
    fix a assume "a \<in> set (pl_allocations plan)"
    with allocs(1) obtain c where c: "c \<in> set (pointCharges s)" "isUsableOf u c" "sa_chargeId a = c_id c"
      by (auto simp: allocationOf_def set_usableCharges toChargeBalance_def)
    have "d_u = u" if "(c_id c, d_u) \<in> set (owners s)" for d_u
    proof -
      from that obtain d where "d \<in> set (pointCharges s)" "c_id d = c_id c" "c_userId d = d_u"
        by (auto simp: owners_def)
      with c inv show ?thesis
        by (metis distinct_key_unique isUsableOf_def ledger_ok_def)
    qed
    then show "allocated_to u (sa_chargeId a) s" by (simp add: allocated_to_def c(3))
  qed
qed

section \<open>Charging\<close>

definition charge_plan_ok :: "ChargePlan \<Rightarrow> bool" where
  "charge_plan_ok plan \<longleftrightarrow> 0 \<le> cp_paidAmount plan \<and> 0 \<le> cp_freeAmount plan \<and> 0 < cp_totalAmount plan \<and>
     cp_totalAmount plan = cp_paidAmount plan + cp_freeAmount plan"

definition creditSnapshot :: "ChargePlan \<Rightarrow> PointSnapshot \<Rightarrow> PointSnapshot" where
  "creditSnapshot plan snap = \<lparr>ps_paidAmount = ps_paidAmount snap + cp_paidAmount plan,
     ps_freeAmount = ps_freeAmount snap + cp_freeAmount plan,
     ps_totalAmount = ps_totalAmount snap + cp_totalAmount plan\<rparr>"

lemma upsertBalance_effect:
  assumes ok: "upsertBalance userId plan s = Inr (x, s')"
    and d: "distinct (map b_userId (pointBalances s))"
  shows "storedSnapshot u s' = (if u = userId then creditSnapshot plan (storedSnapshot u s) else storedSnapshot u s)"
    "distinct (map b_userId (pointBalances s'))" "s' = s\<lparr>pointBalances := pointBalances s'\<rparr>"
proof -
  have conj: "storedSnapshot u s' = (if u = userId then creditSnapshot plan (storedSnapshot u s) else storedSnapshot u s)
    \<and> distinct (map b_userId (pointBalances s'))"
  proof (cases "\<exists>b \<in> set (pointBalances s). b_userId b = userId")
    case True
    with ok have rows: "pointBalances s' =
        updateWhere (\<lambda>b. b_userId b = userId) (creditBalance plan) (pointBalances s)"
      by (auto simp: upsertBalance_def putBalances_def)
    have key: "b_userId (creditBalance plan b) = b_userId b" for b by (simp add: creditBalance_def)
    have upd: "findRow (\<lambda>b. b_userId b = u) (pointBalances s') =
      map_option (\<lambda>b. if b_userId b = userId then creditBalance plan b else b)
        (findRow (\<lambda>b. b_userId b = u) (pointBalances s))"
      unfolding rows by (rule findRow_updateWhere) (simp add: key)
    have "storedSnapshot u s' = (if u = userId then creditSnapshot plan (storedSnapshot u s) else storedSnapshot u s)"
    proof (cases "findRow (\<lambda>b. b_userId b = u) (pointBalances s)")
      case None
      moreover from this True have "u \<noteq> userId" by (auto simp: findRow_None)
      ultimately show ?thesis using upd by (simp add: storedSnapshot_def)
    next
      case (Some b)
      then have "b_userId b = u" by (auto dest: findRow_Some)
      with Some upd show ?thesis
        by (cases "u = userId")
          (simp_all add: storedSnapshot_def balanceSnapshot_def creditBalance_def creditSnapshot_def)
    qed
    moreover have "distinct (map b_userId (pointBalances s'))"
      using d unfolding rows by (subst map_key_updateWhere) (simp_all add: key)
    ultimately show ?thesis by blast
  next
    case False
    with ok have rows: "pointBalances s' = pointBalances s @ [\<lparr>b_userId = userId,
        b_paidAmount = cp_paidAmount plan, b_freeAmount = cp_freeAmount plan, b_totalAmount = cp_totalAmount plan\<rparr>]"
      by (auto simp: upsertBalance_def putBalances_def)
    have none: "findRow (\<lambda>b. b_userId b = userId) (pointBalances s) = None"
      using False by (simp add: findRow_None)
    have "storedSnapshot u s' = (if u = userId then creditSnapshot plan (storedSnapshot u s) else storedSnapshot u s)"
      using none by (auto simp: storedSnapshot_def rows findRow_append creditSnapshot_def ZERO_SNAPSHOT_def
          balanceSnapshot_def split: option.split)
    moreover have "distinct (map b_userId (pointBalances s'))" using d False by (auto simp: rows)
    ultimately show ?thesis by blast
  qed
  then show "storedSnapshot u s' = (if u = userId then creditSnapshot plan (storedSnapshot u s) else storedSnapshot u s)"
    "distinct (map b_userId (pointBalances s'))" by blast+
  show "s' = s\<lparr>pointBalances := pointBalances s'\<rparr>"
    using ok by (auto simp: upsertBalance_def putBalances_def)
qed

lemma point_frameI:
  "s' = s\<lparr>pointCharges := cs, pointBalances := bs, pointSpends := ss\<rparr> \<Longrightarrow> point_frame s s'"
  by (simp add: point_frame_def)

lemma applyChargePlan_effect:
  assumes ok: "applyChargePlan eng userId plan s = Inr (row, s')"
    and inv: "ledger_ok s" and plan: "charge_plan_ok plan"
    and fresh: "e_nextId eng ''PointCharge'' s \<notin> c_id ` set (pointCharges s)"
  shows "ledger_ok s'" "owners s' = owners s @ [(c_id row, userId)]"
    "c_id row \<notin> c_id ` set (pointCharges s)"
    "storedSnapshot u s' = (if u = userId then creditSnapshot plan (storedSnapshot u s) else storedSnapshot u s)"
    "pointCharges s' = pointCharges s @ [row]" "c_chargedAt row = cp_chargedAt plan"
    "c_unspentPaid row = cp_paidAmount plan" "c_unspentFree row = cp_freeAmount plan"
    "isUsableOf userId row" "point_frame s s'"
proof -
  from ok obtain s1 where s1: "createCharge eng userId plan s = Inr (row, s1)"
    and s2: "upsertBalance userId plan s1 = Inr ((), s')"
    by (auto simp: applyChargePlan_def tx_simps)
  from s1 have s1': "s1 = s\<lparr>pointCharges := pointCharges s @ [row]\<rparr>"
    and row: "row = \<lparr>c_id = e_nextId eng ''PointCharge'' s, c_userId = userId, c_state = ''USABLE'',
           c_paidAmount = cp_paidAmount plan, c_freeAmount = cp_freeAmount plan,
           c_unspentPaid = cp_paidAmount plan, c_unspentFree = cp_freeAmount plan,
           c_chargedAt = cp_chargedAt plan, c_expiredAt = None\<rparr>"
    by (auto simp: createCharge_def Let_def)
  have b1: "pointBalances s1 = pointBalances s" by (simp add: s1')
  have d1: "distinct (map b_userId (pointBalances s1))" using inv by (simp add: b1 ledger_ok_def)
  note e = upsertBalance_effect [OF s2 d1]
  have charges: "pointCharges s' = pointCharges s @ [row]"
    by (simp add: frame_simps(1) [OF e(3)] s1')
  have stored1: "storedSnapshot u s1 = storedSnapshot u s" for u by (simp add: storedSnapshot_def b1)
  have stored: "storedSnapshot u s' =
      (if u = userId then creditSnapshot plan (storedSnapshot u s) else storedSnapshot u s)" for u
    using e(1) [of u] by (simp add: stored1)
  show "storedSnapshot u s' = (if u = userId then creditSnapshot plan (storedSnapshot u s) else storedSnapshot u s)"
    by (rule stored)
  show "pointCharges s' = pointCharges s @ [row]" by (rule charges)
  show new: "c_id row \<notin> c_id ` set (pointCharges s)" using fresh by (simp add: row)
  show "owners s' = owners s @ [(c_id row, userId)]" by (simp add: owners_def charges row)
  show "isUsableOf userId row" "c_chargedAt row = cp_chargedAt plan"
    "c_unspentPaid row = cp_paidAmount plan" "c_unspentFree row = cp_freeAmount plan"
    by (simp_all add: row isUsableOf_def)
  have "ledgerSnapshot u s' =
      (if u = userId then creditSnapshot plan (ledgerSnapshot u s) else ledgerSnapshot u s)" for u
    using plan by (simp add: ledgerSnapshot_def usableSum_def charges row isUsableOf_def
        creditSnapshot_def charge_plan_ok_def)
  then have "storedSnapshot u s' = ledgerSnapshot u s'" for u
    using inv by (simp add: stored ledger_ok_def)
  moreover have "charge_ok row"
    using plan by (simp add: row charge_ok_def charge_plan_ok_def isPointChargeState_def
        POINT_CHARGE_STATES_def)
  moreover have "distinct (map c_id (pointCharges s'))"
    using inv new by (simp add: charges ledger_ok_def)
  ultimately show "ledger_ok s'" using inv e(2) by (simp add: ledger_ok_def charges)
  have "s' = s\<lparr>pointCharges := pointCharges s1, pointBalances := pointBalances s', pointSpends := pointSpends s\<rparr>"
    by (subst e(3)) (simp add: s1')
  then show "point_frame s s'" by (rule point_frameI)
qed

lemma planCharge_ok: "planCharge p f now = Inr plan \<Longrightarrow> charge_plan_ok plan"
  using planCharge_plan by (simp add: charge_plan_ok_def)

section \<open>Transferring\<close>

lemma applyTransferPlan_effect:
  assumes ok: "applyTransferPlan eng a b plan s = Inr ((spend, charge), s')"
    and inv: "ledger_ok s" and "spend_plan_ok (tp_spend plan)" "charge_plan_ok (tp_charge plan)" "a \<noteq> b"
    and own: "\<forall>x \<in> set (pl_allocations (tp_spend plan)). allocated_to a (sa_chargeId x) s"
    and fresh: "engine_fresh eng"
  shows "ledger_ok s'" "storedSnapshot a s = pl_assumedBalance (tp_spend plan)"
    "owners s' = owners s @ [(c_id charge, b)]" "c_id charge \<notin> c_id ` set (pointCharges s)"
    "storedSnapshot u s' = (if u = a then pl_balanceAfter (tp_spend plan)
       else if u = b then creditSnapshot (tp_charge plan) (storedSnapshot b s) else storedSnapshot u s)"
    "pointSpends s' = pointSpends s @ [spend]"
    "sp_userId spend = a" "sp_paidAmount spend = pl_paidUsage (tp_spend plan)"
    "sp_freeAmount spend = pl_freeUsage (tp_spend plan)"
proof -
  from ok obtain s1 where
    s1: "applySpendPlan eng a (''transfer to user '' @ showInt b) (tp_spend plan) s = Inr (spend, s1)" and
    s2: "applyChargePlan eng b (tp_charge plan) s1 = Inr (charge, s')"
    by (auto simp: applyTransferPlan_def tx_simps)
  note e1 = applySpendPlan_effect [OF s1 inv assms(3) own]
  have "e_nextId eng ''PointCharge'' s1 \<notin> c_id ` set (pointCharges s1)"
    using fresh by (simp add: engine_fresh_def)
  note e2 = applyChargePlan_effect [OF s2 e1(1) assms(4) this]
  show "ledger_ok s'" by (rule e2(1))
  show "storedSnapshot a s = pl_assumedBalance (tp_spend plan)" by (rule e1(3))
  show "owners s' = owners s @ [(c_id charge, b)]" by (simp add: e2(2) e1(2))
  show "c_id charge \<notin> c_id ` set (pointCharges s)"
    using e2(3) e1(2) by (metis ids_of_owners list.set_map)
  show "storedSnapshot u s' = (if u = a then pl_balanceAfter (tp_spend plan)
       else if u = b then creditSnapshot (tp_charge plan) (storedSnapshot b s) else storedSnapshot u s)"
    using assms(5) by (simp add: e2(4) e1(4))
  have "pointSpends s' = pointSpends s1"
    using s2 by (auto simp: applyChargePlan_def tx_simps createCharge_def upsertBalance_def
        putBalances_def Let_def)
  then show "pointSpends s' = pointSpends s @ [spend]" by (simp add: e1(5))
  show "sp_userId spend = a" "sp_paidAmount spend = pl_paidUsage (tp_spend plan)"
    "sp_freeAmount spend = pl_freeUsage (tp_spend plan)" by (rule e1(6-8))+
qed

section \<open>Expiring\<close>

definition expiration_ok :: "ChargeExpiration \<Rightarrow> bool" where
  "expiration_ok x \<longleftrightarrow> cx_expiredPaid x = au_unspentPaid (cx_assumed x) \<and>
     cx_expiredFree x = au_unspentFree (cx_assumed x)"

definition expiry_plan_ok :: "ExpiryPlan \<Rightarrow> bool" where
  "expiry_plan_ok plan \<longleftrightarrow> (\<forall>x \<in> set (xp_expirations plan). expiration_ok x) \<and>
     xp_balanceAfter plan = (let snap = xp_assumedBalance plan;
        p = (\<Sum>x\<leftarrow>xp_expirations plan. cx_expiredPaid x); f = (\<Sum>x\<leftarrow>xp_expirations plan. cx_expiredFree x)
      in \<lparr>ps_paidAmount = ps_paidAmount snap - p, ps_freeAmount = ps_freeAmount snap - f,
          ps_totalAmount = ps_totalAmount snap - p - f\<rparr>)"

lemma applyExpiration_effect:
  assumes ok: "applyExpiration t x s = Inr (y, s')" and x: "expiration_ok x"
    and own: "allocated_to userId (cx_chargeId x) s"
    and rows: "\<forall>c \<in> set (pointCharges s). charge_ok c"
  shows "owners s' = owners s" "\<forall>c \<in> set (pointCharges s'). charge_ok c"
    "usableSum c_unspentPaid u s' = usableSum c_unspentPaid u s - (if u = userId then cx_expiredPaid x else 0)"
    "usableSum c_unspentFree u s' = usableSum c_unspentFree u s - (if u = userId then cx_expiredFree x else 0)"
    "s' = s\<lparr>pointCharges := pointCharges s'\<rparr>"
proof -
  obtain r where r: "r \<in> set (pointCharges s)" "assumedCharge (cx_chargeId x) (cx_assumed x) r"
    and owners: "owners s' = owners s"
    and sums: "\<And>f u. usableSum f u s' = usableSum f u s +
        ((if isUsableOf u (expireRow t r) then f (expireRow t r) else 0)
          - (if isUsableOf u r then f r else 0))"
    and rows': "\<And>P. (\<forall>c \<in> set (pointCharges s). P c) \<Longrightarrow> P (expireRow t r) \<Longrightarrow>
        (\<forall>c \<in> set (pointCharges s'). P c)"
    and frame: "s' = s\<lparr>pointCharges := pointCharges s'\<rparr>"
    using guarded_charge_update [OF ok [unfolded applyExpiration_def] expireRow_key] by metis
  show "owners s' = owners s" "s' = s\<lparr>pointCharges := pointCharges s'\<rparr>" by fact+
  have user: "c_userId r = userId"
    using own r by (force simp: allocated_to_def owners_def assumedCharge_def)
  have "charge_ok (expireRow t r)"
    using rows r(1) by (auto simp: charge_ok_def expireRow_def isPointChargeState_def POINT_CHARGE_STATES_def)
  then show "\<forall>c \<in> set (pointCharges s'). charge_ok c" using rows rows' by blast
  show "usableSum c_unspentPaid u s' = usableSum c_unspentPaid u s - (if u = userId then cx_expiredPaid x else 0)"
    "usableSum c_unspentFree u s' = usableSum c_unspentFree u s - (if u = userId then cx_expiredFree x else 0)"
    unfolding sums using r(2) user x
    by (auto simp: isUsableOf_def expireRow_def assumedCharge_def expiration_ok_def)
qed

lemma forEach_expirations_effect:
  assumes "forEachT (applyExpiration t) xs s = Inr (y, s')"
    and "\<forall>x \<in> set xs. expiration_ok x" "\<forall>x \<in> set xs. allocated_to userId (cx_chargeId x) s"
    and "\<forall>c \<in> set (pointCharges s). charge_ok c"
  shows "owners s' = owners s \<and> (\<forall>c \<in> set (pointCharges s'). charge_ok c) \<and>
    (\<forall>u. usableSum c_unspentPaid u s' =
       usableSum c_unspentPaid u s - (if u = userId then (\<Sum>x\<leftarrow>xs. cx_expiredPaid x) else 0)) \<and>
    (\<forall>u. usableSum c_unspentFree u s' =
       usableSum c_unspentFree u s - (if u = userId then (\<Sum>x\<leftarrow>xs. cx_expiredFree x) else 0)) \<and>
    s' = s\<lparr>pointCharges := pointCharges s'\<rparr>"
  using assms
proof (induction xs arbitrary: s y)
  case Nil
  then show ?case by (simp add: tx_simps)
next
  case (Cons x xs)
  from Cons.prems(1) obtain z s1 where s1: "applyExpiration t x s = Inr (z, s1)"
    and rest: "forEachT (applyExpiration t) xs s1 = Inr (y, s')"
    by (auto simp: tx_simps)
  have x: "expiration_ok x" "allocated_to userId (cx_chargeId x) s" using Cons.prems by auto
  note step = applyExpiration_effect [OF s1 x Cons.prems(4)]
  have "\<forall>x \<in> set xs. allocated_to userId (cx_chargeId x) s1"
    using Cons.prems(3) by (simp add: allocated_to_def step(1))
  moreover have "\<forall>x \<in> set xs. expiration_ok x" using Cons.prems(2) by simp
  ultimately have ih: "owners s' = owners s1 \<and> (\<forall>c \<in> set (pointCharges s'). charge_ok c) \<and>
    (\<forall>u. usableSum c_unspentPaid u s' =
       usableSum c_unspentPaid u s1 - (if u = userId then (\<Sum>x\<leftarrow>xs. cx_expiredPaid x) else 0)) \<and>
    (\<forall>u. usableSum c_unspentFree u s' =
       usableSum c_unspentFree u s1 - (if u = userId then (\<Sum>x\<leftarrow>xs. cx_expiredFree x) else 0)) \<and>
    s' = s1\<lparr>pointCharges := pointCharges s'\<rparr>"
    using Cons.IH [OF rest _ _ step(2)] by blast
  moreover have "s' = s\<lparr>pointCharges := pointCharges s'\<rparr>"
    using ih step(5) by (metis (no_types, lifting) db.surjective db.update_convs(4))
  ultimately show ?case using step by simp
qed

lemma applyExpiryPlan_effect:
  assumes ok: "applyExpiryPlan userId plan s = Inr (n, s')"
    and inv: "ledger_ok s" and plan: "expiry_plan_ok plan"
    and own: "\<forall>x \<in> set (xp_expirations plan). allocated_to userId (cx_chargeId x) s"
  shows "n = length (xp_expirations plan)" "ledger_ok s'" "owners s' = owners s"
    "xp_expirations plan \<noteq> [] \<Longrightarrow> storedSnapshot userId s = xp_assumedBalance plan"
    "storedSnapshot u s' = (if u = userId \<and> xp_expirations plan \<noteq> [] then xp_balanceAfter plan
       else storedSnapshot u s)"
    "pointSpends s' = pointSpends s"
proof -
  have "n = length (xp_expirations plan) \<and> ledger_ok s' \<and> owners s' = owners s \<and>
    (xp_expirations plan \<noteq> [] \<longrightarrow> storedSnapshot userId s = xp_assumedBalance plan) \<and>
    (\<forall>u. storedSnapshot u s' = (if u = userId \<and> xp_expirations plan \<noteq> [] then xp_balanceAfter plan
       else storedSnapshot u s)) \<and> pointSpends s' = pointSpends s"
  proof (cases "xp_expirations plan = []")
    case True
    with ok inv show ?thesis by (simp add: applyExpiryPlan_def)
  next
    case False
    with ok obtain s1 where n: "n = length (xp_expirations plan)" and
      s1: "forEachT (applyExpiration (xp_expiredAt plan)) (xp_expirations plan) s = Inr ((), s1)" and
      s2: "applyBalance userId (xp_assumedBalance plan) (xp_balanceAfter plan) s1 = Inr ((), s')"
      by (auto simp: applyExpiryPlan_def tx_simps)
    have p: "\<forall>x \<in> set (xp_expirations plan). expiration_ok x" using plan by (simp add: expiry_plan_ok_def)
    have rows: "\<forall>c \<in> set (pointCharges s). charge_ok c" using inv by (simp add: ledger_ok_def)
    note e1 = forEach_expirations_effect [OF s1 p own rows]
    have f1: "s1 = s\<lparr>pointCharges := pointCharges s1\<rparr>" using e1 by blast
    have d1: "distinct (map b_userId (pointBalances s1))"
      using inv by (simp add: ledger_ok_def frame_simps(4) [OF f1])
    note e2 = applyBalance_effect [OF s2 d1]
    note f2 = frame_simps(1-3) [OF e2(4)]
    have before: "storedSnapshot userId s = xp_assumedBalance plan"
      using e2(1) by (simp add: frame_simps(5) [OF f1])
    have stored: "storedSnapshot u s' = (if u = userId then xp_balanceAfter plan else storedSnapshot u s)" for u
      using e2(2) [of u] by (simp add: frame_simps(5) [OF f1])
    have st: "storedSnapshot u s = ledgerSnapshot u s" for u using inv by (simp add: ledger_ok_def)
    then have "xp_assumedBalance plan = ledgerSnapshot userId s" using before by simp
    then have after: "xp_balanceAfter plan = ledgerSnapshot userId s'"
      using plan e1 by (simp add: expiry_plan_ok_def ledgerSnapshot_def f2(3) Let_def)
    have "ledgerSnapshot u s' = ledgerSnapshot u s" if "u \<noteq> userId" for u
      using e1 that by (simp add: ledgerSnapshot_def f2(3))
    then have "storedSnapshot u s' = ledgerSnapshot u s'" for u
      using after st by (cases "u = userId") (simp_all add: stored)
    moreover have own': "owners s' = owners s" using e1 f2(2) by simp
    moreover have "distinct (map c_id (pointCharges s'))"
      using inv by (simp add: ids_of_owners own' ledger_ok_def)
    ultimately have "ledger_ok s'" using e1 e2(3) d1 f2(1) by (simp add: ledger_ok_def)
    moreover have "pointSpends s' = pointSpends s" by (subst e2(4), subst f1) simp
    ultimately show ?thesis using n own' before stored False by simp
  qed
  then show "n = length (xp_expirations plan)" "ledger_ok s'" "owners s' = owners s"
    "xp_expirations plan \<noteq> [] \<Longrightarrow> storedSnapshot userId s = xp_assumedBalance plan"
    "storedSnapshot u s' = (if u = userId \<and> xp_expirations plan \<noteq> [] then xp_balanceAfter plan
       else storedSnapshot u s)"
    "pointSpends s' = pointSpends s" by blast+
qed

lemma planExpiry_world_ok:
  assumes inv: "ledger_ok s"
    and plan: "plan = planExpiry dj (xw_snapshot (loadExpiryWorld u s)) (xw_charges (loadExpiryWorld u s)) now"
  shows "expiry_plan_ok plan" "\<forall>x \<in> set (xp_expirations plan). allocated_to u (cx_chargeId x) s"
proof -
  have sums: "(\<Sum>x\<leftarrow>map expirationOf cs. cx_expiredPaid x) = (\<Sum>c\<leftarrow>cs. ec_unspentPaid c)"
    "(\<Sum>x\<leftarrow>map expirationOf cs. cx_expiredFree x) = (\<Sum>c\<leftarrow>cs. ec_unspentFree c)" for cs
    by (simp_all add: expirationOf_def comp_def)
  show "expiry_plan_ok plan"
    unfolding expiry_plan_ok_def
    by (auto simp: plan planExpiry_eq Let_def sums simp del: map_map)
      (auto simp: expiration_ok_def expirationOf_def)
  show "\<forall>x \<in> set (xp_expirations plan). allocated_to u (cx_chargeId x) s"
  proof
    fix x assume "x \<in> set (xp_expirations plan)"
    then obtain c where c: "c \<in> set (pointCharges s)" "isUsableOf u c" "cx_chargeId x = c_id c"
      by (auto simp: plan planExpiry_eq loadExpiryWorld_def set_usableCharges toExpirable_def expirationOf_def)
    have "d_u = u" if "(c_id c, d_u) \<in> set (owners s)" for d_u
    proof -
      from that obtain d where "d \<in> set (pointCharges s)" "c_id d = c_id c" "c_userId d = d_u"
        by (auto simp: owners_def)
      with c inv show ?thesis
        by (metis distinct_key_unique isUsableOf_def ledger_ok_def)
    qed
    then show "allocated_to u (cx_chargeId x) s" by (simp add: allocated_to_def c(3))
  qed
qed

section \<open>A plan applied to the world it was made of goes through\<close>

lemma guarded_charges_succeed:
  assumes "distinct (map c_id (pointCharges s))" "distinct (map i xs)"
    and "\<forall>x \<in> set xs. \<exists>c \<in> set (pointCharges s). assumedCharge (i x) (h x) c"
    and key: "\<And>x c. c_id (g x c) = c_id c"
  shows "\<exists>s'. forEachT (\<lambda>x. guardedUpdate pointCharges putCharges (assumedCharge (i x) (h x)) (g x) (e x)) xs s
      = Inr ((), s')"
  using assms(1-3)
proof (induction xs arbitrary: s)
  case Nil
  then show ?case by simp
next
  case (Cons x xs)
  let ?p = "assumedCharge (i x) (h x)"
  from Cons.prems(3) obtain c where c: "c \<in> set (pointCharges s)" "?p c" by auto
  have one: "countWhere ?p (pointCharges s) = 1"
  proof (rule countWhere_one_key [where k = c_id])
    show "c_id d = c_id c" if "?p d" for d using that c(2) by (simp add: assumedCharge_def)
  qed (use Cons.prems(1) c in blast)+
  let ?s = "putCharges (updateWhere ?p (g x) (pointCharges s)) s"
  have charges: "pointCharges ?s = updateWhere ?p (g x) (pointCharges s)" by (simp add: putCharges_def)
  have "distinct (map c_id (pointCharges ?s))"
    using Cons.prems(1) unfolding charges by (subst map_key_updateWhere) (simp_all add: key)
  moreover have "\<forall>y \<in> set xs. \<exists>c \<in> set (pointCharges ?s). assumedCharge (i y) (h y) c"
  proof
    fix y assume y: "y \<in> set xs"
    then obtain c where c: "c \<in> set (pointCharges s)" "assumedCharge (i y) (h y) c"
      using Cons.prems(3) by auto
    moreover have "i y \<noteq> i x" using y Cons.prems(2) by (metis distinct.simps(2) image_eqI list.set_map list.simps(9))
    then have "\<not> ?p c" using c(2) by (simp add: assumedCharge_def)
    ultimately show "\<exists>c \<in> set (pointCharges ?s). assumedCharge (i y) (h y) c"
      unfolding charges set_updateWhere by force
  qed
  ultimately have "\<exists>s'. forEachT (\<lambda>x. guardedUpdate pointCharges putCharges
      (assumedCharge (i x) (h x)) (g x) (e x)) xs ?s = Inr ((), s')"
    using Cons.prems(2) by (intro Cons.IH) simp_all
  with one show ?case by (simp add: bindT_def guardedUpdate_def)
qed

lemma applyBalance_succeeds:
  assumes "distinct (map b_userId (pointBalances s))" "storedSnapshot u s = before"
    and row: "\<exists>b \<in> set (pointBalances s). b_userId b = u"
  shows "\<exists>s'. applyBalance u before after s = Inr ((), s')"
proof -
  from row obtain b where b: "b \<in> set (pointBalances s)" "b_userId b = u" by blast
  with findRow_key [OF assms(1) b(1)] assms(2) have "assumedBalanceRow u before b"
    by (auto simp: storedSnapshot_def balanceSnapshot_def assumedBalanceRow_def)
  then have "countWhere (assumedBalanceRow u before) (pointBalances s) = 1"
  proof (intro countWhere_one_key [where k = b_userId])
    show "b_userId d = b_userId b" if "assumedBalanceRow u before d" for d
      using that b(2) by (simp add: assumedBalanceRow_def)
  qed (use assms(1) b in blast)+
  then show ?thesis by (simp add: applyBalance_def guardedUpdate_def)
qed

lemma balance_row_of_points:
  assumes "ledger_ok s" "0 < ps_totalAmount (storedSnapshot u s)"
  shows "\<exists>b \<in> set (pointBalances s). b_userId b = u"
proof (rule ccontr)
  assume "\<not> ?thesis"
  then have "findRow (\<lambda>b. b_userId b = u) (pointBalances s) = None" by (auto simp: findRow_None)
  with assms(2) show False by (simp add: storedSnapshot_def ZERO_SNAPSHOT_def)
qed

lemma distinct_usable_ids: "ledger_ok s \<Longrightarrow> distinct (map c_id (usableCharges u s))"
proof -
  assume "ledger_ok s"
  then have "distinct (map c_id (filter (isUsableOf u) (pointCharges s)))"
    by (simp add: ledger_ok_def distinct_map_filter)
  moreover have "mset (map c_id (usableCharges u s)) = mset (map c_id (filter (isUsableOf u) (pointCharges s)))"
    by (simp add: usableCharges_def)
  ultimately show ?thesis by (metis mset_eq_imp_distinct_iff)
qed

lemma applySpendPlan_succeeds:
  assumes inv: "ledger_ok s"
    and ok: "planSpend (pw_snapshot (loadPointWorld u s)) (pw_charges (loadPointWorld u s)) amount pf = Inr plan"
  shows "\<exists>row s'. applySpendPlan eng u reason plan s = Inr (row, s')"
proof -
  let ?cs = "map toChargeBalance (usableCharges u s)"
  have ok': "planSpend (storedSnapshot u s) ?cs amount pf = Inr plan"
    using ok by (simp add: loadPointWorld_def)
  note pl = planSpend_world_ok [OF inv ok]
  have st: "storedSnapshot u s = sumUsableBalance ?cs"
    using inv by (simp add: world_sum ledger_ok_def)
  have nn: "nonnegCharges ?cs" by (rule world_nonneg [OF inv])
  have "0 \<le> ps_paidAmount (storedSnapshot u s)" "0 \<le> ps_freeAmount (storedSnapshot u s)"
    using nonnegCharges_sums [OF nn] by (simp_all add: st sumUsableBalance_eq)
  note allocs = planSpend_allocations(1) [OF ok' nn this]
  have "distinct (map c_id (pointCharges s))" using inv by (simp add: ledger_ok_def)
  moreover have "distinct (map sa_chargeId (pl_allocations plan))"
  proof -
    have "map cb_id ?cs = map c_id (usableCharges u s)" by (simp add: toChargeBalance_def)
    then show ?thesis
      using planSpend_plan(8) [OF ok'] distinct_usable_ids [OF inv] by (metis subseq_distinct)
  qed
  moreover have "\<forall>a \<in> set (pl_allocations plan). \<exists>c \<in> set (pointCharges s).
      assumedCharge (sa_chargeId a) (sa_assumed a) c"
    using allocs by (fastforce simp: allocationOf_def assumedCharge_def set_usableCharges
        toChargeBalance_def isUsableOf_def)
  ultimately obtain s1 where s1: "forEachT applyAllocation (pl_allocations plan) s = Inr ((), s1)"
    using guarded_charges_succeed [of s sa_chargeId "pl_allocations plan" sa_assumed consumeCharge
      "\<lambda>a. ConcurrentUpdateError (''point charge '' @ showInt (sa_chargeId a))"] consumeCharge_key
    unfolding applyAllocation_def by blast
  have "\<forall>a \<in> set (pl_allocations plan). allocation_ok a" "\<forall>c \<in> set (pointCharges s). charge_ok c"
    using pl(1) inv by (simp_all add: spend_plan_ok_def ledger_ok_def)
  from forEach_allocations_effect [OF s1 this(1) pl(2) this(2)]
  have f1: "s1 = s\<lparr>pointCharges := pointCharges s1\<rparr>" by blast
  have b1: "pointBalances s1 = pointBalances s" by (rule frame_simps(4) [OF f1])
  have "distinct (map b_userId (pointBalances s1))" using inv by (simp add: b1 ledger_ok_def)
  moreover have "storedSnapshot u s1 = pl_assumedBalance plan"
    using pl(3) by (simp add: frame_simps(5) [OF f1])
  moreover have "\<exists>b \<in> set (pointBalances s1). b_userId b = u"
    unfolding b1 using pl by (intro balance_row_of_points [OF inv]) linarith
  ultimately obtain s2 where "applyBalance u (pl_assumedBalance plan) (pl_balanceAfter plan) s1 = Inr ((), s2)"
    using applyBalance_succeeds by blast
  with s1 show ?thesis
    by (simp add: applySpendPlan_def bindT_def createSpend_def Let_def)
qed

lemma applyExpiryPlan_succeeds:
  assumes inv: "ledger_ok s"
    and plan: "plan = planExpiry dj (xw_snapshot (loadExpiryWorld u s)) (xw_charges (loadExpiryWorld u s)) now"
  shows "\<exists>s'. applyExpiryPlan u plan s = Inr (length (xp_expirations plan), s')"
proof (cases "xp_expirations plan = []")
  case True
  then show ?thesis by (simp add: applyExpiryPlan_def)
next
  case False
  note pl = planExpiry_world_ok [OF inv plan]
  let ?cs = "filter (isDue dj now) (map toExpirable (usableCharges u s))"
  have xs: "xp_expirations plan = map expirationOf ?cs"
    by (simp add: plan planExpiry_eq loadExpiryWorld_def)
  have "distinct (map c_id (pointCharges s))" using inv by (simp add: ledger_ok_def)
  moreover have "distinct (map cx_chargeId (xp_expirations plan))"
  proof -
    have "map cx_chargeId (xp_expirations plan) = map ec_id ?cs"
      by (simp add: xs expirationOf_def)
    moreover have "map ec_id (map toExpirable (usableCharges u s)) = map c_id (usableCharges u s)"
      by (simp add: toExpirable_def)
    ultimately show ?thesis using distinct_usable_ids [OF inv] by (metis distinct_map_filter)
  qed
  moreover have "\<forall>x \<in> set (xp_expirations plan). \<exists>c \<in> set (pointCharges s).
      assumedCharge (cx_chargeId x) (cx_assumed x) c"
    by (auto simp: xs expirationOf_def toExpirable_def assumedCharge_def set_usableCharges isUsableOf_def)
  ultimately obtain s1 where s1: "forEachT (applyExpiration (xp_expiredAt plan)) (xp_expirations plan) s = Inr ((), s1)"
    using guarded_charges_succeed [of s cx_chargeId "xp_expirations plan" cx_assumed "\<lambda>_. expireRow (xp_expiredAt plan)"
      "\<lambda>x. ConcurrentUpdateError (''point charge '' @ showInt (cx_chargeId x))"] expireRow_key
    unfolding applyExpiration_def by blast
  have "\<forall>x \<in> set (xp_expirations plan). expiration_ok x" and ok: "\<forall>c \<in> set (pointCharges s). charge_ok c"
    using pl(1) inv by (simp_all add: expiry_plan_ok_def ledger_ok_def)
  from forEach_expirations_effect [OF s1 this(1) pl(2) this(2)]
  have f1: "s1 = s\<lparr>pointCharges := pointCharges s1\<rparr>" by blast
  have b1: "pointBalances s1 = pointBalances s" by (rule frame_simps(4) [OF f1])
  have "0 < ps_totalAmount (storedSnapshot u s)"
  proof -
    from False xs obtain c where c: "c \<in> set (filter (isUsableOf u) (pointCharges s))"
      by (auto simp: filter_empty_conv set_usableCharges)
    have pos: "0 < c_unspentPaid c + c_unspentFree c"
      using ok c by (auto simp: charge_ok_def isUsableOf_def)
    have "(\<Sum>c\<leftarrow>filter (isUsableOf u) (pointCharges s). c_unspentPaid c + c_unspentFree c)
        \<ge> c_unspentPaid c + c_unspentFree c"
      by (rule member_le_sum_list) (use c ok in \<open>auto simp: charge_ok_def\<close>)
    then show ?thesis
      using pos inv by (simp add: ledger_ok_def ledgerSnapshot_def usableSum_def sum_list_addf)
  qed
  then have "\<exists>b \<in> set (pointBalances s1). b_userId b = u"
    unfolding b1 by (rule balance_row_of_points [OF inv])
  moreover have "distinct (map b_userId (pointBalances s1))" using inv by (simp add: b1 ledger_ok_def)
  moreover have "storedSnapshot u s1 = xp_assumedBalance plan"
    by (simp add: plan planExpiry_eq loadExpiryWorld_def frame_simps(5) [OF f1])
  ultimately obtain s2 where "applyBalance u (xp_assumedBalance plan) (xp_balanceAfter plan) s1 = Inr ((), s2)"
    using applyBalance_succeeds by blast
  with s1 False show ?thesis by (simp add: applyExpiryPlan_def bindT_def)
qed

text \<open>The rows an expiry leaves.\<close>

lemma forEach_expirations_rows:
  assumes "forEachT (applyExpiration t) xs s = Inr (y, s')" "distinct (map c_id (pointCharges s))"
  shows "pointCharges s' =
    map (\<lambda>c. if c_id c \<in> cx_chargeId ` set xs then expireRow t c else c) (pointCharges s)"
  using assms
proof (induction xs arbitrary: s y)
  case Nil
  then show ?case by (simp add: tx_simps)
next
  case (Cons x xs)
  let ?p = "assumedCharge (cx_chargeId x) (cx_assumed x)"
  from Cons.prems(1) obtain z s1 where s1: "applyExpiration t x s = Inr (z, s1)"
    and rest: "forEachT (applyExpiration t) xs s1 = Inr (y, s')"
    by (auto simp: tx_simps)
  from s1 have one: "countWhere ?p (pointCharges s) = 1"
    and c1: "pointCharges s1 = updateWhere ?p (expireRow t) (pointCharges s)"
    by (auto simp: applyExpiration_def tx_simps putCharges_def)
  from one obtain r where r: "r \<in> set (pointCharges s)" "?p r" by (rule countWhere_oneE)
  have eq: "?p c \<longleftrightarrow> c_id c = cx_chargeId x" if "c \<in> set (pointCharges s)" for c
  proof
    show "c_id c = cx_chargeId x" if "?p c" using that by (simp add: assumedCharge_def)
    assume "c_id c = cx_chargeId x"
    then have "c_id c = c_id r" using r(2) by (simp add: assumedCharge_def)
    with r that Cons.prems(2) have "c = r" by (metis distinct_key_unique)
    with r show "?p c" by simp
  qed
  have rows: "pointCharges s1 = map (\<lambda>c. if c_id c = cx_chargeId x then expireRow t c else c) (pointCharges s)"
    unfolding c1 updateWhere_def by (rule map_cong) (simp_all add: eq)
  have "distinct (map c_id (pointCharges s1))"
  proof -
    have "map c_id (pointCharges s1) = map c_id (pointCharges s)"
      unfolding rows by (simp add: expireRow_def)
    with Cons.prems(2) show ?thesis by simp
  qed
  from Cons.IH [OF rest this] show ?case
    unfolding rows by (auto simp: expireRow_def)
qed

lemma applyExpiryPlan_rows:
  assumes "applyExpiryPlan u plan s = Inr (n, s')" "distinct (map c_id (pointCharges s))"
  shows "pointCharges s' = map (\<lambda>c. if c_id c \<in> cx_chargeId ` set (xp_expirations plan)
      then expireRow (xp_expiredAt plan) c else c) (pointCharges s)"
proof (cases "xp_expirations plan = []")
  case True
  with assms show ?thesis by (simp add: applyExpiryPlan_def)
next
  case False
  with assms(1) obtain s1 where
    s1: "forEachT (applyExpiration (xp_expiredAt plan)) (xp_expirations plan) s = Inr ((), s1)" and
    s2: "applyBalance u (xp_assumedBalance plan) (xp_balanceAfter plan) s1 = Inr ((), s')"
    by (auto simp: applyExpiryPlan_def tx_simps)
  from s2 have "pointCharges s' = pointCharges s1"
    by (auto simp: applyBalance_def tx_simps putBalances_def)
  with forEach_expirations_rows [OF s1 assms(2)] show ?thesis by simp
qed

text \<open>After an expiry no USABLE charge of the user is due.\<close>

lemma expired_none_due:
  assumes inv: "ledger_ok s"
    and ok: "applyExpiryPlan u (planExpiry dj (xw_snapshot (loadExpiryWorld u s))
      (xw_charges (loadExpiryWorld u s)) now) s = Inr (n, s')"
  shows "filter (isDue dj now) (xw_charges (loadExpiryWorld u s')) = []"
proof -
  let ?ids = "cx_chargeId ` set (xp_expirations (planExpiry dj (xw_snapshot (loadExpiryWorld u s))
      (xw_charges (loadExpiryWorld u s)) now))"
  have rows: "pointCharges s' = map (\<lambda>c. if c_id c \<in> ?ids then expireRow now c else c) (pointCharges s)"
    using applyExpiryPlan_rows [OF ok] inv by (simp add: ledger_ok_def planExpiry_eq)
  have "\<not> isDue dj now (toExpirable c)" if "c \<in> set (pointCharges s')" "isUsableOf u c" for c
  proof -
    from that(1) rows obtain d where d: "d \<in> set (pointCharges s)"
      "c = (if c_id d \<in> ?ids then expireRow now d else d)" by auto
    have "c_id d \<notin> ?ids"
      using that(2) d(2) by (auto simp: isUsableOf_def expireRow_def split: if_splits)
    with d have c: "c = d" "c \<in> set (pointCharges s)" "c_id c \<notin> ?ids" by auto
    show ?thesis
    proof
      assume "isDue dj now (toExpirable c)"
      then have "toExpirable c \<in> set (filter (isDue dj now) (xw_charges (loadExpiryWorld u s)))"
        using c(2) that(2) by (auto simp: loadExpiryWorld_def set_usableCharges)
      then have "cx_chargeId (expirationOf (toExpirable c)) \<in> ?ids" by (simp add: planExpiry_eq)
      with c(3) show False by (simp add: expirationOf_def toExpirable_def)
    qed
  qed
  then show ?thesis by (auto simp: filter_empty_conv loadExpiryWorld_def set_usableCharges)
qed

end
