(* ===== verification/Flags.thy ===== *)
theory Flags
  imports Foundation
begin

text \<open>
  The typed flag registry: \<open>src/flags/flags.ts\<close> (specs, lifecycles, calendar dates, the
  stale-flag report), \<open>src/flags/flag-registry.ts\<close> (the flags of the program) and
  \<open>src/flags/flag-reader.ts\<close> (the per-request reader with its memo). The OpenFeature client
  is an argument: a function of the outside world that answers a flag lookup.
\<close>

section \<open>Specs\<close>

datatype FlagLifecycle = Permanent | Temporary string

datatype FlagSpec =
    GateSpec bool string FlagLifecycle
  | VariantSpec "string list" string string FlagLifecycle

fun specLifecycle :: "FlagSpec \<Rightarrow> FlagLifecycle" where
  "specLifecycle (GateSpec d doc l) = l"
| "specLifecycle (VariantSpec vs d doc l) = l"

definition permanent :: FlagLifecycle where
  "permanent = Permanent"

definition isDigitChar :: "char \<Rightarrow> bool" where
  "isDigitChar c \<longleftrightarrow> digitValue c \<noteq> None"

definition numberOf :: "string \<Rightarrow> nat" where
  "numberOf ds = (case readDigits 0 ds of None \<Rightarrow> 0 | Some n \<Rightarrow> n)"

definition daysInMonth :: "nat \<Rightarrow> nat \<Rightarrow> nat" where
  "daysInMonth year month =
     (let leap = (year mod 4 = 0 \<and> year mod 100 \<noteq> 0) \<or> year mod 400 = 0
      in [31, if leap then 29 else 28, 31, 30, 31, 30, 31, 31, 30, 31, 30, 31] ! (month - 1))"

text \<open>The groups of the match of \<open>/^(\d{4})-(\d{2})-(\d{2})$/\<close>.\<close>

definition matchDate :: "string \<Rightarrow> (string \<times> string \<times> string) option" where
  "matchDate value =
     (if length value = 10 \<and> list_all isDigitChar (take 4 value) \<and> value ! 4 = CHR ''-'' \<and>
         list_all isDigitChar (take 2 (drop 5 value)) \<and> value ! 7 = CHR ''-'' \<and>
         list_all isDigitChar (drop 8 value)
      then Some (take 4 value, take 2 (drop 5 value), drop 8 value) else None)"

definition isIsoCalendarDate :: "string \<Rightarrow> bool" where
  "isIsoCalendarDate value = (case matchDate value of
      None \<Rightarrow> False
    | Some (y, m, d) \<Rightarrow>
        (let year = numberOf y; month = numberOf m; day = numberOf d
         in if month < 1 \<or> month > 12 \<or> day < 1 then False else day \<le> daysInMonth year month))"

definition temporary :: "string \<Rightarrow> thrown + FlagLifecycle" where
  "temporary removeBy =
     (if \<not> isIsoCalendarDate removeBy
      then Inl (PlainError ''Error''
        (''temporary(): removeBy must be an ISO calendar date (YYYY-MM-DD), got '' @ jsonString removeBy))
      else Inr (Temporary removeBy))"

definition gate :: "bool \<Rightarrow> string \<Rightarrow> FlagLifecycle \<Rightarrow> FlagSpec" where
  "gate defaultValue doc lifecycle = GateSpec defaultValue doc lifecycle"

definition variant :: "string list \<Rightarrow> string \<Rightarrow> string \<Rightarrow> FlagLifecycle \<Rightarrow> FlagSpec" where
  "variant variants defaultVariant doc lifecycle = VariantSpec variants defaultVariant doc lifecycle"

text \<open>The comparison of two texts by \<open><\<close>.\<close>

fun textBefore :: "string \<Rightarrow> string \<Rightarrow> bool" where
  "textBefore xs [] = False"
| "textBefore [] (y # ys) = True"
| "textBefore (x # xs) (y # ys) =
     ((of_char x :: nat) < of_char y \<or> (x = y \<and> textBefore xs ys))"

definition expiredFlags ::
  "(string \<times> FlagSpec) list \<Rightarrow> string \<Rightarrow> thrown + (string \<times> string) list" where
  "expiredFlags specs today =
     (if \<not> isIsoCalendarDate today
      then Inl (PlainError ''Error''
        (''expiredFlags(): today must be an ISO calendar date (YYYY-MM-DD), got '' @ jsonString today))
      else Inr (concat (map (\<lambda>(flagName, spec). case specLifecycle spec of
          Temporary removeBy \<Rightarrow> (if textBefore removeBy today then [(flagName, removeBy)] else [])
        | Permanent \<Rightarrow> []) specs)))"

section \<open>The registry\<close>

definition FLAGS :: "thrown + (string \<times> FlagSpec) list" where
  "FLAGS =
     rbind (temporary ''2030-12-31'') (\<lambda>transferEnd.
     rbind (temporary ''2030-12-31'') (\<lambda>preferEnd.
     Inr [(''pointTransfer'',
            gate False ''Enablement gate for peer-to-peer point transfers.'' transferEnd),
          (''pointTransferPreferFree'',
            gate False ''Spend free points before paid ones on a transfer.'' preferEnd),
          (''welcomeVariant'',
            variant [''classic'', ''festive'', ''minimal''] ''classic'' ''Welcome-post copy variant.''
              permanent)]))"

section \<open>The reader\<close>

text \<open>
  The client answers a lookup of a flag with its default, or throws, and may move the outside
  world. The memo keeps, for every flag read, the promise of the first read.
\<close>

record 'w flag_client =
  getBooleanDetails :: "string \<Rightarrow> bool \<Rightarrow> 'w \<Rightarrow> (thrown + bool) \<times> 'w"
  getStringDetails :: "string \<Rightarrow> string \<Rightarrow> 'w \<Rightarrow> (thrown + string) \<times> 'w"

record flag_memo =
  memo_gate :: "string \<Rightarrow> (thrown + bool) option"
  memo_variant :: "string \<Rightarrow> (thrown + string) option"

definition emptyMemo :: flag_memo where
  "emptyMemo = \<lparr>memo_gate = (\<lambda>_. None), memo_variant = (\<lambda>_. None)\<rparr>"

definition readGate ::
  "'w flag_client \<Rightarrow> string \<Rightarrow> bool \<Rightarrow> flag_memo \<times> 'w \<Rightarrow> (thrown + bool) \<times> (flag_memo \<times> 'w)" where
  "readGate client flagKey defaultValue st = (case st of (memo, w) \<Rightarrow>
     (case memo_gate memo flagKey of
        Some pending \<Rightarrow> (pending, (memo, w))
      | None \<Rightarrow> (case getBooleanDetails client flagKey defaultValue w of (pending, w') \<Rightarrow>
          (pending, (memo\<lparr>memo_gate := (memo_gate memo)(flagKey \<mapsto> pending)\<rparr>, w')))))"

definition readVariant ::
  "'w flag_client \<Rightarrow> string \<Rightarrow> string \<Rightarrow> flag_memo \<times> 'w \<Rightarrow> (thrown + string) \<times> (flag_memo \<times> 'w)" where
  "readVariant client flagKey defaultValue st = (case st of (memo, w) \<Rightarrow>
     (case memo_variant memo flagKey of
        Some pending \<Rightarrow> (pending, (memo, w))
      | None \<Rightarrow> (case getStringDetails client flagKey defaultValue w of (pending, w') \<Rightarrow>
          (pending, (memo\<lparr>memo_variant := (memo_variant memo)(flagKey \<mapsto> pending)\<rparr>, w')))))"

text \<open>What a member of the reader yields: a gate a boolean, a variant its narrowed name.\<close>

datatype flag_value = BoolValue bool | VariantValue string

definition readFlag ::
  "'w flag_client \<Rightarrow> string \<Rightarrow> FlagSpec \<Rightarrow> flag_memo \<times> 'w \<Rightarrow>
   (thrown + flag_value) \<times> (flag_memo \<times> 'w)" where
  "readFlag client flagKey spec st = (case spec of
      GateSpec d doc l \<Rightarrow> (case readGate client flagKey d st of (r, st') \<Rightarrow>
        (rbind r (\<lambda>b. Inr (BoolValue b)), st'))
    | VariantSpec variants d doc l \<Rightarrow> (case readVariant client flagKey d st of (r, st') \<Rightarrow>
        (rbind r (\<lambda>v. Inr (VariantValue (if v \<in> set variants then v else d))), st')))"

definition assertFlag ::
  "'w flag_client \<Rightarrow> string \<Rightarrow> bool \<Rightarrow> flag_memo \<times> 'w \<Rightarrow> (thrown + unit) \<times> (flag_memo \<times> 'w)" where
  "assertFlag client flagKey defaultValue st =
     (case readGate client flagKey defaultValue st of (r, st') \<Rightarrow>
        (rbind r (\<lambda>b. if \<not> b then Inl (FeatureDisabledError flagKey) else Inr ()), st'))"

text \<open>The reader a use case receives: what awaiting each of the members it uses yields.\<close>

record FlagReader =
  fr_assertPointTransfer :: "thrown + unit"
  fr_pointTransferPreferFree :: "thrown + bool"
  fr_welcomeVariant :: "thrown + string"

section \<open>Dates\<close>

lemma readDigits_Some_iff:
  "readDigits acc ds \<noteq> None \<longleftrightarrow> list_all isDigitChar ds"
  by (induction ds arbitrary: acc) (auto simp: isDigitChar_def split: option.split)

lemma digitValue_less: "digitValue c = Some d \<Longrightarrow> d < 10"
  by (auto simp: digitValue_def Let_def split: if_splits)

lemma digitValue_code: "digitValue c = Some d \<Longrightarrow> (of_char c :: nat) = 48 + d"
  by (auto simp: digitValue_def Let_def split: if_splits)

lemma digitValue_order:
  assumes "digitValue c = Some d" "digitValue c' = Some d'"
  shows "((of_char c :: nat) < of_char c' \<longleftrightarrow> d < d') \<and> (c = c' \<longleftrightarrow> d = d')"
proof -
  have "c = c' \<longleftrightarrow> (of_char c :: nat) = of_char c'" by simp
  then show ?thesis using digitValue_code [OF assms(1)] digitValue_code [OF assms(2)] by simp
qed

lemma readDigits_bound:
  "readDigits acc ds = Some n \<Longrightarrow> acc * 10 ^ length ds \<le> n \<and> n < (acc + 1) * 10 ^ length ds"
proof (induction ds arbitrary: acc)
  case Nil
  then show ?case by simp
next
  case (Cons c cs)
  then obtain d where d: "digitValue c = Some d" and n: "readDigits (10 * acc + d) cs = Some n"
    by (auto split: option.splits)
  note bound = Cons.IH [OF n]
  have "10 * acc * 10 ^ length cs \<le> (10 * acc + d) * 10 ^ length cs"
    by (rule mult_le_mono1) simp
  moreover have "(10 * acc + d + 1) * 10 ^ length cs \<le> (10 * acc + 10) * 10 ^ length cs"
    using digitValue_less [OF d] by (intro mult_le_mono1) simp
  moreover have "acc * 10 ^ length (c # cs) = 10 * acc * 10 ^ length cs"
    "(acc + 1) * 10 ^ length (c # cs) = (10 * acc + 10) * 10 ^ length cs"
    by (simp_all add: algebra_simps)
  ultimately show ?case using bound by linarith
qed

text \<open>Texts of digits of one length compare as the numbers they denote.\<close>

lemma textBefore_digits:
  "length xs = length ys \<Longrightarrow> readDigits a xs = Some m \<Longrightarrow> readDigits b ys = Some n \<Longrightarrow> a = b \<Longrightarrow>
     (textBefore xs ys \<longleftrightarrow> m < n) \<and> (xs = ys \<longleftrightarrow> m = n)"
proof (induction xs ys arbitrary: a b rule: list_induct2)
  case Nil
  then show ?case by simp
next
  case (Cons x xs y ys)
  from Cons.prems obtain d d' where d: "digitValue x = Some d" "digitValue y = Some d'"
    and m: "readDigits (10 * a + d) xs = Some m" and n: "readDigits (10 * b + d') ys = Some n"
    by (auto split: option.splits)
  note ord = digitValue_order [OF d]
  consider "d < d'" | "d = d'" | "d' < d" by linarith
  then show ?case
  proof cases
    case 1
    then have "10 * a + d + 1 \<le> 10 * b + d'" using Cons.prems by simp
    from mult_le_mono1 [OF this, of "10 ^ length xs"]
    have "(10 * a + d + 1) * 10 ^ length xs \<le> (10 * b + d') * 10 ^ length ys"
      by (simp only: Cons.hyps)
    with readDigits_bound [OF m] readDigits_bound [OF n] have "m < n" by linarith
    with 1 ord show ?thesis by auto
  next
    case 2
    with Cons.IH [OF m n] Cons.prems ord show ?thesis by auto
  next
    case 3
    then have "10 * b + d' + 1 \<le> 10 * a + d" using Cons.prems by simp
    from mult_le_mono1 [OF this, of "10 ^ length ys"]
    have "(10 * b + d' + 1) * 10 ^ length ys \<le> (10 * a + d) * 10 ^ length xs"
      by (simp only: Cons.hyps)
    with readDigits_bound [OF m] readDigits_bound [OF n] have "n < m" by linarith
    with 3 ord show ?thesis by auto
  qed
qed

lemma textBefore_append:
  "length xs = length ys \<Longrightarrow>
     textBefore (xs @ us) (ys @ vs) \<longleftrightarrow> textBefore xs ys \<or> (xs = ys \<and> textBefore us vs)"
  by (induction xs ys rule: list_induct2) auto

text \<open>The calendar day a date names, ordered by year, month and day.\<close>

definition dateKey :: "string \<Rightarrow> nat \<times> nat \<times> nat" where
  "dateKey value = (case matchDate value of
      None \<Rightarrow> (0, 0, 0) | Some (y, m, d) \<Rightarrow> (numberOf y, numberOf m, numberOf d))"

lemma readDigits_numberOf: "list_all isDigitChar ds \<Longrightarrow> readDigits 0 ds = Some (numberOf ds)"
  using readDigits_Some_iff [of 0 ds] by (auto simp: numberOf_def)

lemma textBefore_numberOf:
  assumes "length xs = length ys" "list_all isDigitChar xs" "list_all isDigitChar ys"
  shows "(textBefore xs ys \<longleftrightarrow> numberOf xs < numberOf ys) \<and> (xs = ys \<longleftrightarrow> numberOf xs = numberOf ys)"
  using textBefore_digits [OF assms(1) readDigits_numberOf [OF assms(2)]
    readDigits_numberOf [OF assms(3)] refl] .

lemma matchDate_parts:
  assumes "matchDate value = Some (y, m, d)"
  shows "value = y @ [CHR ''-''] @ m @ [CHR ''-''] @ d" "length y = 4" "length m = 2" "length d = 2"
    "list_all isDigitChar y" "list_all isDigitChar m" "list_all isDigitChar d"
proof -
  from assms have len: "length value = 10" and sep: "value ! 4 = CHR ''-''" "value ! 7 = CHR ''-''"
    and parts: "y = take 4 value" "m = take 2 (drop 5 value)" "d = drop 8 value"
    by (auto simp: matchDate_def split: if_splits)
  have "value = take 4 value @ drop 4 value" by simp
  also have "drop 4 value = value ! 4 # drop 5 value" using len by (simp add: Cons_nth_drop_Suc [symmetric])
  also have "drop 5 value = take 2 (drop 5 value) @ drop 7 value"
    using append_take_drop_id [of 2 "drop 5 value"] by (simp add: eval_nat_numeral)
  also have "drop 7 value = value ! 7 # drop 8 value" using len by (simp add: Cons_nth_drop_Suc [symmetric])
  finally show "value = y @ [CHR ''-''] @ m @ [CHR ''-''] @ d" by (simp add: parts sep)
  show "length y = 4" "length m = 2" "length d = 2" using len by (simp_all add: parts)
  show "list_all isDigitChar y" "list_all isDigitChar m" "list_all isDigitChar d"
    using assms by (auto simp: matchDate_def parts split: if_splits)
qed

lemma isIsoCalendarDate_match: "isIsoCalendarDate value \<Longrightarrow> \<exists>y m d. matchDate value = Some (y, m, d)"
  by (auto simp: isIsoCalendarDate_def split: option.splits)

lemma textBefore_dates:
  assumes "isIsoCalendarDate a" "isIsoCalendarDate b"
  shows "textBefore a b \<longleftrightarrow> dateKey a < dateKey b"
proof -
  from assms obtain y m d y' m' d' where
    a: "matchDate a = Some (y, m, d)" and b: "matchDate b = Some (y', m', d')"
    by (meson isIsoCalendarDate_match)
  note pa = matchDate_parts [OF a] and pb = matchDate_parts [OF b]
  have y: "(textBefore y y' \<longleftrightarrow> numberOf y < numberOf y') \<and> (y = y' \<longleftrightarrow> numberOf y = numberOf y')"
    and m: "(textBefore m m' \<longleftrightarrow> numberOf m < numberOf m') \<and> (m = m' \<longleftrightarrow> numberOf m = numberOf m')"
    and d: "(textBefore d d' \<longleftrightarrow> numberOf d < numberOf d') \<and> (d = d' \<longleftrightarrow> numberOf d = numberOf d')"
    using pa pb by (simp_all only: textBefore_numberOf)
  have "textBefore a b \<longleftrightarrow> textBefore y y' \<or> (y = y' \<and> (textBefore m m' \<or> (m = m' \<and> textBefore d d')))"
    unfolding pa(1) pb(1) using pa(2-4) pb(2-4) by (simp add: textBefore_append)
  with y m d show ?thesis by (auto simp: dateKey_def a b less_prod_def)
qed

text \<open>the stale-flag report names exactly the temporary flags whose removal day, as a calendar
  day, lies before the given day, although the code compares the texts of the dates.
\<close>

theorem expiredFlags_by_calendar:
  assumes "isIsoCalendarDate today"
    and "\<forall>(k, spec) \<in> set specs. \<forall>r. specLifecycle spec = Temporary r \<longrightarrow> isIsoCalendarDate r"
  shows "\<exists>report. expiredFlags specs today = Inr report \<and>
    (\<forall>k r. (k, r) \<in> set report \<longleftrightarrow>
       (\<exists>spec. (k, spec) \<in> set specs \<and> specLifecycle spec = Temporary r \<and> dateKey r < dateKey today))"
proof -
  have before: "textBefore r today \<longleftrightarrow> dateKey r < dateKey today"
    if "(k, spec) \<in> set specs" "specLifecycle spec = Temporary r" for k spec r
    using assms that by (intro textBefore_dates) auto
  have "(k, r) \<in> set (concat (map (\<lambda>(flagName, spec). case specLifecycle spec of
          Temporary removeBy \<Rightarrow> (if textBefore removeBy today then [(flagName, removeBy)] else [])
        | Permanent \<Rightarrow> []) specs)) \<longleftrightarrow>
      (\<exists>spec. (k, spec) \<in> set specs \<and> specLifecycle spec = Temporary r \<and> textBefore r today)" for k r
    by (force split: FlagLifecycle.splits if_splits)
  with before assms(1) show ?thesis by (simp add: expiredFlags_def) blast
qed

theorem expiredFlags_by_calendar_witness:
  "\<exists>report. expiredFlags [(''pointTransfer'', gate False ''d'' (Temporary ''2030-12-31''))] ''2031-01-01''
     = Inr report \<and> (''pointTransfer'', ''2030-12-31'') \<in> set report"
proof -
  let ?specs = "[(''pointTransfer'', gate False ''d'' (Temporary ''2030-12-31''))]"
  have iso: "isIsoCalendarDate ''2031-01-01''" "isIsoCalendarDate ''2030-12-31''" by code_simp+
  then have ok: "\<forall>(k, spec) \<in> set ?specs. \<forall>r. specLifecycle spec = Temporary r \<longrightarrow> isIsoCalendarDate r"
    by (simp add: gate_def)
  have "dateKey ''2030-12-31'' < dateKey ''2031-01-01''" by code_simp
  with expiredFlags_by_calendar [OF iso(1) ok] show ?thesis by (auto simp: gate_def)
qed

lemma FLAGS_defined:
  "FLAGS = Inr [(''pointTransfer'', GateSpec False ''Enablement gate for peer-to-peer point transfers.'' (Temporary ''2030-12-31'')),
    (''pointTransferPreferFree'', GateSpec False ''Spend free points before paid ones on a transfer.'' (Temporary ''2030-12-31'')),
    (''welcomeVariant'', VariantSpec [''classic'', ''festive'', ''minimal''] ''classic'' ''Welcome-post copy variant.'' Permanent)]"
proof -
  have "isIsoCalendarDate ''2030-12-31''" by code_simp
  then show ?thesis by (simp add: FLAGS_def temporary_def gate_def variant_def permanent_def)
qed

section \<open>One answer per request\<close>

fun readAll ::
  "'w flag_client \<Rightarrow> (string \<times> FlagSpec) list \<Rightarrow> flag_memo \<times> 'w \<Rightarrow>
   (thrown + flag_value) list \<times> (flag_memo \<times> 'w)" where
  "readAll client [] st = ([], st)"
| "readAll client ((k, spec) # reqs) st =
     (case readFlag client k spec st of (r, st1) \<Rightarrow>
        (case readAll client reqs st1 of (rs, st2) \<Rightarrow> (r # rs, st2)))"

lemma readGate_memo:
  "readGate client k d st = (r, st1) \<Longrightarrow> memo_gate (fst st1) k = Some r"
  by (auto simp: readGate_def split: prod.splits option.splits)

lemma readVariant_memo:
  "readVariant client k d st = (r, st1) \<Longrightarrow> memo_variant (fst st1) k = Some r"
  by (auto simp: readVariant_def split: prod.splits option.splits)

lemma readFlag_keeps_memo:
  assumes "readFlag client k spec st = (r, st1)"
  shows "memo_gate (fst st) j = Some p \<Longrightarrow> memo_gate (fst st1) j = Some p"
    and "memo_variant (fst st) j = Some q \<Longrightarrow> memo_variant (fst st1) j = Some q"
  using assms
  by (auto simp: readFlag_def readGate_def readVariant_def split: prod.splits FlagSpec.splits option.splits)

lemma readAll_keeps_memo:
  "readAll client reqs st = (rs, st1) \<Longrightarrow>
     (memo_gate (fst st) j = Some p \<longrightarrow> memo_gate (fst st1) j = Some p) \<and>
     (memo_variant (fst st) j = Some q \<longrightarrow> memo_variant (fst st1) j = Some q)"
proof (induction reqs arbitrary: st rs)
  case Nil
  then show ?case by simp
next
  case (Cons req reqs)
  obtain k spec where req: "req = (k, spec)" by fastforce
  obtain r st' where r: "readFlag client k spec st = (r, st')" by (metis surj_pair)
  with Cons.prems req obtain rs' where "readAll client reqs st' = (rs', st1)"
    by (auto split: prod.splits)
  with Cons.IH readFlag_keeps_memo [OF r] show ?case by blast
qed

text \<open>within one request a flag has one answer: after a first read, whatever flags are read
  in between, reading it again yields the same value (or the same failure) and asks the
  client nothing.
\<close>

theorem flag_answer_is_stable:
  "case readFlag client k spec st of (r, st1) \<Rightarrow>
     (case readAll client reqs st1 of (rs, st2) \<Rightarrow> readFlag client k spec st2 = (r, st2))"
proof -
  obtain r st1 where Pair: "readFlag client k spec st = (r, st1)" by (metis surj_pair)
  obtain rs st2 where all: "readAll client reqs st1 = (rs, st2)" by (metis surj_pair)
  note keep = readAll_keeps_memo [OF all]
  have "readFlag client k spec st2 = (r, st2)"
  proof (cases spec)
    case (GateSpec d doc l)
    then obtain g where "readGate client k d st = (g, st1)" "r = rbind g (\<lambda>b. Inr (BoolValue b))"
      using Pair by (auto simp: readFlag_def split: prod.splits)
    moreover from this have "memo_gate (fst st2) k = Some g" using readGate_memo keep by blast
    ultimately show ?thesis
      using GateSpec by (cases st2) (simp add: readFlag_def readGate_def)
  next
    case (VariantSpec vs d doc l)
    then obtain g where "readVariant client k d st = (g, st1)"
      "r = rbind g (\<lambda>v. Inr (VariantValue (if v \<in> set vs then v else d)))"
      using Pair by (auto simp: readFlag_def split: prod.splits)
    moreover from this have "memo_variant (fst st2) k = Some g" using readVariant_memo keep by blast
    ultimately show ?thesis
      using VariantSpec by (cases st2) (simp add: readFlag_def readVariant_def)
  qed
  with Pair all show ?thesis by simp
qed

end
