(* ===== verification/PointService.thy ===== *)
theory PointService
  imports PointRepo Flags
begin

text \<open>
  The point use cases, \<open>src/modules/point/point.service.ts\<close>, and the verification job of
  \<open>src/modules/point/jobs/point.job.ts\<close>: each is the read, decide, execute assembly in the
  transaction that \<open>uow\<close> opens. The instant of the injected clock is an argument.
\<close>

section \<open>Use cases\<close>

definition charge :: "engine \<Rightarrow> instant \<Rightarrow> int \<Rightarrow> js_number \<Rightarrow> js_number \<Rightarrow> charge_row dbtx" where
  "charge eng now userId paidAmount freeAmount =
     bindT (liftT (planCharge paidAmount freeAmount now)) (\<lambda>plan.
     run (e_session eng) (applyChargePlan eng userId plan))"

definition spend :: "engine \<Rightarrow> int \<Rightarrow> js_number \<Rightarrow> string \<Rightarrow> spend_row dbtx" where
  "spend eng userId amount reason = snapshot (e_session eng)
     (bindT (readT (\<lambda>s. Inr (loadPointWorld userId s))) (\<lambda>world.
      bindT (liftT (planSpend (pw_snapshot world) (pw_charges world) amount False)) (\<lambda>plan.
      applySpendPlan eng userId reason plan)))"

definition expire :: "engine \<Rightarrow> dayjs \<Rightarrow> instant \<Rightarrow> int \<Rightarrow> instant option \<Rightarrow> nat dbtx" where
  "expire eng dj clockNow userId optsNow =
     (let now = (case optsNow of Some t \<Rightarrow> t | None \<Rightarrow> clockNow) in
      snapshot (e_session eng)
        (bindT (readT (\<lambda>s. Inr (loadExpiryWorld userId s))) (\<lambda>world.
         applyExpiryPlan userId (planExpiry dj (xw_snapshot world) (xw_charges world) now))))"

definition transfer ::
  "engine \<Rightarrow> instant \<Rightarrow> int \<Rightarrow> int \<Rightarrow> js_number \<Rightarrow> FlagReader \<Rightarrow> spend_row dbtx" where
  "transfer eng now fromUserId toUserId amount flags =
     bindT (liftT (fr_assertPointTransfer flags)) (\<lambda>_.
     bindT (liftT (fr_pointTransferPreferFree flags)) (\<lambda>preferFree.
     bindT (serialized (e_session eng)
         [lockKey (LpointBalance fromUserId), lockKey (LpointBalance toUserId)]
         (bindT (readT (\<lambda>s. Inr (loadPointWorld fromUserId s))) (\<lambda>world.
          bindT (liftT (planTransfer fromUserId toUserId (pw_snapshot world) (pw_charges world)
                   amount now preferFree)) (\<lambda>plan.
          applyTransferPlan eng fromUserId toUserId plan)))
         True) (\<lambda>(spend, charge).
     returnT spend)))"

text \<open>
  The sweep reads its population from one state of the database and then each user from the
  state at that user's own transaction: \<open>states k\<close> is the database the \<open>k\<close>-th transaction sees.
\<close>

definition verifyUser :: "engine \<Rightarrow> int \<Rightarrow> unit dbtx" where
  "verifyUser eng userId = snapshot (e_session eng)
     (bindT (readT (\<lambda>s. Inr (loadPointWorld userId s))) (\<lambda>world.
      liftT (assertBalanceConsistent userId (pw_snapshot world) (pw_charges world))))"

fun verifyEach :: "engine \<Rightarrow> (nat \<Rightarrow> db) \<Rightarrow> nat \<Rightarrow> int list \<Rightarrow> thrown + unit" where
  "verifyEach eng states k [] = Inr ()"
| "verifyEach eng states k (userId # userIds) =
     (case verifyUser eng userId (states k) of
        Inl e \<Rightarrow> Inl e
      | Inr r \<Rightarrow> verifyEach eng states (Suc k) userIds)"

definition verifyBalances :: "engine \<Rightarrow> db \<Rightarrow> (nat \<Rightarrow> db) \<Rightarrow> thrown + nat" where
  "verifyBalances eng s states =
     (let userIds = findUserIdsWithBalanceOrUsableCharges s in
      case verifyEach eng states 0 userIds of
        Inl e \<Rightarrow> Inl e
      | Inr r \<Rightarrow> Inr (length userIds))"

section \<open>The job\<close>

definition POINT_BALANCE_VERIFY_JOB :: string where
  "POINT_BALANCE_VERIFY_JOB = ''point:balance:verify''"

text \<open>What the job registers: its name, the handler it defines, and its schedule.\<close>

definition pointJobHandler :: "engine \<Rightarrow> db \<Rightarrow> (nat \<Rightarrow> db) \<Rightarrow> thrown + unit" where
  "pointJobHandler eng s states = rbind (verifyBalances eng s states) (\<lambda>_. Inr ())"

definition registerPointJobs :: "(string \<times> string) list" where
  "registerPointJobs = [(POINT_BALANCE_VERIFY_JOB, ''15 minutes'')]"

section \<open>What a successful use case did\<close>

lemma charge_success:
  assumes "charge eng now userId p f s = Inr (row, s')"
  shows "\<exists>plan. planCharge p f now = Inr plan \<and> applyChargePlan eng userId plan s = Inr (row, s')"
  using assms run_success by (fastforce simp: charge_def tx_simps)

lemma spend_success:
  assumes "session_frame (e_session eng)" "spend eng userId amount reason s = Inr (row, s')"
  shows "\<exists>plan. planSpend (pw_snapshot (loadPointWorld userId s)) (pw_charges (loadPointWorld userId s))
      amount False = Inr plan \<and> applySpendPlan eng userId reason plan s = Inr (row, s')"
  using snapshot_success [OF assms(1) assms(2) [unfolded spend_def]] by (auto simp: tx_simps)

lemma expire_success:
  assumes "session_frame (e_session eng)" "expire eng dj clockNow userId optsNow s = Inr (n, s')"
  shows "applyExpiryPlan userId (planExpiry dj (xw_snapshot (loadExpiryWorld userId s))
      (xw_charges (loadExpiryWorld userId s)) (case optsNow of Some t \<Rightarrow> t | None \<Rightarrow> clockNow)) s = Inr (n, s')"
  using snapshot_success [OF assms(1) assms(2) [unfolded expire_def Let_def]] by (auto simp: tx_simps)

lemma transfer_success:
  assumes "session_frame (e_session eng)" "transfer eng now a b amount flags s = Inr (row, s')"
  shows "\<exists>preferFree plan charge. fr_assertPointTransfer flags = Inr () \<and>
    fr_pointTransferPreferFree flags = Inr preferFree \<and>
    planTransfer a b (pw_snapshot (loadPointWorld a s)) (pw_charges (loadPointWorld a s)) amount now preferFree
      = Inr plan \<and> applyTransferPlan eng a b plan s = Inr ((row, charge), s')"
proof -
  from assms(2) obtain preferFree charge where "fr_assertPointTransfer flags = Inr ()"
    "fr_pointTransferPreferFree flags = Inr preferFree"
    and ser: "serialized (e_session eng) [lockKey (LpointBalance a), lockKey (LpointBalance b)]
         (bindT (readT (\<lambda>s. Inr (loadPointWorld a s))) (\<lambda>world.
          bindT (liftT (planTransfer a b (pw_snapshot world) (pw_charges world) amount now preferFree)) (\<lambda>plan.
          applyTransferPlan eng a b plan))) True s = Inr ((row, charge), s')"
    by (auto simp: transfer_def tx_simps)
  with serialized_success [OF assms(1) ser] show ?thesis by (auto simp: tx_simps)
qed

section \<open>Spending keeps the ledger\<close>

text \<open>C17: a spend that succeeds keeps the ledger consistent, lowers the balance of its user by
  exactly the requested amount, leaves every other user's balance, and records one spend
  whose paid and free parts are what the two sides of the balance lost.
\<close>

theorem spend_moves_exactly_the_amount:
  assumes fr: "session_frame (e_session eng)" and inv: "ledger_ok s"
    and ok: "spend eng userId amount reason s = Inr (row, s')"
  shows "ledger_ok s' \<and>
    ps_totalAmount (storedSnapshot userId s') = ps_totalAmount (storedSnapshot userId s) - intOf amount \<and>
    ps_paidAmount (storedSnapshot userId s') = ps_paidAmount (storedSnapshot userId s) - sp_paidAmount row \<and>
    ps_freeAmount (storedSnapshot userId s') = ps_freeAmount (storedSnapshot userId s) - sp_freeAmount row \<and>
    (\<forall>u. u \<noteq> userId \<longrightarrow> storedSnapshot u s' = storedSnapshot u s) \<and>
    pointSpends s' = pointSpends s @ [row]"
proof -
  from spend_success [OF fr ok] obtain plan where
    plan: "planSpend (pw_snapshot (loadPointWorld userId s)) (pw_charges (loadPointWorld userId s)) amount False = Inr plan"
    and ap: "applySpendPlan eng userId reason plan s = Inr (row, s')" by blast
  note pl = planSpend_world_ok [OF inv plan]
  note e = applySpendPlan_effect [OF ap inv pl(1) pl(2)]
  have "pl_balanceAfter plan = \<lparr>
       ps_paidAmount = ps_paidAmount (storedSnapshot userId s) - pl_paidUsage plan,
       ps_freeAmount = ps_freeAmount (storedSnapshot userId s) - pl_freeUsage plan,
       ps_totalAmount = ps_totalAmount (storedSnapshot userId s) - pl_paidUsage plan - pl_freeUsage plan\<rparr>"
    using pl(1,3) by (simp add: spend_plan_ok_def)
  with pl(4) e show ?thesis by simp
qed

text \<open>C19: on a consistent ledger, with no competing transaction, a spend succeeds exactly when
  its amount is a positive integer within the balance; otherwise it fails with the client
  error that names the reason and writes nothing.
\<close>

theorem spend_outcome:
  assumes "session_quiet (e_session eng)" "ledger_ok s"
  shows "(isValidPointAmount amount \<and> intOf amount \<le> ps_totalAmount (storedSnapshot userId s) \<longrightarrow>
      (\<exists>row s'. spend eng userId amount reason s = Inr (row, s'))) \<and>
    (\<not> isValidPointAmount amount \<longrightarrow>
      spend eng userId amount reason s = Inl (PointAmountNotPositiveError amount)) \<and>
    (isValidPointAmount amount \<and> ps_totalAmount (storedSnapshot userId s) < intOf amount \<longrightarrow>
      spend eng userId amount reason s =
        Inl (InsufficientPointError (ps_totalAmount (storedSnapshot userId s)) (intOf amount)))"
proof -
  let ?w = "loadPointWorld userId s"
  let ?body = "bindT (readT (\<lambda>s. Inr (loadPointWorld userId s))) (\<lambda>world.
      bindT (liftT (planSpend (pw_snapshot world) (pw_charges world) amount False)) (\<lambda>plan.
      applySpendPlan eng userId reason plan))"
  have nn: "nonnegCharges (pw_charges ?w)" using world_nonneg [OF assms(2)] by (simp add: loadPointWorld_def)
  have snap: "pw_snapshot ?w = sumUsableBalance (pw_charges ?w)" by (rule world_consistent [OF assms(2)])
  have stored: "pw_snapshot ?w = storedSnapshot userId s" by (simp add: loadPointWorld_def)
  have body: "?body s = (case planSpend (pw_snapshot ?w) (pw_charges ?w) amount False of
      Inl e \<Rightarrow> Inl e | Inr plan \<Rightarrow> applySpendPlan eng userId reason plan s)"
    by (auto simp: bindT_def split: sum.split)
  have fail: "spend eng userId amount reason s = Inl (DomainError n m c)"
    if "?body s = Inl (DomainError n m c)" "c \<noteq> ''P2034''" for n m c
    using that assms(1) by (simp add: spend_def snapshot_def beginSnapshot_def runTx_def
        transaction_def bindT_def session_quiet_def isSerializationConflict_def)
  have "\<exists>row s'. spend eng userId amount reason s = Inr (row, s')"
    if "isValidPointAmount amount" "intOf amount \<le> ps_totalAmount (storedSnapshot userId s)"
  proof -
    have "\<exists>plan. planSpend (pw_snapshot ?w) (pw_charges ?w) amount False = Inr plan"
      unfolding snap by (rule planSpend_succeeds [OF nn that(1)]) (use that(2) in \<open>simp add: snap [symmetric] stored\<close>)
    then obtain plan where plan: "planSpend (pw_snapshot ?w) (pw_charges ?w) amount False = Inr plan" ..
    from applySpendPlan_succeeds [OF assms(2) plan] obtain row s' where
      "applySpendPlan eng userId reason plan s = Inr (row, s')" by blast
    with plan body have "?body s = Inr (row, s')" by simp
    from snapshot_quiet [where body = ?body, OF assms(1) this] show ?thesis unfolding spend_def by blast
  qed
  moreover have "spend eng userId amount reason s = Inl (PointAmountNotPositiveError amount)"
    if "\<not> isValidPointAmount amount"
    using that body fail by (simp add: planSpend_def assertValidAmount_def PointAmountNotPositiveError_def)
  moreover have "spend eng userId amount reason s =
        Inl (InsufficientPointError (ps_totalAmount (storedSnapshot userId s)) (intOf amount))"
    if "isValidPointAmount amount" "ps_totalAmount (storedSnapshot userId s) < intOf amount"
    using that body fail by (simp add: planSpend_def assertValidAmount_def InsufficientPointError_def stored)
  ultimately show ?thesis by blast
qed

subsection \<open>A small ledger\<close>

text \<open>Two users: the first has two charges, the second none.\<close>

definition sampleDb :: db where
  "sampleDb = emptyDb\<lparr>
     pointCharges := [
       \<lparr>c_id = 1, c_userId = 7, c_state = ''USABLE'', c_paidAmount = 30, c_freeAmount = 20,
        c_unspentPaid = 30, c_unspentFree = 20, c_chargedAt = 0, c_expiredAt = None\<rparr>,
       \<lparr>c_id = 2, c_userId = 7, c_state = ''USABLE'', c_paidAmount = 50, c_freeAmount = 0,
        c_unspentPaid = 50, c_unspentFree = 0, c_chargedAt = 5, c_expiredAt = None\<rparr>],
     pointBalances := [\<lparr>b_userId = 7, b_paidAmount = 80, b_freeAmount = 20, b_totalAmount = 100\<rparr>]\<rparr>"

lemma sampleDb_ok: "ledger_ok sampleDb"
proof -
  have "storedSnapshot u sampleDb = ledgerSnapshot u sampleDb" for u
    by (simp add: sampleDb_def emptyDb_def storedSnapshot_def ledgerSnapshot_def usableSum_def
        balanceSnapshot_def ZERO_SNAPSHOT_def isUsableOf_def)
  then show ?thesis
    by (simp add: ledger_ok_def sampleDb_def emptyDb_def charge_ok_def isPointChargeState_def
        POINT_CHARGE_STATES_def)
qed

lemma sampleDb_stored:
  "storedSnapshot 7 sampleDb = \<lparr>ps_paidAmount = 80, ps_freeAmount = 20, ps_totalAmount = 100\<rparr>"
  by (simp add: sampleDb_def emptyDb_def storedSnapshot_def balanceSnapshot_def)

lemma sample_session: "session_quiet (e_session refEngine)" "session_frame (e_session refEngine)"
  using session_quiet_frame [OF quietSession_quiet] by simp_all

lemma sample_spend_ok:
  "\<exists>plan. planSpend (pw_snapshot (loadPointWorld 7 sampleDb)) (pw_charges (loadPointWorld 7 sampleDb))
     (JInt 90) pf = Inr plan"
proof -
  have snap: "pw_snapshot (loadPointWorld 7 sampleDb) = sumUsableBalance (pw_charges (loadPointWorld 7 sampleDb))"
    by (rule world_consistent [OF sampleDb_ok])
  have "nonnegCharges (pw_charges (loadPointWorld 7 sampleDb))"
    using world_nonneg [OF sampleDb_ok] by (simp add: loadPointWorld_def)
  moreover have "ps_totalAmount (pw_snapshot (loadPointWorld 7 sampleDb)) = 100"
    by (simp add: loadPointWorld_def sampleDb_stored)
  ultimately show ?thesis
    unfolding snap by (intro planSpend_succeeds) (simp_all add: isValidPointAmount_def snap)
qed

lemma sample_spend: "\<exists>row s'. spend refEngine 7 (JInt 90) ''gift'' sampleDb = Inr (row, s')"
proof -
  obtain plan where plan: "planSpend (pw_snapshot (loadPointWorld 7 sampleDb))
      (pw_charges (loadPointWorld 7 sampleDb)) (JInt 90) False = Inr plan"
    using sample_spend_ok by blast
  obtain row s' where "applySpendPlan refEngine 7 ''gift'' plan sampleDb = Inr (row, s')"
    using applySpendPlan_succeeds [OF sampleDb_ok plan] by blast
  with plan have "(bindT (readT (\<lambda>s. Inr (loadPointWorld 7 s))) (\<lambda>world.
      bindT (liftT (planSpend (pw_snapshot world) (pw_charges world) (JInt 90) False)) (\<lambda>plan.
      applySpendPlan refEngine 7 ''gift'' plan))) sampleDb = Inr (row, s')"
    by (simp add: bindT_def)
  from snapshot_quiet [OF sample_session(1), of _ sampleDb "(row, s')"] this
  show ?thesis unfolding spend_def by blast
qed

theorem spend_moves_exactly_the_amount_witness:
  "\<exists>row s'. spend refEngine 7 (JInt 90) ''gift'' sampleDb = Inr (row, s') \<and>
     ps_totalAmount (storedSnapshot 7 s') = 10"
proof -
  obtain row s' where ok: "spend refEngine 7 (JInt 90) ''gift'' sampleDb = Inr (row, s')"
    using sample_spend by blast
  from spend_moves_exactly_the_amount [OF sample_session(2) sampleDb_ok ok]
  show ?thesis using ok by (simp add: sampleDb_stored)
qed

theorem spend_outcome_witness:
  "spend refEngine 7 (JInt 101) ''gift'' sampleDb = Inl (InsufficientPointError 100 101)"
  using spend_outcome [OF sample_session(1) sampleDb_ok, of "JInt 101" 7 "''gift''"]
  by (simp add: isValidPointAmount_def sampleDb_stored)

section \<open>Expiry\<close>

lemma expire_quiet:
  assumes q: "session_quiet (e_session eng)" and inv: "ledger_ok s"
  shows "\<exists>s'. applyExpiryPlan userId (planExpiry dj (xw_snapshot (loadExpiryWorld userId s))
        (xw_charges (loadExpiryWorld userId s)) now) s =
      Inr (length (filter (isDue dj now) (xw_charges (loadExpiryWorld userId s))), s') \<and>
    expire eng dj clockNow userId (Some now) s =
      Inr (length (filter (isDue dj now) (xw_charges (loadExpiryWorld userId s))), s')"
proof -
  let ?plan = "planExpiry dj (xw_snapshot (loadExpiryWorld userId s))
      (xw_charges (loadExpiryWorld userId s)) now"
  have len: "length (xp_expirations ?plan) =
      length (filter (isDue dj now) (xw_charges (loadExpiryWorld userId s)))"
    by (simp add: planExpiry_eq)
  obtain s' where ap: "applyExpiryPlan userId ?plan s = Inr (length (xp_expirations ?plan), s')"
    using applyExpiryPlan_succeeds [OF inv refl] by blast
  let ?body = "bindT (readT (\<lambda>s. Inr (loadExpiryWorld userId s))) (\<lambda>world.
         applyExpiryPlan userId (planExpiry dj (xw_snapshot world) (xw_charges world) now))"
  have "?body s = Inr (length (xp_expirations ?plan), s')" using ap by (simp add: bindT_def)
  from snapshot_quiet [where body = ?body, OF q this] have
    "expire eng dj clockNow userId (Some now) s = Inr (length (xp_expirations ?plan), s')"
    by (simp add: expire_def Let_def)
  with ap show ?thesis unfolding len by blast
qed

lemma due_count:
  "length (filter (isDue dj now) (xw_charges (loadExpiryWorld userId s))) =
    length (filter (\<lambda>c. isUsableOf userId c \<and> isDue dj now (toExpirable c)) (pointCharges s))"
  by (simp add: loadExpiryWorld_def usableCharges_def filter_map comp_def filter_sort filter_filter conj_commute)

lemma forEach_expirations_touch:
  assumes "forEachT (applyExpiration t) xs s = Inr (y, s')"
  shows "s' = s\<lparr>pointCharges := pointCharges s'\<rparr>"
  using assms
proof (induction xs arbitrary: s)
  case Nil
  then show ?case by (simp add: tx_simps)
next
  case (Cons x xs)
  then obtain z s1 where s1: "applyExpiration t x s = Inr (z, s1)"
    and rest: "forEachT (applyExpiration t) xs s1 = Inr (y, s')"
    by (auto simp: tx_simps)
  from s1 obtain rs where rs: "s1 = s\<lparr>pointCharges := rs\<rparr>"
    by (auto simp: applyExpiration_def tx_simps putCharges_def)
  from Cons.IH [OF rest] show ?case unfolding rs by simp
qed

lemma applyExpiryPlan_touches:
  assumes "applyExpiryPlan u plan s = Inr (n, s')"
  shows "s' = s\<lparr>pointBalances := pointBalances s', pointCharges := pointCharges s'\<rparr>"
proof (cases "xp_expirations plan = []")
  case True
  with assms show ?thesis by (simp add: applyExpiryPlan_def)
next
  case False
  with assms obtain s1 where
    s1: "forEachT (applyExpiration (xp_expiredAt plan)) (xp_expirations plan) s = Inr ((), s1)" and
    s2: "applyBalance u (xp_assumedBalance plan) (xp_balanceAfter plan) s1 = Inr ((), s')"
    by (auto simp: applyExpiryPlan_def tx_simps)
  from s2 obtain bs where bs: "s' = s1\<lparr>pointBalances := bs\<rparr>"
    by (auto simp: applyBalance_def tx_simps putBalances_def)
  obtain cs where cs: "s1 = s\<lparr>pointCharges := cs\<rparr>" using forEach_expirations_touch [OF s1] by blast
  show ?thesis by (simp add: bs cs)
qed

text \<open>The rows after an expiry that ran: the due charges in the code's words, every other table as it was.\<close>

lemma expiry_rows:
  assumes ap: "applyExpiryPlan userId (planExpiry dj (xw_snapshot (loadExpiryWorld userId s))
      (xw_charges (loadExpiryWorld userId s)) now) s = Inr (n, s')"
    and inv: "ledger_ok s"
  shows "s' = s\<lparr>pointBalances := pointBalances s', pointCharges := map (\<lambda>c.
      if isUsableOf userId c \<and> isDue dj now (toExpirable c) then expireRow now c else c) (pointCharges s)\<rparr>"
proof -
  let ?plan = "planExpiry dj (xw_snapshot (loadExpiryWorld userId s)) (xw_charges (loadExpiryWorld userId s)) now"
  have d: "distinct (map c_id (pointCharges s))" using inv by (simp add: ledger_ok_def)
  have ids: "c_id c \<in> cx_chargeId ` set (xp_expirations ?plan) \<longleftrightarrow>
      isUsableOf userId c \<and> isDue dj now (toExpirable c)" if "c \<in> set (pointCharges s)" for c
  proof -
    have "cx_chargeId ` set (xp_expirations ?plan) =
        c_id ` {c \<in> set (pointCharges s). isUsableOf userId c \<and> isDue dj now (toExpirable c)}"
      by (simp add: planExpiry_eq loadExpiryWorld_def usableCharges_def filter_map image_image
          Collect_conj_eq [symmetric] expirationOf_def toExpirable_def comp_def)
    with that d show ?thesis by (auto dest: distinct_key_unique)
  qed
  have t: "xp_expiredAt ?plan = now" by (simp add: planExpiry_eq)
  have "pointCharges s' = map (\<lambda>c. if isUsableOf userId c \<and> isDue dj now (toExpirable c)
      then expireRow now c else c) (pointCharges s)"
    unfolding applyExpiryPlan_rows [OF ap d] t by (rule map_cong) (simp_all add: ids)
  with applyExpiryPlan_touches [OF ap] show ?thesis by simp
qed

text \<open>C22: an expiry run alone on a consistent ledger never fails. It leaves exactly these rows: each
  usable charge of the user that was charged more than 365 Korean days ago is expired (its state
  is EXPIRED, nothing of it is unspent, and it carries the instant of the run), every other
  charge, of this user or of another, is untouched, and so is every table but the balances; the
  answer is the number of charges expired. The ledger stays consistent, every other user keeps
  their balance, and the run repeated at the same or an earlier instant finds nothing and
  changes nothing.
\<close>

theorem expire_complete_and_idempotent:
  assumes q: "session_quiet (e_session eng)" and inv: "ledger_ok s" and dj: "dayjs_utc dj"
  shows "let due = (\<lambda>c. c_userId c = userId \<and> c_state c = ''USABLE'' \<and>
      kstDay (now + 1) > kstDay (c_chargedAt c) + 365) in
    \<exists>s'. expire eng dj clockNow userId (Some now) s =
      Inr (length (filter due (pointCharges s)), s') \<and>
    s' = s\<lparr>pointBalances := pointBalances s',
      pointCharges := map (\<lambda>c. if due c then c\<lparr>c_state := ''EXPIRED'', c_unspentPaid := 0,
        c_unspentFree := 0, c_expiredAt := Some now\<rparr> else c) (pointCharges s)\<rparr> \<and>
    ledger_ok s' \<and> (\<forall>u. u \<noteq> userId \<longrightarrow> storedSnapshot u s' = storedSnapshot u s) \<and>
    (\<forall>t. t \<le> now \<longrightarrow> expire eng dj clockNow userId (Some t) s' = Inr (0, s'))"
proof -
  define due :: "charge_row \<Rightarrow> bool" where "due = (\<lambda>c. c_userId c = userId \<and> c_state c = ''USABLE'' \<and>
    kstDay (now + 1) > kstDay (c_chargedAt c) + 365)"
  have due: "due = (\<lambda>c. isUsableOf userId c \<and> isDue dj now (toExpirable c))"
    by (rule ext) (auto simp: due_def isUsableOf_def isDue_iff_day [OF dj] toExpirable_def EXPIRE_AFTER_DAYS_def)
  have n: "length (filter (isDue dj now) (xw_charges (loadExpiryWorld userId s))) =
      length (filter due (pointCharges s))"
    unfolding due by (rule due_count)
  from expire_quiet [OF q inv, of userId dj now clockNow] obtain s' where
    ap: "applyExpiryPlan userId (planExpiry dj (xw_snapshot (loadExpiryWorld userId s))
        (xw_charges (loadExpiryWorld userId s)) now) s = Inr (length (filter due (pointCharges s)), s')" and
    ex: "expire eng dj clockNow userId (Some now) s = Inr (length (filter due (pointCharges s)), s')"
    unfolding n by blast
  note pl = planExpiry_world_ok [OF inv refl, of dj userId now]
  note e = applyExpiryPlan_effect [OF ap inv pl]
  have rows: "s' = s\<lparr>pointBalances := pointBalances s', pointCharges := map (\<lambda>c. if due c then
      c\<lparr>c_state := ''EXPIRED'', c_unspentPaid := 0, c_unspentFree := 0, c_expiredAt := Some now\<rparr> else c)
      (pointCharges s)\<rparr>"
    using expiry_rows [OF ap inv] unfolding due expireRow_def .
  have none: "filter (isDue dj now) (xw_charges (loadExpiryWorld userId s')) = []"
    by (rule expired_none_due [OF inv ap])
  have "expire eng dj clockNow userId (Some t) s' = Inr (0, s')" if "t \<le> now" for t
  proof -
    have noneDue: "filter (isDue dj t) (xw_charges (loadExpiryWorld userId s')) = []"
      using none isDue_mono [OF that] by (auto simp: filter_empty_conv)
    from expire_quiet [OF q e(2), of userId dj t clockNow] obtain s'' where
      ap': "applyExpiryPlan userId (planExpiry dj (xw_snapshot (loadExpiryWorld userId s'))
        (xw_charges (loadExpiryWorld userId s')) t) s' = Inr (0, s'')" and
      ex': "expire eng dj clockNow userId (Some t) s' = Inr (0, s'')"
      unfolding noneDue list.size by blast
    from ap' have "s'' = s'" by (simp add: applyExpiryPlan_def planExpiry_eq noneDue)
    with ex' show ?thesis by simp
  qed
  moreover have "\<forall>u. u \<noteq> userId \<longrightarrow> storedSnapshot u s' = storedSnapshot u s" using e by auto
  ultimately show ?thesis using ex e(2) rows unfolding Let_def due_def [symmetric] by blast
qed

theorem expire_complete_and_idempotent_witness:
  "\<exists>s'. expire refEngine dayjsArith 0 7 (Some 31590000000) sampleDb = Inr (2, s') \<and> ledger_ok s'"
proof -
  have "length (filter (\<lambda>c. c_userId c = 7 \<and> c_state c = ''USABLE'' \<and>
      kstDay (31590000000 + 1) > kstDay (c_chargedAt c) + 365) (pointCharges sampleDb)) = 2"
    by (simp add: sampleDb_def emptyDb_def kstDay_def msPerDay_def msPerHour_def)
  with expire_complete_and_idempotent [OF sample_session(1) sampleDb_ok dayjsArith_utc, of 7 31590000000 0]
  show ?thesis by auto
qed

section \<open>Transfers\<close>

text \<open>C18: a transfer that succeeds moves exactly the requested amount from one user to another:
  the sender loses what the receiver gains of paid and of free points, no other balance
  changes, the ledger stays consistent and one spend is recorded; it only ever succeeds
  between different users and while the transfer gate is open.
\<close>

theorem transfer_conserves_points:
  assumes fr: "session_frame (e_session eng)" and fresh: "engine_fresh eng" and inv: "ledger_ok s"
    and ok: "transfer eng now fromUserId toUserId amount flags s = Inr (row, s')"
  shows "ledger_ok s' \<and> fromUserId \<noteq> toUserId \<and> fr_assertPointTransfer flags = Inr () \<and>
    (\<exists>paid free. paid + free = intOf amount \<and>
      storedSnapshot fromUserId s = \<lparr>
        ps_paidAmount = ps_paidAmount (storedSnapshot fromUserId s') + paid,
        ps_freeAmount = ps_freeAmount (storedSnapshot fromUserId s') + free,
        ps_totalAmount = ps_totalAmount (storedSnapshot fromUserId s') + intOf amount\<rparr> \<and>
      storedSnapshot toUserId s' = \<lparr>
        ps_paidAmount = ps_paidAmount (storedSnapshot toUserId s) + paid,
        ps_freeAmount = ps_freeAmount (storedSnapshot toUserId s) + free,
        ps_totalAmount = ps_totalAmount (storedSnapshot toUserId s) + intOf amount\<rparr>) \<and>
    (\<forall>u. u \<noteq> fromUserId \<longrightarrow> u \<noteq> toUserId \<longrightarrow> storedSnapshot u s' = storedSnapshot u s) \<and>
    pointSpends s' = pointSpends s @ [row]"
proof -
  from transfer_success [OF fr ok] obtain pf plan charge where
    gate: "fr_assertPointTransfer flags = Inr ()" and
    plan: "planTransfer fromUserId toUserId (pw_snapshot (loadPointWorld fromUserId s))
      (pw_charges (loadPointWorld fromUserId s)) amount now pf = Inr plan" and
    ap: "applyTransferPlan eng fromUserId toUserId plan s = Inr ((row, charge), s')"
    by blast
  from plan have differ: "fromUserId \<noteq> toUserId" and
    sp: "planSpend (pw_snapshot (loadPointWorld fromUserId s)) (pw_charges (loadPointWorld fromUserId s))
      amount pf = Inr (tp_spend plan)" and
    ch: "planCharge (JInt (pl_paidUsage (tp_spend plan))) (JInt (pl_freeUsage (tp_spend plan))) now
      = Inr (tp_charge plan)"
    by (auto simp: planTransfer_eq_Inr)
  note pl = planSpend_world_ok [OF inv sp]
  note e = applyTransferPlan_effect [OF ap inv pl(1) planCharge_ok [OF ch] differ pl(2) fresh]
  have credit: "tp_charge plan = \<lparr>cp_paidAmount = pl_paidUsage (tp_spend plan),
      cp_freeAmount = pl_freeUsage (tp_spend plan),
      cp_totalAmount = pl_paidUsage (tp_spend plan) + pl_freeUsage (tp_spend plan), cp_chargedAt = now\<rparr>"
    using ch by (simp add: planCharge_eq_Inr)
  have after: "pl_balanceAfter (tp_spend plan) = \<lparr>
       ps_paidAmount = ps_paidAmount (storedSnapshot fromUserId s) - pl_paidUsage (tp_spend plan),
       ps_freeAmount = ps_freeAmount (storedSnapshot fromUserId s) - pl_freeUsage (tp_spend plan),
       ps_totalAmount = ps_totalAmount (storedSnapshot fromUserId s) - pl_paidUsage (tp_spend plan)
         - pl_freeUsage (tp_spend plan)\<rparr>"
    using pl(1,3) by (simp add: spend_plan_ok_def)
  show ?thesis
    using e(1,6) differ gate pl(4)
    by (intro conjI exI [of _ "pl_paidUsage (tp_spend plan)"] exI [of _ "pl_freeUsage (tp_spend plan)"])
      (simp_all add: e(5) after credit creditSnapshot_def)
qed

definition openFlags :: FlagReader where
  "openFlags = \<lparr>fr_assertPointTransfer = Inr (), fr_pointTransferPreferFree = Inr True,
     fr_welcomeVariant = Inr ''classic''\<rparr>"

lemma sample_transfer:
  "\<exists>row s'. transfer refEngine 9 7 8 (JInt 90) openFlags sampleDb = Inr (row, s')"
proof -
  let ?w = "loadPointWorld 7 sampleDb"
  obtain spend where sp: "planSpend (pw_snapshot ?w) (pw_charges ?w) (JInt 90) True = Inr spend"
    using sample_spend_ok by blast
  note pl = planSpend_world_ok [OF sampleDb_ok sp]
  have "\<exists>ch. planCharge (JInt (pl_paidUsage spend)) (JInt (pl_freeUsage spend)) 9 = Inr ch"
    using pl(4-7) by (simp add: planCharge_eq_Inr isValidChargeSide_def)
  with sp obtain plan where
    plan: "planTransfer 7 8 (pw_snapshot ?w) (pw_charges ?w) (JInt 90) 9 True = Inr plan"
    and tp: "tp_spend plan = spend"
    by (auto simp: planTransfer_eq_Inr)
  obtain row s1 where a: "applySpendPlan refEngine 7 (''transfer to user '' @ showInt 8) spend sampleDb = Inr (row, s1)"
    using applySpendPlan_succeeds [OF sampleDb_ok sp] by blast
  obtain charge s2 where "applyChargePlan refEngine 8 (tp_charge plan) s1 = Inr (charge, s2)"
    by (simp add: applyChargePlan_def bindT_def createCharge_def upsertBalance_def Let_def)
  with a tp have ap: "applyTransferPlan refEngine 7 8 plan sampleDb = Inr ((row, charge), s2)"
    by (simp add: applyTransferPlan_def bindT_def)
  let ?body = "bindT (readT (\<lambda>s. Inr (loadPointWorld 7 s))) (\<lambda>world.
          bindT (liftT (planTransfer 7 8 (pw_snapshot world) (pw_charges world)
                   (JInt 90) 9 True)) (\<lambda>plan.
          applyTransferPlan refEngine 7 8 plan))"
  have "?body sampleDb = Inr ((row, charge), s2)" using plan ap by (simp add: bindT_def)
  from serialized_quiet [where body = ?body, OF sample_session(1) this] show ?thesis
    by (simp add: transfer_def openFlags_def bindT_def)
qed

theorem transfer_conserves_points_witness:
  "\<exists>row s'. transfer refEngine 9 7 8 (JInt 90) openFlags sampleDb = Inr (row, s') \<and> ledger_ok s' \<and>
     ps_totalAmount (storedSnapshot 7 s') = 10 \<and> ps_totalAmount (storedSnapshot 8 s') = 90"
proof -
  obtain row s' where ok: "transfer refEngine 9 7 8 (JInt 90) openFlags sampleDb = Inr (row, s')"
    using sample_transfer by blast
  have zero: "storedSnapshot 8 sampleDb = ZERO_SNAPSHOT"
    by (simp add: sampleDb_def emptyDb_def storedSnapshot_def)
  from transfer_conserves_points [OF sample_session(2) refEngine_fresh sampleDb_ok ok]
  show ?thesis using ok by (auto simp: sampleDb_stored zero ZERO_SNAPSHOT_def)
qed

section \<open>Verification\<close>

lemma verifyUser_quiet:
  assumes q: "session_quiet (e_session eng)"
  shows "verifyUser eng u s =
    (if storedSnapshot u s = ledgerSnapshot u s then Inr ((), s)
     else Inl (PointBalanceDriftError u (storedSnapshot u s) (ledgerSnapshot u s)))"
proof -
  let ?body = "bindT (readT (\<lambda>s. Inr (loadPointWorld u s))) (\<lambda>world.
      liftT (assertBalanceConsistent u (pw_snapshot world) (pw_charges world)))"
  have b: "?body s = (if storedSnapshot u s = ledgerSnapshot u s then Inr ((), s)
     else Inl (PointBalanceDriftError u (storedSnapshot u s) (ledgerSnapshot u s)))"
    by (simp add: bindT_def loadPointWorld_def assertBalanceConsistent_def world_sum Let_def)
  show ?thesis
    using q unfolding verifyUser_def snapshot_def beginSnapshot_def runTx_def transaction_def
    by (simp add: bindT_Inr session_quiet_def b PointBalanceDriftError_def isSerializationConflict_def)
qed

lemma verifyEach_quiet:
  assumes q: "session_quiet (e_session eng)"
  shows "verifyEach eng (\<lambda>_. s) k us =
    (case find (\<lambda>u. storedSnapshot u s \<noteq> ledgerSnapshot u s) us of
       None \<Rightarrow> Inr ()
     | Some u \<Rightarrow> Inl (PointBalanceDriftError u (storedSnapshot u s) (ledgerSnapshot u s)))"
  by (induction us arbitrary: k) (auto simp: verifyUser_quiet [OF q])

lemma swept_users:
  "storedSnapshot u s \<noteq> ledgerSnapshot u s \<Longrightarrow> u \<in> set (findUserIdsWithBalanceOrUsableCharges s)"
proof (rule ccontr)
  assume drift: "storedSnapshot u s \<noteq> ledgerSnapshot u s"
    and "u \<notin> set (findUserIdsWithBalanceOrUsableCharges s)"
  then have "findRow (\<lambda>b. b_userId b = u) (pointBalances s) = None"
    and none: "filter (isUsableOf u) (pointCharges s) = []"
    by (auto simp: findUserIdsWithBalanceOrUsableCharges_def findRow_None filter_empty_conv isUsableOf_def)
  then show False
    using drift by (simp add: storedSnapshot_def ledgerSnapshot_def usableSum_def ZERO_SNAPSHOT_def)
qed

text \<open>C23: the verification sweep, over a database at rest, reports drift exactly when some user's
  stored balance differs from the sum of the USABLE charges (also of a user who has charges
  and no balance row); otherwise it returns how many users it checked. What it reports is
  masked from clients: the error is no domain error.
\<close>

theorem verifyBalances_finds_every_drift:
  assumes q: "session_quiet (e_session eng)"
  shows "((\<forall>u. storedSnapshot u s = ledgerSnapshot u s) \<longrightarrow>
      verifyBalances eng s (\<lambda>_. s) = Inr (length (findUserIdsWithBalanceOrUsableCharges s))) \<and>
    ((\<exists>u. storedSnapshot u s \<noteq> ledgerSnapshot u s) \<longrightarrow>
      (\<exists>u. storedSnapshot u s \<noteq> ledgerSnapshot u s \<and>
         verifyBalances eng s (\<lambda>_. s) = Inl (PointBalanceDriftError u (storedSnapshot u s) (ledgerSnapshot u s))))"
proof (intro conjI impI)
  assume "\<forall>u. storedSnapshot u s = ledgerSnapshot u s"
  then have "find (\<lambda>u. storedSnapshot u s \<noteq> ledgerSnapshot u s) us = None" for us
    by (simp add: find_None_iff)
  then show "verifyBalances eng s (\<lambda>_. s) = Inr (length (findUserIdsWithBalanceOrUsableCharges s))"
    by (simp add: verifyBalances_def verifyEach_quiet [OF q] Let_def)
next
  assume "\<exists>u. storedSnapshot u s \<noteq> ledgerSnapshot u s"
  then have "find (\<lambda>u. storedSnapshot u s \<noteq> ledgerSnapshot u s) (findUserIdsWithBalanceOrUsableCharges s) \<noteq> None"
    using swept_users by (auto simp: find_None_iff)
  then obtain u where u: "find (\<lambda>u. storedSnapshot u s \<noteq> ledgerSnapshot u s)
      (findUserIdsWithBalanceOrUsableCharges s) = Some u" by blast
  then have "storedSnapshot u s \<noteq> ledgerSnapshot u s" by (auto simp: find_Some_iff)
  moreover have "verifyBalances eng s (\<lambda>_. s) =
      Inl (PointBalanceDriftError u (storedSnapshot u s) (ledgerSnapshot u s))"
    by (simp add: verifyBalances_def verifyEach_quiet [OF q] Let_def u)
  ultimately show "\<exists>u. storedSnapshot u s \<noteq> ledgerSnapshot u s \<and>
      verifyBalances eng s (\<lambda>_. s) = Inl (PointBalanceDriftError u (storedSnapshot u s) (ledgerSnapshot u s))"
    by blast
qed

theorem verifyBalances_finds_every_drift_witness:
  "verifyBalances refEngine sampleDb (\<lambda>_. sampleDb) = Inr 1"
proof -
  have "findUserIdsWithBalanceOrUsableCharges sampleDb = [7]"
    by (simp add: findUserIdsWithBalanceOrUsableCharges_def sampleDb_def emptyDb_def)
  moreover have "\<forall>u. storedSnapshot u sampleDb = ledgerSnapshot u sampleDb"
    using sampleDb_ok by (simp add: ledger_ok_def)
  ultimately show ?thesis
    using verifyBalances_finds_every_drift [OF sample_session(1), of sampleDb] by simp
qed

end
