(* ===== verification/PointSystem.thy ===== *)
theory PointSystem
  imports PointService
begin

text \<open>
  Point transactions in any interleaving. A decision is made of the world some transaction
  read; its plan may be applied to a later state, after other transactions committed, or more
  than once (a retried execution). What protects the ledger then are only the guards of the
  executors in \<open>src/modules/point/point.write.repo.ts\<close>. The system of this theory makes every
  such schedule a sequence of steps.
\<close>

section \<open>The system\<close>

datatype pending =
    PendingSpend int string SpendPlan
  | PendingTransfer int int TransferPlan
  | PendingExpiry int ExpiryPlan

record point_system =
  sys_db :: db
  sys_pending :: "pending list"

text \<open>The executor of a pending plan, on the database of the moment.\<close>

definition execute :: "engine \<Rightarrow> pending \<Rightarrow> unit dbtx" where
  "execute eng p = (case p of
      PendingSpend u reason plan \<Rightarrow> bindT (applySpendPlan eng u reason plan) (\<lambda>_. returnT ())
    | PendingTransfer a b plan \<Rightarrow> bindT (applyTransferPlan eng a b plan) (\<lambda>_. returnT ())
    | PendingExpiry u plan \<Rightarrow> bindT (applyExpiryPlan u plan) (\<lambda>_. returnT ()))"

inductive point_step :: "engine \<Rightarrow> dayjs \<Rightarrow> point_system \<Rightarrow> point_system \<Rightarrow> bool"
  for eng :: engine and dj :: dayjs where
  charge_commits:
    "charge eng now u paid free (sys_db sys) = Inr (row, s') \<Longrightarrow>
       point_step eng dj sys (sys\<lparr>sys_db := s'\<rparr>)"
| spend_decides:
    "world = loadPointWorld u (sys_db sys) \<Longrightarrow>
     planSpend (pw_snapshot world) (pw_charges world) amount preferFree = Inr plan \<Longrightarrow>
       point_step eng dj sys (sys\<lparr>sys_pending := PendingSpend u reason plan # sys_pending sys\<rparr>)"
| transfer_decides:
    "world = loadPointWorld a (sys_db sys) \<Longrightarrow>
     planTransfer a b (pw_snapshot world) (pw_charges world) amount now preferFree = Inr tplan \<Longrightarrow>
       point_step eng dj sys (sys\<lparr>sys_pending := PendingTransfer a b tplan # sys_pending sys\<rparr>)"
| expiry_decides:
    "xworld = loadExpiryWorld u (sys_db sys) \<Longrightarrow>
       point_step eng dj sys (sys\<lparr>sys_pending :=
         PendingExpiry u (planExpiry dj (xw_snapshot xworld) (xw_charges xworld) now) # sys_pending sys\<rparr>)"
| plan_commits:
    "p \<in> set (sys_pending sys) \<Longrightarrow> execute eng p (sys_db sys) = Inr ((), s') \<Longrightarrow>
       point_step eng dj sys (sys\<lparr>sys_db := s'\<rparr>)"
| plan_dropped:
    "point_step eng dj sys (sys\<lparr>sys_pending := remove1 p (sys_pending sys)\<rparr>)"

inductive_cases point_stepE: "point_step eng dj sys sys'"

section \<open>The invariant\<close>

text \<open>A plan names charges that belong to its user, for good: charges never change owner.\<close>

definition owned :: "int \<Rightarrow> int list \<Rightarrow> db \<Rightarrow> bool" where
  "owned u ids s \<longleftrightarrow> (\<forall>i \<in> set ids. (i, u) \<in> set (owners s))"

fun pending_ok :: "db \<Rightarrow> pending \<Rightarrow> bool" where
  "pending_ok s (PendingSpend u reason plan) \<longleftrightarrow>
     spend_plan_ok plan \<and> owned u (map sa_chargeId (pl_allocations plan)) s"
| "pending_ok s (PendingTransfer a b plan) \<longleftrightarrow> a \<noteq> b \<and> spend_plan_ok (tp_spend plan) \<and>
     charge_plan_ok (tp_charge plan) \<and> owned a (map sa_chargeId (pl_allocations (tp_spend plan))) s"
| "pending_ok s (PendingExpiry u plan) \<longleftrightarrow>
     expiry_plan_ok plan \<and> owned u (map cx_chargeId (xp_expirations plan)) s"

definition system_ok :: "point_system \<Rightarrow> bool" where
  "system_ok sys \<longleftrightarrow> ledger_ok (sys_db sys) \<and> (\<forall>p \<in> set (sys_pending sys). pending_ok (sys_db sys) p)"

lemma owned_allocated:
  assumes "ledger_ok s" "owned u ids s" "i \<in> set ids"
  shows "allocated_to u i s"
proof -
  from assms have mem: "(i, u) \<in> set (owners s)" by (simp add: owned_def)
  have d: "distinct (map fst (owners s))"
    using assms(1) by (simp add: ledger_ok_def ids_of_owners [symmetric])
  have "v = u" if "(i, v) \<in> set (owners s)" for v
    using mem that d by (metis eq_key_imp_eq_value)
  then show ?thesis by (simp add: allocated_to_def)
qed

lemma owned_grow: "set (owners s) \<subseteq> set (owners s') \<Longrightarrow> owned u ids s \<Longrightarrow> owned u ids s'"
  by (auto simp: owned_def)

lemma pending_ok_grow: "set (owners s) \<subseteq> set (owners s') \<Longrightarrow> pending_ok s p \<Longrightarrow> pending_ok s' p"
  by (cases p) (auto intro: owned_grow)

lemma usable_owned: "c \<in> set (usableCharges u s) \<Longrightarrow> (c_id c, u) \<in> set (owners s)"
  by (auto simp: set_usableCharges owners_def isUsableOf_def)

lemma planned_spend_owned:
  assumes "planSpend (pw_snapshot (loadPointWorld u s)) (pw_charges (loadPointWorld u s)) amount pf = Inr plan"
  shows "owned u (map sa_chargeId (pl_allocations plan)) s"
proof -
  have "set (map sa_chargeId (pl_allocations plan)) \<subseteq> set (map cb_id (pw_charges (loadPointWorld u s)))"
    using planSpend_plan(8) [OF assms] by (rule subseq_set)
  then show ?thesis
    by (auto simp: owned_def loadPointWorld_def toChargeBalance_def usable_owned subset_iff)
qed

lemma execute_effect:
  assumes ok: "execute eng p s = Inr ((), s')" and inv: "ledger_ok s" and p: "pending_ok s p"
    and fresh: "engine_fresh eng"
  shows "ledger_ok s' \<and> set (owners s) \<subseteq> set (owners s')"
proof (cases p)
  case (PendingSpend u reason plan)
  with ok obtain row where ap: "applySpendPlan eng u reason plan s = Inr (row, s')"
    by (auto simp: execute_def tx_simps)
  from p PendingSpend have plan: "spend_plan_ok plan"
    and "owned u (map sa_chargeId (pl_allocations plan)) s" by simp_all
  from owned_allocated [OF inv this(2)]
  have "\<forall>a \<in> set (pl_allocations plan). allocated_to u (sa_chargeId a) s" by simp
  from applySpendPlan_effect(1,2) [OF ap inv plan this] show ?thesis by simp
next
  case (PendingTransfer a b plan)
  with ok obtain spend charge where ap: "applyTransferPlan eng a b plan s = Inr ((spend, charge), s')"
    by (auto simp: execute_def tx_simps)
  from p PendingTransfer have plan: "spend_plan_ok (tp_spend plan)" "charge_plan_ok (tp_charge plan)" "a \<noteq> b"
    and "owned a (map sa_chargeId (pl_allocations (tp_spend plan))) s" by simp_all
  from owned_allocated [OF inv this(4)]
  have "\<forall>x \<in> set (pl_allocations (tp_spend plan)). allocated_to a (sa_chargeId x) s" by simp
  from applyTransferPlan_effect(1,3) [OF ap inv plan this fresh] show ?thesis by auto
next
  case (PendingExpiry u plan)
  with ok obtain n where ap: "applyExpiryPlan u plan s = Inr (n, s')"
    by (auto simp: execute_def tx_simps)
  from p PendingExpiry have plan: "expiry_plan_ok plan"
    and "owned u (map cx_chargeId (xp_expirations plan)) s" by simp_all
  from owned_allocated [OF inv this(2)]
  have "\<forall>x \<in> set (xp_expirations plan). allocated_to u (cx_chargeId x) s" by simp
  from applyExpiryPlan_effect(2,3) [OF ap inv plan this] show ?thesis by simp
qed

lemma point_step_ok:
  assumes fresh: "engine_fresh eng" and step: "point_step eng dj sys sys'" and inv: "system_ok sys"
  shows "system_ok sys'"
  using step
proof (cases rule: point_step.cases)
  case (charge_commits now u paid free row s')
  from charge_success [OF charge_commits(2)] obtain plan where plan: "planCharge paid free now = Inr plan"
    and ap: "applyChargePlan eng u plan (sys_db sys) = Inr (row, s')" by blast
  have "e_nextId eng ''PointCharge'' (sys_db sys) \<notin> c_id ` set (pointCharges (sys_db sys))"
    using fresh by (simp add: engine_fresh_def)
  from applyChargePlan_effect(1,2) [OF ap _ planCharge_ok [OF plan] this] inv
  have "ledger_ok s'" "set (owners (sys_db sys)) \<subseteq> set (owners s')" by (auto simp: system_ok_def)
  with inv charge_commits(1) show ?thesis by (auto simp: system_ok_def intro: pending_ok_grow)
next
  case (spend_decides world u amount preferFree plan reason)
  have db: "ledger_ok (sys_db sys)" using inv by (simp add: system_ok_def)
  from planSpend_world_ok(1) [OF db spend_decides(3) [unfolded spend_decides(2)]] planned_spend_owned [OF spend_decides(3) [unfolded spend_decides(2)]] inv spend_decides(1)
  show ?thesis by (auto simp: system_ok_def)
next
  case (transfer_decides world a b amount now preferFree tplan)
  have db: "ledger_ok (sys_db sys)" using inv by (simp add: system_ok_def)
  from transfer_decides(3) obtain sp where
    sp: "planSpend (pw_snapshot world) (pw_charges world) amount preferFree = Inr sp"
    and ch: "planCharge (JInt (pl_paidUsage sp)) (JInt (pl_freeUsage sp)) now = Inr (tp_charge tplan)"
    and "a \<noteq> b" "tp_spend tplan = sp"
    by (auto simp: planTransfer_eq_Inr)
  with planSpend_world_ok(1) [OF db sp [unfolded transfer_decides(2)]] planned_spend_owned [OF sp [unfolded transfer_decides(2)]]
    planCharge_ok [OF ch] inv transfer_decides(1)
  show ?thesis by (auto simp: system_ok_def)
next
  case (expiry_decides xworld u now)
  have db: "ledger_ok (sys_db sys)" using inv by (simp add: system_ok_def)
  let ?plan = "planExpiry dj (xw_snapshot xworld) (xw_charges xworld) now"
  have "expiry_plan_ok ?plan" using planExpiry_world_ok(1) [OF db refl] by (simp add: expiry_decides(2))
  moreover have "owned u (map cx_chargeId (xp_expirations ?plan)) (sys_db sys)"
    by (auto simp: expiry_decides(2) owned_def planExpiry_eq loadExpiryWorld_def toExpirable_def expirationOf_def usable_owned)
  ultimately show ?thesis using inv expiry_decides(1) by (auto simp: system_ok_def)
next
  case (plan_commits p s')
  from inv plan_commits(2) have "ledger_ok (sys_db sys)" "pending_ok (sys_db sys) p" by (auto simp: system_ok_def)
  from execute_effect [OF plan_commits(3) this fresh]
  have "ledger_ok s'" "set (owners (sys_db sys)) \<subseteq> set (owners s')" by simp_all
  with inv plan_commits(1) show ?thesis by (auto simp: system_ok_def intro: pending_ok_grow)
next
  case (plan_dropped p)
  with inv show ?thesis by (auto simp: system_ok_def dest: notin_set_remove1)
qed

definition point_start :: "point_system \<Rightarrow> bool" where
  "point_start sys \<longleftrightarrow> ledger_ok (sys_db sys) \<and> sys_pending sys = []"

interpretation points: invariant_system point_start
  "\<lambda>sys sys'. engine_fresh eng \<and> point_step eng dj sys sys'" system_ok for eng dj
  by unfold_locales
    (simp add: point_start_def system_ok_def, blast intro: point_step_ok)

lemma schedule_ledger_ok:
  assumes fresh: "engine_fresh eng" and start: "ledger_ok (sys_db sys)" "sys_pending sys = []"
    and reach: "rtranclp (point_step eng dj) sys sys'"
  shows "ledger_ok (sys_db sys')"
proof -
  have "rtranclp (\<lambda>sys sys'. engine_fresh eng \<and> point_step eng dj sys sys') sys sys'"
    using reach by (rule mono_rtranclp [rule_format, rotated]) (use fresh in blast)
  then have "system_ok sys'" using start by (intro points.reachable_inv) (simp_all add: point_start_def)
  then show ?thesis by (simp add: system_ok_def)
qed

text \<open>C1: under any schedule of charges, decisions and applications, in which a plan may be applied
  to any later state and any number of times, the guards of the executors alone keep the
  ledger consistent: in every reachable state each user's balance is the sum of the user's
  USABLE charges, and no charge is overdrawn.
\<close>

theorem any_schedule_keeps_the_ledger:
  assumes fresh: "engine_fresh eng" and start: "ledger_ok (sys_db sys)" "sys_pending sys = []"
    and reach: "rtranclp (point_step eng dj) sys sys'"
  shows "(\<forall>u. storedSnapshot u (sys_db sys') = ledgerSnapshot u (sys_db sys')) \<and>
    (\<forall>c \<in> set (pointCharges (sys_db sys')). charge_ok c)"
  using schedule_ledger_ok [OF assms] by (simp add: ledger_ok_def)

lemma sample_spend_plan:
  "\<exists>plan row s'. planSpend (pw_snapshot (loadPointWorld 7 sampleDb)) (pw_charges (loadPointWorld 7 sampleDb))
     (JInt 90) False = Inr plan \<and> applySpendPlan refEngine 7 ''gift'' plan sampleDb = Inr (row, s')"
  using sample_spend_ok applySpendPlan_succeeds [OF sampleDb_ok] by blast

text \<open>A schedule of two steps: a spend of 90 of the 100 points is decided and carried out.\<close>

lemma sample_schedule:
  obtains sys' where "rtranclp (point_step refEngine dayjsArith) \<lparr>sys_db = sampleDb, sys_pending = []\<rparr> sys'"
    and "pointSpends (sys_db sys') \<noteq> []" and "ps_totalAmount (storedSnapshot 7 (sys_db sys')) = 10"
proof -
  let ?sys = "\<lparr>sys_db = sampleDb, sys_pending = []\<rparr>"
  obtain plan row s' where
    plan: "planSpend (pw_snapshot (loadPointWorld 7 sampleDb)) (pw_charges (loadPointWorld 7 sampleDb))
     (JInt 90) False = Inr plan" and ap: "applySpendPlan refEngine 7 ''gift'' plan sampleDb = Inr (row, s')"
    using sample_spend_plan by blast
  let ?p = "PendingSpend 7 ''gift'' plan"
  let ?mid = "?sys\<lparr>sys_pending := ?p # sys_pending ?sys\<rparr>"
  have "point_step refEngine dayjsArith ?sys ?mid"
    by (rule spend_decides [OF refl]) (use plan in simp)
  moreover have "point_step refEngine dayjsArith ?mid (?mid\<lparr>sys_db := s'\<rparr>)"
    by (rule plan_commits [where p = ?p]) (use ap in \<open>simp_all add: execute_def bindT_def\<close>)
  ultimately have reach: "rtranclp (point_step refEngine dayjsArith) ?sys (?mid\<lparr>sys_db := s'\<rparr>)"
    by (meson rtranclp.rtrancl_refl rtranclp.rtrancl_into_rtrancl)
  note effect = applySpendPlan_effect [OF ap sampleDb_ok planSpend_world_ok(1,2) [OF sampleDb_ok plan]]
  have "storedSnapshot 7 s' = pl_balanceAfter plan" using effect(4) [of 7] by simp
  then have "ps_totalAmount (storedSnapshot 7 s') = 10"
    using planSpend_plan(5) [OF plan]
    by (simp add: loadPointWorld_def storedSnapshot_def balanceSnapshot_def sampleDb_def)
  with reach effect(5) show thesis by (intro that [of "?mid\<lparr>sys_db := s'\<rparr>"]) simp_all
qed

theorem any_schedule_keeps_the_ledger_witness:
  "\<exists>sys'. rtranclp (point_step refEngine dayjsArith) \<lparr>sys_db = sampleDb, sys_pending = []\<rparr> sys' \<and>
     pointSpends (sys_db sys') \<noteq> [] \<and> storedSnapshot 7 (sys_db sys') = ledgerSnapshot 7 (sys_db sys')"
proof -
  obtain sys' where reach: "rtranclp (point_step refEngine dayjsArith) \<lparr>sys_db = sampleDb, sys_pending = []\<rparr> sys'"
    and "pointSpends (sys_db sys') \<noteq> []" by (rule sample_schedule)
  with any_schedule_keeps_the_ledger [OF refEngine_fresh _ _ reach] sampleDb_ok show ?thesis
    by (intro exI [of _ sys']) simp
qed

section \<open>Stale plans\<close>

lemma allocations_conflict:
  "forEachT applyAllocation as s = Inl e \<Longrightarrow> \<exists>what. e = ConcurrentUpdateError what"
  by (induction as arbitrary: s) (auto simp: bindT_eq_Inl applyAllocation_def guardedUpdate_eq_Inl)

lemma allocations_balances:
  "forEachT applyAllocation as s = Inr (x, s') \<Longrightarrow> pointBalances s' = pointBalances s"
proof (induction as arbitrary: s)
  case Nil
  then show ?case by (simp add: tx_simps)
next
  case (Cons a as)
  then obtain y s1 where "applyAllocation a s = Inr (y, s1)" "forEachT applyAllocation as s1 = Inr (x, s')"
    by (auto simp: tx_simps)
  moreover from this(1) have "pointBalances s1 = pointBalances s"
    by (auto simp: applyAllocation_def tx_simps putCharges_def)
  ultimately show ?case using Cons.IH by metis
qed

lemma applySpendPlan_fails:
  "applySpendPlan eng u reason plan s = Inl e \<Longrightarrow> \<exists>what. e = ConcurrentUpdateError what"
  by (auto simp: applySpendPlan_def bindT_eq_Inl applyBalance_def guardedUpdate_eq_Inl createSpend_def
      Let_def dest: allocations_conflict)

text \<open>C21: a plan is never applied to a balance other than the one it was decided on: in every
  ledger where the stored balance of the user is no longer the one the decision read (another
  spend, a charge, an expiry, or this very plan having been applied before), its execution is
  the retryable conflict.
\<close>

theorem stale_spend_plan_conflicts:
  assumes plan: "planSpend snap cs amount preferFree = Inr plan" and inv: "ledger_ok s"
    and stale: "storedSnapshot userId s \<noteq> snap"
  shows "\<exists>what. applySpendPlan eng userId reason plan s = Inl (ConcurrentUpdateError what)"
proof (cases "applySpendPlan eng userId reason plan s")
  case (Inl e)
  then show ?thesis using applySpendPlan_fails by blast
next
  case (Inr r)
  then obtain s1 s2 where
    s1: "forEachT applyAllocation (pl_allocations plan) s = Inr ((), s1)" and
    s2: "applyBalance userId (pl_assumedBalance plan) (pl_balanceAfter plan) s1 = Inr ((), s2)"
    by (auto simp: applySpendPlan_def tx_simps)
  have b1: "pointBalances s1 = pointBalances s" by (rule allocations_balances [OF s1])
  have "distinct (map b_userId (pointBalances s1))" using inv by (simp add: b1 ledger_ok_def)
  from applyBalance_effect(1) [OF s2 this] have "storedSnapshot userId s = pl_assumedBalance plan"
    by (simp add: storedSnapshot_def b1)
  with stale planSpend_plan(4) [OF plan] show ?thesis by simp
qed

theorem stale_spend_plan_conflicts_witness:
  "\<exists>plan row s' what. applySpendPlan refEngine 7 ''gift'' plan sampleDb = Inr (row, s') \<and>
     applySpendPlan refEngine 7 ''gift'' plan s' = Inl (ConcurrentUpdateError what)"
proof -
  obtain plan row s' where
    plan: "planSpend (pw_snapshot (loadPointWorld 7 sampleDb)) (pw_charges (loadPointWorld 7 sampleDb))
     (JInt 90) False = Inr plan" and ap: "applySpendPlan refEngine 7 ''gift'' plan sampleDb = Inr (row, s')"
    using sample_spend_plan by blast
  note pl = planSpend_world_ok [OF sampleDb_ok plan]
  note e = applySpendPlan_effect [OF ap sampleDb_ok pl(1,2)]
  have "ps_totalAmount (storedSnapshot 7 s') = 10"
    using e(4) [of 7] pl(1,3,4) by (simp add: spend_plan_ok_def sampleDb_stored)
  moreover have "ps_totalAmount (pw_snapshot (loadPointWorld 7 sampleDb)) = 100"
    by (simp add: loadPointWorld_def sampleDb_stored)
  ultimately have "storedSnapshot 7 s' \<noteq> pw_snapshot (loadPointWorld 7 sampleDb)" by auto
  from stale_spend_plan_conflicts [OF plan e(1) this] ap show ?thesis by blast
qed

end
