(* ===== verification/TransactionFlow.thy ===== *)
theory TransactionFlow
  imports Schema
begin

text \<open>
  The transaction spine: the identifiers of \<open>transaction-flow.core.ts\<close> and the persistence of
  flows, commands and operations of \<open>transaction-flow.repo.ts\<close>
  (\<open>src/modules/transaction-flow\<close>). A command is a client's idempotent request; the operation
  is the economic effect it ended in.
\<close>

section \<open>Identifiers\<close>

fun flowKindText :: "flow_kind \<Rightarrow> string" where
  "flowKindText COMMISSION = ''COMMISSION''"
| "flowKindText WITHDRAWAL = ''WITHDRAWAL''"
| "flowKindText POINT_CHARGE = ''POINT_CHARGE''"

fun commandKindText :: "command_kind \<Rightarrow> string" where
  "commandKindText PAY = ''PAY''"
| "commandKindText EXTRA_PAY = ''EXTRA_PAY''"
| "commandKindText SETTLE = ''SETTLE''"
| "commandKindText REFUND = ''REFUND''"
| "commandKindText CANCEL = ''CANCEL''"
| "commandKindText WITHDRAW = ''WITHDRAW''"
| "commandKindText CHARGE = ''CHARGE''"

definition formatTransactionReference :: "flow_kind \<Rightarrow> string \<Rightarrow> string" where
  "formatTransactionReference kind i = flowKindText kind @ ''-'' @ i"

definition formatCommandId :: "command_kind \<Rightarrow> string \<Rightarrow> string" where
  "formatCommandId kind i = ''CMD-'' @ commandKindText kind @ ''-'' @ i"

definition formatOperationId :: "command_kind \<Rightarrow> string \<Rightarrow> string" where
  "formatOperationId kind i = ''OP-'' @ commandKindText kind @ ''-'' @ i"

section \<open>Commands\<close>

record command_request =
  cr_flowId :: string
  cr_flowKind :: flow_kind
  cr_kind :: command_kind
  cr_principalId :: int
  cr_idempotencyKey :: string
  cr_payloadHash :: string
  cr_subjectNamespace :: string
  cr_subjectKey :: string

record stored_command =
  sc_commandDbId :: string
  sc_flowId :: string
  sc_flowKind :: flow_kind
  sc_kind :: command_kind
  sc_principalId :: int
  sc_idempotencyKey :: string
  sc_payloadHash :: string
  sc_subjectNamespace :: string
  sc_subjectKey :: string
  sc_operationDbId :: "string option"
  sc_referenceId :: string
  sc_commandId :: string
  sc_operationId :: "string option"

text \<open>The operation a command resulted in (the relation's columns are id, flow and kind).\<close>

definition resultOperation :: "db \<Rightarrow> command_row \<Rightarrow> operation_row option" where
  "resultOperation s c = (case cm_resultOperationId c of
      None \<Rightarrow> None
    | Some i \<Rightarrow> findRow (\<lambda>r. oper_id r = i \<and> oper_flowId r = cm_flowId c \<and> oper_kind r = cm_kind c)
        (financialOperations s))"

definition mapStoredCommand :: "db \<Rightarrow> command_row \<Rightarrow> stored_command" where
  "mapStoredCommand s c = \<lparr>
     sc_commandDbId = cm_id c, sc_flowId = cm_flowId c, sc_flowKind = cm_flowKind c,
     sc_kind = cm_kind c, sc_principalId = cm_principalId c,
     sc_idempotencyKey = cm_idempotencyKey c, sc_payloadHash = cm_payloadHash c,
     sc_subjectNamespace = cm_subjectNamespace c, sc_subjectKey = cm_subjectKey c,
     sc_operationDbId = map_option oper_id (resultOperation s c),
     sc_referenceId = formatTransactionReference (cm_flowKind c) (cm_flowId c),
     sc_commandId = formatCommandId (cm_kind c) (cm_id c),
     sc_operationId = map_option (\<lambda>r. formatOperationId (oper_kind r) (oper_id r)) (resultOperation s c)\<rparr>"

definition commandKeyIs :: "int \<Rightarrow> command_kind \<Rightarrow> string \<Rightarrow> command_row \<Rightarrow> bool" where
  "commandKeyIs principalId kind idempotencyKey c \<longleftrightarrow> cm_principalId c = principalId \<and>
     cm_kind c = kind \<and> cm_idempotencyKey c = idempotencyKey"

definition findCommand :: "int \<Rightarrow> command_kind \<Rightarrow> string \<Rightarrow> db \<Rightarrow> stored_command option" where
  "findCommand principalId kind idempotencyKey s =
     map_option (mapStoredCommand s)
       (findRow (commandKeyIs principalId kind idempotencyKey) (financialCommandRuns s))"

text \<open>\<open>findFirst\<close> in the order of creation (of equal instants, in the order of insertion).\<close>

definition findCompletedCommandBySubject ::
  "flow_kind \<Rightarrow> string \<Rightarrow> string \<Rightarrow> command_kind \<Rightarrow> db \<Rightarrow> stored_command option" where
  "findCompletedCommandBySubject flowKind subjectNamespace subjectKey kind s =
     (case sort_key cm_createdAt (filter (\<lambda>c. cm_subjectNamespace c = subjectNamespace \<and>
            cm_subjectKey c = subjectKey \<and> cm_flowKind c = flowKind \<and> cm_kind c = kind \<and>
            cm_resultOperationId c \<noteq> None) (financialCommandRuns s)) of
        [] \<Rightarrow> None
      | c # cs \<Rightarrow> Some (mapStoredCommand s c))"

definition insertCommand :: "engine \<Rightarrow> command_request \<Rightarrow> string option \<Rightarrow> command_row dbtx" where
  "insertCommand eng input resultOperationId = (\<lambda>s.
     let row = \<lparr>cm_id = e_uuid eng ''FinancialCommandRun'' s, cm_flowId = cr_flowId input,
           cm_flowKind = cr_flowKind input, cm_kind = cr_kind input,
           cm_principalId = cr_principalId input, cm_idempotencyKey = cr_idempotencyKey input,
           cm_payloadHash = cr_payloadHash input, cm_subjectNamespace = cr_subjectNamespace input,
           cm_subjectKey = cr_subjectKey input, cm_resultOperationId = resultOperationId,
           cm_createdAt = e_now eng s\<rparr>
     in Inr (row, s\<lparr>financialCommandRuns := financialCommandRuns s @ [row]\<rparr>))"

definition startCommand :: "engine \<Rightarrow> command_request \<Rightarrow> command_row dbtx" where
  "startCommand eng input = insertCommand eng input None"

definition saveCommandAlias :: "engine \<Rightarrow> command_request \<Rightarrow> string \<Rightarrow> command_row dbtx" where
  "saveCommandAlias eng input resultOperationId = insertCommand eng input (Some resultOperationId)"

text \<open>An \<open>update\<close> by primary key throws when no row has it.\<close>

definition completeCommand :: "string \<Rightarrow> string \<Rightarrow> unit dbtx" where
  "completeCommand commandId operationId = (\<lambda>s.
     if findRow (\<lambda>c. cm_id c = commandId) (financialCommandRuns s) = None then Inl noRowFound
     else Inr ((), s\<lparr>financialCommandRuns := updateWhere (\<lambda>c. cm_id c = commandId)
            (\<lambda>c. c\<lparr>cm_resultOperationId := Some operationId\<rparr>) (financialCommandRuns s)\<rparr>))"

section \<open>Flows and operations\<close>

definition createFlow :: "engine \<Rightarrow> flow_kind \<Rightarrow> command_kind list \<Rightarrow> flow_row dbtx" where
  "createFlow eng kind allowedCommands = (\<lambda>s.
     let row = \<lparr>fl_id = e_uuid eng ''TransactionFlow'' s, fl_kind = kind\<rparr>
     in Inr (row, s\<lparr>transactionFlows := transactionFlows s @ [row],
          flowCommandPolicies := flowCommandPolicies s @
            map (\<lambda>k. \<lparr>pol_flowId = fl_id row, pol_commandKind = k\<rparr>) allowedCommands\<rparr>))"

definition createOperation :: "engine \<Rightarrow> string \<Rightarrow> command_kind \<Rightarrow> string \<Rightarrow> operation_row dbtx" where
  "createOperation eng flowId kind commandId = (\<lambda>s.
     let row = \<lparr>oper_id = e_uuid eng ''FinancialOperation'' s, oper_flowId = flowId,
           oper_kind = kind, oper_commandId = commandId\<rparr>
     in Inr (row, s\<lparr>financialOperations := financialOperations s @ [row]\<rparr>))"

definition assertCommandEffectCompleteness :: "engine \<Rightarrow> unit dbtx" where
  "assertCommandEffectCompleteness eng = setConstraintsImmediate eng
     [''FinancialCommand_effect_completeness_check'', ''FinancialTransfer_command_completion_check'',
      ''FinancialLot_point_charge_shape_check'']"

section \<open>A finished command\<close>

text \<open>\<open>!x\<close> of a text that may be null: null and the empty text are falsy.\<close>

fun truthy :: "string option \<Rightarrow> bool" where
  "truthy None = False"
| "truthy (Some t) = (t \<noteq> [])"

lemma truthyE: "truthy x \<Longrightarrow> \<exists>t. x = Some t \<and> t \<noteq> []"
  by (cases x) auto

definition commandOf :: "command_request \<Rightarrow> string \<Rightarrow> instant \<Rightarrow> string option \<Rightarrow> command_row" where
  "commandOf req i t r = \<lparr>cm_id = i, cm_flowId = cr_flowId req,
     cm_flowKind = cr_flowKind req, cm_kind = cr_kind req,
     cm_principalId = cr_principalId req, cm_idempotencyKey = cr_idempotencyKey req,
     cm_payloadHash = cr_payloadHash req, cm_subjectNamespace = cr_subjectNamespace req,
     cm_subjectKey = cr_subjectKey req, cm_resultOperationId = r, cm_createdAt = t\<rparr>"

lemma insertCommand_eq_Inr [tx_simps]:
  "insertCommand eng req r s = Inr z \<longleftrightarrow>
     z = (commandOf req (e_uuid eng ''FinancialCommandRun'' s) (e_now eng s) r,
          s\<lparr>financialCommandRuns := financialCommandRuns s @
            [commandOf req (e_uuid eng ''FinancialCommandRun'' s) (e_now eng s) r]\<rparr>)"
  by (auto simp: insertCommand_def commandOf_def Let_def)

lemma createOperation_eq_Inr [tx_simps]:
  "createOperation eng f k c s = Inr z \<longleftrightarrow>
     z = (\<lparr>oper_id = e_uuid eng ''FinancialOperation'' s, oper_flowId = f, oper_kind = k, oper_commandId = c\<rparr>,
          s\<lparr>financialOperations := financialOperations s @
            [\<lparr>oper_id = e_uuid eng ''FinancialOperation'' s, oper_flowId = f, oper_kind = k, oper_commandId = c\<rparr>]\<rparr>)"
  by (auto simp: createOperation_def Let_def)

lemma completeCommand_eq_Inr [tx_simps]:
  "completeCommand c r s = Inr z \<longleftrightarrow>
     findRow (\<lambda>x. cm_id x = c) (financialCommandRuns s) \<noteq> None \<and>
     z = ((), s\<lparr>financialCommandRuns := updateWhere (\<lambda>x. cm_id x = c)
            (\<lambda>x. x\<lparr>cm_resultOperationId := Some r\<rparr>) (financialCommandRuns s)\<rparr>)"
  by (auto simp: completeCommand_def)

lemma createFlow_eq_Inr [tx_simps]:
  "createFlow eng kind allowed s = Inr z \<longleftrightarrow>
     z = (\<lparr>fl_id = e_uuid eng ''TransactionFlow'' s, fl_kind = kind\<rparr>,
       s\<lparr>transactionFlows := transactionFlows s @ [\<lparr>fl_id = e_uuid eng ''TransactionFlow'' s, fl_kind = kind\<rparr>],
         flowCommandPolicies := flowCommandPolicies s @
           map (\<lambda>k. \<lparr>pol_flowId = e_uuid eng ''TransactionFlow'' s, pol_commandKind = k\<rparr>) allowed\<rparr>)"
  by (auto simp: createFlow_def Let_def)

lemma startCommand_eq_Inr [tx_simps]:
  "startCommand eng req s = Inr z \<longleftrightarrow>
     z = (commandOf req (e_uuid eng ''FinancialCommandRun'' s) (e_now eng s) None,
          s\<lparr>financialCommandRuns := financialCommandRuns s @
            [commandOf req (e_uuid eng ''FinancialCommandRun'' s) (e_now eng s) None]\<rparr>)"
  by (simp add: startCommand_def insertCommand_eq_Inr)

lemma saveCommandAlias_eq_Inr [tx_simps]:
  "saveCommandAlias eng req op s = Inr z \<longleftrightarrow>
     z = (commandOf req (e_uuid eng ''FinancialCommandRun'' s) (e_now eng s) (Some op),
          s\<lparr>financialCommandRuns := financialCommandRuns s @
            [commandOf req (e_uuid eng ''FinancialCommandRun'' s) (e_now eng s) (Some op)]\<rparr>)"
  by (simp add: saveCommandAlias_def insertCommand_eq_Inr)

lemmas assertCommandEffectCompleteness_eq_Inr [tx_simps] =
  setConstraintsImmediate_eq_Inr [where names = "[''FinancialCommand_effect_completeness_check'',
    ''FinancialTransfer_command_completion_check'', ''FinancialLot_point_charge_shape_check'']",
    folded assertCommandEffectCompleteness_def]

lemma commandOf_simps [simp]:
  "cm_id (commandOf req i t r) = i" "cm_flowId (commandOf req i t r) = cr_flowId req"
  "cm_flowKind (commandOf req i t r) = cr_flowKind req" "cm_kind (commandOf req i t r) = cr_kind req"
  "cm_payloadHash (commandOf req i t r) = cr_payloadHash req"
  "cm_principalId (commandOf req i t r) = cr_principalId req"
  "cm_idempotencyKey (commandOf req i t r) = cr_idempotencyKey req"
  "cm_subjectNamespace (commandOf req i t r) = cr_subjectNamespace req"
  "cm_subjectKey (commandOf req i t r) = cr_subjectKey req"
  "cm_resultOperationId (commandOf req i t r) = r"
  "(commandOf req i t r)\<lparr>cm_resultOperationId := q\<rparr> = commandOf req i t q"
  by (simp_all add: commandOf_def)

text \<open>
  A command whose key was free, once finished, is what its key finds, with the operation it
  ended in; no other command changes.
\<close>

lemma findRow_none_append: "findRow p xs = None \<Longrightarrow> findRow p (xs @ ys) = findRow p ys"
  by (simp add: findRow_append)

lemma updateWhere_id: "(\<And>x. x \<in> set xs \<Longrightarrow> \<not> p x) \<Longrightarrow> updateWhere p f xs = xs"
  by (induction xs) (auto simp: updateWhere_def)

lemma finished_command_found:
  assumes none: "findRow (commandKeyIs (cr_principalId req) (cr_kind req) (cr_idempotencyKey req)) runs = None"
    and fresh: "i \<notin> cm_id ` set runs"
    and runs': "runs' = updateWhere (\<lambda>x. cm_id x = i) (\<lambda>x. x\<lparr>cm_resultOperationId := Some r\<rparr>)
      (runs @ [commandOf req i t None])"
  shows "runs' = runs @ [commandOf req i t (Some r)]"
    "findRow (commandKeyIs (cr_principalId req) (cr_kind req) (cr_idempotencyKey req)) runs' =
      Some (commandOf req i t (Some r))"
proof -
  have "updateWhere (\<lambda>x. cm_id x = i) (\<lambda>x. x\<lparr>cm_resultOperationId := Some r\<rparr>) runs = runs"
    by (rule updateWhere_id) (use fresh in auto)
  then show runs'': "runs' = runs @ [commandOf req i t (Some r)]"
    by (simp add: runs' updateWhere_append) (simp add: updateWhere_def commandOf_def)
  show "findRow (commandKeyIs (cr_principalId req) (cr_kind req) (cr_idempotencyKey req)) runs' =
      Some (commandOf req i t (Some r))"
    unfolding runs'' findRow_none_append [OF none] by (simp add: commandKeyIs_def commandOf_def)
qed

section \<open>What the use cases share\<close>

text \<open>The part of a command request that a use case plans before its flow and its hash are known.\<close>

record command_plan =
  cpl_flowKind :: flow_kind
  cpl_kind :: command_kind
  cpl_principalId :: int
  cpl_idempotencyKey :: string
  cpl_subjectNamespace :: string
  cpl_subjectKey :: string

text \<open>The object spread \<open>{ flowId, ...plan, payloadHash }\<close>.\<close>

definition requestFor :: "string \<Rightarrow> command_plan \<Rightarrow> string \<Rightarrow> command_request" where
  "requestFor flowId plan payloadHash = \<lparr>cr_flowId = flowId, cr_flowKind = cpl_flowKind plan,
     cr_kind = cpl_kind plan, cr_principalId = cpl_principalId plan,
     cr_idempotencyKey = cpl_idempotencyKey plan, cr_payloadHash = payloadHash,
     cr_subjectNamespace = cpl_subjectNamespace plan, cr_subjectKey = cpl_subjectKey plan\<rparr>"

lemma requestFor_simps [simp]:
  "cr_flowId (requestFor f p h) = f" "cr_flowKind (requestFor f p h) = cpl_flowKind p"
  "cr_kind (requestFor f p h) = cpl_kind p" "cr_principalId (requestFor f p h) = cpl_principalId p"
  "cr_idempotencyKey (requestFor f p h) = cpl_idempotencyKey p" "cr_payloadHash (requestFor f p h) = h"
  "cr_subjectNamespace (requestFor f p h) = cpl_subjectNamespace p"
  "cr_subjectKey (requestFor f p h) = cpl_subjectKey p"
  by (simp_all add: requestFor_def)

text \<open>\<open>JSON.stringify\<close> of an array of values already written; of a number that is not an integer.\<close>

fun commaSeparated :: "string list \<Rightarrow> string" where
  "commaSeparated [] = []"
| "commaSeparated [t] = t"
| "commaSeparated (t # ts) = t @ '','' @ commaSeparated ts"

definition jsonArray :: "string list \<Rightarrow> string" where
  "jsonArray values = ''['' @ commaSeparated values @ '']''"

fun jsonNumber :: "js_number \<Rightarrow> string" where
  "jsonNumber (JInt i) = showInt i"
| "jsonNumber (JNonInt t) = (if t \<in> {''NaN'', ''Infinity'', ''-Infinity''} then ''null'' else t)"

text \<open>
  Named hypothesis: a transaction that commits left the unique columns unique (a duplicate
  would have thrown).
\<close>

definition unique_ok :: "db \<Rightarrow> bool" where
  "unique_ok s \<longleftrightarrow> distinct (map ln_orderPaymentId (orderFinancialLinks s)) \<and>
     distinct (map k_orderId (contracts s)) \<and>
     distinct (map w_flowId (financialWithdrawals s)) \<and>
     distinct (map sw_operationId (financialSwapActions s)) \<and>
     distinct (map t_reservationId (financialTransfers s)) \<and>
     distinct (filter (\<lambda>x. x \<noteq> None) (map l_sourceOperationId (financialLots s)))"

text \<open>The first row of a key is the row appended, when the appended key stays unique.\<close>

lemma findRow_appended:
  assumes "distinct (map k (rows @ [r]))" "p r" "\<And>x. p x \<Longrightarrow> k x = k r"
  shows "findRow p (rows @ [r]) = Some r"
proof -
  have "k r \<notin> k ` set rows" using assms(1) by simp
  then have "findRow p rows = None" unfolding findRow_None using assms(3) by (metis imageI)
  with assms(2) show ?thesis by (simp add: findRow_append)
qed

lemma findRow_appended_option:
  assumes "distinct (filter (\<lambda>x. x \<noteq> None) (map k (rows @ [r])))" "k r \<noteq> None" "p r"
    "\<And>x. p x \<Longrightarrow> k x = k r"
  shows "findRow p (rows @ [r]) = Some r"
proof -
  have "k r \<notin> k ` set rows" using assms(1,2) by auto
  then have "findRow p rows = None" unfolding findRow_None using assms(4) by (metis imageI)
  with assms(3) show ?thesis by (simp add: findRow_append)
qed

text \<open>A stored command that has a result.\<close>

definition completedCommand :: "stored_command \<Rightarrow> bool" where
  "completedCommand c \<longleftrightarrow> truthy (sc_operationDbId c) \<and> truthy (sc_operationId c)"

lemma mapStoredCommand_simps [simp]:
  "sc_commandDbId (mapStoredCommand s c) = cm_id c" "sc_flowId (mapStoredCommand s c) = cm_flowId c"
  "sc_flowKind (mapStoredCommand s c) = cm_flowKind c" "sc_kind (mapStoredCommand s c) = cm_kind c"
  "sc_principalId (mapStoredCommand s c) = cm_principalId c"
  "sc_idempotencyKey (mapStoredCommand s c) = cm_idempotencyKey c"
  "sc_payloadHash (mapStoredCommand s c) = cm_payloadHash c"
  "sc_subjectNamespace (mapStoredCommand s c) = cm_subjectNamespace c"
  "sc_subjectKey (mapStoredCommand s c) = cm_subjectKey c"
  "sc_operationDbId (mapStoredCommand s c) = map_option oper_id (resultOperation s c)"
  "sc_referenceId (mapStoredCommand s c) = formatTransactionReference (cm_flowKind c) (cm_flowId c)"
  "sc_commandId (mapStoredCommand s c) = formatCommandId (cm_kind c) (cm_id c)"
  "sc_operationId (mapStoredCommand s c) =
     map_option (\<lambda>r. formatOperationId (oper_kind r) (oper_id r)) (resultOperation s c)"
  by (simp_all add: mapStoredCommand_def)

lemma findCommand_Some:
  "findCommand p k key s = Some i \<Longrightarrow>
     \<exists>c \<in> set (financialCommandRuns s). i = mapStoredCommand s c \<and> commandKeyIs p k key c"
  by (auto simp: findCommand_def dest: findRow_Some)

lemma findCompleted_Some:
  "findCompletedCommandBySubject fk ns key k s = Some i \<Longrightarrow>
     \<exists>c \<in> set (financialCommandRuns s). i = mapStoredCommand s c \<and> cm_subjectNamespace c = ns \<and>
       cm_subjectKey c = key \<and> cm_flowKind c = fk \<and> cm_kind c = k \<and> cm_resultOperationId c \<noteq> None"
  by (auto simp: findCompletedCommandBySubject_def split: list.splits dest!: first_of_sorted)

lemma findCommand_appended:
  "findCommand p k key s = None \<Longrightarrow> financialCommandRuns s' = financialCommandRuns s @ [c] \<Longrightarrow>
     commandKeyIs p k key c \<Longrightarrow> findCommand p k key s' = Some (mapStoredCommand s' c)"
  by (simp add: findCommand_def findRow_append)

text \<open>An alias has the result of the command it is an alias of.\<close>

lemma alias_result:
  assumes "resultOperation s c \<noteq> None" "cr_flowId req = cm_flowId c" "cr_kind req = cm_kind c"
    "financialOperations s' = financialOperations s"
  shows "resultOperation s' (commandOf req i t (Some (the (map_option oper_id (resultOperation s c))))) =
    resultOperation s c"
proof -
  from assms(1) obtain r where r: "resultOperation s c = Some r" by blast
  then obtain j where j: "cm_resultOperationId c = Some j" "findRow (\<lambda>r. oper_id r = j \<and>
      oper_flowId r = cm_flowId c \<and> oper_kind r = cm_kind c) (financialOperations s) = Some r"
    by (auto simp: resultOperation_def split: option.splits)
  from findRow_Some [OF j(2)] have "oper_id r = j" by simp
  with r j assms show ?thesis by (simp add: resultOperation_def)
qed

text \<open>A command that was just completed has the operation that was just created.\<close>

lemma new_result:
  assumes "financialOperations s' = financialOperations s @ [r]"
    "r = \<lparr>oper_id = i, oper_flowId = cr_flowId req, oper_kind = cr_kind req, oper_commandId = c\<rparr>"
    "i \<notin> oper_id ` set (financialOperations s)"
  shows "resultOperation s' (commandOf req ci t (Some i)) = Some r"
proof -
  have "findRow (\<lambda>r. oper_id r = i \<and> oper_flowId r = cr_flowId req \<and> oper_kind r = cr_kind req)
      (financialOperations s) = None"
    unfolding findRow_None using assms(3) by auto
  then show ?thesis by (simp add: resultOperation_def assms(1,2) findRow_append)
qed

lemma formatted_nonempty [simp]:
  "formatOperationId k i \<noteq> []" "formatCommandId k i \<noteq> []"
  by (simp_all add: formatOperationId_def formatCommandId_def)

section \<open>Repeated requests\<close>

text \<open>
  The contract of an idempotent use case. \<open>exec request scope s\<close> is its transaction body, where
  \<open>scope\<close> is what the caller read before the transaction; \<open>sound\<close> is an invariant it keeps, \<open>ok\<close>
  what a commit ensures, and \<open>mark\<close> the answer of a replay. A request that succeeded, executed
  again whatever its caller read, answers the same, marked, and changes nothing.
\<close>

fun redeliver :: "('t \<Rightarrow> 's \<Rightarrow> 'e + 'r \<times> 's) \<Rightarrow> 't list \<Rightarrow> 's \<Rightarrow> ('e + 'r) list \<times> 's" where
  "redeliver exec [] s = ([], s)"
| "redeliver exec (t # ts) s = (case exec t s of
      Inl e \<Rightarrow> (let (rs, s') = redeliver exec ts s in (Inl e # rs, s'))
    | Inr (r, s1) \<Rightarrow> (let (rs, s') = redeliver exec ts s1 in (Inr r # rs, s')))"

locale idempotent_request =
  fixes exec :: "'i \<Rightarrow> 't \<Rightarrow> 's \<Rightarrow> 'e + 'r \<times> 's" and sound :: "'s \<Rightarrow> bool"
    and ok :: "'i \<Rightarrow> 's \<Rightarrow> bool" and mark :: "'r \<Rightarrow> 'r"
  assumes exec_sound: "exec i t s = Inr (r, s') \<Longrightarrow> sound s \<Longrightarrow> sound s'"
    and retry: "exec i t s = Inr (r, s') \<Longrightarrow> sound s \<Longrightarrow> ok i s' \<Longrightarrow> exec i t' s' = Inr (mark r, s')"
    and mark_mark: "mark (mark r) = mark r"
begin

lemma redeliver_marked:
  "exec i t s = Inr (r, s') \<Longrightarrow> sound s \<Longrightarrow> ok i s' \<Longrightarrow>
     redeliver (exec i) ts s' = (replicate (length ts) (Inr (mark r)), s')"
proof (induction ts arbitrary: t s r)
  case Nil
  then show ?case by simp
next
  case (Cons u ts)
  have again: "exec i u s' = Inr (mark r, s')" by (rule retry [OF Cons.prems])
  from Cons.IH [OF again exec_sound [OF Cons.prems(1,2)] Cons.prems(3)] have
    "redeliver (exec i) ts s' = (replicate (length ts) (Inr (mark r)), s')" by (simp add: mark_mark)
  with again show ?case by simp
qed

text \<open>A run of deliveries: the first answers and changes the state, the others repeat its answer.\<close>

lemma redeliver_all:
  "exec i t s = Inr (r, s') \<Longrightarrow> sound s \<Longrightarrow> ok i s' \<Longrightarrow>
     redeliver (exec i) (t # ts) s = (Inr r # replicate (length ts) (Inr (mark r)), s')"
  using redeliver_marked [of i t s r s' ts] by simp

end

end
