(* ===== verification/LedgerCore.thy ===== *)
theory LedgerCore
  imports Foundation Fifo
begin

text \<open>
  The core of the financial ledger, \<open>src/modules/financial-ledger/financial-ledger.core.ts\<close>:
  the reservation of an amount over the lots of an account in FIFO order, its errors, and the
  interpretation of the FIFO contract on its loop.
\<close>

record FinancialLotBalance =
  flb_lotId :: int
  flb_remainingAmount :: int

record FinancialAllocation =
  fa_lotId :: int
  fa_amount :: int
  fa_assumedRemainingAmount :: int

definition InvalidFinancialAmountError :: "js_number \<Rightarrow> thrown" where
  "InvalidFinancialAmountError amount = DomainError ''InvalidFinancialAmountError''
     (''Financial amount must be a positive integer, got '' @ numText amount) ''INVALID_FINANCIAL_AMOUNT''"

definition InsufficientFinancialFundsError :: "int \<Rightarrow> int \<Rightarrow> thrown" where
  "InsufficientFinancialFundsError available requested = DomainError ''InsufficientFinancialFundsError''
     (''Insufficient POINT: have '' @ showInt available @ '', need '' @ showInt requested)
     ''INSUFFICIENT_FINANCIAL_FUNDS''"

definition allocationFor :: "FinancialLotBalance \<Rightarrow> int \<Rightarrow> FinancialAllocation" where
  "allocationFor lot allocated = \<lparr>fa_lotId = flb_lotId lot, fa_amount = allocated,
     fa_assumedRemainingAmount = flb_remainingAmount lot\<rparr>"

fun reserveLots :: "int \<Rightarrow> FinancialLotBalance list \<Rightarrow> FinancialAllocation list \<times> int" where
  "reserveLots remaining [] = ([], remaining)"
| "reserveLots remaining (lot # lots) =
     (if remaining = 0 then ([], remaining)
      else let allocated = min (flb_remainingAmount lot) remaining in
        if 0 < allocated
        then (let (allocations, left) = reserveLots (remaining - allocated) lots
              in (allocationFor lot allocated # allocations, left))
        else reserveLots remaining lots)"

definition planReservation :: "FinancialLotBalance list \<Rightarrow> js_number \<Rightarrow> thrown + FinancialAllocation list" where
  "planReservation lots amount =
     (if \<not> isInteger amount \<or> intOf amount \<le> 0 then Inl (InvalidFinancialAmountError amount)
      else let (allocations, remaining) = reserveLots (intOf amount) lots in
        if 0 < remaining
        then Inl (InsufficientFinancialFundsError (intOf amount - remaining) (intOf amount))
        else Inr allocations)"

section \<open>The loop meets the FIFO contract\<close>

interpretation reserve: fifo_loop flb_remainingAmount allocationFor fa_amount reserveLots
  by unfold_locales (auto simp: allocationFor_def Let_def case_prod_beta)

definition lotsTotal :: "FinancialLotBalance list \<Rightarrow> int" where
  "lotsTotal lots = (\<Sum>l\<leftarrow>lots. max 0 (flb_remainingAmount l))"

lemma planReservation_cases:
  "planReservation lots amount =
     (if \<not> isInteger amount \<or> intOf amount \<le> 0 then Inl (InvalidFinancialAmountError amount)
      else if lotsTotal lots < intOf amount
      then Inl (InsufficientFinancialFundsError (lotsTotal lots) (intOf amount))
      else Inr (fifoSpec flb_remainingAmount allocationFor (intOf amount) lots))"
proof (cases "isInteger amount \<and> 0 < intOf amount")
  case False
  then show ?thesis by (auto simp: planReservation_def)
next
  case True
  then have "reserveLots (intOf amount) lots =
      (fifoSpec flb_remainingAmount allocationFor (intOf amount) lots, max 0 (intOf amount - lotsTotal lots))"
    by (simp add: reserve.loop_spec lotsTotal_def)
  with True show ?thesis by (auto simp: planReservation_def max_def)
qed

lemma planReservation_allocations:
  assumes "planReservation lots amount = Inr allocations"
  shows "(\<Sum>a\<leftarrow>allocations. fa_amount a) = intOf amount" "0 < intOf amount" "isInteger amount"
    "\<forall>a \<in> set allocations. \<exists>l \<in> set lots. fa_lotId a = flb_lotId l \<and>
       fa_assumedRemainingAmount a = flb_remainingAmount l \<and> 0 < fa_amount a \<and> fa_amount a \<le> flb_remainingAmount l"
    "subseq (map fa_lotId allocations) (map flb_lotId lots)"
proof -
  from assms have pos: "0 < intOf amount" and int: "isInteger amount"
    and le: "intOf amount \<le> lotsTotal lots"
    and allocs: "allocations = fifoSpec flb_remainingAmount allocationFor (intOf amount) lots"
    by (auto simp: planReservation_cases split: if_splits)
  then have loop: "reserveLots (intOf amount) lots = (allocations, 0)"
    by (simp add: reserve.loop_spec lotsTotal_def)
  show "0 < intOf amount" "isInteger amount" by fact+
  show "(\<Sum>a\<leftarrow>allocations. fa_amount a) = intOf amount"
    using reserve.loop_takes_all(2) [of "intOf amount" lots] pos by (simp add: loop)
  show "\<forall>a \<in> set allocations. \<exists>l \<in> set lots. fa_lotId a = flb_lotId l \<and>
       fa_assumedRemainingAmount a = flb_remainingAmount l \<and> 0 < fa_amount a \<and> fa_amount a \<le> flb_remainingAmount l"
    using reserve.loop_items [of "intOf amount" _ lots] pos by (fastforce simp: loop allocationFor_def)
  show "subseq (map fa_lotId allocations) (map flb_lotId lots)"
    using reserve.loop_names [of "intOf amount" fa_lotId flb_lotId lots] pos
    by (simp add: loop allocationFor_def)
qed

text \<open>C24: the reservation of an amount over lots: rejected unless the amount is a positive
  integer, then unless the lots hold as much (with what they hold), and otherwise the lots
  in order give what the lots before them left to take, together exactly the amount.
\<close>

theorem planReservation_fifo:
  "planReservation lots amount =
     (if \<not> isInteger amount \<or> intOf amount \<le> 0 then Inl (InvalidFinancialAmountError amount)
      else if lotsTotal lots < intOf amount
      then Inl (InsufficientFinancialFundsError (lotsTotal lots) (intOf amount))
      else Inr (fifoSpec flb_remainingAmount allocationFor (intOf amount) lots)) \<and>
   (isInteger amount \<and> 0 < intOf amount \<and> intOf amount \<le> lotsTotal lots \<longrightarrow>
      (\<Sum>a\<leftarrow>fifoSpec flb_remainingAmount allocationFor (intOf amount) lots. fa_amount a) = intOf amount)"
  using planReservation_cases [of lots amount] reserve.spec_total [of "intOf amount" lots]
  by (simp add: lotsTotal_def)

text \<open>Two lots and a third that is empty: the request takes the first whole and part of the second.\<close>

definition sampleLots :: "FinancialLotBalance list" where
  "sampleLots = [\<lparr>flb_lotId = 4, flb_remainingAmount = 30\<rparr>, \<lparr>flb_lotId = 6, flb_remainingAmount = 0\<rparr>,
     \<lparr>flb_lotId = 5, flb_remainingAmount = 50\<rparr>]"

theorem planReservation_fifo_witness:
  "(\<Sum>a\<leftarrow>fifoSpec flb_remainingAmount allocationFor 70 sampleLots. fa_amount a) = 70 \<and>
   planReservation sampleLots (JInt 81) = Inl (InsufficientFinancialFundsError 80 81)"
  using planReservation_fifo [of sampleLots "JInt 70"] planReservation_fifo [of sampleLots "JInt 81"]
  by (simp add: sampleLots_def lotsTotal_def)

end
