(* ===== verification/LedgerRepo.thy ===== *)
theory LedgerRepo
  imports TransactionFlow LedgerCore
begin

text \<open>
  The persistence of the financial ledger, \<open>src/modules/financial-ledger/financial-ledger.repo.ts\<close>:
  the worlds its decisions read, the reservation and settlement executors with their guards,
  and the ledger invariant: what a lot lost is what was allocated of it.
\<close>

section \<open>Errors\<close>

definition FinancialHolderNotFoundError :: "string \<Rightarrow> string \<Rightarrow> thrown" where
  "FinancialHolderNotFoundError namespace key = DomainError ''FinancialHolderNotFoundError''
     (''Financial holder '' @ namespace @ '':'' @ key @ '' does not exist'') ''FINANCIAL_HOLDER_NOT_FOUND''"

definition AvailableAccountNotFoundError :: "int \<Rightarrow> string \<Rightarrow> thrown" where
  "AvailableAccountNotFoundError holderId currency = DomainError ''AvailableAccountNotFoundError''
     (currency @ '' AVAILABLE account for holder '' @ showInt holderId @ '' does not exist'')
     ''AVAILABLE_ACCOUNT_NOT_FOUND''"

definition CommissionSettlementFundingNotFoundError :: "int \<Rightarrow> thrown" where
  "CommissionSettlementFundingNotFoundError reservationId =
     DomainError ''CommissionSettlementFundingNotFoundError''
       (''Funded commission reservation '' @ showInt reservationId @ '' does not exist'')
       ''COMMISSION_SETTLEMENT_FUNDING_NOT_FOUND''"

text \<open>What the database client throws when a required relation is missing (a broken foreign key).\<close>

definition brokenRelation :: thrown where
  "brokenRelation = PrismaError ''P2018'' ''The required connected records were not found.''"

definition relation :: "'r option \<Rightarrow> thrown + 'r" where
  "relation r = (case r of None \<Rightarrow> Inl brokenRelation | Some x \<Rightarrow> Inr x)"

lemma relation_eq_Inr [simp, read_simps]: "relation r = Inr x \<longleftrightarrow> r = Some x"
  by (auto simp: relation_def split: option.split)

section \<open>Reads\<close>

definition findHolderId :: "string \<Rightarrow> string \<Rightarrow> db \<Rightarrow> thrown + int" where
  "findHolderId namespace key s =
     (case findRow (\<lambda>h. h_namespace h = namespace \<and> h_key h = key) (financialHolders s) of
        None \<Rightarrow> Inl (FinancialHolderNotFoundError namespace key)
      | Some h \<Rightarrow> Inr (h_id h))"

definition accountOf :: "int \<Rightarrow> string \<Rightarrow> string \<Rightarrow> db \<Rightarrow> account_row option" where
  "accountOf holderId currency purpose s =
     findRow (\<lambda>a. a_holderId a = Some holderId \<and> a_currency a = currency \<and> a_purpose a = purpose)
       (financialAccounts s)"

text \<open>The lots of an account with something left, oldest first, ties by identifier.\<close>

definition lotsOf :: "account_row \<Rightarrow> (lot_row \<Rightarrow> bool) \<Rightarrow> db \<Rightarrow> lot_row list" where
  "lotsOf a p s = sort_key (\<lambda>l. (l_createdAt l, l_id l))
     (filter (\<lambda>l. l_accountId l = a_id a \<and> l_currency l = a_currency a \<and> p l) (financialLots s))"

definition lotBalance :: "lot_row \<Rightarrow> FinancialLotBalance" where
  "lotBalance l = \<lparr>flb_lotId = l_id l, flb_remainingAmount = l_remainingAmount l\<rparr>"

definition loadAvailablePointWorld :: "int \<Rightarrow> db \<Rightarrow> thrown + (int \<times> FinancialLotBalance list)" where
  "loadAvailablePointWorld holderId s =
     (case accountOf holderId ''POINT'' ''AVAILABLE'' s of
        None \<Rightarrow> Inl (AvailableAccountNotFoundError holderId ''POINT'')
      | Some a \<Rightarrow> Inr (a_id a, map lotBalance (lotsOf a (\<lambda>l. 0 < l_remainingAmount l) s)))"

definition loadPointChargeWorld :: "int \<Rightarrow> db \<Rightarrow> thrown + (int \<times> int)" where
  "loadPointChargeWorld holderId s =
     (case accountOf holderId ''POINT'' ''AVAILABLE'' s of
        None \<Rightarrow> Inl (AvailableAccountNotFoundError holderId ''POINT'')
      | Some a \<Rightarrow> Inr (holderId, a_id a))"

definition loadAvailableIncomeWorld :: "int \<Rightarrow> db \<Rightarrow> thrown + (int \<times> int \<times> FinancialLotBalance list)" where
  "loadAvailableIncomeWorld holderId s =
     (case accountOf holderId ''INCOME'' ''AVAILABLE'' s of
        None \<Rightarrow> Inl (AvailableAccountNotFoundError holderId ''INCOME'')
      | Some a \<Rightarrow> Inr (holderId, a_id a,
          map lotBalance (lotsOf a (\<lambda>l. l_currency l = ''INCOME'' \<and> 0 < l_remainingAmount l) s)))"

section \<open>Issuing points\<close>

record point_lot_request =
  pr_accountId :: int
  pr_currency :: string
  pr_sourceKind :: string
  pr_issuanceReason :: string
  pr_accountingCategory :: string
  pr_accountingPolicyVersion :: string
  pr_amount :: int

definition insertLot :: "engine \<Rightarrow> (int \<Rightarrow> instant \<Rightarrow> lot_row) \<Rightarrow> lot_row dbtx" where
  "insertLot eng mk = (\<lambda>s.
     let row = mk (e_nextId eng ''FinancialLot'' s) (e_now eng s)
     in Inr (row, s\<lparr>financialLots := financialLots s @ [row]\<rparr>))"

definition applyPointChargeLot ::
  "engine \<Rightarrow> string \<Rightarrow> string \<Rightarrow> point_lot_request \<Rightarrow> lot_row dbtx" where
  "applyPointChargeLot eng flowId operationId request = insertLot eng (\<lambda>i t. \<lparr>l_id = i,
     l_accountId = pr_accountId request, l_currency = pr_currency request,
     l_sourceKind = pr_sourceKind request, l_sourceOperationId = Some operationId,
     l_sourceSwapActionId = None, l_sourceFlowId = Some flowId, l_sourceFlowKind = Some POINT_CHARGE,
     l_sourceOperationKind = Some CHARGE, l_issuanceReason = Some (pr_issuanceReason request),
     l_accountingCategory = Some (pr_accountingCategory request),
     l_accountingPolicyVersion = Some (pr_accountingPolicyVersion request),
     l_originalAmount = pr_amount request, l_remainingAmount = pr_amount request, l_createdAt = t\<rparr>)"

definition loadPointChargeLedgerResult :: "string \<Rightarrow> db \<Rightarrow> thrown + (int \<times> int)" where
  "loadPointChargeLedgerResult operationId s =
     rbind (orThrow (findRow (\<lambda>l. l_sourceOperationId l = Some operationId) (financialLots s))) (\<lambda>lot.
     Inr (l_id lot, l_originalAmount lot))"

section \<open>Reserving\<close>

definition putLots :: "lot_row list \<Rightarrow> db \<Rightarrow> db" where
  "putLots rows s = s\<lparr>financialLots := rows\<rparr>"

text \<open>The guarded decrement of one lot; \<open>p\<close> is the part of the guard besides the identifier and the remainder.\<close>

definition takeFromLot :: "(lot_row \<Rightarrow> bool) \<Rightarrow> FinancialAllocation \<Rightarrow> unit dbtx" where
  "takeFromLot p a = guardedUpdate financialLots putLots
     (\<lambda>l. l_id l = fa_lotId a \<and> p l \<and> l_remainingAmount l = fa_assumedRemainingAmount a)
     (\<lambda>l. l\<lparr>l_remainingAmount := l_remainingAmount l - fa_amount a\<rparr>)
     (ConcurrentUpdateError (''FinancialLot '' @ showInt (fa_lotId a)))"

record reservation_request =
  rr_flowId :: string
  rr_bindingNamespace :: string
  rr_bindingKey :: string
  rr_holderId :: int
  rr_purpose :: string
  rr_currency :: string
  rr_amount :: int

definition insertReservation :: "engine \<Rightarrow> reservation_request \<Rightarrow> reservation_row dbtx" where
  "insertReservation eng req = (\<lambda>s.
     let row = \<lparr>r_id = e_nextId eng ''FinancialReservation'' s, r_flowId = rr_flowId req,
           r_bindingNamespace = rr_bindingNamespace req, r_bindingKey = rr_bindingKey req,
           r_holderId = rr_holderId req, r_purpose = rr_purpose req, r_currency = rr_currency req,
           r_targetAmount = rr_amount req, r_state = ''HELD''\<rparr>
     in Inr (row, s\<lparr>financialReservations := financialReservations s @ [row]\<rparr>))"

definition insertAccount :: "engine \<Rightarrow> string \<Rightarrow> string \<Rightarrow> int \<Rightarrow> account_row dbtx" where
  "insertAccount eng currency purpose reservationId = (\<lambda>s.
     let row = \<lparr>a_id = e_nextId eng ''FinancialAccount'' s, a_currency = currency, a_purpose = purpose,
           a_holderId = None, a_reservationId = Some reservationId\<rparr>
     in Inr (row, s\<lparr>financialAccounts := financialAccounts s @ [row]\<rparr>))"

definition insertTransfer ::
  "engine \<Rightarrow> int \<Rightarrow> string \<Rightarrow> string \<Rightarrow> int \<Rightarrow> int \<Rightarrow> int \<Rightarrow> string \<Rightarrow> transfer_row dbtx" where
  "insertTransfer eng reservationId flowId currency fromAccountId toAccountId amount actionId = (\<lambda>s.
     let row = \<lparr>t_id = e_nextId eng ''FinancialTransfer'' s, t_reservationId = reservationId,
           t_flowId = flowId, t_currency = currency, t_fromAccountId = fromAccountId,
           t_toAccountId = toAccountId, t_amount = amount, t_actionId = actionId\<rparr>
     in Inr (row, s\<lparr>financialTransfers := financialTransfers s @ [row]\<rparr>))"

definition insertAllocations :: "int \<Rightarrow> int \<Rightarrow> string \<Rightarrow> FinancialAllocation list \<Rightarrow> unit dbtx" where
  "insertAllocations transferId fromAccountId currency allocations = (\<lambda>s.
     Inr ((), s\<lparr>financialTransferAllocations := financialTransferAllocations s @
       map (\<lambda>a. \<lparr>ta_transferId = transferId, ta_fromAccountId = fromAccountId, ta_currency = currency,
                 ta_lotId = fa_lotId a, ta_amount = fa_amount a\<rparr>) allocations\<rparr>))"

definition applyCommissionPaymentReservation ::
  "engine \<Rightarrow> reservation_request \<Rightarrow> int \<Rightarrow> FinancialAllocation list \<Rightarrow> string \<Rightarrow> reservation_row dbtx" where
  "applyCommissionPaymentReservation eng request accountId allocations actionId =
     bindT (forEachT (takeFromLot (\<lambda>l. l_accountId l = accountId)) allocations) (\<lambda>_.
     bindT (insertReservation eng request) (\<lambda>reservation.
     bindT (insertAccount eng (rr_currency request) ''ESCROW'' (r_id reservation)) (\<lambda>escrow.
     bindT (insertTransfer eng (r_id reservation) (rr_flowId request) (rr_currency request)
              accountId (a_id escrow) (rr_amount request) actionId) (\<lambda>transfer.
     bindT (insertAllocations (t_id transfer) accountId (rr_currency request) allocations) (\<lambda>_.
     returnT reservation)))))"

text \<open>The request of a withdrawal nests the escrow account and the transfer it asks for.\<close>

record withdrawal_request =
  wr_bindingNamespace :: string
  wr_holderId :: int
  wr_purpose :: string
  wr_currency :: string
  wr_amount :: int
  wr_escrowPurpose :: string
  wr_escrowCurrency :: string
  wr_transferCurrency :: string
  wr_transferAmount :: int
  wr_fromAccountId :: int
  wr_allocations :: "FinancialAllocation list"

definition applyIncomeWithdrawalReservation ::
  "engine \<Rightarrow> string \<Rightarrow> withdrawal_request \<Rightarrow> string \<Rightarrow> string \<Rightarrow> reservation_row dbtx" where
  "applyIncomeWithdrawalReservation eng flowId request bindingKey actionId =
     bindT (forEachT (takeFromLot (\<lambda>l. l_accountId l = wr_fromAccountId request \<and>
              l_currency l = wr_transferCurrency request)) (wr_allocations request)) (\<lambda>_.
     bindT (insertReservation eng \<lparr>rr_flowId = flowId, rr_bindingNamespace = wr_bindingNamespace request,
              rr_bindingKey = bindingKey, rr_holderId = wr_holderId request,
              rr_purpose = wr_purpose request, rr_currency = wr_currency request,
              rr_amount = wr_amount request\<rparr>) (\<lambda>reservation.
     bindT (insertAccount eng (wr_escrowCurrency request) (wr_escrowPurpose request) (r_id reservation)) (\<lambda>escrow.
     bindT (insertTransfer eng (r_id reservation) flowId (wr_transferCurrency request)
              (wr_fromAccountId request) (a_id escrow) (wr_transferAmount request) actionId) (\<lambda>transfer.
     bindT (insertAllocations (t_id transfer) (wr_fromAccountId request) (wr_transferCurrency request)
              (wr_allocations request)) (\<lambda>_.
     returnT reservation)))))"

definition createTransferAction :: "engine \<Rightarrow> string \<Rightarrow> string \<Rightarrow> command_kind \<Rightarrow> taction_row dbtx" where
  "createTransferAction eng operationId flowId operationKind = (\<lambda>s.
     let row = \<lparr>tac_id = e_uuid eng ''FinancialTransferAction'' s, tac_flowId = flowId,
           tac_operationId = operationId, tac_operationKind = operationKind\<rparr>
     in Inr (row, s\<lparr>financialTransferActions := financialTransferActions s @ [row]\<rparr>))"

section \<open>What a reservation drew on\<close>

definition transferOf :: "reservation_row \<Rightarrow> db \<Rightarrow> transfer_row option" where
  "transferOf r s = findRow (\<lambda>t. t_reservationId t = r_id r \<and> t_flowId t = r_flowId r) (financialTransfers s)"

text \<open>The allocations of the reservation's transfer in the order of their lots; none without a transfer.\<close>

definition allocationsOf :: "reservation_row \<Rightarrow> db \<Rightarrow> alloc_row list" where
  "allocationsOf r s = (case transferOf r s of
      None \<Rightarrow> []
    | Some t \<Rightarrow> sort_key ta_lotId (filter (\<lambda>a. ta_transferId a = t_id t \<and>
          ta_fromAccountId a = t_fromAccountId t \<and> ta_currency a = t_currency t)
        (financialTransferAllocations s)))"

definition lotOfAllocation :: "alloc_row \<Rightarrow> db \<Rightarrow> thrown + lot_row" where
  "lotOfAllocation a s = relation (findRow (\<lambda>l. l_id l = ta_lotId a \<and>
     l_accountId l = ta_fromAccountId a \<and> l_currency l = ta_currency a) (financialLots s))"

record funding_allocation =
  fu_lotId :: int
  fu_amount :: int
  fu_sourceFlowId :: "string option"
  fu_sourceFlowKind :: "flow_kind option"
  fu_sourceOperationId :: "string option"
  fu_sourceOperationKind :: "command_kind option"
  fu_issuanceReason :: "string option"
  fu_accountingCategory :: "string option"
  fu_accountingPolicyVersion :: "string option"

definition loadCommissionPointFundingAllocations ::
  "int \<Rightarrow> db \<Rightarrow> thrown + funding_allocation list" where
  "loadCommissionPointFundingAllocations reservationId s =
     rbind (orThrow (findRow (\<lambda>r. r_id r = reservationId) (financialReservations s))) (\<lambda>r.
     mapThrow (\<lambda>a. rbind (lotOfAllocation a s) (\<lambda>l.
       Inr \<lparr>fu_lotId = ta_lotId a, fu_amount = ta_amount a, fu_sourceFlowId = l_sourceFlowId l,
            fu_sourceFlowKind = l_sourceFlowKind l, fu_sourceOperationId = l_sourceOperationId l,
            fu_sourceOperationKind = l_sourceOperationKind l, fu_issuanceReason = l_issuanceReason l,
            fu_accountingCategory = l_accountingCategory l,
            fu_accountingPolicyVersion = l_accountingPolicyVersion l\<rparr>)) (allocationsOf r s))"

text \<open>A \<open>Map\<close> in its order of insertion: the amounts by the flow they come from.\<close>

fun addAmount :: "string \<Rightarrow> int \<Rightarrow> (string \<times> int) list \<Rightarrow> (string \<times> int) list" where
  "addAmount k n [] = [(k, n)]"
| "addAmount k n ((k', m) # amounts) =
     (if k = k' then (k', m + n) # amounts else (k', m) # addAmount k n amounts)"

definition invalidIncomeSource :: thrown where
  "invalidIncomeSource = DomainError ''DomainError'' ''Withdrawal allocation has no commission source''
     ''INVALID_INCOME_SOURCE''"

fun sumSources :: "(alloc_row \<times> lot_row) list \<Rightarrow> (string \<times> int) list \<Rightarrow> thrown + (string \<times> int) list" where
  "sumSources [] amounts = Inr amounts"
| "sumSources ((a, l) # rest) amounts =
     (if \<not> truthy (l_sourceFlowId l) \<or> l_sourceFlowKind l \<noteq> Some COMMISSION then Inl invalidIncomeSource
      else sumSources rest (addAmount (the (l_sourceFlowId l)) (ta_amount a) amounts))"

definition loadIncomeWithdrawalSources :: "int \<Rightarrow> db \<Rightarrow> thrown + (string \<times> int) list" where
  "loadIncomeWithdrawalSources reservationId s =
     rbind (orThrow (findRow (\<lambda>r. r_id r = reservationId) (financialReservations s))) (\<lambda>r.
     rbind (mapThrow (\<lambda>a. rbind (lotOfAllocation a s) (\<lambda>l. Inr (a, l))) (allocationsOf r s)) (\<lambda>rows.
     sumSources rows []))"

section \<open>Settling\<close>

definition findAccountId :: "int \<Rightarrow> string \<Rightarrow> string \<Rightarrow> db \<Rightarrow> thrown + int" where
  "findAccountId holderId currency purpose s = (case accountOf holderId currency purpose s of
      None \<Rightarrow> Inl (DomainError ''DomainError''
        (currency @ '' '' @ purpose @ '' account for holder '' @ showInt holderId @ '' does not exist'')
        ''FINANCIAL_ACCOUNT_NOT_FOUND'')
    | Some a \<Rightarrow> Inr (a_id a))"

record CommissionSettlementAccounts =
  ca_beneficiaryHolderId :: int
  ca_pointSettledAccountId :: int
  ca_incomeIssuerAccountId :: int
  ca_incomeAvailableAccountId :: int

definition loadCommissionSettlementAccounts :: "int \<Rightarrow> db \<Rightarrow> thrown + CommissionSettlementAccounts" where
  "loadCommissionSettlementAccounts workerHolderId s =
     rbind (findHolderId ''system'' ''platform'' s) (\<lambda>platformHolderId.
     rbind (findAccountId platformHolderId ''POINT'' ''SETTLED'' s) (\<lambda>pointSettledAccountId.
     rbind (findAccountId platformHolderId ''INCOME'' ''ISSUER'' s) (\<lambda>incomeIssuerAccountId.
     rbind (findAccountId workerHolderId ''INCOME'' ''AVAILABLE'' s) (\<lambda>incomeAvailableAccountId.
     Inr \<lparr>ca_beneficiaryHolderId = workerHolderId, ca_pointSettledAccountId = pointSettledAccountId,
          ca_incomeIssuerAccountId = incomeIssuerAccountId,
          ca_incomeAvailableAccountId = incomeAvailableAccountId\<rparr>))))"

record CommissionSettlementFunding =
  cf_reservationId :: int
  cf_reservationFlowId :: string
  cf_reservationState :: string
  cf_reservationCurrency :: string
  cf_targetAmount :: int
  cf_holderNamespace :: string
  cf_holderKey :: string
  cf_escrowAccountId :: int
  cf_transferFlowId :: string
  cf_transferCurrency :: string
  cf_transferAmount :: int
  cf_transferToAccountId :: int
  cf_actionOperationKind :: command_kind
  cf_operationId :: string
  cf_operationFlowId :: string
  cf_operationKind :: command_kind
  cf_commandFlowId :: string
  cf_commandKind :: command_kind
  cf_commandPrincipalId :: int
  cf_commandSubjectNamespace :: string
  cf_commandSubjectKey :: string
  cf_commandResultOperationId :: "string option"

definition loadCommissionSettlementFunding :: "int \<Rightarrow> db \<Rightarrow> thrown + CommissionSettlementFunding" where
  "loadCommissionSettlementFunding reservationId s =
     (case findRow (\<lambda>r. r_id r = reservationId) (financialReservations s) of
        None \<Rightarrow> Inl (CommissionSettlementFundingNotFoundError reservationId)
      | Some r \<Rightarrow>
        rbind (relation (findRow (\<lambda>h. h_id h = r_holderId r) (financialHolders s))) (\<lambda>h.
        (case (findRow (\<lambda>a. a_reservationId a = Some (r_id r)) (financialAccounts s), transferOf r s) of
           (Some escrow, Some t) \<Rightarrow>
             rbind (relation (findRow (\<lambda>x. tac_id x = t_actionId t \<and> tac_flowId x = t_flowId t)
                      (financialTransferActions s))) (\<lambda>action.
             rbind (relation (findRow (\<lambda>x. oper_id x = tac_operationId action \<and> oper_flowId x = tac_flowId action
                      \<and> oper_kind x = tac_operationKind action) (financialOperations s))) (\<lambda>operation.
             rbind (relation (findRow (\<lambda>c. cm_id c = oper_commandId operation \<and> cm_flowId c = oper_flowId operation
                      \<and> cm_kind c = oper_kind operation) (financialCommandRuns s))) (\<lambda>command.
             Inr \<lparr>cf_reservationId = r_id r, cf_reservationFlowId = r_flowId r,
                  cf_reservationState = r_state r, cf_reservationCurrency = r_currency r,
                  cf_targetAmount = r_targetAmount r, cf_holderNamespace = h_namespace h,
                  cf_holderKey = h_key h, cf_escrowAccountId = a_id escrow,
                  cf_transferFlowId = t_flowId t, cf_transferCurrency = t_currency t,
                  cf_transferAmount = t_amount t, cf_transferToAccountId = t_toAccountId t,
                  cf_actionOperationKind = tac_operationKind action,
                  cf_operationId = oper_id operation, cf_operationFlowId = oper_flowId operation,
                  cf_operationKind = oper_kind operation, cf_commandFlowId = cm_flowId command,
                  cf_commandKind = cm_kind command, cf_commandPrincipalId = cm_principalId command,
                  cf_commandSubjectNamespace = cm_subjectNamespace command,
                  cf_commandSubjectKey = cm_subjectKey command,
                  cf_commandResultOperationId = cm_resultOperationId command\<rparr>)))
         | _ \<Rightarrow> Inl (CommissionSettlementFundingNotFoundError reservationId))))"

record swap_leg =
  sl_currency :: string
  sl_fromAccountId :: int
  sl_toAccountId :: int

record income_lot =
  il_accountId :: int
  il_currency :: string
  il_sourceKind :: string
  il_originalAmount :: int

record settlement_swap =
  ss_flowId :: string
  ss_reservationId :: int
  ss_beneficiaryHolderId :: int
  ss_amount :: int
  ss_pointLeg :: swap_leg
  ss_incomeLeg :: swap_leg
  ss_incomeLot :: income_lot

definition insertSwapAction :: "engine \<Rightarrow> settlement_swap \<Rightarrow> string \<Rightarrow> swap_row dbtx" where
  "insertSwapAction eng input operationId = (\<lambda>s.
     let row = \<lparr>sw_id = e_uuid eng ''FinancialSwapAction'' s, sw_flowId = ss_flowId input,
           sw_operationId = operationId, sw_operationKind = SETTLE,
           sw_reservationId = ss_reservationId input,
           sw_beneficiaryHolderId = ss_beneficiaryHolderId input\<rparr>
     in Inr (row, s\<lparr>financialSwapActions := financialSwapActions s @ [row]\<rparr>))"

definition insertSwapLegs :: "string \<Rightarrow> settlement_swap \<Rightarrow> unit dbtx" where
  "insertSwapLegs actionId input = (\<lambda>s.
     Inr ((), s\<lparr>financialSwapLegs := financialSwapLegs s @
       map (\<lambda>leg. \<lparr>lg_actionId = actionId, lg_flowId = ss_flowId input, lg_currency = sl_currency leg,
                 lg_fromAccountId = sl_fromAccountId leg, lg_toAccountId = sl_toAccountId leg,
                 lg_amount = ss_amount input\<rparr>) [ss_pointLeg input, ss_incomeLeg input]\<rparr>))"

definition insertIncomeLot :: "engine \<Rightarrow> settlement_swap \<Rightarrow> string \<Rightarrow> string \<Rightarrow> lot_row dbtx" where
  "insertIncomeLot eng input operationId actionId = insertLot eng (\<lambda>i t. \<lparr>l_id = i,
     l_accountId = il_accountId (ss_incomeLot input), l_currency = il_currency (ss_incomeLot input),
     l_sourceKind = il_sourceKind (ss_incomeLot input), l_sourceOperationId = Some operationId,
     l_sourceSwapActionId = Some actionId, l_sourceFlowId = Some (ss_flowId input),
     l_sourceFlowKind = Some COMMISSION, l_sourceOperationKind = Some SETTLE,
     l_issuanceReason = None, l_accountingCategory = None, l_accountingPolicyVersion = None,
     l_originalAmount = il_originalAmount (ss_incomeLot input),
     l_remainingAmount = il_originalAmount (ss_incomeLot input), l_createdAt = t\<rparr>)"

definition putReservations :: "reservation_row list \<Rightarrow> db \<Rightarrow> db" where
  "putReservations rows s = s\<lparr>financialReservations := rows\<rparr>"

definition settleReservation :: "settlement_swap \<Rightarrow> unit dbtx" where
  "settleReservation input = guardedUpdate financialReservations putReservations
     (\<lambda>r. r_id r = ss_reservationId input \<and> r_flowId r = ss_flowId input \<and> r_state r = ''HELD'')
     (\<lambda>r. r\<lparr>r_state := ''SETTLED''\<rparr>)
     (ConcurrentUpdateError (''FinancialReservation '' @ showInt (ss_reservationId input)))"

definition applyCommissionIncomeSettlement ::
  "engine \<Rightarrow> settlement_swap \<Rightarrow> string \<Rightarrow> (swap_row \<times> lot_row) dbtx" where
  "applyCommissionIncomeSettlement eng input operationId =
     bindT (insertSwapAction eng input operationId) (\<lambda>action.
     bindT (insertSwapLegs (sw_id action) input) (\<lambda>_.
     bindT (insertIncomeLot eng input operationId (sw_id action)) (\<lambda>lot.
     bindT (settleReservation input) (\<lambda>_.
     returnT (action, lot)))))"

definition assertCommissionSettlementShape :: "engine \<Rightarrow> unit dbtx" where
  "assertCommissionSettlementShape eng = setConstraintsImmediate eng
     [''FinancialSwap_shape_check'', ''FinancialReservation_settlement_shape_check'',
      ''FinancialCommand_effect_completeness_check'']"

definition loadCommissionSettlementLedgerResult :: "string \<Rightarrow> db \<Rightarrow> thrown + (int \<times> int)" where
  "loadCommissionSettlementLedgerResult operationId s =
     rbind (orThrow (findRow (\<lambda>x. sw_operationId x = operationId) (financialSwapActions s))) (\<lambda>action.
     rbind (orThrow (findRow (\<lambda>l. l_sourceOperationId l = Some operationId) (financialLots s))) (\<lambda>lot.
     Inr (sw_reservationId action, l_id lot)))"

section \<open>Successful reads\<close>

lemma findHolderId_eq_Inr [read_simps]:
  "findHolderId ns key s = Inr i \<longleftrightarrow>
     (\<exists>h. findRow (\<lambda>h. h_namespace h = ns \<and> h_key h = key) (financialHolders s) = Some h \<and> i = h_id h)"
  by (auto simp: findHolderId_def split: option.split)

lemma loadAvailablePointWorld_eq_Inr [read_simps]:
  "loadAvailablePointWorld holderId s = Inr z \<longleftrightarrow>
     (\<exists>a. accountOf holderId ''POINT'' ''AVAILABLE'' s = Some a \<and>
        z = (a_id a, map lotBalance (lotsOf a (\<lambda>l. 0 < l_remainingAmount l) s)))"
  by (auto simp: loadAvailablePointWorld_def split: option.split)

lemma loadPointChargeWorld_eq_Inr [read_simps]:
  "loadPointChargeWorld holderId s = Inr z \<longleftrightarrow>
     (\<exists>a. accountOf holderId ''POINT'' ''AVAILABLE'' s = Some a \<and> z = (holderId, a_id a))"
  by (auto simp: loadPointChargeWorld_def split: option.split)

lemma loadAvailableIncomeWorld_eq_Inr [read_simps]:
  "loadAvailableIncomeWorld holderId s = Inr z \<longleftrightarrow>
     (\<exists>a. accountOf holderId ''INCOME'' ''AVAILABLE'' s = Some a \<and>
        z = (holderId, a_id a,
          map lotBalance (lotsOf a (\<lambda>l. l_currency l = ''INCOME'' \<and> 0 < l_remainingAmount l) s)))"
  by (auto simp: loadAvailableIncomeWorld_def split: option.split)

lemma findAccountId_eq_Inr [read_simps]:
  "findAccountId holderId currency purpose s = Inr i \<longleftrightarrow>
     (\<exists>a. accountOf holderId currency purpose s = Some a \<and> i = a_id a)"
  by (auto simp: findAccountId_def split: option.split)

end
