(* ===== verification/LedgerInvariant.thy ===== *)
theory LedgerInvariant
  imports LedgerRepo
begin

text \<open>
  The invariant of the financial ledger over \<open>financial-ledger.repo.ts\<close>: no lot is overdrawn,
  what a lot lost is exactly what the allocations of transfers took of it, and a transfer
  moves exactly the sum of its allocations. Every executor of the ledger keeps it.
\<close>

section \<open>Invariant\<close>

definition takenFrom :: "int \<Rightarrow> alloc_row list \<Rightarrow> int" where
  "takenFrom lotId allocs = (\<Sum>a\<leftarrow>filter (\<lambda>a. ta_lotId a = lotId) allocs. ta_amount a)"

definition movedBy :: "int \<Rightarrow> alloc_row list \<Rightarrow> int" where
  "movedBy transferId allocs = (\<Sum>a\<leftarrow>filter (\<lambda>a. ta_transferId a = transferId) allocs. ta_amount a)"

definition lot_ok :: "alloc_row list \<Rightarrow> lot_row \<Rightarrow> bool" where
  "lot_ok allocs l \<longleftrightarrow> 0 \<le> l_remainingAmount l \<and>
     l_originalAmount l = l_remainingAmount l + takenFrom (l_id l) allocs"

definition books_ok :: "lot_row list \<Rightarrow> transfer_row list \<Rightarrow> alloc_row list \<Rightarrow> bool" where
  "books_ok lots transfers allocs \<longleftrightarrow>
     distinct (map l_id lots) \<and> distinct (map t_id transfers) \<and> (\<forall>l \<in> set lots. lot_ok allocs l) \<and>
     (\<forall>t \<in> set transfers. t_amount t = movedBy (t_id t) allocs) \<and>
     (\<forall>a \<in> set allocs. 0 < ta_amount a \<and> ta_lotId a \<in> l_id ` set lots \<and>
        ta_transferId a \<in> t_id ` set transfers)"

definition fin_ok :: "db \<Rightarrow> bool" where
  "fin_ok s \<longleftrightarrow> books_ok (financialLots s) (financialTransfers s) (financialTransferAllocations s)"

lemma takenFrom_append [simp]: "takenFrom i (xs @ ys) = takenFrom i xs + takenFrom i ys"
  by (simp add: takenFrom_def)

lemma movedBy_append [simp]: "movedBy i (xs @ ys) = movedBy i xs + movedBy i ys"
  by (simp add: movedBy_def)

lemma takenFrom_none: "i \<notin> ta_lotId ` set allocs \<Longrightarrow> takenFrom i allocs = 0"
  by (induction allocs) (auto simp: takenFrom_def)

lemma movedBy_none: "i \<notin> ta_transferId ` set allocs \<Longrightarrow> movedBy i allocs = 0"
  by (induction allocs) (auto simp: movedBy_def)

section \<open>Taking from lots\<close>

definition drawnFrom :: "int \<Rightarrow> FinancialAllocation list \<Rightarrow> int" where
  "drawnFrom lotId as = (\<Sum>a\<leftarrow>filter (\<lambda>a. fa_lotId a = lotId) as. fa_amount a)"

definition lessLot :: "int \<Rightarrow> lot_row \<Rightarrow> lot_row" where
  "lessLot n l = l\<lparr>l_remainingAmount := l_remainingAmount l - n\<rparr>"

lemma lessLot_simps [simp]:
  "l_id (lessLot n l) = l_id l" "l_originalAmount (lessLot n l) = l_originalAmount l"
  "l_remainingAmount (lessLot n l) = l_remainingAmount l - n" "lessLot 0 l = l"
  "l_accountId (lessLot n l) = l_accountId l" "l_currency (lessLot n l) = l_currency l"
  "lessLot n (lessLot m l) = lessLot (m + n) l"
  by (simp_all add: lessLot_def)

text \<open>A plan that may be executed: it takes something, at most the remainder it assumed.\<close>

definition takes_ok :: "FinancialAllocation list \<Rightarrow> bool" where
  "takes_ok as \<longleftrightarrow> (\<forall>a \<in> set as. 0 < fa_amount a \<and> fa_amount a \<le> fa_assumedRemainingAmount a)"

lemma takeFromLot_effect:
  assumes ok: "takeFromLot p a s = Inr (u, s')" and d: "distinct (map l_id (financialLots s))"
    and nn: "\<forall>l \<in> set (financialLots s). 0 \<le> l_remainingAmount l" and a: "takes_ok [a]"
  shows "financialLots s' = map (\<lambda>l. if l_id l = fa_lotId a then lessLot (fa_amount a) l else l) (financialLots s)"
    "s' = s\<lparr>financialLots := financialLots s'\<rparr>"
    "\<exists>l \<in> set (financialLots s). l_id l = fa_lotId a \<and> p l"
    "\<forall>l \<in> set (financialLots s'). 0 \<le> l_remainingAmount l"
proof -
  let ?q = "\<lambda>l. l_id l = fa_lotId a \<and> p l \<and> l_remainingAmount l = fa_assumedRemainingAmount a"
  from ok have one: "countWhere ?q (financialLots s) = 1"
    and s': "s' = putLots (updateWhere ?q (lessLot (fa_amount a)) (financialLots s)) s"
    by (auto simp: takeFromLot_def tx_simps lessLot_def [abs_def])
  from one obtain r where r: "r \<in> set (financialLots s)" "?q r" by (rule countWhere_oneE)
  have eq: "?q l \<longleftrightarrow> l_id l = fa_lotId a" if "l \<in> set (financialLots s)" for l
  proof
    assume "l_id l = fa_lotId a"
    with r(2) have "l_id l = l_id r" by simp
    with r(1) that d have "l = r" by (metis distinct_key_unique)
    with r(2) show "?q l" by simp
  qed simp
  show lots: "financialLots s' = map (\<lambda>l. if l_id l = fa_lotId a then lessLot (fa_amount a) l else l) (financialLots s)"
    unfolding s' putLots_def updateWhere_def by (simp add: eq)
  show "s' = s\<lparr>financialLots := financialLots s'\<rparr>" by (simp add: s' putLots_def)
  show "\<exists>l \<in> set (financialLots s). l_id l = fa_lotId a \<and> p l" using r by blast
  show "\<forall>l \<in> set (financialLots s'). 0 \<le> l_remainingAmount l"
  proof
    fix l assume "l \<in> set (financialLots s')"
    then obtain m where m: "m \<in> set (financialLots s)" "l = (if l_id m = fa_lotId a then lessLot (fa_amount a) m else m)"
      by (auto simp: lots)
    show "0 \<le> l_remainingAmount l"
      using m nn eq [OF m(1)] a by (auto simp: takes_ok_def)
  qed
qed

lemma takeLots_effect:
  assumes "forEachT (takeFromLot p) as s = Inr (u, s')" and "distinct (map l_id (financialLots s))"
    and "\<forall>l \<in> set (financialLots s). 0 \<le> l_remainingAmount l" and "takes_ok as"
    and keep: "\<And>n l. p (lessLot n l) = p l"
  shows "financialLots s' = map (\<lambda>l. lessLot (drawnFrom (l_id l) as) l) (financialLots s) \<and>
    s' = s\<lparr>financialLots := financialLots s'\<rparr> \<and>
    (\<forall>a \<in> set as. \<exists>l \<in> set (financialLots s). l_id l = fa_lotId a \<and> p l) \<and>
    (\<forall>l \<in> set (financialLots s'). 0 \<le> l_remainingAmount l)"
  using assms(1-4)
proof (induction as arbitrary: s u)
  case Nil
  then show ?case by (simp add: tx_simps drawnFrom_def)
next
  case (Cons a as)
  from Cons.prems(1) obtain v s1 where s1: "takeFromLot p a s = Inr (v, s1)"
    and rest: "forEachT (takeFromLot p) as s1 = Inr (u, s')"
    by (auto simp: tx_simps)
  have a: "takes_ok [a]" "takes_ok as" using Cons.prems(4) by (auto simp: takes_ok_def)
  note e = takeFromLot_effect [OF s1 Cons.prems(2,3) a(1)]
  have "map l_id (financialLots s1) = map l_id (financialLots s)" unfolding e(1) by simp
  with Cons.prems(2) have d1: "distinct (map l_id (financialLots s1))" by simp
  from Cons.IH [OF rest d1 e(4) a(2)] have ih:
    "financialLots s' = map (\<lambda>l. lessLot (drawnFrom (l_id l) as) l) (financialLots s1)"
    "s' = s1\<lparr>financialLots := financialLots s'\<rparr>"
    "\<forall>a \<in> set as. \<exists>l \<in> set (financialLots s1). l_id l = fa_lotId a \<and> p l"
    "\<forall>l \<in> set (financialLots s'). 0 \<le> l_remainingAmount l"
    by blast+
  have "financialLots s' = map (\<lambda>l. lessLot (drawnFrom (l_id l) (a # as)) l) (financialLots s)"
    unfolding ih(1) e(1) by (auto simp: drawnFrom_def)
  moreover have "s' = s\<lparr>financialLots := financialLots s'\<rparr>"
    by (subst ih(2), subst e(2)) simp
  moreover have "\<exists>l \<in> set (financialLots s). l_id l = fa_lotId b \<and> p l" if "b \<in> set as" for b
  proof -
    from ih(3) that obtain l where "l \<in> set (financialLots s1)" "l_id l = fa_lotId b" "p l" by blast
    then show ?thesis unfolding e(1) by (auto simp: keep split: if_splits)
  qed
  ultimately show ?case using e(3) ih(4) by auto
qed

section \<open>Booking a transfer\<close>

definition allocRow :: "int \<Rightarrow> int \<Rightarrow> string \<Rightarrow> FinancialAllocation \<Rightarrow> alloc_row" where
  "allocRow transferId fromAccountId currency a = \<lparr>ta_transferId = transferId,
     ta_fromAccountId = fromAccountId, ta_currency = currency, ta_lotId = fa_lotId a, ta_amount = fa_amount a\<rparr>"

lemma takenFrom_allocRow: "takenFrom i (map (allocRow t f c) as) = drawnFrom i as"
  by (induction as) (auto simp: takenFrom_def drawnFrom_def allocRow_def)

lemma movedBy_allocRow: "movedBy t (map (allocRow t f c) as) = (\<Sum>a\<leftarrow>as. fa_amount a)"
  by (induction as) (auto simp: movedBy_def allocRow_def)

lemma movedBy_allocRow_other: "i \<noteq> t \<Longrightarrow> movedBy i (map (allocRow t f c) as) = 0"
  by (rule movedBy_none) (auto simp: allocRow_def)

lemma books_reserve:
  assumes ok: "books_ok lots transfers allocs" and as: "takes_ok as"
    and lots': "lots' = map (\<lambda>l. lessLot (drawnFrom (l_id l) as) l) lots"
    and nn: "\<forall>l \<in> set lots'. 0 \<le> l_remainingAmount l"
    and ids: "\<forall>a \<in> set as. fa_lotId a \<in> l_id ` set lots"
    and t: "t_id t \<notin> t_id ` set transfers" "t_amount t = (\<Sum>a\<leftarrow>as. fa_amount a)"
  shows "books_ok lots' (transfers @ [t]) (allocs @ map (allocRow (t_id t) f c) as)"
proof -
  have same: "map l_id lots' = map l_id lots" by (simp add: lots')
  then have ids': "l_id ` set lots' = l_id ` set lots" by (metis list.set_map)
  have lot: "lot_ok (allocs @ map (allocRow (t_id t) f c) as) l" if "l \<in> set lots'" for l
    using that nn ok unfolding lots' by (auto simp: lot_ok_def books_ok_def takenFrom_allocRow)
  have old: "t_amount u = movedBy (t_id u) (allocs @ map (allocRow (t_id t) f c) as)"
    if "u \<in> set transfers" for u
  proof -
    have "t_id u \<noteq> t_id t" using that t(1) by (metis imageI)
    with that ok show ?thesis by (simp add: books_ok_def movedBy_allocRow_other)
  qed
  have "t_id t \<notin> ta_transferId ` set allocs" using ok t(1) by (auto simp: books_ok_def)
  then have new: "t_amount t = movedBy (t_id t) (allocs @ map (allocRow (t_id t) f c) as)"
    using t(2) by (simp add: movedBy_none movedBy_allocRow)
  show ?thesis
    unfolding books_ok_def
  proof (intro conjI)
    show "distinct (map l_id lots')" using ok by (simp add: same books_ok_def)
    show "distinct (map t_id (transfers @ [t]))" using ok t(1) by (simp add: books_ok_def)
    show "\<forall>l \<in> set lots'. lot_ok (allocs @ map (allocRow (t_id t) f c) as) l" using lot by blast
    show "\<forall>u \<in> set (transfers @ [t]). t_amount u = movedBy (t_id u) (allocs @ map (allocRow (t_id t) f c) as)"
      using old new by auto
    show "\<forall>a \<in> set (allocs @ map (allocRow (t_id t) f c) as). 0 < ta_amount a \<and>
        ta_lotId a \<in> l_id ` set lots' \<and> ta_transferId a \<in> t_id ` set (transfers @ [t])"
      using ok ids as by (auto simp: ids' books_ok_def allocRow_def takes_ok_def)
  qed
qed

lemma books_issue:
  assumes ok: "books_ok lots transfers allocs" and l: "l_id l \<notin> l_id ` set lots"
    "0 \<le> l_originalAmount l" "l_remainingAmount l = l_originalAmount l"
  shows "books_ok (lots @ [l]) transfers allocs"
proof -
  have "l_id l \<notin> ta_lotId ` set allocs" using ok l(1) by (auto simp: books_ok_def)
  then have "lot_ok allocs l" using l by (simp add: lot_ok_def takenFrom_none)
  with ok l(1) show ?thesis by (auto simp: books_ok_def)
qed

section \<open>The executors\<close>

text \<open>What a successful reservation writes.\<close>

definition reservationOf :: "reservation_request \<Rightarrow> int \<Rightarrow> reservation_row" where
  "reservationOf req i = \<lparr>r_id = i, r_flowId = rr_flowId req,
     r_bindingNamespace = rr_bindingNamespace req, r_bindingKey = rr_bindingKey req,
     r_holderId = rr_holderId req, r_purpose = rr_purpose req, r_currency = rr_currency req,
     r_targetAmount = rr_amount req, r_state = ''HELD''\<rparr>"

definition escrowOf :: "string \<Rightarrow> string \<Rightarrow> int \<Rightarrow> int \<Rightarrow> account_row" where
  "escrowOf c p r i = \<lparr>a_id = i, a_currency = c, a_purpose = p, a_holderId = None, a_reservationId = Some r\<rparr>"

definition transferRowOf :: "int \<Rightarrow> string \<Rightarrow> string \<Rightarrow> int \<Rightarrow> int \<Rightarrow> int \<Rightarrow> string \<Rightarrow> int \<Rightarrow> transfer_row" where
  "transferRowOf r f c from to n act i = \<lparr>t_id = i, t_reservationId = r, t_flowId = f, t_currency = c,
     t_fromAccountId = from, t_toAccountId = to, t_amount = n, t_actionId = act\<rparr>"

lemmas booking_defs = reservationOf_def escrowOf_def transferRowOf_def

lemma reservationOf_simps [simp]:
  "r_id (reservationOf req i) = i" "r_state (reservationOf req i) = ''HELD''"
  "r_targetAmount (reservationOf req i) = rr_amount req" "r_flowId (reservationOf req i) = rr_flowId req"
  by (simp_all add: reservationOf_def)

lemma insertReservation_eq_Inr [tx_simps]:
  "insertReservation eng req s = Inr z \<longleftrightarrow>
     z = (reservationOf req (e_nextId eng ''FinancialReservation'' s),
          s\<lparr>financialReservations := financialReservations s @
            [reservationOf req (e_nextId eng ''FinancialReservation'' s)]\<rparr>)"
  by (auto simp: insertReservation_def reservationOf_def Let_def)

lemma insertAccount_eq_Inr [tx_simps]:
  "insertAccount eng c p r s = Inr z \<longleftrightarrow>
     z = (escrowOf c p r (e_nextId eng ''FinancialAccount'' s),
          s\<lparr>financialAccounts := financialAccounts s @ [escrowOf c p r (e_nextId eng ''FinancialAccount'' s)]\<rparr>)"
  by (auto simp: insertAccount_def escrowOf_def Let_def)

lemma insertTransfer_eq_Inr [tx_simps]:
  "insertTransfer eng r f c from to n act s = Inr z \<longleftrightarrow>
     z = (transferRowOf r f c from to n act (e_nextId eng ''FinancialTransfer'' s),
          s\<lparr>financialTransfers := financialTransfers s @
            [transferRowOf r f c from to n act (e_nextId eng ''FinancialTransfer'' s)]\<rparr>)"
  by (auto simp: insertTransfer_def transferRowOf_def Let_def)

lemma insertAllocations_eq_Inr [tx_simps]:
  "insertAllocations t acct c as s = Inr z \<longleftrightarrow> z = ((), s\<lparr>financialTransferAllocations :=
      financialTransferAllocations s @ map (allocRow t acct c) as\<rparr>)"
  by (auto simp: insertAllocations_def allocRow_def [abs_def])

text \<open>
  The two reservation executors end in one shape: the lots are taken from, then the
  reservation, its escrow account, the transfer and its allocations are written.
\<close>

lemma reservation_effect:
  assumes ok: "bindT (forEachT (takeFromLot p) as) (\<lambda>_.
      bindT (insertReservation eng req) (\<lambda>reservation.
      bindT (insertAccount eng escrowCurrency purpose (r_id reservation)) (\<lambda>escrow.
      bindT (insertTransfer eng (r_id reservation) flowId currency acct (a_id escrow) amount actionId) (\<lambda>transfer.
      bindT (insertAllocations (t_id transfer) acct currency as) (\<lambda>_.
      returnT reservation))))) s = Inr (r, s')"
    and fin: "fin_ok s" and as: "takes_ok as" "(\<Sum>a\<leftarrow>as. fa_amount a) = amount"
    and fresh: "engine_fresh eng" and keep: "\<And>n l. p (lessLot n l) = p l"
  shows "fin_ok s' \<and>
    (\<forall>a \<in> set as. \<exists>l \<in> set (financialLots s). l_id l = fa_lotId a \<and> p l) \<and>
    (\<exists>ri ei ti. r = reservationOf req ri \<and> ri \<notin> r_id ` set (financialReservations s) \<and>
       ei \<notin> a_id ` set (financialAccounts s) \<and>
       s' = s\<lparr>financialLots := map (\<lambda>l. lessLot (drawnFrom (l_id l) as) l) (financialLots s),
         financialReservations := financialReservations s @ [r],
         financialAccounts := financialAccounts s @ [escrowOf escrowCurrency purpose ri ei],
         financialTransfers := financialTransfers s @
           [transferRowOf ri flowId currency acct ei amount actionId ti],
         financialTransferAllocations := financialTransferAllocations s @ map (allocRow ti acct currency) as\<rparr>)"
proof -
  from ok obtain s1 where take: "forEachT (takeFromLot p) as s = Inr ((), s1)"
    and tail: "bindT (insertReservation eng req) (\<lambda>reservation.
      bindT (insertAccount eng escrowCurrency purpose (r_id reservation)) (\<lambda>escrow.
      bindT (insertTransfer eng (r_id reservation) flowId currency acct (a_id escrow) amount actionId) (\<lambda>transfer.
      bindT (insertAllocations (t_id transfer) acct currency as) (\<lambda>_.
      returnT reservation)))) s1 = Inr (r, s')"
    by (auto simp: bindT_eq_Inr)
  have d: "distinct (map l_id (financialLots s))" "\<forall>l \<in> set (financialLots s). 0 \<le> l_remainingAmount l"
    using fin by (auto simp: fin_ok_def books_ok_def lot_ok_def)
  note e = takeLots_effect [OF take d as(1) keep]
  then have lots: "financialLots s1 = map (\<lambda>l. lessLot (drawnFrom (l_id l) as) l) (financialLots s)" and
    s1': "s1 = s\<lparr>financialLots := financialLots s1\<rparr>" and
    own: "\<forall>a \<in> set as. \<exists>l \<in> set (financialLots s). l_id l = fa_lotId a \<and> p l" and
    nn: "\<forall>l \<in> set (financialLots s1). 0 \<le> l_remainingAmount l" by blast+
  define lots1 where "lots1 = map (\<lambda>l. lessLot (drawnFrom (l_id l) as) l) (financialLots s)"
  have s1: "s1 = s\<lparr>financialLots := lots1\<rparr>" using s1' lots by (simp add: lots1_def)
  define ri where "ri = e_nextId eng ''FinancialReservation'' s1"
  define s2 where "s2 = s1\<lparr>financialReservations := financialReservations s1 @ [reservationOf req ri]\<rparr>"
  define ei where "ei = e_nextId eng ''FinancialAccount'' s2"
  define s3 where "s3 = s2\<lparr>financialAccounts := financialAccounts s2 @ [escrowOf escrowCurrency purpose ri ei]\<rparr>"
  define ti where "ti = e_nextId eng ''FinancialTransfer'' s3"
  have ids: "r_id (reservationOf req i) = i" "a_id (escrowOf a b c i) = i"
    "t_id (transferRowOf g h j k l m n i) = i" for a b c g h i j k l m n
    by (simp_all add: booking_defs)
  have same: "financialTransfers s3 = financialTransfers s2"
    "financialTransferAllocations s3 = financialTransferAllocations s2"
    by (simp_all add: s3_def)
  from tail have r: "r = reservationOf req ri"
    and s': "s' = s3\<lparr>financialTransfers := financialTransfers s3 @
           [transferRowOf ri flowId currency acct ei amount actionId ti],
         financialTransferAllocations := financialTransferAllocations s3 @ map (allocRow ti acct currency) as\<rparr>"
    by (auto simp: tx_simps ids ri_def [symmetric] s2_def [symmetric] ei_def [symmetric] s3_def [symmetric]
        ti_def [symmetric] same)
  have fr: "ri \<notin> r_id ` set (financialReservations s1)" "ei \<notin> a_id ` set (financialAccounts s2)"
    "ti \<notin> t_id ` set (financialTransfers s3)"
    unfolding ri_def ei_def ti_def using fresh by (auto simp only: engine_fresh_def)
  note frs = fr [unfolded s3_def s2_def s1, simplified]
  have "books_ok lots1 (financialTransfers s @ [transferRowOf ri flowId currency acct ei amount actionId ti])
      (financialTransferAllocations s @ map (allocRow (t_id (transferRowOf ri flowId currency acct ei amount actionId ti))
        acct currency) as)"
  proof (rule books_reserve)
    show "books_ok (financialLots s) (financialTransfers s) (financialTransferAllocations s)"
      using fin by (simp add: fin_ok_def)
    show "takes_ok as" by (rule as(1))
    show "lots1 = map (\<lambda>l. lessLot (drawnFrom (l_id l) as) l) (financialLots s)" by (rule lots1_def)
    show "\<forall>l \<in> set lots1. 0 \<le> l_remainingAmount l" using nn lots by (simp add: lots1_def)
    show "\<forall>a \<in> set as. fa_lotId a \<in> l_id ` set (financialLots s)" using own by force
    show "t_id (transferRowOf ri flowId currency acct ei amount actionId ti) \<notin> t_id ` set (financialTransfers s)"
      using frs(3) by (simp add: ids)
    show "t_amount (transferRowOf ri flowId currency acct ei amount actionId ti) = (\<Sum>a\<leftarrow>as. fa_amount a)"
      by (simp add: as(2) transferRowOf_def)
  qed
  then have "fin_ok s'" by (simp add: fin_ok_def s' s3_def s2_def s1 ids)
  moreover have "s' = s\<lparr>financialLots := map (\<lambda>l. lessLot (drawnFrom (l_id l) as) l) (financialLots s),
         financialReservations := financialReservations s @ [r],
         financialAccounts := financialAccounts s @ [escrowOf escrowCurrency purpose ri ei],
         financialTransfers := financialTransfers s @
           [transferRowOf ri flowId currency acct ei amount actionId ti],
         financialTransferAllocations := financialTransferAllocations s @ map (allocRow ti acct currency) as\<rparr>"
    by (simp add: s' s3_def s2_def s1 r lots1_def)
  ultimately show ?thesis using own r frs(1,2) by blast
qed

lemma commissionReservation_effect:
  assumes "applyCommissionPaymentReservation eng req acct as actionId s = Inr (r, s')"
    "fin_ok s" "takes_ok as" "(\<Sum>a\<leftarrow>as. fa_amount a) = rr_amount req" "engine_fresh eng"
  shows "fin_ok s' \<and>
    (\<forall>a \<in> set as. \<exists>l \<in> set (financialLots s). l_id l = fa_lotId a \<and> l_accountId l = acct) \<and>
    (\<exists>ri ei ti. r = reservationOf req ri \<and> ri \<notin> r_id ` set (financialReservations s) \<and>
       ei \<notin> a_id ` set (financialAccounts s) \<and>
       s' = s\<lparr>financialLots := map (\<lambda>l. lessLot (drawnFrom (l_id l) as) l) (financialLots s),
         financialReservations := financialReservations s @ [r],
         financialAccounts := financialAccounts s @ [escrowOf (rr_currency req) ''ESCROW'' ri ei],
         financialTransfers := financialTransfers s @
           [transferRowOf ri (rr_flowId req) (rr_currency req) acct ei (rr_amount req) actionId ti],
         financialTransferAllocations := financialTransferAllocations s @
           map (allocRow ti acct (rr_currency req)) as\<rparr>)"
  by (rule reservation_effect [OF assms(1) [unfolded applyCommissionPaymentReservation_def] assms(2-5)]) simp

lemma withdrawalReservation_effect:
  assumes "applyIncomeWithdrawalReservation eng flowId req key actionId s = Inr (r, s')"
    "fin_ok s" "takes_ok (wr_allocations req)"
    "(\<Sum>a\<leftarrow>wr_allocations req. fa_amount a) = wr_transferAmount req" "engine_fresh eng"
  shows "fin_ok s' \<and>
    (\<forall>a \<in> set (wr_allocations req). \<exists>l \<in> set (financialLots s). l_id l = fa_lotId a \<and>
       l_accountId l = wr_fromAccountId req \<and> l_currency l = wr_transferCurrency req) \<and>
    (\<exists>ri ei ti. r = reservationOf \<lparr>rr_flowId = flowId, rr_bindingNamespace = wr_bindingNamespace req,
         rr_bindingKey = key, rr_holderId = wr_holderId req, rr_purpose = wr_purpose req,
         rr_currency = wr_currency req, rr_amount = wr_amount req\<rparr> ri \<and>
       ri \<notin> r_id ` set (financialReservations s) \<and> ei \<notin> a_id ` set (financialAccounts s) \<and>
       s' = s\<lparr>financialLots := map (\<lambda>l. lessLot (drawnFrom (l_id l) (wr_allocations req)) l) (financialLots s),
         financialReservations := financialReservations s @ [r],
         financialAccounts := financialAccounts s @ [escrowOf (wr_escrowCurrency req) (wr_escrowPurpose req) ri ei],
         financialTransfers := financialTransfers s @ [transferRowOf ri flowId (wr_transferCurrency req)
           (wr_fromAccountId req) ei (wr_transferAmount req) actionId ti],
         financialTransferAllocations := financialTransferAllocations s @
           map (allocRow ti (wr_fromAccountId req) (wr_transferCurrency req)) (wr_allocations req)\<rparr>)"
  by (rule reservation_effect [OF assms(1) [unfolded applyIncomeWithdrawalReservation_def] assms(2-5)]) simp

section \<open>The funds of an account\<close>

definition accountFunds :: "int \<Rightarrow> db \<Rightarrow> int" where
  "accountFunds accountId s =
     (\<Sum>l\<leftarrow>filter (\<lambda>l. l_accountId l = accountId) (financialLots s). l_remainingAmount l)"

lemma sum_drawn:
  fixes lots :: "lot_row list"
  assumes d: "distinct (map l_id lots)"
    and own: "\<forall>a \<in> set as. \<exists>l \<in> set lots. l_id l = fa_lotId a \<and> q l"
  shows "(\<Sum>l\<leftarrow>filter q lots. drawnFrom (l_id l) as) = (\<Sum>a\<leftarrow>as. fa_amount a)"
  using own
proof (induction as)
  case Nil
  then show ?case by (simp add: drawnFrom_def)
next
  case (Cons a as)
  from Cons.prems obtain l where l: "l \<in> set lots" "l_id l = fa_lotId a" "q l" by auto
  have "drawnFrom i (a # as) = (if fa_lotId a = i then fa_amount a else 0) + drawnFrom i as" for i
    by (simp add: drawnFrom_def)
  then have split: "(\<Sum>l\<leftarrow>filter q lots. drawnFrom (l_id l) (a # as)) =
      (\<Sum>l\<leftarrow>filter q lots. if fa_lotId a = l_id l then fa_amount a else 0) + (\<Sum>l\<leftarrow>filter q lots. drawnFrom (l_id l) as)"
    by (simp add: sum_list_addf)
  have "filter (\<lambda>m. q m \<and> l_id m = l_id l) lots = [l]"
    by (rule filter_one [where k = l_id]) (use d l in auto)
  then have "filter (\<lambda>m. l_id m = fa_lotId a) (filter q lots) = [l]" by (simp add: l(2) conj_commute)
  then have "(\<Sum>l\<leftarrow>filter q lots. if l_id l = fa_lotId a then fa_amount a else 0) = fa_amount a"
    by (simp add: sum_list_map_filter' [symmetric])
  then have "(\<Sum>l\<leftarrow>filter q lots. if fa_lotId a = l_id l then fa_amount a else 0) = fa_amount a"
    by (simp add: eq_commute)
  with split Cons show ?case by simp
qed

lemma drawnFrom_none: "i \<notin> fa_lotId ` set as \<Longrightarrow> drawnFrom i as = 0"
  by (induction as) (auto simp: drawnFrom_def)

lemma accountFunds_issued:
  "financialLots s' = financialLots s @ [l] \<Longrightarrow>
     accountFunds i s' = accountFunds i s + (if i = l_accountId l then l_remainingAmount l else 0)"
  by (simp add: accountFunds_def)

text \<open>The lots of one kind (of an account, of a currency) lose together what was drawn from them.\<close>

lemma kind_drawn:
  assumes d: "distinct (map l_id lots)"
    and own: "\<forall>a \<in> set as. \<exists>l \<in> set lots. l_id l = fa_lotId a \<and> k l = kind"
    and keep: "\<And>n l. k (lessLot n l) = k l"
  shows "(\<Sum>l\<leftarrow>filter (\<lambda>l. k l = i) (map (\<lambda>l. lessLot (drawnFrom (l_id l) as) l) lots). l_remainingAmount l) =
    (\<Sum>l\<leftarrow>filter (\<lambda>l. k l = i) lots. l_remainingAmount l) - (if i = kind then \<Sum>a\<leftarrow>as. fa_amount a else 0)"
proof -
  have "(\<Sum>l\<leftarrow>filter (\<lambda>l. k l = i) (map (\<lambda>l. lessLot (drawnFrom (l_id l) as) l) lots). l_remainingAmount l) =
      (\<Sum>l\<leftarrow>filter (\<lambda>l. k l = i) lots. l_remainingAmount l - drawnFrom (l_id l) as)"
    by (simp add: filter_map comp_def keep)
  also have "\<dots> = (\<Sum>l\<leftarrow>filter (\<lambda>l. k l = i) lots. l_remainingAmount l) -
      (\<Sum>l\<leftarrow>filter (\<lambda>l. k l = i) lots. drawnFrom (l_id l) as)"
    by (simp add: sum_list_subtractf)
  also have "(\<Sum>l\<leftarrow>filter (\<lambda>l. k l = i) lots. drawnFrom (l_id l) as) = (if i = kind then \<Sum>a\<leftarrow>as. fa_amount a else 0)"
  proof (cases "i = kind")
    case True
    then show ?thesis by (simp add: sum_drawn [OF d own])
  next
    case False
    have "drawnFrom (l_id l) as = 0" if "l \<in> set lots" "k l = i" for l
    proof (rule drawnFrom_none)
      show "l_id l \<notin> fa_lotId ` set as" using own that False distinct_key_unique [OF d] by fastforce
    qed
    then have "map (\<lambda>l. drawnFrom (l_id l) as) (filter (\<lambda>l. k l = i) lots) = map (\<lambda>l. 0) (filter (\<lambda>l. k l = i) lots)"
      by (intro map_cong) auto
    then show ?thesis using False by (simp only: sum_list_0) simp
  qed
  finally show ?thesis .
qed

lemma accountFunds_drawn:
  assumes "distinct (map l_id (financialLots s))"
    and "\<forall>a \<in> set as. \<exists>l \<in> set (financialLots s). l_id l = fa_lotId a \<and> l_accountId l = acct"
    and "financialLots s' = map (\<lambda>l. lessLot (drawnFrom (l_id l) as) l) (financialLots s)"
  shows "accountFunds i s' = accountFunds i s - (if i = acct then \<Sum>a\<leftarrow>as. fa_amount a else 0)"
  unfolding accountFunds_def assms(3) by (rule kind_drawn [OF assms(1,2)]) simp

end
