(* ===== verification/CommerceRepos.thy ===== *)
theory CommerceRepos
  imports LedgerInvariant
begin

text \<open>
  The product side of a commission: orders and their payments (\<open>order.core.ts\<close>,
  \<open>order.repo.ts\<close>), slots (\<open>slot.repo.ts\<close>), contracts (\<open>contract.repo.ts\<close>) and commission
  types (\<open>commission-type.repo.ts\<close>): the reads the use cases decide on, and the guarded
  writes that carry a decision out.
\<close>

section \<open>Orders\<close>

definition OrderPaymentNotFoundError :: "int \<Rightarrow> thrown" where
  "OrderPaymentNotFoundError i = DomainError ''OrderPaymentNotFoundError''
     (''Order payment '' @ showInt i @ '' does not exist'') ''ORDER_PAYMENT_NOT_FOUND''"

definition orderOfPayment :: "payment_row \<Rightarrow> db \<Rightarrow> thrown + order_row" where
  "orderOfPayment p s =
     relation (findRow (\<lambda>r. o_id r = pay_orderId p \<and> o_flowId r = pay_flowId p) (orders s))"

definition findCommissionCheckoutLockTargets :: "int \<Rightarrow> db \<Rightarrow> thrown + (int \<times> int)" where
  "findCommissionCheckoutLockTargets orderPaymentId s =
     (case findRow (\<lambda>p. pay_id p = orderPaymentId) (orderPayments s) of
        None \<Rightarrow> Inl (OrderPaymentNotFoundError orderPaymentId)
      | Some p \<Rightarrow> rbind (orderOfPayment p s) (\<lambda>r. Inr (o_buyerId r, o_slotId r)))"

record payment_facts =
  pf_id :: int
  pf_flowId :: string
  pf_amount :: int
  pf_currency :: string
  pf_state :: string

definition paymentFacts :: "payment_row \<Rightarrow> payment_facts" where
  "paymentFacts p = \<lparr>pf_id = pay_id p, pf_flowId = pay_flowId p, pf_amount = pay_amount p,
     pf_currency = pay_currency p, pf_state = pay_state p\<rparr>"

definition loadCommissionCheckoutPaymentSnapshot :: "int \<Rightarrow> db \<Rightarrow> thrown + (order_row \<times> payment_facts)" where
  "loadCommissionCheckoutPaymentSnapshot orderPaymentId s =
     (case findRow (\<lambda>p. pay_id p = orderPaymentId) (orderPayments s) of
        None \<Rightarrow> Inl (OrderPaymentNotFoundError orderPaymentId)
      | Some p \<Rightarrow> rbind (orderOfPayment p s) (\<lambda>r. Inr (r, paymentFacts p)))"

definition PaidOrderNotFound :: "int \<Rightarrow> thrown" where
  "PaidOrderNotFound orderId = DomainError ''DomainError''
     (''Paid commission Order '' @ showInt orderId @ '' does not exist'') ''PAID_ORDER_NOT_FOUND''"

definition linkOf :: "payment_row \<Rightarrow> db \<Rightarrow> link_row option" where
  "linkOf p s = findRow (\<lambda>x. ln_orderPaymentId x = pay_id p \<and> ln_flowId x = pay_flowId p) (orderFinancialLinks s)"

text \<open>The order, its first paid payment, and the reservation that funds it with its flow.\<close>

definition loadCommissionSettlementOrderSnapshot ::
  "int \<Rightarrow> db \<Rightarrow> thrown + (order_row \<times> payment_facts \<times> link_row)" where
  "loadCommissionSettlementOrderSnapshot orderId s =
     (case findRow (\<lambda>r. o_id r = orderId) (orders s) of
        None \<Rightarrow> Inl (PaidOrderNotFound orderId)
      | Some r \<Rightarrow>
        (case sort_key pay_id (filter (\<lambda>p. pay_orderId p = o_id r \<and> pay_flowId p = o_flowId r \<and>
                pay_state p = ''PAID'') (orderPayments s)) of
           [] \<Rightarrow> Inl (PaidOrderNotFound orderId)
         | p # ps \<Rightarrow>
           (case linkOf p s of
              None \<Rightarrow> Inl (PaidOrderNotFound orderId)
            | Some link \<Rightarrow> Inr (r, paymentFacts p, link))))"

definition putPayments :: "payment_row list \<Rightarrow> db \<Rightarrow> db" where
  "putPayments rows s = s\<lparr>orderPayments := rows\<rparr>"

definition putOrders :: "order_row list \<Rightarrow> db \<Rightarrow> db" where
  "putOrders rows s = s\<lparr>orders := rows\<rparr>"

definition insertLink :: "link_row \<Rightarrow> unit dbtx" where
  "insertLink row = (\<lambda>s. Inr ((), s\<lparr>orderFinancialLinks := orderFinancialLinks s @ [row]\<rparr>))"

definition applyCommissionCheckoutPayment :: "int \<Rightarrow> int \<Rightarrow> string \<Rightarrow> int \<Rightarrow> unit dbtx" where
  "applyCommissionCheckoutPayment orderId orderPaymentId flowId reservationId =
     bindT (guardedUpdate orderPayments putPayments
         (\<lambda>p. pay_id p = orderPaymentId \<and> pay_orderId p = orderId \<and> pay_state p = ''PENDING'')
         (\<lambda>p. p\<lparr>pay_state := ''PAID''\<rparr>)
         (ConcurrentUpdateError (''OrderPayment '' @ showInt orderPaymentId))) (\<lambda>_.
     bindT (guardedUpdate orders putOrders
         (\<lambda>r. o_id r = orderId \<and> o_state r = ''REQUESTED'') (\<lambda>r. r\<lparr>o_state := ''PAID''\<rparr>)
         (ConcurrentUpdateError (''Order '' @ showInt orderId))) (\<lambda>_.
     insertLink \<lparr>ln_orderPaymentId = orderPaymentId, ln_flowId = flowId, ln_reservationId = reservationId\<rparr>))"

section \<open>Slots\<close>

definition CommissionSlotNotFoundError :: "int \<Rightarrow> thrown" where
  "CommissionSlotNotFoundError i = DomainError ''CommissionSlotNotFoundError''
     (''Commission slot '' @ showInt i @ '' does not exist'') ''COMMISSION_SLOT_NOT_FOUND''"

definition loadCommissionCheckoutSlot :: "int \<Rightarrow> db \<Rightarrow> thrown + slot_row" where
  "loadCommissionCheckoutSlot i s = (case findRow (\<lambda>x. sl_id x = i) (commissionSlots s) of
      None \<Rightarrow> Inl (CommissionSlotNotFoundError i) | Some x \<Rightarrow> Inr x)"

definition putSlots :: "slot_row list \<Rightarrow> db \<Rightarrow> db" where
  "putSlots rows s = s\<lparr>commissionSlots := rows\<rparr>"

definition applyCommissionCheckoutSlotOccupation :: "int \<Rightarrow> int \<Rightarrow> unit dbtx" where
  "applyCommissionCheckoutSlotOccupation slotId workerId = guardedUpdate commissionSlots putSlots
     (\<lambda>x. sl_id x = slotId \<and> sl_workerId x = workerId \<and> sl_state x = ''AVAILABLE'')
     (\<lambda>x. x\<lparr>sl_state := ''OCCUPIED''\<rparr>)
     (ConcurrentUpdateError (''CommissionSlot '' @ showInt slotId))"

section \<open>Contracts\<close>

definition CommissionContractNotFoundError :: "int \<Rightarrow> thrown" where
  "CommissionContractNotFoundError i = DomainError ''CommissionContractNotFoundError''
     (''Commission Contract '' @ showInt i @ '' does not exist'') ''COMMISSION_CONTRACT_NOT_FOUND''"

definition loadCommissionSettlementContract :: "int \<Rightarrow> db \<Rightarrow> thrown + contract_row" where
  "loadCommissionSettlementContract i s = (case findRow (\<lambda>k. k_id k = i) (contracts s) of
      None \<Rightarrow> Inl (CommissionContractNotFoundError i) | Some k \<Rightarrow> Inr k)"

record contract_formation =
  fo_orderId :: int
  fo_flowId :: string
  fo_buyerId :: int
  fo_workerId :: int

definition contractOf :: "contract_formation \<Rightarrow> int \<Rightarrow> contract_row" where
  "contractOf f i = \<lparr>k_id = i, k_orderId = fo_orderId f, k_flowId = fo_flowId f,
     k_buyerId = fo_buyerId f, k_workerId = fo_workerId f\<rparr>"

definition applyCommissionCheckoutContractFormation :: "engine \<Rightarrow> contract_formation \<Rightarrow> int dbtx" where
  "applyCommissionCheckoutContractFormation eng formation = (\<lambda>s.
     let row = contractOf formation (e_nextId eng ''Contract'' s)
     in Inr (k_id row, s\<lparr>contracts := contracts s @ [row]\<rparr>))"

section \<open>Commission types\<close>

definition CommissionTypeNotFoundError :: "int \<Rightarrow> thrown" where
  "CommissionTypeNotFoundError i = DomainError ''CommissionTypeNotFoundError''
     (''Commission type '' @ showInt i @ '' does not exist'') ''COMMISSION_TYPE_NOT_FOUND''"

definition loadCommissionCheckoutTerms :: "int \<Rightarrow> db \<Rightarrow> thrown + (int \<times> int)" where
  "loadCommissionCheckoutTerms i s = (case findRow (\<lambda>t. ct_id t = i) (commissionTypes s) of
      None \<Rightarrow> Inl (CommissionTypeNotFoundError i) | Some t \<Rightarrow> Inr (ct_workerId t, ct_price t))"

section \<open>Successful reads\<close>

lemma orderOfPayment_eq_Inr [read_simps]:
  "orderOfPayment p s = Inr r \<longleftrightarrow>
     findRow (\<lambda>r. o_id r = pay_orderId p \<and> o_flowId r = pay_flowId p) (orders s) = Some r"
  by (simp add: orderOfPayment_def)

lemma loadCommissionCheckoutPaymentSnapshot_eq_Inr [read_simps]:
  "loadCommissionCheckoutPaymentSnapshot i s = Inr z \<longleftrightarrow>
     (\<exists>p r. findRow (\<lambda>p. pay_id p = i) (orderPayments s) = Some p \<and> orderOfPayment p s = Inr r \<and>
        z = (r, paymentFacts p))"
  by (auto simp: loadCommissionCheckoutPaymentSnapshot_def rbind_eq_Inr split: option.split)

lemma loadCommissionCheckoutTerms_eq_Inr [read_simps]:
  "loadCommissionCheckoutTerms i s = Inr z \<longleftrightarrow>
     (\<exists>t. findRow (\<lambda>t. ct_id t = i) (commissionTypes s) = Some t \<and> z = (ct_workerId t, ct_price t))"
  by (auto simp: loadCommissionCheckoutTerms_def split: option.split)

lemma loadCommissionCheckoutSlot_eq_Inr [read_simps]:
  "loadCommissionCheckoutSlot i s = Inr x \<longleftrightarrow> findRow (\<lambda>x. sl_id x = i) (commissionSlots s) = Some x"
  by (auto simp: loadCommissionCheckoutSlot_def split: option.split)

lemma loadCommissionSettlementContract_eq_Inr [read_simps]:
  "loadCommissionSettlementContract i s = Inr k \<longleftrightarrow> findRow (\<lambda>k. k_id k = i) (contracts s) = Some k"
  by (auto simp: loadCommissionSettlementContract_def split: option.split)

lemma loadCommissionSettlementOrderSnapshot_Inr:
  "loadCommissionSettlementOrderSnapshot i s = Inr (r, f, link) \<Longrightarrow>
     findRow (\<lambda>r. o_id r = i) (orders s) = Some r \<and>
     (\<exists>p \<in> set (orderPayments s). f = paymentFacts p \<and> pay_orderId p = o_id r \<and>
        pay_flowId p = o_flowId r \<and> linkOf p s = Some link)"
  by (auto simp: loadCommissionSettlementOrderSnapshot_def split: option.splits list.splits dest!: first_of_sorted)

section \<open>What a successful statement did\<close>

lemma insertLink_eq_Inr [tx_simps]:
  "insertLink row s = Inr z \<longleftrightarrow> z = ((), s\<lparr>orderFinancialLinks := orderFinancialLinks s @ [row]\<rparr>)"
  by (auto simp: insertLink_def)

lemma contractFormation_eq_Inr [tx_simps]:
  "applyCommissionCheckoutContractFormation eng f s = Inr z \<longleftrightarrow>
     z = (e_nextId eng ''Contract'' s, s\<lparr>contracts := contracts s @ [contractOf f (e_nextId eng ''Contract'' s)]\<rparr>)"
  by (auto simp: applyCommissionCheckoutContractFormation_def contractOf_def Let_def)

lemma createTransferAction_eq_Inr [tx_simps]:
  "createTransferAction eng op f k s = Inr z \<longleftrightarrow>
     z = (\<lparr>tac_id = e_uuid eng ''FinancialTransferAction'' s, tac_flowId = f, tac_operationId = op,
            tac_operationKind = k\<rparr>,
          s\<lparr>financialTransferActions := financialTransferActions s @
            [\<lparr>tac_id = e_uuid eng ''FinancialTransferAction'' s, tac_flowId = f, tac_operationId = op,
              tac_operationKind = k\<rparr>]\<rparr>)"
  by (auto simp: createTransferAction_def Let_def)

text \<open>
  A guarded state change takes exactly one row out of its old state: afterwards the guard
  matches none, so a second attempt fails.
\<close>

lemma guardedUpdate_once:
  assumes "guardedUpdate get put p f e s = Inr (u, s')" and "\<And>rows t. get (put rows t) = rows"
    and "\<And>r. p r \<Longrightarrow> \<not> p (f r)"
  shows "guardedUpdate get put p f e s' = Inl e"
proof -
  from assms(1,2) have "get s' = updateWhere p f (get s)" by (auto simp: tx_simps)
  then have "filter p (get s') = []" using assms(3) by (auto simp: updateWhere_def filter_empty_conv)
  then show ?thesis by (simp add: guardedUpdate_def countWhere_def)
qed

end
