(* ===== verification/Withdrawal.thy ===== *)
theory Withdrawal
  imports CommerceRepos
begin

text \<open>
  The withdrawal of income, \<open>src/modules/income-withdrawal\<close>: the FIFO decision over the
  worker's income lots (\<open>income-withdrawal.core.ts\<close>), its rows
  (\<open>income-withdrawal.repo.ts\<close>) and the use case (\<open>income-withdrawal.service.ts\<close>).
\<close>

section \<open>Core\<close>

definition INCOME_WITHDRAWAL_NAMESPACE :: string where
  "INCOME_WITHDRAWAL_NAMESPACE = ''income-withdrawal''"

record IncomeWithdrawalInput =
  wi_actorId :: int
  wi_amount :: js_number
  wi_commandKey :: string

record IncomeWithdrawalWorld =
  ww_holderId :: int
  ww_availableAccountId :: int
  ww_lots :: "FinancialLotBalance list"

definition IncomeWithdrawalAmountError :: "string \<Rightarrow> thrown" where
  "IncomeWithdrawalAmountError message =
     DomainError ''IncomeWithdrawalAmountError'' message ''INVALID_INCOME_WITHDRAWAL''"

definition assertIncomeWithdrawalReplay :: "stored_command \<Rightarrow> string \<Rightarrow> thrown + stored_command" where
  "assertIncomeWithdrawalReplay stored requestedPayloadHash =
     (if sc_flowKind stored \<noteq> WITHDRAWAL \<or> sc_kind stored \<noteq> WITHDRAW \<or>
         sc_payloadHash stored \<noteq> requestedPayloadHash \<or>
         sc_subjectNamespace stored \<noteq> INCOME_WITHDRAWAL_NAMESPACE \<or> sc_subjectKey stored \<noteq> sc_flowId stored
      then Inl (IncomeWithdrawalAmountError ''Withdrawal command key identity mismatch'')
      else if \<not> truthy (sc_operationDbId stored) \<or> \<not> truthy (sc_operationId stored)
      then Inl (IncomeWithdrawalAmountError ''Withdrawal command has no completed operation'')
      else Inr stored)"

text \<open>The loop over the lots: the allocations it pushed and what remains.\<close>

fun withdrawLots :: "int \<Rightarrow> FinancialLotBalance list \<Rightarrow> FinancialAllocation list \<times> int" where
  "withdrawLots remaining [] = ([], remaining)"
| "withdrawLots remaining (lot # lots) =
     (if remaining = 0 then ([], remaining)
      else let amount = min (flb_remainingAmount lot) remaining in
        if 0 < amount
        then (let (allocations, left) = withdrawLots (remaining - amount) lots
              in (\<lparr>fa_lotId = flb_lotId lot, fa_amount = amount,
                   fa_assumedRemainingAmount = flb_remainingAmount lot\<rparr> # allocations, left))
        else withdrawLots remaining lots)"

record IncomeWithdrawalPlan =
  wp_flowKind :: flow_kind
  wp_allowedCommands :: "command_kind list"
  wp_flowCommandKind :: command_kind
  wp_principalId :: int
  wp_idempotencyKey :: string
  wp_subjectNamespace :: string
  wp_reservationRequest :: withdrawal_request

definition withdrawalPlan ::
  "IncomeWithdrawalWorld \<Rightarrow> IncomeWithdrawalInput \<Rightarrow> FinancialAllocation list \<Rightarrow> IncomeWithdrawalPlan" where
  "withdrawalPlan world input allocations = \<lparr>
     wp_flowKind = WITHDRAWAL, wp_allowedCommands = [WITHDRAW], wp_flowCommandKind = WITHDRAW,
     wp_principalId = wi_actorId input, wp_idempotencyKey = wi_commandKey input,
     wp_subjectNamespace = INCOME_WITHDRAWAL_NAMESPACE,
     wp_reservationRequest = \<lparr>wr_bindingNamespace = INCOME_WITHDRAWAL_NAMESPACE,
       wr_holderId = ww_holderId world, wr_purpose = ''INCOME_WITHDRAWAL'', wr_currency = ''INCOME'',
       wr_amount = intOf (wi_amount input), wr_escrowPurpose = ''ESCROW'', wr_escrowCurrency = ''INCOME'',
       wr_transferCurrency = ''INCOME'', wr_transferAmount = intOf (wi_amount input),
       wr_fromAccountId = ww_availableAccountId world, wr_allocations = allocations\<rparr>\<rparr>"

definition planIncomeWithdrawal ::
  "IncomeWithdrawalWorld \<Rightarrow> IncomeWithdrawalInput \<Rightarrow> thrown + IncomeWithdrawalPlan" where
  "planIncomeWithdrawal world input =
     (if \<not> isSafeInteger (wi_amount input) \<or> intOf (wi_amount input) \<le> 0
      then Inl (IncomeWithdrawalAmountError ''Withdrawal amount must be a positive integer'')
      else let amount = intOf (wi_amount input); (allocations, remaining) = withdrawLots amount (ww_lots world) in
        if 0 < remaining
        then Inl (IncomeWithdrawalAmountError (''Insufficient INCOME: have '' @ showInt (amount - remaining) @
               '', need '' @ showInt amount))
        else Inr (withdrawalPlan world input allocations))"

record IncomeWithdrawalResult =
  wo_withdrawalId :: string
  wo_reservationId :: int
  wo_referenceId :: string
  wo_commandId :: string
  wo_operationId :: string
  wo_replayed :: bool
  wo_sources :: "(string \<times> int) list"

section \<open>Rows\<close>

definition createWithdrawal :: "engine \<Rightarrow> string \<Rightarrow> string \<Rightarrow> string \<Rightarrow> int \<Rightarrow> unit dbtx" where
  "createWithdrawal eng flowId operationId transferActionId reservationId = (\<lambda>s.
     Inr ((), s\<lparr>financialWithdrawals := financialWithdrawals s @
       [\<lparr>w_id = e_uuid eng ''FinancialWithdrawal'' s, w_flowId = flowId, w_flowKind = WITHDRAWAL,
         w_operationId = operationId, w_operationKind = WITHDRAW, w_transferActionId = transferActionId,
         w_reservationId = reservationId\<rparr>]\<rparr>))"

definition loadWithdrawalResult :: "string \<Rightarrow> db \<Rightarrow> thrown + (string \<times> int)" where
  "loadWithdrawalResult flowId s =
     rbind (orThrow (findRow (\<lambda>w. w_flowId w = flowId) (financialWithdrawals s))) (\<lambda>w.
     Inr (w_id w, w_reservationId w))"

definition assertWithdrawalShape :: "engine \<Rightarrow> unit dbtx" where
  "assertWithdrawalShape eng = setConstraintsImmediate eng
     [''FinancialWithdrawal_shape_check'', ''FinancialWithdrawal_totality_check'',
      ''FinancialCommand_effect_completeness_check'', ''FinancialTransfer_command_completion_check'']"

section \<open>Use case\<close>

definition hashWithdrawal :: "runtime \<Rightarrow> IncomeWithdrawalInput \<Rightarrow> string" where
  "hashWithdrawal rt input = rt_sha256 rt (jsonArray [showInt (wi_actorId input), jsonNumber (wi_amount input)])"

record CompletedIdentity =
  id_flowId :: string
  id_operationDbId :: string
  id_referenceId :: string
  id_commandId :: string
  id_operationId :: string

definition storedIdentity :: "stored_command \<Rightarrow> CompletedIdentity" where
  "storedIdentity c = \<lparr>id_flowId = sc_flowId c, id_operationDbId = the (sc_operationDbId c),
     id_referenceId = sc_referenceId c, id_commandId = sc_commandId c, id_operationId = the (sc_operationId c)\<rparr>"

definition loadWithdrawal :: "CompletedIdentity \<Rightarrow> bool \<Rightarrow> db \<Rightarrow> thrown + IncomeWithdrawalResult" where
  "loadWithdrawal identity replayed s =
     rbind (loadWithdrawalResult (id_flowId identity) s) (\<lambda>(withdrawalId, reservationId).
     rbind (loadIncomeWithdrawalSources reservationId s) (\<lambda>sources.
     Inr \<lparr>wo_withdrawalId = withdrawalId, wo_reservationId = reservationId,
          wo_referenceId = id_referenceId identity, wo_commandId = id_commandId identity,
          wo_operationId = id_operationId identity, wo_replayed = replayed,
          wo_sources = map (\<lambda>(flowId, amount). (formatTransactionReference COMMISSION flowId, amount)) sources\<rparr>))"

definition withdrawalCommand :: "IncomeWithdrawalPlan \<Rightarrow> string \<Rightarrow> command_plan" where
  "withdrawalCommand plan flowId = \<lparr>cpl_flowKind = wp_flowKind plan, cpl_kind = wp_flowCommandKind plan,
     cpl_principalId = wp_principalId plan, cpl_idempotencyKey = wp_idempotencyKey plan,
     cpl_subjectNamespace = wp_subjectNamespace plan, cpl_subjectKey = flowId\<rparr>"

definition performWithdrawal ::
  "runtime \<Rightarrow> engine \<Rightarrow> IncomeWithdrawalInput \<Rightarrow> int \<Rightarrow> IncomeWithdrawalResult dbtx" where
  "performWithdrawal rt eng input lockedHolderId =
     bindT (readT (loadAvailableIncomeWorld lockedHolderId)) (\<lambda>(holderId, accountId, lots).
     bindT (liftT (planIncomeWithdrawal \<lparr>ww_holderId = holderId, ww_availableAccountId = accountId,
              ww_lots = lots\<rparr> input)) (\<lambda>plan.
     bindT (createFlow eng (wp_flowKind plan) (wp_allowedCommands plan)) (\<lambda>flow.
     bindT (startCommand eng (requestFor (fl_id flow) (withdrawalCommand plan (fl_id flow)) (hashWithdrawal rt input))) (\<lambda>command.
     bindT (createOperation eng (fl_id flow) (wp_flowCommandKind plan) (cm_id command)) (\<lambda>operation.
     bindT (createTransferAction eng (oper_id operation) (fl_id flow) (wp_flowCommandKind plan)) (\<lambda>action.
     bindT (applyIncomeWithdrawalReservation eng (fl_id flow) (wp_reservationRequest plan) (fl_id flow) (tac_id action)) (\<lambda>reservation.
     bindT (createWithdrawal eng (fl_id flow) (oper_id operation) (tac_id action) (r_id reservation)) (\<lambda>_.
     bindT (completeCommand (cm_id command) (oper_id operation)) (\<lambda>_.
     bindT (assertWithdrawalShape eng) (\<lambda>_.
     readT (loadWithdrawal \<lparr>id_flowId = fl_id flow, id_operationDbId = oper_id operation,
       id_referenceId = formatTransactionReference (fl_kind flow) (fl_id flow),
       id_commandId = formatCommandId (cm_kind command) (cm_id command),
       id_operationId = formatOperationId (oper_kind operation) (oper_id operation)\<rparr> False)))))))))))"

definition executeWithdrawal ::
  "runtime \<Rightarrow> engine \<Rightarrow> IncomeWithdrawalInput \<Rightarrow> int \<Rightarrow> IncomeWithdrawalResult dbtx" where
  "executeWithdrawal rt eng input lockedHolderId =
     bindT (readT (\<lambda>s. Inr (findCommand (wi_actorId input) WITHDRAW (wi_commandKey input) s))) (\<lambda>existing.
     case existing of
       Some stored \<Rightarrow>
         bindT (liftT (assertIncomeWithdrawalReplay stored (hashWithdrawal rt input))) (\<lambda>completed.
         readT (loadWithdrawal (storedIdentity completed) True))
     | None \<Rightarrow> performWithdrawal rt eng input lockedHolderId)"

text \<open>The read before the transaction sees the database \<open>s0\<close>.\<close>

definition requestWithdrawal ::
  "runtime \<Rightarrow> engine \<Rightarrow> IncomeWithdrawalInput \<Rightarrow> db \<Rightarrow> IncomeWithdrawalResult dbtx" where
  "requestWithdrawal rt eng input s0 =
     bindT (liftT (findHolderId ''user'' (showInt (wi_actorId input)) s0)) (\<lambda>holderId.
     serialized (e_session eng)
       [lockKey (LfinancialHolder holderId),
        lockKey (LincomeWithdrawalCommand (showInt (wi_actorId input) @ '':WITHDRAW:'' @ wi_commandKey input))]
       (executeWithdrawal rt eng input holderId) False)"

section \<open>The decision\<close>

interpretation withdraw: fifo_loop flb_remainingAmount allocationFor fa_amount withdrawLots
  by unfold_locales (auto simp: allocationFor_def Let_def case_prod_beta)

lemma planIncomeWithdrawal_eq_Inr:
  "planIncomeWithdrawal world input = Inr plan \<longleftrightarrow>
     isSafeInteger (wi_amount input) \<and> 0 < intOf (wi_amount input) \<and>
     intOf (wi_amount input) \<le> lotsTotal (ww_lots world) \<and>
     plan = withdrawalPlan world input
       (fifoSpec flb_remainingAmount allocationFor (intOf (wi_amount input)) (ww_lots world))"
  using withdraw.loop_spec [of "intOf (wi_amount input)" "ww_lots world"]
  by (auto simp: planIncomeWithdrawal_def lotsTotal_def Let_def)

lemma planIncomeWithdrawal_eq:
  "planIncomeWithdrawal world input =
     (if \<not> isSafeInteger (wi_amount input) \<or> intOf (wi_amount input) \<le> 0
      then Inl (IncomeWithdrawalAmountError ''Withdrawal amount must be a positive integer'')
      else case planReservation (ww_lots world) (wi_amount input) of
        Inr allocations \<Rightarrow> Inr (withdrawalPlan world input allocations)
      | Inl e \<Rightarrow> Inl (IncomeWithdrawalAmountError (''Insufficient INCOME: have '' @
           showInt (lotsTotal (ww_lots world)) @ '', need '' @ showInt (intOf (wi_amount input)))))"
proof (cases "isSafeInteger (wi_amount input) \<and> 0 < intOf (wi_amount input)")
  case False
  then show ?thesis by (auto simp: planIncomeWithdrawal_def)
next
  case True
  then have "isInteger (wi_amount input)" by (simp add: isSafeInteger_def)
  moreover have "withdrawLots (intOf (wi_amount input)) (ww_lots world) =
      (fifoSpec flb_remainingAmount allocationFor (intOf (wi_amount input)) (ww_lots world),
       max 0 (intOf (wi_amount input) - lotsTotal (ww_lots world)))"
    using True by (simp add: withdraw.loop_spec lotsTotal_def)
  ultimately show ?thesis
    using True by (auto simp: planIncomeWithdrawal_def planReservation_cases max_def Let_def)
qed

text \<open>the withdrawal decision equals its FIFO specification: refused unless the amount is a
  positive safe integer, then unless the lots hold as much (naming what they hold), and
  otherwise the lots in order give what is left to take. It agrees with the reservation of the
  ledger core on every amount that core accepts.
\<close>

theorem planIncomeWithdrawal_fifo:
  "planIncomeWithdrawal world input =
     (if isSafeInteger (wi_amount input) \<and> 0 < intOf (wi_amount input)
      then case planReservation (ww_lots world) (wi_amount input) of
        Inr allocations \<Rightarrow> Inr (withdrawalPlan world input allocations)
      | Inl e \<Rightarrow> Inl (IncomeWithdrawalAmountError (''Insufficient INCOME: have '' @
           showInt (lotsTotal (ww_lots world)) @ '', need '' @ showInt (intOf (wi_amount input))))
      else Inl (IncomeWithdrawalAmountError ''Withdrawal amount must be a positive integer''))"
  by (simp add: planIncomeWithdrawal_eq not_less)

lemma withdrawal_allocations:
  assumes "planIncomeWithdrawal world input = Inr plan"
  shows "takes_ok (wr_allocations (wp_reservationRequest plan))"
    "(\<Sum>a\<leftarrow>wr_allocations (wp_reservationRequest plan). fa_amount a) = intOf (wi_amount input)"
proof -
  from assms obtain as where "planReservation (ww_lots world) (wi_amount input) = Inr as"
    and plan: "plan = withdrawalPlan world input as"
    by (auto simp: planIncomeWithdrawal_eq split: if_splits sum.splits)
  note a = planReservation_allocations [OF this(1)]
  show "takes_ok (wr_allocations (wp_reservationRequest plan))"
    using a(4) by (fastforce simp: plan withdrawalPlan_def takes_ok_def)
  show "(\<Sum>a\<leftarrow>wr_allocations (wp_reservationRequest plan). fa_amount a) = intOf (wi_amount input)"
    using a(1) by (simp add: plan withdrawalPlan_def)
qed

end
