(* ===== verification/Settlement.thy ===== *)
theory Settlement
  imports CommerceRepos
begin

text \<open>
  The settlement of a commission, \<open>src/modules/commission-settlement\<close>: the core that proves
  the funding of the contract's order from its parts (\<open>commission-settlement.core.ts\<close>) and the
  use case that swaps the held points for income of the worker
  (\<open>commission-settlement.service.ts\<close>).
\<close>

section \<open>Core\<close>

definition COMMISSION_CONTRACT_NAMESPACE :: string where
  "COMMISSION_CONTRACT_NAMESPACE = ''commission-contract''"

record CommissionSettlementInput =
  si_contractId :: int
  si_actorId :: int
  si_commandKey :: string

record CommissionSettlementWorld =
  sw_contract :: contract_row
  sw_order :: order_row
  sw_payment :: payment_facts
  sw_fundingLink :: link_row
  sw_funding :: CommissionSettlementFunding
  sw_accounts :: CommissionSettlementAccounts

definition CommissionSettlementStateError :: "string \<Rightarrow> thrown" where
  "CommissionSettlementStateError message =
     DomainError ''CommissionSettlementStateError'' message ''COMMISSION_NOT_SETTLEABLE''"

definition settleGuard :: "bool \<Rightarrow> string \<Rightarrow> thrown + unit" where
  "settleGuard bad message = (if bad then Inl (CommissionSettlementStateError message) else Inr ())"

record CommissionSettlementPlan =
  spl_flowId :: string
  spl_commandRequest :: command_plan
  spl_operationKind :: command_kind
  spl_swap :: settlement_swap

definition settleCommand :: "CommissionSettlementInput \<Rightarrow> command_plan" where
  "settleCommand input = \<lparr>cpl_flowKind = COMMISSION, cpl_kind = SETTLE, cpl_principalId = si_actorId input,
     cpl_idempotencyKey = si_commandKey input, cpl_subjectNamespace = COMMISSION_CONTRACT_NAMESPACE,
     cpl_subjectKey = showInt (si_contractId input)\<rparr>"

definition settlementPlan ::
  "CommissionSettlementWorld \<Rightarrow> CommissionSettlementInput \<Rightarrow> CommissionSettlementPlan" where
  "settlementPlan w input = (let f = sw_funding w; a = sw_accounts w in \<lparr>
     spl_flowId = k_flowId (sw_contract w),
     spl_commandRequest = settleCommand input,
     spl_operationKind = SETTLE,
     spl_swap = \<lparr>ss_flowId = k_flowId (sw_contract w), ss_reservationId = cf_reservationId f,
        ss_beneficiaryHolderId = ca_beneficiaryHolderId a, ss_amount = cf_targetAmount f,
        ss_pointLeg = \<lparr>sl_currency = ''POINT'', sl_fromAccountId = cf_escrowAccountId f,
          sl_toAccountId = ca_pointSettledAccountId a\<rparr>,
        ss_incomeLeg = \<lparr>sl_currency = ''INCOME'', sl_fromAccountId = ca_incomeIssuerAccountId a,
          sl_toAccountId = ca_incomeAvailableAccountId a\<rparr>,
        ss_incomeLot = \<lparr>il_accountId = ca_incomeAvailableAccountId a, il_currency = ''INCOME'',
          il_sourceKind = ''COMMISSION_SETTLEMENT'', il_originalAmount = cf_targetAmount f\<rparr>\<rparr>\<rparr>)"

definition planCommissionSettlement ::
  "CommissionSettlementWorld \<Rightarrow> CommissionSettlementInput \<Rightarrow> thrown + CommissionSettlementPlan" where
  "planCommissionSettlement w input =
     (let contract = sw_contract w; order = sw_order w; payment = sw_payment w; link = sw_fundingLink w;
          f = sw_funding w in
     rbind (settleGuard (k_id contract \<noteq> si_contractId input) ''Contract identity changed'') (\<lambda>_.
     rbind (settleGuard (k_orderId contract \<noteq> o_id order) ''Contract Order identity changed'') (\<lambda>_.
     rbind (settleGuard (k_workerId contract \<noteq> si_actorId input)
       ''Only the contract worker can settle commission'') (\<lambda>_.
     rbind (settleGuard (o_state order \<noteq> ''PAID'')
       ''Commission Order must be paid before settlement'') (\<lambda>_.
     rbind (settleGuard (pf_state payment \<noteq> ''PAID'')
       ''Commission payment must be paid before settlement'') (\<lambda>_.
     rbind (settleGuard (cf_reservationState f \<noteq> ''HELD'')
       ''Commission POINT must still be held for settlement'') (\<lambda>_.
     rbind (settleGuard (o_currency order \<noteq> ''POINT'' \<or> pf_currency payment \<noteq> ''POINT'' \<or>
         cf_reservationCurrency f \<noteq> ''POINT'' \<or> cf_transferCurrency f \<noteq> ''POINT'' \<or> cf_targetAmount f \<le> 0)
       ''Settlement input must be positive POINT'') (\<lambda>_.
     rbind (settleGuard (k_flowId contract \<noteq> o_flowId order \<or> k_flowId contract \<noteq> pf_flowId payment \<or>
         k_flowId contract \<noteq> ln_flowId link \<or> k_flowId contract \<noteq> cf_reservationFlowId f \<or>
         k_flowId contract \<noteq> cf_transferFlowId f)
       ''Settlement funding must belong to the Contract flow'') (\<lambda>_.
     rbind (settleGuard (ln_reservationId link \<noteq> cf_reservationId f)
       ''Settlement must use the Order-owned reservation link'') (\<lambda>_.
     rbind (settleGuard (cf_actionOperationKind f \<noteq> PAY \<or> cf_operationKind f \<noteq> PAY \<or> cf_commandKind f \<noteq> PAY \<or>
         Some (cf_operationId f) \<noteq> cf_commandResultOperationId f \<or>
         cf_operationFlowId f \<noteq> k_flowId contract \<or> cf_commandFlowId f \<noteq> k_flowId contract)
       ''Settlement funding must come from a completed PAY'') (\<lambda>_.
     rbind (settleGuard (cf_commandPrincipalId f \<noteq> o_buyerId order \<or>
         cf_commandSubjectNamespace f \<noteq> ''commission-order-payment'' \<or>
         cf_commandSubjectKey f \<noteq> showInt (pf_id payment) \<or>
         cf_holderNamespace f \<noteq> ''user'' \<or> cf_holderKey f \<noteq> showInt (o_buyerId order))
       ''Settlement PAY principal, payment subject, and buyer holder must agree'') (\<lambda>_.
     rbind (settleGuard (o_amount order \<noteq> pf_amount payment \<or> o_amount order \<noteq> cf_targetAmount f \<or>
         o_amount order \<noteq> cf_transferAmount f)
       ''Settlement funded amount must equal the paid Order'') (\<lambda>_.
     rbind (settleGuard (cf_transferToAccountId f \<noteq> cf_escrowAccountId f)
       ''Settlement funding must target the reservation escrow'') (\<lambda>_.
     Inr (settlementPlan w input)))))))))))))))"

datatype CommissionSettlementStart =
    SettleProceed
  | SettleReplay stored_command
  | SettleAlias stored_command

definition planCommissionSettlementStart ::
  "stored_command option \<Rightarrow> stored_command option \<Rightarrow> command_plan \<Rightarrow> string \<Rightarrow>
     thrown + CommissionSettlementStart" where
  "planCommissionSettlementStart existing completed requested requestedHash =
     (case (case existing of Some c \<Rightarrow> Some c | None \<Rightarrow> completed) of
        None \<Rightarrow> Inr SettleProceed
      | Some stored \<Rightarrow>
          rbind (settleGuard (sc_flowKind stored \<noteq> cpl_flowKind requested \<or> sc_kind stored \<noteq> cpl_kind requested \<or>
              sc_payloadHash stored \<noteq> requestedHash \<or>
              sc_subjectNamespace stored \<noteq> cpl_subjectNamespace requested \<or>
              sc_subjectKey stored \<noteq> cpl_subjectKey requested)
            ''Settlement command key identity mismatch'') (\<lambda>_.
          rbind (settleGuard (\<not> truthy (sc_operationDbId stored) \<or> \<not> truthy (sc_operationId stored))
            ''Settlement command has no completed operation'') (\<lambda>_.
          Inr (if existing \<noteq> None then SettleReplay stored else SettleAlias stored))))"

definition assertCommissionSettlementHolderIdentity :: "int \<Rightarrow> int \<Rightarrow> thrown + unit" where
  "assertCommissionSettlementHolderIdentity locked actual =
     settleGuard (locked \<noteq> actual) ''Commission worker financial holder changed''"

definition assertCommissionSettlementReplayFlow :: "string \<Rightarrow> string \<Rightarrow> thrown + unit" where
  "assertCommissionSettlementReplayFlow expected actual =
     settleGuard (expected \<noteq> actual) ''Stored settlement belongs to another commission flow''"

record CommissionSettlementResult =
  se_contractId :: int
  se_reservationId :: int
  se_incomeLotId :: int
  se_referenceId :: string
  se_commandId :: string
  se_operationId :: string
  se_replayed :: bool

section \<open>Use case\<close>

definition hashSettlement :: "runtime \<Rightarrow> CommissionSettlementInput \<Rightarrow> string" where
  "hashSettlement rt input =
     rt_sha256 rt (jsonArray [showInt (si_contractId input), showInt (si_actorId input)])"

definition loadSettlementResult ::
  "stored_command \<Rightarrow> int \<Rightarrow> bool \<Rightarrow> db \<Rightarrow> thrown + CommissionSettlementResult" where
  "loadSettlementResult identity contractId replayed s =
     rbind (loadCommissionSettlementContract contractId s) (\<lambda>contract.
     rbind (assertCommissionSettlementReplayFlow (sc_flowId identity) (k_flowId contract)) (\<lambda>_.
     rbind (loadCommissionSettlementLedgerResult (the (sc_operationDbId identity)) s) (\<lambda>(reservationId, incomeLotId).
     Inr \<lparr>se_contractId = contractId, se_reservationId = reservationId, se_incomeLotId = incomeLotId,
          se_referenceId = sc_referenceId identity, se_commandId = sc_commandId identity,
          se_operationId = the (sc_operationId identity), se_replayed = replayed\<rparr>)))"

definition loadSettlementPlan ::
  "CommissionSettlementInput \<Rightarrow> int \<Rightarrow> db \<Rightarrow> thrown + CommissionSettlementPlan" where
  "loadSettlementPlan input lockedWorkerHolderId s =
     rbind (loadCommissionSettlementContract (si_contractId input) s) (\<lambda>contract.
     rbind (loadCommissionSettlementOrderSnapshot (k_orderId contract) s) (\<lambda>(order, payment, link).
     rbind (findHolderId ''user'' (showInt (k_workerId contract)) s) (\<lambda>workerHolderId.
     rbind (assertCommissionSettlementHolderIdentity lockedWorkerHolderId workerHolderId) (\<lambda>_.
     rbind (loadCommissionSettlementFunding (ln_reservationId link) s) (\<lambda>funding.
     rbind (loadCommissionSettlementAccounts workerHolderId s) (\<lambda>accounts.
     planCommissionSettlement \<lparr>sw_contract = contract, sw_order = order, sw_payment = payment,
       sw_fundingLink = link, sw_funding = funding, sw_accounts = accounts\<rparr> input))))))"

definition performSettlement ::
  "runtime \<Rightarrow> engine \<Rightarrow> CommissionSettlementInput \<Rightarrow> int \<Rightarrow> CommissionSettlementResult dbtx" where
  "performSettlement rt eng input lockedWorkerHolderId =
     bindT (readT (loadSettlementPlan input lockedWorkerHolderId)) (\<lambda>plan.
     bindT (startCommand eng (requestFor (spl_flowId plan) (spl_commandRequest plan) (hashSettlement rt input))) (\<lambda>command.
     bindT (createOperation eng (cm_flowId command) (spl_operationKind plan) (cm_id command)) (\<lambda>operation.
     bindT (applyCommissionIncomeSettlement eng (spl_swap plan) (oper_id operation)) (\<lambda>(action, lot).
     bindT (completeCommand (cm_id command) (oper_id operation)) (\<lambda>_.
     bindT (assertCommissionSettlementShape eng) (\<lambda>_.
     returnT \<lparr>se_contractId = si_contractId input, se_reservationId = ss_reservationId (spl_swap plan),
       se_incomeLotId = l_id lot,
       se_referenceId = formatTransactionReference (cm_flowKind command) (cm_flowId command),
       se_commandId = formatCommandId (cm_kind command) (cm_id command),
       se_operationId = formatOperationId (oper_kind operation) (oper_id operation),
       se_replayed = False\<rparr>))))))"

definition executeSettlement ::
  "runtime \<Rightarrow> engine \<Rightarrow> CommissionSettlementInput \<Rightarrow> int \<Rightarrow> CommissionSettlementResult dbtx" where
  "executeSettlement rt eng input lockedWorkerHolderId =
     (let requested = settleCommand input; payloadHash = hashSettlement rt input in
      bindT (readT (\<lambda>s. Inr (findCommand (cpl_principalId requested) (cpl_kind requested)
               (cpl_idempotencyKey requested) s))) (\<lambda>existing.
      bindT (readT (\<lambda>s. Inr (if existing \<noteq> None then None
               else findCompletedCommandBySubject (cpl_flowKind requested) (cpl_subjectNamespace requested)
                      (cpl_subjectKey requested) (cpl_kind requested) s))) (\<lambda>completed.
      bindT (liftT (planCommissionSettlementStart existing completed requested payloadHash)) (\<lambda>start.
      case start of
        SettleReplay identity \<Rightarrow> readT (loadSettlementResult identity (si_contractId input) True)
      | SettleAlias identity \<Rightarrow>
          bindT (readT (loadSettlementResult identity (si_contractId input) True)) (\<lambda>stored.
          bindT (saveCommandAlias eng (requestFor (sc_flowId identity) requested payloadHash)
                   (the (sc_operationDbId identity))) (\<lambda>alias.
          bindT (assertCommandEffectCompleteness eng) (\<lambda>_.
          returnT (stored\<lparr>se_commandId := formatCommandId (cm_kind alias) (cm_id alias)\<rparr>))))
      | SettleProceed \<Rightarrow> performSettlement rt eng input lockedWorkerHolderId))))"

text \<open>The two reads before the transaction see the databases \<open>s0\<close> and \<open>s1\<close>.\<close>

definition settle ::
  "runtime \<Rightarrow> engine \<Rightarrow> CommissionSettlementInput \<Rightarrow> db \<Rightarrow> db \<Rightarrow> CommissionSettlementResult dbtx" where
  "settle rt eng input s0 s1 =
     bindT (liftT (loadCommissionSettlementContract (si_contractId input) s0)) (\<lambda>lockContract.
     bindT (liftT (findHolderId ''user'' (showInt (k_workerId lockContract)) s1)) (\<lambda>workerHolderId.
     serialized (e_session eng)
       [lockKey (LcommissionContract (si_contractId input)), lockKey (LfinancialHolder workerHolderId),
        lockKey (LcommissionSettlementCommand (showInt (si_actorId input) @ '':SETTLE:'' @ si_commandKey input))]
       (executeSettlement rt eng input workerHolderId) False))"

end
