(* ===== verification/Checkout.thy ===== *)
theory Checkout
  imports CommerceRepos
begin

text \<open>
  The checkout of a commission, \<open>src/modules/commission-checkout\<close>: the core that decides
  (\<open>commission-checkout.core.ts\<close>), the read of a finished checkout
  (\<open>commission-checkout.repo.ts\<close>) and the use case that runs under locks
  (\<open>commission-checkout.service.ts\<close>).
\<close>

section \<open>Core\<close>

definition COMMISSION_ORDER_PAYMENT_NAMESPACE :: string where
  "COMMISSION_ORDER_PAYMENT_NAMESPACE = ''commission-order-payment''"

record CommissionCheckoutInput =
  ci_orderPaymentId :: int
  ci_actorId :: int
  ci_commandKey :: string

record CommissionCheckoutWorld =
  cw_order :: order_row
  cw_payment :: payment_facts
  cw_termsWorkerId :: int
  cw_termsPrice :: int
  cw_slot :: slot_row
  cw_holderId :: int

record CommissionCheckoutPlan =
  cp_flowId :: string
  cp_commandRequest :: command_plan
  cp_operationKind :: command_kind
  cp_financialRequest :: reservation_request
  cp_contract :: contract_formation
  cp_paidOrderId :: int
  cp_paidPaymentId :: int
  cp_paidFlowId :: string
  cp_slotId :: int
  cp_slotWorkerId :: int

record CommissionCheckoutEconomicResult =
  co_orderId :: int
  co_orderPaymentId :: int
  co_contractId :: int
  co_reservationId :: int
  co_referenceId :: string
  co_commandId :: string
  co_operationId :: string

record CommissionCheckoutResult = CommissionCheckoutEconomicResult +
  co_replayed :: bool

record ExistingCommissionCheckout =
  ec_payloadHash :: string
  ec_buyerId :: int
  ec_result :: CommissionCheckoutEconomicResult

datatype CommissionCheckoutStartPlan =
    CheckoutProceed
  | CheckoutReplay CommissionCheckoutEconomicResult bool

definition CommissionCheckoutActorError :: thrown where
  "CommissionCheckoutActorError = DomainError ''CommissionCheckoutActorError''
     ''Only the Order buyer can complete commission checkout'' ''COMMISSION_CHECKOUT_ACTOR_MISMATCH''"

definition CommissionCheckoutStateError :: "string \<Rightarrow> thrown" where
  "CommissionCheckoutStateError message =
     DomainError ''CommissionCheckoutStateError'' message ''ORDER_NOT_PAYABLE''"

definition CommissionCheckoutIdempotencyError :: thrown where
  "CommissionCheckoutIdempotencyError = DomainError ''CommissionCheckoutIdempotencyError''
     ''Commission checkout command key was already used for a different payload'' ''IDEMPOTENCY_MISMATCH''"

record CommissionCheckoutLockTargets =
  lt_buyerId :: int
  lt_slotId :: int
  lt_financialHolderId :: int

definition assertLockedCommissionCheckoutTargets ::
  "CommissionCheckoutLockTargets \<Rightarrow> CommissionCheckoutLockTargets \<Rightarrow> thrown + unit" where
  "assertLockedCommissionCheckoutTargets locked actual =
     (if lt_buyerId locked \<noteq> lt_buyerId actual \<or> lt_slotId locked \<noteq> lt_slotId actual \<or>
         lt_financialHolderId locked \<noteq> lt_financialHolderId actual
      then Inl (ConcurrentUpdateError ''commission checkout lock targets'') else Inr ())"

definition assertCommissionCheckoutActor :: "int \<Rightarrow> int \<Rightarrow> thrown + unit" where
  "assertCommissionCheckoutActor buyerId actorId =
     (if buyerId \<noteq> actorId then Inl CommissionCheckoutActorError else Inr ())"

definition planCommissionCheckoutCommand :: "CommissionCheckoutInput \<Rightarrow> command_plan" where
  "planCommissionCheckoutCommand input = \<lparr>cpl_flowKind = COMMISSION, cpl_kind = PAY,
     cpl_principalId = ci_actorId input, cpl_idempotencyKey = ci_commandKey input,
     cpl_subjectNamespace = COMMISSION_ORDER_PAYMENT_NAMESPACE,
     cpl_subjectKey = showInt (ci_orderPaymentId input)\<rparr>"

definition assertCommissionCheckoutReplayIdentity ::
  "stored_command \<Rightarrow> command_plan \<Rightarrow> string \<Rightarrow> thrown + unit" where
  "assertCommissionCheckoutReplayIdentity stored requested requestedHash =
     (if sc_flowKind stored \<noteq> cpl_flowKind requested \<or> sc_kind stored \<noteq> cpl_kind requested \<or>
         sc_payloadHash stored \<noteq> requestedHash \<or>
         sc_subjectNamespace stored \<noteq> cpl_subjectNamespace requested \<or>
         sc_subjectKey stored \<noteq> cpl_subjectKey requested
      then Inl CommissionCheckoutIdempotencyError else Inr ())"

definition planCommissionCheckoutStart ::
  "ExistingCommissionCheckout option \<Rightarrow> ExistingCommissionCheckout option \<Rightarrow> string \<Rightarrow> int \<Rightarrow>
     thrown + CommissionCheckoutStartPlan" where
  "planCommissionCheckoutStart command payment requestedHash actorId =
     (case command of
        Some c \<Rightarrow> if ec_payloadHash c \<noteq> requestedHash then Inl CommissionCheckoutIdempotencyError
                  else Inr (CheckoutReplay (ec_result c) False)
      | None \<Rightarrow>
        (case payment of
           Some p \<Rightarrow> rbind (assertCommissionCheckoutActor (ec_buyerId p) actorId) (\<lambda>_.
                     Inr (CheckoutReplay (ec_result p) True))
         | None \<Rightarrow> Inr CheckoutProceed))"

definition stateGuard :: "bool \<Rightarrow> string \<Rightarrow> thrown + unit" where
  "stateGuard bad message = (if bad then Inl (CommissionCheckoutStateError message) else Inr ())"

definition checkoutPlan :: "CommissionCheckoutWorld \<Rightarrow> CommissionCheckoutInput \<Rightarrow> CommissionCheckoutPlan" where
  "checkoutPlan w input = \<lparr>
     cp_flowId = pf_flowId (cw_payment w),
     cp_commandRequest = planCommissionCheckoutCommand input,
     cp_operationKind = PAY,
     cp_financialRequest = \<lparr>rr_flowId = pf_flowId (cw_payment w),
        rr_bindingNamespace = COMMISSION_ORDER_PAYMENT_NAMESPACE,
        rr_bindingKey = showInt (pf_id (cw_payment w)), rr_holderId = cw_holderId w,
        rr_purpose = ''COMMISSION_PAYMENT'', rr_currency = ''POINT'', rr_amount = pf_amount (cw_payment w)\<rparr>,
     cp_contract = \<lparr>fo_orderId = o_id (cw_order w), fo_flowId = pf_flowId (cw_payment w),
        fo_buyerId = o_buyerId (cw_order w), fo_workerId = cw_termsWorkerId w\<rparr>,
     cp_paidOrderId = o_id (cw_order w), cp_paidPaymentId = pf_id (cw_payment w),
     cp_paidFlowId = pf_flowId (cw_payment w),
     cp_slotId = sl_id (cw_slot w), cp_slotWorkerId = cw_termsWorkerId w\<rparr>"

definition planCommissionCheckout ::
  "CommissionCheckoutWorld \<Rightarrow> CommissionCheckoutInput \<Rightarrow> thrown + CommissionCheckoutPlan" where
  "planCommissionCheckout w input =
     rbind (stateGuard (pf_id (cw_payment w) \<noteq> ci_orderPaymentId input)
       ''Order payment identity changed'') (\<lambda>_.
     rbind (assertCommissionCheckoutActor (o_buyerId (cw_order w)) (ci_actorId input)) (\<lambda>_.
     rbind (stateGuard (o_state (cw_order w) \<noteq> ''REQUESTED'' \<or> pf_state (cw_payment w) \<noteq> ''PENDING'')
       ''Order and payment must both be pending'') (\<lambda>_.
     rbind (stateGuard (sl_state (cw_slot w) \<noteq> ''AVAILABLE'')
       ''Commission slot is not available'') (\<lambda>_.
     rbind (stateGuard (cw_termsWorkerId w \<noteq> sl_workerId (cw_slot w))
       ''Commission slot belongs to a different worker'') (\<lambda>_.
     rbind (stateGuard (o_flowId (cw_order w) \<noteq> pf_flowId (cw_payment w))
       ''Order and payment must belong to the same flow'') (\<lambda>_.
     rbind (stateGuard (o_currency (cw_order w) \<noteq> ''POINT'' \<or> pf_currency (cw_payment w) \<noteq> ''POINT'' \<or>
         o_amount (cw_order w) \<noteq> pf_amount (cw_payment w) \<or> o_amount (cw_order w) \<noteq> cw_termsPrice w)
       ''Order, payment, and commission price must match'') (\<lambda>_.
     Inr (checkoutPlan w input))))))))"

section \<open>A finished checkout\<close>

text \<open>An \<open>Error\<close> that is not a domain error.\<close>

definition plainError :: "string \<Rightarrow> thrown" where
  "plainError message = PlainError ''Error'' message"

definition contractOfOrder :: "order_row \<Rightarrow> db \<Rightarrow> contract_row option" where
  "contractOfOrder r s = findRow (\<lambda>k. k_orderId k = o_id r \<and> k_flowId k = o_flowId r) (contracts s)"

definition loadCompletedCommissionCheckoutResult ::
  "runtime \<Rightarrow> stored_command \<Rightarrow> db \<Rightarrow> thrown + (int \<times> CommissionCheckoutEconomicResult)" where
  "loadCompletedCommissionCheckoutResult rt identity s =
     (let orderPaymentId = rt_number rt (sc_subjectKey identity) in
      if \<not> isSafeInteger orderPaymentId
      then Inl (plainError (''Commission payment subject '' @ sc_subjectKey identity @ '' is invalid''))
      else
        rbind (orThrow (findRow (\<lambda>p. pay_id p = intOf orderPaymentId) (orderPayments s))) (\<lambda>payment.
        rbind (orderOfPayment payment s) (\<lambda>order.
        if pay_flowId payment \<noteq> sc_flowId identity
        then Inl (plainError (''Commission payment '' @ numText orderPaymentId @ '' belongs to flow '' @
               pay_flowId payment @ '', not '' @ sc_flowId identity))
        else case (linkOf payment s, contractOfOrder order s) of
          (Some link, Some contract) \<Rightarrow> Inr (o_buyerId order,
            \<lparr>co_orderId = o_id order, co_orderPaymentId = intOf orderPaymentId,
             co_contractId = k_id contract, co_reservationId = ln_reservationId link,
             co_referenceId = sc_referenceId identity, co_commandId = sc_commandId identity,
             co_operationId = the (sc_operationId identity)\<rparr>)
        | _ \<Rightarrow> Inl (plainError (''Commission payment '' @ numText orderPaymentId @
               '' has no completed result'')))))"

section \<open>Use case\<close>

definition withReplayed :: "CommissionCheckoutEconomicResult \<Rightarrow> bool \<Rightarrow> CommissionCheckoutResult" where
  "withReplayed r b = CommissionCheckoutEconomicResult.extend r \<lparr>co_replayed = b\<rparr>"

definition hashCommissionCheckoutPayload :: "runtime \<Rightarrow> CommissionCheckoutInput \<Rightarrow> string" where
  "hashCommissionCheckoutPayload rt input =
     rt_sha256 rt (jsonArray [showInt (ci_orderPaymentId input), showInt (ci_actorId input)])"

definition requireCompletedCommand :: "stored_command \<Rightarrow> thrown + stored_command" where
  "requireCompletedCommand identity =
     (if \<not> truthy (sc_operationDbId identity) \<or> \<not> truthy (sc_operationId identity)
      then Inl (plainError ''Financial command has no completed economic result'')
      else Inr identity)"

record PreparedCommissionCheckout =
  pc_input :: CommissionCheckoutInput
  pc_payloadHash :: string
  pc_lockedTargets :: CommissionCheckoutLockTargets
  pc_lockKeys :: "lock_key list"

text \<open>The two reads before the transaction see the databases \<open>s0\<close> and \<open>s1\<close>.\<close>

definition prepareCommissionCheckout ::
  "runtime \<Rightarrow> CommissionCheckoutInput \<Rightarrow> db \<Rightarrow> db \<Rightarrow> thrown + PreparedCommissionCheckout" where
  "prepareCommissionCheckout rt input s0 s1 =
     rbind (findCommissionCheckoutLockTargets (ci_orderPaymentId input) s0) (\<lambda>(buyerId, slotId).
     rbind (findHolderId ''user'' (showInt buyerId) s1) (\<lambda>financialHolderId.
     Inr \<lparr>pc_input = input, pc_payloadHash = hashCommissionCheckoutPayload rt input,
          pc_lockedTargets = \<lparr>lt_buyerId = buyerId, lt_slotId = slotId, lt_financialHolderId = financialHolderId\<rparr>,
          pc_lockKeys = [lockKey (LorderPayment (ci_orderPaymentId input)),
             lockKey (LfinancialHolder financialHolderId), lockKey (LcommissionSlot slotId),
             lockKey (LcommissionCheckoutCommand
               (showInt (ci_actorId input) @ '':PAY:'' @ ci_commandKey input))]\<rparr>))"

definition replayCompletedCommissionCheckout ::
  "runtime \<Rightarrow> engine \<Rightarrow> PreparedCommissionCheckout \<Rightarrow> CommissionCheckoutResult option dbtx" where
  "replayCompletedCommissionCheckout rt eng prepared =
     (let requested = planCommissionCheckoutCommand (pc_input prepared) in
      bindT (readT (\<lambda>s. Inr (findCommand (cpl_principalId requested) (cpl_kind requested)
               (cpl_idempotencyKey requested) s))) (\<lambda>storedIdentity.
      case storedIdentity of
        Some stored \<Rightarrow>
          bindT (liftT (assertCommissionCheckoutReplayIdentity stored requested (pc_payloadHash prepared))) (\<lambda>_.
          bindT (liftT (requireCompletedCommand stored)) (\<lambda>completed.
          bindT (readT (loadCompletedCommissionCheckoutResult rt completed)) (\<lambda>(buyerId, result).
          returnT (Some (withReplayed result True)))))
      | None \<Rightarrow>
          bindT (readT (\<lambda>s. Inr (findCompletedCommandBySubject (cpl_flowKind requested)
                   (cpl_subjectNamespace requested) (cpl_subjectKey requested) (cpl_kind requested) s))) (\<lambda>completedIdentity.
          bindT (case completedIdentity of
              None \<Rightarrow> returnT None
            | Some identity \<Rightarrow>
                bindT (liftT (requireCompletedCommand identity)) (\<lambda>completed.
                bindT (readT (loadCompletedCommissionCheckoutResult rt completed)) (\<lambda>(buyerId, result).
                returnT (Some \<lparr>ec_payloadHash = sc_payloadHash identity, ec_buyerId = buyerId,
                               ec_result = result\<rparr>)))) (\<lambda>completed.
          bindT (liftT (planCommissionCheckoutStart None completed (pc_payloadHash prepared)
                   (ci_actorId (pc_input prepared)))) (\<lambda>start.
          case start of
            CheckoutProceed \<Rightarrow> returnT None
          | CheckoutReplay result saveAlias \<Rightarrow>
              if saveAlias then
                (case completedIdentity of
                   None \<Rightarrow> throwT (plainError ''Completed commission payment disappeared during replay'')
                 | Some identity \<Rightarrow>
                     bindT (liftT (requireCompletedCommand identity)) (\<lambda>completeIdentity.
                     bindT (saveCommandAlias eng (requestFor (sc_flowId completeIdentity) requested
                              (pc_payloadHash prepared)) (the (sc_operationDbId completeIdentity))) (\<lambda>alias.
                     bindT (assertCommandEffectCompleteness eng) (\<lambda>_.
                     returnT (Some (withReplayed
                       (result\<lparr>co_commandId := formatCommandId (cm_kind alias) (cm_id alias)\<rparr>) True))))))
              else returnT (Some (withReplayed result True)))))))"

definition loadCommissionCheckoutPlan ::
  "PreparedCommissionCheckout \<Rightarrow> db \<Rightarrow> thrown + (CommissionCheckoutPlan \<times> int \<times> FinancialAllocation list)" where
  "loadCommissionCheckoutPlan prepared s =
     rbind (loadCommissionCheckoutPaymentSnapshot (ci_orderPaymentId (pc_input prepared)) s) (\<lambda>(order, payment).
     rbind (loadCommissionCheckoutTerms (o_commissionTypeId order) s) (\<lambda>(workerId, price).
     rbind (loadCommissionCheckoutSlot (o_slotId order) s) (\<lambda>slot.
     rbind (findHolderId ''user'' (showInt (o_buyerId order)) s) (\<lambda>financialHolderId.
     rbind (assertLockedCommissionCheckoutTargets (pc_lockedTargets prepared)
              \<lparr>lt_buyerId = o_buyerId order, lt_slotId = o_slotId order,
               lt_financialHolderId = financialHolderId\<rparr>) (\<lambda>_.
     rbind (planCommissionCheckout \<lparr>cw_order = order, cw_payment = payment, cw_termsWorkerId = workerId,
              cw_termsPrice = price, cw_slot = slot, cw_holderId = financialHolderId\<rparr> (pc_input prepared)) (\<lambda>plan.
     rbind (loadAvailablePointWorld (rr_holderId (cp_financialRequest plan)) s) (\<lambda>(accountId, lots).
     rbind (planReservation lots (JInt (rr_amount (cp_financialRequest plan)))) (\<lambda>allocations.
     Inr (plan, accountId, allocations)))))))))"

definition applyCommissionCheckoutPlan ::
  "engine \<Rightarrow> CommissionCheckoutPlan \<Rightarrow> int \<Rightarrow> FinancialAllocation list \<Rightarrow> string \<Rightarrow> (int \<times> int) dbtx" where
  "applyCommissionCheckoutPlan eng plan accountId allocations actionId =
     bindT (applyCommissionPaymentReservation eng (cp_financialRequest plan) accountId allocations actionId) (\<lambda>reservation.
     bindT (applyCommissionCheckoutContractFormation eng (cp_contract plan)) (\<lambda>contractId.
     bindT (applyCommissionCheckoutPayment (cp_paidOrderId plan) (cp_paidPaymentId plan) (cp_paidFlowId plan)
              (r_id reservation)) (\<lambda>_.
     bindT (applyCommissionCheckoutSlotOccupation (cp_slotId plan) (cp_slotWorkerId plan)) (\<lambda>_.
     returnT (contractId, r_id reservation)))))"

definition performCommissionCheckout ::
  "engine \<Rightarrow> PreparedCommissionCheckout \<Rightarrow> CommissionCheckoutResult dbtx" where
  "performCommissionCheckout eng prepared =
     bindT (readT (loadCommissionCheckoutPlan prepared)) (\<lambda>(plan, accountId, allocations).
     bindT (startCommand eng (requestFor (cp_flowId plan) (cp_commandRequest plan) (pc_payloadHash prepared))) (\<lambda>command.
     bindT (createOperation eng (cm_flowId command) (cp_operationKind plan) (cm_id command)) (\<lambda>operation.
     bindT (createTransferAction eng (oper_id operation) (oper_flowId operation) PAY) (\<lambda>action.
     bindT (completeCommand (cm_id command) (oper_id operation)) (\<lambda>_.
     bindT (applyCommissionCheckoutPlan eng plan accountId allocations (tac_id action)) (\<lambda>(contractId, reservationId).
     bindT (assertCommandEffectCompleteness eng) (\<lambda>_.
     returnT \<lparr>co_orderId = cp_paidOrderId plan, co_orderPaymentId = cp_paidPaymentId plan,
        co_contractId = contractId, co_reservationId = reservationId,
        co_referenceId = formatTransactionReference (cm_flowKind command) (cm_flowId command),
        co_commandId = formatCommandId (cm_kind command) (cm_id command),
        co_operationId = formatOperationId (oper_kind operation) (oper_id operation),
        co_replayed = False\<rparr>)))))))"

definition executeCommissionCheckout ::
  "runtime \<Rightarrow> engine \<Rightarrow> PreparedCommissionCheckout \<Rightarrow> CommissionCheckoutResult dbtx" where
  "executeCommissionCheckout rt eng prepared =
     bindT (replayCompletedCommissionCheckout rt eng prepared) (\<lambda>replay.
     case replay of Some r \<Rightarrow> returnT r | None \<Rightarrow> performCommissionCheckout eng prepared)"

definition complete ::
  "runtime \<Rightarrow> engine \<Rightarrow> CommissionCheckoutInput \<Rightarrow> db \<Rightarrow> db \<Rightarrow> CommissionCheckoutResult dbtx" where
  "complete rt eng input s0 s1 =
     bindT (liftT (prepareCommissionCheckout rt input s0 s1)) (\<lambda>prepared.
     serialized (e_session eng) (pc_lockKeys prepared) (executeCommissionCheckout rt eng prepared) False)"

end
