(* ===== verification/CheckoutLaws.thy ===== *)
theory CheckoutLaws
  imports Checkout
begin

text \<open>
  What the checkout guarantees: which requests the core accepts, what a successful checkout
  writes, and that a repeated request is answered from the first one.
\<close>

section \<open>The decision\<close>

definition payable :: "CommissionCheckoutWorld \<Rightarrow> CommissionCheckoutInput \<Rightarrow> bool" where
  "payable w input \<longleftrightarrow>
     pf_id (cw_payment w) = ci_orderPaymentId input \<and> o_buyerId (cw_order w) = ci_actorId input \<and>
     o_state (cw_order w) = ''REQUESTED'' \<and> pf_state (cw_payment w) = ''PENDING'' \<and>
     sl_state (cw_slot w) = ''AVAILABLE'' \<and> cw_termsWorkerId w = sl_workerId (cw_slot w) \<and>
     o_flowId (cw_order w) = pf_flowId (cw_payment w) \<and>
     o_currency (cw_order w) = ''POINT'' \<and> pf_currency (cw_payment w) = ''POINT'' \<and>
     o_amount (cw_order w) = pf_amount (cw_payment w) \<and> o_amount (cw_order w) = cw_termsPrice w"

lemma planCommissionCheckout_eq_Inr:
  "planCommissionCheckout w input = Inr plan \<longleftrightarrow> payable w input \<and> plan = checkoutPlan w input"
  by (auto simp: planCommissionCheckout_def stateGuard_def assertCommissionCheckoutActor_def payable_def)

text \<open>a checkout is planned exactly for a payable world: the payment the request names, by
  its buyer, order and payment still open, an available slot of the type's worker, one flow,
  and one POINT amount for order, payment and price. The plan then reserves exactly that
  price. Every refusal is a client error: the actor error when someone else than the buyer of
  the named payment asks, else the state error.
\<close>

theorem planCommissionCheckout_accepts:
  "\<exists>message. planCommissionCheckout w input =
     (if payable w input then Inr (checkoutPlan w input)
      else if pf_id (cw_payment w) = ci_orderPaymentId input \<and> o_buyerId (cw_order w) \<noteq> ci_actorId input
      then Inl CommissionCheckoutActorError
      else Inl (CommissionCheckoutStateError message))"
  by (auto simp: planCommissionCheckout_def stateGuard_def assertCommissionCheckoutActor_def payable_def)

section \<open>A checkout that is carried out\<close>

text \<open>What the plan was computed from.\<close>

lemma loadCommissionCheckoutPlan_Inr:
  assumes "loadCommissionCheckoutPlan prepared s = Inr (plan, acct, as)"
  shows "\<exists>order payment slot workerId holderId account.
    findRow (\<lambda>p. pay_id p = ci_orderPaymentId (pc_input prepared)) (orderPayments s) = Some payment \<and>
    findRow (\<lambda>r. o_id r = pay_orderId payment \<and> o_flowId r = pay_flowId payment) (orders s) = Some order \<and>
    findRow (\<lambda>x. sl_id x = o_slotId order) (commissionSlots s) = Some slot \<and>
    payable \<lparr>cw_order = order, cw_payment = paymentFacts payment, cw_termsWorkerId = workerId,
      cw_termsPrice = o_amount order, cw_slot = slot, cw_holderId = holderId\<rparr> (pc_input prepared) \<and>
    plan = checkoutPlan \<lparr>cw_order = order, cw_payment = paymentFacts payment, cw_termsWorkerId = workerId,
      cw_termsPrice = o_amount order, cw_slot = slot, cw_holderId = holderId\<rparr> (pc_input prepared) \<and>
    findHolderId ''user'' (showInt (o_buyerId order)) s = Inr holderId \<and>
    accountOf holderId ''POINT'' ''AVAILABLE'' s = Some account \<and> acct = a_id account \<and>
    planReservation (map lotBalance (lotsOf account (\<lambda>l. 0 < l_remainingAmount l) s)) (JInt (o_amount order)) = Inr as \<and>
    takes_ok as \<and> (\<Sum>a\<leftarrow>as. fa_amount a) = o_amount order"
proof -
  from assms obtain order payment slot workerId price holderId account where
    p: "findRow (\<lambda>p. pay_id p = ci_orderPaymentId (pc_input prepared)) (orderPayments s) = Some payment"
      "findRow (\<lambda>r. o_id r = pay_orderId payment \<and> o_flowId r = pay_flowId payment) (orders s) = Some order"
      "findRow (\<lambda>x. sl_id x = o_slotId order) (commissionSlots s) = Some slot" and
    plan: "planCommissionCheckout \<lparr>cw_order = order, cw_payment = paymentFacts payment, cw_termsWorkerId = workerId,
      cw_termsPrice = price, cw_slot = slot, cw_holderId = holderId\<rparr> (pc_input prepared) = Inr plan" and
    holder: "findHolderId ''user'' (showInt (o_buyerId order)) s = Inr holderId" and
    acct: "accountOf (rr_holderId (cp_financialRequest plan)) ''POINT'' ''AVAILABLE'' s = Some account" "acct = a_id account" and
    res: "planReservation (map lotBalance (lotsOf account (\<lambda>l. 0 < l_remainingAmount l) s))
      (JInt (rr_amount (cp_financialRequest plan))) = Inr as"
    by (auto simp: loadCommissionCheckoutPlan_def read_simps)
  from plan have pay: "payable \<lparr>cw_order = order, cw_payment = paymentFacts payment, cw_termsWorkerId = workerId,
      cw_termsPrice = price, cw_slot = slot, cw_holderId = holderId\<rparr> (pc_input prepared)"
    and plan_eq: "plan = checkoutPlan \<lparr>cw_order = order, cw_payment = paymentFacts payment, cw_termsWorkerId = workerId,
      cw_termsPrice = price, cw_slot = slot, cw_holderId = holderId\<rparr> (pc_input prepared)"
    by (simp_all add: planCommissionCheckout_eq_Inr)
  have price: "price = o_amount order" and am: "rr_amount (cp_financialRequest plan) = o_amount order"
    and h: "rr_holderId (cp_financialRequest plan) = holderId"
    using pay by (auto simp: payable_def plan_eq checkoutPlan_def)
  note a = planReservation_allocations [OF res]
  have "takes_ok as" using a(4) by (fastforce simp: takes_ok_def)
  moreover have "(\<Sum>a\<leftarrow>as. fa_amount a) = o_amount order" using a(1) by (simp add: am)
  ultimately show ?thesis
    using p pay plan_eq holder acct res unfolding price am h by blast
qed

lemma loaded_plan:
  assumes "loadCommissionCheckoutPlan prepared s = Inr (plan, acct, as)"
  shows "\<exists>w. payable w (pc_input prepared) \<and> plan = checkoutPlan w (pc_input prepared) \<and>
    takes_ok as \<and> (\<Sum>a\<leftarrow>as. fa_amount a) = rr_amount (cp_financialRequest plan)"
proof -
  from loadCommissionCheckoutPlan_Inr [OF assms] obtain w where w: "payable w (pc_input prepared)"
    "plan = checkoutPlan w (pc_input prepared)" "takes_ok as" "(\<Sum>a\<leftarrow>as. fa_amount a) = o_amount (cw_order w)"
    by (metis CommissionCheckoutWorld.select_convs(1))
  from w(1,2) have "rr_amount (cp_financialRequest plan) = o_amount (cw_order w)"
    by (simp add: payable_def checkoutPlan_def)
  with w show ?thesis by auto
qed

text \<open>What carrying out the plan writes: the reservation, the contract, and the three guarded changes.\<close>

lemma applyPlan_effect:
  assumes app: "applyCommissionCheckoutPlan eng plan acct as ai s = Inr ((ki, ri), s')"
    and fin: "fin_ok s" and as: "takes_ok as" "(\<Sum>a\<leftarrow>as. fa_amount a) = rr_amount (cp_financialRequest plan)"
    and fresh: "engine_fresh eng"
    and pk: "rr_currency (cp_financialRequest plan) = ''POINT''" "rr_flowId (cp_financialRequest plan) = cp_flowId plan"
  shows "\<exists>ei ti. fin_ok s' \<and>
    (\<forall>a \<in> set as. \<exists>l \<in> set (financialLots s). l_id l = fa_lotId a \<and> l_accountId l = acct) \<and>
    ri \<notin> r_id ` set (financialReservations s) \<and>
    countWhere (\<lambda>p. pay_id p = cp_paidPaymentId plan \<and> pay_orderId p = cp_paidOrderId plan \<and>
      pay_state p = ''PENDING'') (orderPayments s) = 1 \<and>
    countWhere (\<lambda>r. o_id r = cp_paidOrderId plan \<and> o_state r = ''REQUESTED'') (orders s) = 1 \<and>
    countWhere (\<lambda>x. sl_id x = cp_slotId plan \<and> sl_workerId x = cp_slotWorkerId plan \<and>
      sl_state x = ''AVAILABLE'') (commissionSlots s) = 1 \<and>
    s' = s\<lparr>
      financialLots := map (\<lambda>l. lessLot (drawnFrom (l_id l) as) l) (financialLots s),
      financialReservations := financialReservations s @ [reservationOf (cp_financialRequest plan) ri],
      financialAccounts := financialAccounts s @ [escrowOf ''POINT'' ''ESCROW'' ri ei],
      financialTransfers := financialTransfers s @ [transferRowOf ri (cp_flowId plan) ''POINT'' acct ei
        (rr_amount (cp_financialRequest plan)) ai ti],
      financialTransferAllocations := financialTransferAllocations s @ map (allocRow ti acct ''POINT'') as,
      contracts := contracts s @ [contractOf (cp_contract plan) ki],
      orderPayments := updateWhere (\<lambda>p. pay_id p = cp_paidPaymentId plan \<and> pay_orderId p = cp_paidOrderId plan \<and>
        pay_state p = ''PENDING'') (\<lambda>p. p\<lparr>pay_state := ''PAID''\<rparr>) (orderPayments s),
      orders := updateWhere (\<lambda>r. o_id r = cp_paidOrderId plan \<and> o_state r = ''REQUESTED'')
        (\<lambda>r. r\<lparr>o_state := ''PAID''\<rparr>) (orders s),
      orderFinancialLinks := orderFinancialLinks s @
        [\<lparr>ln_orderPaymentId = cp_paidPaymentId plan, ln_flowId = cp_paidFlowId plan, ln_reservationId = ri\<rparr>],
      commissionSlots := updateWhere (\<lambda>x. sl_id x = cp_slotId plan \<and> sl_workerId x = cp_slotWorkerId plan \<and>
        sl_state x = ''AVAILABLE'') (\<lambda>x. x\<lparr>sl_state := ''OCCUPIED''\<rparr>) (commissionSlots s)\<rparr>"
proof -
  from app obtain rv s5 where
    reserve: "applyCommissionPaymentReservation eng (cp_financialRequest plan) acct as ai s = Inr (rv, s5)" and
    rest: "bindT (applyCommissionCheckoutContractFormation eng (cp_contract plan)) (\<lambda>contractId.
       bindT (applyCommissionCheckoutPayment (cp_paidOrderId plan) (cp_paidPaymentId plan) (cp_paidFlowId plan)
              (r_id rv)) (\<lambda>_.
       bindT (applyCommissionCheckoutSlotOccupation (cp_slotId plan) (cp_slotWorkerId plan)) (\<lambda>_.
       returnT (contractId, r_id rv)))) s5 = Inr ((ki, ri), s')"
    by (auto simp: applyCommissionCheckoutPlan_def bindT_eq_Inr)
  from commissionReservation_effect [OF reserve fin as fresh] obtain rj ei ti where
    fin5: "fin_ok s5" and own: "\<forall>a \<in> set as. \<exists>l \<in> set (financialLots s). l_id l = fa_lotId a \<and> l_accountId l = acct"
    and rv: "rv = reservationOf (cp_financialRequest plan) rj" and rj: "rj \<notin> r_id ` set (financialReservations s)"
    and s5: "s5 = s\<lparr>financialLots := map (\<lambda>l. lessLot (drawnFrom (l_id l) as) l) (financialLots s),
         financialReservations := financialReservations s @ [rv],
         financialAccounts := financialAccounts s @ [escrowOf ''POINT'' ''ESCROW'' rj ei],
         financialTransfers := financialTransfers s @
           [transferRowOf rj (cp_flowId plan) ''POINT'' acct ei (rr_amount (cp_financialRequest plan)) ai ti],
         financialTransferAllocations := financialTransferAllocations s @ map (allocRow ti acct ''POINT'') as\<rparr>"
    unfolding pk by blast
  have frames5: "orderPayments s5 = orderPayments s" "orders s5 = orders s" "commissionSlots s5 = commissionSlots s"
    "contracts s5 = contracts s" "orderFinancialLinks s5 = orderFinancialLinks s"
    by (simp_all add: s5)
  from rest have counts:
    "countWhere (\<lambda>p. pay_id p = cp_paidPaymentId plan \<and> pay_orderId p = cp_paidOrderId plan \<and>
      pay_state p = ''PENDING'') (orderPayments s) = 1"
    "countWhere (\<lambda>r. o_id r = cp_paidOrderId plan \<and> o_state r = ''REQUESTED'') (orders s) = 1"
    "countWhere (\<lambda>x. sl_id x = cp_slotId plan \<and> sl_workerId x = cp_slotWorkerId plan \<and>
      sl_state x = ''AVAILABLE'') (commissionSlots s) = 1"
    and ri: "ri = rj" and s': "s' = s5\<lparr>
      contracts := contracts s @ [contractOf (cp_contract plan) ki],
      orderPayments := updateWhere (\<lambda>p. pay_id p = cp_paidPaymentId plan \<and> pay_orderId p = cp_paidOrderId plan \<and>
        pay_state p = ''PENDING'') (\<lambda>p. p\<lparr>pay_state := ''PAID''\<rparr>) (orderPayments s),
      orders := updateWhere (\<lambda>r. o_id r = cp_paidOrderId plan \<and> o_state r = ''REQUESTED'')
        (\<lambda>r. r\<lparr>o_state := ''PAID''\<rparr>) (orders s),
      orderFinancialLinks := orderFinancialLinks s @
        [\<lparr>ln_orderPaymentId = cp_paidPaymentId plan, ln_flowId = cp_paidFlowId plan, ln_reservationId = rj\<rparr>],
      commissionSlots := updateWhere (\<lambda>x. sl_id x = cp_slotId plan \<and> sl_workerId x = cp_slotWorkerId plan \<and>
        sl_state x = ''AVAILABLE'') (\<lambda>x. x\<lparr>sl_state := ''OCCUPIED''\<rparr>) (commissionSlots s)\<rparr>"
    by (auto simp: tx_simps applyCommissionCheckoutPayment_def applyCommissionCheckoutSlotOccupation_def
        putPayments_def putOrders_def putSlots_def frames5 rv)
  have "fin_ok s'" using fin5 by (simp add: fin_ok_def s')
  then show ?thesis
    using own rj counts unfolding ri
    by (intro exI [of _ ei] exI [of _ ti]) (simp add: s' s5 rv)
qed

text \<open>Every table a checkout that is carried out writes, and what it writes.\<close>

lemma perform_effect:
  assumes ok: "performCommissionCheckout eng prepared s = Inr (r, s')"
    and fin: "fin_ok s" and fresh: "engine_fresh eng"
  shows "\<exists>plan acct as ci oi ct ai ri ei ti ki.
    loadCommissionCheckoutPlan prepared s = Inr (plan, acct, as) \<and> fin_ok s' \<and>
    (\<forall>a \<in> set as. \<exists>l \<in> set (financialLots s). l_id l = fa_lotId a \<and> l_accountId l = acct) \<and>
    ci \<notin> cm_id ` set (financialCommandRuns s) \<and> oi \<notin> oper_id ` set (financialOperations s) \<and> oi \<noteq> [] \<and>
    ri \<notin> r_id ` set (financialReservations s) \<and>
    countWhere (\<lambda>p. pay_id p = cp_paidPaymentId plan \<and> pay_orderId p = cp_paidOrderId plan \<and>
      pay_state p = ''PENDING'') (orderPayments s) = 1 \<and>
    countWhere (\<lambda>r. o_id r = cp_paidOrderId plan \<and> o_state r = ''REQUESTED'') (orders s) = 1 \<and>
    countWhere (\<lambda>x. sl_id x = cp_slotId plan \<and> sl_workerId x = cp_slotWorkerId plan \<and>
      sl_state x = ''AVAILABLE'') (commissionSlots s) = 1 \<and>
    r = \<lparr>co_orderId = cp_paidOrderId plan, co_orderPaymentId = cp_paidPaymentId plan, co_contractId = ki,
      co_reservationId = ri, co_referenceId = formatTransactionReference COMMISSION (cp_flowId plan),
      co_commandId = formatCommandId PAY ci, co_operationId = formatOperationId PAY oi, co_replayed = False\<rparr> \<and>
    s' = s\<lparr>
      financialCommandRuns := financialCommandRuns s @
        [commandOf (requestFor (cp_flowId plan) (cp_commandRequest plan) (pc_payloadHash prepared)) ci ct (Some oi)],
      financialOperations := financialOperations s @
        [\<lparr>oper_id = oi, oper_flowId = cp_flowId plan, oper_kind = PAY, oper_commandId = ci\<rparr>],
      financialTransferActions := financialTransferActions s @
        [\<lparr>tac_id = ai, tac_flowId = cp_flowId plan, tac_operationId = oi, tac_operationKind = PAY\<rparr>],
      financialLots := map (\<lambda>l. lessLot (drawnFrom (l_id l) as) l) (financialLots s),
      financialReservations := financialReservations s @ [reservationOf (cp_financialRequest plan) ri],
      financialAccounts := financialAccounts s @ [escrowOf ''POINT'' ''ESCROW'' ri ei],
      financialTransfers := financialTransfers s @ [transferRowOf ri (cp_flowId plan) ''POINT'' acct ei
        (rr_amount (cp_financialRequest plan)) ai ti],
      financialTransferAllocations := financialTransferAllocations s @ map (allocRow ti acct ''POINT'') as,
      contracts := contracts s @ [contractOf (cp_contract plan) ki],
      orderPayments := updateWhere (\<lambda>p. pay_id p = cp_paidPaymentId plan \<and> pay_orderId p = cp_paidOrderId plan \<and>
        pay_state p = ''PENDING'') (\<lambda>p. p\<lparr>pay_state := ''PAID''\<rparr>) (orderPayments s),
      orders := updateWhere (\<lambda>r. o_id r = cp_paidOrderId plan \<and> o_state r = ''REQUESTED'')
        (\<lambda>r. r\<lparr>o_state := ''PAID''\<rparr>) (orders s),
      orderFinancialLinks := orderFinancialLinks s @
        [\<lparr>ln_orderPaymentId = cp_paidPaymentId plan, ln_flowId = cp_paidFlowId plan, ln_reservationId = ri\<rparr>],
      commissionSlots := updateWhere (\<lambda>x. sl_id x = cp_slotId plan \<and> sl_workerId x = cp_slotWorkerId plan \<and>
        sl_state x = ''AVAILABLE'') (\<lambda>x. x\<lparr>sl_state := ''OCCUPIED''\<rparr>) (commissionSlots s)\<rparr>"
proof -
  let ?h = "pc_payloadHash prepared"
  from ok obtain plan acct as where load: "loadCommissionCheckoutPlan prepared s = Inr (plan, acct, as)"
    by (auto simp: performCommissionCheckout_def tx_simps)
  let ?req = "requestFor (cp_flowId plan) (cp_commandRequest plan) ?h"
  from loaded_plan [OF load] obtain w where plan: "plan = checkoutPlan w (pc_input prepared)"
    and as: "takes_ok as" "(\<Sum>a\<leftarrow>as. fa_amount a) = rr_amount (cp_financialRequest plan)" by blast
  have pk: "cp_operationKind plan = PAY" "rr_currency (cp_financialRequest plan) = ''POINT''"
    "rr_flowId (cp_financialRequest plan) = cp_flowId plan" "cp_paidFlowId plan = cp_flowId plan"
    "cpl_kind (cp_commandRequest plan) = PAY" "cpl_flowKind (cp_commandRequest plan) = COMMISSION"
    by (simp_all add: plan checkoutPlan_def planCommissionCheckoutCommand_def)
  define ci where "ci = e_uuid eng ''FinancialCommandRun'' s"
  define ct where "ct = e_now eng s"
  define s1 where "s1 = s\<lparr>financialCommandRuns := financialCommandRuns s @ [commandOf ?req ci ct None]\<rparr>"
  define oi where "oi = e_uuid eng ''FinancialOperation'' s1"
  define op where "op = \<lparr>oper_id = oi, oper_flowId = cp_flowId plan, oper_kind = PAY, oper_commandId = ci\<rparr>"
  define s2 where "s2 = s1\<lparr>financialOperations := financialOperations s1 @ [op]\<rparr>"
  define ai where "ai = e_uuid eng ''FinancialTransferAction'' s2"
  define s3 where "s3 = s2\<lparr>financialTransferActions := financialTransferActions s2 @
    [\<lparr>tac_id = ai, tac_flowId = cp_flowId plan, tac_operationId = oi, tac_operationKind = PAY\<rparr>]\<rparr>"
  define s4 where "s4 = s3\<lparr>financialCommandRuns := updateWhere (\<lambda>x. cm_id x = ci)
    (\<lambda>x. x\<lparr>cm_resultOperationId := Some oi\<rparr>) (financialCommandRuns s3)\<rparr>"
  have fr: "ci \<notin> cm_id ` set (financialCommandRuns s)" "oi \<notin> oper_id ` set (financialOperations s1)" "oi \<noteq> []"
    unfolding ci_def oi_def using fresh by (auto simp only: engine_fresh_def)
  have "updateWhere (\<lambda>x. cm_id x = ci) (\<lambda>x. x\<lparr>cm_resultOperationId := Some oi\<rparr>) (financialCommandRuns s) =
      financialCommandRuns s"
    by (rule updateWhere_id) (use fr(1) in auto)
  then have runs: "s4 = s3\<lparr>financialCommandRuns := financialCommandRuns s @ [commandOf ?req ci ct (Some oi)]\<rparr>"
    by (simp add: s4_def s3_def s2_def s1_def updateWhere_append) (simp add: updateWhere_def)
  from ok load obtain cmd t1 oper t2 act t3 t4 contractId reservationId s9 where
    st: "startCommand eng ?req s = Inr (cmd, t1)" and
    cop: "createOperation eng (cm_flowId cmd) (cp_operationKind plan) (cm_id cmd) t1 = Inr (oper, t2)" and
    cta: "createTransferAction eng (oper_id oper) (oper_flowId oper) PAY t2 = Inr (act, t3)" and
    cc: "completeCommand (cm_id cmd) (oper_id oper) t3 = Inr ((), t4)" and
    app': "applyCommissionCheckoutPlan eng plan acct as (tac_id act) t4 = Inr ((contractId, reservationId), s9)" and
    shape: "assertCommandEffectCompleteness eng s9 = Inr ((), s')" and
    r: "r = \<lparr>co_orderId = cp_paidOrderId plan, co_orderPaymentId = cp_paidPaymentId plan,
      co_contractId = contractId, co_reservationId = reservationId,
      co_referenceId = formatTransactionReference (cm_flowKind cmd) (cm_flowId cmd),
      co_commandId = formatCommandId (cm_kind cmd) (cm_id cmd),
      co_operationId = formatOperationId (oper_kind oper) (oper_id oper), co_replayed = False\<rparr>"
    by (auto simp: performCommissionCheckout_def bindT_eq_Inr readT_eq_Inr returnT_eq_Inr)
  from st have cmd: "cmd = commandOf ?req ci ct None" and t1: "t1 = s1"
    by (simp_all add: startCommand_eq_Inr ci_def ct_def s1_def)
  from cop have oper: "oper = op" and t2: "t2 = s2"
    by (simp_all add: createOperation_eq_Inr cmd t1 pk oi_def op_def s2_def)
  from cta have act: "tac_id act = ai" and t3: "t3 = s3"
    by (simp_all add: createTransferAction_eq_Inr oper op_def t2 ai_def s3_def)
  from cc have t4: "t4 = s4" by (simp add: completeCommand_eq_Inr cmd oper op_def t3 s4_def)
  have app: "applyCommissionCheckoutPlan eng plan acct as ai s4 = Inr ((contractId, reservationId), s9)"
    using app' by (simp add: act t4)
  have fin9: "s' = s9" "r = \<lparr>co_orderId = cp_paidOrderId plan, co_orderPaymentId = cp_paidPaymentId plan,
      co_contractId = contractId, co_reservationId = reservationId,
      co_referenceId = formatTransactionReference COMMISSION (cp_flowId plan),
      co_commandId = formatCommandId PAY ci, co_operationId = formatOperationId PAY oi, co_replayed = False\<rparr>"
    using shape by (simp_all add: assertCommandEffectCompleteness_eq_Inr r cmd oper op_def pk)
  have fin4: "fin_ok s4" using fin by (simp add: fin_ok_def runs s3_def s2_def s1_def)
  from applyPlan_effect [OF app fin4 as fresh pk(2,3)] obtain ei ti where
    e: "fin_ok s9" "\<forall>a \<in> set as. \<exists>l \<in> set (financialLots s4). l_id l = fa_lotId a \<and> l_accountId l = acct"
      "reservationId \<notin> r_id ` set (financialReservations s4)" and
    counts: "countWhere (\<lambda>p. pay_id p = cp_paidPaymentId plan \<and> pay_orderId p = cp_paidOrderId plan \<and>
        pay_state p = ''PENDING'') (orderPayments s4) = 1"
      "countWhere (\<lambda>r. o_id r = cp_paidOrderId plan \<and> o_state r = ''REQUESTED'') (orders s4) = 1"
      "countWhere (\<lambda>x. sl_id x = cp_slotId plan \<and> sl_workerId x = cp_slotWorkerId plan \<and>
        sl_state x = ''AVAILABLE'') (commissionSlots s4) = 1" and
    s9: "s9 = s4\<lparr>
      financialLots := map (\<lambda>l. lessLot (drawnFrom (l_id l) as) l) (financialLots s4),
      financialReservations := financialReservations s4 @ [reservationOf (cp_financialRequest plan) reservationId],
      financialAccounts := financialAccounts s4 @ [escrowOf ''POINT'' ''ESCROW'' reservationId ei],
      financialTransfers := financialTransfers s4 @ [transferRowOf reservationId (cp_flowId plan) ''POINT'' acct ei
        (rr_amount (cp_financialRequest plan)) ai ti],
      financialTransferAllocations := financialTransferAllocations s4 @ map (allocRow ti acct ''POINT'') as,
      contracts := contracts s4 @ [contractOf (cp_contract plan) contractId],
      orderPayments := updateWhere (\<lambda>p. pay_id p = cp_paidPaymentId plan \<and> pay_orderId p = cp_paidOrderId plan \<and>
        pay_state p = ''PENDING'') (\<lambda>p. p\<lparr>pay_state := ''PAID''\<rparr>) (orderPayments s4),
      orders := updateWhere (\<lambda>r. o_id r = cp_paidOrderId plan \<and> o_state r = ''REQUESTED'')
        (\<lambda>r. r\<lparr>o_state := ''PAID''\<rparr>) (orders s4),
      orderFinancialLinks := orderFinancialLinks s4 @
        [\<lparr>ln_orderPaymentId = cp_paidPaymentId plan, ln_flowId = cp_paidFlowId plan, ln_reservationId = reservationId\<rparr>],
      commissionSlots := updateWhere (\<lambda>x. sl_id x = cp_slotId plan \<and> sl_workerId x = cp_slotWorkerId plan \<and>
        sl_state x = ''AVAILABLE'') (\<lambda>x. x\<lparr>sl_state := ''OCCUPIED''\<rparr>) (commissionSlots s4)\<rparr>"
    by blast
  have s4: "s4 = s\<lparr>financialCommandRuns := financialCommandRuns s @ [commandOf ?req ci ct (Some oi)],
      financialOperations := financialOperations s @ [op],
      financialTransferActions := financialTransferActions s @
        [\<lparr>tac_id = ai, tac_flowId = cp_flowId plan, tac_operationId = oi, tac_operationKind = PAY\<rparr>]\<rparr>"
    by (simp add: runs s3_def s2_def s1_def)
  have tables: "financialLots s4 = financialLots s" "financialReservations s4 = financialReservations s"
    "orderPayments s4 = orderPayments s" "orders s4 = orders s" "commissionSlots s4 = commissionSlots s"
    "financialAccounts s4 = financialAccounts s" "financialTransfers s4 = financialTransfers s"
    "financialTransferAllocations s4 = financialTransferAllocations s" "contracts s4 = contracts s"
    "orderFinancialLinks s4 = orderFinancialLinks s"
    by (simp_all add: s4)
  have oi: "oi \<notin> oper_id ` set (financialOperations s)" using fr(2) by (simp add: s1_def)
  note written = trans [OF fin9(1) s9 [unfolded tables]]
  show ?thesis
    by (rule exI [of _ plan], rule exI [of _ acct], rule exI [of _ as], rule exI [of _ ci],
        rule exI [of _ oi], rule exI [of _ ct], rule exI [of _ ai], rule exI [of _ reservationId],
        rule exI [of _ ei], rule exI [of _ ti], rule exI [of _ contractId], intro conjI)
      (fact load fr(1,3) oi fin9(2) e [unfolded tables] e(1) [folded fin9(1)] counts [unfolded tables] |
       rule trans [OF written], simp add: s4 op_def)+
qed

text \<open>The same, table by table.\<close>

lemma performE:
  assumes perf: "performCommissionCheckout eng prepared s = Inr (r, s')"
    and fin: "fin_ok s" and fresh: "engine_fresh eng"
  obtains plan acct as ci oi ct ai ri ei ti ki where
    "loadCommissionCheckoutPlan prepared s = Inr (plan, acct, as)"
    "fin_ok s'"
    "(\<forall>a \<in> set as. \<exists>l \<in> set (financialLots s). l_id l = fa_lotId a \<and> l_accountId l = acct)"
    "ci \<notin> cm_id ` set (financialCommandRuns s)"
    "oi \<notin> oper_id ` set (financialOperations s)"
    "oi \<noteq> []"
    "ri \<notin> r_id ` set (financialReservations s)"
    "countWhere (\<lambda>p. pay_id p = cp_paidPaymentId plan \<and> pay_orderId p = cp_paidOrderId plan \<and>
      pay_state p = ''PENDING'') (orderPayments s) = 1"
    "countWhere (\<lambda>r. o_id r = cp_paidOrderId plan \<and> o_state r = ''REQUESTED'') (orders s) = 1"
    "countWhere (\<lambda>x. sl_id x = cp_slotId plan \<and> sl_workerId x = cp_slotWorkerId plan \<and>
      sl_state x = ''AVAILABLE'') (commissionSlots s) = 1"
    "r = \<lparr>co_orderId = cp_paidOrderId plan, co_orderPaymentId = cp_paidPaymentId plan, co_contractId = ki,
      co_reservationId = ri, co_referenceId = formatTransactionReference COMMISSION (cp_flowId plan),
      co_commandId = formatCommandId PAY ci, co_operationId = formatOperationId PAY oi, co_replayed = False\<rparr>"
    "financialCommandRuns s' = financialCommandRuns s @
        [commandOf (requestFor (cp_flowId plan) (cp_commandRequest plan) (pc_payloadHash prepared)) ci ct (Some oi)]"
    "financialOperations s' = financialOperations s @
        [\<lparr>oper_id = oi, oper_flowId = cp_flowId plan, oper_kind = PAY, oper_commandId = ci\<rparr>]"
    "financialTransferActions s' = financialTransferActions s @
        [\<lparr>tac_id = ai, tac_flowId = cp_flowId plan, tac_operationId = oi, tac_operationKind = PAY\<rparr>]"
    "financialLots s' = map (\<lambda>l. lessLot (drawnFrom (l_id l) as) l) (financialLots s)"
    "financialReservations s' = financialReservations s @ [reservationOf (cp_financialRequest plan) ri]"
    "financialAccounts s' = financialAccounts s @ [escrowOf ''POINT'' ''ESCROW'' ri ei]"
    "financialTransfers s' = financialTransfers s @ [transferRowOf ri (cp_flowId plan) ''POINT'' acct ei
        (rr_amount (cp_financialRequest plan)) ai ti]"
    "financialTransferAllocations s' = financialTransferAllocations s @ map (allocRow ti acct ''POINT'') as"
    "contracts s' = contracts s @ [contractOf (cp_contract plan) ki]"
    "orderPayments s' = updateWhere (\<lambda>p. pay_id p = cp_paidPaymentId plan \<and> pay_orderId p = cp_paidOrderId plan \<and>
        pay_state p = ''PENDING'') (\<lambda>p. p\<lparr>pay_state := ''PAID''\<rparr>) (orderPayments s)"
    "orders s' = updateWhere (\<lambda>r. o_id r = cp_paidOrderId plan \<and> o_state r = ''REQUESTED'')
        (\<lambda>r. r\<lparr>o_state := ''PAID''\<rparr>) (orders s)"
    "orderFinancialLinks s' = orderFinancialLinks s @
        [\<lparr>ln_orderPaymentId = cp_paidPaymentId plan, ln_flowId = cp_paidFlowId plan, ln_reservationId = ri\<rparr>]"
    "commissionSlots s' = updateWhere (\<lambda>x. sl_id x = cp_slotId plan \<and> sl_workerId x = cp_slotWorkerId plan \<and>
        sl_state x = ''AVAILABLE'') (\<lambda>x. x\<lparr>sl_state := ''OCCUPIED''\<rparr>) (commissionSlots s)"
    "s' = s\<lparr>financialCommandRuns := financialCommandRuns s', financialOperations :=
       financialOperations s', financialTransferActions := financialTransferActions s', financialLots :=
       financialLots s', financialReservations := financialReservations s', financialAccounts :=
       financialAccounts s', financialTransfers := financialTransfers s', financialTransferAllocations :=
       financialTransferAllocations s', contracts := contracts s', orderPayments := orderPayments s',
       orders := orders s', orderFinancialLinks := orderFinancialLinks s', commissionSlots :=
       commissionSlots s'\<rparr>"
proof -
  from perform_effect [OF perf fin fresh] obtain plan acct as ci oi ct ai ri ei ti ki where e:
    "loadCommissionCheckoutPlan prepared s = Inr (plan, acct, as)"
    "fin_ok s'"
    "(\<forall>a \<in> set as. \<exists>l \<in> set (financialLots s). l_id l = fa_lotId a \<and> l_accountId l = acct)"
    "ci \<notin> cm_id ` set (financialCommandRuns s)"
    "oi \<notin> oper_id ` set (financialOperations s)"
    "oi \<noteq> []"
    "ri \<notin> r_id ` set (financialReservations s)"
    "countWhere (\<lambda>p. pay_id p = cp_paidPaymentId plan \<and> pay_orderId p = cp_paidOrderId plan \<and>
      pay_state p = ''PENDING'') (orderPayments s) = 1"
    "countWhere (\<lambda>r. o_id r = cp_paidOrderId plan \<and> o_state r = ''REQUESTED'') (orders s) = 1"
    "countWhere (\<lambda>x. sl_id x = cp_slotId plan \<and> sl_workerId x = cp_slotWorkerId plan \<and>
      sl_state x = ''AVAILABLE'') (commissionSlots s) = 1"
    "r = \<lparr>co_orderId = cp_paidOrderId plan, co_orderPaymentId = cp_paidPaymentId plan, co_contractId = ki,
      co_reservationId = ri, co_referenceId = formatTransactionReference COMMISSION (cp_flowId plan),
      co_commandId = formatCommandId PAY ci, co_operationId = formatOperationId PAY oi, co_replayed = False\<rparr>"
    and s': "s' = s\<lparr>
      financialCommandRuns := financialCommandRuns s @
        [commandOf (requestFor (cp_flowId plan) (cp_commandRequest plan) (pc_payloadHash prepared)) ci ct (Some oi)],
      financialOperations := financialOperations s @
        [\<lparr>oper_id = oi, oper_flowId = cp_flowId plan, oper_kind = PAY, oper_commandId = ci\<rparr>],
      financialTransferActions := financialTransferActions s @
        [\<lparr>tac_id = ai, tac_flowId = cp_flowId plan, tac_operationId = oi, tac_operationKind = PAY\<rparr>],
      financialLots := map (\<lambda>l. lessLot (drawnFrom (l_id l) as) l) (financialLots s),
      financialReservations := financialReservations s @ [reservationOf (cp_financialRequest plan) ri],
      financialAccounts := financialAccounts s @ [escrowOf ''POINT'' ''ESCROW'' ri ei],
      financialTransfers := financialTransfers s @ [transferRowOf ri (cp_flowId plan) ''POINT'' acct ei
        (rr_amount (cp_financialRequest plan)) ai ti],
      financialTransferAllocations := financialTransferAllocations s @ map (allocRow ti acct ''POINT'') as,
      contracts := contracts s @ [contractOf (cp_contract plan) ki],
      orderPayments := updateWhere (\<lambda>p. pay_id p = cp_paidPaymentId plan \<and> pay_orderId p = cp_paidOrderId plan \<and>
        pay_state p = ''PENDING'') (\<lambda>p. p\<lparr>pay_state := ''PAID''\<rparr>) (orderPayments s),
      orders := updateWhere (\<lambda>r. o_id r = cp_paidOrderId plan \<and> o_state r = ''REQUESTED'')
        (\<lambda>r. r\<lparr>o_state := ''PAID''\<rparr>) (orders s),
      orderFinancialLinks := orderFinancialLinks s @
        [\<lparr>ln_orderPaymentId = cp_paidPaymentId plan, ln_flowId = cp_paidFlowId plan, ln_reservationId = ri\<rparr>],
      commissionSlots := updateWhere (\<lambda>x. sl_id x = cp_slotId plan \<and> sl_workerId x = cp_slotWorkerId plan \<and>
        sl_state x = ''AVAILABLE'') (\<lambda>x. x\<lparr>sl_state := ''OCCUPIED''\<rparr>) (commissionSlots s)\<rparr>"
    by blast
  show thesis by (rule that [where ai = ai and ei = ei and ti = ti and ct = ct, OF e]) (simp_all add: s')
qed

section \<open>The use case\<close>

lemma execute_cases:
  "executeCommissionCheckout rt eng prepared s = Inr (r, s') \<longleftrightarrow>
     replayCompletedCommissionCheckout rt eng prepared s = Inr (Some r, s') \<or>
     (\<exists>s1. replayCompletedCommissionCheckout rt eng prepared s = Inr (None, s1) \<and>
        performCommissionCheckout eng prepared s1 = Inr (r, s'))"
  by (auto simp: executeCommissionCheckout_def bindT_eq_Inr returnT_eq_Inr split: option.splits)

lemma co_replayed_withReplayed [simp]: "co_replayed (withReplayed x b) = b"
  by (simp add: withReplayed_def CommissionCheckoutEconomicResult.extend_def)

lemma requireCompletedCommand_eq_Inr: "requireCompletedCommand i = Inr j \<longleftrightarrow> completedCommand i \<and> j = i"
  by (auto simp: requireCompletedCommand_def completedCommand_def)

text \<open>The three ways the look for an earlier checkout may end.\<close>

lemma replay_cases:
  fixes prepared :: PreparedCommissionCheckout
  defines "req \<equiv> planCommissionCheckoutCommand (pc_input prepared)"
  assumes ok: "replayCompletedCommissionCheckout rt eng prepared s = Inr (x, s')"
  obtains (Stored) stored buyer result where
      "findCommand (cpl_principalId req) (cpl_kind req) (cpl_idempotencyKey req) s = Some stored"
      "assertCommissionCheckoutReplayIdentity stored req (pc_payloadHash prepared) = Inr ()"
      "completedCommand stored"
      "loadCompletedCommissionCheckoutResult rt stored s = Inr (buyer, result)"
      "x = Some (withReplayed result True)" "s' = s"
    | (Alias) identity result ci where
      "findCommand (cpl_principalId req) (cpl_kind req) (cpl_idempotencyKey req) s = None"
      "findCompletedCommandBySubject (cpl_flowKind req) (cpl_subjectNamespace req) (cpl_subjectKey req)
         (cpl_kind req) s = Some identity"
      "completedCommand identity"
      "loadCompletedCommissionCheckoutResult rt identity s = Inr (ci_actorId (pc_input prepared), result)"
      "ci = commandOf (requestFor (sc_flowId identity) req (pc_payloadHash prepared))
         (e_uuid eng ''FinancialCommandRun'' s) (e_now eng s) (Some (the (sc_operationDbId identity)))"
      "s' = s\<lparr>financialCommandRuns := financialCommandRuns s @ [ci]\<rparr>"
      "x = Some (withReplayed (result\<lparr>co_commandId := formatCommandId (cm_kind ci) (cm_id ci)\<rparr>) True)"
    | (Nothing) "findCommand (cpl_principalId req) (cpl_kind req) (cpl_idempotencyKey req) s = None"
      "findCompletedCommandBySubject (cpl_flowKind req) (cpl_subjectNamespace req) (cpl_subjectKey req)
         (cpl_kind req) s = None"
      "x = None" "s' = s"
proof -
  show thesis
  proof (cases "findCommand (cpl_principalId req) (cpl_kind req) (cpl_idempotencyKey req) s")
    case (Some stored)
    with ok show thesis
      by (auto simp: replayCompletedCommissionCheckout_def req_def [symmetric] tx_simps Let_def
          requireCompletedCommand_eq_Inr intro!: Stored [of stored])
  next
    case None
    show thesis
    proof (cases "findCompletedCommandBySubject (cpl_flowKind req) (cpl_subjectNamespace req)
        (cpl_subjectKey req) (cpl_kind req) s")
      case (Some identity)
      with ok None show thesis
        by (auto simp: replayCompletedCommissionCheckout_def req_def [symmetric] tx_simps Let_def
            planCommissionCheckoutStart_def assertCommissionCheckoutActor_def
            requireCompletedCommand_eq_Inr split: if_splits intro!: Alias [of identity])
    next
      case no_payment: None
      with ok None show thesis
        by (auto simp: replayCompletedCommissionCheckout_def req_def [symmetric] tx_simps Let_def
            planCommissionCheckoutStart_def intro!: Nothing)
    qed
  qed
qed

lemma complete_success:
  assumes "session_frame (e_session eng)" "complete rt eng input s0 s1 s = Inr (r, s')"
  shows "\<exists>prepared. pc_input prepared = input \<and>
    pc_payloadHash prepared = hashCommissionCheckoutPayload rt input \<and>
    executeCommissionCheckout rt eng prepared s = Inr (r, s')"
proof -
  from assms(2) obtain prepared where p: "prepareCommissionCheckout rt input s0 s1 = Inr prepared"
    and e: "serialized (e_session eng) (pc_lockKeys prepared) (executeCommissionCheckout rt eng prepared) False s = Inr (r, s')"
    by (auto simp: complete_def tx_simps)
  from p have "pc_input prepared = input" "pc_payloadHash prepared = hashCommissionCheckoutPayload rt input"
    by (auto simp: prepareCommissionCheckout_def read_simps)
  with serialized_success [OF assms(1) e] show ?thesis by blast
qed

lemma replayed_iff:
  assumes ok: "executeCommissionCheckout rt eng prepared s = Inr (r, s')"
  shows "co_replayed r \<or> (performCommissionCheckout eng prepared s = Inr (r, s') \<and>
    replayCompletedCommissionCheckout rt eng prepared s = Inr (None, s))"
  using ok [unfolded execute_cases]
proof (elim disjE exE conjE)
  assume "replayCompletedCommissionCheckout rt eng prepared s = Inr (Some r, s')"
  then show ?thesis by (cases rule: replay_cases) auto
next
  fix s1
  assume a: "replayCompletedCommissionCheckout rt eng prepared s = Inr (None, s1)"
    and b: "performCommissionCheckout eng prepared s1 = Inr (r, s')"
  from a have "s1 = s" by (cases rule: replay_cases) auto
  with a b show ?thesis by simp
qed

lemma performed_result: "performCommissionCheckout eng prepared s = Inr (r, s') \<Longrightarrow> \<not> co_replayed r"
  by (auto simp: performCommissionCheckout_def tx_simps)

text \<open>The rows a plan was made of, and how the plan names them.\<close>

lemma planned_rows:
  assumes load: "loadCommissionCheckoutPlan prepared s = Inr (plan, acct, as)"
  obtains order :: order_row and payment :: payment_row and slot :: slot_row and h :: holder_row and account :: account_row
  where "order \<in> set (orders s)" "payment \<in> set (orderPayments s)" "slot \<in> set (commissionSlots s)"
    "h \<in> set (financialHolders s)" "account \<in> set (financialAccounts s)"
    and "pay_id payment = ci_orderPaymentId (pc_input prepared)" "pay_orderId payment = o_id order" "sl_id slot = o_slotId order"
    and "o_buyerId order = ci_actorId (pc_input prepared)" "o_state order = ''REQUESTED''"
      "pay_state payment = ''PENDING''" "sl_state slot = ''AVAILABLE''" "pay_amount payment = o_amount order"
    and "cp_paidOrderId plan = o_id order" "cp_paidPaymentId plan = pay_id payment" "cp_slotId plan = sl_id slot"
      "cp_slotWorkerId plan = sl_workerId slot" "rr_amount (cp_financialRequest plan) = o_amount order"
      "fo_orderId (cp_contract plan) = o_id order" "fo_buyerId (cp_contract plan) = o_buyerId order"
    and "h_namespace h = ''user''" "h_key h = showInt (ci_actorId (pc_input prepared))"
      "a_holderId account = Some (h_id h)" "a_currency account = ''POINT''" "a_purpose account = ''AVAILABLE''"
      "acct = a_id account" "(\<Sum>a\<leftarrow>as. fa_amount a) = o_amount order"
proof -
  from loadCommissionCheckoutPlan_Inr [OF load] obtain order payment slot workerId holderId account where
    found: "findRow (\<lambda>p. pay_id p = ci_orderPaymentId (pc_input prepared)) (orderPayments s) = Some payment"
      "findRow (\<lambda>r. o_id r = pay_orderId payment \<and> o_flowId r = pay_flowId payment) (orders s) = Some order"
      "findRow (\<lambda>x. sl_id x = o_slotId order) (commissionSlots s) = Some slot" and
    pay: "payable \<lparr>cw_order = order, cw_payment = paymentFacts payment, cw_termsWorkerId = workerId,
      cw_termsPrice = o_amount order, cw_slot = slot, cw_holderId = holderId\<rparr> (pc_input prepared)" and
    plan: "plan = checkoutPlan \<lparr>cw_order = order, cw_payment = paymentFacts payment, cw_termsWorkerId = workerId,
      cw_termsPrice = o_amount order, cw_slot = slot, cw_holderId = holderId\<rparr> (pc_input prepared)" and
    holder: "findHolderId ''user'' (showInt (o_buyerId order)) s = Inr holderId" and
    account: "accountOf holderId ''POINT'' ''AVAILABLE'' s = Some account" "acct = a_id account" and
    total: "(\<Sum>a\<leftarrow>as. fa_amount a) = o_amount order"
    by blast
  from holder obtain h where h: "h \<in> set (financialHolders s)" "h_namespace h = ''user''"
    "h_key h = showInt (o_buyerId order)" "holderId = h_id h"
    by (auto simp: read_simps dest: findRow_Some)
  note rows = findRow_Some [OF found(1)] findRow_Some [OF found(2)] findRow_Some [OF found(3)]
    findRow_Some [OF account(1) [unfolded accountOf_def]]
  have "workerId = sl_workerId slot" using pay by (simp add: payable_def)
  with pay rows h account(2) total show thesis
    by (intro that [of order payment slot h account])
      (simp_all add: payable_def paymentFacts_def plan checkoutPlan_def)
qed

text \<open>C8: a checkout that was not answered from an earlier one found the open order and payment
  of the caller, and left: both paid, the slot occupied, a contract for the order, a held
  reservation of exactly the order's amount; the buyer's available POINT account lost exactly
  that amount and no other account lost or gained any, and the books still balance.
\<close>

theorem checkout_pays_and_reserves:
  assumes frame: "session_frame (e_session eng)" and fresh: "engine_fresh eng" and fin: "fin_ok s"
    and ok: "complete rt eng input s0 s1 s = Inr (r, s')" and new: "\<not> co_replayed r"
  shows "fin_ok s' \<and> (\<exists>order \<in> set (orders s). \<exists>payment \<in> set (orderPayments s).
    \<exists>holder \<in> set (financialHolders s). \<exists>account \<in> set (financialAccounts s).
    o_id order = co_orderId r \<and> o_buyerId order = ci_actorId input \<and> o_state order = ''REQUESTED'' \<and>
    pay_id payment = ci_orderPaymentId input \<and> pay_state payment = ''PENDING'' \<and>
    pay_amount payment = o_amount order \<and>
    order\<lparr>o_state := ''PAID''\<rparr> \<in> set (orders s') \<and> payment\<lparr>pay_state := ''PAID''\<rparr> \<in> set (orderPayments s') \<and>
    (\<exists>x \<in> set (commissionSlots s'). sl_id x = o_slotId order \<and> sl_state x = ''OCCUPIED'') \<and>
    (\<exists>k \<in> set (contracts s'). k_id k = co_contractId r \<and> k_orderId k = o_id order \<and>
       k_buyerId k = o_buyerId order) \<and>
    (\<exists>v \<in> set (financialReservations s'). r_id v = co_reservationId r \<and> r_state v = ''HELD'' \<and>
       r_targetAmount v = o_amount order) \<and>
    h_namespace holder = ''user'' \<and> h_key holder = showInt (ci_actorId input) \<and>
    a_holderId account = Some (h_id holder) \<and> a_currency account = ''POINT'' \<and> a_purpose account = ''AVAILABLE'' \<and>
    (\<forall>i. accountFunds i s' = accountFunds i s - (if i = a_id account then o_amount order else 0)))"
proof -
  from complete_success [OF frame ok] obtain prepared where prep: "pc_input prepared = input"
    and exec: "executeCommissionCheckout rt eng prepared s = Inr (r, s')" by blast
  from replayed_iff [OF exec] new have perf: "performCommissionCheckout eng prepared s = Inr (r, s')" by simp
  obtain plan acct as ci oi ri ki where
    load: "loadCommissionCheckoutPlan prepared s = Inr (plan, acct, as)" and fin': "fin_ok s'" and
    own: "\<forall>a \<in> set as. \<exists>l \<in> set (financialLots s). l_id l = fa_lotId a \<and> l_accountId l = acct" and
    r: "co_orderId r = cp_paidOrderId plan" "co_contractId r = ki" "co_reservationId r = ri" and
    tables: "financialLots s' = map (\<lambda>l. lessLot (drawnFrom (l_id l) as) l) (financialLots s)"
      "financialReservations s' = financialReservations s @ [reservationOf (cp_financialRequest plan) ri]"
      "contracts s' = contracts s @ [contractOf (cp_contract plan) ki]"
      "orderPayments s' = updateWhere (\<lambda>p. pay_id p = cp_paidPaymentId plan \<and> pay_orderId p = cp_paidOrderId plan \<and>
        pay_state p = ''PENDING'') (\<lambda>p. p\<lparr>pay_state := ''PAID''\<rparr>) (orderPayments s)"
      "orders s' = updateWhere (\<lambda>r. o_id r = cp_paidOrderId plan \<and> o_state r = ''REQUESTED'')
        (\<lambda>r. r\<lparr>o_state := ''PAID''\<rparr>) (orders s)"
      "commissionSlots s' = updateWhere (\<lambda>x. sl_id x = cp_slotId plan \<and> sl_workerId x = cp_slotWorkerId plan \<and>
        sl_state x = ''AVAILABLE'') (\<lambda>x. x\<lparr>sl_state := ''OCCUPIED''\<rparr>) (commissionSlots s)"
    by (rule performE [OF perf fin fresh]) (rule that, (assumption | simp)+)
  obtain order payment slot h account where rows: "order \<in> set (orders s)" "payment \<in> set (orderPayments s)"
      "slot \<in> set (commissionSlots s)" "h \<in> set (financialHolders s)" "account \<in> set (financialAccounts s)" and
    keys: "pay_id payment = ci_orderPaymentId (pc_input prepared)" "pay_orderId payment = o_id order" "sl_id slot = o_slotId order" and
    states: "o_buyerId order = ci_actorId (pc_input prepared)" "o_state order = ''REQUESTED''"
      "pay_state payment = ''PENDING''" "sl_state slot = ''AVAILABLE''" "pay_amount payment = o_amount order" and
    plan: "cp_paidOrderId plan = o_id order" "cp_paidPaymentId plan = pay_id payment" "cp_slotId plan = sl_id slot"
      "cp_slotWorkerId plan = sl_workerId slot" "rr_amount (cp_financialRequest plan) = o_amount order"
      "fo_orderId (cp_contract plan) = o_id order" "fo_buyerId (cp_contract plan) = o_buyerId order" and
    buyer: "h_namespace h = ''user''" "h_key h = showInt (ci_actorId (pc_input prepared))"
      "a_holderId account = Some (h_id h)" "a_currency account = ''POINT''" "a_purpose account = ''AVAILABLE''" and
    drawn: "acct = a_id account" "(\<Sum>a\<leftarrow>as. fa_amount a) = o_amount order"
    by (rule planned_rows [OF load]) (rule that, assumption+)
  have changed: "order\<lparr>o_state := ''PAID''\<rparr> \<in> set (orders s')" "payment\<lparr>pay_state := ''PAID''\<rparr> \<in> set (orderPayments s')"
    "slot\<lparr>sl_state := ''OCCUPIED''\<rparr> \<in> set (commissionSlots s')"
    unfolding tables by (rule updated_member; use rows keys states plan in simp)+
  have made: "\<exists>k \<in> set (contracts s'). k_id k = co_contractId r \<and> k_orderId k = o_id order \<and> k_buyerId k = o_buyerId order"
    "\<exists>v \<in> set (financialReservations s'). r_id v = co_reservationId r \<and> r_state v = ''HELD'' \<and> r_targetAmount v = o_amount order"
    by (simp_all add: r plan tables(2,3) contractOf_def reservationOf_def)
  have occupied: "\<exists>x \<in> set (commissionSlots s'). sl_id x = o_slotId order \<and> sl_state x = ''OCCUPIED''"
    by (rule bexI [OF _ changed(3)]) (simp add: keys(3))
  have "distinct (map l_id (financialLots s))" using fin by (simp add: fin_ok_def books_ok_def)
  from accountFunds_drawn [OF this own tables(1)] rows keys states buyer changed(1,2) made occupied fin' show ?thesis
    by (intro conjI bexI [of _ order] bexI [of _ payment] bexI [of _ h] bexI [of _ account])
      (simp_all add: prep drawn plan r)
qed

end
