(* ===== verification/CheckoutReplay.thy ===== *)
theory CheckoutReplay
  imports CheckoutLaws
begin

text \<open>
  A repeated checkout: a request that succeeded, delivered again, answers the same result and
  changes nothing; a payment already made is never charged again under another key; a key
  used for another payload is refused. The transaction body of the use case meets the contract
  of an idempotent request.
\<close>

section \<open>A concrete shop\<close>

definition sampleShop :: db where
  "sampleShop = emptyDb\<lparr>
     orders := [\<lparr>o_id = 3, o_buyerId = 1, o_commissionTypeId = 7, o_slotId = 5, o_flowId = ''f'', o_amount = 70,
       o_currency = ''POINT'', o_state = ''REQUESTED''\<rparr>],
     orderPayments := [\<lparr>pay_id = 4, pay_orderId = 3, pay_flowId = ''f'', pay_amount = 70,
       pay_currency = ''POINT'', pay_state = ''PENDING''\<rparr>],
     commissionTypes := [\<lparr>ct_id = 7, ct_workerId = 2, ct_price = 70\<rparr>],
     commissionSlots := [\<lparr>sl_id = 5, sl_workerId = 2, sl_state = ''AVAILABLE''\<rparr>],
     financialHolders := [\<lparr>h_id = 10, h_namespace = ''user'', h_key = showInt 1\<rparr>,
       \<lparr>h_id = 11, h_namespace = ''user'', h_key = showInt 2\<rparr>,
       \<lparr>h_id = 12, h_namespace = ''system'', h_key = ''platform''\<rparr>],
     financialAccounts := [
       \<lparr>a_id = 20, a_currency = ''POINT'', a_purpose = ''AVAILABLE'', a_holderId = Some 10, a_reservationId = None\<rparr>,
       \<lparr>a_id = 21, a_currency = ''INCOME'', a_purpose = ''AVAILABLE'', a_holderId = Some 11, a_reservationId = None\<rparr>,
       \<lparr>a_id = 22, a_currency = ''POINT'', a_purpose = ''SETTLED'', a_holderId = Some 12, a_reservationId = None\<rparr>,
       \<lparr>a_id = 23, a_currency = ''INCOME'', a_purpose = ''ISSUER'', a_holderId = Some 12, a_reservationId = None\<rparr>],
     financialLots := [
       \<lparr>l_id = 30, l_accountId = 20, l_currency = ''POINT'', l_sourceKind = ''PAID'', l_sourceOperationId = None,
        l_sourceSwapActionId = None, l_sourceFlowId = None, l_sourceFlowKind = None, l_sourceOperationKind = None,
        l_issuanceReason = None, l_accountingCategory = None, l_accountingPolicyVersion = None,
        l_originalAmount = 50, l_remainingAmount = 50, l_createdAt = 1\<rparr>,
       \<lparr>l_id = 31, l_accountId = 20, l_currency = ''POINT'', l_sourceKind = ''PAID'', l_sourceOperationId = None,
        l_sourceSwapActionId = None, l_sourceFlowId = None, l_sourceFlowKind = None, l_sourceOperationKind = None,
        l_issuanceReason = None, l_accountingCategory = None, l_accountingPolicyVersion = None,
        l_originalAmount = 50, l_remainingAmount = 50, l_createdAt = 2\<rparr>],
     transactionFlows := [\<lparr>fl_id = ''f'', fl_kind = COMMISSION\<rparr>]\<rparr>"

definition sampleCheckout :: CommissionCheckoutInput where
  "sampleCheckout = \<lparr>ci_orderPaymentId = 4, ci_actorId = 1, ci_commandKey = ''k''\<rparr>"

text \<open>The keys a use case locks are not read by its body.\<close>

lemma execute_lockKeys:
  assumes "pc_input q = pc_input p" "pc_payloadHash q = pc_payloadHash p" "pc_lockedTargets q = pc_lockedTargets p"
  shows "executeCommissionCheckout rt eng q = executeCommissionCheckout rt eng p"
  unfolding executeCommissionCheckout_def replayCompletedCommissionCheckout_def
    performCommissionCheckout_def loadCommissionCheckoutPlan_def [abs_def] assms ..

lemma complete_quiet:
  assumes "session_quiet (e_session eng)" "prepareCommissionCheckout rt input s0 s1 = Inr p"
    "executeCommissionCheckout rt eng p s = Inr z"
  shows "complete rt eng input s0 s1 s = Inr z"
  using assms by (simp add: complete_def bindT_def serialized_quiet)

definition samplePrepared :: PreparedCommissionCheckout where
  "samplePrepared = \<lparr>pc_input = sampleCheckout, pc_payloadHash = ''[4,1]'',
     pc_lockedTargets = \<lparr>lt_buyerId = 1, lt_slotId = 5, lt_financialHolderId = 10\<rparr>, pc_lockKeys = []\<rparr>"

lemma sample_execute:
  "case executeCommissionCheckout refRuntime refEngine samplePrepared sampleShop of
     Inr (r, s') \<Rightarrow> \<not> co_replayed r \<and> accountFunds 20 s' = 30 \<and> unique_ok s' | Inl e \<Rightarrow> False"
  by code_simp

lemma sample_prepare:
  "prepareCommissionCheckout refRuntime sampleCheckout sampleShop sampleShop =
     Inr (samplePrepared\<lparr>pc_lockKeys := [lockKey (LorderPayment 4), lockKey (LfinancialHolder 10),
       lockKey (LcommissionSlot 5), lockKey (LcommissionCheckoutCommand ''1:PAY:k'')]\<rparr>)"
proof -
  have "findCommissionCheckoutLockTargets 4 sampleShop = Inr (1, 5)" by code_simp
  moreover have "findHolderId ''user'' (showInt 1) sampleShop = Inr 10" by code_simp
  moreover have "hashCommissionCheckoutPayload refRuntime sampleCheckout = ''[4,1]''" by code_simp
  moreover have "showInt 1 @ '':PAY:'' @ ''k'' = ''1:PAY:k''" by code_simp
  ultimately show ?thesis
    by (simp add: prepareCommissionCheckout_def sampleCheckout_def samplePrepared_def)
qed

lemma sample_run:
  obtains r s' where "complete refRuntime refEngine sampleCheckout sampleShop sampleShop sampleShop = Inr (r, s')"
    "\<not> co_replayed r" "accountFunds 20 s' = 30" "unique_ok s'"
    "executeCommissionCheckout refRuntime refEngine samplePrepared sampleShop = Inr (r, s')"
proof -
  from sample_execute obtain r s' where
    run: "executeCommissionCheckout refRuntime refEngine samplePrepared sampleShop = Inr (r, s')"
    and facts: "\<not> co_replayed r" "accountFunds 20 s' = 30" "unique_ok s'"
    by (auto split: sum.splits)
  have "session_quiet (e_session refEngine)" by simp
  from complete_quiet [OF this sample_prepare] run
  have "complete refRuntime refEngine sampleCheckout sampleShop sampleShop sampleShop = Inr (r, s')"
    by (simp add: execute_lockKeys [of "samplePrepared\<lparr>pc_lockKeys := _\<rparr>" samplePrepared])
  from this facts run show thesis by (rule that)
qed

lemma sampleShop_ok: "fin_ok sampleShop"
  by code_simp

theorem checkout_pays_and_reserves_witness:
  "\<exists>r s'. complete refRuntime refEngine sampleCheckout sampleShop sampleShop sampleShop = Inr (r, s') \<and>
     fin_ok s' \<and> accountFunds 20 s' = 30"
proof -
  obtain r s' where
    run: "complete refRuntime refEngine sampleCheckout sampleShop sampleShop sampleShop = Inr (r, s')"
    and new: "\<not> co_replayed r" and left: "accountFunds 20 s' = 30"
    by (rule sample_run)
  have "session_frame (e_session refEngine)" by simp
  from checkout_pays_and_reserves [OF this refEngine_fresh sampleShop_ok run new] run left
  show ?thesis by blast
qed

section \<open>The contract of an idempotent request\<close>

definition mark :: "CommissionCheckoutResult \<Rightarrow> CommissionCheckoutResult" where
  "mark r = r\<lparr>co_replayed := True\<rparr>"

lemma mark_withReplayed [simp]: "mark (withReplayed x True) = withReplayed x True"
  by (simp add: mark_def withReplayed_def CommissionCheckoutEconomicResult.extend_def)

text \<open>What the caller read before the transaction does not matter to a replay.\<close>

definition checkoutBody :: "runtime \<Rightarrow> engine \<Rightarrow> CommissionCheckoutInput \<Rightarrow>
    CommissionCheckoutLockTargets \<times> lock_key list \<Rightarrow> CommissionCheckoutResult dbtx" where
  "checkoutBody rt eng input scope = executeCommissionCheckout rt eng
     \<lparr>pc_input = input, pc_payloadHash = hashCommissionCheckoutPayload rt input,
      pc_lockedTargets = fst scope, pc_lockKeys = snd scope\<rparr>"

lemma load_result_frame:
  assumes "orderPayments s = orderPayments t" "orders s = orders t" "contracts s = contracts t"
    "orderFinancialLinks s = orderFinancialLinks t"
  shows "loadCompletedCommissionCheckoutResult rt i s = loadCompletedCommissionCheckoutResult rt i t"
  unfolding loadCompletedCommissionCheckoutResult_def orderOfPayment_def linkOf_def contractOfOrder_def assms ..

text \<open>The answer of a stored command is the one its command identifier is put into.\<close>

lemma load_result_identity:
  assumes "sc_subjectKey i = sc_subjectKey j" "sc_flowId i = sc_flowId j"
    "sc_referenceId i = sc_referenceId j" "sc_operationId i = sc_operationId j"
    "loadCompletedCommissionCheckoutResult rt j s = Inr (b, x)"
  shows "loadCompletedCommissionCheckoutResult rt i s = Inr (b, x\<lparr>co_commandId := sc_commandId i\<rparr>)"
  using assms by (auto simp: loadCompletedCommissionCheckoutResult_def Let_def rbind_eq_Inr
      split: if_splits option.splits)

lemma replay_of_stored:
  assumes "findCommand (ci_actorId input) PAY (ci_commandKey input) s = Some stored"
    "assertCommissionCheckoutReplayIdentity stored (planCommissionCheckoutCommand input)
       (hashCommissionCheckoutPayload rt input) = Inr ()"
    "completedCommand stored"
    "loadCompletedCommissionCheckoutResult rt stored s = Inr (b, x)"
  shows "checkoutBody rt eng input scope s = Inr (withReplayed x True, s)"
  using assms by (simp add: checkoutBody_def executeCommissionCheckout_def Let_def bindT_def readT_def
      replayCompletedCommissionCheckout_def planCommissionCheckoutCommand_def requireCompletedCommand_def
      completedCommand_def)

lemma findRow_updated:
  "findRow p rows = Some r \<Longrightarrow> (\<And>r. p (f r) = p r) \<Longrightarrow>
     findRow p (updateWhere q f rows) = Some (if q r then f r else r)"
  by (simp add: findRow_updateWhere)

lemma checkout_request_simps [simp]:
  "cpl_flowKind (planCommissionCheckoutCommand i) = COMMISSION" "cpl_kind (planCommissionCheckoutCommand i) = PAY"
  "cpl_principalId (planCommissionCheckoutCommand i) = ci_actorId i"
  "cpl_idempotencyKey (planCommissionCheckoutCommand i) = ci_commandKey i"
  "cpl_subjectNamespace (planCommissionCheckoutCommand i) = COMMISSION_ORDER_PAYMENT_NAMESPACE"
  "cpl_subjectKey (planCommissionCheckoutCommand i) = showInt (ci_orderPaymentId i)"
  by (simp_all add: planCommissionCheckoutCommand_def)

text \<open>After a checkout that was carried out, its command is found and leads to its result.\<close>

lemma retry_performed:
  assumes perf: "performCommissionCheckout eng prepared s = Inr (r, s')"
    and prep: "pc_input prepared = input" "pc_payloadHash prepared = hashCommissionCheckoutPayload rt input"
    and none: "findCommand (ci_actorId input) PAY (ci_commandKey input) s = None"
    and fin: "fin_ok s" and fresh: "engine_fresh eng" and rt: "runtime_ok rt" and u: "unique_ok s'"
    and safe: "isSafeInteger (JInt (ci_orderPaymentId input))"
  shows "checkoutBody rt eng input scope s' = Inr (mark r, s')"
proof -
  obtain plan acct as ci oi ct ri ki where
    load: "loadCommissionCheckoutPlan prepared s = Inr (plan, acct, as)" and
    ids: "ci \<notin> cm_id ` set (financialCommandRuns s)" "oi \<notin> oper_id ` set (financialOperations s)" "oi \<noteq> []" and
    r: "r = \<lparr>co_orderId = cp_paidOrderId plan, co_orderPaymentId = cp_paidPaymentId plan, co_contractId = ki,
      co_reservationId = ri, co_referenceId = formatTransactionReference COMMISSION (cp_flowId plan),
      co_commandId = formatCommandId PAY ci, co_operationId = formatOperationId PAY oi, co_replayed = False\<rparr>" and
    tables: "financialCommandRuns s' = financialCommandRuns s @
        [commandOf (requestFor (cp_flowId plan) (cp_commandRequest plan) (pc_payloadHash prepared)) ci ct (Some oi)]"
      "financialOperations s' = financialOperations s @
        [\<lparr>oper_id = oi, oper_flowId = cp_flowId plan, oper_kind = PAY, oper_commandId = ci\<rparr>]"
      "contracts s' = contracts s @ [contractOf (cp_contract plan) ki]"
      "orderFinancialLinks s' = orderFinancialLinks s @
        [\<lparr>ln_orderPaymentId = cp_paidPaymentId plan, ln_flowId = cp_paidFlowId plan, ln_reservationId = ri\<rparr>]"
      "orderPayments s' = updateWhere (\<lambda>p. pay_id p = cp_paidPaymentId plan \<and> pay_orderId p = cp_paidOrderId plan \<and>
        pay_state p = ''PENDING'') (\<lambda>p. p\<lparr>pay_state := ''PAID''\<rparr>) (orderPayments s)"
      "orders s' = updateWhere (\<lambda>r. o_id r = cp_paidOrderId plan \<and> o_state r = ''REQUESTED'')
        (\<lambda>r. r\<lparr>o_state := ''PAID''\<rparr>) (orders s)"
    by (rule performE [OF perf fin fresh]) (rule that, assumption+)
  from loadCommissionCheckoutPlan_Inr [OF load] obtain order payment slot workerId holderId where
    found: "findRow (\<lambda>p. pay_id p = ci_orderPaymentId input) (orderPayments s) = Some payment"
      "findRow (\<lambda>r. o_id r = pay_orderId payment \<and> o_flowId r = pay_flowId payment) (orders s) = Some order" and
    plan: "plan = checkoutPlan \<lparr>cw_order = order, cw_payment = paymentFacts payment, cw_termsWorkerId = workerId,
      cw_termsPrice = o_amount order, cw_slot = slot, cw_holderId = holderId\<rparr> input"
    unfolding prep by blast
  from findRow_Some [OF found(1)] findRow_Some [OF found(2)] have keys: "pay_id payment = ci_orderPaymentId input"
    "o_id order = pay_orderId payment" "o_flowId order = pay_flowId payment" by auto
  have pp: "cp_paidOrderId plan = o_id order" "cp_paidPaymentId plan = pay_id payment"
    "cp_paidFlowId plan = pay_flowId payment" "cp_flowId plan = pay_flowId payment"
    "cp_commandRequest plan = planCommissionCheckoutCommand input" "fo_orderId (cp_contract plan) = o_id order"
    "fo_flowId (cp_contract plan) = pay_flowId payment"
    by (simp_all add: plan checkoutPlan_def paymentFacts_def)
  let ?req = "requestFor (cp_flowId plan) (cp_commandRequest plan) (pc_payloadHash prepared)"
  let ?c = "commandOf ?req ci ct (Some oi)"
  have stored: "findCommand (ci_actorId input) PAY (ci_commandKey input) s' = Some (mapStoredCommand s' ?c)"
    by (rule findCommand_appended [OF none tables(1)]) (simp add: commandKeyIs_def pp)
  have res: "resultOperation s' ?c = Some \<lparr>oper_id = oi, oper_flowId = cp_flowId plan, oper_kind = PAY, oper_commandId = ci\<rparr>"
    by (rule new_result [OF tables(2) _ ids(2)]) (simp add: pp)
  obtain payment' where p': "findRow (\<lambda>p. pay_id p = ci_orderPaymentId input) (orderPayments s') = Some payment'"
    "pay_id payment' = pay_id payment" "pay_orderId payment' = pay_orderId payment" "pay_flowId payment' = pay_flowId payment"
    by (rule that, unfold tables(5), rule findRow_updated [OF found(1)]) auto
  obtain order' where o': "findRow (\<lambda>r. o_id r = pay_orderId payment \<and> o_flowId r = pay_flowId payment) (orders s') = Some order'"
    "o_id order' = o_id order" "o_flowId order' = o_flowId order"
    by (rule that, unfold tables(6), rule findRow_updated [OF found(2)]) auto
  have link: "linkOf payment' s' = Some \<lparr>ln_orderPaymentId = cp_paidPaymentId plan, ln_flowId = cp_paidFlowId plan, ln_reservationId = ri\<rparr>"
    unfolding linkOf_def tables(4)
    by (rule findRow_appended [where k = ln_orderPaymentId]) (use u in \<open>auto simp: unique_ok_def tables pp p'\<close>)
  have contract: "contractOfOrder order' s' = Some (contractOf (cp_contract plan) ki)"
    unfolding contractOfOrder_def tables(3)
    by (rule findRow_appended [where k = k_orderId])
      (use u keys in \<open>auto simp: unique_ok_def tables pp o' contractOf_def\<close>)
  have read: "loadCompletedCommissionCheckoutResult rt (mapStoredCommand s' ?c) s' = Inr (o_buyerId order',
      \<lparr>co_orderId = o_id order', co_orderPaymentId = ci_orderPaymentId input, co_contractId = ki, co_reservationId = ri,
       co_referenceId = formatTransactionReference COMMISSION (cp_flowId plan),
       co_commandId = formatCommandId PAY ci, co_operationId = formatOperationId PAY oi\<rparr>)"
    using rt safe by (simp add: loadCompletedCommissionCheckoutResult_def runtime_ok_def pp p' o' orderOfPayment_def
        orThrow_def relation_def link contract res [unfolded pp]) (simp add: contractOf_def)
  have "checkoutBody rt eng input scope s' = Inr (withReplayed
      \<lparr>co_orderId = o_id order', co_orderPaymentId = ci_orderPaymentId input, co_contractId = ki, co_reservationId = ri,
       co_referenceId = formatTransactionReference COMMISSION (cp_flowId plan),
       co_commandId = formatCommandId PAY ci, co_operationId = formatOperationId PAY oi\<rparr> True, s')"
    by (rule replay_of_stored [OF stored _ _ read])
      (simp_all add: assertCommissionCheckoutReplayIdentity_def pp prep completedCommand_def res [unfolded pp prep] ids(3))
  then show ?thesis
    by (simp add: r pp o' keys mark_def withReplayed_def CommissionCheckoutEconomicResult.extend_def)
qed

text \<open>After an alias was saved, the alias is found and leads to the same result.\<close>

lemma retry_alias:
  assumes none: "findCommand (ci_actorId input) PAY (ci_commandKey input) s = None"
    and some: "findCompletedCommandBySubject COMMISSION COMMISSION_ORDER_PAYMENT_NAMESPACE
      (showInt (ci_orderPaymentId input)) PAY s = Some identity"
    and comp: "completedCommand identity"
    and load: "loadCompletedCommissionCheckoutResult rt identity s = Inr (b, result)"
    and c: "c = commandOf (requestFor (sc_flowId identity) (planCommissionCheckoutCommand input)
      (hashCommissionCheckoutPayload rt input)) i t (Some (the (sc_operationDbId identity)))"
    and s': "s' = s\<lparr>financialCommandRuns := financialCommandRuns s @ [c]\<rparr>"
  shows "checkoutBody rt eng input scope s' =
    Inr (withReplayed (result\<lparr>co_commandId := formatCommandId (cm_kind c) (cm_id c)\<rparr>) True, s')"
proof -
  from findCompleted_Some [OF some] obtain d where d: "identity = mapStoredCommand s d"
    "cm_subjectNamespace d = COMMISSION_ORDER_PAYMENT_NAMESPACE" "cm_subjectKey d = showInt (ci_orderPaymentId input)"
    "cm_flowKind d = COMMISSION" "cm_kind d = PAY" by blast
  have stored: "findCommand (ci_actorId input) PAY (ci_commandKey input) s' = Some (mapStoredCommand s' c)"
    by (rule findCommand_appended [OF none]) (simp_all add: s' c commandKeyIs_def)
  have "resultOperation s d \<noteq> None"
    using comp by (cases "resultOperation s d") (simp_all add: d completedCommand_def)
  then have res: "resultOperation s' c = resultOperation s d"
    unfolding c d(1) mapStoredCommand_simps by (rule alias_result) (simp_all add: d s')
  have same: "sc_subjectKey (mapStoredCommand s' c) = sc_subjectKey identity"
    "sc_flowId (mapStoredCommand s' c) = sc_flowId identity"
    "sc_referenceId (mapStoredCommand s' c) = sc_referenceId identity" by (simp_all add: c d)
  have "loadCompletedCommissionCheckoutResult rt (mapStoredCommand s' c) s' =
      Inr (b, result\<lparr>co_commandId := sc_commandId (mapStoredCommand s' c)\<rparr>)"
    unfolding load_result_frame [of s' s, unfolded s', simplified, folded s']
    by (rule load_result_identity [OF same(1-3) _ load]) (simp add: res d(1))
  note read = this
  have same': "assertCommissionCheckoutReplayIdentity (mapStoredCommand s' c) (planCommissionCheckoutCommand input)
      (hashCommissionCheckoutPayload rt input) = Inr ()"
    by (simp add: c assertCommissionCheckoutReplayIdentity_def)
  have "completedCommand (mapStoredCommand s' c)" using comp by (simp add: d(1) completedCommand_def res)
  from replay_of_stored [OF stored same' this read] show ?thesis by simp
qed

definition checkoutSound :: "runtime \<Rightarrow> engine \<Rightarrow> db \<Rightarrow> bool" where
  "checkoutSound rt eng s \<longleftrightarrow> runtime_ok rt \<and> engine_fresh eng \<and> fin_ok s"

definition checkoutOk :: "CommissionCheckoutInput \<Rightarrow> db \<Rightarrow> bool" where
  "checkoutOk input s \<longleftrightarrow> unique_ok s \<and> isSafeInteger (JInt (ci_orderPaymentId input))"

lemma fin_ok_runs [simp]: "fin_ok (s\<lparr>financialCommandRuns := runs\<rparr>) = fin_ok s"
  by (simp add: fin_ok_def)

lemma checkoutBody_sound:
  assumes ok: "checkoutBody rt eng input scope s = Inr (r, s')" and sound: "checkoutSound rt eng s"
  shows "checkoutSound rt eng s'"
proof -
  have fin: "fin_ok s" and fresh: "engine_fresh eng" using sound by (simp_all add: checkoutSound_def)
  from ok [unfolded checkoutBody_def execute_cases] have "fin_ok s'"
  proof (elim disjE exE conjE)
    assume "replayCompletedCommissionCheckout rt eng \<lparr>pc_input = input, pc_payloadHash =
      hashCommissionCheckoutPayload rt input, pc_lockedTargets = fst scope, pc_lockKeys = snd scope\<rparr> s = Inr (Some r, s')"
    then show ?thesis by (cases rule: replay_cases) (simp_all add: fin)
  next
    fix s1
    assume a: "replayCompletedCommissionCheckout rt eng \<lparr>pc_input = input, pc_payloadHash =
      hashCommissionCheckoutPayload rt input, pc_lockedTargets = fst scope, pc_lockKeys = snd scope\<rparr> s = Inr (None, s1)"
    and b: "performCommissionCheckout eng \<lparr>pc_input = input, pc_payloadHash =
      hashCommissionCheckoutPayload rt input, pc_lockedTargets = fst scope, pc_lockKeys = snd scope\<rparr> s1 = Inr (r, s')"
    from a have "s1 = s" by (cases rule: replay_cases) simp_all
    with performE [OF b _ fresh] fin show ?thesis by blast
  qed
  with sound show ?thesis by (simp add: checkoutSound_def)
qed

lemma checkoutBody_retry:
  assumes ok: "checkoutBody rt eng input scope s = Inr (r, s')" and sound: "checkoutSound rt eng s"
    and commit: "checkoutOk input s'"
  shows "checkoutBody rt eng input scope' s' = Inr (mark r, s')"
proof -
  have fin: "fin_ok s" and fresh: "engine_fresh eng" and rt: "runtime_ok rt" and u: "unique_ok s'"
    and safe: "isSafeInteger (JInt (ci_orderPaymentId input))"
    using sound commit by (simp_all add: checkoutSound_def checkoutOk_def)
  define p where "p = \<lparr>pc_input = input, pc_payloadHash = hashCommissionCheckoutPayload rt input,
    pc_lockedTargets = fst scope, pc_lockKeys = snd scope\<rparr>"
  have p [simp]: "pc_input p = input" "pc_payloadHash p = hashCommissionCheckoutPayload rt input"
    by (simp_all add: p_def)
  from ok have "executeCommissionCheckout rt eng p s = Inr (r, s')" by (simp add: checkoutBody_def p_def)
  then consider "replayCompletedCommissionCheckout rt eng p s = Inr (Some r, s')" |
    s1 where "replayCompletedCommissionCheckout rt eng p s = Inr (None, s1)"
      "performCommissionCheckout eng p s1 = Inr (r, s')"
    by (auto simp: execute_cases)
  then show ?thesis
  proof cases
    case 1
    then show ?thesis
    proof (cases rule: replay_cases)
      case (Stored stored buyer result)
      then show ?thesis by (auto intro!: replay_of_stored)
    next
      case (Alias identity result c)
      then have r: "r = withReplayed (result\<lparr>co_commandId := formatCommandId (cm_kind c) (cm_id c)\<rparr>) True" by simp
      show ?thesis
        unfolding r mark_withReplayed
        by (rule retry_alias) (use Alias in \<open>simp_all\<close>)
    qed simp
  next
    case (2 s1)
    from 2(1) have "s1 = s" "findCommand (ci_actorId input) PAY (ci_commandKey input) s = None"
      by (cases rule: replay_cases; simp)+
    with 2(2) show ?thesis by (intro retry_performed [OF _ p _ fin fresh rt u safe]) simp_all
  qed
qed

interpretation checkout: idempotent_request "checkoutBody rt eng" "checkoutSound rt eng" checkoutOk mark for rt eng
  by unfold_locales (erule checkoutBody_sound, assumption, erule (2) checkoutBody_retry, simp add: mark_def)

text \<open>C9: deliveries of one checkout request, any number of times, whatever each of them read
  before its transaction, charge once: when the first succeeds (and its commit left the unique
  columns unique), every later one answers the same result, marked as replayed, and the
  database stays as the first left it.
\<close>

theorem checkout_delivered_again:
  assumes "runtime_ok rt" "engine_fresh eng" "fin_ok s" "unique_ok s'"
    and "isSafeInteger (JInt (ci_orderPaymentId input))"
    and "checkoutBody rt eng input scope s = Inr (r, s')"
  shows "redeliver (checkoutBody rt eng input) (scope # scopes) s =
    (Inr r # replicate (length scopes) (Inr (r\<lparr>co_replayed := True\<rparr>)), s')"
proof -
  have "checkoutSound rt eng s" "checkoutOk input s'"
    using assms(1-5) by (simp_all add: checkoutSound_def checkoutOk_def)
  from checkout.redeliver_all [OF assms(6) this] show ?thesis by (simp add: mark_def)
qed

theorem checkout_delivered_again_witness:
  "\<exists>r s'. redeliver (checkoutBody refRuntime refEngine sampleCheckout)
     [(pc_lockedTargets samplePrepared, []), undefined, undefined] sampleShop =
     ([Inr r, Inr (r\<lparr>co_replayed := True\<rparr>), Inr (r\<lparr>co_replayed := True\<rparr>)], s') \<and> accountFunds 20 s' = 30"
proof -
  obtain r s' where left: "accountFunds 20 s' = 30" and u: "unique_ok s'"
    and run: "executeCommissionCheckout refRuntime refEngine samplePrepared sampleShop = Inr (r, s')"
    by (rule sample_run)
  have "hashCommissionCheckoutPayload refRuntime sampleCheckout = ''[4,1]''" by code_simp
  with run have body: "checkoutBody refRuntime refEngine sampleCheckout (pc_lockedTargets samplePrepared, []) sampleShop = Inr (r, s')"
    by (simp add: checkoutBody_def samplePrepared_def)
  have "isSafeInteger (JInt (ci_orderPaymentId sampleCheckout))" by code_simp
  from checkout_delivered_again [OF refRuntime_ok refEngine_fresh sampleShop_ok u this body,
      of "[undefined, undefined]"] left
  show ?thesis by (auto simp: numeral_2_eq_2)
qed

section \<open>One payment, one charge\<close>

text \<open>once the payment is completed, or the caller's key is taken, no checkout of it writes
  anything but, at most, one more command row (the alias of another key): no lot, order,
  contract, slot or reservation changes.
\<close>

theorem paid_payment_is_not_charged_again:
  assumes frame: "session_frame (e_session eng)"
    and taken: "findCommand (ci_actorId input) PAY (ci_commandKey input) s \<noteq> None \<or>
      findCompletedCommandBySubject COMMISSION COMMISSION_ORDER_PAYMENT_NAMESPACE
        (showInt (ci_orderPaymentId input)) PAY s \<noteq> None"
  shows "\<exists>extra. stateAfter s (complete rt eng input s0 s1 s) =
      s\<lparr>financialCommandRuns := financialCommandRuns s @ extra\<rparr> \<and> length extra \<le> 1"
proof (cases "complete rt eng input s0 s1 s")
  case (Inl e)
  then show ?thesis by (intro exI [of _ "[]"]) simp
next
  case (Inr z)
  then obtain r s' where z: "complete rt eng input s0 s1 s = Inr (r, s')" by (metis surj_pair)
  from complete_success [OF frame z] obtain p where p: "pc_input p = input"
    and exec: "executeCommissionCheckout rt eng p s = Inr (r, s')" by blast
  then consider "replayCompletedCommissionCheckout rt eng p s = Inr (Some r, s')" |
    s1 where "replayCompletedCommissionCheckout rt eng p s = Inr (None, s1)"
    by (auto simp: execute_cases)
  then show ?thesis
  proof cases
    case 1
    then show ?thesis
    proof (cases rule: replay_cases)
      case Stored
      then show ?thesis by (intro exI [of _ "[]"]) (simp add: z)
    next
      case (Alias identity result c)
      then show ?thesis by (intro exI [of _ "[c]"]) (simp add: z)
    qed simp
  next
    case (2 s2)
    then show ?thesis by (cases rule: replay_cases) (use taken p in simp_all)
  qed
qed

lemma sample_taken:
  "findCommand 1 PAY ''k'' (sampleShop\<lparr>financialCommandRuns := [commandOf
     (requestFor ''f'' (planCommissionCheckoutCommand sampleCheckout) ''[4,1]'') ''c'' 0 None]\<rparr>) \<noteq> None"
  by code_simp

theorem paid_payment_is_not_charged_again_witness:
  "\<exists>extra. stateAfter (sampleShop\<lparr>financialCommandRuns := [commandOf
     (requestFor ''f'' (planCommissionCheckoutCommand sampleCheckout) ''[4,1]'') ''c'' 0 None]\<rparr>)
     (complete refRuntime refEngine sampleCheckout sampleShop sampleShop (sampleShop\<lparr>financialCommandRuns := [commandOf
     (requestFor ''f'' (planCommissionCheckoutCommand sampleCheckout) ''[4,1]'') ''c'' 0 None]\<rparr>)) =
     sampleShop\<lparr>financialCommandRuns := commandOf
     (requestFor ''f'' (planCommissionCheckoutCommand sampleCheckout) ''[4,1]'') ''c'' 0 None # extra\<rparr>"
proof -
  have "session_frame (e_session refEngine)" by simp
  moreover have "ci_actorId sampleCheckout = 1" "ci_commandKey sampleCheckout = ''k''"
    by (simp_all add: sampleCheckout_def)
  ultimately show ?thesis
    using paid_payment_is_not_charged_again [of refEngine sampleCheckout _ refRuntime sampleShop sampleShop]
      sample_taken by fastforce
qed

text \<open>A key that was answered once is found again.\<close>

lemma answered_key_found:
  assumes ok: "checkoutBody rt eng input scope s = Inr (r, s')" and sound: "checkoutSound rt eng s"
    and commit: "checkoutOk input s'"
  obtains stored where "findCommand (ci_actorId input) PAY (ci_commandKey input) s' = Some stored"
    "sc_subjectKey stored = showInt (ci_orderPaymentId input)"
proof -
  define p where "p = \<lparr>pc_input = input, pc_payloadHash = hashCommissionCheckoutPayload rt input,
    pc_lockedTargets = fst scope, pc_lockKeys = snd scope\<rparr>"
  have p: "pc_input p = input" by (simp add: p_def)
  from checkoutBody_retry [OF ok sound commit, of scope]
  have again: "executeCommissionCheckout rt eng p s' = Inr (mark r, s')" by (simp add: checkoutBody_def p_def)
  then have "replayCompletedCommissionCheckout rt eng p s' = Inr (Some (mark r), s')"
    by (auto simp: execute_cases mark_def dest: performed_result)
  then show thesis
  proof (cases rule: replay_cases)
    case (Stored stored buyer result)
    then have "sc_subjectKey stored = showInt (ci_orderPaymentId input)"
      by (auto simp: assertCommissionCheckoutReplayIdentity_def p split: if_splits)
    with Stored(1) show thesis by (intro that) (simp_all add: p)
  next
    case (Alias identity result c)
    then have "financialCommandRuns s' = financialCommandRuns (s'\<lparr>financialCommandRuns := financialCommandRuns s' @ [c]\<rparr>)"
      by metis
    then show thesis by simp
  qed simp
qed

lemma complete_body:
  assumes "session_frame (e_session eng)" and ok: "complete rt eng input s0 s1 s = Inr (r, s')"
  shows "\<exists>scope. checkoutBody rt eng input scope s = Inr (r, s')"
proof -
  from complete_success [OF assms] obtain p where "pc_input p = input"
    "pc_payloadHash p = hashCommissionCheckoutPayload rt input" "executeCommissionCheckout rt eng p s = Inr (r, s')"
    by blast
  then have "checkoutBody rt eng input (pc_lockedTargets p, pc_lockKeys p) s = Inr (r, s')"
    by (cases p) (simp add: checkoutBody_def)
  then show ?thesis by blast
qed

lemma complete_quiet_throws:
  assumes q: "session_quiet (e_session eng)" and p: "prepareCommissionCheckout rt input s0 s1 = Inr p"
    and e: "executeCommissionCheckout rt eng p s = Inl e" "\<not> isSerializationConflict (toJs e)"
  shows "complete rt eng input s0 s1 s = Inl e"
  using acquire_quiet [OF q] e
  by (simp add: complete_def bindT_def p serialized_def runTx_def transaction_def)

text \<open>C40: A key belongs to the payment it was first used for: after a checkout that succeeded, the
  same caller using the same key for another payment is refused with the idempotency error,
  whatever that payment is, whatever the reads before the transaction saw, and even when the
  other payment could be carried out; nothing is written.
\<close>

theorem checkout_key_is_bound:
  assumes rt: "runtime_ok rt" and eng: "session_quiet (e_session eng)" "engine_fresh eng" and fin: "fin_ok s" "unique_ok s'"
    and safe: "isSafeInteger (JInt (ci_orderPaymentId input))"
    and first: "complete rt eng input s0 s1 s = Inr (r, s')"
    and other: "ci_actorId input' = ci_actorId input" "ci_commandKey input' = ci_commandKey input"
      "ci_orderPaymentId input' \<noteq> ci_orderPaymentId input"
    and reads: "prepareCommissionCheckout rt input' t0 t1 = Inr p"
  shows "complete rt eng input' t0 t1 s' = Inl CommissionCheckoutIdempotencyError"
proof -
  obtain scope where body: "checkoutBody rt eng input scope s = Inr (r, s')"
    using complete_body [OF session_quiet_frame [OF eng(1)] first] by blast
  have "checkoutSound rt eng s" "checkoutOk input s'"
    using rt eng(2) fin safe by (simp_all add: checkoutSound_def checkoutOk_def)
  from answered_key_found [OF body this] obtain stored where
    "findCommand (ci_actorId input) PAY (ci_commandKey input) s' = Some stored"
    "sc_subjectKey stored = showInt (ci_orderPaymentId input)" .
  moreover have "pc_input p = input'" using reads by (auto simp: prepareCommissionCheckout_def read_simps)
  ultimately have "executeCommissionCheckout rt eng p s' = Inl CommissionCheckoutIdempotencyError"
    using other by (simp add: executeCommissionCheckout_def bindT_def readT_def liftT_def Let_def
        replayCompletedCommissionCheckout_def assertCommissionCheckoutReplayIdentity_def)
  from complete_quiet_throws [OF eng(1) reads this] show ?thesis
    by (simp add: CommissionCheckoutIdempotencyError_def isSerializationConflict_def)
qed

text \<open>The shop as another reader might have seen it: with the payment under another number.\<close>

definition otherShop :: db where
  "otherShop = sampleShop\<lparr>orderPayments := map (\<lambda>p. p\<lparr>pay_id := 9\<rparr>) (orderPayments sampleShop)\<rparr>"

theorem checkout_key_is_bound_witness:
  "\<exists>r s'. complete refRuntime refEngine sampleCheckout sampleShop sampleShop sampleShop = Inr (r, s') \<and>
     complete refRuntime refEngine (sampleCheckout\<lparr>ci_orderPaymentId := 9\<rparr>) otherShop otherShop s' =
       Inl CommissionCheckoutIdempotencyError"
proof -
  obtain r s' where run: "complete refRuntime refEngine sampleCheckout sampleShop sampleShop sampleShop = Inr (r, s')"
    and u: "unique_ok s'" by (rule sample_run)
  have "findCommissionCheckoutLockTargets 9 otherShop = Inr (1, 5)" by code_simp
  moreover have "findHolderId ''user'' (showInt 1) otherShop = Inr 10" by code_simp
  ultimately obtain p where
    reads: "prepareCommissionCheckout refRuntime (sampleCheckout\<lparr>ci_orderPaymentId := 9\<rparr>) otherShop otherShop = Inr p"
    by (simp add: prepareCommissionCheckout_def sampleCheckout_def)
  have q: "session_quiet (e_session refEngine)" by simp
  have safe: "isSafeInteger (JInt (ci_orderPaymentId sampleCheckout))" by code_simp
  from checkout_key_is_bound [OF refRuntime_ok q refEngine_fresh sampleShop_ok u safe run _ _ _ reads] run
  show ?thesis by (auto simp: sampleCheckout_def)
qed

end
