(* ===== verification/SettlementLaws.thy ===== *)
theory SettlementLaws
  imports Settlement CheckoutReplay
begin

text \<open>
  What a settlement guarantees: which contracts the core settles, what a settlement writes
  (income of the worker exactly as the points that were held), and that it is idempotent.
\<close>

section \<open>The decision\<close>

text \<open>The funding of an order, proved from its parts.\<close>

definition funded :: "CommissionSettlementWorld \<Rightarrow> bool" where
  "funded w \<longleftrightarrow> (let order = sw_order w; payment = sw_payment w; link = sw_fundingLink w; f = sw_funding w;
       flow = k_flowId (sw_contract w) in
     cf_reservationState f = ''HELD'' \<and> 0 < cf_targetAmount f \<and>
     o_currency order = ''POINT'' \<and> pf_currency payment = ''POINT'' \<and> cf_reservationCurrency f = ''POINT'' \<and>
     cf_transferCurrency f = ''POINT'' \<and>
     o_flowId order = flow \<and> pf_flowId payment = flow \<and> ln_flowId link = flow \<and>
     cf_reservationFlowId f = flow \<and> cf_transferFlowId f = flow \<and>
     cf_operationFlowId f = flow \<and> cf_commandFlowId f = flow \<and>
     ln_reservationId link = cf_reservationId f \<and>
     cf_actionOperationKind f = PAY \<and> cf_operationKind f = PAY \<and> cf_commandKind f = PAY \<and>
     cf_commandResultOperationId f = Some (cf_operationId f) \<and>
     cf_commandPrincipalId f = o_buyerId order \<and>
     cf_commandSubjectNamespace f = ''commission-order-payment'' \<and> cf_commandSubjectKey f = showInt (pf_id payment) \<and>
     cf_holderNamespace f = ''user'' \<and> cf_holderKey f = showInt (o_buyerId order) \<and>
     o_amount order = pf_amount payment \<and> o_amount order = cf_targetAmount f \<and> o_amount order = cf_transferAmount f \<and>
     cf_transferToAccountId f = cf_escrowAccountId f)"

definition settleable :: "CommissionSettlementWorld \<Rightarrow> CommissionSettlementInput \<Rightarrow> bool" where
  "settleable w input \<longleftrightarrow> k_id (sw_contract w) = si_contractId input \<and>
     k_orderId (sw_contract w) = o_id (sw_order w) \<and> k_workerId (sw_contract w) = si_actorId input \<and>
     o_state (sw_order w) = ''PAID'' \<and> pf_state (sw_payment w) = ''PAID'' \<and> funded w"

lemma settleGuard_bind_Inr: "rbind (settleGuard b m) f = Inr x \<longleftrightarrow> \<not> b \<and> f () = Inr x"
  by (simp add: settleGuard_def)

lemma settleGuard_bind_Inl:
  "rbind (settleGuard b m) f = Inl e \<longleftrightarrow>
     (b \<and> e = CommissionSettlementStateError m) \<or> (\<not> b \<and> f () = Inl e)"
  by (auto simp: settleGuard_def)

lemma planCommissionSettlement_eq_Inr:
  "planCommissionSettlement w input = Inr plan \<longleftrightarrow> settleable w input \<and> plan = settlementPlan w input"
  unfolding planCommissionSettlement_def Let_def settleGuard_bind_Inr settleable_def funded_def
  by auto

lemma planCommissionSettlement_eq_Inl:
  "planCommissionSettlement w input = Inl e \<Longrightarrow> \<exists>m. e = CommissionSettlementStateError m"
  unfolding planCommissionSettlement_def Let_def settleGuard_bind_Inl by blast

text \<open>a settlement is planned exactly when the contract's worker asks for it, order and payment
  are paid, and the funding proves itself from its parts: one flow, a held POINT reservation
  linked to the payment, the transfer of a completed PAY of the order's buyer for that payment,
  into the escrow, and one amount throughout. Every refusal is the state error.
\<close>

theorem planCommissionSettlement_accepts:
  "\<exists>message. planCommissionSettlement w input =
     (if settleable w input then Inr (settlementPlan w input) else Inl (CommissionSettlementStateError message))"
proof (cases "planCommissionSettlement w input")
  case (Inl e)
  then have "\<not> settleable w input"
    using planCommissionSettlement_eq_Inr [of w input "settlementPlan w input"] by simp
  with Inl planCommissionSettlement_eq_Inl [OF Inl] show ?thesis by auto
next
  case (Inr plan)
  then show ?thesis by (auto simp: planCommissionSettlement_eq_Inr)
qed

section \<open>A settlement that is carried out\<close>

definition swapOf :: "settlement_swap \<Rightarrow> string \<Rightarrow> string \<Rightarrow> swap_row" where
  "swapOf input op i = \<lparr>sw_id = i, sw_flowId = ss_flowId input, sw_operationId = op, sw_operationKind = SETTLE,
     sw_reservationId = ss_reservationId input, sw_beneficiaryHolderId = ss_beneficiaryHolderId input\<rparr>"

definition legsOf :: "settlement_swap \<Rightarrow> string \<Rightarrow> leg_row list" where
  "legsOf input i = map (\<lambda>leg. \<lparr>lg_actionId = i, lg_flowId = ss_flowId input, lg_currency = sl_currency leg,
     lg_fromAccountId = sl_fromAccountId leg, lg_toAccountId = sl_toAccountId leg,
     lg_amount = ss_amount input\<rparr>) [ss_pointLeg input, ss_incomeLeg input]"

definition incomeLotOf :: "settlement_swap \<Rightarrow> string \<Rightarrow> string \<Rightarrow> int \<Rightarrow> instant \<Rightarrow> lot_row" where
  "incomeLotOf input op a i t = \<lparr>l_id = i, l_accountId = il_accountId (ss_incomeLot input),
     l_currency = il_currency (ss_incomeLot input), l_sourceKind = il_sourceKind (ss_incomeLot input),
     l_sourceOperationId = Some op, l_sourceSwapActionId = Some a, l_sourceFlowId = Some (ss_flowId input),
     l_sourceFlowKind = Some COMMISSION, l_sourceOperationKind = Some SETTLE, l_issuanceReason = None,
     l_accountingCategory = None, l_accountingPolicyVersion = None,
     l_originalAmount = il_originalAmount (ss_incomeLot input),
     l_remainingAmount = il_originalAmount (ss_incomeLot input), l_createdAt = t\<rparr>"

lemma incomeSettlement_eq_Inr:
  "applyCommissionIncomeSettlement eng input op s = Inr ((a, l), s') \<longleftrightarrow>
     countWhere (\<lambda>r. r_id r = ss_reservationId input \<and> r_flowId r = ss_flowId input \<and> r_state r = ''HELD'')
       (financialReservations s) = 1 \<and>
     (\<exists>i ai t. ai = e_uuid eng ''FinancialSwapAction'' s \<and> a = swapOf input op ai \<and>
       i = e_nextId eng ''FinancialLot'' (s\<lparr>financialSwapActions := financialSwapActions s @ [a],
         financialSwapLegs := financialSwapLegs s @ legsOf input ai\<rparr>) \<and>
       t = e_now eng (s\<lparr>financialSwapActions := financialSwapActions s @ [a],
         financialSwapLegs := financialSwapLegs s @ legsOf input ai\<rparr>) \<and>
       l = incomeLotOf input op ai i t \<and>
       s' = s\<lparr>financialSwapActions := financialSwapActions s @ [a],
         financialSwapLegs := financialSwapLegs s @ legsOf input ai,
         financialLots := financialLots s @ [l],
         financialReservations := updateWhere (\<lambda>r. r_id r = ss_reservationId input \<and>
           r_flowId r = ss_flowId input \<and> r_state r = ''HELD'') (\<lambda>r. r\<lparr>r_state := ''SETTLED''\<rparr>)
           (financialReservations s)\<rparr>)"
  unfolding applyCommissionIncomeSettlement_def bindT_eq_Inr settleReservation_def guardedUpdate_eq_Inr returnT_eq_Inr
  by (auto simp: insertSwapAction_def insertSwapLegs_def insertIncomeLot_def insertLot_def
      swapOf_def legsOf_def incomeLotOf_def putReservations_def Let_def)

lemma assertCommissionSettlementShape_eq_Inr:
  "assertCommissionSettlementShape eng s = Inr z \<Longrightarrow> z = ((), s)"
  by (auto simp: assertCommissionSettlementShape_def setConstraintsImmediate_eq_Inr)

lemma loadSettlementPlan_Inr:
  assumes "loadSettlementPlan input h s = Inr plan"
  obtains w where "settleable w input" "plan = settlementPlan w input"
    "findRow (\<lambda>k. k_id k = si_contractId input) (contracts s) = Some (sw_contract w)"
    "findRow (\<lambda>r. o_id r = k_orderId (sw_contract w)) (orders s) = Some (sw_order w)"
    "findHolderId ''user'' (showInt (si_actorId input)) s = Inr h"
    "loadCommissionSettlementFunding (ln_reservationId (sw_fundingLink w)) s = Inr (sw_funding w)"
    "loadCommissionSettlementAccounts h s = Inr (sw_accounts w)"
    "loadCommissionSettlementOrderSnapshot (k_orderId (sw_contract w)) s = Inr (sw_order w, sw_payment w, sw_fundingLink w)"
proof -
  from assms obtain contract order payment link h' funding accounts where
    c: "findRow (\<lambda>k. k_id k = si_contractId input) (contracts s) = Some contract" and
    snap: "loadCommissionSettlementOrderSnapshot (k_orderId contract) s = Inr (order, payment, link)" and
    hold: "findHolderId ''user'' (showInt (k_workerId contract)) s = Inr h'" and
    same: "assertCommissionSettlementHolderIdentity h h' = Inr ()" and
    rest: "loadCommissionSettlementFunding (ln_reservationId link) s = Inr funding"
      "loadCommissionSettlementAccounts h' s = Inr accounts" and
    plan: "planCommissionSettlement \<lparr>sw_contract = contract, sw_order = order, sw_payment = payment,
       sw_fundingLink = link, sw_funding = funding, sw_accounts = accounts\<rparr> input = Inr plan"
    unfolding loadSettlementPlan_def rbind_eq_Inr loadCommissionSettlementContract_eq_Inr
    by (auto simp: rbind_eq_Inr)
  have h': "h' = h" using same by (simp add: assertCommissionSettlementHolderIdentity_def settleGuard_def split: if_splits)
  note p = plan [unfolded planCommissionSettlement_eq_Inr]
  then have "k_workerId contract = si_actorId input" by (simp add: settleable_def)
  with p c hold rest h' snap loadCommissionSettlementOrderSnapshot_Inr [OF snap] show thesis
    by (intro that [of "\<lparr>sw_contract = contract, sw_order = order, sw_payment = payment,
       sw_fundingLink = link, sw_funding = funding, sw_accounts = accounts\<rparr>"]) simp_all
qed

text \<open>Every table a settlement that is carried out writes, and what it writes.\<close>

lemma performSettlementE:
  assumes perf: "performSettlement rt eng input h s = Inr (r, s')" and fin: "fin_ok s" and fresh: "engine_fresh eng"
  obtains w plan ci oi ct ai i t where
    "settleable w input" "plan = settlementPlan w input"
    "findRow (\<lambda>k. k_id k = si_contractId input) (contracts s) = Some (sw_contract w)"
    "findRow (\<lambda>r. o_id r = k_orderId (sw_contract w)) (orders s) = Some (sw_order w)"
    "findHolderId ''user'' (showInt (si_actorId input)) s = Inr h"
    "loadCommissionSettlementFunding (ln_reservationId (sw_fundingLink w)) s = Inr (sw_funding w)"
    "loadCommissionSettlementAccounts h s = Inr (sw_accounts w)"
    "loadCommissionSettlementOrderSnapshot (k_orderId (sw_contract w)) s = Inr (sw_order w, sw_payment w, sw_fundingLink w)"
    "ci \<notin> cm_id ` set (financialCommandRuns s)" "oi \<notin> oper_id ` set (financialOperations s)" "oi \<noteq> []"
    "i \<notin> l_id ` set (financialLots s)"
    "countWhere (\<lambda>r. r_id r = ss_reservationId (spl_swap plan) \<and> r_flowId r = ss_flowId (spl_swap plan) \<and>
       r_state r = ''HELD'') (financialReservations s) = 1"
    "fin_ok s'"
    "r = \<lparr>se_contractId = si_contractId input, se_reservationId = ss_reservationId (spl_swap plan),
       se_incomeLotId = i, se_referenceId = formatTransactionReference COMMISSION (spl_flowId plan),
       se_commandId = formatCommandId SETTLE ci, se_operationId = formatOperationId SETTLE oi, se_replayed = False\<rparr>"
    "s' = s\<lparr>
       financialCommandRuns := financialCommandRuns s @
         [commandOf (requestFor (spl_flowId plan) (settleCommand input) (hashSettlement rt input)) ci ct (Some oi)],
       financialOperations := financialOperations s @
         [\<lparr>oper_id = oi, oper_flowId = spl_flowId plan, oper_kind = SETTLE, oper_commandId = ci\<rparr>],
       financialSwapActions := financialSwapActions s @ [swapOf (spl_swap plan) oi ai],
       financialSwapLegs := financialSwapLegs s @ legsOf (spl_swap plan) ai,
       financialLots := financialLots s @ [incomeLotOf (spl_swap plan) oi ai i t],
       financialReservations := updateWhere (\<lambda>r. r_id r = ss_reservationId (spl_swap plan) \<and>
         r_flowId r = ss_flowId (spl_swap plan) \<and> r_state r = ''HELD'') (\<lambda>r. r\<lparr>r_state := ''SETTLED''\<rparr>)
         (financialReservations s)\<rparr>"
proof -
  from perf obtain plan where load: "loadSettlementPlan input h s = Inr plan"
    by (auto simp: performSettlement_def tx_simps)
  from loadSettlementPlan_Inr [OF load] obtain w where w: "settleable w input" "plan = settlementPlan w input"
    "findRow (\<lambda>k. k_id k = si_contractId input) (contracts s) = Some (sw_contract w)"
    "findRow (\<lambda>r. o_id r = k_orderId (sw_contract w)) (orders s) = Some (sw_order w)"
    "findHolderId ''user'' (showInt (si_actorId input)) s = Inr h"
    "loadCommissionSettlementFunding (ln_reservationId (sw_fundingLink w)) s = Inr (sw_funding w)"
    "loadCommissionSettlementAccounts h s = Inr (sw_accounts w)"
    "loadCommissionSettlementOrderSnapshot (k_orderId (sw_contract w)) s = Inr (sw_order w, sw_payment w, sw_fundingLink w)" by blast
  have pk: "spl_commandRequest plan = settleCommand input" "spl_operationKind plan = SETTLE"
    "cpl_kind (settleCommand input) = SETTLE" "cpl_flowKind (settleCommand input) = COMMISSION"
    by (simp_all add: w(2) settlementPlan_def settleCommand_def Let_def)
  let ?req = "requestFor (spl_flowId plan) (settleCommand input) (hashSettlement rt input)"
  define ci where "ci = e_uuid eng ''FinancialCommandRun'' s"
  define ct where "ct = e_now eng s"
  define s1 where "s1 = s\<lparr>financialCommandRuns := financialCommandRuns s @ [commandOf ?req ci ct None]\<rparr>"
  define oi where "oi = e_uuid eng ''FinancialOperation'' s1"
  define s2 where "s2 = s1\<lparr>financialOperations := financialOperations s @
    [\<lparr>oper_id = oi, oper_flowId = spl_flowId plan, oper_kind = SETTLE, oper_commandId = ci\<rparr>]\<rparr>"
  have fr: "ci \<notin> cm_id ` set (financialCommandRuns s)" "oi \<notin> oper_id ` set (financialOperations s1)" "oi \<noteq> []"
    unfolding ci_def oi_def using fresh by (auto simp only: engine_fresh_def)
  from perf load obtain cmd t1 oper t2 action lot t3 t4 where
    st: "startCommand eng ?req s = Inr (cmd, t1)" and
    cop: "createOperation eng (cm_flowId cmd) SETTLE (cm_id cmd) t1 = Inr (oper, t2)" and
    inc: "applyCommissionIncomeSettlement eng (spl_swap plan) (oper_id oper) t2 = Inr ((action, lot), t3)" and
    cc: "completeCommand (cm_id cmd) (oper_id oper) t3 = Inr ((), t4)" and
    shape: "assertCommissionSettlementShape eng t4 = Inr ((), s')" and
    r: "r = \<lparr>se_contractId = si_contractId input, se_reservationId = ss_reservationId (spl_swap plan),
       se_incomeLotId = l_id lot,
       se_referenceId = formatTransactionReference (cm_flowKind cmd) (cm_flowId cmd),
       se_commandId = formatCommandId (cm_kind cmd) (cm_id cmd),
       se_operationId = formatOperationId (oper_kind oper) (oper_id oper), se_replayed = False\<rparr>"
    by (auto simp: performSettlement_def bindT_eq_Inr readT_eq_Inr returnT_eq_Inr pk)
  from st have cmd: "cmd = commandOf ?req ci ct None" and t1: "t1 = s1"
    by (simp_all add: startCommand_eq_Inr ci_def ct_def s1_def)
  from cop have oper: "oper = \<lparr>oper_id = oi, oper_flowId = spl_flowId plan, oper_kind = SETTLE, oper_commandId = ci\<rparr>"
    and t2: "t2 = s2"
    by (simp_all add: createOperation_eq_Inr cmd t1 oi_def s2_def) (simp_all add: s1_def)
  from inc [unfolded incomeSettlement_eq_Inr t2] obtain i ai t where
    held: "countWhere (\<lambda>r. r_id r = ss_reservationId (spl_swap plan) \<and> r_flowId r = ss_flowId (spl_swap plan) \<and>
       r_state r = ''HELD'') (financialReservations s2) = 1" and
    lot: "lot = incomeLotOf (spl_swap plan) oi ai i t" and
    i: "i = e_nextId eng ''FinancialLot'' (s2\<lparr>financialSwapActions := financialSwapActions s2 @ [action],
         financialSwapLegs := financialSwapLegs s2 @ legsOf (spl_swap plan) ai\<rparr>)" and
    t3: "t3 = s2\<lparr>financialSwapActions := financialSwapActions s2 @ [swapOf (spl_swap plan) oi ai],
       financialSwapLegs := financialSwapLegs s2 @ legsOf (spl_swap plan) ai,
       financialLots := financialLots s2 @ [incomeLotOf (spl_swap plan) oi ai i t],
       financialReservations := updateWhere (\<lambda>r. r_id r = ss_reservationId (spl_swap plan) \<and>
         r_flowId r = ss_flowId (spl_swap plan) \<and> r_state r = ''HELD'') (\<lambda>r. r\<lparr>r_state := ''SETTLED''\<rparr>)
         (financialReservations s2)\<rparr>"
    by (auto simp: oper)
  have frames: "financialReservations s2 = financialReservations s" "financialSwapActions s2 = financialSwapActions s"
    "financialSwapLegs s2 = financialSwapLegs s" "financialLots s2 = financialLots s"
    "financialCommandRuns s2 = financialCommandRuns s @ [commandOf ?req ci ct None]"
    by (simp_all add: s2_def s1_def)
  have "updateWhere (\<lambda>x. cm_id x = ci) (\<lambda>x. x\<lparr>cm_resultOperationId := Some oi\<rparr>) (financialCommandRuns s) =
      financialCommandRuns s"
    by (rule updateWhere_id) (use fr(1) in auto)
  then have runs: "updateWhere (\<lambda>x. cm_id x = ci) (\<lambda>x. x\<lparr>cm_resultOperationId := Some oi\<rparr>) (financialCommandRuns t3)
      = financialCommandRuns s @ [commandOf ?req ci ct (Some oi)]"
    by (simp add: t3 frames updateWhere_append) (simp add: updateWhere_def)
  from cc shape runs have "s' = t3\<lparr>financialCommandRuns := financialCommandRuns s @ [commandOf ?req ci ct (Some oi)]\<rparr>"
    by (simp add: completeCommand_eq_Inr cmd oper) (auto dest: assertCommissionSettlementShape_eq_Inr)
  note s' = this [unfolded t3 frames]
  have i': "i \<notin> l_id ` set (financialLots s)"
  proof -
    have "i \<notin> l_id ` set (financialLots (s2\<lparr>financialSwapActions := financialSwapActions s2 @ [action],
         financialSwapLegs := financialSwapLegs s2 @ legsOf (spl_swap plan) ai\<rparr>))"
      unfolding i using fresh unfolding engine_fresh_def by blast
    then show ?thesis by (simp add: frames)
  qed
  have "0 \<le> l_originalAmount (incomeLotOf (spl_swap plan) oi ai i t)"
    using w(1) by (simp add: w(2) settlementPlan_def incomeLotOf_def settleable_def funded_def Let_def)
  then have "books_ok (financialLots s @ [incomeLotOf (spl_swap plan) oi ai i t]) (financialTransfers s)
      (financialTransferAllocations s)"
    using fin i' by (intro books_issue) (simp_all add: fin_ok_def incomeLotOf_def)
  then have fin': "fin_ok s'" by (simp add: fin_ok_def s' s2_def s1_def)
  have lid: "l_id lot = i" by (simp add: lot incomeLotOf_def)
  have oi: "oi \<notin> oper_id ` set (financialOperations s)" using fr(2) by (simp add: s1_def)
  show thesis
    by (rule that [OF w fr(1) oi fr(3) i' held [unfolded frames] fin'])
      (simp add: r cmd oper lid pk, rule db.equality, simp_all add: s' s2_def s1_def)
qed

section \<open>The use case\<close>

text \<open>The three ways the look for an earlier settlement may end.\<close>

lemma settleCommand_simps [simp]:
  "cpl_flowKind (settleCommand i) = COMMISSION" "cpl_kind (settleCommand i) = SETTLE"
  "cpl_principalId (settleCommand i) = si_actorId i" "cpl_idempotencyKey (settleCommand i) = si_commandKey i"
  "cpl_subjectNamespace (settleCommand i) = COMMISSION_CONTRACT_NAMESPACE"
  "cpl_subjectKey (settleCommand i) = showInt (si_contractId i)"
  by (simp_all add: settleCommand_def)

definition sameSettlement :: "runtime \<Rightarrow> CommissionSettlementInput \<Rightarrow> stored_command \<Rightarrow> bool" where
  "sameSettlement rt input c \<longleftrightarrow> sc_flowKind c = COMMISSION \<and> sc_kind c = SETTLE \<and>
     sc_payloadHash c = hashSettlement rt input \<and> sc_subjectNamespace c = COMMISSION_CONTRACT_NAMESPACE \<and>
     sc_subjectKey c = showInt (si_contractId input)"

lemma planCommissionSettlementStart_eq_Inr:
  "planCommissionSettlementStart existing completed (settleCommand input) (hashSettlement rt input) = Inr start \<longleftrightarrow>
     (existing = None \<and> completed = None \<and> start = SettleProceed) \<or>
     (\<exists>c. existing = Some c \<and> sameSettlement rt input c \<and> completedCommand c \<and> start = SettleReplay c) \<or>
     (\<exists>c. existing = None \<and> completed = Some c \<and> sameSettlement rt input c \<and> completedCommand c \<and> start = SettleAlias c)"
  by (cases existing; cases completed)
    (auto simp: planCommissionSettlementStart_def settleGuard_bind_Inr sameSettlement_def completedCommand_def)

lemma executeSettlement_cases:
  assumes ok: "executeSettlement rt eng input h s = Inr (r, s')"
  obtains (Stored) c where "findCommand (si_actorId input) SETTLE (si_commandKey input) s = Some c"
      "sameSettlement rt input c" "completedCommand c"
      "loadSettlementResult c (si_contractId input) True s = Inr r" "s' = s"
    | (Alias) c result a where "findCommand (si_actorId input) SETTLE (si_commandKey input) s = None"
      "findCompletedCommandBySubject COMMISSION COMMISSION_CONTRACT_NAMESPACE (showInt (si_contractId input)) SETTLE s = Some c"
      "sameSettlement rt input c" "completedCommand c"
      "loadSettlementResult c (si_contractId input) True s = Inr result"
      "a = commandOf (requestFor (sc_flowId c) (settleCommand input) (hashSettlement rt input))
         (e_uuid eng ''FinancialCommandRun'' s) (e_now eng s) (Some (the (sc_operationDbId c)))"
      "r = result\<lparr>se_commandId := formatCommandId (cm_kind a) (cm_id a)\<rparr>"
      "s' = s\<lparr>financialCommandRuns := financialCommandRuns s @ [a]\<rparr>"
    | (New) "findCommand (si_actorId input) SETTLE (si_commandKey input) s = None"
      "findCompletedCommandBySubject COMMISSION COMMISSION_CONTRACT_NAMESPACE (showInt (si_contractId input)) SETTLE s = None"
      "performSettlement rt eng input h s = Inr (r, s')"
proof -
  let ?e = "findCommand (si_actorId input) SETTLE (si_commandKey input) s"
  let ?c = "if ?e \<noteq> None then None else findCompletedCommandBySubject COMMISSION COMMISSION_CONTRACT_NAMESPACE
     (showInt (si_contractId input)) SETTLE s"
  from ok obtain start where
    start: "planCommissionSettlementStart ?e ?c (settleCommand input) (hashSettlement rt input) = Inr start" and
    go: "(case start of
        SettleReplay identity \<Rightarrow> readT (loadSettlementResult identity (si_contractId input) True)
      | SettleAlias identity \<Rightarrow>
          bindT (readT (loadSettlementResult identity (si_contractId input) True)) (\<lambda>stored.
          bindT (saveCommandAlias eng (requestFor (sc_flowId identity) (settleCommand input) (hashSettlement rt input))
                   (the (sc_operationDbId identity))) (\<lambda>alias.
          bindT (assertCommandEffectCompleteness eng) (\<lambda>_.
          returnT (stored\<lparr>se_commandId := formatCommandId (cm_kind alias) (cm_id alias)\<rparr>))))
      | SettleProceed \<Rightarrow> performSettlement rt eng input h) s = Inr (r, s')"
    by (auto simp: executeSettlement_def Let_def bindT_eq_Inr readT_eq_Inr liftT_eq_Inr cong: if_cong)
  from start [unfolded planCommissionSettlementStart_eq_Inr] show thesis
  proof (elim disjE exE conjE)
    assume a: "?e = None" "?c = None" "start = SettleProceed"
    then show thesis using go by (intro New) simp_all
  next
    fix c assume a: "?e = Some c" "sameSettlement rt input c" "completedCommand c" "start = SettleReplay c"
    then show thesis using go by (intro Stored) (auto simp: readT_eq_Inr)
  next
    fix c assume a: "?e = None" "?c = Some c" "sameSettlement rt input c" "completedCommand c" "start = SettleAlias c"
    from go [unfolded a(5)] obtain result where l: "loadSettlementResult c (si_contractId input) True s = Inr result"
      and rest: "r = result\<lparr>se_commandId := formatCommandId SETTLE (e_uuid eng ''FinancialCommandRun'' s)\<rparr>"
       "s' = s\<lparr>financialCommandRuns := financialCommandRuns s @ [commandOf
          (requestFor (sc_flowId c) (settleCommand input) (hashSettlement rt input))
         (e_uuid eng ''FinancialCommandRun'' s) (e_now eng s) (Some (the (sc_operationDbId c)))]\<rparr>"
      by (auto simp: tx_simps)
    then show thesis using a by (intro Alias [OF _ _ _ _ l refl]) simp_all
  qed
qed

lemma loadSettlementResult_replayed: "loadSettlementResult c i b s = Inr r \<Longrightarrow> se_replayed r = b"
  by (auto simp: loadSettlementResult_def rbind_eq_Inr)

lemma executeSettlement_new:
  assumes "executeSettlement rt eng input h s = Inr (r, s')" "\<not> se_replayed r"
  shows "performSettlement rt eng input h s = Inr (r, s')"
  using assms(1) by (cases rule: executeSettlement_cases) (use assms(2) in \<open>auto dest: loadSettlementResult_replayed\<close>)

lemma settle_success:
  assumes "session_frame (e_session eng)" "settle rt eng input s0 s1 s = Inr (r, s')"
  shows "\<exists>h. executeSettlement rt eng input h s = Inr (r, s')"
proof -
  from assms(2) obtain h keys where "serialized (e_session eng) keys (executeSettlement rt eng input h) False s = Inr (r, s')"
    by (auto simp: settle_def tx_simps)
  from serialized_success [OF assms(1) this] show ?thesis by blast
qed

lemma loadFunding_Inr:
  assumes "loadCommissionSettlementFunding i s = Inr f"
  shows "\<exists>v escrow. findRow (\<lambda>r. r_id r = i) (financialReservations s) = Some v \<and>
    findRow (\<lambda>a. a_reservationId a = Some (r_id v)) (financialAccounts s) = Some escrow \<and>
    cf_reservationId f = r_id v \<and> cf_reservationFlowId f = r_flowId v \<and> cf_reservationState f = r_state v \<and>
    cf_targetAmount f = r_targetAmount v \<and> cf_escrowAccountId f = a_id escrow \<and>
    cf_reservationCurrency f = r_currency v"
proof -
  from assms obtain v where v: "findRow (\<lambda>r. r_id r = i) (financialReservations s) = Some v"
    by (auto simp: loadCommissionSettlementFunding_def split: option.splits)
  from assms v obtain escrow where e: "findRow (\<lambda>a. a_reservationId a = Some (r_id v)) (financialAccounts s) = Some escrow"
    by (cases "findRow (\<lambda>a. a_reservationId a = Some (r_id v)) (financialAccounts s)")
      (auto simp: loadCommissionSettlementFunding_def rbind_eq_Inr)
  from assms v e obtain t where "transferOf v s = Some t"
    by (cases "transferOf v s") (auto simp: loadCommissionSettlementFunding_def rbind_eq_Inr)
  with assms v e show ?thesis
    by (auto simp: loadCommissionSettlementFunding_def rbind_eq_Inr)
qed

end
