(* ===== verification/SettlementReplay.thy ===== *)
theory SettlementReplay
  imports SettlementLaws
begin

text \<open>
  The guarantees of the settlement use case: points held become the worker's income, once;
  and a repeated request is answered from the first one. The samples settle the commission
  that the sample checkout formed.
\<close>

section \<open>Points become income\<close>

lemma loadAccounts_Inr:
  "loadCommissionSettlementAccounts h s = Inr a \<Longrightarrow>
     \<exists>account. accountOf h ''INCOME'' ''AVAILABLE'' s = Some account \<and> ca_incomeAvailableAccountId a = a_id account"
  by (auto simp: loadCommissionSettlementAccounts_def read_simps)

text \<open>The rows a settlement was planned of, and how its swap names them.\<close>

lemma settled_rows:
  assumes st: "settleable w input" and fund: "loadCommissionSettlementFunding (ln_reservationId (sw_fundingLink w)) s = Inr (sw_funding w)"
    and acc: "loadCommissionSettlementAccounts h s = Inr (sw_accounts w)"
    and hold: "findHolderId ''user'' (showInt (si_actorId input)) s = Inr h"
  obtains v :: reservation_row and escrow :: account_row and account :: account_row and holder :: holder_row
  where "v \<in> set (financialReservations s)" "escrow \<in> set (financialAccounts s)" "account \<in> set (financialAccounts s)"
      "holder \<in> set (financialHolders s)"
    and "r_state v = ''HELD''" "r_flowId v = k_flowId (sw_contract w)" "r_targetAmount v = o_amount (sw_order w)" "0 < o_amount (sw_order w)"
    and "a_reservationId escrow = Some (r_id v)" "h_namespace holder = ''user''" "h_key holder = showInt (si_actorId input)"
      "a_holderId account = Some (h_id holder)" "a_currency account = ''INCOME''" "a_purpose account = ''AVAILABLE''"
    and "ss_reservationId (spl_swap (settlementPlan w input)) = r_id v"
      "ss_flowId (spl_swap (settlementPlan w input)) = k_flowId (sw_contract w)"
    and "\<And>ai. map lg_amount (legsOf (spl_swap (settlementPlan w input)) ai) = [o_amount (sw_order w), o_amount (sw_order w)] \<and>
        map lg_currency (legsOf (spl_swap (settlementPlan w input)) ai) = [''POINT'', ''INCOME''] \<and>
        lg_fromAccountId (hd (legsOf (spl_swap (settlementPlan w input)) ai)) = a_id escrow \<and>
        lg_toAccountId (last (legsOf (spl_swap (settlementPlan w input)) ai)) = a_id account"
    and "\<And>oi ai i t. l_accountId (incomeLotOf (spl_swap (settlementPlan w input)) oi ai i t) = a_id account \<and>
        l_remainingAmount (incomeLotOf (spl_swap (settlementPlan w input)) oi ai i t) = o_amount (sw_order w)"
proof -
  from loadFunding_Inr [OF fund] obtain v escrow where
    v: "findRow (\<lambda>r. r_id r = ln_reservationId (sw_fundingLink w)) (financialReservations s) = Some v" and
    e: "findRow (\<lambda>a. a_reservationId a = Some (r_id v)) (financialAccounts s) = Some escrow" and
    f: "cf_reservationId (sw_funding w) = r_id v" "cf_reservationFlowId (sw_funding w) = r_flowId v"
      "cf_reservationState (sw_funding w) = r_state v" "cf_targetAmount (sw_funding w) = r_targetAmount v"
      "cf_escrowAccountId (sw_funding w) = a_id escrow" by blast
  from loadAccounts_Inr [OF acc] obtain account where
    a: "accountOf h ''INCOME'' ''AVAILABLE'' s = Some account" "ca_incomeAvailableAccountId (sw_accounts w) = a_id account"
    by blast
  from hold obtain holder where holder: "holder \<in> set (financialHolders s)" "h_namespace holder = ''user''"
    "h_key holder = showInt (si_actorId input)" "h = h_id holder"
    by (auto simp: read_simps dest: findRow_Some)
  note rows = findRow_Some [OF v] findRow_Some [OF e] findRow_Some [OF a(1) [unfolded accountOf_def]]
  note st = st [unfolded settleable_def funded_def Let_def f]
  show thesis
    by (rule that [of v escrow account holder])
      (use rows holder st in \<open>auto simp: settlementPlan_def Let_def f a(2) legsOf_def incomeLotOf_def\<close>)
qed

text \<open>The paid payment of an order and the link that names its reservation.\<close>

lemma loadOrderSnapshot_Inr:
  assumes "loadCommissionSettlementOrderSnapshot orderId s = Inr (order, facts, link)"
  obtains payment :: payment_row where "payment \<in> set (orderPayments s)" "link \<in> set (orderFinancialLinks s)"
    "pay_orderId payment = o_id order" "pay_flowId payment = o_flowId order" "pay_state payment = ''PAID''"
    "ln_orderPaymentId link = pay_id payment" "ln_flowId link = pay_flowId payment"
proof -
  let ?ps = "\<lambda>o'. filter (\<lambda>p. pay_orderId p = o_id o' \<and> pay_flowId p = o_flowId o' \<and> pay_state p = ''PAID'') (orderPayments s)"
  from assms obtain p ps where p: "sort_key pay_id (?ps order) = p # ps" and link: "linkOf p s = Some link"
    by (auto simp: loadCommissionSettlementOrderSnapshot_def split: option.splits list.splits)
  have "p \<in> set (sort_key pay_id (?ps order))" unfolding p by simp
  then have "p \<in> set (?ps order)" by simp
  with findRow_Some [OF link [unfolded linkOf_def]] show thesis by (intro that [of p]) auto
qed

text \<open>C10: a settlement that was not answered from an earlier one found the held reservation that the
  paid payment of the caller's contract is linked to, settled it, and moved its whole amount on
  paper from its escrow. It issued one lot, the one whose identifier it answers: income of
  exactly that amount, which is the amount of the paid order, on the caller's available income
  account, from the contract's flow, with nothing of it spent. No other lot was issued or
  changed, no other account gained or lost, and the books still balance.
\<close>

theorem settlement_turns_points_into_income:
  assumes frame: "session_frame (e_session eng)" and fresh: "engine_fresh eng" and fin: "fin_ok s"
    and ok: "settle rt eng input s0 s1 s = Inr (r, s')" and new: "\<not> se_replayed r"
  shows "fin_ok s' \<and> (\<exists>k \<in> set (contracts s). \<exists>order \<in> set (orders s). \<exists>v \<in> set (financialReservations s).
    \<exists>escrow \<in> set (financialAccounts s). \<exists>account \<in> set (financialAccounts s). \<exists>holder \<in> set (financialHolders s).
    \<exists>payment \<in> set (orderPayments s). \<exists>link \<in> set (orderFinancialLinks s). \<exists>lot.
    k_id k = si_contractId input \<and> k_workerId k = si_actorId input \<and> k_orderId k = o_id order \<and> o_state order = ''PAID'' \<and>
    pay_orderId payment = o_id order \<and> pay_state payment = ''PAID'' \<and> pay_flowId payment = k_flowId k \<and>
    ln_orderPaymentId link = pay_id payment \<and> ln_flowId link = k_flowId k \<and> ln_reservationId link = r_id v \<and>
    r_id v = se_reservationId r \<and> r_flowId v = k_flowId k \<and>
    r_state v = ''HELD'' \<and> r_targetAmount v = o_amount order \<and> 0 < r_targetAmount v \<and>
    v\<lparr>r_state := ''SETTLED''\<rparr> \<in> set (financialReservations s') \<and>
    a_reservationId escrow = Some (r_id v) \<and>
    (\<exists>legs. financialSwapLegs s' = financialSwapLegs s @ legs \<and> map lg_amount legs = [o_amount order, o_amount order] \<and>
       map lg_currency legs = [''POINT'', ''INCOME''] \<and>
       lg_fromAccountId (hd legs) = a_id escrow \<and> lg_toAccountId (last legs) = a_id account) \<and>
    h_namespace holder = ''user'' \<and> h_key holder = showInt (si_actorId input) \<and> a_holderId account = Some (h_id holder) \<and>
    a_currency account = ''INCOME'' \<and> a_purpose account = ''AVAILABLE'' \<and>
    financialLots s' = financialLots s @ [lot] \<and> l_id lot = se_incomeLotId r \<and> l_id lot \<notin> l_id ` set (financialLots s) \<and>
    l_accountId lot = a_id account \<and> l_currency lot = ''INCOME'' \<and> l_sourceKind lot = ''COMMISSION_SETTLEMENT'' \<and>
    l_sourceFlowId lot = Some (k_flowId k) \<and> l_originalAmount lot = o_amount order \<and> l_remainingAmount lot = o_amount order \<and>
    (\<forall>i. accountFunds i s' = accountFunds i s + (if i = a_id account then o_amount order else 0)))"
proof -
  from settle_success [OF frame ok] obtain h where "executeSettlement rt eng input h s = Inr (r, s')" by blast
  from executeSettlement_new [OF this new] have perf: "performSettlement rt eng input h s = Inr (r, s')" .
  obtain w plan oi ai i t where st: "settleable w input" and plan: "plan = settlementPlan w input" and
    k: "findRow (\<lambda>k. k_id k = si_contractId input) (contracts s) = Some (sw_contract w)" and
    order: "findRow (\<lambda>r. o_id r = k_orderId (sw_contract w)) (orders s) = Some (sw_order w)" and
    reads: "findHolderId ''user'' (showInt (si_actorId input)) s = Inr h"
      "loadCommissionSettlementFunding (ln_reservationId (sw_fundingLink w)) s = Inr (sw_funding w)"
      "loadCommissionSettlementAccounts h s = Inr (sw_accounts w)"
      "loadCommissionSettlementOrderSnapshot (k_orderId (sw_contract w)) s = Inr (sw_order w, sw_payment w, sw_fundingLink w)" and
    new_lot: "i \<notin> l_id ` set (financialLots s)" and
    fin': "fin_ok s'" and r: "se_reservationId r = ss_reservationId (spl_swap plan)" "se_incomeLotId r = i" and
    tables: "financialSwapLegs s' = financialSwapLegs s @ legsOf (spl_swap plan) ai"
      "financialLots s' = financialLots s @ [incomeLotOf (spl_swap plan) oi ai i t]"
      "financialReservations s' = updateWhere (\<lambda>r. r_id r = ss_reservationId (spl_swap plan) \<and>
         r_flowId r = ss_flowId (spl_swap plan) \<and> r_state r = ''HELD'') (\<lambda>r. r\<lparr>r_state := ''SETTLED''\<rparr>)
         (financialReservations s)"
    by (rule performSettlementE [OF perf fin fresh]) (rule that, (assumption | simp)+)
  let ?swap = "spl_swap (settlementPlan w input)"
  obtain v escrow account holder where
    rows: "v \<in> set (financialReservations s)" "escrow \<in> set (financialAccounts s)" "account \<in> set (financialAccounts s)"
      "holder \<in> set (financialHolders s)" and
    held: "r_state v = ''HELD''" "r_flowId v = k_flowId (sw_contract w)" "r_targetAmount v = o_amount (sw_order w)"
      "0 < o_amount (sw_order w)" and
    owned: "a_reservationId escrow = Some (r_id v)" "h_namespace holder = ''user''" "h_key holder = showInt (si_actorId input)"
      "a_holderId account = Some (h_id holder)" "a_currency account = ''INCOME''" "a_purpose account = ''AVAILABLE''" and
    named: "ss_reservationId ?swap = r_id v" "ss_flowId ?swap = k_flowId (sw_contract w)" and
    legs: "\<And>ai. map lg_amount (legsOf ?swap ai) = [o_amount (sw_order w), o_amount (sw_order w)] \<and>
        map lg_currency (legsOf ?swap ai) = [''POINT'', ''INCOME''] \<and>
        lg_fromAccountId (hd (legsOf ?swap ai)) = a_id escrow \<and> lg_toAccountId (last (legsOf ?swap ai)) = a_id account" and
    lot: "\<And>oi ai i t. l_accountId (incomeLotOf ?swap oi ai i t) = a_id account \<and>
        l_remainingAmount (incomeLotOf ?swap oi ai i t) = o_amount (sw_order w)"
    by (rule settled_rows [OF st reads(2,3,1)]) (rule that, assumption+)
  obtain payment where pay: "payment \<in> set (orderPayments s)" "sw_fundingLink w \<in> set (orderFinancialLinks s)"
    "pay_orderId payment = o_id (sw_order w)" "pay_flowId payment = o_flowId (sw_order w)" "pay_state payment = ''PAID''"
    "ln_orderPaymentId (sw_fundingLink w) = pay_id payment" "ln_flowId (sw_fundingLink w) = pay_flowId payment"
    by (rule loadOrderSnapshot_Inr [OF reads(4)])
  note tables = tables [unfolded plan]
  have settled: "v\<lparr>r_state := ''SETTLED''\<rparr> \<in> set (financialReservations s')"
    unfolding tables by (rule updated_member) (use rows held named in auto)
  have funds: "accountFunds j s' = accountFunds j s + (if j = a_id account then o_amount (sw_order w) else 0)" for j
    using accountFunds_issued [OF tables(2), of j] by (simp add: lot)
  have paid: "k_workerId (sw_contract w) = si_actorId input" "o_state (sw_order w) = ''PAID''"
      "o_flowId (sw_order w) = k_flowId (sw_contract w)" "ln_reservationId (sw_fundingLink w) = r_id v"
    using st named(1) by (simp_all add: settleable_def funded_def settlementPlan_def Let_def)
  let ?lot = "incomeLotOf ?swap oi ai i t"
  have issued: "l_id ?lot = i" "l_currency ?lot = ''INCOME''" "l_sourceKind ?lot = ''COMMISSION_SETTLEMENT''"
      "l_sourceFlowId ?lot = Some (k_flowId (sw_contract w))" "l_originalAmount ?lot = o_amount (sw_order w)"
      "l_remainingAmount ?lot = o_amount (sw_order w)" "l_accountId ?lot = a_id account"
    using lot [of oi ai i t] named(2) by (simp_all add: incomeLotOf_def settlementPlan_def Let_def)
  show ?thesis
    using fin' rows pay findRow_Some [OF k] findRow_Some [OF order] held owned settled funds legs paid tables(1,2) issued new_lot
    by (intro conjI bexI [of _ "sw_contract w"] bexI [of _ "sw_order w"] bexI [of _ v] bexI [of _ escrow]
        bexI [of _ account] bexI [of _ holder] bexI [of _ payment] bexI [of _ "sw_fundingLink w"]
        exI [of _ ?lot] exI [of _ "legsOf ?swap ai"]) (simp_all add: r plan named)
qed

section \<open>Idempotence\<close>

definition markSettled :: "CommissionSettlementResult \<Rightarrow> CommissionSettlementResult" where
  "markSettled r = r\<lparr>se_replayed := True\<rparr>"

lemma loadSettlement_frame:
  assumes "contracts s = contracts t" "financialSwapActions s = financialSwapActions t" "financialLots s = financialLots t"
  shows "loadSettlementResult c i b s = loadSettlementResult c i b t"
  unfolding loadSettlementResult_def loadCommissionSettlementContract_def loadCommissionSettlementLedgerResult_def assms ..

lemma loadSettlement_identity:
  assumes "sc_flowId c = sc_flowId d" "sc_referenceId c = sc_referenceId d" "sc_operationId c = sc_operationId d"
    "sc_operationDbId c = sc_operationDbId d" "loadSettlementResult d i b s = Inr r"
  shows "loadSettlementResult c i b s = Inr (r\<lparr>se_commandId := sc_commandId c\<rparr>)"
  using assms by (auto simp: loadSettlementResult_def rbind_eq_Inr)

lemma settlement_of_stored:
  assumes "findCommand (si_actorId input) SETTLE (si_commandKey input) s = Some c" "sameSettlement rt input c"
    "completedCommand c" "loadSettlementResult c (si_contractId input) True s = Inr r"
  shows "executeSettlement rt eng input h s = Inr (r, s)"
proof -
  have "planCommissionSettlementStart (Some c) None (settleCommand input) (hashSettlement rt input) = Inr (SettleReplay c)"
    using assms(2,3) by (simp add: planCommissionSettlementStart_eq_Inr)
  with assms(1,4) show ?thesis
    by (simp add: executeSettlement_def Let_def bindT_def readT_def liftT_def)
qed

lemma settle_retry_new:
  assumes perf: "performSettlement rt eng input h s = Inr (r, s')" and fin: "fin_ok s" and fresh: "engine_fresh eng"
    and none: "findCommand (si_actorId input) SETTLE (si_commandKey input) s = None" and u: "unique_ok s'"
  shows "executeSettlement rt eng input h' s' = Inr (markSettled r, s')"
proof -
  obtain w plan ci oi ct ai i t where
    w: "settleable w input" "plan = settlementPlan w input"
      "findRow (\<lambda>k. k_id k = si_contractId input) (contracts s) = Some (sw_contract w)" and
    ids: "oi \<notin> oper_id ` set (financialOperations s)" "oi \<noteq> []" and
    r: "r = \<lparr>se_contractId = si_contractId input, se_reservationId = ss_reservationId (spl_swap plan),
       se_incomeLotId = i, se_referenceId = formatTransactionReference COMMISSION (spl_flowId plan),
       se_commandId = formatCommandId SETTLE ci, se_operationId = formatOperationId SETTLE oi, se_replayed = False\<rparr>" and
    s': "s' = s\<lparr>
       financialCommandRuns := financialCommandRuns s @
         [commandOf (requestFor (spl_flowId plan) (settleCommand input) (hashSettlement rt input)) ci ct (Some oi)],
       financialOperations := financialOperations s @
         [\<lparr>oper_id = oi, oper_flowId = spl_flowId plan, oper_kind = SETTLE, oper_commandId = ci\<rparr>],
       financialSwapActions := financialSwapActions s @ [swapOf (spl_swap plan) oi ai],
       financialSwapLegs := financialSwapLegs s @ legsOf (spl_swap plan) ai,
       financialLots := financialLots s @ [incomeLotOf (spl_swap plan) oi ai i t],
       financialReservations := updateWhere (\<lambda>r. r_id r = ss_reservationId (spl_swap plan) \<and>
         r_flowId r = ss_flowId (spl_swap plan) \<and> r_state r = ''HELD'') (\<lambda>r. r\<lparr>r_state := ''SETTLED''\<rparr>)
         (financialReservations s)\<rparr>"
    by (rule performSettlementE [OF perf fin fresh]) (rule that, assumption+)
  let ?c = "commandOf (requestFor (spl_flowId plan) (settleCommand input) (hashSettlement rt input)) ci ct (Some oi)"
  have stored: "findCommand (si_actorId input) SETTLE (si_commandKey input) s' = Some (mapStoredCommand s' ?c)"
    by (rule findCommand_appended [OF none]) (simp_all add: s' commandKeyIs_def)
  have res: "resultOperation s' ?c =
      Some \<lparr>oper_id = oi, oper_flowId = spl_flowId plan, oper_kind = SETTLE, oper_commandId = ci\<rparr>"
    by (rule new_result [OF _ _ ids(1)]) (simp_all add: s')
  have swap: "findRow (\<lambda>x. sw_operationId x = oi) (financialSwapActions s') = Some (swapOf (spl_swap plan) oi ai)"
    using u unfolding s' by simp
      (rule findRow_appended [where k = sw_operationId], simp_all add: unique_ok_def swapOf_def)
  have lot: "findRow (\<lambda>l. l_sourceOperationId l = Some oi) (financialLots s') = Some (incomeLotOf (spl_swap plan) oi ai i t)"
    using u unfolding s' by simp
      (rule findRow_appended_option [where k = l_sourceOperationId], simp_all add: unique_ok_def incomeLotOf_def)
  have flow: "spl_flowId plan = k_flowId (sw_contract w)" by (simp add: w(2) settlementPlan_def Let_def)
  have ledger: "loadCommissionSettlementLedgerResult oi s' = Inr (ss_reservationId (spl_swap plan), i)"
    by (simp add: loadCommissionSettlementLedgerResult_def orThrow_def swap lot) (simp add: swapOf_def incomeLotOf_def)
  have contract: "loadCommissionSettlementContract (si_contractId input) s' = Inr (sw_contract w)"
    using w(3) by (simp add: s' loadCommissionSettlementContract_def)
  have "loadSettlementResult (mapStoredCommand s' ?c) (si_contractId input) True s' = Inr (markSettled r)"
    by (simp add: loadSettlementResult_def contract assertCommissionSettlementReplayFlow_def settleGuard_def
        res flow ledger [unfolded flow] res [unfolded flow] r markSettled_def)
  then show ?thesis
    by (intro settlement_of_stored [OF stored])
      (simp_all add: sameSettlement_def completedCommand_def res ids(2))
qed

definition settlementSound :: "engine \<Rightarrow> db \<Rightarrow> bool" where
  "settlementSound eng s \<longleftrightarrow> engine_fresh eng \<and> fin_ok s"

lemma executeSettlement_sound:
  assumes ok: "executeSettlement rt eng input h s = Inr (r, s')" and sound: "settlementSound eng s"
  shows "settlementSound eng s'"
  using ok
proof (cases rule: executeSettlement_cases)
  case New
  from sound have "fin_ok s" "engine_fresh eng" by (simp_all add: settlementSound_def)
  with performSettlementE [OF New(3) this] show ?thesis by (simp add: settlementSound_def) blast
qed (use sound in \<open>simp_all add: settlementSound_def\<close>)

lemma executeSettlement_retry:
  assumes ok: "executeSettlement rt eng input h s = Inr (r, s')" and sound: "settlementSound eng s"
    and u: "unique_ok s'"
  shows "executeSettlement rt eng input h' s' = Inr (markSettled r, s')"
  using ok
proof (cases rule: executeSettlement_cases)
  case (Stored c)
  from loadSettlementResult_replayed [OF Stored(4)] have "markSettled r = r" by (simp add: markSettled_def)
  with Stored show ?thesis by (simp add: settlement_of_stored)
next
  case (Alias c result a)
  from findCompleted_Some [OF Alias(2)] obtain d where d: "c = mapStoredCommand s d" by blast
  have sub: "cm_flowKind d = COMMISSION" "cm_kind d = SETTLE" using Alias(3) by (simp_all add: d sameSettlement_def)
  have stored: "findCommand (si_actorId input) SETTLE (si_commandKey input) s' = Some (mapStoredCommand s' a)"
    by (rule findCommand_appended [OF Alias(1)]) (simp_all add: Alias(6,8) commandKeyIs_def)
  have "resultOperation s d \<noteq> None" using Alias(4) by (cases "resultOperation s d") (simp_all add: d completedCommand_def)
  then have res: "resultOperation s' a = resultOperation s d"
    unfolding Alias(6) d mapStoredCommand_simps by (rule alias_result) (simp_all add: sub Alias(8))
  have comp: "completedCommand (mapStoredCommand s' a)" using Alias(4) by (simp add: d completedCommand_def res)
  have same: "sameSettlement rt input (mapStoredCommand s' a)" by (simp add: Alias(6) sameSettlement_def)
  have ids: "sc_flowId (mapStoredCommand s' a) = sc_flowId c" "sc_referenceId (mapStoredCommand s' a) = sc_referenceId c"
    by (simp_all add: Alias(6) d sub)
  have ops: "sc_operationId (mapStoredCommand s' a) = sc_operationId c"
    "sc_operationDbId (mapStoredCommand s' a) = sc_operationDbId c"
    by (simp_all add: res d)
  have fr: "loadSettlementResult x i b s' = loadSettlementResult x i b s" for x i b
    by (rule loadSettlement_frame) (simp_all add: Alias(8))
  from loadSettlement_identity [OF ids ops Alias(5)] have
    "loadSettlementResult (mapStoredCommand s' a) (si_contractId input) True s' = Inr r"
    by (simp add: fr Alias(7))
  from settlement_of_stored [OF stored same comp this] loadSettlementResult_replayed [OF this]
  show ?thesis by (simp add: markSettled_def)
next
  case New
  from sound have "fin_ok s" "engine_fresh eng" by (simp_all add: settlementSound_def)
  from settle_retry_new [OF New(3) this New(1) u] show ?thesis .
qed

interpretation settlement: idempotent_request "executeSettlement rt eng" "settlementSound eng" "\<lambda>_. unique_ok"
  markSettled for rt eng
  by unfold_locales (erule executeSettlement_sound, assumption, erule (2) executeSettlement_retry,
    simp add: markSettled_def)

text \<open>C11: deliveries of one settlement request, any number of times, issue income once: when the
  first succeeds, every later one answers the same result, marked as replayed, and the
  database stays as the first left it.
\<close>

theorem settlement_delivered_again:
  assumes "engine_fresh eng" "fin_ok s" "unique_ok s'" "executeSettlement rt eng input h s = Inr (r, s')"
  shows "redeliver (executeSettlement rt eng input) (h # hs) s =
    (Inr r # replicate (length hs) (Inr (r\<lparr>se_replayed := True\<rparr>)), s')"
proof -
  have "settlementSound eng s" using assms(1,2) by (simp add: settlementSound_def)
  from settlement.redeliver_all [OF assms(4) this assms(3)] show ?thesis by (simp add: markSettled_def)
qed

section \<open>The sample commission, settled\<close>

definition samplePaid :: db where
  "samplePaid = stateAfter sampleShop (executeCommissionCheckout refRuntime refEngine samplePrepared sampleShop)"

definition sampleSettle :: CommissionSettlementInput where
  "sampleSettle = \<lparr>si_contractId = 1, si_actorId = 2, si_commandKey = ''s''\<rparr>"

lemma samplePaid_ok: "fin_ok samplePaid"
  by code_simp

lemma sample_settle:
  "case executeSettlement refRuntime refEngine sampleSettle 11 samplePaid of
     Inr (r, s') \<Rightarrow> \<not> se_replayed r \<and> accountFunds 21 s' = 70 \<and> unique_ok s' | Inl e \<Rightarrow> False"
  by code_simp

lemma sample_settle_run:
  obtains r s' where "settle refRuntime refEngine sampleSettle samplePaid samplePaid samplePaid = Inr (r, s')"
    "executeSettlement refRuntime refEngine sampleSettle 11 samplePaid = Inr (r, s')"
    "\<not> se_replayed r" "accountFunds 21 s' = 70" "unique_ok s'"
proof -
  from sample_settle obtain r s' where run: "executeSettlement refRuntime refEngine sampleSettle 11 samplePaid = Inr (r, s')"
    and facts: "\<not> se_replayed r" "accountFunds 21 s' = 70" "unique_ok s'"
    by (auto split: sum.splits)
  have "map_option k_workerId (findRow (\<lambda>k. k_id k = 1) (contracts samplePaid)) = Some 2" by code_simp
  then obtain k where k: "findRow (\<lambda>k. k_id k = 1) (contracts samplePaid) = Some k" "k_workerId k = 2" by auto
  have h: "findHolderId ''user'' (showInt 2) samplePaid = Inr 11" by code_simp
  have q: "session_quiet (e_session refEngine)" by simp
  have "settle refRuntime refEngine sampleSettle samplePaid samplePaid samplePaid = Inr (r, s')"
    using serialized_quiet [where body = "executeSettlement refRuntime refEngine sampleSettle 11", OF q run] k h
    by (simp add: settle_def bindT_def liftT_def loadCommissionSettlementContract_def sampleSettle_def)
  from this run facts show thesis by (rule that)
qed

theorem settlement_turns_points_into_income_witness:
  "\<exists>r s'. settle refRuntime refEngine sampleSettle samplePaid samplePaid samplePaid = Inr (r, s') \<and>
     fin_ok s' \<and> accountFunds 21 s' = 70"
proof -
  obtain r s' where run: "settle refRuntime refEngine sampleSettle samplePaid samplePaid samplePaid = Inr (r, s')"
    and new: "\<not> se_replayed r" and left: "accountFunds 21 s' = 70"
    by (rule sample_settle_run)
  have "session_frame (e_session refEngine)" by simp
  from settlement_turns_points_into_income [OF this refEngine_fresh samplePaid_ok run new] run left
  show ?thesis by blast
qed

theorem settlement_delivered_again_witness:
  "\<exists>r s'. redeliver (executeSettlement refRuntime refEngine sampleSettle) [11, 11, 0] samplePaid =
     ([Inr r, Inr (r\<lparr>se_replayed := True\<rparr>), Inr (r\<lparr>se_replayed := True\<rparr>)], s') \<and> accountFunds 21 s' = 70"
proof -
  obtain r s' where run: "executeSettlement refRuntime refEngine sampleSettle 11 samplePaid = Inr (r, s')"
    and left: "accountFunds 21 s' = 70" and u: "unique_ok s'"
    by (rule sample_settle_run)
  from settlement_delivered_again [OF refEngine_fresh samplePaid_ok u run, of "[11, 0]"] left
  show ?thesis by (auto simp: numeral_2_eq_2)
qed

end
