(* ===== verification/WithdrawalLaws.thy ===== *)
theory WithdrawalLaws
  imports Withdrawal SettlementReplay
begin

text \<open>
  What a withdrawal guarantees: the worker's available income falls by exactly the amount, the
  commissions it is traced to add up to the amount, and a repeated request is answered from
  the first one.
\<close>

section \<open>Adding up sources\<close>

definition total :: "(string \<times> int) list \<Rightarrow> int" where
  "total amounts = (\<Sum>p\<leftarrow>amounts. snd p)"

lemma total_addAmount: "total (addAmount k n amounts) = total amounts + n"
  by (induction k n amounts rule: addAmount.induct) (auto simp: total_def)

lemma map_of_addAmount:
  "map_of (addAmount k n amounts) = (map_of amounts)(k \<mapsto> (case map_of amounts k of None \<Rightarrow> n | Some m \<Rightarrow> m + n))"
  by (induction k n amounts rule: addAmount.induct) (auto simp: fun_eq_iff)

lemma keys_addAmount:
  "fst ` set (addAmount k n amounts) = insert k (fst ` set amounts)"
  "distinct (map fst amounts) \<Longrightarrow> distinct (map fst (addAmount k n amounts))"
  by (induction k n amounts rule: addAmount.induct) auto

lemma addAmount_distinct: "distinct (map fst amounts) \<Longrightarrow> distinct (map fst (addAmount k n amounts))"
proof (induction k n amounts rule: addAmount.induct)
  case (2 k n k' m amounts)
  then show ?case using keys_addAmount(1) [of k n amounts] by auto
qed simp

lemma sumSources_Inr:
  "sumSources rows amounts = Inr out \<Longrightarrow> distinct (map fst amounts) \<Longrightarrow>
     total out = total amounts + (\<Sum>p\<leftarrow>rows. ta_amount (fst p)) \<and> distinct (map fst out)"
  by (induction rows amounts rule: sumSources.induct)
    (auto simp: total_addAmount addAmount_distinct split: if_splits)

lemma mapThrow_lots:
  "mapThrow (\<lambda>a. rbind (lotOfAllocation a s) (\<lambda>l. Inr (a, l))) as = Inr rows \<Longrightarrow> map fst rows = as"
  by (induction as arbitrary: rows) (auto simp: rbind_eq_Inr)

lemma loadSources_total:
  assumes "loadIncomeWithdrawalSources i s = Inr sources" "findRow (\<lambda>r. r_id r = i) (financialReservations s) = Some v"
  shows "total sources = (\<Sum>a\<leftarrow>allocationsOf v s. ta_amount a)" "distinct (map fst sources)"
proof -
  from assms obtain rows where m: "mapThrow (\<lambda>a. rbind (lotOfAllocation a s) (\<lambda>l. Inr (a, l))) (allocationsOf v s) = Inr rows"
    and s: "sumSources rows [] = Inr sources"
    by (auto simp: loadIncomeWithdrawalSources_def rbind_eq_Inr)
  have "(\<Sum>p\<leftarrow>rows. ta_amount (fst p)) = (\<Sum>a\<leftarrow>map fst rows. ta_amount a)" by (simp add: comp_def)
  then have "(\<Sum>p\<leftarrow>rows. ta_amount (fst p)) = (\<Sum>a\<leftarrow>allocationsOf v s. ta_amount a)"
    unfolding mapThrow_lots [OF m] .
  with sumSources_Inr [OF s] show "total sources = (\<Sum>a\<leftarrow>allocationsOf v s. ta_amount a)" "distinct (map fst sources)"
    by (simp_all add: total_def)
qed

lemma mapThrow_member:
  "mapThrow f xs = Inr ys \<Longrightarrow> y \<in> set ys \<Longrightarrow> \<exists>x \<in> set xs. f x = Inr y"
  by (induction xs arbitrary: ys) (auto simp: rbind_eq_Inr)

lemma sumSources_flows:
  "sumSources rows amounts = Inr out \<Longrightarrow>
     fst ` set out = fst ` set amounts \<union> (\<lambda>(a, l). the (l_sourceFlowId l)) ` set rows"
  by (induction rows amounts rule: sumSources.induct) (auto simp: keys_addAmount(1) split: if_splits)

text \<open>The amount found under a key, zero when there is none, and what the rows of a flow add to it.\<close>

definition amountOf :: "(string \<times> int) list \<Rightarrow> string \<Rightarrow> int" where
  "amountOf amounts k = (case map_of amounts k of None \<Rightarrow> 0 | Some n \<Rightarrow> n)"

lemma sumSources_amount:
  "sumSources rows amounts = Inr out \<Longrightarrow>
     amountOf out f = amountOf amounts f + (\<Sum>p\<leftarrow>filter (\<lambda>p. l_sourceFlowId (snd p) = Some f) rows. ta_amount (fst p))"
  by (induction rows amounts rule: sumSources.induct)
    (auto simp: amountOf_def map_of_addAmount dest!: truthyE split: if_splits option.splits)

lemma addAmount_positive:
  "0 < n \<Longrightarrow> \<forall>p \<in> set amounts. 0 < snd p \<Longrightarrow> \<forall>p \<in> set (addAmount k n amounts). 0 < snd p"
  by (induction k n amounts rule: addAmount.induct) auto

lemma sumSources_positive:
  "sumSources rows amounts = Inr out \<Longrightarrow> \<forall>p \<in> set rows. 0 < ta_amount (fst p) \<Longrightarrow> \<forall>p \<in> set amounts. 0 < snd p \<Longrightarrow>
     \<forall>p \<in> set out. 0 < snd p"
  by (induction rows amounts rule: sumSources.induct) (simp_all add: addAmount_positive split: if_splits)

lemma sumSources_commission:
  "sumSources rows amounts = Inr out \<Longrightarrow> (a, l) \<in> set rows \<Longrightarrow>
     l_sourceFlowKind l = Some COMMISSION \<and> (\<exists>f. l_sourceFlowId l = Some f)"
  by (induction rows amounts rule: sumSources.induct) (auto dest: truthyE split: if_splits)

section \<open>A withdrawal that is carried out\<close>

lemma createWithdrawal_eq_Inr:
  "createWithdrawal eng f op act r s = Inr z \<longleftrightarrow>
     z = ((), s\<lparr>financialWithdrawals := financialWithdrawals s @
       [\<lparr>w_id = e_uuid eng ''FinancialWithdrawal'' s, w_flowId = f, w_flowKind = WITHDRAWAL,
         w_operationId = op, w_operationKind = WITHDRAW, w_transferActionId = act, w_reservationId = r\<rparr>]\<rparr>)"
  by (auto simp: createWithdrawal_def)

text \<open>What a withdrawal writes, table by table, and where its answer is read from.\<close>

lemma performWithdrawalE:
  assumes perf: "performWithdrawal rt eng input h s = Inr (r, s')" and fin: "fin_ok s" and fresh: "engine_fresh eng"
  obtains account as fi ci ct oi ai wi ri ei ti req where
    "accountOf h ''INCOME'' ''AVAILABLE'' s = Some account"
    "takes_ok as" "(\<Sum>a\<leftarrow>as. fa_amount a) = intOf (wi_amount input)"
    "isSafeInteger (wi_amount input)" "0 < intOf (wi_amount input)"
    "\<forall>a \<in> set as. \<exists>l \<in> set (financialLots s). l_id l = fa_lotId a \<and> l_accountId l = a_id account \<and> l_currency l = ''INCOME''"
    "ci \<notin> cm_id ` set (financialCommandRuns s)" "oi \<notin> oper_id ` set (financialOperations s)" "oi \<noteq> []"
    "ri \<notin> r_id ` set (financialReservations s)" "fin_ok s'"
    "rr_amount req = intOf (wi_amount input)" "rr_flowId req = fi" "rr_currency req = ''INCOME''"
    "financialCommandRuns s' = financialCommandRuns s @ [commandOf (requestFor fi
       \<lparr>cpl_flowKind = WITHDRAWAL, cpl_kind = WITHDRAW, cpl_principalId = wi_actorId input,
        cpl_idempotencyKey = wi_commandKey input, cpl_subjectNamespace = INCOME_WITHDRAWAL_NAMESPACE,
        cpl_subjectKey = fi\<rparr> (hashWithdrawal rt input)) ci ct (Some oi)]"
    "financialOperations s' = financialOperations s @
       [\<lparr>oper_id = oi, oper_flowId = fi, oper_kind = WITHDRAW, oper_commandId = ci\<rparr>]"
    "financialLots s' = map (\<lambda>l. lessLot (drawnFrom (l_id l) as) l) (financialLots s)"
    "financialReservations s' = financialReservations s @ [reservationOf req ri]"
    "financialTransfers s' = financialTransfers s @
       [transferRowOf ri fi ''INCOME'' (a_id account) ei (intOf (wi_amount input)) ai ti]"
    "financialTransferAllocations s' = financialTransferAllocations s @ map (allocRow ti (a_id account) ''INCOME'') as"
    "financialWithdrawals s' = financialWithdrawals s @ [\<lparr>w_id = wi, w_flowId = fi, w_flowKind = WITHDRAWAL,
       w_operationId = oi, w_operationKind = WITHDRAW, w_transferActionId = ai, w_reservationId = ri\<rparr>]"
    "loadWithdrawal \<lparr>id_flowId = fi, id_operationDbId = oi,
       id_referenceId = formatTransactionReference WITHDRAWAL fi, id_commandId = formatCommandId WITHDRAW ci,
       id_operationId = formatOperationId WITHDRAW oi\<rparr> False s' = Inr r"
    "rr_holderId req = h" "rr_purpose req = ''INCOME_WITHDRAWAL''"
    "rr_bindingNamespace req = INCOME_WITHDRAWAL_NAMESPACE" "rr_bindingKey req = fi"
    "financialTransferActions s' = financialTransferActions s @
       [\<lparr>tac_id = ai, tac_flowId = fi, tac_operationId = oi, tac_operationKind = WITHDRAW\<rparr>]"
    "financialAccounts s' = financialAccounts s @ [escrowOf ''INCOME'' ''ESCROW'' ri ei]"
    "\<exists>policies. s' = s\<lparr>transactionFlows := transactionFlows s @ [\<lparr>fl_id = fi, fl_kind = WITHDRAWAL\<rparr>],
       flowCommandPolicies := policies, financialCommandRuns := financialCommandRuns s',
       financialOperations := financialOperations s', financialTransferActions := financialTransferActions s',
       financialLots := financialLots s', financialReservations := financialReservations s',
       financialAccounts := financialAccounts s', financialTransfers := financialTransfers s',
       financialTransferAllocations := financialTransferAllocations s', financialWithdrawals := financialWithdrawals s'\<rparr>"
proof -
  from perf obtain holderId account lots plan where
    world: "accountOf h ''INCOME'' ''AVAILABLE'' s = Some account"
      "loadAvailableIncomeWorld h s = Inr (holderId, a_id account, lots)" and
    plan: "planIncomeWithdrawal \<lparr>ww_holderId = holderId, ww_availableAccountId = a_id account, ww_lots = lots\<rparr> input
      = Inr plan"
    by (auto simp: performWithdrawal_def bindT_eq_Inr readT_eq_Inr liftT_eq_Inr loadAvailableIncomeWorld_eq_Inr)
  define as where "as = wr_allocations (wp_reservationRequest plan)"
  note al = withdrawal_allocations [OF plan, folded as_def]
  have ps: "isSafeInteger (wi_amount input)" "0 < intOf (wi_amount input)"
    and pk: "wp_flowKind plan = WITHDRAWAL" "wp_flowCommandKind plan = WITHDRAW" "wp_allowedCommands plan = [WITHDRAW]"
      "wp_principalId plan = wi_actorId input" "wp_idempotencyKey plan = wi_commandKey input"
      "wp_subjectNamespace plan = INCOME_WITHDRAWAL_NAMESPACE"
    and wr: "wr_amount (wp_reservationRequest plan) = intOf (wi_amount input)"
      "wr_transferAmount (wp_reservationRequest plan) = intOf (wi_amount input)"
      "wr_transferCurrency (wp_reservationRequest plan) = ''INCOME''"
      "wr_fromAccountId (wp_reservationRequest plan) = a_id account"
    and wrc: "wr_currency (wp_reservationRequest plan) = ''INCOME''"
    using plan by (auto simp: planIncomeWithdrawal_eq_Inr withdrawalPlan_def)
  define fi where "fi = e_uuid eng ''TransactionFlow'' s"
  define s0 where "s0 = s\<lparr>transactionFlows := transactionFlows s @ [\<lparr>fl_id = fi, fl_kind = WITHDRAWAL\<rparr>],
    flowCommandPolicies := flowCommandPolicies s @ map (\<lambda>k. \<lparr>pol_flowId = fi, pol_commandKind = k\<rparr>) [WITHDRAW]\<rparr>"
  let ?req = "requestFor fi \<lparr>cpl_flowKind = WITHDRAWAL, cpl_kind = WITHDRAW, cpl_principalId = wi_actorId input,
        cpl_idempotencyKey = wi_commandKey input, cpl_subjectNamespace = INCOME_WITHDRAWAL_NAMESPACE,
        cpl_subjectKey = fi\<rparr> (hashWithdrawal rt input)"
  define ci where "ci = e_uuid eng ''FinancialCommandRun'' s0"
  define ct where "ct = e_now eng s0"
  define s1 where "s1 = s0\<lparr>financialCommandRuns := financialCommandRuns s @ [commandOf ?req ci ct None]\<rparr>"
  define oi where "oi = e_uuid eng ''FinancialOperation'' s1"
  define s2 where "s2 = s1\<lparr>financialOperations := financialOperations s @
    [\<lparr>oper_id = oi, oper_flowId = fi, oper_kind = WITHDRAW, oper_commandId = ci\<rparr>]\<rparr>"
  define ai where "ai = e_uuid eng ''FinancialTransferAction'' s2"
  define s3 where "s3 = s2\<lparr>financialTransferActions := financialTransferActions s @
    [\<lparr>tac_id = ai, tac_flowId = fi, tac_operationId = oi, tac_operationKind = WITHDRAW\<rparr>]\<rparr>"
  have fr: "ci \<notin> cm_id ` set (financialCommandRuns s0)" "oi \<notin> oper_id ` set (financialOperations s1)" "oi \<noteq> []"
    unfolding ci_def oi_def using fresh unfolding engine_fresh_def by blast+
  from perf world plan obtain flow u0 cmd u1 oper u2 act u3 rv u4 u5 u6 where
    cf: "createFlow eng WITHDRAWAL [WITHDRAW] s = Inr (flow, u0)" and
    st: "startCommand eng (requestFor (fl_id flow) (withdrawalCommand plan (fl_id flow)) (hashWithdrawal rt input)) u0
      = Inr (cmd, u1)" and
    cop: "createOperation eng (fl_id flow) WITHDRAW (cm_id cmd) u1 = Inr (oper, u2)" and
    cta: "createTransferAction eng (oper_id oper) (fl_id flow) WITHDRAW u2 = Inr (act, u3)" and
    res: "applyIncomeWithdrawalReservation eng (fl_id flow) (wp_reservationRequest plan) (fl_id flow) (tac_id act) u3
      = Inr (rv, u4)" and
    cw: "createWithdrawal eng (fl_id flow) (oper_id oper) (tac_id act) (r_id rv) u4 = Inr ((), u5)" and
    cc: "completeCommand (cm_id cmd) (oper_id oper) u5 = Inr ((), u6)" and
    shape: "assertWithdrawalShape eng u6 = Inr ((), s')" and
    out: "loadWithdrawal \<lparr>id_flowId = fl_id flow, id_operationDbId = oper_id oper,
       id_referenceId = formatTransactionReference (fl_kind flow) (fl_id flow),
       id_commandId = formatCommandId (cm_kind cmd) (cm_id cmd),
       id_operationId = formatOperationId (oper_kind oper) (oper_id oper)\<rparr> False s' = Inr r"
    by (auto simp: performWithdrawal_def bindT_eq_Inr readT_eq_Inr liftT_eq_Inr pk)
  from cf have flow: "flow = \<lparr>fl_id = fi, fl_kind = WITHDRAWAL\<rparr>" and u0: "u0 = s0"
    by (simp_all add: createFlow_eq_Inr fi_def s0_def)
  from st have cmd: "cmd = commandOf ?req ci ct None" and u1: "u1 = s1"
    by (simp_all add: startCommand_eq_Inr flow u0 withdrawalCommand_def pk ci_def ct_def s1_def) (simp add: s0_def)
  from cop have oper: "oper = \<lparr>oper_id = oi, oper_flowId = fi, oper_kind = WITHDRAW, oper_commandId = ci\<rparr>"
    and u2: "u2 = s2"
    by (simp_all add: createOperation_eq_Inr cmd flow u1 oi_def s2_def) (simp_all add: s1_def s0_def)
  from cta have act: "tac_id act = ai" and u3: "u3 = s3"
    by (simp_all add: createTransferAction_eq_Inr oper flow u2 ai_def s3_def) (simp_all add: s2_def s1_def s0_def)
  have frames: "financialLots s3 = financialLots s" "financialTransfers s3 = financialTransfers s"
    "financialTransferAllocations s3 = financialTransferAllocations s" "financialReservations s3 = financialReservations s"
    "financialAccounts s3 = financialAccounts s" "financialWithdrawals s3 = financialWithdrawals s"
    "financialCommandRuns s3 = financialCommandRuns s @ [commandOf ?req ci ct None]"
    "financialOperations s3 = financialOperations s @
      [\<lparr>oper_id = oi, oper_flowId = fi, oper_kind = WITHDRAW, oper_commandId = ci\<rparr>]"
    by (simp_all add: s3_def s2_def s1_def s0_def)
  have fin3: "fin_ok s3" using fin by (simp add: fin_ok_def frames)
  have sum: "(\<Sum>a\<leftarrow>wr_allocations (wp_reservationRequest plan). fa_amount a) = wr_transferAmount (wp_reservationRequest plan)"
    using al(2) by (simp add: as_def wr)
  define req where "req = \<lparr>rr_flowId = fi, rr_bindingNamespace = wr_bindingNamespace (wp_reservationRequest plan),
    rr_bindingKey = fi, rr_holderId = wr_holderId (wp_reservationRequest plan),
    rr_purpose = wr_purpose (wp_reservationRequest plan), rr_currency = wr_currency (wp_reservationRequest plan),
    rr_amount = intOf (wi_amount input)\<rparr>"
  from withdrawalReservation_effect [OF res [unfolded flow act u3 flow_row.select_convs] fin3 al(1) [unfolded as_def] sum fresh]
  obtain ri ei ti where
    fin4: "fin_ok u4" and
    own: "\<forall>a \<in> set as. \<exists>l \<in> set (financialLots s). l_id l = fa_lotId a \<and> l_accountId l = a_id account \<and> l_currency l = ''INCOME''" and
    rv: "rv = reservationOf req ri" "ri \<notin> r_id ` set (financialReservations s)" and
    u4: "u4 = s3\<lparr>financialLots := map (\<lambda>l. lessLot (drawnFrom (l_id l) as) l) (financialLots s),
         financialReservations := financialReservations s @ [rv],
         financialAccounts := financialAccounts s @
           [escrowOf (wr_escrowCurrency (wp_reservationRequest plan)) (wr_escrowPurpose (wp_reservationRequest plan)) ri ei],
         financialTransfers := financialTransfers s @
           [transferRowOf ri fi ''INCOME'' (a_id account) ei (intOf (wi_amount input)) ai ti],
         financialTransferAllocations := financialTransferAllocations s @ map (allocRow ti (a_id account) ''INCOME'') as\<rparr>"
    unfolding as_def [symmetric] frames wr req_def [symmetric] by blast
  have "updateWhere (\<lambda>x. cm_id x = ci) (\<lambda>x. x\<lparr>cm_resultOperationId := Some oi\<rparr>) (financialCommandRuns s) =
      financialCommandRuns s"
    by (rule updateWhere_id) (use fr(1) in \<open>auto simp: s0_def\<close>)
  then have runs: "updateWhere (\<lambda>x. cm_id x = ci) (\<lambda>x. x\<lparr>cm_resultOperationId := Some oi\<rparr>) (financialCommandRuns s3)
      = financialCommandRuns s @ [commandOf ?req ci ct (Some oi)]"
    by (simp add: frames updateWhere_append) (simp add: updateWhere_def)
  define wi where "wi = e_uuid eng ''FinancialWithdrawal'' u4"
  have wd4: "financialWithdrawals u4 = financialWithdrawals s" "financialCommandRuns u4 = financialCommandRuns s3"
    by (simp_all add: u4 frames)
  from cw have u5: "u5 = u4\<lparr>financialWithdrawals := financialWithdrawals s @ [\<lparr>w_id = wi, w_flowId = fi,
       w_flowKind = WITHDRAWAL, w_operationId = oi, w_operationKind = WITHDRAW, w_transferActionId = ai,
       w_reservationId = ri\<rparr>]\<rparr>"
    by (simp add: createWithdrawal_eq_Inr flow oper act rv(1) wi_def [symmetric] wd4)
  have runs5: "financialCommandRuns u5 = financialCommandRuns s3" by (simp add: u5 wd4)
  from cc have u6: "u6 = u5\<lparr>financialCommandRuns := financialCommandRuns s @ [commandOf ?req ci ct (Some oi)]\<rparr>"
    by (simp add: completeCommand_eq_Inr oper cmd runs5 runs)
  from shape have s'6: "s' = u6" by (simp add: assertWithdrawalShape_def setConstraintsImmediate_eq_Inr)
  have s': "s' = u4\<lparr>financialWithdrawals := financialWithdrawals s @ [\<lparr>w_id = wi, w_flowId = fi, w_flowKind = WITHDRAWAL,
       w_operationId = oi, w_operationKind = WITHDRAW, w_transferActionId = ai, w_reservationId = ri\<rparr>],
     financialCommandRuns := financialCommandRuns s @ [commandOf ?req ci ct (Some oi)]\<rparr>"
    by (simp add: s'6 u6 u5)
  have fin': "fin_ok s'" using fin4 by (simp add: fin_ok_def s')
  have ids: "ci \<notin> cm_id ` set (financialCommandRuns s)" "oi \<notin> oper_id ` set (financialOperations s)"
    using fr by (simp_all add: s0_def s1_def)
  have req: "rr_amount req = intOf (wi_amount input)" "rr_flowId req = fi" "rr_currency req = ''INCOME''"
    by (simp_all add: req_def wrc)
  have out': "loadWithdrawal \<lparr>id_flowId = fi, id_operationDbId = oi,
       id_referenceId = formatTransactionReference WITHDRAWAL fi, id_commandId = formatCommandId WITHDRAW ci,
       id_operationId = formatOperationId WITHDRAW oi\<rparr> False s' = Inr r"
    using out by (simp add: flow oper cmd)
  have tables: "financialCommandRuns s' = financialCommandRuns s @ [commandOf ?req ci ct (Some oi)]"
    "financialOperations s' = financialOperations s @
       [\<lparr>oper_id = oi, oper_flowId = fi, oper_kind = WITHDRAW, oper_commandId = ci\<rparr>]"
    "financialLots s' = map (\<lambda>l. lessLot (drawnFrom (l_id l) as) l) (financialLots s)"
    "financialReservations s' = financialReservations s @ [reservationOf req ri]"
    "financialTransfers s' = financialTransfers s @
       [transferRowOf ri fi ''INCOME'' (a_id account) ei (intOf (wi_amount input)) ai ti]"
    "financialTransferAllocations s' = financialTransferAllocations s @ map (allocRow ti (a_id account) ''INCOME'') as"
    "financialWithdrawals s' = financialWithdrawals s @ [\<lparr>w_id = wi, w_flowId = fi, w_flowKind = WITHDRAWAL,
       w_operationId = oi, w_operationKind = WITHDRAW, w_transferActionId = ai, w_reservationId = ri\<rparr>]"
    by (simp_all add: s' u4 frames rv(1))
  have planned: "rr_holderId req = h" "rr_purpose req = ''INCOME_WITHDRAWAL''"
    "rr_bindingNamespace req = INCOME_WITHDRAWAL_NAMESPACE" "rr_bindingKey req = fi"
    "wr_escrowCurrency (wp_reservationRequest plan) = ''INCOME''" "wr_escrowPurpose (wp_reservationRequest plan) = ''ESCROW''"
    using plan world(2) by (auto simp: req_def planIncomeWithdrawal_eq_Inr withdrawalPlan_def loadAvailableIncomeWorld_eq_Inr)
  have actions: "financialTransferActions s' = financialTransferActions s @
       [\<lparr>tac_id = ai, tac_flowId = fi, tac_operationId = oi, tac_operationKind = WITHDRAW\<rparr>]"
    "financialAccounts s' = financialAccounts s @ [escrowOf ''INCOME'' ''ESCROW'' ri ei]"
    by (simp_all add: s' u4 s3_def frames planned)
  have whole: "\<exists>policies. s' = s\<lparr>transactionFlows := transactionFlows s @ [\<lparr>fl_id = fi, fl_kind = WITHDRAWAL\<rparr>],
       flowCommandPolicies := policies, financialCommandRuns := financialCommandRuns s',
       financialOperations := financialOperations s', financialTransferActions := financialTransferActions s',
       financialLots := financialLots s', financialReservations := financialReservations s',
       financialAccounts := financialAccounts s', financialTransfers := financialTransfers s',
       financialTransferAllocations := financialTransferAllocations s', financialWithdrawals := financialWithdrawals s'\<rparr>"
    by (rule exI [of _ "flowCommandPolicies s0"], rule db.equality) (simp_all add: s' u4 s3_def s2_def s1_def s0_def)
  show thesis
    by (rule that [OF world(1) al ps own ids fr(3) rv(2) fin' req tables out' planned(1-4) actions whole])
qed

end
