(* ===== verification/WithdrawalReplay.thy ===== *)
theory WithdrawalReplay
  imports WithdrawalLaws
begin

text \<open>
  The guarantees of the withdrawal use case: the worker's available income falls by exactly the
  amount, the commissions named as its sources add up to the amount, and a repeated request is
  answered from the first one. The samples withdraw what the sample settlement issued.
\<close>

section \<open>What a withdrawal takes, and from where\<close>

lemma total_map: "total (map (\<lambda>(f, a). (g f, a)) xs) = total xs"
  by (induction xs) (auto simp: total_def)

text \<open>The transfer of a reservation just booked is the one that was booked with it.\<close>

lemma booked_allocations:
  assumes fin: "fin_ok s" and fin': "fin_ok s'" and u: "unique_ok s'"
    and v: "r_id v = ri" "r_flowId v = fi"
    and t: "financialTransfers s' = financialTransfers s @ [transferRowOf ri fi c acct ei n ai ti]"
    and a: "financialTransferAllocations s' = financialTransferAllocations s @ map (allocRow ti acct c) as"
  shows "(\<Sum>x\<leftarrow>allocationsOf v s'. ta_amount x) = (\<Sum>x\<leftarrow>as. fa_amount x)"
    "mset (allocationsOf v s') = mset (map (allocRow ti acct c) as)"
proof -
  have ti: "ti \<notin> t_id ` set (financialTransfers s)"
    using fin' by (simp add: fin_ok_def books_ok_def t transferRowOf_def)
  have "transferOf v s' = Some (transferRowOf ri fi c acct ei n ai ti)"
    unfolding transferOf_def t v
    by (rule findRow_appended [where k = t_reservationId])
      (use u in \<open>auto simp: unique_ok_def t transferRowOf_def\<close>)
  moreover have old: "filter (\<lambda>a. ta_transferId a = ti \<and> ta_fromAccountId a = acct \<and> ta_currency a = c)
      (financialTransferAllocations s) = []"
    using fin ti by (auto simp: filter_empty_conv fin_ok_def books_ok_def)
  moreover have "filter (\<lambda>a. ta_transferId a = ti \<and> ta_fromAccountId a = acct \<and> ta_currency a = c)
      (map (allocRow ti acct c) as) = map (allocRow ti acct c) as"
    by (auto simp: filter_id_conv allocRow_def)
  ultimately have al: "allocationsOf v s' = sort_key ta_lotId (map (allocRow ti acct c) as)"
    by (simp add: allocationsOf_def a transferRowOf_def)
  show "(\<Sum>x\<leftarrow>allocationsOf v s'. ta_amount x) = (\<Sum>x\<leftarrow>as. fa_amount x)"
    unfolding al sum_list_sort_key by (simp add: comp_def allocRow_def)
  show "mset (allocationsOf v s') = mset (map (allocRow ti acct c) as)" by (simp add: al)
qed

lemma executeWithdrawal_cases:
  assumes "executeWithdrawal rt eng input h s = Inr (r, s')"
  obtains (Stored) c where "findCommand (wi_actorId input) WITHDRAW (wi_commandKey input) s = Some c"
      "assertIncomeWithdrawalReplay c (hashWithdrawal rt input) = Inr c"
      "loadWithdrawal (storedIdentity c) True s = Inr r" "s' = s"
    | (New) "findCommand (wi_actorId input) WITHDRAW (wi_commandKey input) s = None"
      "performWithdrawal rt eng input h s = Inr (r, s')"
proof (cases "findCommand (wi_actorId input) WITHDRAW (wi_commandKey input) s")
  case None
  with assms show thesis by (intro New) (simp_all add: executeWithdrawal_def bindT_def)
next
  case (Some c)
  with assms show thesis
    by (intro Stored [of c])
      (auto simp: executeWithdrawal_def bindT_eq_Inr readT_eq_Inr liftT_eq_Inr assertIncomeWithdrawalReplay_def
        split: if_splits)
qed

lemma loadWithdrawal_replayed: "loadWithdrawal i b s = Inr r \<Longrightarrow> wo_replayed r = b"
  by (auto simp: loadWithdrawal_def rbind_eq_Inr)

lemma requestWithdrawal_success:
  assumes "session_frame (e_session eng)" "requestWithdrawal rt eng input s0 s = Inr (r, s')"
  shows "\<exists>h. findHolderId ''user'' (showInt (wi_actorId input)) s0 = Inr h \<and> executeWithdrawal rt eng input h s = Inr (r, s')"
proof -
  from assms(2) obtain h keys where h: "findHolderId ''user'' (showInt (wi_actorId input)) s0 = Inr h"
    "serialized (e_session eng) keys (executeWithdrawal rt eng input h) False s = Inr (r, s')"
    by (auto simp: requestWithdrawal_def tx_simps)
  from serialized_success [OF assms(1) h(2)] h(1) show ?thesis by blast
qed

text \<open>What a withdrawal carried out booked, and what it answered from.\<close>

lemma withdrawalE:
  assumes frame: "session_frame (e_session eng)" and fresh: "engine_fresh eng" and fin: "fin_ok s"
    and ok: "requestWithdrawal rt eng input s0 s = Inr (r, s')" and new: "\<not> wo_replayed r" and u: "unique_ok s'"
  obtains h account as ri ti req sources where
    "findHolderId ''user'' (showInt (wi_actorId input)) s0 = Inr h"
    "accountOf h ''INCOME'' ''AVAILABLE'' s = Some account"
    "takes_ok as" "(\<Sum>a\<leftarrow>as. fa_amount a) = intOf (wi_amount input)" "0 < intOf (wi_amount input)"
    "\<forall>a \<in> set as. \<exists>l \<in> set (financialLots s). l_id l = fa_lotId a \<and> l_accountId l = a_id account"
    "fin_ok s'" "financialLots s' = map (\<lambda>l. lessLot (drawnFrom (l_id l) as) l) (financialLots s)"
    "financialReservations s' = financialReservations s @ [reservationOf req ri]" "rr_amount req = intOf (wi_amount input)"
    "findRow (\<lambda>r. r_id r = ri) (financialReservations s') = Some (reservationOf req ri)" "wo_reservationId r = ri"
    "loadIncomeWithdrawalSources ri s' = Inr sources"
    "wo_sources r = map (\<lambda>(f, a). (formatTransactionReference COMMISSION f, a)) sources"
    "mset (allocationsOf (reservationOf req ri) s') = mset (map (allocRow ti (a_id account) ''INCOME'') as)"
    "(\<Sum>x\<leftarrow>allocationsOf (reservationOf req ri) s'. ta_amount x) = intOf (wi_amount input)"
proof -
  from requestWithdrawal_success [OF frame ok] obtain h where
    h: "findHolderId ''user'' (showInt (wi_actorId input)) s0 = Inr h" and
    ex: "executeWithdrawal rt eng input h s = Inr (r, s')" by blast
  from ex new have perf: "performWithdrawal rt eng input h s = Inr (r, s')"
    by (cases rule: executeWithdrawal_cases) (auto dest: loadWithdrawal_replayed)
  obtain account as fi oi ai wi ri ei ti req ci where
    acc: "accountOf h ''INCOME'' ''AVAILABLE'' s = Some account" and
    takes: "takes_ok as" and sum: "(\<Sum>a\<leftarrow>as. fa_amount a) = intOf (wi_amount input)" and pos: "0 < intOf (wi_amount input)" and
    own: "\<forall>a \<in> set as. \<exists>l \<in> set (financialLots s). l_id l = fa_lotId a \<and> l_accountId l = a_id account \<and> l_currency l = ''INCOME''" and
    ri: "ri \<notin> r_id ` set (financialReservations s)" and fin': "fin_ok s'" and
    req: "rr_amount req = intOf (wi_amount input)" "rr_flowId req = fi" and
    lots: "financialLots s' = map (\<lambda>l. lessLot (drawnFrom (l_id l) as) l) (financialLots s)" and
    res: "financialReservations s' = financialReservations s @ [reservationOf req ri]" and
    tr: "financialTransfers s' = financialTransfers s @
       [transferRowOf ri fi ''INCOME'' (a_id account) ei (intOf (wi_amount input)) ai ti]" and
    al: "financialTransferAllocations s' = financialTransferAllocations s @ map (allocRow ti (a_id account) ''INCOME'') as" and
    wd: "financialWithdrawals s' = financialWithdrawals s @ [\<lparr>w_id = wi, w_flowId = fi, w_flowKind = WITHDRAWAL,
       w_operationId = oi, w_operationKind = WITHDRAW, w_transferActionId = ai, w_reservationId = ri\<rparr>]" and
    out: "loadWithdrawal \<lparr>id_flowId = fi, id_operationDbId = oi,
       id_referenceId = formatTransactionReference WITHDRAWAL fi, id_commandId = formatCommandId WITHDRAW ci,
       id_operationId = formatOperationId WITHDRAW oi\<rparr> False s' = Inr r"
    by (rule performWithdrawalE [OF perf fin fresh]) (rule that, assumption+)
  have w: "findRow (\<lambda>w. w_flowId w = fi) (financialWithdrawals s') = Some \<lparr>w_id = wi, w_flowId = fi, w_flowKind = WITHDRAWAL,
       w_operationId = oi, w_operationKind = WITHDRAW, w_transferActionId = ai, w_reservationId = ri\<rparr>"
    unfolding wd by (rule findRow_appended [where k = w_flowId]) (use u in \<open>auto simp: unique_ok_def wd\<close>)
  have v: "findRow (\<lambda>r. r_id r = ri) (financialReservations s') = Some (reservationOf req ri)"
  proof -
    have "findRow (\<lambda>r. r_id r = ri) (financialReservations s) = None" using ri by (auto simp: findRow_None)
    then show ?thesis by (simp add: res findRow_append)
  qed
  from out w obtain sources where src: "loadIncomeWithdrawalSources ri s' = Inr sources" and
    r: "wo_reservationId r = ri" "wo_sources r = map (\<lambda>(f, a). (formatTransactionReference COMMISSION f, a)) sources"
    by (auto simp: loadWithdrawal_def loadWithdrawalResult_def rbind_eq_Inr)
  note booked = booked_allocations [OF fin fin' u _ _ tr al, of "reservationOf req ri"]
  have own': "\<forall>a \<in> set as. \<exists>l \<in> set (financialLots s). l_id l = fa_lotId a \<and> l_accountId l = a_id account"
    using own by blast
  show thesis
    by (rule that [OF h acc takes sum pos own' fin' lots res req(1) v r(1) src r(2)]) (use booked sum req in simp_all)
qed

text \<open>What is left, on an account, of the income that a flow earned.\<close>

definition incomeLeft :: "int \<Rightarrow> string \<Rightarrow> db \<Rightarrow> int" where
  "incomeLeft account flow s = (\<Sum>l\<leftarrow>filter (\<lambda>l. l_accountId l = account \<and> l_sourceFlowId l = Some flow)
     (financialLots s). l_remainingAmount l)"

text \<open>The lot of a taken amount earned its income with the flow.\<close>

definition earnedBy :: "string \<Rightarrow> db \<Rightarrow> int \<Rightarrow> bool" where
  "earnedBy flow s lotId \<longleftrightarrow> (\<exists>l \<in> set (financialLots s). l_id l = lotId \<and> l_sourceFlowId l = Some flow)"

lemma incomeLeft_drawn:
  assumes d: "distinct (map l_id (financialLots s))"
    and own: "\<forall>a \<in> set as. \<exists>l \<in> set (financialLots s). l_id l = fa_lotId a \<and> l_accountId l = i"
    and lots: "financialLots s' = map (\<lambda>l. lessLot (drawnFrom (l_id l) as) l) (financialLots s)"
  shows "incomeLeft i f s - incomeLeft i f s' = (\<Sum>a\<leftarrow>filter (\<lambda>a. earnedBy f s (fa_lotId a)) as. fa_amount a)"
proof -
  let ?q = "\<lambda>l. l_accountId l = i \<and> l_sourceFlowId l = Some f"
  let ?as = "filter (\<lambda>a. earnedBy f s (fa_lotId a)) as"
  have same: "drawnFrom (l_id l) ?as = drawnFrom (l_id l) as" if "l \<in> set (financialLots s)" "?q l" for l
  proof -
    have "earnedBy f s (l_id l)" using that by (auto simp: earnedBy_def)
    then have "filter (\<lambda>a. fa_lotId a = l_id l) ?as = filter (\<lambda>a. fa_lotId a = l_id l) as"
      by (auto simp: filter_filter intro!: filter_cong)
    then show ?thesis by (simp add: drawnFrom_def)
  qed
  have keep: "?q (lessLot n l) = ?q l" for n l by (simp add: lessLot_def)
  have "incomeLeft i f s' = (\<Sum>l\<leftarrow>filter ?q (financialLots s). l_remainingAmount l - drawnFrom (l_id l) as)"
    unfolding incomeLeft_def lots filter_map comp_def keep by (simp add: comp_def lessLot_def)
  also have "\<dots> = incomeLeft i f s - (\<Sum>l\<leftarrow>filter ?q (financialLots s). drawnFrom (l_id l) as)"
    by (simp add: incomeLeft_def sum_list_subtractf)
  also have "(\<Sum>l\<leftarrow>filter ?q (financialLots s). drawnFrom (l_id l) as) =
      (\<Sum>l\<leftarrow>filter ?q (financialLots s). drawnFrom (l_id l) ?as)"
    by (rule arg_cong [of _ _ sum_list], rule map_cong) (auto simp: same)
  also have "\<dots> = (\<Sum>a\<leftarrow>?as. fa_amount a)"
  proof (rule sum_drawn [OF d], rule ballI)
    fix a
    assume a: "a \<in> set ?as"
    with own obtain l where l: "l \<in> set (financialLots s)" "l_id l = fa_lotId a" "l_accountId l = i" by auto
    from a obtain m where m: "m \<in> set (financialLots s)" "l_id m = fa_lotId a" "l_sourceFlowId m = Some f"
      by (auto simp: earnedBy_def)
    from distinct_key_unique [OF d l(1) m(1)] l(2) m(2) have "l = m" by simp
    with l m(3) show "\<exists>l \<in> set (financialLots s). l_id l = fa_lotId a \<and> ?q l" by blast
  qed
  finally show ?thesis by simp
qed

text \<open>The sources of a reservation just booked, flow by flow.\<close>

lemma sources_by_flow:
  assumes fin': "fin_ok s'" and src: "loadIncomeWithdrawalSources ri s' = Inr sources"
    and v: "findRow (\<lambda>r. r_id r = ri) (financialReservations s') = Some v"
    and lots: "financialLots s' = map (\<lambda>l. lessLot (drawnFrom (l_id l) as) l) (financialLots s)"
    and booked: "mset (allocationsOf v s') = mset (map (allocRow ti acct c) as)" and takes: "takes_ok as"
  shows "distinct (map fst sources)"
    and "amountOf sources f = (\<Sum>a\<leftarrow>filter (\<lambda>a. earnedBy f s (fa_lotId a)) as. fa_amount a)"
    and "(f, n) \<in> set sources \<Longrightarrow> 0 < n \<and> (\<exists>l \<in> set (financialLots s). l_accountId l = acct \<and>
      l_sourceFlowId l = Some f \<and> l_sourceFlowKind l = Some COMMISSION)"
proof -
  show "distinct (map fst sources)" by (rule loadSources_total(2) [OF src v])
  from src v obtain rows where m: "mapThrow (\<lambda>a. rbind (lotOfAllocation a s') (\<lambda>l. Inr (a, l))) (allocationsOf v s') = Inr rows"
    and s: "sumSources rows [] = Inr sources"
    by (auto simp: loadIncomeWithdrawalSources_def rbind_eq_Inr)
  have d: "distinct (map l_id (financialLots s'))" using fin' by (simp add: fin_ok_def books_ok_def)
  have row: "a \<in> set (allocationsOf v s') \<and> l \<in> set (financialLots s') \<and> l_id l = ta_lotId a \<and> l_accountId l = ta_fromAccountId a"
    if al: "(a, l) \<in> set rows" for a l
  proof -
    from mapThrow_member [OF m al] obtain b where
      "b \<in> set (allocationsOf v s')" "rbind (lotOfAllocation b s') (\<lambda>l. Inr (b, l)) = Inr (a, l)" by blast
    then have "a \<in> set (allocationsOf v s')" "lotOfAllocation a s' = Inr l" by (auto simp: rbind_eq_Inr)
    then show ?thesis by (auto simp: lotOfAllocation_def dest!: findRow_Some)
  qed
  have earned: "earnedBy g s = earnedBy g s'" for g
    by (rule ext) (auto simp: earnedBy_def lots lessLot_def)
  have is_earned: "l_sourceFlowId l = Some g \<longleftrightarrow> earnedBy g s (ta_lotId a)" if al: "(a, l) \<in> set rows" for a l g
  proof
    show "earnedBy g s (ta_lotId a)" if "l_sourceFlowId l = Some g"
      unfolding earned using row [OF al] that by (auto simp: earnedBy_def)
    assume "earnedBy g s (ta_lotId a)"
    then obtain k where k: "k \<in> set (financialLots s')" "l_id k = ta_lotId a" "l_sourceFlowId k = Some g"
      unfolding earned by (auto simp: earnedBy_def)
    with row [OF al] have "k = l" using distinct_key_unique [OF d k(1), of l] by simp
    with k(3) show "l_sourceFlowId l = Some g" by simp
  qed
  have taken: "\<forall>a \<in> set (allocationsOf v s'). 0 < ta_amount a \<and> ta_fromAccountId a = acct"
    using mset_eq_setD [OF booked] takes by (auto simp: allocRow_def takes_ok_def)
  have "amountOf sources f = (\<Sum>p\<leftarrow>filter (\<lambda>p. l_sourceFlowId (snd p) = Some f) rows. ta_amount (fst p))"
    using sumSources_amount [OF s, of f] by (simp add: amountOf_def)
  also have "filter (\<lambda>p. l_sourceFlowId (snd p) = Some f) rows = filter (\<lambda>p. earnedBy f s (ta_lotId (fst p))) rows"
    by (rule filter_cong) (use is_earned in auto)
  also have "(\<Sum>p\<leftarrow>filter (\<lambda>p. earnedBy f s (ta_lotId (fst p))) rows. ta_amount (fst p)) =
      (\<Sum>a\<leftarrow>filter (\<lambda>a. earnedBy f s (ta_lotId a)) (map fst rows). ta_amount a)"
    by (simp add: filter_map comp_def)
  also have "\<dots> = (\<Sum>a\<leftarrow>filter (\<lambda>a. earnedBy f s (ta_lotId a)) (map (allocRow ti acct c) as). ta_amount a)"
    unfolding mapThrow_lots [OF m] sum_mset_sum_list [symmetric] mset_map mset_filter booked ..
  also have "\<dots> = (\<Sum>a\<leftarrow>filter (\<lambda>a. earnedBy f s (fa_lotId a)) as. fa_amount a)"
    by (simp add: filter_map comp_def allocRow_def)
  finally show "amountOf sources f = (\<Sum>a\<leftarrow>filter (\<lambda>a. earnedBy f s (fa_lotId a)) as. fa_amount a)" .
  assume f: "(f, n) \<in> set sources"
  then have "f \<in> (\<lambda>(a, l). the (l_sourceFlowId l)) ` set rows" using sumSources_flows [OF s] by force
  then obtain a l where al: "(a, l) \<in> set rows" "f = the (l_sourceFlowId l)" by auto
  with sumSources_commission [OF s al(1)] have l: "l_sourceFlowId l = Some f" "l_sourceFlowKind l = Some COMMISSION" by auto
  from row [OF al(1)] taken have "l \<in> set (financialLots s')" "l_accountId l = acct" by auto
  then obtain k where "k \<in> set (financialLots s)" "l_accountId k = acct" "l_sourceFlowId k = Some f"
    "l_sourceFlowKind k = Some COMMISSION"
    using l by (auto simp: lots lessLot_def)
  moreover have "\<forall>p \<in> set rows. 0 < ta_amount (fst p)" using row taken by fastforce
  from sumSources_positive [OF s this] f have "0 < n" by auto
  ultimately show "0 < n \<and> (\<exists>l \<in> set (financialLots s). l_accountId l = acct \<and>
      l_sourceFlowId l = Some f \<and> l_sourceFlowKind l = Some COMMISSION)" by blast
qed

lemma amountOf_named: "amountOf (map (\<lambda>(f, a). (g @ f, a)) xs) (g @ f) = amountOf xs f"
  by (induction xs) (auto simp: amountOf_def)

text \<open>C12: a withdrawal that was not answered from an earlier one lowers the available income of
  the caller by exactly the amount and no other account, and holds it in a reservation. It
  names the commissions the money came from, each once, and exactly them: every name is the
  reference of a commission that earned income on the caller's account, with a positive amount,
  and for every commission the amount named is what was taken of the income that commission had
  left on the account (none, when it is not named). The amounts add up to the amount withdrawn,
  and the books still balance.
\<close>

theorem withdrawal_takes_income_with_sources:
  assumes frame: "session_frame (e_session eng)" and fresh: "engine_fresh eng" and fin: "fin_ok s"
    and ok: "requestWithdrawal rt eng input s0 s = Inr (r, s')" and new: "\<not> wo_replayed r" and u: "unique_ok s'"
  shows "fin_ok s' \<and> (\<exists>h account. findHolderId ''user'' (showInt (wi_actorId input)) s0 = Inr h \<and>
      accountOf h ''INCOME'' ''AVAILABLE'' s = Some account \<and>
      (\<forall>i. accountFunds i s' = accountFunds i s - (if i = a_id account then intOf (wi_amount input) else 0)) \<and>
      (\<forall>(name, n) \<in> set (wo_sources r). 0 < n \<and> (\<exists>l \<in> set (financialLots s). l_accountId l = a_id account \<and>
        l_sourceFlowKind l = Some COMMISSION \<and> Some name = map_option (\<lambda>f. ''COMMISSION-'' @ f) (l_sourceFlowId l))) \<and>
      (\<forall>f. incomeLeft (a_id account) f s - incomeLeft (a_id account) f s' =
        (case map_of (wo_sources r) (''COMMISSION-'' @ f) of None \<Rightarrow> 0 | Some n \<Rightarrow> n))) \<and>
    (\<exists>v \<in> set (financialReservations s'). r_id v = wo_reservationId r \<and> r_state v = ''HELD'' \<and>
      r_targetAmount v = intOf (wi_amount input)) \<and>
    0 < intOf (wi_amount input) \<and> (\<Sum>p\<leftarrow>wo_sources r. snd p) = intOf (wi_amount input) \<and>
    distinct (map fst (wo_sources r))"
proof -
  obtain h account as ri ti req sources where
    h: "findHolderId ''user'' (showInt (wi_actorId input)) s0 = Inr h" "accountOf h ''INCOME'' ''AVAILABLE'' s = Some account" and
    takes: "takes_ok as" and
    sum: "(\<Sum>a\<leftarrow>as. fa_amount a) = intOf (wi_amount input)" and pos: "0 < intOf (wi_amount input)" and
    own: "\<forall>a \<in> set as. \<exists>l \<in> set (financialLots s). l_id l = fa_lotId a \<and> l_accountId l = a_id account" and
    fin': "fin_ok s'" and lots: "financialLots s' = map (\<lambda>l. lessLot (drawnFrom (l_id l) as) l) (financialLots s)" and
    res: "financialReservations s' = financialReservations s @ [reservationOf req ri]" "rr_amount req = intOf (wi_amount input)" and
    v: "findRow (\<lambda>r. r_id r = ri) (financialReservations s') = Some (reservationOf req ri)" "wo_reservationId r = ri" and
    src: "loadIncomeWithdrawalSources ri s' = Inr sources"
      "wo_sources r = map (\<lambda>(f, a). (formatTransactionReference COMMISSION f, a)) sources" and
    booked: "mset (allocationsOf (reservationOf req ri) s') = mset (map (allocRow ti (a_id account) ''INCOME'') as)" and
    total: "(\<Sum>x\<leftarrow>allocationsOf (reservationOf req ri) s'. ta_amount x) = intOf (wi_amount input)"
    by (rule withdrawalE [OF frame fresh fin ok new u]) (rule that, assumption+)
  have names: "wo_sources r = map (\<lambda>(f, a). (''COMMISSION-'' @ f, a)) sources"
    by (simp add: src(2) formatTransactionReference_def)
  note by_flow = sources_by_flow [OF fin' src(1) v(1) lots booked takes]
  have d: "distinct (map l_id (financialLots s))" using fin by (simp add: fin_ok_def books_ok_def)
  have "(\<Sum>p\<leftarrow>wo_sources r. snd p) = intOf (wi_amount input)"
    using total_map [of "formatTransactionReference COMMISSION" sources] loadSources_total(1) [OF src(1) v(1)] total
    by (simp add: src(2) total_def)
  moreover have "accountFunds i s' = accountFunds i s - (if i = a_id account then intOf (wi_amount input) else 0)" for i
    using accountFunds_drawn [OF d own lots] by (simp add: sum)
  moreover have "distinct (map fst (wo_sources r))"
  proof -
    have "map fst (wo_sources r) = map (\<lambda>f. ''COMMISSION-'' @ f) (map fst sources)" by (simp add: names split_beta)
    then show ?thesis using by_flow(1) by (simp add: distinct_map inj_on_def del: map_map)
  qed
  moreover have "\<forall>(name, n) \<in> set (wo_sources r). 0 < n \<and> (\<exists>l \<in> set (financialLots s). l_accountId l = a_id account \<and>
      l_sourceFlowKind l = Some COMMISSION \<and> Some name = map_option (\<lambda>f. ''COMMISSION-'' @ f) (l_sourceFlowId l))"
    using by_flow(3) by (fastforce simp: names)
  moreover have "incomeLeft (a_id account) f s - incomeLeft (a_id account) f s' =
      (case map_of (wo_sources r) (''COMMISSION-'' @ f) of None \<Rightarrow> 0 | Some n \<Rightarrow> n)" for f
    unfolding incomeLeft_drawn [OF d own lots] by_flow(2) [symmetric] names
    using amountOf_named [of "''COMMISSION-''" sources f] by (simp add: amountOf_def)
  ultimately show ?thesis using h fin' pos res v(2) by auto
qed

section \<open>Idempotence\<close>

definition markWithdrawn :: "IncomeWithdrawalResult \<Rightarrow> IncomeWithdrawalResult" where
  "markWithdrawn r = r\<lparr>wo_replayed := True\<rparr>"

lemma loadWithdrawal_mark: "loadWithdrawal i b s = Inr r \<Longrightarrow> loadWithdrawal i True s = Inr (markWithdrawn r)"
  by (auto simp: loadWithdrawal_def rbind_eq_Inr markWithdrawn_def)

lemma withdrawal_of_stored:
  assumes "findCommand (wi_actorId input) WITHDRAW (wi_commandKey input) s = Some c"
    "assertIncomeWithdrawalReplay c (hashWithdrawal rt input) = Inr c" "loadWithdrawal (storedIdentity c) True s = Inr r"
  shows "executeWithdrawal rt eng input h s = Inr (r, s)"
  using assms by (simp add: executeWithdrawal_def bindT_def readT_def liftT_def)

lemma executeWithdrawal_retry:
  assumes ok: "executeWithdrawal rt eng input h s = Inr (r, s')" and sound: "settlementSound eng s"
  shows "executeWithdrawal rt eng input h' s' = Inr (markWithdrawn r, s')"
  using ok
proof (cases rule: executeWithdrawal_cases)
  case (Stored c)
  from loadWithdrawal_replayed [OF Stored(3)] have "markWithdrawn r = r" by (simp add: markWithdrawn_def)
  with Stored show ?thesis by (simp add: withdrawal_of_stored)
next
  case New
  from sound have fin: "fin_ok s" and fresh: "engine_fresh eng" by (simp_all add: settlementSound_def)
  obtain fi ci ct oi where
    ids: "oi \<notin> oper_id ` set (financialOperations s)" "oi \<noteq> []" and
    runs: "financialCommandRuns s' = financialCommandRuns s @ [commandOf (requestFor fi
       \<lparr>cpl_flowKind = WITHDRAWAL, cpl_kind = WITHDRAW, cpl_principalId = wi_actorId input,
        cpl_idempotencyKey = wi_commandKey input, cpl_subjectNamespace = INCOME_WITHDRAWAL_NAMESPACE,
        cpl_subjectKey = fi\<rparr> (hashWithdrawal rt input)) ci ct (Some oi)]" and
    ops: "financialOperations s' = financialOperations s @
       [\<lparr>oper_id = oi, oper_flowId = fi, oper_kind = WITHDRAW, oper_commandId = ci\<rparr>]" and
    out: "loadWithdrawal \<lparr>id_flowId = fi, id_operationDbId = oi,
       id_referenceId = formatTransactionReference WITHDRAWAL fi, id_commandId = formatCommandId WITHDRAW ci,
       id_operationId = formatOperationId WITHDRAW oi\<rparr> False s' = Inr r"
    by (rule performWithdrawalE [OF New(2) fin fresh]) (rule that, assumption+)
  let ?req = "requestFor fi \<lparr>cpl_flowKind = WITHDRAWAL, cpl_kind = WITHDRAW, cpl_principalId = wi_actorId input,
        cpl_idempotencyKey = wi_commandKey input, cpl_subjectNamespace = INCOME_WITHDRAWAL_NAMESPACE,
        cpl_subjectKey = fi\<rparr> (hashWithdrawal rt input)"
  let ?c = "commandOf ?req ci ct (Some oi)"
  have stored: "findCommand (wi_actorId input) WITHDRAW (wi_commandKey input) s' = Some (mapStoredCommand s' ?c)"
    by (rule findCommand_appended [OF New(1) runs]) (simp add: commandKeyIs_def)
  have res: "resultOperation s' ?c = Some \<lparr>oper_id = oi, oper_flowId = fi, oper_kind = WITHDRAW, oper_commandId = ci\<rparr>"
    by (rule new_result [OF ops _ ids(1)]) simp
  have same: "assertIncomeWithdrawalReplay (mapStoredCommand s' ?c) (hashWithdrawal rt input) = Inr (mapStoredCommand s' ?c)"
    by (simp add: assertIncomeWithdrawalReplay_def res ids(2))
  have "storedIdentity (mapStoredCommand s' ?c) = \<lparr>id_flowId = fi, id_operationDbId = oi,
       id_referenceId = formatTransactionReference WITHDRAWAL fi, id_commandId = formatCommandId WITHDRAW ci,
       id_operationId = formatOperationId WITHDRAW oi\<rparr>"
    by (simp add: storedIdentity_def res)
  with loadWithdrawal_mark [OF out] show ?thesis by (intro withdrawal_of_stored [OF stored same]) simp
qed

lemma executeWithdrawal_sound:
  assumes ok: "executeWithdrawal rt eng input h s = Inr (r, s')" and sound: "settlementSound eng s"
  shows "settlementSound eng s'"
  using ok
proof (cases rule: executeWithdrawal_cases)
  case New
  from sound have "fin_ok s" "engine_fresh eng" by (simp_all add: settlementSound_def)
  with performWithdrawalE [OF New(2) this] show ?thesis by (simp add: settlementSound_def) blast
qed (use sound in simp)

interpretation withdrawal: idempotent_request "executeWithdrawal rt eng" "settlementSound eng" "\<lambda>_ _. True"
  markWithdrawn for rt eng
  by unfold_locales (erule executeWithdrawal_sound, assumption, erule (1) executeWithdrawal_retry,
    simp add: markWithdrawn_def)

text \<open>C13: deliveries of one withdrawal request, any number of times, take the income once: every
  later one answers the same result, marked as replayed, and changes nothing.
\<close>

theorem withdrawal_delivered_again:
  assumes "engine_fresh eng" "fin_ok s" "executeWithdrawal rt eng input h s = Inr (r, s')"
  shows "redeliver (executeWithdrawal rt eng input) (h # hs) s =
    (Inr r # replicate (length hs) (Inr (r\<lparr>wo_replayed := True\<rparr>)), s')"
proof -
  have "settlementSound eng s" using assms(1,2) by (simp add: settlementSound_def)
  from withdrawal.redeliver_all [OF assms(3) this TrueI] show ?thesis by (simp add: markWithdrawn_def)
qed

section \<open>The sample income, withdrawn\<close>

definition sampleSettled :: db where
  "sampleSettled = stateAfter samplePaid (executeSettlement refRuntime refEngine sampleSettle 11 samplePaid)"

definition sampleWithdraw :: IncomeWithdrawalInput where
  "sampleWithdraw = \<lparr>wi_actorId = 2, wi_amount = JInt 50, wi_commandKey = ''w''\<rparr>"

lemma sampleSettled_ok: "fin_ok sampleSettled"
  by code_simp

lemma sample_withdraw:
  "case executeWithdrawal refRuntime refEngine sampleWithdraw 11 sampleSettled of
     Inr (r, s') \<Rightarrow> \<not> wo_replayed r \<and> wo_sources r = [(''COMMISSION-f'', 50)] \<and> accountFunds 21 s' = 20 \<and> unique_ok s'
   | Inl e \<Rightarrow> False"
  by code_simp

lemma sample_withdraw_run:
  obtains r s' where "requestWithdrawal refRuntime refEngine sampleWithdraw sampleSettled sampleSettled = Inr (r, s')"
    "executeWithdrawal refRuntime refEngine sampleWithdraw 11 sampleSettled = Inr (r, s')"
    "\<not> wo_replayed r" "wo_sources r = [(''COMMISSION-f'', 50)]" "accountFunds 21 s' = 20" "unique_ok s'"
proof -
  from sample_withdraw obtain r s' where
    run: "executeWithdrawal refRuntime refEngine sampleWithdraw 11 sampleSettled = Inr (r, s')"
    and facts: "\<not> wo_replayed r" "wo_sources r = [(''COMMISSION-f'', 50)]" "accountFunds 21 s' = 20" "unique_ok s'"
    by (auto split: sum.splits)
  have h: "findHolderId ''user'' (showInt 2) sampleSettled = Inr 11" by code_simp
  have q: "session_quiet (e_session refEngine)" by simp
  have "requestWithdrawal refRuntime refEngine sampleWithdraw sampleSettled sampleSettled = Inr (r, s')"
    using serialized_quiet [where body = "executeWithdrawal refRuntime refEngine sampleWithdraw 11", OF q run] h
    by (simp add: requestWithdrawal_def bindT_def liftT_def sampleWithdraw_def)
  from this run facts show thesis by (rule that)
qed

theorem withdrawal_takes_income_with_sources_witness:
  "\<exists>r s'. requestWithdrawal refRuntime refEngine sampleWithdraw sampleSettled sampleSettled = Inr (r, s') \<and>
     fin_ok s' \<and> (\<Sum>p\<leftarrow>wo_sources r. snd p) = 50 \<and>
     incomeLeft 21 ''f'' sampleSettled - incomeLeft 21 ''f'' s' = 50"
proof -
  obtain r s' where run: "requestWithdrawal refRuntime refEngine sampleWithdraw sampleSettled sampleSettled = Inr (r, s')"
    and new: "\<not> wo_replayed r" and src: "wo_sources r = [(''COMMISSION-f'', 50)]" and u: "unique_ok s'"
    by (rule sample_withdraw_run)
  have h: "findHolderId ''user'' (showInt (wi_actorId sampleWithdraw)) sampleSettled = Inr 11" by code_simp
  have "map_option a_id (accountOf 11 ''INCOME'' ''AVAILABLE'' sampleSettled) = Some 21" by code_simp
  then have a: "accountOf 11 ''INCOME'' ''AVAILABLE'' sampleSettled = Some account \<Longrightarrow> a_id account = 21" for account
    by simp
  have "session_frame (e_session refEngine)" by simp
  from withdrawal_takes_income_with_sources [OF this refEngine_fresh sampleSettled_ok run new u, unfolded h]
  obtain account where "fin_ok s'" "accountOf 11 ''INCOME'' ''AVAILABLE'' sampleSettled = Some account"
    "(\<Sum>p\<leftarrow>wo_sources r. snd p) = intOf (wi_amount sampleWithdraw)"
    "\<And>f. incomeLeft (a_id account) f sampleSettled - incomeLeft (a_id account) f s' =
      (case map_of (wo_sources r) (''COMMISSION-'' @ f) of None \<Rightarrow> 0 | Some n \<Rightarrow> n)" by auto
  moreover from this(2) a have "a_id account = 21" by simp
  moreover have "map_of (wo_sources r) (''COMMISSION-'' @ ''f'') = Some 50" by (simp add: src)
  ultimately have "incomeLeft 21 ''f'' sampleSettled - incomeLeft 21 ''f'' s' = 50" by (metis option.simps(5))
  with run \<open>fin_ok s'\<close> src show ?thesis by (intro exI [of _ r] exI [of _ s']) simp
qed

theorem withdrawal_delivered_again_witness:
  "\<exists>r s'. redeliver (executeWithdrawal refRuntime refEngine sampleWithdraw) [11, 11] sampleSettled =
     ([Inr r, Inr (r\<lparr>wo_replayed := True\<rparr>)], s') \<and> accountFunds 21 s' = 20"
proof -
  obtain r s' where run: "executeWithdrawal refRuntime refEngine sampleWithdraw 11 sampleSettled = Inr (r, s')"
    and left: "accountFunds 21 s' = 20"
    by (rule sample_withdraw_run)
  from withdrawal_delivered_again [OF refEngine_fresh sampleSettled_ok run, of "[11]"] left
  show ?thesis by auto
qed

end
