(* ===== verification/MoneyTrail.thy ===== *)
theory MoneyTrail
  imports WithdrawalReplay
begin

text \<open>
  Settlement and withdrawal together: the income a worker takes out names the commission it was
  earned with.
\<close>

section \<open>The flows a withdrawal names\<close>

lemma single_source:
  fixes out :: "(string \<times> int) list"
  assumes "distinct (map fst out)" "fst ` set out \<subseteq> {f}" "total out \<noteq> 0"
  shows "out = [(f, total out)]"
proof (cases out)
  case Nil
  with assms(3) show ?thesis by (simp add: total_def)
next
  case (Cons p rest)
  with assms(1,2) have "rest = []" by (cases rest) auto
  with Cons assms(2) show ?thesis by (cases p) (simp add: total_def)
qed

text \<open>With every allocation on lots of one flow, a withdrawal names that flow alone.\<close>

lemma sources_of_one_flow:
  assumes src: "loadIncomeWithdrawalSources i s = Inr sources"
    and v: "findRow (\<lambda>r. r_id r = i) (financialReservations s) = Some v"
    and flows: "\<And>a l. a \<in> set (allocationsOf v s) \<Longrightarrow> lotOfAllocation a s = Inr l \<Longrightarrow> l_sourceFlowId l = Some f"
    and pos: "(\<Sum>a\<leftarrow>allocationsOf v s. ta_amount a) \<noteq> 0"
  shows "sources = [(f, \<Sum>a\<leftarrow>allocationsOf v s. ta_amount a)]"
proof -
  from src v obtain rows where m: "mapThrow (\<lambda>a. rbind (lotOfAllocation a s) (\<lambda>l. Inr (a, l))) (allocationsOf v s) = Inr rows"
    and s: "sumSources rows [] = Inr sources"
    by (auto simp: loadIncomeWithdrawalSources_def rbind_eq_Inr)
  have "the (l_sourceFlowId l) = f" if "(a, l) \<in> set rows" for a l
  proof -
    from mapThrow_member [OF m that] obtain b where
      "b \<in> set (allocationsOf v s)" "rbind (lotOfAllocation b s) (\<lambda>l. Inr (b, l)) = Inr (a, l)" by blast
    then have "a \<in> set (allocationsOf v s)" "lotOfAllocation a s = Inr l" by (auto simp: rbind_eq_Inr)
    then show ?thesis using flows by fastforce
  qed
  then have "fst ` set sources \<subseteq> {f}" using sumSources_flows [OF s] by auto
  moreover note t = loadSources_total [OF src v]
  ultimately show ?thesis using single_source [of sources f] t pos by simp
qed

section \<open>Only the lot with money can be drawn\<close>

lemma no_funds_no_lots:
  assumes "fin_ok s" "accountFunds i s = 0" "l \<in> set (financialLots s)" "l_accountId l = i"
  shows "l_remainingAmount l = 0"
proof -
  let ?ls = "filter (\<lambda>l. l_accountId l = i) (financialLots s)"
  have "\<forall>x \<in> set (map l_remainingAmount ?ls). 0 \<le> x"
    using assms(1) by (auto simp: fin_ok_def books_ok_def lot_ok_def)
  then have "sum_list (map l_remainingAmount ?ls) = 0 \<longleftrightarrow> (\<forall>x \<in> set (map l_remainingAmount ?ls). x = 0)"
    by (intro sum_list_nonneg_eq_0_iff) blast
  with assms(2) have "\<forall>x \<in> set (map l_remainingAmount ?ls). x = 0"
    unfolding accountFunds_def by blast
  with assms(3,4) show ?thesis by auto
qed

lemma drawn_lot_had_money:
  assumes fin: "fin_ok s'" and lots: "financialLots s' = map (\<lambda>l. lessLot (drawnFrom (l_id l) as) l) (financialLots s)"
    and a: "a \<in> set as" "takes_ok as" and l: "l \<in> set (financialLots s)" "l_id l = fa_lotId a"
  shows "l_remainingAmount l \<noteq> 0"
proof -
  have pos: "\<forall>x \<in> set as. 0 < fa_amount x" using a(2) by (simp add: takes_ok_def)
  have "fa_amount a \<le> drawnFrom (l_id l) as"
    unfolding drawnFrom_def
    by (rule member_le_sum_list) (use pos a(1) l(2) in \<open>auto simp: less_imp_le\<close>)
  moreover have "0 \<le> l_remainingAmount l - drawnFrom (l_id l) as"
    using fin l(1) by (auto simp: fin_ok_def books_ok_def lots lot_ok_def)
  ultimately show ?thesis using pos a(1) by force
qed

text \<open>An account that had nothing but one new lot can only pay from that lot.\<close>

lemma only_new_lot_drawn:
  assumes "fin_ok s" and "accountFunds i s = 0" and lots1: "financialLots s' = financialLots s @ [lot]"
    and "fin_ok s''" and lots2: "financialLots s'' = map (\<lambda>l. lessLot (drawnFrom (l_id l) as) l) (financialLots s')"
    and "takes_ok as" and own: "\<forall>a \<in> set as. \<exists>l \<in> set (financialLots s'). l_id l = fa_lotId a \<and> l_accountId l = i"
    and "x \<in> set as"
  shows "fa_lotId x = l_id lot"
proof (rule ccontr)
  assume other: "fa_lotId x \<noteq> l_id lot"
  from own assms(8) obtain l where l: "l \<in> set (financialLots s')" "l_id l = fa_lotId x" "l_accountId l = i" by auto
  with other have old: "l \<in> set (financialLots s)" by (auto simp: lots1)
  have "l_remainingAmount l = 0" by (rule no_funds_no_lots [OF assms(1,2) old l(3)])
  with drawn_lot_had_money [OF assms(4) lots2 assms(8,6) l(1,2)] show False by simp
qed

lemma new_lot_found:
  assumes lots1: "financialLots s' = financialLots s @ [lot]" and new: "l_id lot \<notin> l_id ` set (financialLots s)"
    and lots2: "financialLots s'' = map (\<lambda>l. lessLot (drawnFrom (l_id l) as) l) (financialLots s')"
    and l: "l \<in> set (financialLots s'')" "l_id l = l_id lot"
  shows "l = lessLot (drawnFrom (l_id lot) as) lot"
proof -
  from l obtain l0 where l0: "l0 \<in> set (financialLots s')" "l = lessLot (drawnFrom (l_id l0) as) l0" "l_id l0 = l_id lot"
    by (auto simp: lots2)
  with new have "l0 \<notin> set (financialLots s)" by (metis imageI)
  with l0 show ?thesis by (simp add: lots1)
qed

section \<open>The lot of a settlement\<close>

text \<open>A settlement carried out adds one lot, of its flow, to the income account of the worker.\<close>

lemma settledE:
  assumes frame: "session_frame (e_session eng)" and fresh: "engine_fresh eng" and fin: "fin_ok s"
    and settled: "settle rt eng input t0 t1 s = Inr (r, s')" "\<not> se_replayed r"
  obtains h account lot flow where
    "findHolderId ''user'' (showInt (si_actorId input)) s = Inr h" "accountOf h ''INCOME'' ''AVAILABLE'' s = Some account"
    "financialLots s' = financialLots s @ [lot]" "l_id lot \<notin> l_id ` set (financialLots s)" "l_sourceFlowId lot = Some flow"
    "se_referenceId r = formatTransactionReference COMMISSION flow" "fin_ok s'"
    "financialHolders s' = financialHolders s" "financialAccounts s' = financialAccounts s"
proof -
  from settle_success [OF frame settled(1)] obtain h where "executeSettlement rt eng input h s = Inr (r, s')" by blast
  from executeSettlement_new [OF this settled(2)] have perf: "performSettlement rt eng input h s = Inr (r, s')" .
  obtain w plan ci oi ct ai i t where
    plan: "plan = settlementPlan w input" and
    hold: "findHolderId ''user'' (showInt (si_actorId input)) s = Inr h" and
    acc: "loadCommissionSettlementAccounts h s = Inr (sw_accounts w)" and
    new: "i \<notin> l_id ` set (financialLots s)" and fin1: "fin_ok s'" and
    r: "r = \<lparr>se_contractId = si_contractId input, se_reservationId = ss_reservationId (spl_swap plan),
       se_incomeLotId = i, se_referenceId = formatTransactionReference COMMISSION (spl_flowId plan),
       se_commandId = formatCommandId SETTLE ci, se_operationId = formatOperationId SETTLE oi, se_replayed = False\<rparr>" and
    s': "s' = s\<lparr>
       financialCommandRuns := financialCommandRuns s @
         [commandOf (requestFor (spl_flowId plan) (settleCommand input) (hashSettlement rt input)) ci ct (Some oi)],
       financialOperations := financialOperations s @
         [\<lparr>oper_id = oi, oper_flowId = spl_flowId plan, oper_kind = SETTLE, oper_commandId = ci\<rparr>],
       financialSwapActions := financialSwapActions s @ [swapOf (spl_swap plan) oi ai],
       financialSwapLegs := financialSwapLegs s @ legsOf (spl_swap plan) ai,
       financialLots := financialLots s @ [incomeLotOf (spl_swap plan) oi ai i t],
       financialReservations := updateWhere (\<lambda>r. r_id r = ss_reservationId (spl_swap plan) \<and>
         r_flowId r = ss_flowId (spl_swap plan) \<and> r_state r = ''HELD'') (\<lambda>r. r\<lparr>r_state := ''SETTLED''\<rparr>)
         (financialReservations s)\<rparr>"
    by (rule performSettlementE [OF perf fin fresh]) (rule that, assumption+)
  from loadAccounts_Inr [OF acc] obtain account where
    a: "accountOf h ''INCOME'' ''AVAILABLE'' s = Some account" by blast
  let ?lot = "incomeLotOf (spl_swap plan) oi ai i t"
  show thesis
  proof (rule that [OF hold a, of ?lot "spl_flowId plan"])
    show "l_id ?lot \<notin> l_id ` set (financialLots s)" using new by (simp add: incomeLotOf_def)
  qed (use fin1 in \<open>simp_all add: s' r incomeLotOf_def plan settlementPlan_def Let_def\<close>)
qed

section \<open>The trail\<close>

text \<open>C5: income names the commission it came from: a worker whose income account was empty settles one
  commission and then withdraws any amount that the settlement covers; the withdrawal names
  exactly one source, the reference the settlement answered with, for exactly that amount.
\<close>

theorem income_names_its_commission:
  assumes frame: "session_frame (e_session eng)" and fresh: "engine_fresh eng" and fin: "fin_ok s"
    and settled: "settle rt eng input t0 t1 s = Inr (r, s')" "\<not> se_replayed r"
    and empty: "\<And>h account. findHolderId ''user'' (showInt (si_actorId input)) s = Inr h \<Longrightarrow>
      accountOf h ''INCOME'' ''AVAILABLE'' s = Some account \<Longrightarrow> accountFunds (a_id account) s = 0"
    and taken: "requestWithdrawal rt eng winput s' s' = Inr (r', s'')" "\<not> wo_replayed r'"
    and same: "wi_actorId winput = si_actorId input" and u: "unique_ok s''"
  shows "wo_sources r' = [(se_referenceId r, intOf (wi_amount winput))]"
proof -
  obtain h account lot flow where
    hold: "findHolderId ''user'' (showInt (si_actorId input)) s = Inr h" and
    a: "accountOf h ''INCOME'' ''AVAILABLE'' s = Some account" and
    lots1: "financialLots s' = financialLots s @ [lot]" and new: "l_id lot \<notin> l_id ` set (financialLots s)" and
    source: "l_sourceFlowId lot = Some flow" and r: "se_referenceId r = formatTransactionReference COMMISSION flow" and
    fin1: "fin_ok s'" and keep: "financialHolders s' = financialHolders s" "financialAccounts s' = financialAccounts s"
    by (rule settledE [OF frame fresh fin settled]) (rule that, assumption+)
  obtain h' account' as ri ti req sources where
    hold': "findHolderId ''user'' (showInt (wi_actorId winput)) s' = Inr h'" and
    a': "accountOf h' ''INCOME'' ''AVAILABLE'' s' = Some account'" and
    takes: "takes_ok as" and pos: "0 < intOf (wi_amount winput)" and
    own: "\<forall>a \<in> set as. \<exists>l \<in> set (financialLots s'). l_id l = fa_lotId a \<and> l_accountId l = a_id account'" and
    fin2: "fin_ok s''" and lots2: "financialLots s'' = map (\<lambda>l. lessLot (drawnFrom (l_id l) as) l) (financialLots s')" and
    v: "findRow (\<lambda>r. r_id r = ri) (financialReservations s'') = Some (reservationOf req ri)" and
    src: "loadIncomeWithdrawalSources ri s'' = Inr sources"
      "wo_sources r' = map (\<lambda>(f, a). (formatTransactionReference COMMISSION f, a)) sources" and
    booked: "mset (allocationsOf (reservationOf req ri) s'') = mset (map (allocRow ti (a_id account') ''INCOME'') as)" and
    total: "(\<Sum>x\<leftarrow>allocationsOf (reservationOf req ri) s''. ta_amount x) = intOf (wi_amount winput)"
    by (rule withdrawalE [OF frame fresh fin1 taken u]) (rule that, assumption+)
  from hold' hold have "h' = h" by (simp add: same findHolderId_def keep)
  with a' a have account': "account' = account" by (simp add: accountOf_def keep)
  note only = only_new_lot_drawn [OF fin empty [OF hold a] lots1 fin2 lots2 takes own [unfolded account']]
  have "sources = [(flow, intOf (wi_amount winput))]"
    unfolding total [symmetric]
  proof (rule sources_of_one_flow [OF src(1) v])
    fix x l
    assume "x \<in> set (allocationsOf (reservationOf req ri) s'')" and l: "lotOfAllocation x s'' = Inr l"
    then have "x \<in> set (map (allocRow ti (a_id account') ''INCOME'') as)" using mset_eq_setD [OF booked] by simp
    then have "ta_lotId x = l_id lot" using only by (auto simp: allocRow_def)
    with l have "l \<in> set (financialLots s'')" "l_id l = l_id lot"
      by (auto simp: lotOfAllocation_def dest!: findRow_Some)
    from new_lot_found [OF lots1 new lots2 this] source show "l_sourceFlowId l = Some flow" by (simp add: lessLot_def)
  next
    show "(\<Sum>x\<leftarrow>allocationsOf (reservationOf req ri) s''. ta_amount x) \<noteq> 0" using total pos by simp
  qed
  then show ?thesis by (simp add: src(2) r)
qed

theorem income_names_its_commission_witness:
  "\<exists>r s' r' s''. settle refRuntime refEngine sampleSettle samplePaid samplePaid samplePaid = Inr (r, s') \<and>
     requestWithdrawal refRuntime refEngine sampleWithdraw s' s' = Inr (r', s'') \<and>
     wo_sources r' = [(se_referenceId r, 50)]"
proof -
  obtain r s' where run: "settle refRuntime refEngine sampleSettle samplePaid samplePaid samplePaid = Inr (r, s')"
    and ex: "executeSettlement refRuntime refEngine sampleSettle 11 samplePaid = Inr (r, s')" and new: "\<not> se_replayed r"
    by (rule sample_settle_run)
  from ex have s': "s' = sampleSettled" by (simp add: sampleSettled_def)
  obtain r' s'' where run': "requestWithdrawal refRuntime refEngine sampleWithdraw sampleSettled sampleSettled = Inr (r', s'')"
    and new': "\<not> wo_replayed r'" and u: "unique_ok s''"
    by (rule sample_withdraw_run)
  have h: "findHolderId ''user'' (showInt (si_actorId sampleSettle)) samplePaid = Inr 11" by code_simp
  have "map_option a_id (accountOf 11 ''INCOME'' ''AVAILABLE'' samplePaid) = Some 21" "accountFunds 21 samplePaid = 0"
    by code_simp+
  then have e: "accountFunds (a_id account) samplePaid = 0"
    if "findHolderId ''user'' (showInt (si_actorId sampleSettle)) samplePaid = Inr k"
      "accountOf k ''INCOME'' ''AVAILABLE'' samplePaid = Some account" for k account
    using that h by auto
  have "session_frame (e_session refEngine)" "wi_actorId sampleWithdraw = si_actorId sampleSettle"
    by (simp_all add: sampleWithdraw_def sampleSettle_def)
  from income_names_its_commission [OF this(1) refEngine_fresh samplePaid_ok run new e _ new' this(2) u] run run' s'
  show ?thesis by (auto simp: sampleWithdraw_def)
qed

end
