(* ===== verification/PointChargeFlow.thy ===== *)
theory PointChargeFlow
  imports LedgerInvariant
begin

text \<open>
  Charging points against an external payment, \<open>src/modules/point-charge\<close>: the decision
  (\<open>point-charge.core.ts\<close>), the use case and the trace of what funded a commission
  (\<open>point-charge.service.ts\<close>); then its guarantees.
\<close>

section \<open>Core\<close>

definition POINT_CHARGE_PAYMENT_NAMESPACE :: string where
  "POINT_CHARGE_PAYMENT_NAMESPACE = ''point-charge-payment''"

definition POINT_CHARGE_ACCOUNTING_POLICY_VERSION :: string where
  "POINT_CHARGE_ACCOUNTING_POLICY_VERSION = ''point-charge-v1''"

record PointChargeInput =
  gi_actorId :: int
  gi_amount :: js_number
  gi_externalPaymentId :: string
  gi_commandKey :: string

record PointChargeWorld =
  gw_holderId :: int
  gw_availableAccountId :: int

definition PointChargeStateError :: "string \<Rightarrow> thrown" where
  "PointChargeStateError message = DomainError ''PointChargeStateError'' message ''POINT_CHARGE_INVALID''"

definition planPointChargeCommand :: "PointChargeInput \<Rightarrow> command_plan" where
  "planPointChargeCommand input = \<lparr>cpl_flowKind = POINT_CHARGE, cpl_kind = CHARGE,
     cpl_principalId = gi_actorId input, cpl_idempotencyKey = gi_commandKey input,
     cpl_subjectNamespace = POINT_CHARGE_PAYMENT_NAMESPACE, cpl_subjectKey = gi_externalPaymentId input\<rparr>"

definition assertPointChargeIdentity :: "stored_command \<Rightarrow> command_plan \<Rightarrow> string \<Rightarrow> thrown + unit" where
  "assertPointChargeIdentity stored requested payloadHash =
     (if sc_flowKind stored \<noteq> cpl_flowKind requested \<or> sc_kind stored \<noteq> cpl_kind requested \<or>
         sc_principalId stored \<noteq> cpl_principalId requested \<or> sc_payloadHash stored \<noteq> payloadHash \<or>
         sc_subjectNamespace stored \<noteq> cpl_subjectNamespace requested \<or>
         sc_subjectKey stored \<noteq> cpl_subjectKey requested
      then Inl (PointChargeStateError ''Point charge command identity mismatch'')
      else if \<not> truthy (sc_operationDbId stored) \<or> \<not> truthy (sc_operationId stored)
      then Inl (PointChargeStateError ''Point charge command has no completed operation'')
      else Inr ())"

text \<open>\<open>None\<close> is \<open>{ kind: 'PROCEED' }\<close>, \<open>Some identity\<close> is \<open>{ kind: 'REPLAY', identity }\<close>.\<close>

definition planPointChargeStart ::
  "stored_command option \<Rightarrow> stored_command option \<Rightarrow> command_plan \<Rightarrow> string \<Rightarrow> thrown + stored_command option" where
  "planPointChargeStart command payment requested payloadHash =
     (case (case command of Some c \<Rightarrow> Some c | None \<Rightarrow> payment) of
        None \<Rightarrow> Inr None
      | Some stored \<Rightarrow> rbind (assertPointChargeIdentity stored requested payloadHash) (\<lambda>_. Inr (Some stored)))"

text \<open>The holder the lot request names is kept beside the part of it that is written.\<close>

record PointChargePlan =
  gp_flowKind :: flow_kind
  gp_allowedCommands :: "command_kind list"
  gp_commandRequest :: command_plan
  gp_operationKind :: command_kind
  gp_lotHolderId :: int
  gp_lotRequest :: point_lot_request

definition planPointCharge :: "PointChargeWorld \<Rightarrow> PointChargeInput \<Rightarrow> thrown + PointChargePlan" where
  "planPointCharge world input =
     (if \<not> isSafeInteger (gi_amount input) \<or> intOf (gi_amount input) \<le> 0
      then Inl (PointChargeStateError ''Point charge amount must be a positive integer'')
      else if gi_externalPaymentId input = [] then Inl (PointChargeStateError ''External payment id is required'')
      else if gi_commandKey input = [] then Inl (PointChargeStateError ''Command key is required'')
      else Inr \<lparr>gp_flowKind = POINT_CHARGE, gp_allowedCommands = [CHARGE],
        gp_commandRequest = planPointChargeCommand input, gp_operationKind = CHARGE,
        gp_lotHolderId = gw_holderId world, gp_lotRequest = \<lparr>pr_accountId = gw_availableAccountId world, pr_currency = ''POINT'',
          pr_sourceKind = ''PAID'', pr_issuanceReason = ''PURCHASE'',
          pr_accountingCategory = ''CUSTOMER_ADVANCE'',
          pr_accountingPolicyVersion = POINT_CHARGE_ACCOUNTING_POLICY_VERSION,
          pr_amount = intOf (gi_amount input)\<rparr>\<rparr>)"

record PointChargeResult =
  go_lotId :: int
  go_amount :: int
  go_referenceId :: string
  go_commandId :: string
  go_operationId :: string
  go_replayed :: bool

record PointChargeFundingSource =
  gs_lotId :: int
  gs_operationId :: string
  gs_flowId :: string
  gs_amount :: int
  gs_issuanceReason :: string
  gs_accountingCategory :: string
  gs_accountingPolicyVersion :: string

definition fundingSource :: "funding_allocation \<Rightarrow> thrown + PointChargeFundingSource" where
  "fundingSource a =
     (if \<not> truthy (fu_sourceFlowId a) \<or> fu_sourceFlowKind a \<noteq> Some POINT_CHARGE \<or>
         \<not> truthy (fu_sourceOperationId a) \<or> fu_sourceOperationKind a \<noteq> Some CHARGE \<or>
         \<not> truthy (fu_issuanceReason a) \<or> \<not> truthy (fu_accountingCategory a) \<or>
         \<not> truthy (fu_accountingPolicyVersion a)
      then Inl (PointChargeStateError (''Commission allocation from lot '' @ showInt (fu_lotId a) @
             '' has no point-charge source''))
      else Inr \<lparr>gs_lotId = fu_lotId a, gs_operationId = the (fu_sourceOperationId a),
        gs_flowId = the (fu_sourceFlowId a), gs_amount = fu_amount a,
        gs_issuanceReason = the (fu_issuanceReason a), gs_accountingCategory = the (fu_accountingCategory a),
        gs_accountingPolicyVersion = the (fu_accountingPolicyVersion a)\<rparr>)"

definition identifyPointChargeFundingSources ::
  "funding_allocation list \<Rightarrow> thrown + PointChargeFundingSource list" where
  "identifyPointChargeFundingSources allocations = mapThrow fundingSource allocations"

section \<open>Use case\<close>

definition hashPointCharge :: "runtime \<Rightarrow> PointChargeInput \<Rightarrow> string" where
  "hashPointCharge rt input = rt_sha256 rt (jsonArray
     [showInt (gi_actorId input), jsonNumber (gi_amount input), jsonString (gi_externalPaymentId input)])"

record ChargeIdentity =
  cgi_operationDbId :: string
  cgi_referenceId :: string
  cgi_commandId :: string
  cgi_operationId :: string

definition storedCharge :: "stored_command \<Rightarrow> ChargeIdentity" where
  "storedCharge c = \<lparr>cgi_operationDbId = the (sc_operationDbId c), cgi_referenceId = sc_referenceId c,
     cgi_commandId = sc_commandId c, cgi_operationId = the (sc_operationId c)\<rparr>"

definition loadCharge :: "ChargeIdentity \<Rightarrow> bool \<Rightarrow> db \<Rightarrow> thrown + PointChargeResult" where
  "loadCharge identity replayed s =
     rbind (loadPointChargeLedgerResult (cgi_operationDbId identity) s) (\<lambda>(lotId, amount).
     Inr \<lparr>go_lotId = lotId, go_amount = amount, go_referenceId = cgi_referenceId identity,
          go_commandId = cgi_commandId identity, go_operationId = cgi_operationId identity,
          go_replayed = replayed\<rparr>)"

definition performCharge :: "runtime \<Rightarrow> engine \<Rightarrow> PointChargeInput \<Rightarrow> int \<Rightarrow> PointChargeResult dbtx" where
  "performCharge rt eng input lockedHolderId =
     bindT (readT (loadPointChargeWorld lockedHolderId)) (\<lambda>(holderId, accountId).
     bindT (liftT (planPointCharge \<lparr>gw_holderId = holderId, gw_availableAccountId = accountId\<rparr> input)) (\<lambda>plan.
     bindT (createFlow eng (gp_flowKind plan) (gp_allowedCommands plan)) (\<lambda>flow.
     bindT (startCommand eng (requestFor (fl_id flow) (gp_commandRequest plan) (hashPointCharge rt input))) (\<lambda>started.
     bindT (createOperation eng (fl_id flow) (gp_operationKind plan) (cm_id started)) (\<lambda>operation.
     bindT (applyPointChargeLot eng (fl_id flow) (oper_id operation) (gp_lotRequest plan)) (\<lambda>_.
     bindT (completeCommand (cm_id started) (oper_id operation)) (\<lambda>_.
     bindT (assertCommandEffectCompleteness eng) (\<lambda>_.
     readT (loadCharge \<lparr>cgi_operationDbId = oper_id operation,
       cgi_referenceId = formatTransactionReference (fl_kind flow) (fl_id flow),
       cgi_commandId = formatCommandId (cm_kind started) (cm_id started),
       cgi_operationId = formatOperationId (oper_kind operation) (oper_id operation)\<rparr> False)))))))))"

definition executePointCharge :: "runtime \<Rightarrow> engine \<Rightarrow> PointChargeInput \<Rightarrow> int \<Rightarrow> PointChargeResult dbtx" where
  "executePointCharge rt eng input lockedHolderId =
     (let requested = planPointChargeCommand input in
      bindT (readT (\<lambda>s. Inr (findCommand (cpl_principalId requested) (cpl_kind requested)
        (cpl_idempotencyKey requested) s))) (\<lambda>command.
      bindT (readT (\<lambda>s. Inr (if command \<noteq> None then None else findCompletedCommandBySubject
        (cpl_flowKind requested) (cpl_subjectNamespace requested) (cpl_subjectKey requested)
        (cpl_kind requested) s))) (\<lambda>payment.
      bindT (liftT (planPointChargeStart command payment requested (hashPointCharge rt input))) (\<lambda>start.
      case start of
        Some identity \<Rightarrow> readT (loadCharge (storedCharge identity) True)
      | None \<Rightarrow> performCharge rt eng input lockedHolderId))))"

text \<open>The read before the transaction sees the database \<open>s0\<close>.\<close>

definition chargePoints :: "runtime \<Rightarrow> engine \<Rightarrow> PointChargeInput \<Rightarrow> db \<Rightarrow> PointChargeResult dbtx" where
  "chargePoints rt eng input s0 =
     bindT (liftT (findHolderId ''user'' (showInt (gi_actorId input)) s0)) (\<lambda>holderId.
     serialized (e_session eng)
       [lockKey (LfinancialHolder holderId),
        lockKey (LpointChargePayment (gi_externalPaymentId input)),
        lockKey (LpointChargeCommand (showInt (gi_actorId input) @ '':CHARGE:'' @ gi_commandKey input))]
       (executePointCharge rt eng input holderId) False)"

definition traceCommissionFunding ::
  "int \<Rightarrow> db \<Rightarrow> thrown + (PointChargeFundingSource \<times> string \<times> string) list" where
  "traceCommissionFunding reservationId s =
     rbind (loadCommissionPointFundingAllocations reservationId s) (\<lambda>allocations.
     rbind (identifyPointChargeFundingSources allocations) (\<lambda>sources.
     Inr (map (\<lambda>source. (source, formatTransactionReference POINT_CHARGE (gs_flowId source),
       formatOperationId CHARGE (gs_operationId source))) sources)))"

end
