(* ===== verification/PointChargeLaws.thy ===== *)
theory PointChargeLaws
  imports PointChargeFlow
begin

text \<open>
  What charging points guarantees: the user's account grows by exactly the amount, the lot
  names the flow and the operation it came from, a repeated request is answered from the first
  one, and one external payment is turned into points once, whatever keys are used.
\<close>

section \<open>The decision\<close>

lemma planPointCharge_eq_Inr:
  "planPointCharge world input = Inr plan \<longleftrightarrow>
     isSafeInteger (gi_amount input) \<and> 0 < intOf (gi_amount input) \<and> gi_externalPaymentId input \<noteq> [] \<and>
     gi_commandKey input \<noteq> [] \<and>
     plan = \<lparr>gp_flowKind = POINT_CHARGE, gp_allowedCommands = [CHARGE],
        gp_commandRequest = planPointChargeCommand input, gp_operationKind = CHARGE,
        gp_lotHolderId = gw_holderId world,
        gp_lotRequest = \<lparr>pr_accountId = gw_availableAccountId world, pr_currency = ''POINT'',
          pr_sourceKind = ''PAID'', pr_issuanceReason = ''PURCHASE'',
          pr_accountingCategory = ''CUSTOMER_ADVANCE'',
          pr_accountingPolicyVersion = POINT_CHARGE_ACCOUNTING_POLICY_VERSION,
          pr_amount = intOf (gi_amount input)\<rparr>\<rparr>"
  by (auto simp: planPointCharge_def)

definition sameCharge :: "runtime \<Rightarrow> PointChargeInput \<Rightarrow> stored_command \<Rightarrow> bool" where
  "sameCharge rt input c \<longleftrightarrow> sc_flowKind c = POINT_CHARGE \<and> sc_kind c = CHARGE \<and>
     sc_principalId c = gi_actorId input \<and> sc_payloadHash c = hashPointCharge rt input \<and>
     sc_subjectNamespace c = POINT_CHARGE_PAYMENT_NAMESPACE \<and> sc_subjectKey c = gi_externalPaymentId input"

lemma assertPointChargeIdentity_eq_Inr:
  "assertPointChargeIdentity c (planPointChargeCommand input) (hashPointCharge rt input) = Inr u \<longleftrightarrow>
     sameCharge rt input c \<and> completedCommand c"
  by (auto simp: assertPointChargeIdentity_def planPointChargeCommand_def sameCharge_def completedCommand_def)

text \<open>The command an input is answered from: by its key, else by its payment.\<close>

definition answering :: "PointChargeInput \<Rightarrow> db \<Rightarrow> stored_command option" where
  "answering input s = (case findCommand (gi_actorId input) CHARGE (gi_commandKey input) s of
      Some c \<Rightarrow> Some c
    | None \<Rightarrow> findCompletedCommandBySubject POINT_CHARGE POINT_CHARGE_PAYMENT_NAMESPACE
        (gi_externalPaymentId input) CHARGE s)"

lemma executePointCharge_answering:
  "executePointCharge rt eng input h s = (case answering input s of
      None \<Rightarrow> performCharge rt eng input h s
    | Some c \<Rightarrow> (case assertPointChargeIdentity c (planPointChargeCommand input) (hashPointCharge rt input) of
        Inl e \<Rightarrow> Inl e
      | Inr u \<Rightarrow> readT (loadCharge (storedCharge c) True) s))"
  by (auto simp: executePointCharge_def answering_def planPointChargeStart_def planPointChargeCommand_def
      bindT_def readT_def liftT_def rbind_def Let_def split: option.splits sum.splits)

lemma executePointCharge_cases:
  assumes "executePointCharge rt eng input h s = Inr (r, s')"
  obtains (Stored) c where "answering input s = Some c" "sameCharge rt input c" "completedCommand c"
      "loadCharge (storedCharge c) True s = Inr r" "s' = s"
    | (New) "answering input s = None" "performCharge rt eng input h s = Inr (r, s')"
  using assms
  by (auto simp: executePointCharge_answering assertPointChargeIdentity_eq_Inr readT_eq_Inr
      split: option.splits sum.splits)

lemma loadCharge_replayed: "loadCharge i b s = Inr r \<Longrightarrow> go_replayed r = b"
  by (auto simp: loadCharge_def rbind_eq_Inr)

section \<open>A charge that is carried out\<close>

definition chargedLot :: "int \<Rightarrow> string \<Rightarrow> string \<Rightarrow> int \<Rightarrow> int \<Rightarrow> instant \<Rightarrow> lot_row" where
  "chargedLot accountId flowId operationId amount i t = \<lparr>l_id = i,
     l_accountId = accountId, l_currency = ''POINT'', l_sourceKind = ''PAID'',
     l_sourceOperationId = Some operationId, l_sourceSwapActionId = None, l_sourceFlowId = Some flowId,
     l_sourceFlowKind = Some POINT_CHARGE, l_sourceOperationKind = Some CHARGE,
     l_issuanceReason = Some ''PURCHASE'', l_accountingCategory = Some ''CUSTOMER_ADVANCE'',
     l_accountingPolicyVersion = Some POINT_CHARGE_ACCOUNTING_POLICY_VERSION,
     l_originalAmount = amount, l_remainingAmount = amount, l_createdAt = t\<rparr>"

lemma performChargeE:
  assumes perf: "performCharge rt eng input h s = Inr (r, s')" and fresh: "engine_fresh eng"
  obtains account fi ci ct oi li lt where
    "accountOf h ''POINT'' ''AVAILABLE'' s = Some account"
    "isSafeInteger (gi_amount input)" "0 < intOf (gi_amount input)"
    "oi \<notin> oper_id ` set (financialOperations s)" "oi \<noteq> []" "li \<notin> l_id ` set (financialLots s)"
    "financialCommandRuns s' = financialCommandRuns s @
       [commandOf (requestFor fi (planPointChargeCommand input) (hashPointCharge rt input)) ci ct (Some oi)]"
    "financialOperations s' = financialOperations s @
       [\<lparr>oper_id = oi, oper_flowId = fi, oper_kind = CHARGE, oper_commandId = ci\<rparr>]"
    "financialLots s' = financialLots s @ [chargedLot (a_id account) fi oi (intOf (gi_amount input)) li lt]"
    "financialTransfers s' = financialTransfers s"
    "financialTransferAllocations s' = financialTransferAllocations s"
    "financialReservations s' = financialReservations s" "fi \<noteq> []"
    "financialHolders s' = financialHolders s" "financialAccounts s' = financialAccounts s"
    "loadCharge \<lparr>cgi_operationDbId = oi, cgi_referenceId = formatTransactionReference POINT_CHARGE fi,
       cgi_commandId = formatCommandId CHARGE ci, cgi_operationId = formatOperationId CHARGE oi\<rparr> False s' = Inr r"
    "\<exists>policies. s' = s\<lparr>transactionFlows := transactionFlows s @ [\<lparr>fl_id = fi, fl_kind = POINT_CHARGE\<rparr>],
       flowCommandPolicies := policies, financialCommandRuns := financialCommandRuns s',
       financialOperations := financialOperations s', financialLots := financialLots s'\<rparr>"
proof -
  from perf obtain account plan where
    acc: "accountOf h ''POINT'' ''AVAILABLE'' s = Some account" and
    plan: "planPointCharge \<lparr>gw_holderId = h, gw_availableAccountId = a_id account\<rparr> input = Inr plan"
    by (auto simp: performCharge_def bindT_eq_Inr readT_eq_Inr liftT_eq_Inr loadPointChargeWorld_def
        split: option.splits)
  from plan have pk: "gp_flowKind plan = POINT_CHARGE" "gp_allowedCommands plan = [CHARGE]"
    "gp_commandRequest plan = planPointChargeCommand input" "gp_operationKind plan = CHARGE"
    "gp_lotRequest plan = \<lparr>pr_accountId = a_id account, pr_currency = ''POINT'',
          pr_sourceKind = ''PAID'', pr_issuanceReason = ''PURCHASE'',
          pr_accountingCategory = ''CUSTOMER_ADVANCE'',
          pr_accountingPolicyVersion = POINT_CHARGE_ACCOUNTING_POLICY_VERSION,
          pr_amount = intOf (gi_amount input)\<rparr>"
    and amount: "isSafeInteger (gi_amount input)" "0 < intOf (gi_amount input)"
    by (simp_all add: planPointCharge_eq_Inr)
  from perf acc plan obtain flow u0 cmd u1 oper u2 lot u3 u4 where
    cf: "createFlow eng POINT_CHARGE [CHARGE] s = Inr (flow, u0)" and
    st: "startCommand eng (requestFor (fl_id flow) (planPointChargeCommand input) (hashPointCharge rt input)) u0
      = Inr (cmd, u1)" and
    cop: "createOperation eng (fl_id flow) CHARGE (cm_id cmd) u1 = Inr (oper, u2)" and
    il: "applyPointChargeLot eng (fl_id flow) (oper_id oper) (gp_lotRequest plan) u2 = Inr (lot, u3)" and
    cc: "completeCommand (cm_id cmd) (oper_id oper) u3 = Inr ((), u4)" and
    ac: "assertCommandEffectCompleteness eng u4 = Inr ((), s')" and
    out: "loadCharge \<lparr>cgi_operationDbId = oper_id oper,
       cgi_referenceId = formatTransactionReference (fl_kind flow) (fl_id flow),
       cgi_commandId = formatCommandId (cm_kind cmd) (cm_id cmd),
       cgi_operationId = formatOperationId (oper_kind oper) (oper_id oper)\<rparr> False s' = Inr r"
    by (auto simp: performCharge_def bindT_eq_Inr readT_eq_Inr liftT_eq_Inr loadPointChargeWorld_def pk)
  define fi where "fi = fl_id flow"
  define req where "req = requestFor fi (planPointChargeCommand input) (hashPointCharge rt input)"
  from cf have flow: "fl_kind flow = POINT_CHARGE" and u0: "financialCommandRuns u0 = financialCommandRuns s"
    "financialOperations u0 = financialOperations s" "financialLots u0 = financialLots s"
    "financialTransfers u0 = financialTransfers s" "financialTransferAllocations u0 = financialTransferAllocations s"
    "financialReservations u0 = financialReservations s" "financialHolders u0 = financialHolders s"
    "financialAccounts u0 = financialAccounts s"
    by (simp_all add: createFlow_eq_Inr)
  define ci where "ci = e_uuid eng ''FinancialCommandRun'' u0"
  define ct where "ct = e_now eng u0"
  from st have cmd: "cmd = commandOf req ci ct None" and u1: "u1 = u0\<lparr>financialCommandRuns :=
      financialCommandRuns u0 @ [commandOf req ci ct None]\<rparr>"
    by (simp_all add: startCommand_eq_Inr ci_def ct_def req_def fi_def)
  define oi where "oi = e_uuid eng ''FinancialOperation'' u1"
  from cop have oper: "oper = \<lparr>oper_id = oi, oper_flowId = fi, oper_kind = CHARGE, oper_commandId = ci\<rparr>"
    and u2: "u2 = u1\<lparr>financialOperations := financialOperations u1 @ [oper]\<rparr>"
    by (simp_all add: createOperation_eq_Inr oi_def fi_def cmd)
  define li where "li = e_nextId eng ''FinancialLot'' u2"
  define lt where "lt = e_now eng u2"
  from il have u3: "u3 = u2\<lparr>financialLots := financialLots u2 @
      [chargedLot (a_id account) fi oi (intOf (gi_amount input)) li lt]\<rparr>"
    by (auto simp: applyPointChargeLot_def insertLot_def pk oper fi_def chargedLot_def li_def lt_def Let_def)
  have fr: "ci \<notin> cm_id ` set (financialCommandRuns u0)" "oi \<notin> oper_id ` set (financialOperations u1)" "oi \<noteq> []"
    "li \<notin> l_id ` set (financialLots u2)"
    unfolding ci_def oi_def li_def using fresh unfolding engine_fresh_def by blast+
  have "fi = e_uuid eng ''TransactionFlow'' s" using cf by (simp add: createFlow_eq_Inr fi_def)
  then have fi: "fi \<noteq> []" using fresh unfolding engine_fresh_def by simp
  have runs: "updateWhere (\<lambda>x. cm_id x = ci) (\<lambda>x. x\<lparr>cm_resultOperationId := Some oi\<rparr>)
      (financialCommandRuns s @ [commandOf req ci ct None]) = financialCommandRuns s @ [commandOf req ci ct (Some oi)]"
  proof -
    have "updateWhere (\<lambda>x. cm_id x = ci) (\<lambda>x. x\<lparr>cm_resultOperationId := Some oi\<rparr>) (financialCommandRuns s) =
        financialCommandRuns s"
      by (rule updateWhere_id) (use fr(1) in \<open>auto simp: u0\<close>)
    then show ?thesis by (simp add: updateWhere_append) (simp add: updateWhere_def)
  qed
  from cc have u4: "u4 = u3\<lparr>financialCommandRuns := financialCommandRuns s @ [commandOf req ci ct (Some oi)]\<rparr>"
    by (simp add: completeCommand_eq_Inr cmd oper u3 u2 u1 u0 runs)
  from ac have s': "s' = u4" by (simp add: assertCommandEffectCompleteness_eq_Inr)
  obtain policies where "u0 = s\<lparr>transactionFlows := transactionFlows s @ [\<lparr>fl_id = fi, fl_kind = POINT_CHARGE\<rparr>],
       flowCommandPolicies := policies\<rparr>"
    using cf by (auto simp: createFlow_eq_Inr fi_def)
  then have "s' = s\<lparr>transactionFlows := transactionFlows s @ [\<lparr>fl_id = fi, fl_kind = POINT_CHARGE\<rparr>],
       flowCommandPolicies := policies, financialCommandRuns := financialCommandRuns s',
       financialOperations := financialOperations s', financialLots := financialLots s'\<rparr>"
    by (intro db.equality) (simp_all add: s' u4 u3 u2 u1)
  then have whole: "\<exists>policies. s' = s\<lparr>transactionFlows := transactionFlows s @ [\<lparr>fl_id = fi, fl_kind = POINT_CHARGE\<rparr>],
       flowCommandPolicies := policies, financialCommandRuns := financialCommandRuns s',
       financialOperations := financialOperations s', financialLots := financialLots s'\<rparr>" by (rule exI)
  show thesis
  proof (rule that [OF acc amount, of oi li fi ci ct lt])
    show "\<exists>policies. s' = s\<lparr>transactionFlows := transactionFlows s @ [\<lparr>fl_id = fi, fl_kind = POINT_CHARGE\<rparr>],
       flowCommandPolicies := policies, financialCommandRuns := financialCommandRuns s',
       financialOperations := financialOperations s', financialLots := financialLots s'\<rparr>" by (rule whole)
  qed (use fr fi out in \<open>simp_all add: s' u4 u3 u2 u1 u0 req_def oper cmd flow fi_def [symmetric] planPointChargeCommand_def\<close>)
qed

lemma chargePoints_success:
  assumes "session_frame (e_session eng)" "chargePoints rt eng input s0 s = Inr (r, s')"
  shows "\<exists>h. findHolderId ''user'' (showInt (gi_actorId input)) s0 = Inr h \<and> executePointCharge rt eng input h s = Inr (r, s')"
proof -
  from assms(2) obtain h keys where h: "findHolderId ''user'' (showInt (gi_actorId input)) s0 = Inr h"
    "serialized (e_session eng) keys (executePointCharge rt eng input h) False s = Inr (r, s')"
    by (auto simp: chargePoints_def tx_simps)
  from serialized_success [OF assms(1) h(2)] h(1) show ?thesis by blast
qed

lemma charged_books:
  assumes fin: "fin_ok s" and lots: "financialLots s' = financialLots s @ [chargedLot a f op n i t]"
    and keep: "financialTransfers s' = financialTransfers s"
      "financialTransferAllocations s' = financialTransferAllocations s"
    and new: "i \<notin> l_id ` set (financialLots s)" "0 < n"
  shows "fin_ok s'"
proof -
  have "books_ok (financialLots s @ [chargedLot a f op n i t]) (financialTransfers s) (financialTransferAllocations s)"
    by (rule books_issue) (use fin new in \<open>simp_all add: fin_ok_def chargedLot_def\<close>)
  then show ?thesis by (simp add: fin_ok_def lots keep)
qed

text \<open>C14: a charge that was not answered from an earlier one credits the point account of the
  caller with exactly the amount and no other account, in one new lot that names the flow and
  the operation it came from; the answer names that lot and that amount, and the books balance.
\<close>

theorem charge_issues_exactly_the_amount:
  assumes frame: "session_frame (e_session eng)" and fresh: "engine_fresh eng" and fin: "fin_ok s"
    and ok: "chargePoints rt eng input s0 s = Inr (r, s')" and new: "\<not> go_replayed r" and u: "unique_ok s'"
  shows "fin_ok s' \<and> go_amount r = intOf (gi_amount input) \<and> 0 < go_amount r \<and>
    (\<exists>h account fi oi lt. findHolderId ''user'' (showInt (gi_actorId input)) s0 = Inr h \<and>
      accountOf h ''POINT'' ''AVAILABLE'' s = Some account \<and>
      financialLots s' = financialLots s @ [chargedLot (a_id account) fi oi (go_amount r) (go_lotId r) lt] \<and>
      go_referenceId r = formatTransactionReference POINT_CHARGE fi \<and>
      go_operationId r = formatOperationId CHARGE oi \<and>
      (\<forall>i. accountFunds i s' = accountFunds i s + (if i = a_id account then go_amount r else 0)))"
proof -
  from chargePoints_success [OF frame ok] obtain h where
    h: "findHolderId ''user'' (showInt (gi_actorId input)) s0 = Inr h" and
    ex: "executePointCharge rt eng input h s = Inr (r, s')" by blast
  from ex new have perf: "performCharge rt eng input h s = Inr (r, s')"
    by (cases rule: executePointCharge_cases) (auto dest: loadCharge_replayed)
  obtain account fi ci ct oi li lt where
    acc: "accountOf h ''POINT'' ''AVAILABLE'' s = Some account" and pos: "0 < intOf (gi_amount input)" and
    li: "li \<notin> l_id ` set (financialLots s)" and
    lots: "financialLots s' = financialLots s @ [chargedLot (a_id account) fi oi (intOf (gi_amount input)) li lt]" and
    keep: "financialTransfers s' = financialTransfers s"
      "financialTransferAllocations s' = financialTransferAllocations s" and
    out: "loadCharge \<lparr>cgi_operationDbId = oi, cgi_referenceId = formatTransactionReference POINT_CHARGE fi,
       cgi_commandId = formatCommandId CHARGE ci, cgi_operationId = formatOperationId CHARGE oi\<rparr> False s' = Inr r"
    by (rule performChargeE [OF perf fresh]) (rule that, assumption+)
  have "findRow (\<lambda>l. l_sourceOperationId l = Some oi) (financialLots s') =
      Some (chargedLot (a_id account) fi oi (intOf (gi_amount input)) li lt)"
    unfolding lots
    by (rule findRow_appended_option [where k = l_sourceOperationId])
      (use u in \<open>auto simp: unique_ok_def lots chargedLot_def\<close>)
  with out have r: "go_lotId r = li" "go_amount r = intOf (gi_amount input)"
    "go_referenceId r = formatTransactionReference POINT_CHARGE fi" "go_operationId r = formatOperationId CHARGE oi"
    by (auto simp: loadCharge_def loadPointChargeLedgerResult_def rbind_eq_Inr chargedLot_def)
  have "fin_ok s'" by (rule charged_books [OF fin lots keep li pos])
  moreover have "accountFunds i s' = accountFunds i s + (if i = a_id account then go_amount r else 0)" for i
    using accountFunds_issued [OF lots, of i] by (simp add: r chargedLot_def)
  ultimately show ?thesis using h acc pos lots by (simp add: r) blast
qed


section \<open>Idempotence\<close>

definition markCharged :: "PointChargeResult \<Rightarrow> PointChargeResult" where
  "markCharged r = r\<lparr>go_replayed := True\<rparr>"

lemma loadCharge_mark: "loadCharge i b s = Inr r \<Longrightarrow> loadCharge i True s = Inr (markCharged r)"
  by (auto simp: loadCharge_def rbind_eq_Inr markCharged_def)

lemma charge_of_stored:
  "answering input s = Some c \<Longrightarrow> sameCharge rt input c \<Longrightarrow> completedCommand c \<Longrightarrow>
     loadCharge (storedCharge c) True s = Inr r \<Longrightarrow> executePointCharge rt eng input h s = Inr (r, s)"
  by (simp add: executePointCharge_answering readT_def
      assertPointChargeIdentity_eq_Inr [of c input rt "()", THEN iffD2])

lemma executePointCharge_retry:
  assumes ok: "executePointCharge rt eng input h s = Inr (r, s')" and fresh: "engine_fresh eng"
  shows "executePointCharge rt eng input h' s' = Inr (markCharged r, s')"
  using ok
proof (cases rule: executePointCharge_cases)
  case (Stored c)
  from loadCharge_replayed [OF Stored(4)] have "markCharged r = r" by (simp add: markCharged_def)
  with Stored show ?thesis by (simp add: charge_of_stored)
next
  case New
  obtain fi ci ct oi where
    ids: "oi \<notin> oper_id ` set (financialOperations s)" "oi \<noteq> []" and
    runs: "financialCommandRuns s' = financialCommandRuns s @
       [commandOf (requestFor fi (planPointChargeCommand input) (hashPointCharge rt input)) ci ct (Some oi)]" and
    ops: "financialOperations s' = financialOperations s @
       [\<lparr>oper_id = oi, oper_flowId = fi, oper_kind = CHARGE, oper_commandId = ci\<rparr>]" and
    out: "loadCharge \<lparr>cgi_operationDbId = oi, cgi_referenceId = formatTransactionReference POINT_CHARGE fi,
       cgi_commandId = formatCommandId CHARGE ci, cgi_operationId = formatOperationId CHARGE oi\<rparr> False s' = Inr r"
    by (rule performChargeE [OF New(2) fresh]) (rule that, assumption+)
  let ?c = "commandOf (requestFor fi (planPointChargeCommand input) (hashPointCharge rt input)) ci ct (Some oi)"
  from New(1) have none: "findCommand (gi_actorId input) CHARGE (gi_commandKey input) s = None"
    by (simp add: answering_def split: option.splits)
  have "findCommand (gi_actorId input) CHARGE (gi_commandKey input) s' = Some (mapStoredCommand s' ?c)"
    by (rule findCommand_appended [OF none runs]) (simp add: commandKeyIs_def planPointChargeCommand_def)
  then have ans: "answering input s' = Some (mapStoredCommand s' ?c)" by (simp add: answering_def)
  have res: "resultOperation s' ?c = Some \<lparr>oper_id = oi, oper_flowId = fi, oper_kind = CHARGE, oper_commandId = ci\<rparr>"
    by (rule new_result [OF ops _ ids(1)]) (simp add: planPointChargeCommand_def)
  have "completedCommand (mapStoredCommand s' ?c)" by (simp add: completedCommand_def res ids(2))
  moreover have "sameCharge rt input (mapStoredCommand s' ?c)"
    by (simp add: sameCharge_def planPointChargeCommand_def)
  moreover have "storedCharge (mapStoredCommand s' ?c) = \<lparr>cgi_operationDbId = oi,
       cgi_referenceId = formatTransactionReference POINT_CHARGE fi,
       cgi_commandId = formatCommandId CHARGE ci, cgi_operationId = formatOperationId CHARGE oi\<rparr>"
    unfolding storedCharge_def mapStoredCommand_simps res by (simp add: planPointChargeCommand_def)
  ultimately show ?thesis using loadCharge_mark [OF out] by (intro charge_of_stored [OF ans]) simp_all
qed

interpretation pointCharge: idempotent_request "executePointCharge rt eng" "\<lambda>_. engine_fresh eng" "\<lambda>_ _. True"
  markCharged for rt eng
  by unfold_locales (assumption, erule (1) executePointCharge_retry, simp add: markCharged_def)

text \<open>deliveries of one charge request, any number of times, issue points once: every later
  one answers the same result, marked as replayed, and changes nothing.
\<close>

theorem charge_delivered_again:
  assumes "engine_fresh eng" "executePointCharge rt eng input h s = Inr (r, s')"
  shows "redeliver (executePointCharge rt eng input) (h # hs) s =
    (Inr r # replicate (length hs) (Inr (r\<lparr>go_replayed := True\<rparr>)), s')"
  using pointCharge.redeliver_all [OF assms(2,1) TrueI] by (simp add: markCharged_def)

section \<open>One external payment, one charge\<close>

lemma head_exists: "0 < length xs \<Longrightarrow> (case xs of [] \<Rightarrow> None | x # ys \<Rightarrow> Some (f x)) \<noteq> None"
  by (cases xs) simp_all

lemma completed_by_subject:
  assumes "c \<in> set (financialCommandRuns s)" "cm_subjectNamespace c = n" "cm_subjectKey c = k"
    "cm_flowKind c = f" "cm_kind c = q" "cm_resultOperationId c \<noteq> None"
  shows "findCompletedCommandBySubject f n k q s \<noteq> None"
proof -
  let ?found = "filter (\<lambda>c. cm_subjectNamespace c = n \<and> cm_subjectKey c = k \<and>
      cm_flowKind c = f \<and> cm_kind c = q \<and> cm_resultOperationId c \<noteq> None) (financialCommandRuns s)"
  have "c \<in> set ?found" using assms by simp
  then have "0 < length (sort_key cm_createdAt ?found)" unfolding length_sort by (rule length_pos_if_in_set)
  then show ?thesis
    unfolding findCompletedCommandBySubject_def by (rule head_exists)
qed

lemma charged_payment_found:
  assumes ok: "executePointCharge rt eng input h s = Inr (r, s')" and fresh: "engine_fresh eng"
  shows "findCompletedCommandBySubject POINT_CHARGE POINT_CHARGE_PAYMENT_NAMESPACE
    (gi_externalPaymentId input) CHARGE s' \<noteq> None"
  using ok
proof (cases rule: executePointCharge_cases)
  case (Stored c)
  show ?thesis
  proof (cases "findCommand (gi_actorId input) CHARGE (gi_commandKey input) s")
    case None
    with Stored show ?thesis by (simp add: answering_def)
  next
    case (Some c')
    with Stored have c: "findCommand (gi_actorId input) CHARGE (gi_commandKey input) s = Some c"
      by (simp add: answering_def)
    from findCommand_Some [OF this] obtain d where d: "d \<in> set (financialCommandRuns s)" "c = mapStoredCommand s d"
      by blast
    have "cm_resultOperationId d \<noteq> None"
      using Stored(3) by (auto simp: completedCommand_def d resultOperation_def split: option.splits)
    with Stored(2) show ?thesis
      unfolding \<open>s' = s\<close> by (intro completed_by_subject [OF d(1)]) (simp_all add: sameCharge_def d)
  qed
next
  case New
  obtain fi ci ct oi where
    runs: "financialCommandRuns s' = financialCommandRuns s @
       [commandOf (requestFor fi (planPointChargeCommand input) (hashPointCharge rt input)) ci ct (Some oi)]"
    by (rule performChargeE [OF New(2) fresh]) (rule that, assumption+)
  let ?c = "commandOf (requestFor fi (planPointChargeCommand input) (hashPointCharge rt input)) ci ct (Some oi)"
  have "?c \<in> set (financialCommandRuns s')" by (simp add: runs)
  then show ?thesis by (rule completed_by_subject) (simp_all add: planPointChargeCommand_def)
qed

text \<open>C15: an external payment is turned into points once: after a charge that succeeded, no
  request for the same payment, by any caller, under any key and for any amount, changes the
  database: it is answered from the stored charge or refused with the charge's state error
  (or, where the stored lot cannot be read, with the database's not-found error).
\<close>

theorem payment_is_charged_once:
  assumes frame: "session_frame (e_session eng)" and fresh: "engine_fresh eng"
    and ok: "chargePoints rt eng input s0 s = Inr (r, s')"
    and same: "gi_externalPaymentId input' = gi_externalPaymentId input"
  shows "stateAfter s' (executePointCharge rt eng input' h s') = s' \<and>
    (case executePointCharge rt eng input' h s' of
       Inr (r', _) \<Rightarrow> go_replayed r'
     | Inl e \<Rightarrow> e = noRowFound \<or> e = PointChargeStateError ''Point charge command identity mismatch'' \<or>
         e = PointChargeStateError ''Point charge command has no completed operation'')"
proof -
  from chargePoints_success [OF frame ok] obtain h0 where "executePointCharge rt eng input h0 s = Inr (r, s')" by blast
  from charged_payment_found [OF this fresh] same have "answering input' s' \<noteq> None"
    by (auto simp: answering_def split: option.splits)
  then obtain c where c: "answering input' s' = Some c" by blast
  show ?thesis
  proof (cases "assertPointChargeIdentity c (planPointChargeCommand input') (hashPointCharge rt input')")
    case (Inl e)
    then have "e = PointChargeStateError ''Point charge command identity mismatch'' \<or>
         e = PointChargeStateError ''Point charge command has no completed operation''"
      by (simp add: assertPointChargeIdentity_def split: if_splits)
    with Inl c show ?thesis by (auto simp: executePointCharge_answering)
  next
    case (Inr u)
    show ?thesis
    proof (cases "loadCharge (storedCharge c) True s'")
      case (Inl e)
      then have "e = noRowFound"
        by (auto simp: loadCharge_def rbind_eq_Inl loadPointChargeLedgerResult_def orThrow_def split: option.splits)
      with Inl Inr c show ?thesis by (simp add: executePointCharge_answering readT_def)
    next
      case (Inr r')
      with \<open>assertPointChargeIdentity c _ _ = Inr u\<close> c loadCharge_replayed [OF Inr] show ?thesis
        by (simp add: executePointCharge_answering readT_def)
    qed
  qed
qed

section \<open>A sample account, charged\<close>

definition sampleWallet :: db where
  "sampleWallet = emptyDb\<lparr>
     financialHolders := [\<lparr>h_id = 10, h_namespace = ''user'', h_key = showInt 1\<rparr>],
     financialAccounts := [
       \<lparr>a_id = 20, a_currency = ''POINT'', a_purpose = ''AVAILABLE'', a_holderId = Some 10, a_reservationId = None\<rparr>]\<rparr>"

definition sampleCharge :: PointChargeInput where
  "sampleCharge = \<lparr>gi_actorId = 1, gi_amount = JInt 500, gi_externalPaymentId = ''pay'', gi_commandKey = ''k''\<rparr>"

lemma sampleWallet_ok: "fin_ok sampleWallet"
  by code_simp

lemma sample_charge:
  "case executePointCharge refRuntime refEngine sampleCharge 10 sampleWallet of
     Inr (r, s') \<Rightarrow> \<not> go_replayed r \<and> go_amount r = 500 \<and> accountFunds 20 s' = 500 \<and> unique_ok s'
   | Inl e \<Rightarrow> False"
  by code_simp

lemma sample_charge_run:
  obtains r s' where "chargePoints refRuntime refEngine sampleCharge sampleWallet sampleWallet = Inr (r, s')"
    "executePointCharge refRuntime refEngine sampleCharge 10 sampleWallet = Inr (r, s')"
    "\<not> go_replayed r" "go_amount r = 500" "accountFunds 20 s' = 500" "unique_ok s'"
proof -
  from sample_charge obtain r s' where
    run: "executePointCharge refRuntime refEngine sampleCharge 10 sampleWallet = Inr (r, s')"
    and facts: "\<not> go_replayed r" "go_amount r = 500" "accountFunds 20 s' = 500" "unique_ok s'"
    by (auto split: sum.splits)
  have h: "findHolderId ''user'' (showInt 1) sampleWallet = Inr 10" by code_simp
  have q: "session_quiet (e_session refEngine)" by simp
  have "chargePoints refRuntime refEngine sampleCharge sampleWallet sampleWallet = Inr (r, s')"
    using serialized_quiet [where body = "executePointCharge refRuntime refEngine sampleCharge 10", OF q run] h
    by (simp add: chargePoints_def bindT_def liftT_def sampleCharge_def)
  from this run facts show thesis by (rule that)
qed

theorem charge_issues_exactly_the_amount_witness:
  "\<exists>r s'. chargePoints refRuntime refEngine sampleCharge sampleWallet sampleWallet = Inr (r, s') \<and>
     fin_ok s' \<and> go_amount r = 500"
proof -
  obtain r s' where run: "chargePoints refRuntime refEngine sampleCharge sampleWallet sampleWallet = Inr (r, s')"
    and new: "\<not> go_replayed r" and u: "unique_ok s'"
    by (rule sample_charge_run)
  have "session_frame (e_session refEngine)" by simp
  from charge_issues_exactly_the_amount [OF this refEngine_fresh sampleWallet_ok run new u] run
  show ?thesis by (auto simp: sampleCharge_def)
qed

theorem charge_delivered_again_witness:
  "\<exists>r s'. redeliver (executePointCharge refRuntime refEngine sampleCharge) [10, 10, 10] sampleWallet =
     ([Inr r, Inr (r\<lparr>go_replayed := True\<rparr>), Inr (r\<lparr>go_replayed := True\<rparr>)], s') \<and> accountFunds 20 s' = 500"
proof -
  obtain r s' where run: "executePointCharge refRuntime refEngine sampleCharge 10 sampleWallet = Inr (r, s')"
    and left: "accountFunds 20 s' = 500"
    by (rule sample_charge_run)
  from charge_delivered_again [OF refEngine_fresh run, of "[10, 10]"] left
  show ?thesis by (auto simp: numeral_2_eq_2)
qed

theorem payment_is_charged_once_witness:
  "\<exists>s'. accountFunds 20 s' = 500 \<and>
     stateAfter s' (executePointCharge refRuntime refEngine (sampleCharge\<lparr>gi_actorId := 7, gi_commandKey := ''z''\<rparr>) 10 s') = s'"
proof -
  obtain r s' where run: "chargePoints refRuntime refEngine sampleCharge sampleWallet sampleWallet = Inr (r, s')"
    and left: "accountFunds 20 s' = 500"
    by (rule sample_charge_run)
  have "session_frame (e_session refEngine)" by simp
  from payment_is_charged_once [OF this refEngine_fresh run,
      of "sampleCharge\<lparr>gi_actorId := 7, gi_commandKey := ''z''\<rparr>"] left
  show ?thesis by auto
qed

end
