(* ===== verification/MoneySystem.thy ===== *)
theory MoneySystem
  imports MoneyTrail PointChargeLaws
begin

text \<open>
  The four money use cases together: points are charged, pay for commissions, are settled into
  income and are withdrawn, in any order and any number of times. The state is the database;
  a step is one successful request, in its transaction; a failed one leaves no trace.
\<close>

section \<open>The money of the ledger\<close>

definition issuedIn :: "string \<Rightarrow> db \<Rightarrow> int" where
  "issuedIn c s = (\<Sum>l\<leftarrow>filter (\<lambda>l. l_currency l = c) (financialLots s). l_originalAmount l)"

definition leftIn :: "string \<Rightarrow> db \<Rightarrow> int" where
  "leftIn c s = (\<Sum>l\<leftarrow>filter (\<lambda>l. l_currency l = c) (financialLots s). l_remainingAmount l)"

definition isReserved :: "string \<Rightarrow> string \<Rightarrow> reservation_row \<Rightarrow> bool" where
  "isReserved c st r \<longleftrightarrow> r_currency r = c \<and> r_state r = st"

definition reservedIn :: "string \<Rightarrow> string \<Rightarrow> db \<Rightarrow> int" where
  "reservedIn c st s = (\<Sum>r\<leftarrow>financialReservations s. if isReserved c st r then r_targetAmount r else 0)"

text \<open>
  The balance of the ledger: every point that was issued is still there, held for a
  commission or settled; every unit of income is still there or held for a withdrawal; and
  income was issued exactly for the points that were settled.
\<close>

definition money_ok :: "db \<Rightarrow> bool" where
  "money_ok s \<longleftrightarrow> fin_ok s \<and>
     issuedIn ''POINT'' s = leftIn ''POINT'' s + reservedIn ''POINT'' ''HELD'' s + reservedIn ''POINT'' ''SETTLED'' s \<and>
     issuedIn ''INCOME'' s = leftIn ''INCOME'' s + reservedIn ''INCOME'' ''HELD'' s \<and>
     issuedIn ''INCOME'' s = reservedIn ''POINT'' ''SETTLED'' s"

lemma money_frame:
  assumes "financialLots s' = financialLots s" and "financialReservations s' = financialReservations s"
  shows "issuedIn c s' = issuedIn c s" and "leftIn c s' = leftIn c s" and "reservedIn c st s' = reservedIn c st s"
  using assms by (simp_all add: issuedIn_def leftIn_def reservedIn_def)

lemma money_issued:
  assumes "financialLots s' = financialLots s @ [l]"
  shows "issuedIn c s' = issuedIn c s + (if c = l_currency l then l_originalAmount l else 0)"
    and "leftIn c s' = leftIn c s + (if c = l_currency l then l_remainingAmount l else 0)"
  by (simp_all add: issuedIn_def leftIn_def assms)

lemma money_drawn:
  assumes lots: "financialLots s' = map (\<lambda>l. lessLot (drawnFrom (l_id l) as) l) (financialLots s)"
    and fin: "fin_ok s" and own: "\<forall>a \<in> set as. \<exists>l \<in> set (financialLots s). l_id l = fa_lotId a \<and> l_currency l = cur"
  shows "issuedIn c s' = issuedIn c s"
    and "leftIn c s' = leftIn c s - (if c = cur then \<Sum>a\<leftarrow>as. fa_amount a else 0)"
proof -
  show "issuedIn c s' = issuedIn c s" by (simp add: issuedIn_def lots filter_map comp_def)
  show "leftIn c s' = leftIn c s - (if c = cur then \<Sum>a\<leftarrow>as. fa_amount a else 0)"
    unfolding leftIn_def lots by (rule kind_drawn [OF _ own]) (use fin in \<open>simp_all add: fin_ok_def books_ok_def\<close>)
qed

lemma money_reserved:
  assumes "financialReservations s' = financialReservations s @ [reservationOf req i]"
  shows "reservedIn c st s' = reservedIn c st s + (if c = rr_currency req \<and> st = ''HELD'' then rr_amount req else 0)"
  by (auto simp: reservedIn_def assms isReserved_def reservationOf_def)

lemma sum_updateWhere_one:
  fixes f :: "'r \<Rightarrow> int"
  assumes "countWhere p rows = 1" and "v \<in> set rows" and "p v"
  shows "(\<Sum>r\<leftarrow>updateWhere p g rows. f r) = (\<Sum>r\<leftarrow>rows. f r) - f v + f (g v)"
  using assms
proof (induction rows)
  case (Cons r rows)
  show ?case
  proof (cases "p r")
    case True
    with Cons.prems(1) have none: "\<And>x. x \<in> set rows \<Longrightarrow> \<not> p x" by (auto simp: countWhere_def filter_empty_conv)
    with Cons.prems have "v = r" by auto
    moreover have "updateWhere p g rows = rows" using none by (rule updateWhere_id)
    ultimately show ?thesis using True by (simp add: updateWhere_def)
  next
    case False
    with Cons.prems have "v \<in> set rows" "countWhere p rows = 1" by (auto simp: countWhere_def)
    with Cons.IH Cons.prems(3) False show ?thesis by (simp add: updateWhere_def)
  qed
qed simp

section \<open>The steps\<close>

text \<open>
  One request that succeeded, with the points it issued. The reads before a transaction may see
  older databases (\<open>s0\<close>, \<open>s1\<close>) than the one it runs on.
\<close>

inductive money_step :: "runtime \<Rightarrow> engine \<Rightarrow> db \<Rightarrow> int \<Rightarrow> db \<Rightarrow> bool" for rt eng where
  Charged: "chargePoints rt eng ci s0 s = Inr (rc, s') \<Longrightarrow>
    money_step rt eng s (if go_replayed rc then 0 else intOf (gi_amount ci)) s'"
| Paid: "complete rt eng pi s0 s1 s = Inr (rp, s') \<Longrightarrow> money_step rt eng s 0 s'"
| Settled: "settle rt eng si s0 s1 s = Inr (rs, s') \<Longrightarrow> money_step rt eng s 0 s'"
| Withdrawn: "requestWithdrawal rt eng wi s0 s = Inr (rw, s') \<Longrightarrow> money_step rt eng s 0 s'"

inductive money_run :: "runtime \<Rightarrow> engine \<Rightarrow> db \<Rightarrow> int \<Rightarrow> db \<Rightarrow> bool" for rt eng where
  Start: "money_run rt eng s 0 s"
| Then: "money_run rt eng s n s' \<Longrightarrow> money_step rt eng s' m s'' \<Longrightarrow> money_run rt eng s (n + m) s''"

lemma fin_ok_frame:
  assumes "financialLots s' = financialLots s" "financialTransfers s' = financialTransfers s"
    "financialTransferAllocations s' = financialTransferAllocations s"
  shows "fin_ok s' = fin_ok s"
  using assms by (simp add: fin_ok_def)

text \<open>An answer from an earlier request at most writes a command: the money is as before.\<close>

lemma money_same:
  assumes "money_ok s" and "s' = s\<lparr>financialCommandRuns := runs\<rparr>"
  shows "money_ok s' \<and> issuedIn ''POINT'' s' = issuedIn ''POINT'' s + 0"
  using assms money_frame [of s' s] by (simp add: money_ok_def)

lemma charge_step:
  assumes frame: "session_frame (e_session eng)" and fresh: "engine_fresh eng" and ok: "money_ok s"
    and run: "chargePoints rt eng input s0 s = Inr (r, s')"
  shows "money_ok s' \<and> issuedIn ''POINT'' s' = issuedIn ''POINT'' s + (if go_replayed r then 0 else intOf (gi_amount input))"
proof -
  from chargePoints_success [OF frame run] obtain h where ex: "executePointCharge rt eng input h s = Inr (r, s')" by blast
  from ex show ?thesis
  proof (cases rule: executePointCharge_cases)
    case (Stored c)
    with ok show ?thesis by (auto dest: loadCharge_replayed)
  next
    case New
    obtain account :: account_row and fi oi li lt gi where pos: "0 < intOf (gi_amount input)" and
      li: "li \<notin> l_id ` set (financialLots s)" and
      lots: "financialLots s' = financialLots s @ [chargedLot (a_id account) fi oi (intOf (gi_amount input)) li lt]" and
      keep: "financialTransfers s' = financialTransfers s"
        "financialTransferAllocations s' = financialTransferAllocations s" and
      res: "financialReservations s' = financialReservations s" and
      out: "loadCharge gi False s' = Inr r"
      by (rule performChargeE [OF New(2) fresh]) (rule that, assumption+)
    have "fin_ok s'" by (rule charged_books [OF _ lots keep li pos]) (use ok in \<open>simp add: money_ok_def\<close>)
    moreover have "\<not> go_replayed r" using out by (auto dest: loadCharge_replayed)
    moreover have "reservedIn c st s' = reservedIn c st s" for c st by (simp add: reservedIn_def res)
    ultimately show ?thesis
      using ok money_issued [OF lots] by (simp add: money_ok_def chargedLot_def)
  qed
qed

lemma checkout_lots:
  assumes load: "loadCommissionCheckoutPlan prepared s = Inr (plan, acct, as)"
  shows "\<forall>a \<in> set as. \<exists>l \<in> set (financialLots s). l_id l = fa_lotId a \<and> l_currency l = ''POINT''"
    and "(\<Sum>a\<leftarrow>as. fa_amount a) = rr_amount (cp_financialRequest plan)" and "rr_currency (cp_financialRequest plan) = ''POINT''"
proof -
  from loadCommissionCheckoutPlan_Inr [OF load] obtain order :: order_row and holderId and account :: account_row where
    account: "accountOf holderId ''POINT'' ''AVAILABLE'' s = Some account" and
    plan: "planReservation (map lotBalance (lotsOf account (\<lambda>l. 0 < l_remainingAmount l) s)) (JInt (o_amount order)) = Inr as"
    by (elim exE conjE) (rule that, assumption+)
  have "a_currency account = ''POINT''" using findRow_Some [OF account [unfolded accountOf_def]] by simp
  with planReservation_allocations(4) [OF plan]
  show "\<forall>a \<in> set as. \<exists>l \<in> set (financialLots s). l_id l = fa_lotId a \<and> l_currency l = ''POINT''"
    by (fastforce simp: lotBalance_def lotsOf_def)
  from loaded_plan [OF load] obtain w where "plan = checkoutPlan w (pc_input prepared)"
    and sum: "(\<Sum>a\<leftarrow>as. fa_amount a) = rr_amount (cp_financialRequest plan)" by blast
  then show "rr_currency (cp_financialRequest plan) = ''POINT''" by (simp add: checkoutPlan_def)
  show "(\<Sum>a\<leftarrow>as. fa_amount a) = rr_amount (cp_financialRequest plan)" by (rule sum)
qed

lemma checkout_step:
  assumes frame: "session_frame (e_session eng)" and fresh: "engine_fresh eng" and ok: "money_ok s"
    and run: "complete rt eng input s0 s1 s = Inr (r, s')"
  shows "money_ok s' \<and> issuedIn ''POINT'' s' = issuedIn ''POINT'' s + 0"
proof -
  from complete_success [OF frame run] obtain prepared where
    ex: "executeCommissionCheckout rt eng prepared s = Inr (r, s')" by blast
  from ex [unfolded execute_cases] consider
      (Answered) "replayCompletedCommissionCheckout rt eng prepared s = Inr (Some r, s')"
    | (New) t where "replayCompletedCommissionCheckout rt eng prepared s = Inr (None, t)"
        "performCommissionCheckout eng prepared t = Inr (r, s')" by blast
  then show ?thesis
  proof cases
    case Answered
    then have "\<exists>runs. s' = s\<lparr>financialCommandRuns := runs\<rparr>"
      by (cases rule: replay_cases) (auto intro: exI [of _ "financialCommandRuns s"])
    with money_same [OF ok] show ?thesis by blast
  next
    case New
    from New(1) have "t = s" by (cases rule: replay_cases) auto
    with New(2) have perf: "performCommissionCheckout eng prepared s = Inr (r, s')" by simp
    have fin: "fin_ok s" using ok by (simp add: money_ok_def)
    obtain plan acct as ri where load: "loadCommissionCheckoutPlan prepared s = Inr (plan, acct, as)" and fin': "fin_ok s'" and
      lots: "financialLots s' = map (\<lambda>l. lessLot (drawnFrom (l_id l) as) l) (financialLots s)" and
      res: "financialReservations s' = financialReservations s @ [reservationOf (cp_financialRequest plan) ri]"
      by (rule performE [OF perf fin fresh]) (rule that, assumption+)
    note c = checkout_lots [OF load]
    show ?thesis
      using ok fin' money_drawn [OF lots fin c(1)] money_reserved [OF res] by (simp add: money_ok_def c(2,3))
  qed
qed

lemma withdrawal_step:
  assumes frame: "session_frame (e_session eng)" and fresh: "engine_fresh eng" and ok: "money_ok s"
    and run: "requestWithdrawal rt eng input s0 s = Inr (r, s')"
  shows "money_ok s' \<and> issuedIn ''POINT'' s' = issuedIn ''POINT'' s + 0"
proof -
  from requestWithdrawal_success [OF frame run] obtain h where
    ex: "executeWithdrawal rt eng input h s = Inr (r, s')" by blast
  from ex show ?thesis
  proof (cases rule: executeWithdrawal_cases)
    case (Stored c)
    with ok show ?thesis by simp
  next
    case New
    have fin: "fin_ok s" using ok by (simp add: money_ok_def)
    obtain account :: account_row and as ri and req :: reservation_request where sum: "(\<Sum>a\<leftarrow>as. fa_amount a) = intOf (wi_amount input)" and
      own: "\<forall>a \<in> set as. \<exists>l \<in> set (financialLots s). l_id l = fa_lotId a \<and> l_accountId l = a_id account \<and> l_currency l = ''INCOME''" and
      fin': "fin_ok s'" and req: "rr_amount req = intOf (wi_amount input)" "rr_currency req = ''INCOME''" and
      lots: "financialLots s' = map (\<lambda>l. lessLot (drawnFrom (l_id l) as) l) (financialLots s)" and
      res: "financialReservations s' = financialReservations s @ [reservationOf req ri]"
      by (rule performWithdrawalE [OF New(2) fin fresh]) (rule that, assumption+)
    have "\<forall>a \<in> set as. \<exists>l \<in> set (financialLots s). l_id l = fa_lotId a \<and> l_currency l = ''INCOME''" using own by blast
    from money_drawn [OF lots fin this] money_reserved [OF res] ok fin' show ?thesis
      by (simp add: money_ok_def req sum)
  qed
qed

lemma settlement_step:
  assumes frame: "session_frame (e_session eng)" and fresh: "engine_fresh eng" and ok: "money_ok s"
    and run: "settle rt eng input s0 s1 s = Inr (r, s')"
  shows "money_ok s' \<and> issuedIn ''POINT'' s' = issuedIn ''POINT'' s + 0"
proof -
  from settle_success [OF frame run] obtain h where ex: "executeSettlement rt eng input h s = Inr (r, s')" by blast
  from ex show ?thesis
  proof (cases rule: executeSettlement_cases)
    case (Stored c)
    with ok show ?thesis by simp
  next
    case (Alias c result a)
    with money_same [OF ok] show ?thesis by blast
  next
    case New
    have fin: "fin_ok s" using ok by (simp add: money_ok_def)
    obtain w plan oi ai i t runs opers swaps legs where
      w: "settleable w input" "plan = settlementPlan w input" and
      fund: "loadCommissionSettlementFunding (ln_reservationId (sw_fundingLink w)) s = Inr (sw_funding w)" and
      one: "countWhere (\<lambda>r. r_id r = ss_reservationId (spl_swap plan) \<and> r_flowId r = ss_flowId (spl_swap plan) \<and>
         r_state r = ''HELD'') (financialReservations s) = 1" and
      fin': "fin_ok s'" and
      s': "s' = s\<lparr>financialCommandRuns := runs, financialOperations := opers, financialSwapActions := swaps,
         financialSwapLegs := legs, financialLots := financialLots s @ [incomeLotOf (spl_swap plan) oi ai i t],
         financialReservations := updateWhere (\<lambda>r. r_id r = ss_reservationId (spl_swap plan) \<and>
           r_flowId r = ss_flowId (spl_swap plan) \<and> r_state r = ''HELD'') (\<lambda>r. r\<lparr>r_state := ''SETTLED''\<rparr>)
           (financialReservations s)\<rparr>"
      by (rule performSettlementE [OF New(3) fin fresh]) (rule that, assumption+)
    from loadFunding_Inr [OF fund] obtain v where
      v: "findRow (\<lambda>r. r_id r = ln_reservationId (sw_fundingLink w)) (financialReservations s) = Some v" and
      f: "cf_reservationId (sw_funding w) = r_id v" "cf_reservationFlowId (sw_funding w) = r_flowId v"
        "cf_reservationState (sw_funding w) = r_state v" "cf_targetAmount (sw_funding w) = r_targetAmount v"
        "cf_reservationCurrency (sw_funding w) = r_currency v" by blast
    note st = w(1) [unfolded settleable_def funded_def Let_def f]
    have held: "r_id v = ss_reservationId (spl_swap plan) \<and> r_flowId v = ss_flowId (spl_swap plan) \<and> r_state v = ''HELD''"
      using st by (simp add: w(2) settlementPlan_def Let_def f)
    define p :: "reservation_row \<Rightarrow> bool" where "p = (\<lambda>r. r_id r = ss_reservationId (spl_swap plan) \<and> r_flowId r = ss_flowId (spl_swap plan) \<and>
      r_state r = ''HELD'')"
    have pv: "p v" "v \<in> set (financialReservations s)" "countWhere p (financialReservations s) = 1"
      using held one findRow_Some(1) [OF v] by (simp_all add: p_def)
    have res: "financialReservations s' = updateWhere p (\<lambda>r. r\<lparr>r_state := ''SETTLED''\<rparr>) (financialReservations s)"
      by (simp add: s' p_def)
    have "reservedIn c st' s' = reservedIn c st' s - (if isReserved c st' v then r_targetAmount v else 0) +
        (if isReserved c st' (v\<lparr>r_state := ''SETTLED''\<rparr>) then r_targetAmount v else 0)" for c st'
      unfolding reservedIn_def res by (subst sum_updateWhere_one [OF pv(3,2,1)]) simp
    moreover have "isReserved c st' v \<longleftrightarrow> c = ''POINT'' \<and> st' = ''HELD''"
      "isReserved c st' (v\<lparr>r_state := ''SETTLED''\<rparr>) \<longleftrightarrow> c = ''POINT'' \<and> st' = ''SETTLED''" for c st'
      using st by (auto simp: isReserved_def)
    moreover have "financialLots s' = financialLots s @ [incomeLotOf (spl_swap plan) oi ai i t]" by (simp add: s')
    moreover have "l_currency (incomeLotOf (spl_swap plan) oi ai i t) = ''INCOME''"
      "l_originalAmount (incomeLotOf (spl_swap plan) oi ai i t) = r_targetAmount v"
      "l_remainingAmount (incomeLotOf (spl_swap plan) oi ai i t) = r_targetAmount v"
      using st by (simp_all add: incomeLotOf_def w(2) settlementPlan_def Let_def f)
    ultimately show ?thesis
      using ok fin' money_issued [of s' s "incomeLotOf (spl_swap plan) oi ai i t"] by (simp add: money_ok_def)
  qed
qed

lemma money_step_keeps:
  assumes "session_frame (e_session eng)" and "engine_fresh eng" and step: "money_step rt eng s n s'" and "money_ok s"
  shows "money_ok s' \<and> issuedIn ''POINT'' s' = issuedIn ''POINT'' s + n"
  using step
proof cases
  case (Charged ci s0 rc)
  then show ?thesis using charge_step [OF assms(1,2,4) Charged(2)] by simp
next
  case (Paid pi s0 s1 rp)
  then show ?thesis using checkout_step [OF assms(1,2,4) Paid(2)] by simp
next
  case (Settled si s0 s1 rs)
  then show ?thesis using settlement_step [OF assms(1,2,4) Settled(2)] by simp
next
  case (Withdrawn wi s0 rw)
  then show ?thesis using withdrawal_step [OF assms(1,2,4) Withdrawn(2)] by simp
qed

section \<open>No money is made or lost\<close>

text \<open>C2: whatever requests arrive, in whatever order, the money of the ledger is conserved: what is
  available and what is held, in points and in income together, is exactly the points issued
  before and the points charged since; and the books of lots and transfers stay in balance.
\<close>

theorem money_is_conserved:
  assumes "session_frame (e_session eng)" and "engine_fresh eng" and "money_run rt eng s n s'" and "money_ok s"
  shows "money_ok s' \<and>
    leftIn ''POINT'' s' + reservedIn ''POINT'' ''HELD'' s' + leftIn ''INCOME'' s' + reservedIn ''INCOME'' ''HELD'' s' =
      issuedIn ''POINT'' s + n"
proof -
  from assms(3,4) have "money_ok s' \<and> issuedIn ''POINT'' s' = issuedIn ''POINT'' s + n"
  proof (induction rule: money_run.induct)
    case (Then s n s' m s'')
    then show ?case using money_step_keeps [OF assms(1,2) Then.hyps(2)] by simp
  qed simp
  then show ?thesis by (simp add: money_ok_def)
qed

text \<open>A shop that sells a commission, settles it, and whose buyer then charges points.\<close>

lemma sample_recharge:
  "case executePointCharge refRuntime refEngine sampleCharge 10 sampleSettled of
     Inr (r, s') \<Rightarrow> \<not> go_replayed r \<and> leftIn ''POINT'' s' = 530 \<and> leftIn ''INCOME'' s' = 70 | Inl e \<Rightarrow> False"
  by code_simp

lemma sample_recharge_run:
  obtains r s' where "chargePoints refRuntime refEngine sampleCharge sampleSettled sampleSettled = Inr (r, s')"
    "\<not> go_replayed r" "leftIn ''POINT'' s' = 530" "leftIn ''INCOME'' s' = 70"
proof -
  from sample_recharge obtain r s' where
    run: "executePointCharge refRuntime refEngine sampleCharge 10 sampleSettled = Inr (r, s')"
    and facts: "\<not> go_replayed r" "leftIn ''POINT'' s' = 530" "leftIn ''INCOME'' s' = 70"
    by (auto split: sum.splits)
  have h: "findHolderId ''user'' (showInt 1) sampleSettled = Inr 10" by code_simp
  have q: "session_quiet (e_session refEngine)" by simp
  have "chargePoints refRuntime refEngine sampleCharge sampleSettled sampleSettled = Inr (r, s')"
    using serialized_quiet [where body = "executePointCharge refRuntime refEngine sampleCharge 10", OF q run] h
    by (simp add: chargePoints_def bindT_def liftT_def sampleCharge_def)
  from this facts show thesis by (rule that)
qed

lemma sample_money_run:
  obtains s' where "money_run refRuntime refEngine sampleShop 500 s'" "leftIn ''POINT'' s' = 530" "leftIn ''INCOME'' s' = 70"
proof -
  obtain rp s1 where paid: "complete refRuntime refEngine sampleCheckout sampleShop sampleShop sampleShop = Inr (rp, s1)"
    and "executeCommissionCheckout refRuntime refEngine samplePrepared sampleShop = Inr (rp, s1)" by (rule sample_run)
  then have s1: "s1 = samplePaid" by (simp add: samplePaid_def)
  obtain rs s2 where settled: "settle refRuntime refEngine sampleSettle samplePaid samplePaid samplePaid = Inr (rs, s2)"
    and "executeSettlement refRuntime refEngine sampleSettle 11 samplePaid = Inr (rs, s2)" by (rule sample_settle_run)
  then have s2: "s2 = sampleSettled" by (simp add: sampleSettled_def)
  obtain rc s3 where charged: "chargePoints refRuntime refEngine sampleCharge sampleSettled sampleSettled = Inr (rc, s3)"
    and new: "\<not> go_replayed rc" and left: "leftIn ''POINT'' s3 = 530" "leftIn ''INCOME'' s3 = 70"
    by (rule sample_recharge_run)
  have "money_run refRuntime refEngine sampleShop (0 + 0 + 0 + 500) s3"
  proof (rule money_run.Then [OF money_run.Then [OF money_run.Then [OF money_run.Start]]])
    show "money_step refRuntime refEngine sampleShop 0 samplePaid" using money_step.Paid [OF paid] s1 by simp
    show "money_step refRuntime refEngine samplePaid 0 sampleSettled" using money_step.Settled [OF settled] s2 by simp
    show "money_step refRuntime refEngine sampleSettled 500 s3"
      using money_step.Charged [OF charged] new by (simp add: sampleCharge_def)
  qed
  with left show thesis by (intro that) simp_all
qed

theorem money_is_conserved_witness:
  "\<exists>s'. money_run refRuntime refEngine sampleShop 500 s' \<and> leftIn ''POINT'' s' = 530 \<and> leftIn ''INCOME'' s' = 70 \<and>
     reservedIn ''POINT'' ''HELD'' s' + reservedIn ''INCOME'' ''HELD'' s' = 0"
proof -
  obtain s' where run: "money_run refRuntime refEngine sampleShop 500 s'"
    and left: "leftIn ''POINT'' s' = 530" "leftIn ''INCOME'' s' = 70" by (rule sample_money_run)
  have "money_ok sampleShop" "issuedIn ''POINT'' sampleShop = 100" by code_simp+
  moreover have "session_frame (e_session refEngine)" by simp
  ultimately show ?thesis using money_is_conserved [OF _ refEngine_fresh run] run left by auto
qed

end
