(* ===== verification/Guards.thy ===== *)
theory Guards
  imports Schema
begin

text \<open>
  The guards of the database, as the migrations under \<open>prisma/migrations\<close> leave them: which
  rewrites of an existing row its triggers let through, and the deferred constraint triggers
  over the financial tables, with the rows that queue them. They are stated over the rows of
  \<open>Schema\<close>; that the writes of the use cases satisfy them is shown in \<open>History\<close> and \<open>GuardLaws\<close>.
\<close>

section \<open>Rows that existed\<close>

text \<open>\<open>keep_point_lot_basis_immutable\<close>: every column but what remains.\<close>

definition lotUpdate :: "lot_row \<Rightarrow> lot_row \<Rightarrow> bool" where
  "lotUpdate old new \<longleftrightarrow> l_id new = l_id old \<and> l_accountId new = l_accountId old \<and>
     l_currency new = l_currency old \<and> l_sourceKind new = l_sourceKind old \<and>
     l_sourceOperationId new = l_sourceOperationId old \<and>
     l_sourceSwapActionId new = l_sourceSwapActionId old \<and> l_sourceFlowId new = l_sourceFlowId old \<and>
     l_sourceFlowKind new = l_sourceFlowKind old \<and> l_sourceOperationKind new = l_sourceOperationKind old \<and>
     l_issuanceReason new = l_issuanceReason old \<and> l_accountingCategory new = l_accountingCategory old \<and>
     l_accountingPolicyVersion new = l_accountingPolicyVersion old \<and>
     l_originalAmount new = l_originalAmount old \<and> l_createdAt new = l_createdAt old"

text \<open>\<open>keep_financial_reservation_basis_immutable\<close>: the basis stays, and a held commission payment may settle.\<close>

definition reservationUpdate :: "reservation_row \<Rightarrow> reservation_row \<Rightarrow> bool" where
  "reservationUpdate old new \<longleftrightarrow> r_id new = r_id old \<and> r_flowId new = r_flowId old \<and>
     r_bindingNamespace new = r_bindingNamespace old \<and> r_bindingKey new = r_bindingKey old \<and>
     r_holderId new = r_holderId old \<and> r_purpose new = r_purpose old \<and>
     r_currency new = r_currency old \<and> r_targetAmount new = r_targetAmount old \<and>
     (r_state new = r_state old \<or>
      r_purpose old = ''COMMISSION_PAYMENT'' \<and> r_state old = ''HELD'' \<and> r_state new = ''SETTLED'')"

text \<open>\<open>keep_order_flow_immutable\<close> and \<open>keep_order_payment_evidence_immutable\<close>: the one forward transition.\<close>

definition orderUpdate :: "order_row \<Rightarrow> order_row \<Rightarrow> bool" where
  "orderUpdate old new \<longleftrightarrow> o_id new = o_id old \<and> o_flowId new = o_flowId old \<and>
     o_buyerId new = o_buyerId old \<and> o_commissionTypeId new = o_commissionTypeId old \<and>
     o_slotId new = o_slotId old \<and> o_amount new = o_amount old \<and> o_currency new = o_currency old \<and>
     (o_state new = o_state old \<or> o_state old = ''REQUESTED'' \<and> o_state new = ''PAID'')"

definition paymentUpdate :: "payment_row \<Rightarrow> payment_row \<Rightarrow> bool" where
  "paymentUpdate old new \<longleftrightarrow> pay_id new = pay_id old \<and> pay_orderId new = pay_orderId old \<and>
     pay_flowId new = pay_flowId old \<and> pay_amount new = pay_amount old \<and>
     pay_currency new = pay_currency old \<and>
     (pay_state new = pay_state old \<or> pay_state old = ''PENDING'' \<and> pay_state new = ''PAID'')"

text \<open>The row check \<open>FinancialReservation_purpose_currency_check\<close>.\<close>

definition reservationTyped :: "reservation_row \<Rightarrow> bool" where
  "reservationTyped r \<longleftrightarrow> r_purpose r = ''COMMISSION_PAYMENT'' \<and> r_currency r = ''POINT'' \<or>
     r_purpose r = ''INCOME_WITHDRAWAL'' \<and> r_currency r = ''INCOME''"

text \<open>A table whose rows are all still there, in place, each rewritten only as \<open>update\<close> allows.\<close>

definition keptRows :: "('r \<Rightarrow> 'r \<Rightarrow> bool) \<Rightarrow> 'r list \<Rightarrow> 'r list \<Rightarrow> bool" where
  "keptRows update old new \<longleftrightarrow> list_all2 update old (take (length old) new)"

text \<open>
  The financial record of one database continued in another. The \<open>append_only\<close> triggers
  (\<open>reject_..._mutation\<close>) and the immutable bindings leave no rewrite at all.
\<close>

definition historyKept :: "db \<Rightarrow> db \<Rightarrow> bool" where
  "historyKept s s' \<longleftrightarrow>
     keptRows (\<lambda>old new. lotUpdate old new \<and> l_remainingAmount new \<le> l_remainingAmount old)
       (financialLots s) (financialLots s') \<and>
     keptRows reservationUpdate (financialReservations s) (financialReservations s') \<and>
     keptRows orderUpdate (orders s) (orders s') \<and>
     keptRows paymentUpdate (orderPayments s) (orderPayments s') \<and>
     keptRows (=) (orderFinancialLinks s) (orderFinancialLinks s') \<and>
     keptRows (=) (contracts s) (contracts s') \<and>
     keptRows (=) (financialHolders s) (financialHolders s') \<and>
     keptRows (=) (financialAccounts s) (financialAccounts s') \<and>
     keptRows (=) (financialTransfers s) (financialTransfers s') \<and>
     keptRows (=) (financialTransferAllocations s) (financialTransferAllocations s') \<and>
     keptRows (=) (financialTransferActions s) (financialTransferActions s') \<and>
     keptRows (=) (financialSwapActions s) (financialSwapActions s') \<and>
     keptRows (=) (financialSwapLegs s) (financialSwapLegs s') \<and>
     keptRows (=) (financialWithdrawals s) (financialWithdrawals s') \<and>
     keptRows (=) (transactionFlows s) (transactionFlows s') \<and>
     keptRows (=) (financialCommandRuns s) (financialCommandRuns s') \<and>
     keptRows (=) (financialOperations s) (financialOperations s')"

section \<open>Queries\<close>

text \<open>The rows of a table joined on the columns \<open>k\<close>.\<close>

definition joined :: "('r \<Rightarrow> 'v) \<Rightarrow> 'v \<Rightarrow> 'r list \<Rightarrow> 'r list" where
  "joined k v rows = filter (\<lambda>r. k r = v) rows"

text \<open>
  \<open>SELECT NOT (...) INTO violates ... IF COALESCE(violates, TRUE) THEN RAISE\<close>: the check
  holds of the first row of the join, and without a row it fails. A comparison with a null
  column is not true.
\<close>

fun firstRow :: "bool list \<Rightarrow> bool" where
  "firstRow [] = False"
| "firstRow (ok # rows) = ok"

text \<open>\<open>EXISTS (SELECT ... WHERE ...)\<close>, over the conditions of the joined rows.\<close>

definition someRow :: "bool list \<Rightarrow> bool" where
  "someRow rows \<longleftrightarrow> True \<in> set rows"

text \<open>A subquery used as a value: null without a row, refused with several.\<close>

fun oneValue :: "'v option list \<Rightarrow> 'v option" where
  "oneValue [v] = v"
| "oneValue _ = None"

lemma joined_one:
  assumes "distinct (map u rows)" and "r \<in> set rows" and "k r = v" and "\<And>x. k x = v \<Longrightarrow> u x = u r"
  shows "joined k v rows = [r]"
proof -
  have "filter (\<lambda>x. k x = v) rows = filter (\<lambda>x. x = r) rows"
    by (rule filter_cong [OF refl]) (use assms in \<open>metis distinct_key_unique\<close>)
  also have "\<dots> = [r]"
    using assms(1,2) by (induction rows) (auto simp: filter_empty_conv)
  finally show ?thesis by (simp add: joined_def)
qed

lemma joined_key: "distinct (map k rows) \<Longrightarrow> r \<in> set rows \<Longrightarrow> joined k (k r) rows = [r]"
  by (rule joined_one [where u = k]) simp_all

lemma in_joined [simp]: "r \<in> set (joined k v rows) \<longleftrightarrow> r \<in> set rows \<and> k r = v"
  by (simp add: joined_def)

section \<open>The deferred checks\<close>

text \<open>\<open>assert_financial_transfer_conservation\<close>, with its groups: the allocations of the transfer.\<close>

definition transferConservation :: "db \<Rightarrow> int \<Rightarrow> bool" where
  "transferConservation s i = firstRow [
     t_amount transfer = r_targetAmount reservation \<and> t_currency transfer = r_currency reservation \<and>
     a_holderId source = Some (r_holderId reservation) \<and> a_purpose source = ''AVAILABLE'' \<and>
     a_reservationId destination = Some (r_id reservation) \<and> a_purpose destination = ''ESCROW'' \<and>
     tac_operationKind action = oper_kind operation \<and> oper_flowId operation = t_flowId transfer \<and>
     (r_purpose reservation = ''COMMISSION_PAYMENT'' \<and> r_currency reservation = ''POINT'' \<and>
        fl_kind flow = COMMISSION \<and> oper_kind operation = PAY \<or>
      r_purpose reservation = ''INCOME_WITHDRAWAL'' \<and> r_currency reservation = ''INCOME'' \<and>
        fl_kind flow = WITHDRAWAL \<and> oper_kind operation = WITHDRAW) \<and>
     (let allocations = joined ta_transferId (t_id transfer) (financialTransferAllocations s) in
        allocations \<noteq> [] \<and> (\<Sum>a\<leftarrow>allocations. ta_amount a) = t_amount transfer \<and>
        (\<forall>a \<in> set allocations. ta_fromAccountId a = t_fromAccountId transfer \<and>
           ta_currency a = t_currency transfer \<and>
           (\<forall>l \<in> set (joined l_id (ta_lotId a) (financialLots s)).
              l_accountId l = t_fromAccountId transfer \<and> l_currency l = t_currency transfer))).
     transfer \<leftarrow> joined t_id i (financialTransfers s),
     reservation \<leftarrow> joined r_id (t_reservationId transfer) (financialReservations s),
     source \<leftarrow> joined a_id (t_fromAccountId transfer) (financialAccounts s),
     destination \<leftarrow> joined a_id (t_toAccountId transfer) (financialAccounts s),
     action \<leftarrow> joined tac_id (t_actionId transfer) (financialTransferActions s),
     operation \<leftarrow> joined oper_id (tac_operationId action) (financialOperations s),
     flow \<leftarrow> joined fl_id (t_flowId transfer) (transactionFlows s)]"

text \<open>\<open>assert_point_lot_conservation\<close>; a lot that is not there passes.\<close>

definition lotConservation :: "db \<Rightarrow> int \<Rightarrow> bool" where
  "lotConservation s i = (case joined l_id i (financialLots s) of
      [] \<Rightarrow> True
    | lot # _ \<Rightarrow> l_remainingAmount lot +
        (\<Sum>a\<leftarrow>joined ta_lotId (l_id lot) (financialTransferAllocations s). ta_amount a) = l_originalAmount lot)"

text \<open>\<open>assert_financial_transfer_command_completion\<close>.\<close>

definition transferCommandCompletion :: "db \<Rightarrow> int \<Rightarrow> bool" where
  "transferCommandCompletion s i = someRow [
     cm_flowId command = t_flowId transfer \<and> cm_kind command = oper_kind operation \<and>
     cm_resultOperationId command = Some (oper_id operation).
     transfer \<leftarrow> joined t_id i (financialTransfers s),
     action \<leftarrow> joined tac_id (t_actionId transfer) (financialTransferActions s),
     operation \<leftarrow> joined oper_id (tac_operationId action) (financialOperations s),
     command \<leftarrow> joined cm_id (oper_commandId operation) (financialCommandRuns s)]"

text \<open>\<open>assert_withdraw_action_totality\<close>.\<close>

definition withdrawActionTotality :: "db \<Rightarrow> string \<Rightarrow> bool" where
  "withdrawActionTotality s i \<longleftrightarrow>
     ((\<exists>action \<in> set (joined tac_id i (financialTransferActions s)). tac_operationKind action = WITHDRAW) \<longrightarrow>
      joined w_transferActionId i (financialWithdrawals s) \<noteq> [])"

text \<open>\<open>assert_financial_reservation_settlement\<close>.\<close>

definition reservationSettlement :: "db \<Rightarrow> int \<Rightarrow> bool" where
  "reservationSettlement s i \<longleftrightarrow> joined sw_reservationId i (financialSwapActions s) \<noteq> []"

text \<open>\<open>assert_point_charge_lot_shape\<close>.\<close>

definition pointChargeLotShape :: "db \<Rightarrow> int \<Rightarrow> bool" where
  "pointChargeLotShape s i = firstRow [
     l_currency lot = ''POINT'' \<and> l_sourceKind lot = ''PAID'' \<and> l_sourceSwapActionId lot = None \<and>
     l_sourceFlowKind lot = Some POINT_CHARGE \<and> l_sourceOperationKind lot = Some CHARGE \<and>
     l_issuanceReason lot = Some ''PURCHASE'' \<and> l_accountingCategory lot = Some ''CUSTOMER_ADVANCE'' \<and>
     l_accountingPolicyVersion lot = Some ''point-charge-v1'' \<and> 0 < l_originalAmount lot \<and>
     l_remainingAmount lot = l_originalAmount lot \<and> a_currency account = ''POINT'' \<and>
     a_purpose account = ''AVAILABLE'' \<and> h_namespace holder = ''user'' \<and>
     h_key holder = showInt (cm_principalId command) \<and> oper_kind operation = CHARGE \<and>
     cm_flowKind command = POINT_CHARGE \<and> cm_kind command = CHARGE \<and>
     cm_subjectNamespace command = ''point-charge-payment'' \<and>
     cm_resultOperationId command = Some (oper_id operation).
     lot \<leftarrow> joined l_id i (financialLots s),
     account \<leftarrow> joined a_id (l_accountId lot) (financialAccounts s),
     holder \<leftarrow> joined (\<lambda>h. Some (h_id h)) (a_holderId account) (financialHolders s),
     operation \<leftarrow> joined (\<lambda>x. Some (oper_id x)) (l_sourceOperationId lot) (financialOperations s),
     command \<leftarrow> joined cm_id (oper_commandId operation) (financialCommandRuns s)]"

text \<open>\<open>assert_financial_withdrawal_shape\<close>.\<close>

definition withdrawalShape :: "db \<Rightarrow> string \<Rightarrow> bool" where
  "withdrawalShape s i = firstRow [
     w_flowKind withdrawal = WITHDRAWAL \<and> w_operationKind withdrawal = WITHDRAW \<and>
     oper_kind operation = WITHDRAW \<and> tac_operationKind action = WITHDRAW \<and>
     r_purpose reservation = ''INCOME_WITHDRAWAL'' \<and> r_currency reservation = ''INCOME'' \<and>
     r_state reservation = ''HELD'' \<and> h_namespace holder = ''user'' \<and>
     h_key holder = showInt (cm_principalId command) \<and>
     cm_subjectNamespace command = ''income-withdrawal'' \<and> cm_subjectKey command = w_flowId withdrawal \<and>
     r_bindingNamespace reservation = ''income-withdrawal'' \<and> r_bindingKey reservation = w_flowId withdrawal \<and>
     t_actionId transfer = tac_id action \<and> t_currency transfer = ''INCOME'' \<and>
     t_amount transfer = r_targetAmount reservation \<and> t_flowId transfer = w_flowId withdrawal \<and>
     a_holderId source = Some (r_holderId reservation) \<and> a_purpose source = ''AVAILABLE'' \<and>
     a_reservationId destination = Some (r_id reservation) \<and> a_purpose destination = ''ESCROW'' \<and>
     cm_resultOperationId command = Some (oper_id operation).
     withdrawal \<leftarrow> joined w_id i (financialWithdrawals s),
     operation \<leftarrow> joined oper_id (w_operationId withdrawal) (financialOperations s),
     action \<leftarrow> joined tac_id (w_transferActionId withdrawal) (financialTransferActions s),
     reservation \<leftarrow> joined r_id (w_reservationId withdrawal) (financialReservations s),
     holder \<leftarrow> joined h_id (r_holderId reservation) (financialHolders s),
     transfer \<leftarrow> joined t_reservationId (r_id reservation) (financialTransfers s),
     source \<leftarrow> joined a_id (t_fromAccountId transfer) (financialAccounts s),
     destination \<leftarrow> joined a_id (t_toAccountId transfer) (financialAccounts s),
     command \<leftarrow> joined cm_id (oper_commandId operation) (financialCommandRuns s)]"

text \<open>
  \<open>assert_financial_command_effect\<close>: an alias names what its origin names, and a result has its
  typed effect. The foreign keys of the command and the operation name rows that exist.
\<close>

definition sameCommand :: "command_row \<Rightarrow> command_row \<Rightarrow> bool" where
  "sameCommand command origin \<longleftrightarrow> cm_flowId command = cm_flowId origin \<and> cm_kind command = cm_kind origin \<and>
     cm_principalId command = cm_principalId origin \<and> cm_payloadHash command = cm_payloadHash origin \<and>
     cm_subjectNamespace command = cm_subjectNamespace origin \<and> cm_subjectKey command = cm_subjectKey origin"

fun typedEffect :: "db \<Rightarrow> command_row \<Rightarrow> string \<Rightarrow> command_kind \<Rightarrow> bool" where
  "typedEffect s command operationId PAY = someRow [tac_flowId action = cm_flowId command \<and> tac_operationKind action = PAY.
     action \<leftarrow> joined tac_operationId operationId (financialTransferActions s),
     transfer \<leftarrow> joined t_actionId (tac_id action) (financialTransfers s)]"
| "typedEffect s command operationId SETTLE = someRow [sw_flowId action = cm_flowId command \<and> sw_operationKind action = SETTLE.
     action \<leftarrow> joined sw_operationId operationId (financialSwapActions s)]"
| "typedEffect s command operationId WITHDRAW = someRow [w_flowId withdrawal = cm_flowId command \<and> w_operationKind withdrawal = WITHDRAW.
     withdrawal \<leftarrow> joined w_operationId operationId (financialWithdrawals s)]"
| "typedEffect s command operationId CHARGE = someRow [
     l_sourceFlowId lot = Some (cm_flowId command) \<and> l_sourceFlowKind lot = Some POINT_CHARGE \<and>
     l_sourceOperationKind lot = Some CHARGE \<and> l_currency lot = ''POINT'' \<and> l_sourceKind lot = ''PAID'' \<and>
     l_issuanceReason lot = Some ''PURCHASE'' \<and> l_accountingCategory lot = Some ''CUSTOMER_ADVANCE'' \<and>
     l_accountingPolicyVersion lot = Some ''point-charge-v1'' \<and> 0 < l_originalAmount lot \<and>
     l_remainingAmount lot = l_originalAmount lot \<and> a_currency account = ''POINT'' \<and>
     a_purpose account = ''AVAILABLE'' \<and> h_namespace holder = ''user'' \<and>
     h_key holder = showInt (cm_principalId command) \<and> cm_flowKind command = POINT_CHARGE \<and>
     cm_subjectNamespace command = ''point-charge-payment''.
     lot \<leftarrow> joined l_sourceOperationId (Some operationId) (financialLots s),
     account \<leftarrow> joined a_id (l_accountId lot) (financialAccounts s),
     holder \<leftarrow> joined (\<lambda>h. Some (h_id h)) (a_holderId account) (financialHolders s)]"
| "typedEffect s command operationId _ = True"

definition commandEffect :: "db \<Rightarrow> string \<Rightarrow> bool" where
  "commandEffect s i = (case joined cm_id i (financialCommandRuns s) of
      [] \<Rightarrow> True
    | command # _ \<Rightarrow> (case cm_resultOperationId command of
        None \<Rightarrow> True
      | Some operationId \<Rightarrow>
          (\<forall>operation \<in> set (joined oper_id operationId (financialOperations s)).
             \<forall>origin \<in> set (joined cm_id (oper_commandId operation) (financialCommandRuns s)).
               cm_id command = cm_id origin \<or> sameCommand command origin) \<and>
          typedEffect s command operationId (cm_kind command)))"

text \<open>\<open>assert_financial_swap_shape\<close>: the legs of the swap and the lot it issued ...\<close>

definition swapLegs :: "db \<Rightarrow> swap_row \<Rightarrow> operation_row \<Rightarrow> reservation_row \<Rightarrow> account_row \<Rightarrow> bool" where
  "swapLegs s action operation reservation escrow \<longleftrightarrow>
     (let legs = joined lg_actionId (sw_id action) (financialSwapLegs s);
          account = (\<lambda>i. joined a_id i (financialAccounts s));
          pointHolder = oneValue [a_holderId destination.
            leg \<leftarrow> joined lg_currency ''POINT'' legs, destination \<leftarrow> account (lg_toAccountId leg)];
          incomeHolder = oneValue [a_holderId source.
            leg \<leftarrow> joined lg_currency ''INCOME'' legs, source \<leftarrow> account (lg_fromAccountId leg)] in
      length legs = 2 \<and>
      someRow [lg_currency leg = ''POINT'' \<and> lg_fromAccountId leg = a_id escrow \<and>
          lg_amount leg = r_targetAmount reservation \<and> a_purpose destination = ''SETTLED''.
        leg \<leftarrow> legs, destination \<leftarrow> account (lg_toAccountId leg)] \<and>
      someRow [lg_currency leg = ''INCOME'' \<and> lg_amount leg = r_targetAmount reservation \<and>
          a_purpose source = ''ISSUER'' \<and> a_purpose destination = ''AVAILABLE'' \<and>
          a_holderId destination = Some (sw_beneficiaryHolderId action).
        leg \<leftarrow> legs, source \<leftarrow> account (lg_fromAccountId leg), destination \<leftarrow> account (lg_toAccountId leg)] \<and>
      pointHolder \<noteq> None \<and> pointHolder = incomeHolder \<and>
      someRow [h_namespace platform = ''system'' \<and> h_key platform = ''platform''.
        platform \<leftarrow> joined (\<lambda>h. Some (h_id h)) pointHolder (financialHolders s)] \<and>
      someRow [l_sourceOperationId lot = Some (oper_id operation) \<and> l_sourceFlowId lot = Some (sw_flowId action) \<and>
          l_sourceFlowKind lot = Some COMMISSION \<and> l_sourceOperationKind lot = Some SETTLE \<and>
          l_currency lot = ''INCOME'' \<and> l_accountId lot = lg_toAccountId leg \<and>
          l_originalAmount lot = r_targetAmount reservation \<and> l_remainingAmount lot = l_originalAmount lot.
        lot \<leftarrow> joined l_sourceSwapActionId (Some (sw_id action)) (financialLots s),
        leg \<leftarrow> joined lg_currency ''INCOME'' legs])"

text \<open>... and the contract, the paid order and the completed payment it settles.\<close>

definition swapShape :: "db \<Rightarrow> string \<Rightarrow> bool" where
  "swapShape s i = firstRow [
     sw_operationKind action = SETTLE \<and> oper_kind operation = SETTLE \<and> cm_flowId command = sw_flowId action \<and>
     cm_resultOperationId command = Some (oper_id operation) \<and>
     cm_subjectNamespace command = ''commission-contract'' \<and> cm_principalId command = k_workerId contract \<and>
     h_namespace beneficiary = ''user'' \<and> h_key beneficiary = showInt (k_workerId contract) \<and>
     r_purpose reservation = ''COMMISSION_PAYMENT'' \<and> r_currency reservation = ''POINT'' \<and>
     r_state reservation = ''SETTLED'' \<and> tac_operationKind fundingAction = PAY \<and>
     oper_kind fundingOperation = PAY \<and> oper_flowId fundingOperation = sw_flowId action \<and>
     cm_kind fundingCommand = PAY \<and> cm_flowId fundingCommand = sw_flowId action \<and>
     cm_resultOperationId fundingCommand = Some (oper_id fundingOperation) \<and>
     cm_principalId fundingCommand = o_buyerId order \<and>
     cm_subjectNamespace fundingCommand = ''commission-order-payment'' \<and>
     cm_subjectKey fundingCommand = showInt (pay_id payment) \<and> h_namespace payer = ''user'' \<and>
     h_key payer = showInt (o_buyerId order) \<and> t_flowId funding = sw_flowId action \<and>
     t_currency funding = ''POINT'' \<and> t_amount funding = r_targetAmount reservation \<and>
     t_toAccountId funding = a_id escrow \<and> a_reservationId escrow = Some (r_id reservation) \<and>
     a_purpose escrow = ''ESCROW'' \<and> o_state order = ''PAID'' \<and> o_currency order = ''POINT'' \<and>
     o_amount order = r_targetAmount reservation \<and> pay_state payment = ''PAID'' \<and>
     pay_currency payment = ''POINT'' \<and> pay_amount payment = r_targetAmount reservation \<and>
     swapLegs s action operation reservation escrow.
     action \<leftarrow> joined sw_id i (financialSwapActions s),
     operation \<leftarrow> joined oper_id (sw_operationId action) (financialOperations s),
     command \<leftarrow> joined cm_id (oper_commandId operation) (financialCommandRuns s),
     contract \<leftarrow> joined (\<lambda>k. (k_flowId k, showInt (k_id k))) (sw_flowId action, cm_subjectKey command) (contracts s),
     order \<leftarrow> joined (\<lambda>r. (o_id r, o_flowId r)) (k_orderId contract, k_flowId contract) (orders s),
     link \<leftarrow> joined ln_reservationId (sw_reservationId action) (orderFinancialLinks s),
     payment \<leftarrow> joined (\<lambda>p. (pay_orderId p, pay_flowId p, pay_id p, pay_flowId p))
       (o_id order, o_flowId order, ln_orderPaymentId link, ln_flowId link) (orderPayments s),
     beneficiary \<leftarrow> joined h_id (sw_beneficiaryHolderId action) (financialHolders s),
     reservation \<leftarrow> joined r_id (sw_reservationId action) (financialReservations s),
     payer \<leftarrow> joined h_id (r_holderId reservation) (financialHolders s),
     funding \<leftarrow> joined t_reservationId (r_id reservation) (financialTransfers s),
     fundingAction \<leftarrow> joined tac_id (t_actionId funding) (financialTransferActions s),
     fundingOperation \<leftarrow> joined oper_id (tac_operationId fundingAction) (financialOperations s),
     fundingCommand \<leftarrow> joined cm_id (oper_commandId fundingOperation) (financialCommandRuns s),
     escrow \<leftarrow> joined a_id (t_toAccountId funding) (financialAccounts s)]"

section \<open>What a transaction queues\<close>

text \<open>
  A constraint trigger queues a check for every row the transaction inserted, or changed in the
  watched columns: the rows whose key, or key and watched columns, the start did not have.
\<close>

definition freshRows :: "('r \<Rightarrow> 'k) \<Rightarrow> 'r list \<Rightarrow> 'r list \<Rightarrow> 'r list" where
  "freshRows k old new = filter (\<lambda>r. k r \<notin> k ` set old) new"

definition rewrittenRows :: "('r \<Rightarrow> 'k) \<Rightarrow> ('r \<Rightarrow> 'v) \<Rightarrow> 'r list \<Rightarrow> 'r list \<Rightarrow> 'r list" where
  "rewrittenRows k watched old new =
     filter (\<lambda>r. k r \<in> k ` set old \<and> (k r, watched r) \<notin> (\<lambda>x. (k x, watched x)) ` set old) new"

text \<open>
  The constraint triggers: the checks each has queued when a transaction from \<open>s\<close> ends in \<open>s'\<close>,
  and what they find there.
\<close>

definition transferConservationChecks :: "db \<Rightarrow> db \<Rightarrow> (string \<times> bool) list" where
  "transferConservationChecks s s' =
     map (\<lambda>t. (''FinancialTransfer_conservation_check'', transferConservation s' (t_id t)))
       (freshRows id (financialTransfers s) (financialTransfers s'))"

definition lotConservationChecks :: "db \<Rightarrow> db \<Rightarrow> (string \<times> bool) list" where
  "lotConservationChecks s s' =
     map (\<lambda>l. (''FinancialLot_conservation_check'', lotConservation s' (l_id l)))
       (rewrittenRows l_id id (financialLots s) (financialLots s'))"

definition swapShapeChecks :: "db \<Rightarrow> db \<Rightarrow> (string \<times> bool) list" where
  "swapShapeChecks s s' =
     map (\<lambda>x. (''FinancialSwap_shape_check'', swapShape s' (sw_id x)))
       (freshRows sw_id (financialSwapActions s) (financialSwapActions s'))"

definition settlementShapeChecks :: "db \<Rightarrow> db \<Rightarrow> (string \<times> bool) list" where
  "settlementShapeChecks s s' =
     map (\<lambda>r. (''FinancialReservation_settlement_shape_check'',
         r_state r = ''SETTLED'' \<longrightarrow> reservationSettlement s' (r_id r)))
       (rewrittenRows r_id r_state (financialReservations s) (financialReservations s'))"

definition withdrawalShapeChecks :: "db \<Rightarrow> db \<Rightarrow> (string \<times> bool) list" where
  "withdrawalShapeChecks s s' =
     map (\<lambda>w. (''FinancialWithdrawal_shape_check'', withdrawalShape s' (w_id w)))
       (freshRows w_id (financialWithdrawals s) (financialWithdrawals s'))"

definition commandEffectChecks :: "db \<Rightarrow> db \<Rightarrow> (string \<times> bool) list" where
  "commandEffectChecks s s' =
     map (\<lambda>c. (''FinancialCommand_effect_completeness_check'', commandEffect s' (cm_id c)))
       (filter (\<lambda>c. cm_resultOperationId c \<noteq> None) (freshRows (\<lambda>c. (cm_id c, cm_resultOperationId c))
         (financialCommandRuns s) (financialCommandRuns s')))"

definition withdrawalTotalityChecks :: "db \<Rightarrow> db \<Rightarrow> (string \<times> bool) list" where
  "withdrawalTotalityChecks s s' =
     map (\<lambda>t. (''FinancialWithdrawal_totality_check'', withdrawActionTotality s' (t_actionId t)))
       (freshRows t_id (financialTransfers s) (financialTransfers s'))"

definition commandCompletionChecks :: "db \<Rightarrow> db \<Rightarrow> (string \<times> bool) list" where
  "commandCompletionChecks s s' =
     map (\<lambda>t. (''FinancialTransfer_command_completion_check'', transferCommandCompletion s' (t_id t)))
       (freshRows t_id (financialTransfers s) (financialTransfers s'))"

definition pointChargeShapeChecks :: "db \<Rightarrow> db \<Rightarrow> (string \<times> bool) list" where
  "pointChargeShapeChecks s s' =
     map (\<lambda>l. (''FinancialLot_point_charge_shape_check'', pointChargeLotShape s' (l_id l)))
       (filter (\<lambda>l. l_sourceOperationKind l = Some CHARGE) (freshRows l_id (financialLots s) (financialLots s')))"

definition deferredChecks :: "db \<Rightarrow> db \<Rightarrow> (string \<times> bool) list" where
  "deferredChecks s s' = transferConservationChecks s s' @ lotConservationChecks s s' @ swapShapeChecks s s' @
     settlementShapeChecks s s' @ withdrawalShapeChecks s s' @ commandEffectChecks s s' @
     withdrawalTotalityChecks s s' @ commandCompletionChecks s s' @ pointChargeShapeChecks s s'"

lemmas deferredChecks_defs = deferredChecks_def transferConservationChecks_def lotConservationChecks_def
  swapShapeChecks_def settlementShapeChecks_def withdrawalShapeChecks_def commandEffectChecks_def
  withdrawalTotalityChecks_def commandCompletionChecks_def pointChargeShapeChecks_def

definition rejected :: "db \<Rightarrow> db \<Rightarrow> string list" where
  "rejected s s' = map fst (filter (\<lambda>(_, ok). \<not> ok) (deferredChecks s s'))"

text \<open>
  The deferred constraints of a transaction from \<open>s\<close>, as the engine runs them: naming one that
  rejects throws, in the form \<open>raise\<close> the client gives it.
\<close>

definition constraintsFrom :: "(string \<Rightarrow> thrown) \<Rightarrow> db \<Rightarrow> string list \<Rightarrow> db \<Rightarrow> thrown option" where
  "constraintsFrom raise s names s' = (case filter (\<lambda>n. n \<in> set names) (rejected s s') of
      [] \<Rightarrow> None
    | n # _ \<Rightarrow> Some (raise n))"

section \<open>What is declared\<close>

text \<open>
  Named hypothesis: the declared constraints PostgreSQL checks on every row hold of a database
  that was committed: primary keys and unique indexes, the foreign key of a command's flow, and
  the row checks of accounts (an account of a reservation is its escrow) and swap legs.
\<close>

definition declaredOk :: "db \<Rightarrow> bool" where
  "declaredOk s \<longleftrightarrow>
     distinct (map o_id (orders s)) \<and> distinct (map pay_id (orderPayments s)) \<and>
     distinct (map ln_reservationId (orderFinancialLinks s)) \<and> distinct (map k_id (contracts s)) \<and>
     distinct (map h_id (financialHolders s)) \<and> distinct (map r_id (financialReservations s)) \<and>
     distinct (map a_id (financialAccounts s)) \<and> distinct (map l_id (financialLots s)) \<and>
     distinct (map t_id (financialTransfers s)) \<and> distinct (map t_reservationId (financialTransfers s)) \<and>
     distinct (map tac_id (financialTransferActions s)) \<and> distinct (map sw_id (financialSwapActions s)) \<and>
     distinct (map (\<lambda>x. (lg_actionId x, lg_currency x)) (financialSwapLegs s)) \<and>
     distinct (map w_id (financialWithdrawals s)) \<and> distinct (map fl_id (transactionFlows s)) \<and>
     distinct (map cm_id (financialCommandRuns s)) \<and> distinct (map oper_id (financialOperations s)) \<and>
     (\<forall>c \<in> set (financialCommandRuns s). (cm_flowId c, cm_flowKind c) \<in>
        (\<lambda>f. (fl_id f, fl_kind f)) ` set (transactionFlows s)) \<and>
     (\<forall>a \<in> set (financialAccounts s). a_reservationId a \<noteq> None \<longrightarrow> a_purpose a = ''ESCROW'') \<and>
     (\<forall>x \<in> set (financialSwapLegs s). lg_currency x \<in> {''POINT'', ''INCOME''})"

end
