(* ===== verification/History.thy ===== *)
theory History
  imports MoneySystem Guards
begin

text \<open>
  The financial history: over any run of the money use cases no row of it is deleted or rewritten
  but forward, as the triggers of the database allow.
\<close>

section \<open>Kept rows\<close>

lemma keptRows_append: "(\<And>r. update r r) \<Longrightarrow> keptRows update rows (rows @ added)"
  by (simp add: keptRows_def list_all2_same)

lemma keptRows_map: "(\<And>r. r \<in> set rows \<Longrightarrow> update r (f r)) \<Longrightarrow> keptRows update rows (map f rows)"
  by (simp add: keptRows_def list_all2_conv_all_nth)

lemma keptRows_refl: "(\<And>r. update r r) \<Longrightarrow> keptRows update rows rows"
  using keptRows_append [of update rows "[]"] by simp

lemma keptRows_updateWhere:
  assumes "\<And>r. update r r" and "\<And>r. r \<in> set rows \<Longrightarrow> p r \<Longrightarrow> update r (f r)"
  shows "keptRows update rows (updateWhere p f rows)"
  unfolding updateWhere_def by (rule keptRows_map) (use assms in simp)

lemma keptRows_trans:
  assumes "\<And>x y z. update x y \<Longrightarrow> update y z \<Longrightarrow> update x z"
    and "keptRows update xs ys" and "keptRows update ys zs"
  shows "keptRows update xs zs"
proof -
  have len: "length xs \<le> length ys" "length ys \<le> length zs"
    using assms(2,3) by (auto simp: keptRows_def dest!: list_all2_lengthD)
  have "update (xs ! i) (zs ! i)" if "i < length xs" for i
    using assms(2,3) that len assms(1) [of "xs ! i" "ys ! i" "zs ! i"]
    by (simp add: keptRows_def list_all2_conv_all_nth)
  with len show ?thesis by (simp add: keptRows_def list_all2_conv_all_nth)
qed

lemmas update_defs = lotUpdate_def reservationUpdate_def orderUpdate_def paymentUpdate_def

lemma historyKept_refl: "historyKept s s"
  by (simp add: historyKept_def keptRows_refl update_defs)

lemma keptRows_eq_trans: "keptRows (=) xs ys \<Longrightarrow> keptRows (=) ys zs \<Longrightarrow> keptRows (=) xs zs"
  by (rule keptRows_trans [of "(=)"]) simp_all

lemma lotDrawn_trans:
  "keptRows (\<lambda>x y. lotUpdate x y \<and> l_remainingAmount y \<le> l_remainingAmount x) xs ys \<Longrightarrow>
   keptRows (\<lambda>x y. lotUpdate x y \<and> l_remainingAmount y \<le> l_remainingAmount x) ys zs \<Longrightarrow>
   keptRows (\<lambda>x y. lotUpdate x y \<and> l_remainingAmount y \<le> l_remainingAmount x) xs zs"
  by (rule keptRows_trans) (simp_all add: lotUpdate_def)

lemma reservationUpdate_trans:
  "keptRows reservationUpdate xs ys \<Longrightarrow> keptRows reservationUpdate ys zs \<Longrightarrow> keptRows reservationUpdate xs zs"
  by (rule keptRows_trans [of reservationUpdate], unfold reservationUpdate_def) (elim conjE, simp, elim disjE, simp_all)

lemma orderUpdate_trans:
  "keptRows orderUpdate xs ys \<Longrightarrow> keptRows orderUpdate ys zs \<Longrightarrow> keptRows orderUpdate xs zs"
  by (rule keptRows_trans [of orderUpdate]) (auto simp: orderUpdate_def)

lemma paymentUpdate_trans:
  "keptRows paymentUpdate xs ys \<Longrightarrow> keptRows paymentUpdate ys zs \<Longrightarrow> keptRows paymentUpdate xs zs"
  by (rule keptRows_trans [of paymentUpdate]) (auto simp: paymentUpdate_def)

lemma historyKept_trans: "historyKept s s' \<Longrightarrow> historyKept s' s'' \<Longrightarrow> historyKept s s''"
  unfolding historyKept_def
  by (elim conjE, intro conjI)
    (erule (1) lotDrawn_trans reservationUpdate_trans orderUpdate_trans paymentUpdate_trans keptRows_eq_trans)+

section \<open>One request\<close>

lemma kept_simps [simp]:
  "keptRows (=) rows rows" "keptRows (=) rows (rows @ added)"
  "keptRows reservationUpdate vs vs" "keptRows reservationUpdate vs (vs @ vs')"
  "keptRows orderUpdate rs rs" "keptRows paymentUpdate ps ps"
  "keptRows (\<lambda>x y. lotUpdate x y \<and> l_remainingAmount y \<le> l_remainingAmount x) ls ls"
  "keptRows (\<lambda>x y. lotUpdate x y \<and> l_remainingAmount y \<le> l_remainingAmount x) ls (ls @ ls')"
  by (simp_all add: keptRows_append keptRows_refl update_defs)

text \<open>Drawing on lots lowers what remains of them and nothing else.\<close>

lemma drawnFrom_nonneg: "takes_ok as \<Longrightarrow> 0 \<le> drawnFrom i as"
  unfolding drawnFrom_def by (rule sum_list_nonneg) (auto simp: takes_ok_def)

lemma kept_drawn:
  "takes_ok as \<Longrightarrow> keptRows (\<lambda>x y. lotUpdate x y \<and> l_remainingAmount y \<le> l_remainingAmount x) rows
     (map (\<lambda>l. lessLot (drawnFrom (l_id l) as) l) rows)"
  by (rule keptRows_map) (simp add: lotUpdate_def lessLot_def drawnFrom_nonneg)

lemma charge_history:
  assumes frame: "session_frame (e_session eng)" and fresh: "engine_fresh eng"
    and run: "chargePoints rt eng input s0 s = Inr (r, s')"
  shows "historyKept s s' \<and> financialReservations s' = financialReservations s"
proof -
  from chargePoints_success [OF frame run] obtain h where ex: "executePointCharge rt eng input h s = Inr (r, s')" by blast
  from ex show ?thesis
  proof (cases rule: executePointCharge_cases)
    case (Stored c)
    then show ?thesis by (simp add: historyKept_refl)
  next
    case New
    obtain account :: account_row and fi oi ci ct li lt where
      runs: "financialCommandRuns s' = financialCommandRuns s @
         [commandOf (requestFor fi (planPointChargeCommand input) (hashPointCharge rt input)) ci ct (Some oi)]" and
      opers: "financialOperations s' = financialOperations s @
         [\<lparr>oper_id = oi, oper_flowId = fi, oper_kind = CHARGE, oper_commandId = ci\<rparr>]" and
      lots: "financialLots s' = financialLots s @ [chargedLot (a_id account) fi oi (intOf (gi_amount input)) li lt]" and
      whole: "\<exists>policies. s' = s\<lparr>transactionFlows := transactionFlows s @ [\<lparr>fl_id = fi, fl_kind = POINT_CHARGE\<rparr>],
         flowCommandPolicies := policies, financialCommandRuns := financialCommandRuns s',
         financialOperations := financialOperations s', financialLots := financialLots s'\<rparr>"
      by (rule performChargeE [OF New(2) fresh]) (rule that, assumption+)
    from whole obtain policies where s': "s' = s\<lparr>
         transactionFlows := transactionFlows s @ [\<lparr>fl_id = fi, fl_kind = POINT_CHARGE\<rparr>],
         flowCommandPolicies := policies, financialCommandRuns := financialCommandRuns s',
         financialOperations := financialOperations s', financialLots := financialLots s'\<rparr>" by blast
    show ?thesis by (subst (1 2) s') (simp add: historyKept_def runs opers lots)
  qed
qed

lemma history_alias:
  assumes "s' = s\<lparr>financialCommandRuns := financialCommandRuns s @ added\<rparr>"
  shows "historyKept s s' \<and> financialReservations s' = financialReservations s"
  by (simp add: assms historyKept_def)

lemma checkout_history:
  assumes frame: "session_frame (e_session eng)" and fresh: "engine_fresh eng" and fin: "fin_ok s"
    and run: "complete rt eng input s0 s1 s = Inr (r, s')"
  shows "historyKept s s' \<and> (\<exists>more. financialReservations s' = financialReservations s @ more \<and>
    (\<forall>v \<in> set more. reservationTyped v))"
proof -
  from complete_success [OF frame run] obtain prepared where
    ex: "executeCommissionCheckout rt eng prepared s = Inr (r, s')" by blast
  from ex [unfolded execute_cases] consider
      (Answered) "replayCompletedCommissionCheckout rt eng prepared s = Inr (Some r, s')"
    | (New) t where "replayCompletedCommissionCheckout rt eng prepared s = Inr (None, t)"
        "performCommissionCheckout eng prepared t = Inr (r, s')" by blast
  then show ?thesis
  proof cases
    case Answered
    then have "\<exists>added. s' = s\<lparr>financialCommandRuns := financialCommandRuns s @ added\<rparr>"
      by (cases rule: replay_cases) (auto intro: exI [of _ "[]"])
    then show ?thesis using history_alias by fastforce
  next
    case New
    from New(1) have "t = s" by (cases rule: replay_cases) auto
    with New(2) have perf: "performCommissionCheckout eng prepared s = Inr (r, s')" by simp
    obtain plan acct as ci oi ct ai ri ei ti ki where load: "loadCommissionCheckoutPlan prepared s = Inr (plan, acct, as)" and
      tables: "financialCommandRuns s' = financialCommandRuns s @
        [commandOf (requestFor (cp_flowId plan) (cp_commandRequest plan) (pc_payloadHash prepared)) ci ct (Some oi)]"
      "financialOperations s' = financialOperations s @
        [\<lparr>oper_id = oi, oper_flowId = cp_flowId plan, oper_kind = PAY, oper_commandId = ci\<rparr>]"
      "financialTransferActions s' = financialTransferActions s @
        [\<lparr>tac_id = ai, tac_flowId = cp_flowId plan, tac_operationId = oi, tac_operationKind = PAY\<rparr>]"
      "financialLots s' = map (\<lambda>l. lessLot (drawnFrom (l_id l) as) l) (financialLots s)" and
      reservations: "financialReservations s' = financialReservations s @ [reservationOf (cp_financialRequest plan) ri]" and
      tables': "financialAccounts s' = financialAccounts s @ [escrowOf ''POINT'' ''ESCROW'' ri ei]"
      "financialTransfers s' = financialTransfers s @ [transferRowOf ri (cp_flowId plan) ''POINT'' acct ei
        (rr_amount (cp_financialRequest plan)) ai ti]"
      "financialTransferAllocations s' = financialTransferAllocations s @ map (allocRow ti acct ''POINT'') as"
      "contracts s' = contracts s @ [contractOf (cp_contract plan) ki]"
      "orderPayments s' = updateWhere (\<lambda>p. pay_id p = cp_paidPaymentId plan \<and> pay_orderId p = cp_paidOrderId plan \<and>
        pay_state p = ''PENDING'') (\<lambda>p. p\<lparr>pay_state := ''PAID''\<rparr>) (orderPayments s)"
      "orders s' = updateWhere (\<lambda>r. o_id r = cp_paidOrderId plan \<and> o_state r = ''REQUESTED'')
        (\<lambda>r. r\<lparr>o_state := ''PAID''\<rparr>) (orders s)"
      "orderFinancialLinks s' = orderFinancialLinks s @
        [\<lparr>ln_orderPaymentId = cp_paidPaymentId plan, ln_flowId = cp_paidFlowId plan, ln_reservationId = ri\<rparr>]" and
      whole: "s' = s\<lparr>financialCommandRuns := financialCommandRuns s',
       financialOperations := financialOperations s', financialTransferActions := financialTransferActions s',
       financialLots := financialLots s', financialReservations := financialReservations s',
       financialAccounts := financialAccounts s', financialTransfers := financialTransfers s',
       financialTransferAllocations := financialTransferAllocations s', contracts := contracts s',
       orderPayments := orderPayments s', orders := orders s',
       orderFinancialLinks := orderFinancialLinks s', commissionSlots := commissionSlots s'\<rparr>"
      by (rule performE [OF perf fin fresh]) (rule that, assumption+)
    from loaded_plan [OF load] obtain w where plan: "plan = checkoutPlan w (pc_input prepared)" and takes: "takes_ok as" by blast
    have paid: "keptRows paymentUpdate (orderPayments s) (orderPayments s')" "keptRows orderUpdate (orders s) (orders s')"
      unfolding tables' by (rule keptRows_updateWhere; simp add: update_defs)+
    have typedNew: "reservationTyped (reservationOf (cp_financialRequest plan) ri)"
      by (simp add: reservationTyped_def reservationOf_def plan checkoutPlan_def)
    have "financialHolders s' = financialHolders s" "financialSwapActions s' = financialSwapActions s"
      "financialSwapLegs s' = financialSwapLegs s" "financialWithdrawals s' = financialWithdrawals s"
      "transactionFlows s' = transactionFlows s"
      by (subst whole, simp)+
    then have "historyKept s s'"
      using paid by (simp add: historyKept_def tables tables'(1-4,7) reservations kept_drawn [OF takes])
    with typedNew show ?thesis by (simp add: reservations)
  qed
qed

lemma withdrawal_history:
  assumes frame: "session_frame (e_session eng)" and fresh: "engine_fresh eng" and fin: "fin_ok s"
    and run: "requestWithdrawal rt eng input s0 s = Inr (r, s')"
  shows "historyKept s s' \<and> (\<exists>more. financialReservations s' = financialReservations s @ more \<and>
    (\<forall>v \<in> set more. reservationTyped v))"
proof -
  from requestWithdrawal_success [OF frame run] obtain h where
    ex: "executeWithdrawal rt eng input h s = Inr (r, s')" by blast
  from ex show ?thesis
  proof (cases rule: executeWithdrawal_cases)
    case (Stored c)
    then show ?thesis by (simp add: historyKept_refl)
  next
    case New
    obtain account :: account_row and as fi ci ct oi ai wi ri ei ti and req :: reservation_request where
      takes: "takes_ok as" and typed: "rr_currency req = ''INCOME''" and
      tables: "financialCommandRuns s' = financialCommandRuns s @ [commandOf (requestFor fi
         \<lparr>cpl_flowKind = WITHDRAWAL, cpl_kind = WITHDRAW, cpl_principalId = wi_actorId input,
          cpl_idempotencyKey = wi_commandKey input, cpl_subjectNamespace = INCOME_WITHDRAWAL_NAMESPACE,
          cpl_subjectKey = fi\<rparr> (hashWithdrawal rt input)) ci ct (Some oi)]"
      "financialOperations s' = financialOperations s @
         [\<lparr>oper_id = oi, oper_flowId = fi, oper_kind = WITHDRAW, oper_commandId = ci\<rparr>]"
      "financialLots s' = map (\<lambda>l. lessLot (drawnFrom (l_id l) as) l) (financialLots s)" and
      reservations: "financialReservations s' = financialReservations s @ [reservationOf req ri]" and
      tables': "financialTransfers s' = financialTransfers s @
         [transferRowOf ri fi ''INCOME'' (a_id account) ei (intOf (wi_amount input)) ai ti]"
      "financialTransferAllocations s' = financialTransferAllocations s @ map (allocRow ti (a_id account) ''INCOME'') as"
      "financialWithdrawals s' = financialWithdrawals s @ [\<lparr>w_id = wi, w_flowId = fi, w_flowKind = WITHDRAWAL,
         w_operationId = oi, w_operationKind = WITHDRAW, w_transferActionId = ai, w_reservationId = ri\<rparr>]" and
      purpose: "rr_purpose req = ''INCOME_WITHDRAWAL''" and
      tables'': "financialTransferActions s' = financialTransferActions s @
         [\<lparr>tac_id = ai, tac_flowId = fi, tac_operationId = oi, tac_operationKind = WITHDRAW\<rparr>]"
      "financialAccounts s' = financialAccounts s @ [escrowOf ''INCOME'' ''ESCROW'' ri ei]" and
      whole: "\<exists>policies. s' = s\<lparr>transactionFlows := transactionFlows s @ [\<lparr>fl_id = fi, fl_kind = WITHDRAWAL\<rparr>],
         flowCommandPolicies := policies, financialCommandRuns := financialCommandRuns s',
         financialOperations := financialOperations s', financialTransferActions := financialTransferActions s',
         financialLots := financialLots s', financialReservations := financialReservations s',
         financialAccounts := financialAccounts s', financialTransfers := financialTransfers s',
         financialTransferAllocations := financialTransferAllocations s', financialWithdrawals := financialWithdrawals s'\<rparr>"
      by (rule performWithdrawalE [OF New(2) fin fresh]) (rule that, assumption+)
    from whole obtain policies where s': "s' = s\<lparr>transactionFlows := transactionFlows s @ [\<lparr>fl_id = fi, fl_kind = WITHDRAWAL\<rparr>],
         flowCommandPolicies := policies, financialCommandRuns := financialCommandRuns s',
         financialOperations := financialOperations s', financialTransferActions := financialTransferActions s',
         financialLots := financialLots s', financialReservations := financialReservations s',
         financialAccounts := financialAccounts s', financialTransfers := financialTransfers s',
         financialTransferAllocations := financialTransferAllocations s', financialWithdrawals := financialWithdrawals s'\<rparr>"
      by blast
    have typedNew: "reservationTyped (reservationOf req ri)"
      by (simp add: reservationTyped_def reservationOf_def typed purpose)
    have "financialHolders s' = financialHolders s" "financialSwapActions s' = financialSwapActions s"
      "financialSwapLegs s' = financialSwapLegs s" "orders s' = orders s" "orderPayments s' = orderPayments s"
      "orderFinancialLinks s' = orderFinancialLinks s" "contracts s' = contracts s"
      "transactionFlows s' = transactionFlows s @ [\<lparr>fl_id = fi, fl_kind = WITHDRAWAL\<rparr>]"
      by (subst s', simp)+
    then have "historyKept s s'"
      by (simp add: historyKept_def tables tables' tables'' reservations kept_drawn [OF takes])
    with typedNew show ?thesis by (simp add: reservations)
  qed
qed

text \<open>A settlement moves held points of a commission payment: the check of the row says so of held points.\<close>

lemma settlement_history:
  assumes frame: "session_frame (e_session eng)" and fresh: "engine_fresh eng" and fin: "fin_ok s"
    and typed: "\<forall>v \<in> set (financialReservations s). reservationTyped v"
    and run: "settle rt eng input s0 s1 s = Inr (r, s')"
  shows "historyKept s s' \<and> (\<forall>v \<in> set (financialReservations s'). reservationTyped v)"
proof -
  from settle_success [OF frame run] obtain h where ex: "executeSettlement rt eng input h s = Inr (r, s')" by blast
  from ex show ?thesis
  proof (cases rule: executeSettlement_cases)
    case (Stored c)
    with typed show ?thesis by (simp add: historyKept_refl)
  next
    case (Alias c result a)
    then show ?thesis using history_alias typed by fastforce
  next
    case New
    obtain w plan ci oi ct ai i t where st: "settleable w input" and plan: "plan = settlementPlan w input" and
      fund: "loadCommissionSettlementFunding (ln_reservationId (sw_fundingLink w)) s = Inr (sw_funding w)" and
      one: "countWhere (\<lambda>r. r_id r = ss_reservationId (spl_swap plan) \<and> r_flowId r = ss_flowId (spl_swap plan) \<and>
         r_state r = ''HELD'') (financialReservations s) = 1" and
      s': "s' = s\<lparr>
       financialCommandRuns := financialCommandRuns s @
         [commandOf (requestFor (spl_flowId plan) (settleCommand input) (hashSettlement rt input)) ci ct (Some oi)],
       financialOperations := financialOperations s @
         [\<lparr>oper_id = oi, oper_flowId = spl_flowId plan, oper_kind = SETTLE, oper_commandId = ci\<rparr>],
       financialSwapActions := financialSwapActions s @ [swapOf (spl_swap plan) oi ai],
       financialSwapLegs := financialSwapLegs s @ legsOf (spl_swap plan) ai,
       financialLots := financialLots s @ [incomeLotOf (spl_swap plan) oi ai i t],
       financialReservations := updateWhere (\<lambda>r. r_id r = ss_reservationId (spl_swap plan) \<and>
         r_flowId r = ss_flowId (spl_swap plan) \<and> r_state r = ''HELD'') (\<lambda>r. r\<lparr>r_state := ''SETTLED''\<rparr>)
         (financialReservations s)\<rparr>"
      by (rule performSettlementE [OF New(3) fin fresh]) (rule that, assumption+)
    let ?p = "\<lambda>r. r_id r = ss_reservationId (spl_swap plan) \<and> r_flowId r = ss_flowId (spl_swap plan) \<and> r_state r = ''HELD''"
    from loadFunding_Inr [OF fund] obtain v where
      v: "findRow (\<lambda>r. r_id r = ln_reservationId (sw_fundingLink w)) (financialReservations s) = Some v" and
      f: "cf_reservationId (sw_funding w) = r_id v" "cf_reservationFlowId (sw_funding w) = r_flowId v"
        "cf_reservationState (sw_funding w) = r_state v" "cf_reservationCurrency (sw_funding w) = r_currency v" by blast
    have "r_currency v = ''POINT''" and pv: "?p v"
      using st by (simp_all add: settleable_def funded_def Let_def f plan settlementPlan_def)
    with typed findRow_Some [OF v] have purpose: "r_purpose v = ''COMMISSION_PAYMENT''" by (auto simp: reservationTyped_def)
    from one obtain u where flt: "filter ?p (financialReservations s) = [u]" by (rule countWhere_oneE)
    then have only: "u' = v" if "u' \<in> set (financialReservations s)" "?p u'" for u'
    proof -
      have "u' \<in> set (filter ?p (financialReservations s))" "v \<in> set (filter ?p (financialReservations s))"
        using that pv findRow_Some [OF v] by simp_all
      then show ?thesis unfolding flt by simp
    qed
    have "keptRows reservationUpdate (financialReservations s) (updateWhere ?p (\<lambda>r. r\<lparr>r_state := ''SETTLED''\<rparr>) (financialReservations s))"
      by (rule keptRows_updateWhere) (use purpose only in \<open>auto simp: reservationUpdate_def\<close>)
    then have "historyKept s s'" by (simp add: historyKept_def s')
    moreover have "\<forall>v \<in> set (financialReservations s'). reservationTyped v"
      using typed by (auto simp: s' set_updateWhere reservationTyped_def)
    ultimately show ?thesis by blast
  qed
qed

section \<open>Any run\<close>

lemma step_history:
  assumes "session_frame (e_session eng)" and "engine_fresh eng" and step: "money_step rt eng s n s'" and "fin_ok s"
    and typed: "\<forall>v \<in> set (financialReservations s). reservationTyped v"
  shows "historyKept s s' \<and> (\<forall>v \<in> set (financialReservations s'). reservationTyped v)"
  using step
proof cases
  case (Charged ci s0 rc)
  then show ?thesis using charge_history [OF assms(1,2) Charged(2)] typed by simp
next
  case (Paid pi s0 s1 rp)
  then show ?thesis using checkout_history [OF assms(1,2,4) Paid(2)] typed by auto
next
  case (Settled si s0 s1 rs)
  then show ?thesis using settlement_history [OF assms(1,2,4) typed Settled(2)] by simp
next
  case (Withdrawn wi s0 rw)
  then show ?thesis using withdrawal_history [OF assms(1,2,4) Withdrawn(2)] typed by auto
qed

text \<open>C4: no run of the money use cases, of whatever requests in whatever order, deletes or rewrites the
  financial record: every transfer, allocation, action, swap leg, withdrawal, flow, command,
  operation, contract, link, holder and account is still there as it was; lots keep their
  basis and only have less left, reservations, orders and payments keep theirs and only move
  forward, held to settled, requested to paid, pending to paid, as the triggers of the
  database demand.
\<close>

theorem history_is_append_only:
  assumes "session_frame (e_session eng)" and "engine_fresh eng" and "money_run rt eng s n s'" and "money_ok s"
    and "\<forall>v \<in> set (financialReservations s). reservationTyped v"
  shows "historyKept s s' \<and> (\<forall>v \<in> set (financialReservations s'). reservationTyped v)"
proof -
  from assms(3-5) have "money_ok s' \<and> historyKept s s' \<and> (\<forall>v \<in> set (financialReservations s'). reservationTyped v)"
  proof (induction rule: money_run.induct)
    case (Start s)
    then show ?case by (simp add: historyKept_refl)
  next
    case (Then s n s' m s'')
    then have ih: "money_ok s'" "historyKept s s'" "\<forall>v \<in> set (financialReservations s'). reservationTyped v" by simp_all
    then have fin: "fin_ok s'" by (simp add: money_ok_def)
    note step = step_history [OF assms(1,2) Then.hyps(2) fin ih(3)]
    with ih money_step_keeps [OF assms(1,2) Then.hyps(2) ih(1)] historyKept_trans show ?case by blast
  qed
  then show ?thesis by simp
qed

theorem history_is_append_only_witness:
  "\<exists>s'. money_run refRuntime refEngine sampleShop 500 s' \<and> historyKept sampleShop s' \<and> leftIn ''INCOME'' s' = 70"
proof -
  obtain s' where run: "money_run refRuntime refEngine sampleShop 500 s'"
    and left: "leftIn ''POINT'' s' = 530" "leftIn ''INCOME'' s' = 70" by (rule sample_money_run)
  have "money_ok sampleShop" "\<forall>v \<in> set (financialReservations sampleShop). reservationTyped v" by code_simp+
  then show ?thesis using history_is_append_only [OF _ refEngine_fresh run] run left by auto
qed

end
