(* ===== verification/GuardLaws.thy ===== *)
theory GuardLaws
  imports History
begin

text \<open>
  The deferred checks accept what the use cases write: what a charge, a checkout or a
  withdrawal that is carried out leaves behind passes every constraint trigger it queued (the
  settlement follows in \<open>GuardSystem\<close>). The decisions of the code are at least as strict as
  these guards of the database.
\<close>

section \<open>The rows that queue a check\<close>

lemma freshRows_append:
  assumes "distinct (map u (old @ new))" and "\<And>x y. k x = k y \<Longrightarrow> u x = u y"
  shows "freshRows k old (old @ new) = new"
proof -
  have "k r \<notin> k ` set old" if "r \<in> set new" for r
  proof
    assume "k r \<in> k ` set old"
    then obtain x where x: "x \<in> set old" "k r = k x" by blast
    have "u r \<in> u ` set old" using assms(2) [OF x(2)] x(1) by simp
    moreover have "u r \<in> u ` set new" using that by simp
    ultimately show False using assms(1) unfolding map_append distinct_append set_map by blast
  qed
  then have "filter (\<lambda>r. k r \<notin> k ` set old) new = new" by simp
  then show ?thesis by (simp add: freshRows_def)
qed

lemma freshRows_same [simp]: "freshRows k rows rows = []"
  by (simp add: freshRows_def)

lemma freshRows_map: "(\<And>r. k (f r) = k r) \<Longrightarrow> freshRows k rows (map f rows) = []"
  by (auto simp: freshRows_def filter_empty_conv)

lemma rewrittenRows_append: "distinct (map k (old @ new)) \<Longrightarrow> rewrittenRows k v old (old @ new) = []"
  by (auto simp: rewrittenRows_def filter_empty_conv)

lemma rewrittenRows_same [simp]: "rewrittenRows k v rows rows = []"
  by (auto simp: rewrittenRows_def filter_empty_conv)

lemma rejected_none:
  "rejected s s' = [] \<longleftrightarrow>
     (\<forall>t \<in> set (freshRows id (financialTransfers s) (financialTransfers s')). transferConservation s' (t_id t)) \<and>
     (\<forall>l \<in> set (rewrittenRows l_id id (financialLots s) (financialLots s')). lotConservation s' (l_id l)) \<and>
     (\<forall>x \<in> set (freshRows sw_id (financialSwapActions s) (financialSwapActions s')). swapShape s' (sw_id x)) \<and>
     (\<forall>r \<in> set (rewrittenRows r_id r_state (financialReservations s) (financialReservations s')).
        r_state r = ''SETTLED'' \<longrightarrow> reservationSettlement s' (r_id r)) \<and>
     (\<forall>w \<in> set (freshRows w_id (financialWithdrawals s) (financialWithdrawals s')). withdrawalShape s' (w_id w)) \<and>
     (\<forall>c \<in> set (freshRows (\<lambda>c. (cm_id c, cm_resultOperationId c)) (financialCommandRuns s) (financialCommandRuns s')).
        cm_resultOperationId c \<noteq> None \<longrightarrow> commandEffect s' (cm_id c)) \<and>
     (\<forall>t \<in> set (freshRows t_id (financialTransfers s) (financialTransfers s')). withdrawActionTotality s' (t_actionId t)) \<and>
     (\<forall>t \<in> set (freshRows t_id (financialTransfers s) (financialTransfers s')). transferCommandCompletion s' (t_id t)) \<and>
     (\<forall>l \<in> set (freshRows l_id (financialLots s) (financialLots s')).
        l_sourceOperationKind l = Some CHARGE \<longrightarrow> pointChargeLotShape s' (l_id l))"
  unfolding rejected_def deferredChecks_defs map_is_Nil_conv filter_append append_is_Nil_conv filter_empty_conv
  by auto

section \<open>The row of a key\<close>

lemma joined_some:
  "distinct (map k rows) \<Longrightarrow> r \<in> set rows \<Longrightarrow> joined (\<lambda>x. Some (k x)) (Some (k r)) rows = [r]"
  by (rule joined_one [where u = k]) simp_all

lemma the_row:
  assumes "declaredOk s"
  shows "r \<in> set (financialReservations s) \<Longrightarrow> joined r_id (r_id r) (financialReservations s) = [r]"
    and "a \<in> set (financialAccounts s) \<Longrightarrow> joined a_id (a_id a) (financialAccounts s) = [a]"
    and "l \<in> set (financialLots s) \<Longrightarrow> joined l_id (l_id l) (financialLots s) = [l]"
    and "t \<in> set (financialTransfers s) \<Longrightarrow> joined t_id (t_id t) (financialTransfers s) = [t]"
    and "t \<in> set (financialTransfers s) \<Longrightarrow> joined t_reservationId (t_reservationId t) (financialTransfers s) = [t]"
    and "x \<in> set (financialTransferActions s) \<Longrightarrow> joined tac_id (tac_id x) (financialTransferActions s) = [x]"
    and "y \<in> set (financialSwapActions s) \<Longrightarrow> joined sw_id (sw_id y) (financialSwapActions s) = [y]"
    and "w \<in> set (financialWithdrawals s) \<Longrightarrow> joined w_id (w_id w) (financialWithdrawals s) = [w]"
    and "f \<in> set (transactionFlows s) \<Longrightarrow> joined fl_id (fl_id f) (transactionFlows s) = [f]"
    and "c \<in> set (financialCommandRuns s) \<Longrightarrow> joined cm_id (cm_id c) (financialCommandRuns s) = [c]"
    and "z \<in> set (financialOperations s) \<Longrightarrow> joined oper_id (oper_id z) (financialOperations s) = [z]"
    and "z \<in> set (financialOperations s) \<Longrightarrow> joined (\<lambda>x. Some (oper_id x)) (Some (oper_id z)) (financialOperations s) = [z]"
    and "h \<in> set (financialHolders s) \<Longrightarrow> joined h_id (h_id h) (financialHolders s) = [h]"
    and "h \<in> set (financialHolders s) \<Longrightarrow> joined (\<lambda>x. Some (h_id x)) (Some (h_id h)) (financialHolders s) = [h]"
    and "n \<in> set (orderFinancialLinks s) \<Longrightarrow> joined ln_reservationId (ln_reservationId n) (orderFinancialLinks s) = [n]"
  using assms unfolding declaredOk_def by (simp_all add: joined_key joined_some)

text \<open>A row appended to a table queues its own checks.\<close>

lemma queued:
  assumes d: "declaredOk s'"
  shows "financialTransfers s' = financialTransfers s @ [t] \<Longrightarrow>
      freshRows id (financialTransfers s) (financialTransfers s') = [t] \<and>
      freshRows t_id (financialTransfers s) (financialTransfers s') = [t]"
    and "financialReservations s' = financialReservations s @ [v] \<Longrightarrow>
      rewrittenRows r_id r_state (financialReservations s) (financialReservations s') = []"
    and "financialCommandRuns s' = financialCommandRuns s @ [c] \<Longrightarrow>
      freshRows (\<lambda>c. (cm_id c, cm_resultOperationId c)) (financialCommandRuns s) (financialCommandRuns s') = [c]"
    and "financialWithdrawals s' = financialWithdrawals s @ [w] \<Longrightarrow>
      freshRows w_id (financialWithdrawals s) (financialWithdrawals s') = [w]"
    and "financialSwapActions s' = financialSwapActions s @ [x] \<Longrightarrow>
      freshRows sw_id (financialSwapActions s) (financialSwapActions s') = [x]"
    and "financialLots s' = financialLots s @ [l] \<Longrightarrow> freshRows l_id (financialLots s) (financialLots s') = [l] \<and>
      rewrittenRows l_id id (financialLots s) (financialLots s') = []"
proof -
  note u = d [unfolded declaredOk_def]
  show "freshRows id (financialTransfers s) (financialTransfers s') = [t] \<and>
      freshRows t_id (financialTransfers s) (financialTransfers s') = [t]" if "financialTransfers s' = financialTransfers s @ [t]"
    using u unfolding that by (intro conjI freshRows_append [where u = t_id]) simp_all
  show "rewrittenRows r_id r_state (financialReservations s) (financialReservations s') = []"
    if "financialReservations s' = financialReservations s @ [v]"
    using u unfolding that by (intro rewrittenRows_append) simp
  show "freshRows (\<lambda>c. (cm_id c, cm_resultOperationId c)) (financialCommandRuns s) (financialCommandRuns s') = [c]"
    if "financialCommandRuns s' = financialCommandRuns s @ [c]"
    using u unfolding that by (intro freshRows_append [where u = cm_id]) simp_all
  show "freshRows w_id (financialWithdrawals s) (financialWithdrawals s') = [w]"
    if "financialWithdrawals s' = financialWithdrawals s @ [w]"
    using u unfolding that by (intro freshRows_append [where u = w_id]) simp_all
  show "freshRows sw_id (financialSwapActions s) (financialSwapActions s') = [x]"
    if "financialSwapActions s' = financialSwapActions s @ [x]"
    using u unfolding that by (intro freshRows_append [where u = sw_id]) simp_all
  show "freshRows l_id (financialLots s) (financialLots s') = [l] \<and>
      rewrittenRows l_id id (financialLots s) (financialLots s') = []" if "financialLots s' = financialLots s @ [l]"
    using u unfolding that by (intro conjI rewrittenRows_append freshRows_append [where u = l_id]) simp_all
qed

text \<open>The command a use case ran, whose result is the operation it created.\<close>

lemma commandEffect_own:
  assumes d: "declaredOk s" and c: "c \<in> set (financialCommandRuns s)" "cm_resultOperationId c = Some (oper_id op)"
    and op: "op \<in> set (financialOperations s)" "oper_commandId op = cm_id c"
    and effect: "typedEffect s c (oper_id op) (cm_kind c)"
  shows "commandEffect s (cm_id c)"
  using effect by (simp add: commandEffect_def the_row [OF d] c op)

lemma lots_conserved:
  assumes d: "declaredOk s" and fin: "fin_ok s" and l: "l \<in> set (financialLots s)"
  shows "lotConservation s (l_id l)"
proof -
  have "l_originalAmount l = l_remainingAmount l + takenFrom (l_id l) (financialTransferAllocations s)"
    using fin l by (simp add: fin_ok_def books_ok_def lot_ok_def)
  then show ?thesis
    by (simp add: lotConservation_def the_row(3) [OF d l]) (simp add: takenFrom_def joined_def)
qed

section \<open>Charging\<close>

text \<open>
  Reads made before the transaction see an older database. Its holders are still there: the
  table only grows, as \<open>historyKept\<close> states of every use case.
\<close>

definition holdersKept :: "db \<Rightarrow> db \<Rightarrow> bool" where
  "holdersKept s0 s \<longleftrightarrow> set (financialHolders s0) \<subseteq> set (financialHolders s)"

lemma charge_checked:
  assumes frame: "session_frame (e_session eng)" and fresh: "engine_fresh eng" and kept: "holdersKept s0 s"
    and run: "chargePoints rt eng input s0 s = Inr (r, s')" and d: "declaredOk s'"
  shows "rejected s s' = []"
proof -
  from chargePoints_success [OF frame run] obtain h where
    h: "findHolderId ''user'' (showInt (gi_actorId input)) s0 = Inr h" and
    ex: "executePointCharge rt eng input h s = Inr (r, s')" by blast
  from h kept obtain holder where holder: "holder \<in> set (financialHolders s)" "h_namespace holder = ''user''"
    "h_key holder = showInt (gi_actorId input)" "h = h_id holder"
    by (auto simp: read_simps holdersKept_def dest: findRow_Some)
  from ex show ?thesis
  proof (cases rule: executePointCharge_cases)
    case (Stored c)
    then show ?thesis by (simp add: rejected_none)
  next
    case New
    obtain account :: account_row and fi oi ci ct li lt where
      account: "accountOf h ''POINT'' ''AVAILABLE'' s = Some account" and pos: "0 < intOf (gi_amount input)" and
      runs: "financialCommandRuns s' = financialCommandRuns s @
         [commandOf (requestFor fi (planPointChargeCommand input) (hashPointCharge rt input)) ci ct (Some oi)]" and
      opers: "financialOperations s' = financialOperations s @
         [\<lparr>oper_id = oi, oper_flowId = fi, oper_kind = CHARGE, oper_commandId = ci\<rparr>]" and
      lots: "financialLots s' = financialLots s @ [chargedLot (a_id account) fi oi (intOf (gi_amount input)) li lt]" and
      keep: "financialTransfers s' = financialTransfers s" "financialReservations s' = financialReservations s"
        "financialHolders s' = financialHolders s" "financialAccounts s' = financialAccounts s" and
      whole: "\<exists>policies. s' = s\<lparr>transactionFlows := transactionFlows s @ [\<lparr>fl_id = fi, fl_kind = POINT_CHARGE\<rparr>],
         flowCommandPolicies := policies, financialCommandRuns := financialCommandRuns s',
         financialOperations := financialOperations s', financialLots := financialLots s'\<rparr>"
      by (rule performChargeE [OF New(2) fresh]) (rule that, (assumption | simp)+)
    from whole obtain policies where s': "s' = s\<lparr>
         transactionFlows := transactionFlows s @ [\<lparr>fl_id = fi, fl_kind = POINT_CHARGE\<rparr>],
         flowCommandPolicies := policies, financialCommandRuns := financialCommandRuns s',
         financialOperations := financialOperations s', financialLots := financialLots s'\<rparr>" by blast
    have keep': "financialSwapActions s' = financialSwapActions s" "financialWithdrawals s' = financialWithdrawals s"
      by (subst s', simp)+
    define c where "c = commandOf (requestFor fi (planPointChargeCommand input) (hashPointCharge rt input)) ci ct (Some oi)"
    define oper where "oper = \<lparr>oper_id = oi, oper_flowId = fi, oper_kind = CHARGE, oper_commandId = ci\<rparr>"
    define lot where "lot = chargedLot (a_id account) fi oi (intOf (gi_amount input)) li lt"
    have rows: "c \<in> set (financialCommandRuns s')" "oper \<in> set (financialOperations s')" "lot \<in> set (financialLots s')"
      "account \<in> set (financialAccounts s')" "holder \<in> set (financialHolders s')"
      using findRow_Some [OF account [unfolded accountOf_def]] holder(1)
      by (simp_all add: runs opers lots keep c_def oper_def lot_def)
    have cols: "cm_resultOperationId c = Some (oper_id oper)" "oper_commandId oper = cm_id c"
      "l_accountId lot = a_id account" "l_sourceOperationId lot = Some (oper_id oper)" "a_holderId account = Some (h_id holder)"
      "a_currency account = ''POINT''" "a_purpose account = ''AVAILABLE''" "cm_kind c = CHARGE" "cm_flowKind c = POINT_CHARGE"
      "cm_subjectNamespace c = ''point-charge-payment''" "h_key holder = showInt (cm_principalId c)" "oper_kind oper = CHARGE"
      "l_sourceFlowId lot = Some (cm_flowId c)"
      using findRow_Some [OF account [unfolded accountOf_def]] holder(3,4)
      by (simp_all add: c_def oper_def lot_def chargedLot_def planPointChargeCommand_def POINT_CHARGE_PAYMENT_NAMESPACE_def)
    have issued: "l_currency lot = ''POINT''" "l_sourceKind lot = ''PAID''" "l_sourceSwapActionId lot = None"
      "l_sourceFlowKind lot = Some POINT_CHARGE" "l_sourceOperationKind lot = Some CHARGE" "l_issuanceReason lot = Some ''PURCHASE''"
      "l_accountingCategory lot = Some ''CUSTOMER_ADVANCE''" "l_accountingPolicyVersion lot = Some ''point-charge-v1''"
      "0 < l_originalAmount lot" "l_remainingAmount lot = l_originalAmount lot"
      using pos by (simp_all add: lot_def chargedLot_def POINT_CHARGE_ACCOUNTING_POLICY_VERSION_def)
    have "pointChargeLotShape s' (l_id lot)"
      unfolding pointChargeLotShape_def by (simp add: the_row [OF d] rows cols issued holder(2))
    moreover have "typedEffect s' c (oper_id oper) CHARGE"
      using rows(3) by (auto simp: someRow_def the_row [OF d] rows cols issued holder(2) intro!: bexI [of _ lot])
    then have "commandEffect s' (cm_id c)"
      by (intro commandEffect_own [OF d rows(1) cols(1) rows(2) cols(2)]) (simp add: cols)
    ultimately show ?thesis by (simp add: rejected_none keep keep' queued(3) [OF d runs [folded c_def]] queued(6) [OF d lots [folded lot_def]])
  qed
qed

section \<open>Booking a transfer\<close>

text \<open>A transfer with the rows around it, related as the two reservation executors write them.\<close>

definition bookedBy :: "db \<Rightarrow> transfer_row \<Rightarrow> reservation_row \<Rightarrow> account_row \<Rightarrow> account_row \<Rightarrow>
    taction_row \<Rightarrow> operation_row \<Rightarrow> command_row \<Rightarrow> bool" where
  "bookedBy s t v source escrow action oper c \<longleftrightarrow>
     t \<in> set (financialTransfers s) \<and> v \<in> set (financialReservations s) \<and> source \<in> set (financialAccounts s) \<and>
     escrow \<in> set (financialAccounts s) \<and> action \<in> set (financialTransferActions s) \<and>
     oper \<in> set (financialOperations s) \<and> c \<in> set (financialCommandRuns s) \<and>
     t_reservationId t = r_id v \<and> t_fromAccountId t = a_id source \<and> t_toAccountId t = a_id escrow \<and>
     t_actionId t = tac_id action \<and> tac_operationId action = oper_id oper \<and> oper_commandId oper = cm_id c \<and>
     cm_resultOperationId c = Some (oper_id oper) \<and> t_amount t = r_targetAmount v \<and> t_currency t = r_currency v \<and>
     t_flowId t = cm_flowId c \<and> oper_flowId oper = cm_flowId c \<and> tac_flowId action = cm_flowId c \<and>
     oper_kind oper = cm_kind c \<and> tac_operationKind action = cm_kind c \<and>
     a_holderId source = Some (r_holderId v) \<and> a_purpose source = ''AVAILABLE'' \<and>
     a_reservationId escrow = Some (r_id v) \<and> a_purpose escrow = ''ESCROW'' \<and>
     (r_purpose v = ''COMMISSION_PAYMENT'' \<and> r_currency v = ''POINT'' \<and> cm_flowKind c = COMMISSION \<and> cm_kind c = PAY \<or>
      r_purpose v = ''INCOME_WITHDRAWAL'' \<and> r_currency v = ''INCOME'' \<and> cm_flowKind c = WITHDRAWAL \<and> cm_kind c = WITHDRAW)"

lemma new_allocations:
  assumes fin: "fin_ok s" and i: "i \<notin> t_id ` set (financialTransfers s)"
  shows "joined ta_transferId i (financialTransferAllocations s @ map (allocRow i from cur) as) = map (allocRow i from cur) as"
proof -
  have "i \<notin> ta_transferId ` set (financialTransferAllocations s)" using fin i by (auto simp: fin_ok_def books_ok_def)
  then have "filter (\<lambda>a. ta_transferId a = i) (financialTransferAllocations s) = []" by (auto simp: filter_empty_conv)
  then show ?thesis by (simp add: joined_def filter_map comp_def) (simp add: allocRow_def)
qed

lemma booked_transfer_checked:
  assumes d: "declaredOk s" and fin: "fin_ok s" and rows: "bookedBy s t v source escrow action oper c" and pos: "0 < t_amount t"
    and allocs: "joined ta_transferId (t_id t) (financialTransferAllocations s) = map (allocRow (t_id t) (a_id source) (t_currency t)) as"
    and lots: "\<forall>a \<in> set as. \<forall>l \<in> set (financialLots s). l_id l = fa_lotId a \<longrightarrow>
      l_accountId l = a_id source \<and> l_currency l = t_currency t"
  shows "transferConservation s (t_id t)" and "transferCommandCompletion s (t_id t)"
proof -
  note b = rows [unfolded bookedBy_def]
  from b have "(cm_flowId c, cm_flowKind c) \<in> (\<lambda>f. (fl_id f, fl_kind f)) ` set (transactionFlows s)"
    using d by (simp add: declaredOk_def)
  then obtain f where f: "f \<in> set (transactionFlows s)" "cm_flowId c = fl_id f" "cm_flowKind c = fl_kind f" by auto
  have "t_amount t = movedBy (t_id t) (financialTransferAllocations s)" using fin b unfolding fin_ok_def books_ok_def by blast
  also have "\<dots> = (\<Sum>a\<leftarrow>joined ta_transferId (t_id t) (financialTransferAllocations s). ta_amount a)"
    by (simp add: movedBy_def joined_def)
  also have "\<dots> = (\<Sum>a\<leftarrow>as. fa_amount a)" unfolding allocs by (simp add: allocRow_def comp_def)
  finally have sum: "(\<Sum>a\<leftarrow>as. fa_amount a) = t_amount t" ..
  with pos have "as \<noteq> []" by auto
  moreover have "\<forall>a \<in> set (map (allocRow (t_id t) (a_id source) (t_currency t)) as). ta_fromAccountId a = t_fromAccountId t \<and>
      ta_currency a = t_currency t \<and> (\<forall>l \<in> set (joined l_id (ta_lotId a) (financialLots s)).
        l_accountId l = t_fromAccountId t \<and> l_currency l = t_currency t)"
    using lots b by (auto simp: allocRow_def)
  moreover have "(\<Sum>a\<leftarrow>map (allocRow (t_id t) (a_id source) (t_currency t)) as. ta_amount a) = t_amount t"
    using sum by (simp add: allocRow_def comp_def)
  ultimately have groups: "let allocations = joined ta_transferId (t_id t) (financialTransferAllocations s) in
      allocations \<noteq> [] \<and> (\<Sum>a\<leftarrow>allocations. ta_amount a) = t_amount t \<and>
      (\<forall>a \<in> set allocations. ta_fromAccountId a = t_fromAccountId t \<and> ta_currency a = t_currency t \<and>
         (\<forall>l \<in> set (joined l_id (ta_lotId a) (financialLots s)).
            l_accountId l = t_fromAccountId t \<and> l_currency l = t_currency t))"
    unfolding allocs Let_def by simp
  have "transferConservation s (t_id t)"
    unfolding transferConservation_def using b groups
    by (simp del: in_joined add: the_row [OF d] f)
  moreover have "transferCommandCompletion s (t_id t)"
    unfolding transferCommandCompletion_def using b by (simp add: the_row [OF d] someRow_def)
  ultimately show "transferConservation s (t_id t)" and "transferCommandCompletion s (t_id t)" by blast+
qed

text \<open>The lots a reservation drew on, after it drew on them.\<close>

lemma drawn_lots:
  assumes d: "distinct (map l_id (financialLots s'))"
    and lots: "financialLots s' = map (\<lambda>l. lessLot (drawnFrom (l_id l) as) l) (financialLots s)"
    and own: "\<forall>a \<in> set as. \<exists>l \<in> set (financialLots s). l_id l = fa_lotId a \<and> l_accountId l = i"
    and cur: "\<forall>a \<in> set as. \<exists>l \<in> set (financialLots s). l_id l = fa_lotId a \<and> l_currency l = c"
    and a: "a \<in> set as" and l: "l \<in> set (financialLots s')" "l_id l = fa_lotId a"
  shows "l_accountId l = i \<and> l_currency l = c"
proof -
  have d0: "distinct (map l_id (financialLots s))" using d unfolding lots by (simp add: comp_def)
  from l obtain m where m: "m \<in> set (financialLots s)" "l = lessLot (drawnFrom (l_id m) as) m" by (auto simp: lots)
  from own a obtain x where x: "x \<in> set (financialLots s)" "l_id x = fa_lotId a" "l_accountId x = i" by blast
  from cur a obtain y where y: "y \<in> set (financialLots s)" "l_id y = fa_lotId a" "l_currency y = c" by blast
  have "m = x" "m = y" using distinct_key_unique [OF d0] m x(1,2) y(1,2) l(2) by simp_all
  with x(3) y(3) m(2) show ?thesis by simp
qed

lemma drawing_queues_nothing_new:
  assumes "financialLots s' = map (\<lambda>l. lessLot (drawnFrom (l_id l) as) l) (financialLots s)"
  shows "freshRows l_id (financialLots s) (financialLots s') = []"
  unfolding assms by (auto simp: freshRows_def filter_empty_conv)

lemma rewritten_lots_conserved:
  assumes "declaredOk s'" and "fin_ok s'"
  shows "\<forall>l \<in> set (rewrittenRows l_id id (financialLots s) (financialLots s')). lotConservation s' (l_id l)"
  using lots_conserved [OF assms] by (simp add: rewrittenRows_def)

section \<open>Withdrawing\<close>

text \<open>What a withdrawal that is carried out adds, in the terms of the guards.\<close>

lemma withdrawal_written:
  assumes perf: "performWithdrawal rt eng input h s = Inr (r, s')" and fin: "fin_ok s" and fresh: "engine_fresh eng"
    and d: "declaredOk s'"
  obtains t v source escrow action oper c w as where
    "bookedBy s' t v source escrow action oper c" "0 < t_amount t" "fin_ok s'"
    "joined ta_transferId (t_id t) (financialTransferAllocations s') = map (allocRow (t_id t) (a_id source) (t_currency t)) as"
    "\<forall>a \<in> set as. \<forall>l \<in> set (financialLots s'). l_id l = fa_lotId a \<longrightarrow>
      l_accountId l = a_id source \<and> l_currency l = t_currency t"
    "financialTransfers s' = financialTransfers s @ [t]" "financialReservations s' = financialReservations s @ [v]"
    "financialCommandRuns s' = financialCommandRuns s @ [c]" "financialWithdrawals s' = financialWithdrawals s @ [w]"
    "financialLots s' = map (\<lambda>l. lessLot (drawnFrom (l_id l) as) l) (financialLots s)"
    "financialSwapActions s' = financialSwapActions s" "financialHolders s' = financialHolders s"
    "r_holderId v = h" "r_state v = ''HELD''" "r_purpose v = ''INCOME_WITHDRAWAL''" "r_currency v = ''INCOME''"
    "r_bindingNamespace v = ''income-withdrawal''" "r_bindingKey v = w_flowId w"
    "cm_principalId c = wi_actorId input" "cm_subjectNamespace c = ''income-withdrawal''" "cm_subjectKey c = w_flowId w"
    "cm_kind c = WITHDRAW" "cm_flowId c = w_flowId w" "w_flowKind w = WITHDRAWAL" "w_operationKind w = WITHDRAW"
    "w_operationId w = oper_id oper" "w_transferActionId w = tac_id action" "w_reservationId w = r_id v"
proof -
  obtain account :: account_row and as fi ci ct oi ai wi ri ei ti and req :: reservation_request where
    account: "accountOf h ''INCOME'' ''AVAILABLE'' s = Some account" and pos: "0 < intOf (wi_amount input)" and
    own: "\<forall>a \<in> set as. \<exists>l \<in> set (financialLots s). l_id l = fa_lotId a \<and> l_accountId l = a_id account \<and> l_currency l = ''INCOME''" and
    fin': "fin_ok s'" and req: "rr_amount req = intOf (wi_amount input)" "rr_currency req = ''INCOME''" and
    tables: "financialCommandRuns s' = financialCommandRuns s @ [commandOf (requestFor fi
       \<lparr>cpl_flowKind = WITHDRAWAL, cpl_kind = WITHDRAW, cpl_principalId = wi_actorId input,
        cpl_idempotencyKey = wi_commandKey input, cpl_subjectNamespace = INCOME_WITHDRAWAL_NAMESPACE,
        cpl_subjectKey = fi\<rparr> (hashWithdrawal rt input)) ci ct (Some oi)]"
    "financialOperations s' = financialOperations s @
       [\<lparr>oper_id = oi, oper_flowId = fi, oper_kind = WITHDRAW, oper_commandId = ci\<rparr>]"
    "financialLots s' = map (\<lambda>l. lessLot (drawnFrom (l_id l) as) l) (financialLots s)"
    "financialReservations s' = financialReservations s @ [reservationOf req ri]"
    "financialTransfers s' = financialTransfers s @
       [transferRowOf ri fi ''INCOME'' (a_id account) ei (intOf (wi_amount input)) ai ti]"
    "financialTransferAllocations s' = financialTransferAllocations s @ map (allocRow ti (a_id account) ''INCOME'') as"
    "financialWithdrawals s' = financialWithdrawals s @ [\<lparr>w_id = wi, w_flowId = fi, w_flowKind = WITHDRAWAL,
       w_operationId = oi, w_operationKind = WITHDRAW, w_transferActionId = ai, w_reservationId = ri\<rparr>]" and
    req': "rr_holderId req = h" "rr_purpose req = ''INCOME_WITHDRAWAL''"
      "rr_bindingNamespace req = INCOME_WITHDRAWAL_NAMESPACE" "rr_bindingKey req = fi" and
    tables': "financialTransferActions s' = financialTransferActions s @
       [\<lparr>tac_id = ai, tac_flowId = fi, tac_operationId = oi, tac_operationKind = WITHDRAW\<rparr>]"
    "financialAccounts s' = financialAccounts s @ [escrowOf ''INCOME'' ''ESCROW'' ri ei]" and
    whole: "\<exists>policies. s' = s\<lparr>transactionFlows := transactionFlows s @ [\<lparr>fl_id = fi, fl_kind = WITHDRAWAL\<rparr>],
       flowCommandPolicies := policies, financialCommandRuns := financialCommandRuns s',
       financialOperations := financialOperations s', financialTransferActions := financialTransferActions s',
       financialLots := financialLots s', financialReservations := financialReservations s',
       financialAccounts := financialAccounts s', financialTransfers := financialTransfers s',
       financialTransferAllocations := financialTransferAllocations s', financialWithdrawals := financialWithdrawals s'\<rparr>"
    by (rule performWithdrawalE [OF perf fin fresh]) (rule that, (assumption | simp)+)
  from whole obtain policies where s': "s' = s\<lparr>transactionFlows := transactionFlows s @ [\<lparr>fl_id = fi, fl_kind = WITHDRAWAL\<rparr>],
       flowCommandPolicies := policies, financialCommandRuns := financialCommandRuns s',
       financialOperations := financialOperations s', financialTransferActions := financialTransferActions s',
       financialLots := financialLots s', financialReservations := financialReservations s',
       financialAccounts := financialAccounts s', financialTransfers := financialTransfers s',
       financialTransferAllocations := financialTransferAllocations s', financialWithdrawals := financialWithdrawals s'\<rparr>" by blast
  have keep: "financialSwapActions s' = financialSwapActions s" "financialHolders s' = financialHolders s"
    by (subst s', simp)+
  have "ti \<notin> t_id ` set (financialTransfers s)" using d by (simp add: declaredOk_def tables(5) transferRowOf_def)
  note allocated = new_allocations [OF fin this, of "a_id account" "''INCOME''" as]
  have drawn: "\<forall>a \<in> set as. \<forall>l \<in> set (financialLots s'). l_id l = fa_lotId a \<longrightarrow>
      l_accountId l = a_id account \<and> l_currency l = ''INCOME''"
  proof (intro ballI impI)
    fix a l assume "a \<in> set as" "l \<in> set (financialLots s')" "l_id l = fa_lotId a"
    then show "l_accountId l = a_id account \<and> l_currency l = ''INCOME''"
      by (rule drawn_lots [OF _ tables(3), rotated 3]) (use d own in \<open>auto simp: declaredOk_def\<close>)
  qed
  define t where "t = transferRowOf ri fi ''INCOME'' (a_id account) ei (intOf (wi_amount input)) ai ti"
  define action where "action = \<lparr>tac_id = ai, tac_flowId = fi, tac_operationId = oi, tac_operationKind = WITHDRAW\<rparr>"
  define oper where "oper = \<lparr>oper_id = oi, oper_flowId = fi, oper_kind = WITHDRAW, oper_commandId = ci\<rparr>"
  note rows = findRow_Some [OF account [unfolded accountOf_def]]
  show thesis
  proof (rule that [OF _ _ fin' _ _ tables(5,4,1,7,3) keep, folded t_def, of account "escrowOf ''INCOME'' ''ESCROW'' ri ei" action oper])
    show "bookedBy s' t (reservationOf req ri) account (escrowOf ''INCOME'' ''ESCROW'' ri ei) action oper
       (commandOf (requestFor fi \<lparr>cpl_flowKind = WITHDRAWAL, cpl_kind = WITHDRAW, cpl_principalId = wi_actorId input,
        cpl_idempotencyKey = wi_commandKey input, cpl_subjectNamespace = INCOME_WITHDRAWAL_NAMESPACE,
        cpl_subjectKey = fi\<rparr> (hashWithdrawal rt input)) ci ct (Some oi))"
      using rows by (simp add: bookedBy_def tables tables' t_def action_def oper_def req req' booking_defs)
    show "joined ta_transferId (t_id t) (financialTransferAllocations s') = map (allocRow (t_id t) (a_id account) (t_currency t)) as"
      using allocated by (simp add: tables(6) t_def transferRowOf_def)
    show "\<forall>a \<in> set as. \<forall>l \<in> set (financialLots s'). l_id l = fa_lotId a \<longrightarrow>
        l_accountId l = a_id account \<and> l_currency l = t_currency t"
      using drawn by (simp add: t_def transferRowOf_def)
  qed (simp_all add: pos t_def action_def oper_def req req' booking_defs INCOME_WITHDRAWAL_NAMESPACE_def)
qed

lemma withdrawal_checked:
  assumes frame: "session_frame (e_session eng)" and fresh: "engine_fresh eng" and fin: "fin_ok s" and kept: "holdersKept s0 s"
    and run: "requestWithdrawal rt eng input s0 s = Inr (r, s')" and d: "declaredOk s'"
  shows "rejected s s' = []"
proof -
  from requestWithdrawal_success [OF frame run] obtain h where
    h: "findHolderId ''user'' (showInt (wi_actorId input)) s0 = Inr h" and
    ex: "executeWithdrawal rt eng input h s = Inr (r, s')" by blast
  from h kept obtain holder where holder: "holder \<in> set (financialHolders s)" "h_namespace holder = ''user''"
    "h_key holder = showInt (wi_actorId input)" "h = h_id holder"
    by (auto simp: read_simps holdersKept_def dest: findRow_Some)
  from ex show ?thesis
  proof (cases rule: executeWithdrawal_cases)
    case (Stored c)
    then show ?thesis by (simp add: rejected_none)
  next
    case New
    obtain t :: transfer_row and v source escrow action oper c and w :: withdrawal_row and as :: "FinancialAllocation list" where
      booked: "bookedBy s' t v source escrow action oper c" and booking: "0 < t_amount t" "fin_ok s'"
        "joined ta_transferId (t_id t) (financialTransferAllocations s') = map (allocRow (t_id t) (a_id source) (t_currency t)) as"
        "\<forall>a \<in> set as. \<forall>l \<in> set (financialLots s'). l_id l = fa_lotId a \<longrightarrow>
          l_accountId l = a_id source \<and> l_currency l = t_currency t" and
      tables: "financialTransfers s' = financialTransfers s @ [t]" "financialReservations s' = financialReservations s @ [v]"
        "financialCommandRuns s' = financialCommandRuns s @ [c]" "financialWithdrawals s' = financialWithdrawals s @ [w]"
        "financialLots s' = map (\<lambda>l. lessLot (drawnFrom (l_id l) as) l) (financialLots s)" and
      keep: "financialSwapActions s' = financialSwapActions s" "financialHolders s' = financialHolders s" and
      cols: "r_holderId v = h" "r_state v = ''HELD''" "r_purpose v = ''INCOME_WITHDRAWAL''" "r_currency v = ''INCOME''"
        "r_bindingNamespace v = ''income-withdrawal''" "r_bindingKey v = w_flowId w"
        "cm_principalId c = wi_actorId input" "cm_subjectNamespace c = ''income-withdrawal''" "cm_subjectKey c = w_flowId w"
        "cm_kind c = WITHDRAW" "cm_flowId c = w_flowId w" "w_flowKind w = WITHDRAWAL" "w_operationKind w = WITHDRAW"
        "w_operationId w = oper_id oper" "w_transferActionId w = tac_id action" "w_reservationId w = r_id v"
      by (rule withdrawal_written [OF New(2) fin fresh d]) (rule that, (assumption | simp)+)
    note b = booked [unfolded bookedBy_def]
    have w: "w \<in> set (financialWithdrawals s')" and hold: "holder \<in> set (financialHolders s')"
      using holder(1) by (simp_all add: tables(4) keep)
    have joins: "joined t_reservationId (r_id v) (financialTransfers s') = [t]" "r_holderId v = h_id holder"
      using the_row(5) [OF d, of t] b cols(1) holder(4) by simp_all
    have "withdrawalShape s' (w_id w)"
      unfolding withdrawalShape_def using b w hold
      by (simp add: the_row [OF d] cols(2-) joins holder(2,3))
    moreover have "withdrawActionTotality s' (t_actionId t)"
      using w b cols(15) by (auto simp: withdrawActionTotality_def joined_def filter_empty_conv)
    moreover have "typedEffect s' c (oper_id oper) (cm_kind c)"
      using w by (auto simp: cols(10-) someRow_def intro!: bexI [of _ w])
    then have "commandEffect s' (cm_id c)" using b by (intro commandEffect_own [OF d]) simp_all
    moreover note booked_transfer_checked [OF d booking(2) booked booking(1,3,4)] rewritten_lots_conserved [OF d booking(2)]
      drawing_queues_nothing_new [OF tables(5)]
    ultimately show ?thesis by (simp add: rejected_none keep queued(1) [OF d tables(1)] queued(2) [OF d tables(2)]
        queued(3) [OF d tables(3)] queued(4) [OF d tables(4)])
  qed
qed

section \<open>Checking out\<close>

text \<open>What a checkout that is carried out adds, in the terms of the guards.\<close>

lemma checkout_written:
  assumes perf: "performCommissionCheckout eng prepared s = Inr (r, s')" and fin: "fin_ok s" and fresh: "engine_fresh eng"
    and d: "declaredOk s'"
  obtains t v source escrow action oper c as where
    "bookedBy s' t v source escrow action oper c" "0 < t_amount t" "fin_ok s'" "cm_kind c = PAY"
    "joined ta_transferId (t_id t) (financialTransferAllocations s') = map (allocRow (t_id t) (a_id source) (t_currency t)) as"
    "\<forall>a \<in> set as. \<forall>l \<in> set (financialLots s'). l_id l = fa_lotId a \<longrightarrow>
      l_accountId l = a_id source \<and> l_currency l = t_currency t"
    "financialTransfers s' = financialTransfers s @ [t]" "financialReservations s' = financialReservations s @ [v]"
    "financialCommandRuns s' = financialCommandRuns s @ [c]"
    "financialLots s' = map (\<lambda>l. lessLot (drawnFrom (l_id l) as) l) (financialLots s)"
    "financialSwapActions s' = financialSwapActions s" "financialWithdrawals s' = financialWithdrawals s"
proof -
  obtain plan acct as ci oi ct ai ri ei ti where load: "loadCommissionCheckoutPlan prepared s = Inr (plan, acct, as)" and
    fin': "fin_ok s'" and own: "\<forall>a \<in> set as. \<exists>l \<in> set (financialLots s). l_id l = fa_lotId a \<and> l_accountId l = acct" and
    tables: "financialCommandRuns s' = financialCommandRuns s @
      [commandOf (requestFor (cp_flowId plan) (cp_commandRequest plan) (pc_payloadHash prepared)) ci ct (Some oi)]"
    "financialOperations s' = financialOperations s @
      [\<lparr>oper_id = oi, oper_flowId = cp_flowId plan, oper_kind = PAY, oper_commandId = ci\<rparr>]"
    "financialTransferActions s' = financialTransferActions s @
      [\<lparr>tac_id = ai, tac_flowId = cp_flowId plan, tac_operationId = oi, tac_operationKind = PAY\<rparr>]"
    "financialLots s' = map (\<lambda>l. lessLot (drawnFrom (l_id l) as) l) (financialLots s)"
    "financialReservations s' = financialReservations s @ [reservationOf (cp_financialRequest plan) ri]"
    "financialAccounts s' = financialAccounts s @ [escrowOf ''POINT'' ''ESCROW'' ri ei]"
    "financialTransfers s' = financialTransfers s @ [transferRowOf ri (cp_flowId plan) ''POINT'' acct ei
      (rr_amount (cp_financialRequest plan)) ai ti]"
    "financialTransferAllocations s' = financialTransferAllocations s @ map (allocRow ti acct ''POINT'') as" and
    whole: "s' = s\<lparr>financialCommandRuns := financialCommandRuns s',
     financialOperations := financialOperations s', financialTransferActions := financialTransferActions s',
     financialLots := financialLots s', financialReservations := financialReservations s',
     financialAccounts := financialAccounts s', financialTransfers := financialTransfers s',
     financialTransferAllocations := financialTransferAllocations s', contracts := contracts s',
     orderPayments := orderPayments s', orders := orders s',
     orderFinancialLinks := orderFinancialLinks s', commissionSlots := commissionSlots s'\<rparr>"
    by (rule performE [OF perf fin fresh]) (rule that, (assumption | simp)+)
  from loadCommissionCheckoutPlan_Inr [OF load] obtain order payment slot workerId holderId account where
    pay: "payable \<lparr>cw_order = order, cw_payment = paymentFacts payment, cw_termsWorkerId = workerId,
      cw_termsPrice = o_amount order, cw_slot = slot, cw_holderId = holderId\<rparr> (pc_input prepared)" and
    planned: "plan = checkoutPlan \<lparr>cw_order = order, cw_payment = paymentFacts payment, cw_termsWorkerId = workerId,
      cw_termsPrice = o_amount order, cw_slot = slot, cw_holderId = holderId\<rparr> (pc_input prepared)" and
    account: "accountOf holderId ''POINT'' ''AVAILABLE'' s = Some account" "acct = a_id account" and
    drawn: "planReservation (map lotBalance (lotsOf account (\<lambda>l. 0 < l_remainingAmount l) s)) (JInt (o_amount order)) = Inr as"
    by (elim exE conjE) (rule that, assumption+)
  define w where "w = \<lparr>cw_order = order, cw_payment = paymentFacts payment, cw_termsWorkerId = workerId,
      cw_termsPrice = o_amount order, cw_slot = slot, cw_holderId = holderId\<rparr>"
  have plan: "plan = checkoutPlan w (pc_input prepared)" "cw_holderId w = holderId" "pf_amount (cw_payment w) = o_amount order"
    using pay by (simp_all add: planned w_def payable_def paymentFacts_def)
  have keep: "financialSwapActions s' = financialSwapActions s" "financialWithdrawals s' = financialWithdrawals s"
    by (subst whole, simp)+
  have "ti \<notin> t_id ` set (financialTransfers s)" using d by (simp add: declaredOk_def tables(7) transferRowOf_def)
  note allocated = new_allocations [OF fin this, of acct "''POINT''" as]
  have lots: "\<forall>a \<in> set as. \<forall>l \<in> set (financialLots s'). l_id l = fa_lotId a \<longrightarrow> l_accountId l = acct \<and> l_currency l = ''POINT''"
  proof (intro ballI impI)
    fix a l assume "a \<in> set as" "l \<in> set (financialLots s')" "l_id l = fa_lotId a"
    then show "l_accountId l = acct \<and> l_currency l = ''POINT''"
      by (rule drawn_lots [OF _ tables(4) own checkout_lots(1) [OF load], rotated]) (use d in \<open>simp add: declaredOk_def\<close>)
  qed
  define t where "t = transferRowOf ri (cp_flowId plan) ''POINT'' acct ei (rr_amount (cp_financialRequest plan)) ai ti"
  define action where "action = \<lparr>tac_id = ai, tac_flowId = cp_flowId plan, tac_operationId = oi, tac_operationKind = PAY\<rparr>"
  define oper where "oper = \<lparr>oper_id = oi, oper_flowId = cp_flowId plan, oper_kind = PAY, oper_commandId = ci\<rparr>"
  define c where "c = commandOf (requestFor (cp_flowId plan) (cp_commandRequest plan) (pc_payloadHash prepared)) ci ct (Some oi)"
  note rows = findRow_Some [OF account(1) [unfolded accountOf_def]]
  show thesis
  proof (rule that [OF _ _ fin' _ _ _ tables(7,5,1,4) keep, folded t_def c_def, of account "escrowOf ''POINT'' ''ESCROW'' ri ei" action oper])
    show "bookedBy s' t (reservationOf (cp_financialRequest plan) ri) account (escrowOf ''POINT'' ''ESCROW'' ri ei) action oper c"
      using rows plan(1,2) by (simp add: bookedBy_def tables t_def c_def action_def oper_def booking_defs account(2)
          checkoutPlan_def planCommissionCheckoutCommand_def)
    show "joined ta_transferId (t_id t) (financialTransferAllocations s') = map (allocRow (t_id t) (a_id account) (t_currency t)) as"
      using allocated by (simp add: tables(8) t_def transferRowOf_def account(2))
    show "\<forall>a \<in> set as. \<forall>l \<in> set (financialLots s'). l_id l = fa_lotId a \<longrightarrow>
        l_accountId l = a_id account \<and> l_currency l = t_currency t"
      using lots by (simp add: t_def transferRowOf_def account(2))
    show "0 < t_amount t" using planReservation_allocations(2) [OF drawn] by (simp add: t_def transferRowOf_def plan(1,3) checkoutPlan_def)
    show "cm_kind c = PAY" by (simp add: c_def plan(1) checkoutPlan_def planCommissionCheckoutCommand_def)
  qed
qed

lemma checkout_checked:
  assumes frame: "session_frame (e_session eng)" and fresh: "engine_fresh eng" and fin: "fin_ok s"
    and run: "complete rt eng input s0 s1 s = Inr (r, s')" and new: "\<not> co_replayed r" and d: "declaredOk s'"
  shows "rejected s s' = []"
proof -
  from complete_success [OF frame run] obtain prepared where "executeCommissionCheckout rt eng prepared s = Inr (r, s')" by blast
  with replayed_iff new have perf: "performCommissionCheckout eng prepared s = Inr (r, s')" by blast
  obtain t :: transfer_row and v source escrow action oper and c :: command_row and as :: "FinancialAllocation list" where
    booked: "bookedBy s' t v source escrow action oper c" and booking: "0 < t_amount t" "fin_ok s'" and pay: "cm_kind c = PAY" and
    allocs: "joined ta_transferId (t_id t) (financialTransferAllocations s') = map (allocRow (t_id t) (a_id source) (t_currency t)) as"
      "\<forall>a \<in> set as. \<forall>l \<in> set (financialLots s'). l_id l = fa_lotId a \<longrightarrow>
        l_accountId l = a_id source \<and> l_currency l = t_currency t" and
    tables: "financialTransfers s' = financialTransfers s @ [t]" "financialReservations s' = financialReservations s @ [v]"
      "financialCommandRuns s' = financialCommandRuns s @ [c]"
      "financialLots s' = map (\<lambda>l. lessLot (drawnFrom (l_id l) as) l) (financialLots s)" and
    keep: "financialSwapActions s' = financialSwapActions s" "financialWithdrawals s' = financialWithdrawals s"
    by (rule checkout_written [OF perf fin fresh d]) (rule that, (assumption | simp)+)
  note b = booked [unfolded bookedBy_def]
  have "withdrawActionTotality s' (t_actionId t)"
    using b by (simp add: withdrawActionTotality_def the_row [OF d] pay del: in_joined)
  moreover have "typedEffect s' c (oper_id oper) (cm_kind c)"
    using b by (auto simp: pay someRow_def intro!: bexI [of _ action] bexI [of _ t])
  then have "commandEffect s' (cm_id c)" using b by (intro commandEffect_own [OF d]) simp_all
  moreover note booked_transfer_checked [OF d booking(2) booked booking(1) allocs] rewritten_lots_conserved [OF d booking(2)]
    drawing_queues_nothing_new [OF tables(4)]
  ultimately show ?thesis
    by (simp add: rejected_none keep queued(1) [OF d tables(1)] queued(2) [OF d tables(2)] queued(3) [OF d tables(3)])
qed

end
