(* ===== verification/GuardSystem.thy ===== *)
theory GuardSystem
  imports GuardLaws
begin

text \<open>
  The settlement under the deferred checks, whose swap is checked against every row it is about,
  and the four use cases together: what is carried out is never refused by the database.
\<close>

section \<open>Settling\<close>

text \<open>The rows the funding of a commission is proved from, and the accounts of a settlement.\<close>

lemma funding_rows:
  assumes "loadCommissionSettlementFunding i s = Inr f"
  obtains v payer escrow t x oper c where "v \<in> set (financialReservations s)" "payer \<in> set (financialHolders s)"
    "escrow \<in> set (financialAccounts s)" "t \<in> set (financialTransfers s)" "x \<in> set (financialTransferActions s)"
    "oper \<in> set (financialOperations s)" "c \<in> set (financialCommandRuns s)"
    "r_id v = i" "h_id payer = r_holderId v" "a_reservationId escrow = Some (r_id v)" "t_reservationId t = r_id v"
    "tac_id x = t_actionId t" "oper_id oper = tac_operationId x" "cm_id c = oper_commandId oper"
    "f = \<lparr>cf_reservationId = r_id v, cf_reservationFlowId = r_flowId v,
       cf_reservationState = r_state v, cf_reservationCurrency = r_currency v,
       cf_targetAmount = r_targetAmount v, cf_holderNamespace = h_namespace payer,
       cf_holderKey = h_key payer, cf_escrowAccountId = a_id escrow,
       cf_transferFlowId = t_flowId t, cf_transferCurrency = t_currency t,
       cf_transferAmount = t_amount t, cf_transferToAccountId = t_toAccountId t,
       cf_actionOperationKind = tac_operationKind x,
       cf_operationId = oper_id oper, cf_operationFlowId = oper_flowId oper,
       cf_operationKind = oper_kind oper, cf_commandFlowId = cm_flowId c,
       cf_commandKind = cm_kind c, cf_commandPrincipalId = cm_principalId c,
       cf_commandSubjectNamespace = cm_subjectNamespace c,
       cf_commandSubjectKey = cm_subjectKey c,
       cf_commandResultOperationId = cm_resultOperationId c\<rparr>"
proof -
  from assms obtain v where v: "findRow (\<lambda>r. r_id r = i) (financialReservations s) = Some v"
    by (auto simp: loadCommissionSettlementFunding_def split: option.splits)
  from assms v obtain payer where payer: "findRow (\<lambda>h. h_id h = r_holderId v) (financialHolders s) = Some payer"
    by (auto simp: loadCommissionSettlementFunding_def rbind_eq_Inr)
  from assms v payer obtain escrow where escrow: "findRow (\<lambda>a. a_reservationId a = Some (r_id v)) (financialAccounts s) = Some escrow"
    by (cases "findRow (\<lambda>a. a_reservationId a = Some (r_id v)) (financialAccounts s)")
      (auto simp: loadCommissionSettlementFunding_def rbind_eq_Inr)
  from assms v payer escrow obtain t where t: "transferOf v s = Some t"
    by (cases "transferOf v s") (auto simp: loadCommissionSettlementFunding_def rbind_eq_Inr)
  from assms v payer escrow t obtain x oper c where
    rest: "findRow (\<lambda>x. tac_id x = t_actionId t \<and> tac_flowId x = t_flowId t) (financialTransferActions s) = Some x"
      "findRow (\<lambda>z. oper_id z = tac_operationId x \<and> oper_flowId z = tac_flowId x \<and> oper_kind z = tac_operationKind x)
        (financialOperations s) = Some oper"
      "findRow (\<lambda>z. cm_id z = oper_commandId oper \<and> cm_flowId z = oper_flowId oper \<and> cm_kind z = oper_kind oper)
        (financialCommandRuns s) = Some c" and
    f: "f = \<lparr>cf_reservationId = r_id v, cf_reservationFlowId = r_flowId v,
       cf_reservationState = r_state v, cf_reservationCurrency = r_currency v,
       cf_targetAmount = r_targetAmount v, cf_holderNamespace = h_namespace payer,
       cf_holderKey = h_key payer, cf_escrowAccountId = a_id escrow,
       cf_transferFlowId = t_flowId t, cf_transferCurrency = t_currency t,
       cf_transferAmount = t_amount t, cf_transferToAccountId = t_toAccountId t,
       cf_actionOperationKind = tac_operationKind x,
       cf_operationId = oper_id oper, cf_operationFlowId = oper_flowId oper,
       cf_operationKind = oper_kind oper, cf_commandFlowId = cm_flowId c,
       cf_commandKind = cm_kind c, cf_commandPrincipalId = cm_principalId c,
       cf_commandSubjectNamespace = cm_subjectNamespace c,
       cf_commandSubjectKey = cm_subjectKey c,
       cf_commandResultOperationId = cm_resultOperationId c\<rparr>"
    by (auto simp: loadCommissionSettlementFunding_def rbind_eq_Inr)
  note found = findRow_Some [OF v] findRow_Some [OF payer] findRow_Some [OF escrow] findRow_Some [OF t [unfolded transferOf_def]]
    findRow_Some [OF rest(1)] findRow_Some [OF rest(2)] findRow_Some [OF rest(3)]
  show thesis
    by (rule that [of v payer escrow t x oper c]) (use found f in simp_all)
qed

lemma accounts_rows:
  assumes "loadCommissionSettlementAccounts h s = Inr a"
  obtains platform settled issuer available where "platform \<in> set (financialHolders s)" "h_namespace platform = ''system''"
    "h_key platform = ''platform''" "settled \<in> set (financialAccounts s)" "a_holderId settled = Some (h_id platform)"
    "a_purpose settled = ''SETTLED''" "issuer \<in> set (financialAccounts s)" "a_holderId issuer = Some (h_id platform)"
    "a_purpose issuer = ''ISSUER''" "available \<in> set (financialAccounts s)" "a_holderId available = Some h"
    "a_purpose available = ''AVAILABLE''" "ca_beneficiaryHolderId a = h" "ca_pointSettledAccountId a = a_id settled"
    "ca_incomeIssuerAccountId a = a_id issuer" "ca_incomeAvailableAccountId a = a_id available"
  using assms by (auto simp: loadCommissionSettlementAccounts_def read_simps accountOf_def dest!: findRow_Some)

text \<open>The legs appended with a new action are the legs of that action: a pair of action and currency is unique.\<close>

lemma new_legs:
  assumes d: "declaredOk s'" and legs: "financialSwapLegs s' = financialSwapLegs s @ [p, q]"
    and cols: "lg_actionId p = i" "lg_actionId q = i" "lg_currency p = ''POINT''" "lg_currency q = ''INCOME''"
  shows "joined lg_actionId i (financialSwapLegs s') = [p, q]"
proof -
  have "lg_actionId x \<noteq> i" if "x \<in> set (financialSwapLegs s)" for x
  proof
    assume i: "lg_actionId x = i"
    have "lg_currency x \<in> {''POINT'', ''INCOME''}" using d that by (auto simp: declaredOk_def legs)
    with i cols have "(\<lambda>x. (lg_actionId x, lg_currency x)) x \<in> (\<lambda>x. (lg_actionId x, lg_currency x)) ` set [p, q]" by auto
    moreover have "(\<lambda>x. (lg_actionId x, lg_currency x)) x \<in> (\<lambda>x. (lg_actionId x, lg_currency x)) ` set (financialSwapLegs s)"
      using that by blast
    moreover have "distinct (map (\<lambda>x. (lg_actionId x, lg_currency x)) (financialSwapLegs s @ [p, q]))"
      using d by (simp add: declaredOk_def legs)
    ultimately show False unfolding map_append distinct_append set_map by blast
  qed
  then have "filter (\<lambda>x. lg_actionId x = i) (financialSwapLegs s) = []" by (simp add: filter_empty_conv)
  then show ?thesis by (simp add: joined_def legs cols)
qed

lemma swapLegs_ok:
  assumes d: "declaredOk s" and legs: "joined lg_actionId (sw_id x) (financialSwapLegs s) = [p, q]"
    and p: "lg_currency p = ''POINT''" "lg_fromAccountId p = a_id escrow" "lg_toAccountId p = a_id settled" "lg_amount p = r_targetAmount v"
    and q: "lg_currency q = ''INCOME''" "lg_fromAccountId q = a_id issuer" "lg_toAccountId q = a_id available" "lg_amount q = r_targetAmount v"
    and rows: "settled \<in> set (financialAccounts s)" "issuer \<in> set (financialAccounts s)" "available \<in> set (financialAccounts s)"
      "platform \<in> set (financialHolders s)" "lot \<in> set (financialLots s)"
    and purposes: "a_purpose settled = ''SETTLED''" "a_purpose issuer = ''ISSUER''" "a_purpose available = ''AVAILABLE''"
    and held: "a_holderId settled = Some (h_id platform)" "a_holderId issuer = Some (h_id platform)"
      "a_holderId available = Some (sw_beneficiaryHolderId x)" "h_namespace platform = ''system''" "h_key platform = ''platform''"
    and lot: "l_sourceSwapActionId lot = Some (sw_id x)" "l_sourceOperationId lot = Some (oper_id oper)"
      "l_sourceFlowId lot = Some (sw_flowId x)" "l_sourceFlowKind lot = Some COMMISSION" "l_sourceOperationKind lot = Some SETTLE"
      "l_currency lot = ''INCOME''" "l_accountId lot = a_id available" "l_originalAmount lot = r_targetAmount v"
      "l_remainingAmount lot = l_originalAmount lot"
  shows "swapLegs s x oper v escrow"
proof -
  have currencies: "joined lg_currency ''POINT'' [p, q] = [p]" "joined lg_currency ''INCOME'' [p, q] = [q]"
    using p(1) q(1) by (simp_all add: joined_def)
  have "someRow [l_sourceOperationId l = Some (oper_id oper) \<and> l_sourceFlowId l = Some (sw_flowId x) \<and>
      l_sourceFlowKind l = Some COMMISSION \<and> l_sourceOperationKind l = Some SETTLE \<and> l_currency l = ''INCOME'' \<and>
      l_accountId l = lg_toAccountId leg \<and> l_originalAmount l = r_targetAmount v \<and> l_remainingAmount l = l_originalAmount l.
      l \<leftarrow> joined l_sourceSwapActionId (Some (sw_id x)) (financialLots s), leg \<leftarrow> [q]]"
    using rows(5) lot q(3) by (auto simp: someRow_def intro!: bexI [of _ lot])
  then show ?thesis
    unfolding swapLegs_def Let_def legs currencies
    by (simp add: the_row [OF d] rows p q purposes held someRow_def)
qed

text \<open>A swap with the rows it is about: its command, what it settles, and how that was funded.\<close>

definition settledBy :: "db \<Rightarrow> swap_row \<Rightarrow> operation_row \<Rightarrow> command_row \<Rightarrow> contract_row \<Rightarrow> order_row \<Rightarrow> link_row \<Rightarrow>
    payment_row \<Rightarrow> holder_row \<Rightarrow> reservation_row \<Rightarrow> bool" where
  "settledBy s y oper c contract order link payment beneficiary v \<longleftrightarrow>
     y \<in> set (financialSwapActions s) \<and> oper \<in> set (financialOperations s) \<and> c \<in> set (financialCommandRuns s) \<and>
     contract \<in> set (contracts s) \<and> order \<in> set (orders s) \<and> link \<in> set (orderFinancialLinks s) \<and>
     payment \<in> set (orderPayments s) \<and> beneficiary \<in> set (financialHolders s) \<and> v \<in> set (financialReservations s) \<and>
     sw_operationId y = oper_id oper \<and> oper_commandId oper = cm_id c \<and> k_flowId contract = sw_flowId y \<and>
     cm_subjectKey c = showInt (k_id contract) \<and> o_id order = k_orderId contract \<and> o_flowId order = k_flowId contract \<and>
     ln_reservationId link = r_id v \<and> pay_orderId payment = o_id order \<and> pay_flowId payment = o_flowId order \<and>
     pay_id payment = ln_orderPaymentId link \<and> pay_flowId payment = ln_flowId link \<and>
     sw_beneficiaryHolderId y = h_id beneficiary \<and> sw_reservationId y = r_id v \<and>
     sw_operationKind y = SETTLE \<and> oper_kind oper = SETTLE \<and> cm_kind c = SETTLE \<and> cm_flowId c = sw_flowId y \<and>
     cm_resultOperationId c = Some (oper_id oper) \<and> cm_subjectNamespace c = ''commission-contract'' \<and>
     cm_principalId c = k_workerId contract \<and> h_namespace beneficiary = ''user'' \<and>
     h_key beneficiary = showInt (k_workerId contract) \<and> r_purpose v = ''COMMISSION_PAYMENT'' \<and>
     r_currency v = ''POINT'' \<and> r_state v = ''SETTLED'' \<and> o_state order = ''PAID'' \<and> o_currency order = ''POINT'' \<and>
     o_amount order = r_targetAmount v \<and> pay_state payment = ''PAID'' \<and> pay_currency payment = ''POINT'' \<and>
     pay_amount payment = r_targetAmount v"

definition fundedBy :: "db \<Rightarrow> reservation_row \<Rightarrow> order_row \<Rightarrow> payment_row \<Rightarrow> string \<Rightarrow> holder_row \<Rightarrow> transfer_row \<Rightarrow>
    taction_row \<Rightarrow> operation_row \<Rightarrow> command_row \<Rightarrow> account_row \<Rightarrow> bool" where
  "fundedBy s v order payment flow payer t x oper c escrow \<longleftrightarrow>
     payer \<in> set (financialHolders s) \<and> t \<in> set (financialTransfers s) \<and> x \<in> set (financialTransferActions s) \<and>
     oper \<in> set (financialOperations s) \<and> c \<in> set (financialCommandRuns s) \<and> escrow \<in> set (financialAccounts s) \<and>
     r_holderId v = h_id payer \<and> t_reservationId t = r_id v \<and> t_actionId t = tac_id x \<and>
     tac_operationId x = oper_id oper \<and> oper_commandId oper = cm_id c \<and> t_toAccountId t = a_id escrow \<and>
     tac_operationKind x = PAY \<and> oper_kind oper = PAY \<and> oper_flowId oper = flow \<and> cm_kind c = PAY \<and> cm_flowId c = flow \<and>
     cm_resultOperationId c = Some (oper_id oper) \<and> cm_principalId c = o_buyerId order \<and>
     cm_subjectNamespace c = ''commission-order-payment'' \<and> cm_subjectKey c = showInt (pay_id payment) \<and>
     h_namespace payer = ''user'' \<and> h_key payer = showInt (o_buyerId order) \<and> t_flowId t = flow \<and>
     t_currency t = ''POINT'' \<and> t_amount t = r_targetAmount v \<and> a_reservationId escrow = Some (r_id v)"

lemma swapShape_ok:
  assumes d: "declaredOk s" and settled: "settledBy s y oper c contract order link payment beneficiary v"
    and funded: "fundedBy s v order payment (sw_flowId y) payer t x oper' c' escrow" and legs: "swapLegs s y oper v escrow"
  shows "swapShape s (sw_id y)"
proof -
  note b = settled [unfolded settledBy_def] and f = funded [unfolded fundedBy_def]
  have keys: "joined (\<lambda>k. (k_flowId k, showInt (k_id k))) (sw_flowId y, showInt (k_id contract)) (contracts s) = [contract]"
    "joined (\<lambda>r. (o_id r, o_flowId r)) (k_orderId contract, sw_flowId y) (orders s) = [order]"
    "joined (\<lambda>p. (pay_orderId p, pay_flowId p, pay_id p, pay_flowId p))
       (k_orderId contract, sw_flowId y, ln_orderPaymentId link, ln_flowId link) (orderPayments s) = [payment]"
    using d b by (auto intro!: joined_one [where u = k_id] joined_one [where u = o_id] joined_one [where u = pay_id]
        simp: declaredOk_def)
  have more: "joined ln_reservationId (r_id v) (orderFinancialLinks s) = [link]"
    "joined t_reservationId (r_id v) (financialTransfers s) = [t]" "a_purpose escrow = ''ESCROW''"
    using the_row(15) [OF d, of link] the_row(5) [OF d, of t] d b f by (auto simp: declaredOk_def)
  show ?thesis
    unfolding swapShape_def using b f
    by (simp add: the_row [OF d] keys more legs del: in_joined)
qed

text \<open>What a settlement that is carried out adds, in the terms of the guards.\<close>

lemma settlement_written:
  assumes perf: "performSettlement rt eng input h s = Inr (r, s')" and fin: "fin_ok s" and fresh: "engine_fresh eng"
    and typed: "\<forall>v \<in> set (financialReservations s). reservationTyped v" and d: "declaredOk s'"
  obtains y oper c contract order link payment beneficiary v payer t x oper' c' escrow lot where
    "settledBy s' y oper c contract order link payment beneficiary v"
    "fundedBy s' v order payment (sw_flowId y) payer t x oper' c' escrow" "swapLegs s' y oper v escrow"
    "financialSwapActions s' = financialSwapActions s @ [y]" "financialCommandRuns s' = financialCommandRuns s @ [c]"
    "financialLots s' = financialLots s @ [lot]" "l_sourceOperationKind lot = Some SETTLE"
    "financialTransfers s' = financialTransfers s" "financialWithdrawals s' = financialWithdrawals s"
    "\<forall>r \<in> set (rewrittenRows r_id r_state (financialReservations s) (financialReservations s')). r_id r = sw_reservationId y"
proof -
  obtain w plan ci oi ct ai i lt where st: "settleable w input" and plan: "plan = settlementPlan w input" and
    contract: "findRow (\<lambda>k. k_id k = si_contractId input) (contracts s) = Some (sw_contract w)" and
    hold: "findHolderId ''user'' (showInt (si_actorId input)) s = Inr h" and
    fund: "loadCommissionSettlementFunding (ln_reservationId (sw_fundingLink w)) s = Inr (sw_funding w)" and
    accounts: "loadCommissionSettlementAccounts h s = Inr (sw_accounts w)" and
    snap: "loadCommissionSettlementOrderSnapshot (k_orderId (sw_contract w)) s = Inr (sw_order w, sw_payment w, sw_fundingLink w)" and
    s': "s' = s\<lparr>
       financialCommandRuns := financialCommandRuns s @
         [commandOf (requestFor (spl_flowId plan) (settleCommand input) (hashSettlement rt input)) ci ct (Some oi)],
       financialOperations := financialOperations s @
         [\<lparr>oper_id = oi, oper_flowId = spl_flowId plan, oper_kind = SETTLE, oper_commandId = ci\<rparr>],
       financialSwapActions := financialSwapActions s @ [swapOf (spl_swap plan) oi ai],
       financialSwapLegs := financialSwapLegs s @ legsOf (spl_swap plan) ai,
       financialLots := financialLots s @ [incomeLotOf (spl_swap plan) oi ai i lt],
       financialReservations := updateWhere (\<lambda>r. r_id r = ss_reservationId (spl_swap plan) \<and>
         r_flowId r = ss_flowId (spl_swap plan) \<and> r_state r = ''HELD'') (\<lambda>r. r\<lparr>r_state := ''SETTLED''\<rparr>)
         (financialReservations s)\<rparr>"
    by (rule performSettlementE [OF perf fin fresh]) (rule that, assumption+)
  from funding_rows [OF fund] obtain v payer escrow t x oper' and c' :: command_row where
    f: "v \<in> set (financialReservations s)" "payer \<in> set (financialHolders s)"
      "escrow \<in> set (financialAccounts s)" "t \<in> set (financialTransfers s)" "x \<in> set (financialTransferActions s)"
      "oper' \<in> set (financialOperations s)" "c' \<in> set (financialCommandRuns s)"
      "r_id v = ln_reservationId (sw_fundingLink w)" "h_id payer = r_holderId v" "a_reservationId escrow = Some (r_id v)"
      "t_reservationId t = r_id v" "tac_id x = t_actionId t" "oper_id oper' = tac_operationId x" "cm_id c' = oper_commandId oper'" and
    funding: "sw_funding w = \<lparr>cf_reservationId = r_id v, cf_reservationFlowId = r_flowId v,
       cf_reservationState = r_state v, cf_reservationCurrency = r_currency v,
       cf_targetAmount = r_targetAmount v, cf_holderNamespace = h_namespace payer,
       cf_holderKey = h_key payer, cf_escrowAccountId = a_id escrow,
       cf_transferFlowId = t_flowId t, cf_transferCurrency = t_currency t,
       cf_transferAmount = t_amount t, cf_transferToAccountId = t_toAccountId t,
       cf_actionOperationKind = tac_operationKind x,
       cf_operationId = oper_id oper', cf_operationFlowId = oper_flowId oper',
       cf_operationKind = oper_kind oper', cf_commandFlowId = cm_flowId c',
       cf_commandKind = cm_kind c', cf_commandPrincipalId = cm_principalId c',
       cf_commandSubjectNamespace = cm_subjectNamespace c',
       cf_commandSubjectKey = cm_subjectKey c',
       cf_commandResultOperationId = cm_resultOperationId c'\<rparr>" by blast
  from accounts_rows [OF accounts] obtain platform settled issuer available where
    a: "platform \<in> set (financialHolders s)" "h_namespace platform = ''system''"
    "h_key platform = ''platform''" "settled \<in> set (financialAccounts s)" "a_holderId settled = Some (h_id platform)"
    "a_purpose settled = ''SETTLED''" "issuer \<in> set (financialAccounts s)" "a_holderId issuer = Some (h_id platform)"
    "a_purpose issuer = ''ISSUER''" "available \<in> set (financialAccounts s)" "a_holderId available = Some h"
    "a_purpose available = ''AVAILABLE''" "ca_beneficiaryHolderId (sw_accounts w) = h" "ca_pointSettledAccountId (sw_accounts w) = a_id settled"
    "ca_incomeIssuerAccountId (sw_accounts w) = a_id issuer" "ca_incomeAvailableAccountId (sw_accounts w) = a_id available" by blast
  from loadCommissionSettlementOrderSnapshot_Inr [OF snap] obtain p where
    order: "findRow (\<lambda>r. o_id r = k_orderId (sw_contract w)) (orders s) = Some (sw_order w)" and
    p: "p \<in> set (orderPayments s)" "sw_payment w = paymentFacts p" "pay_orderId p = o_id (sw_order w)"
      "pay_flowId p = o_flowId (sw_order w)" and link: "linkOf p s = Some (sw_fundingLink w)" by blast
  from hold obtain beneficiary where ben: "beneficiary \<in> set (financialHolders s)" "h_namespace beneficiary = ''user''"
    "h_key beneficiary = showInt (si_actorId input)" "h = h_id beneficiary"
    by (auto simp: read_simps dest: findRow_Some)
  define contract order n where "contract = sw_contract w" and "order = sw_order w" and "n = sw_fundingLink w"
  have k: "contract \<in> set (contracts s)" "k_id contract = si_contractId input" "order \<in> set (orders s)" "o_id order = k_orderId contract"
    "n \<in> set (orderFinancialLinks s)" "ln_orderPaymentId n = pay_id p" "ln_flowId n = pay_flowId p"
    using findRow_Some [OF contract] findRow_Some [OF order] findRow_Some [OF link [unfolded linkOf_def]]
    by (simp_all add: contract_def order_def n_def)
  note named = contract_def [symmetric] order_def [symmetric] n_def [symmetric]
  note ok = st [unfolded settleable_def funded_def Let_def funding p(2) named paymentFacts_def, simplified]
  have typedV: "r_purpose v = ''COMMISSION_PAYMENT''" using typed f(1) ok by (auto simp: reservationTyped_def)
  define swap where "swap = spl_swap plan"
  have sw: "spl_flowId plan = k_flowId contract" "ss_flowId swap = k_flowId contract" "ss_reservationId swap = r_id v" 
    "ss_beneficiaryHolderId swap = h" "ss_amount swap = r_targetAmount v"
    "legsOf swap ai = [\<lparr>lg_actionId = ai, lg_flowId = k_flowId contract, lg_currency = ''POINT'', lg_fromAccountId = a_id escrow,
        lg_toAccountId = a_id settled, lg_amount = r_targetAmount v\<rparr>,
      \<lparr>lg_actionId = ai, lg_flowId = k_flowId contract, lg_currency = ''INCOME'', lg_fromAccountId = a_id issuer,
        lg_toAccountId = a_id available, lg_amount = r_targetAmount v\<rparr>]"
    by (simp_all add: swap_def plan settlementPlan_def Let_def funding a(13-16) contract_def legsOf_def)
  define p' where "p' = (\<lambda>u :: reservation_row. r_id u = r_id v \<and> r_flowId u = k_flowId contract \<and> r_state u = ''HELD'')"
  define v' where "v' = v\<lparr>r_state := ''SETTLED''\<rparr>"
  define y where "y = swapOf swap oi ai"
  define lot where "lot = incomeLotOf swap oi ai i lt"
  define oper where "oper = \<lparr>oper_id = oi, oper_flowId = k_flowId contract, oper_kind = SETTLE, oper_commandId = ci\<rparr>"
  define c where "c = commandOf (requestFor (k_flowId contract) (settleCommand input) (hashSettlement rt input)) ci ct (Some oi)"
  note s'' = s' [folded swap_def, unfolded sw(1-3), folded p'_def y_def lot_def oper_def c_def]
  have tables: "financialReservations s' = updateWhere p' (\<lambda>r. r\<lparr>r_state := ''SETTLED''\<rparr>) (financialReservations s)"
    "financialSwapActions s' = financialSwapActions s @ [y]" "financialCommandRuns s' = financialCommandRuns s @ [c]"
    "financialOperations s' = financialOperations s @ [oper]" "financialLots s' = financialLots s @ [lot]"
    "financialSwapLegs s' = financialSwapLegs s @ legsOf swap ai"
    and keep: "financialTransfers s' = financialTransfers s" "financialWithdrawals s' = financialWithdrawals s"
    "contracts s' = contracts s" "orders s' = orders s" "orderPayments s' = orderPayments s"
    "orderFinancialLinks s' = orderFinancialLinks s" "financialHolders s' = financialHolders s"
    "financialAccounts s' = financialAccounts s" "financialTransferActions s' = financialTransferActions s"
    by (simp_all add: s'')
  have v': "v' \<in> set (financialReservations s')" "r_id v' = r_id v" "r_targetAmount v' = r_targetAmount v"
    "r_state v' = ''SETTLED''" "r_currency v' = ''POINT''" "r_purpose v' = ''COMMISSION_PAYMENT''" "r_holderId v' = r_holderId v"
    using f(1) ok typedV by (auto simp: tables set_updateWhere v'_def p'_def image_iff)
  have new: "sw_id y = ai" "sw_flowId y = k_flowId contract" "sw_operationId y = oper_id oper" "sw_operationKind y = SETTLE"
    "sw_reservationId y = r_id v" "sw_beneficiaryHolderId y = h" "oper_commandId oper = cm_id c" "oper_kind oper = SETTLE"
    "cm_resultOperationId c = Some (oper_id oper)" "cm_kind c = SETTLE" "cm_flowId c = k_flowId contract"
    "cm_subjectNamespace c = ''commission-contract''" "cm_subjectKey c = showInt (si_contractId input)"
    "cm_principalId c = si_actorId input"
    by (simp_all add: y_def oper_def c_def swapOf_def sw settleCommand_def COMMISSION_CONTRACT_NAMESPACE_def)
  have issued: "l_sourceSwapActionId lot = Some ai" "l_sourceOperationId lot = Some (oper_id oper)"
    "l_sourceFlowId lot = Some (k_flowId contract)" "l_sourceFlowKind lot = Some COMMISSION" "l_sourceOperationKind lot = Some SETTLE"
    "l_currency lot = ''INCOME''" "l_accountId lot = a_id available" "l_originalAmount lot = r_targetAmount v"
    "l_remainingAmount lot = l_originalAmount lot"
    by (simp_all add: lot_def oper_def incomeLotOf_def swap_def plan settlementPlan_def Let_def funding a(16) contract_def)
  show thesis
  proof (rule that [of y oper c contract order n p beneficiary v' payer t x oper' c' escrow lot])
    show "settledBy s' y oper c contract order n p beneficiary v'"
      unfolding settledBy_def using k ok ben v' p(1,3,4) by (simp add: tables(2-) keep new f(8) n_def order_def)
    show "fundedBy s' v' order p (sw_flowId y) payer t x oper' c' escrow"
      unfolding fundedBy_def using ok f v' by (simp add: tables(2-) keep new)
    show "swapLegs s' y oper v' escrow"
      by (rule swapLegs_ok [OF d new_legs [OF d tables(6) [unfolded sw(6)]], where settled = settled and issuer = issuer
          and available = available and platform = platform and lot = lot])
        (simp_all add: tables(5) keep new v' a issued)
    show "\<forall>r \<in> set (rewrittenRows r_id r_state (financialReservations s) (financialReservations s')). r_id r = sw_reservationId y"
      by (auto simp: rewrittenRows_def tables set_updateWhere new p'_def split: if_splits)
  qed (fact tables keep issued)+
qed

lemma settlement_checked:
  assumes frame: "session_frame (e_session eng)" and fresh: "engine_fresh eng" and fin: "fin_ok s"
    and typed: "\<forall>v \<in> set (financialReservations s). reservationTyped v"
    and run: "settle rt eng input s0 s1 s = Inr (r, s')" and new: "\<not> se_replayed r" and d: "declaredOk s'"
  shows "rejected s s' = []"
proof -
  from settle_success [OF frame run] obtain h where "executeSettlement rt eng input h s = Inr (r, s')" by blast
  from executeSettlement_new [OF this new] have perf: "performSettlement rt eng input h s = Inr (r, s')" .
  obtain y oper and c :: command_row and contract order link payment beneficiary v payer t x oper' and c' :: command_row and escrow lot where
    written: "settledBy s' y oper c contract order link payment beneficiary v"
    "fundedBy s' v order payment (sw_flowId y) payer t x oper' c' escrow" "swapLegs s' y oper v escrow" and
    tables: "financialSwapActions s' = financialSwapActions s @ [y]" "financialCommandRuns s' = financialCommandRuns s @ [c]"
    "financialLots s' = financialLots s @ [lot]" and lot: "l_sourceOperationKind lot = Some SETTLE" and
    keep: "financialTransfers s' = financialTransfers s" "financialWithdrawals s' = financialWithdrawals s" and
    settled: "\<forall>r \<in> set (rewrittenRows r_id r_state (financialReservations s) (financialReservations s')). r_id r = sw_reservationId y"
    by (rule settlement_written [OF perf fin fresh typed d]) (rule that, assumption+)
  note b = written(1) [unfolded settledBy_def]
  have "typedEffect s' c (oper_id oper) (cm_kind c)"
    using b by (auto simp: someRow_def intro!: bexI [of _ y])
  then have "commandEffect s' (cm_id c)" using b by (intro commandEffect_own [OF d]) simp_all
  moreover have "reservationSettlement s' (sw_reservationId y)"
    using b by (auto simp: reservationSettlement_def joined_def filter_empty_conv)
  ultimately show ?thesis
    using swapShape_ok [OF d written] settled lot by (simp add: rejected_none keep queued(3) [OF d tables(2)] queued(5) [OF d tables(1)]
        queued(6) [OF d tables(3)])
qed

section \<open>The use cases under the guards\<close>

text \<open>A request carried out in one transaction: it is not answered from an earlier one.\<close>

inductive carriedOut :: "runtime \<Rightarrow> engine \<Rightarrow> db \<Rightarrow> db \<Rightarrow> bool" for rt eng where
  Charge: "chargePoints rt eng ci s0 s = Inr (rc, s') \<Longrightarrow> holdersKept s0 s \<Longrightarrow> carriedOut rt eng s s'"
| Checkout: "complete rt eng pi s0 s1 s = Inr (rp, s') \<Longrightarrow> \<not> co_replayed rp \<Longrightarrow> carriedOut rt eng s s'"
| Settlement: "settle rt eng si s0 s1 s = Inr (rs, s') \<Longrightarrow> \<not> se_replayed rs \<Longrightarrow> carriedOut rt eng s s'"
| Withdraw: "requestWithdrawal rt eng wi s0 s = Inr (rw, s') \<Longrightarrow> holdersKept s0 s \<Longrightarrow> carriedOut rt eng s s'"

lemma rejected_raises_nothing: "rejected s s' = [] \<Longrightarrow> constraintsFrom raise s names s' = None"
  by (simp add: constraintsFrom_def)

text \<open>C3: no deferred check of the database refuses what the code has let through: whatever a charge,
  a checkout, a settlement or a withdrawal that is carried out has written, every constraint
  trigger it queued holds of the result, so naming any of the constraints raises nothing, and
  neither does the commit.
\<close>

theorem guards_accept_the_use_cases:
  assumes "session_frame (e_session eng)" and "engine_fresh eng" and "fin_ok s"
    and "\<forall>v \<in> set (financialReservations s). reservationTyped v" and "declaredOk s'" and "carriedOut rt eng s s'"
  shows "rejected s s' = [] \<and> constraintsFrom raise s names s' = None"
proof -
  from assms(6) have "rejected s s' = []"
  proof cases
    case Charge
    then show ?thesis using charge_checked [OF assms(1,2)] assms(5) by blast
  next
    case Checkout
    then show ?thesis using checkout_checked [OF assms(1-3)] assms(5) by blast
  next
    case Settlement
    then show ?thesis using settlement_checked [OF assms(1-4)] assms(5) by blast
  next
    case Withdraw
    then show ?thesis using withdrawal_checked [OF assms(1-3)] assms(5) by blast
  qed
  then show ?thesis by (simp add: rejected_raises_nothing)
qed

text \<open>The sample requests, one of each kind, and the checks they queue.\<close>

definition sampleWithdrawn :: db where
  "sampleWithdrawn = stateAfter sampleSettled (executeWithdrawal refRuntime refEngine sampleWithdraw 11 sampleSettled)"

definition sampleCharged :: db where
  "sampleCharged = stateAfter sampleWallet (executePointCharge refRuntime refEngine sampleCharge 10 sampleWallet)"

lemma samplePaid_declared: "declaredOk samplePaid"
  by code_simp

lemma sampleSettled_declared: "declaredOk sampleSettled"
  by code_simp

lemma sampleWithdrawn_declared: "declaredOk sampleWithdrawn"
  by code_simp

lemma sampleCharged_declared: "declaredOk sampleCharged"
  by code_simp

lemma sample_carried_out:
  "carriedOut refRuntime refEngine sampleShop samplePaid" "carriedOut refRuntime refEngine samplePaid sampleSettled"
  "carriedOut refRuntime refEngine sampleSettled sampleWithdrawn" "carriedOut refRuntime refEngine sampleWallet sampleCharged"
proof -
  obtain rp s1 where paid: "complete refRuntime refEngine sampleCheckout sampleShop sampleShop sampleShop = Inr (rp, s1)"
    "\<not> co_replayed rp" and "executeCommissionCheckout refRuntime refEngine samplePrepared sampleShop = Inr (rp, s1)"
    by (rule sample_run)
  then have "s1 = samplePaid" by (simp add: samplePaid_def)
  with paid show "carriedOut refRuntime refEngine sampleShop samplePaid" using Checkout by blast
  obtain rs s2 where settled: "settle refRuntime refEngine sampleSettle samplePaid samplePaid samplePaid = Inr (rs, s2)"
    "\<not> se_replayed rs" and "executeSettlement refRuntime refEngine sampleSettle 11 samplePaid = Inr (rs, s2)"
    by (rule sample_settle_run)
  then have "s2 = sampleSettled" by (simp add: sampleSettled_def)
  with settled show "carriedOut refRuntime refEngine samplePaid sampleSettled" using Settlement by blast
  have kept: "holdersKept sampleSettled sampleSettled" "holdersKept sampleWallet sampleWallet" by (simp_all add: holdersKept_def)
  obtain rw s3 where drawn: "requestWithdrawal refRuntime refEngine sampleWithdraw sampleSettled sampleSettled = Inr (rw, s3)"
    and "executeWithdrawal refRuntime refEngine sampleWithdraw 11 sampleSettled = Inr (rw, s3)"
    by (rule sample_withdraw_run)
  then have "s3 = sampleWithdrawn" by (simp add: sampleWithdrawn_def)
  with drawn kept(1) show "carriedOut refRuntime refEngine sampleSettled sampleWithdrawn" using Withdraw by blast
  obtain rc s4 where charged: "chargePoints refRuntime refEngine sampleCharge sampleWallet sampleWallet = Inr (rc, s4)"
    and "executePointCharge refRuntime refEngine sampleCharge 10 sampleWallet = Inr (rc, s4)"
    by (rule sample_charge_run)
  then have "s4 = sampleCharged" by (simp add: sampleCharged_def)
  with charged kept(2) show "carriedOut refRuntime refEngine sampleWallet sampleCharged" using Charge by blast
qed

theorem guards_accept_the_use_cases_witness:
  "rejected sampleShop samplePaid = [] \<and> rejected samplePaid sampleSettled = [] \<and>
   rejected sampleSettled sampleWithdrawn = [] \<and> rejected sampleWallet sampleCharged = [] \<and>
   map fst (deferredChecks samplePaid sampleSettled) = [''FinancialSwap_shape_check'',
     ''FinancialReservation_settlement_shape_check'', ''FinancialCommand_effect_completeness_check'']"
proof -
  have typed: "\<forall>v \<in> set (financialReservations sampleShop). reservationTyped v"
    "\<forall>v \<in> set (financialReservations samplePaid). reservationTyped v"
    "\<forall>v \<in> set (financialReservations sampleSettled). reservationTyped v"
    "\<forall>v \<in> set (financialReservations sampleWallet). reservationTyped v" by code_simp+
  have queue: "map fst (deferredChecks samplePaid sampleSettled) = [''FinancialSwap_shape_check'',
     ''FinancialReservation_settlement_shape_check'', ''FinancialCommand_effect_completeness_check'']" by code_simp
  note accepted = guards_accept_the_use_cases [OF _ refEngine_fresh, THEN conjunct1]
  have "rejected sampleShop samplePaid = []"
    by (rule accepted [OF _ sampleShop_ok typed(1) samplePaid_declared sample_carried_out(1)]) simp
  moreover have "rejected samplePaid sampleSettled = []"
    by (rule accepted [OF _ samplePaid_ok typed(2) sampleSettled_declared sample_carried_out(2)]) simp
  moreover have "rejected sampleSettled sampleWithdrawn = []"
    by (rule accepted [OF _ sampleSettled_ok typed(3) sampleWithdrawn_declared sample_carried_out(3)]) simp
  moreover have "rejected sampleWallet sampleCharged = []"
    by (rule accepted [OF _ sampleWallet_ok typed(4) sampleCharged_declared sample_carried_out(4)]) simp
  ultimately show ?thesis using queue by blast
qed

end
