(* ===== verification/FundingTrail.thy ===== *)
theory FundingTrail
  imports MoneyTrail PointChargeLaws
begin

text \<open>
  A point charge and a checkout together: what paid for a commission names the charge, and so
  the external payment, that it came from (\<open>traceCommissionFunding\<close>).
\<close>

lemma mapThrow_all: "(\<And>x. x \<in> set xs \<Longrightarrow> f x = Inr (g x)) \<Longrightarrow> mapThrow f xs = Inr (map g xs)"
  by (induction xs) auto

lemma mapThrow_map: "mapThrow f (map g xs) = mapThrow (\<lambda>x. f (g x)) xs"
  by (induction xs) auto

lemma findRow_by_key:
  assumes "distinct (map k rows)" and "r \<in> set rows" and "p r" and "\<And>x. p x \<Longrightarrow> k x = k r"
  shows "findRow p rows = Some r"
proof (cases "findRow p rows")
  case None
  with assms(2,3) show ?thesis by (auto simp: findRow_None)
next
  case (Some x)
  then have "x \<in> set rows" "p x" by (auto dest: findRow_Some)
  with assms have "x = r" by (metis distinct_key_unique)
  with Some show ?thesis by simp
qed

section \<open>A checkout paid from one charge\<close>

text \<open>What a charge carried out left, and what it answered.\<close>

lemma chargedE:
  assumes frame: "session_frame (e_session eng)" and fresh: "engine_fresh eng" and fin: "fin_ok s"
    and ok: "chargePoints rt eng input s0 s = Inr (r, s')" and new: "\<not> go_replayed r" and u: "unique_ok s'"
  obtains h account fi oi lt where
    "findHolderId ''user'' (showInt (gi_actorId input)) s0 = Inr h" "accountOf h ''POINT'' ''AVAILABLE'' s = Some account"
    "financialLots s' = financialLots s @ [chargedLot (a_id account) fi oi (intOf (gi_amount input)) (go_lotId r) lt]"
    "go_lotId r \<notin> l_id ` set (financialLots s)" "fi \<noteq> []" "oi \<noteq> []" "fin_ok s'"
    "go_referenceId r = formatTransactionReference POINT_CHARGE fi" "go_operationId r = formatOperationId CHARGE oi"
    "financialHolders s' = financialHolders s" "financialAccounts s' = financialAccounts s"
proof -
  from chargePoints_success [OF frame ok] obtain h where
    h: "findHolderId ''user'' (showInt (gi_actorId input)) s0 = Inr h" and
    ex: "executePointCharge rt eng input h s = Inr (r, s')" by blast
  from ex new have perf: "performCharge rt eng input h s = Inr (r, s')"
    by (cases rule: executePointCharge_cases) (auto dest: loadCharge_replayed)
  obtain account :: account_row and fi ci oi li lt where
    acc: "accountOf h ''POINT'' ''AVAILABLE'' s = Some account" and pos: "0 < intOf (gi_amount input)" and
    lots: "financialLots s' = financialLots s @ [chargedLot (a_id account) fi oi (intOf (gi_amount input)) li lt]" and
    ids: "oi \<noteq> []" "li \<notin> l_id ` set (financialLots s)" "fi \<noteq> []" and
    keep: "financialTransfers s' = financialTransfers s"
      "financialTransferAllocations s' = financialTransferAllocations s" and
    same: "financialHolders s' = financialHolders s" "financialAccounts s' = financialAccounts s" and
    out: "loadCharge \<lparr>cgi_operationDbId = oi, cgi_referenceId = formatTransactionReference POINT_CHARGE fi,
       cgi_commandId = formatCommandId CHARGE ci, cgi_operationId = formatOperationId CHARGE oi\<rparr> False s' = Inr r"
    by (rule performChargeE [OF perf fresh]) (rule that, assumption+)
  have "findRow (\<lambda>l. l_sourceOperationId l = Some oi) (financialLots s') =
      Some (chargedLot (a_id account) fi oi (intOf (gi_amount input)) li lt)"
    unfolding lots
    by (rule findRow_appended_option [where k = l_sourceOperationId])
      (use u in \<open>auto simp: unique_ok_def lots chargedLot_def\<close>)
  with out have r: "go_lotId r = li" "go_referenceId r = formatTransactionReference POINT_CHARGE fi"
    "go_operationId r = formatOperationId CHARGE oi"
    by (auto simp: loadCharge_def loadPointChargeLedgerResult_def rbind_eq_Inr chargedLot_def)
  show thesis
    by (rule that [OF h acc, unfolded r, OF lots ids(2,3,1) charged_books [OF fin lots keep ids(2) pos] refl refl same])
qed

text \<open>What a checkout carried out reserved, and from which lots.\<close>

lemma paidE:
  assumes frame: "session_frame (e_session eng)" and fresh: "engine_fresh eng" and fin: "fin_ok s"
    and ok: "complete rt eng input s0 s1 s = Inr (r, s')" and new: "\<not> co_replayed r" and u: "unique_ok s'"
  obtains h account as ti req where
    "findHolderId ''user'' (showInt (ci_actorId input)) s = Inr h" "accountOf h ''POINT'' ''AVAILABLE'' s = Some account"
    "takes_ok as" "0 < rr_amount req" "fin_ok s'"
    "\<forall>a \<in> set as. \<exists>l \<in> set (financialLots s). l_id l = fa_lotId a \<and> l_accountId l = a_id account"
    "financialLots s' = map (\<lambda>l. lessLot (drawnFrom (l_id l) as) l) (financialLots s)"
    "findRow (\<lambda>v. r_id v = co_reservationId r) (financialReservations s') = Some (reservationOf req (co_reservationId r))"
    "mset (allocationsOf (reservationOf req (co_reservationId r)) s') = mset (map (allocRow ti (a_id account) ''POINT'') as)"
    "(\<Sum>x\<leftarrow>allocationsOf (reservationOf req (co_reservationId r)) s'. ta_amount x) = rr_amount req"
proof -
  from complete_success [OF frame ok] obtain prepared where prep: "pc_input prepared = input"
    and exec: "executeCommissionCheckout rt eng prepared s = Inr (r, s')" by blast
  from replayed_iff [OF exec] new have perf: "performCommissionCheckout eng prepared s = Inr (r, s')" by simp
  obtain plan acct as ci oi ai ri ei ti ki where
    load: "loadCommissionCheckoutPlan prepared s = Inr (plan, acct, as)" and fin': "fin_ok s'" and
    own: "\<forall>a \<in> set as. \<exists>l \<in> set (financialLots s). l_id l = fa_lotId a \<and> l_accountId l = acct" and
    ri: "ri \<notin> r_id ` set (financialReservations s)" and
    r: "r = \<lparr>co_orderId = cp_paidOrderId plan, co_orderPaymentId = cp_paidPaymentId plan, co_contractId = ki,
      co_reservationId = ri, co_referenceId = formatTransactionReference COMMISSION (cp_flowId plan),
      co_commandId = formatCommandId PAY ci, co_operationId = formatOperationId PAY oi, co_replayed = False\<rparr>" and
    lots: "financialLots s' = map (\<lambda>l. lessLot (drawnFrom (l_id l) as) l) (financialLots s)" and
    res: "financialReservations s' = financialReservations s @ [reservationOf (cp_financialRequest plan) ri]" and
    tr: "financialTransfers s' = financialTransfers s @ [transferRowOf ri (cp_flowId plan) ''POINT'' acct ei
        (rr_amount (cp_financialRequest plan)) ai ti]" and
    al: "financialTransferAllocations s' = financialTransferAllocations s @ map (allocRow ti acct ''POINT'') as"
    by (rule performE [OF perf fin fresh]) (rule that, assumption+)
  from loadCommissionCheckoutPlan_Inr [OF load] obtain order :: order_row and holderId and account :: account_row where
    holder: "findHolderId ''user'' (showInt (o_buyerId order)) s = Inr holderId" and
    account: "accountOf holderId ''POINT'' ''AVAILABLE'' s = Some account" "acct = a_id account" and
    lotsOf: "planReservation (map lotBalance (lotsOf account (\<lambda>l. 0 < l_remainingAmount l) s)) (JInt (o_amount order)) = Inr as" and
    takes: "takes_ok as" and total: "(\<Sum>a\<leftarrow>as. fa_amount a) = o_amount order" and
    buyer: "o_buyerId order = ci_actorId input"
    using prep by (elim exE conjE) (rule that, assumption+, simp add: payable_def)
  from loaded_plan [OF load] obtain w where w: "plan = checkoutPlan w input"
    "(\<Sum>a\<leftarrow>as. fa_amount a) = rr_amount (cp_financialRequest plan)" by (auto simp: prep)
  have flow: "rr_flowId (cp_financialRequest plan) = cp_flowId plan" by (simp add: w(1) checkoutPlan_def)
  have pos: "0 < rr_amount (cp_financialRequest plan)"
    using planReservation_allocations(2) [OF lotsOf] w(2) total by simp
  have v: "findRow (\<lambda>v. r_id v = ri) (financialReservations s') = Some (reservationOf (cp_financialRequest plan) ri)"
  proof -
    have "findRow (\<lambda>v. r_id v = ri) (financialReservations s) = None" using ri by (auto simp: findRow_None)
    then show ?thesis by (simp add: res findRow_append)
  qed
  note booked = booked_allocations [OF fin fin' u _ _ tr al, of "reservationOf (cp_financialRequest plan) ri"]
  have ri_r: "co_reservationId r = ri" by (simp add: r)
  show thesis
    by (rule that [OF holder [unfolded buyer] account(1) takes pos fin' own [unfolded account(2)] lots v [folded ri_r]])
      (use booked flow w(2) in \<open>simp_all add: ri_r account(2)\<close>)
qed

section \<open>The trail\<close>

text \<open>What one allocation on a lot contributes, and the source it is when a charge made the lot.\<close>

definition partFrom :: "lot_row \<Rightarrow> alloc_row \<Rightarrow> funding_allocation" where
  "partFrom l x = \<lparr>fu_lotId = ta_lotId x, fu_amount = ta_amount x, fu_sourceFlowId = l_sourceFlowId l,
     fu_sourceFlowKind = l_sourceFlowKind l, fu_sourceOperationId = l_sourceOperationId l,
     fu_sourceOperationKind = l_sourceOperationKind l, fu_issuanceReason = l_issuanceReason l,
     fu_accountingCategory = l_accountingCategory l, fu_accountingPolicyVersion = l_accountingPolicyVersion l\<rparr>"

definition sourceFrom :: "string \<Rightarrow> string \<Rightarrow> alloc_row \<Rightarrow> PointChargeFundingSource" where
  "sourceFrom fi oi x = \<lparr>gs_lotId = ta_lotId x, gs_operationId = oi, gs_flowId = fi, gs_amount = ta_amount x,
     gs_issuanceReason = ''PURCHASE'', gs_accountingCategory = ''CUSTOMER_ADVANCE'',
     gs_accountingPolicyVersion = POINT_CHARGE_ACCOUNTING_POLICY_VERSION\<rparr>"

lemma trace_of_one_charge:
  assumes v: "findRow (\<lambda>v. r_id v = i) (financialReservations s) = Some rv"
    and rows: "\<And>x. x \<in> set (allocationsOf rv s) \<Longrightarrow> lotOfAllocation x s = Inr lot"
    and source: "l_sourceFlowId lot = Some fi" "l_sourceFlowKind lot = Some POINT_CHARGE"
      "l_sourceOperationId lot = Some oi" "l_sourceOperationKind lot = Some CHARGE"
      "l_issuanceReason lot = Some ''PURCHASE''" "l_accountingCategory lot = Some ''CUSTOMER_ADVANCE''"
      "l_accountingPolicyVersion lot = Some POINT_CHARGE_ACCOUNTING_POLICY_VERSION"
    and ids: "fi \<noteq> []" "oi \<noteq> []"
  shows "traceCommissionFunding i s = Inr (map (\<lambda>x. (sourceFrom fi oi x,
    formatTransactionReference POINT_CHARGE fi, formatOperationId CHARGE oi)) (allocationsOf rv s))"
proof -
  have load: "loadCommissionPointFundingAllocations i s = Inr (map (partFrom lot) (allocationsOf rv s))"
    unfolding loadCommissionPointFundingAllocations_def v orThrow_def option.case rbind_Inr
    by (rule mapThrow_all) (simp add: rows partFrom_def)
  have "fundingSource (partFrom lot x) = Inr (sourceFrom fi oi x)" for x
    using ids by (simp add: fundingSource_def partFrom_def sourceFrom_def source POINT_CHARGE_ACCOUNTING_POLICY_VERSION_def)
  then have "identifyPointChargeFundingSources (map (partFrom lot) (allocationsOf rv s)) =
      Inr (map (sourceFrom fi oi) (allocationsOf rv s))"
    by (simp add: identifyPointChargeFundingSources_def mapThrow_map mapThrow_all)
  then show ?thesis by (simp add: traceCommissionFunding_def load sourceFrom_def)
qed

text \<open>Allocations on one lot all lead to it.\<close>

lemma rows_of_one_lot:
  assumes d: "distinct (map l_id (financialLots s))" and lot: "lot \<in> set (financialLots s)"
    and booked: "mset (allocationsOf rv s) = mset (map (allocRow ti (l_accountId lot) (l_currency lot)) as)"
    and only: "\<And>a. a \<in> set as \<Longrightarrow> fa_lotId a = l_id lot" and x: "x \<in> set (allocationsOf rv s)"
  shows "lotOfAllocation x s = Inr lot" and "ta_lotId x = l_id lot"
proof -
  from x have "x \<in> set (map (allocRow ti (l_accountId lot) (l_currency lot)) as)" using mset_eq_setD [OF booked] by simp
  then have k: "ta_lotId x = l_id lot" "ta_fromAccountId x = l_accountId lot" "ta_currency x = l_currency lot"
    using only by (auto simp: allocRow_def)
  have "findRow (\<lambda>l. l_id l = ta_lotId x \<and> l_accountId l = ta_fromAccountId x \<and> l_currency l = ta_currency x)
      (financialLots s) = Some lot"
    by (rule findRow_by_key [where k = l_id, OF d lot]) (simp_all add: k)
  then show "lotOfAllocation x s = Inr lot" by (simp add: lotOfAllocation_def k)
  show "ta_lotId x = l_id lot" by (rule k)
qed

text \<open>C6: what paid for a commission names its charge: a buyer whose point account was empty charges
  points once and pays for a commission with them; the trace of the commission's funding then
  answers, and every part of it carries the reference and the operation the charge answered
  with and the lot it made, in parts that add up to what the commission holds.
\<close>

theorem funding_names_its_charge:
  assumes frame: "session_frame (e_session eng)" and fresh: "engine_fresh eng" and fin: "fin_ok s"
    and charged: "chargePoints rt eng cinput s s = Inr (r, s')" "\<not> go_replayed r" "unique_ok s'"
    and empty: "\<And>h account. findHolderId ''user'' (showInt (gi_actorId cinput)) s = Inr h \<Longrightarrow>
      accountOf h ''POINT'' ''AVAILABLE'' s = Some account \<Longrightarrow> accountFunds (a_id account) s = 0"
    and paid: "complete rt eng input t0 t1 s' = Inr (r', s'')" "\<not> co_replayed r'" "unique_ok s''"
    and same: "ci_actorId input = gi_actorId cinput"
  shows "\<exists>sources. \<exists>v \<in> set (financialReservations s''). r_id v = co_reservationId r' \<and>
    traceCommissionFunding (co_reservationId r') s'' = Inr sources \<and>
    (\<forall>(source, reference, operation) \<in> set sources. reference = go_referenceId r \<and> operation = go_operationId r \<and>
       gs_lotId source = go_lotId r) \<and>
    (\<Sum>(source, reference, operation)\<leftarrow>sources. gs_amount source) = r_targetAmount v \<and> 0 < r_targetAmount v"
proof -
  obtain h account fi oi lt where
    hold: "findHolderId ''user'' (showInt (gi_actorId cinput)) s = Inr h" and
    a: "accountOf h ''POINT'' ''AVAILABLE'' s = Some account" and
    lots1: "financialLots s' = financialLots s @ [chargedLot (a_id account) fi oi (intOf (gi_amount cinput)) (go_lotId r) lt]" and
    new: "go_lotId r \<notin> l_id ` set (financialLots s)" and ids: "fi \<noteq> []" "oi \<noteq> []" and fin1: "fin_ok s'" and
    r: "go_referenceId r = formatTransactionReference POINT_CHARGE fi" "go_operationId r = formatOperationId CHARGE oi" and
    keep: "financialHolders s' = financialHolders s" "financialAccounts s' = financialAccounts s"
    by (rule chargedE [OF frame fresh fin charged]) (rule that, assumption+)
  obtain h' account' as ti req where
    hold': "findHolderId ''user'' (showInt (ci_actorId input)) s' = Inr h'" and
    a': "accountOf h' ''POINT'' ''AVAILABLE'' s' = Some account'" and
    takes: "takes_ok as" and pos: "0 < rr_amount req" and fin2: "fin_ok s''" and
    own: "\<forall>x \<in> set as. \<exists>l \<in> set (financialLots s'). l_id l = fa_lotId x \<and> l_accountId l = a_id account'" and
    lots2: "financialLots s'' = map (\<lambda>l. lessLot (drawnFrom (l_id l) as) l) (financialLots s')" and
    v: "findRow (\<lambda>v. r_id v = co_reservationId r') (financialReservations s'') = Some (reservationOf req (co_reservationId r'))" and
    booked: "mset (allocationsOf (reservationOf req (co_reservationId r')) s'') = mset (map (allocRow ti (a_id account') ''POINT'') as)" and
    total: "(\<Sum>x\<leftarrow>allocationsOf (reservationOf req (co_reservationId r')) s''. ta_amount x) = rr_amount req"
    by (rule paidE [OF frame fresh fin1 paid]) (rule that, assumption+)
  from hold' hold have "h' = h" by (simp add: same findHolderId_def keep)
  with a' a have account': "account' = account" by (simp add: accountOf_def keep)
  define lot where "lot = chargedLot (a_id account) fi oi (intOf (gi_amount cinput)) (go_lotId r) lt"
  define lot2 where "lot2 = lessLot (drawnFrom (l_id lot) as) lot"
  note lots1 = lots1 [folded lot_def]
  note only = only_new_lot_drawn [OF fin empty [OF hold a] lots1 fin2 lots2 takes own [unfolded account']]
  have lot2: "lot2 \<in> set (financialLots s'')" by (simp add: lots2 lots1 lot2_def)
  have keys: "l_id lot2 = go_lotId r" "l_id lot = go_lotId r" "l_accountId lot2 = a_id account" "l_currency lot2 = ''POINT''"
    by (simp_all add: lot2_def lot_def chargedLot_def lessLot_def)
  have d: "distinct (map l_id (financialLots s''))" using fin2 by (simp add: fin_ok_def books_ok_def)
  let ?rv = "reservationOf req (co_reservationId r')"
  note rows = rows_of_one_lot [OF d lot2, of ?rv ti as, unfolded keys, OF booked [unfolded account'] only [unfolded keys(2)]]
  have "traceCommissionFunding (co_reservationId r') s'' = Inr (map (\<lambda>x. (sourceFrom fi oi x,
      go_referenceId r, go_operationId r)) (allocationsOf ?rv s''))"
    unfolding r by (rule trace_of_one_charge [OF v rows(1) _ _ _ _ _ _ _ ids])
      (simp_all add: lot2_def lot_def chargedLot_def lessLot_def)
  with findRow_Some [OF v] pos rows(2) total show ?thesis
    by (intro exI [of _ "map (\<lambda>x. (sourceFrom fi oi x, go_referenceId r, go_operationId r)) (allocationsOf ?rv s'')"]
        bexI [of _ ?rv]) (auto simp: sourceFrom_def comp_def)
qed

text \<open>The shop without any points: the buyer charges 500 and pays for the commission of 70.\<close>

definition emptyShop :: db where
  "emptyShop = sampleShop\<lparr>financialLots := []\<rparr>"

definition chargedShop :: db where
  "chargedShop = stateAfter emptyShop (executePointCharge refRuntime refEngine sampleCharge 10 emptyShop)"

lemma emptyShop_charge:
  "case executePointCharge refRuntime refEngine sampleCharge 10 emptyShop of
     Inr (r, s') \<Rightarrow> \<not> go_replayed r \<and> unique_ok s' | Inl e \<Rightarrow> False"
  by code_simp

lemma chargedShop_checkout:
  "case executeCommissionCheckout refRuntime refEngine samplePrepared chargedShop of
     Inr (r, s') \<Rightarrow> \<not> co_replayed r \<and> unique_ok s' \<and> map r_targetAmount (financialReservations s') = [70] | Inl e \<Rightarrow> False"
  by code_simp

theorem funding_names_its_charge_witness:
  "\<exists>r s' r' s'' sources. chargePoints refRuntime refEngine sampleCharge emptyShop emptyShop = Inr (r, s') \<and>
     complete refRuntime refEngine sampleCheckout sampleShop sampleShop s' = Inr (r', s'') \<and>
     traceCommissionFunding (co_reservationId r') s'' = Inr sources \<and>
     (\<Sum>(source, reference, operation)\<leftarrow>sources. gs_amount source) = 70 \<and>
     (\<forall>(source, reference, operation) \<in> set sources. reference = go_referenceId r)"
proof -
  from emptyShop_charge obtain r s' where
    ex: "executePointCharge refRuntime refEngine sampleCharge 10 emptyShop = Inr (r, s')"
    and new: "\<not> go_replayed r" "unique_ok s'" by (auto split: sum.splits)
  have h: "findHolderId ''user'' (showInt 1) emptyShop = Inr 10" by code_simp
  have q: "session_quiet (e_session refEngine)" by simp
  have run: "chargePoints refRuntime refEngine sampleCharge emptyShop emptyShop = Inr (r, s')"
    using serialized_quiet [where body = "executePointCharge refRuntime refEngine sampleCharge 10", OF q ex] h
    by (simp add: chargePoints_def bindT_def liftT_def sampleCharge_def)
  from ex have s': "s' = chargedShop" by (simp add: chargedShop_def)
  from chargedShop_checkout obtain r' s'' where
    ex': "executeCommissionCheckout refRuntime refEngine samplePrepared s' = Inr (r', s'')"
    and new': "\<not> co_replayed r'" "unique_ok s''" and held: "map r_targetAmount (financialReservations s'') = [70]"
    unfolding s' by (auto split: sum.splits)
  have run': "complete refRuntime refEngine sampleCheckout sampleShop sampleShop s' = Inr (r', s'')"
    using complete_quiet [OF q sample_prepare] ex' by (simp add: execute_lockKeys [of "samplePrepared\<lparr>pc_lockKeys := _\<rparr>" samplePrepared])
  have "map_option a_id (accountOf 10 ''POINT'' ''AVAILABLE'' emptyShop) = Some 20" "accountFunds 20 emptyShop = 0"
    by code_simp+
  then have e: "accountFunds (a_id account) emptyShop = 0"
    if "findHolderId ''user'' (showInt (gi_actorId sampleCharge)) emptyShop = Inr k"
      "accountOf k ''POINT'' ''AVAILABLE'' emptyShop = Some account" for k account
    using that h by (auto simp: sampleCharge_def)
  have fin: "fin_ok emptyShop" by code_simp
  have refs: "session_frame (e_session refEngine)" "ci_actorId sampleCheckout = gi_actorId sampleCharge"
    by (simp_all add: sampleCheckout_def sampleCharge_def)
  have "\<exists>sources. \<exists>v \<in> set (financialReservations s''). r_id v = co_reservationId r' \<and>
    traceCommissionFunding (co_reservationId r') s'' = Inr sources \<and>
    (\<forall>(source, reference, operation) \<in> set sources. reference = go_referenceId r \<and> operation = go_operationId r \<and>
       gs_lotId source = go_lotId r) \<and>
    (\<Sum>(source, reference, operation)\<leftarrow>sources. gs_amount source) = r_targetAmount v \<and> 0 < r_targetAmount v"
    by (rule funding_names_its_charge [OF refs(1) refEngine_fresh fin run new _ run' new' refs(2)]) (rule e)
  then obtain sources v where "v \<in> set (financialReservations s'')"
    and trace: "traceCommissionFunding (co_reservationId r') s'' = Inr sources"
    "\<forall>(source, reference, operation) \<in> set sources. reference = go_referenceId r \<and> operation = go_operationId r \<and>
       gs_lotId source = go_lotId r"
    "(\<Sum>(source, reference, operation)\<leftarrow>sources. gs_amount source) = r_targetAmount v" by blast
  moreover from this(1) held have "r_targetAmount v = 70" by (cases "financialReservations s''") auto
  ultimately show ?thesis using run run' by (intro exI conjI) (assumption | force)+
qed

end
