(* ===== verification/FeatureFlag.thy ===== *)
theory FeatureFlag
  imports Schema "HOL-Library.List_Lexorder" "HOL-Library.Char_ord"
begin

text \<open>
  The feature-flag store: the activation rule, the admin decision, the retention policy and the
  drift report (\<open>src/modules/feature-flag/feature-flag.core.ts\<close>), the rows
  (\<open>feature-flag.repo.ts\<close>), the use cases (\<open>feature-flag.service.ts\<close>), the provider that
  answers flag lookups (\<open>feature-flag.provider.ts\<close>) and the cleanup job
  (\<open>jobs/feature-flag.job.ts\<close>).
\<close>

section \<open>Stages\<close>

datatype Stage = Local | Dev | Qa | Stg | Prod

fun stageText :: "Stage \<Rightarrow> string" where
  "stageText Local = ''LOCAL''"
| "stageText Dev = ''DEV''"
| "stageText Qa = ''QA''"
| "stageText Stg = ''STG''"
| "stageText Prod = ''PROD''"

definition STAGES :: "Stage list" where
  "STAGES = [Local, Dev, Qa, Stg, Prod]"

definition isStage :: "string \<Rightarrow> bool" where
  "isStage v \<longleftrightarrow> v \<in> stageText ` set STAGES"

definition parseStage :: "string option \<Rightarrow> Stage option" where
  "parseStage v = (case v of None \<Rightarrow> None | Some t \<Rightarrow> find (\<lambda>st. stageText st = t) STAGES)"

section \<open>Core\<close>

definition isActive :: "flag_row \<Rightarrow> Stage \<Rightarrow> instant \<Rightarrow> bool" where
  "isActive row stage now \<longleftrightarrow>
     f_deletedAt row = None \<and> parseStage (f_stage row) = Some stage \<and>
     (case f_enableAfter row of None \<Rightarrow> False | Some t \<Rightarrow> t \<le> now) \<and>
     (case f_disableAfter row of None \<Rightarrow> True | Some t \<Rightarrow> now \<le> t)"

definition UnknownFlagStageError :: "string \<Rightarrow> thrown" where
  "UnknownFlagStageError v = DomainError ''UnknownFlagStageError''
     (''Unknown feature-flag stage: '' @ jsonString v) ''UNKNOWN_FLAG_STAGE''"

definition InvalidFlagWindowError :: thrown where
  "InvalidFlagWindowError = DomainError ''InvalidFlagWindowError''
     ''disableAfter must be at or after enableAfter'' ''INVALID_FLAG_WINDOW''"

record FlagUpsert =
  fup_name :: string
  fup_description :: "string option"
  fup_stage :: "string option"
  fup_value :: "string option"
  fup_enableAfter :: "instant option"
  fup_disableAfter :: "instant option"

definition planFlagUpsert :: "FlagUpsert \<Rightarrow> thrown + FlagUpsert" where
  "planFlagUpsert input =
     (if fup_stage input \<noteq> None \<and> parseStage (fup_stage input) = None
      then Inl (UnknownFlagStageError (the (fup_stage input)))
      else if fup_enableAfter input \<noteq> None \<and> fup_disableAfter input \<noteq> None \<and>
        the (fup_disableAfter input) < the (fup_enableAfter input)
      then Inl InvalidFlagWindowError
      else Inr input)"

definition PURGE_RETENTION_DAYS :: int where
  "PURGE_RETENTION_DAYS = 30"

definition purgeCutoff :: "dayjs \<Rightarrow> instant \<Rightarrow> int option \<Rightarrow> instant" where
  "purgeCutoff dj now retentionDays =
     addDays dj now (- (case retentionDays of Some n \<Rightarrow> n | None \<Rightarrow> PURGE_RETENTION_DAYS))"

record FlagNameRow =
  nr_name :: string
  nr_deletedAt :: "instant option"

record FlagDriftReport =
  orphanLive :: "string list"
  killedButDeclared :: "string list"

text \<open>A \<open>Set\<close> in its order of insertion.\<close>

definition addToSet :: "'a \<Rightarrow> 'a list \<Rightarrow> 'a list" where
  "addToSet x xs = (if x \<in> set xs then xs else xs @ [x])"

definition reconcileFlagNames :: "FlagNameRow list \<Rightarrow> string list \<Rightarrow> FlagDriftReport" where
  "reconcileFlagNames rows declared =
     (let (stored, live) = foldl (\<lambda>(stored, live) row. (addToSet (nr_name row) stored,
            if nr_deletedAt row = None then addToSet (nr_name row) live else live)) ([], []) rows
      in \<lparr>orphanLive = sort (filter (\<lambda>n. n \<notin> set declared) live),
          killedButDeclared = sort (filter (\<lambda>n. n \<notin> set live \<and> n \<in> set declared) stored)\<rparr>)"

section \<open>Rows\<close>

definition findLiveByName :: "string \<Rightarrow> db \<Rightarrow> flag_row option" where
  "findLiveByName flagName s = findRow (\<lambda>f. f_name f = flagName \<and> f_deletedAt f = None) (featureFlags s)"

text \<open>The partial unique index: one live row of a name.\<close>

definition liveNameTaken :: "string \<Rightarrow> int option \<Rightarrow> db \<Rightarrow> bool" where
  "liveNameTaken flagName except s \<longleftrightarrow>
     list_ex (\<lambda>f. f_name f = flagName \<and> f_deletedAt f = None \<and> Some (f_id f) \<noteq> except) (featureFlags s)"

definition liveNameViolation :: thrown where
  "liveNameViolation = PrismaError ''P2002'' ''Unique constraint failed''"

definition insertFlag :: "engine \<Rightarrow> FlagUpsert \<Rightarrow> flag_row dbtx" where
  "insertFlag eng data = (\<lambda>s.
     if liveNameTaken (fup_name data) None s then Inl liveNameViolation
     else (let row = \<lparr>f_id = e_nextId eng ''FeatureFlag'' s, f_name = fup_name data,
                 f_description = fup_description data, f_stage = fup_stage data, f_value = fup_value data,
                 f_enableAfter = fup_enableAfter data, f_disableAfter = fup_disableAfter data, f_deletedAt = None\<rparr>
           in Inr (row, s\<lparr>featureFlags := featureFlags s @ [row]\<rparr>)))"

definition overwriteFlag :: "FlagUpsert \<Rightarrow> flag_row \<Rightarrow> flag_row" where
  "overwriteFlag data f = f\<lparr>f_name := fup_name data, f_description := fup_description data,
     f_stage := fup_stage data, f_value := fup_value data, f_enableAfter := fup_enableAfter data,
     f_disableAfter := fup_disableAfter data\<rparr>"

definition updateFlag :: "int \<Rightarrow> FlagUpsert \<Rightarrow> flag_row dbtx" where
  "updateFlag i data = (\<lambda>s. case findRow (\<lambda>f. f_id f = i) (featureFlags s) of
      None \<Rightarrow> Inl noRowFound
    | Some f \<Rightarrow> (if f_deletedAt f = None \<and> liveNameTaken (fup_name data) (Some i) s then Inl liveNameViolation
        else Inr (overwriteFlag data f,
          s\<lparr>featureFlags := updateWhere (\<lambda>f. f_id f = i) (overwriteFlag data) (featureFlags s)\<rparr>)))"

definition softDelete :: "int \<Rightarrow> instant \<Rightarrow> flag_row dbtx" where
  "softDelete i deletedAt = (\<lambda>s. case findRow (\<lambda>f. f_id f = i) (featureFlags s) of
      None \<Rightarrow> Inl noRowFound
    | Some f \<Rightarrow> Inr (f\<lparr>f_deletedAt := Some deletedAt\<rparr>,
        s\<lparr>featureFlags := updateWhere (\<lambda>f. f_id f = i) (\<lambda>f. f\<lparr>f_deletedAt := Some deletedAt\<rparr>) (featureFlags s)\<rparr>))"

definition purgeable :: "instant \<Rightarrow> flag_row \<Rightarrow> bool" where
  "purgeable cutoff f = (case f_deletedAt f of None \<Rightarrow> False | Some t \<Rightarrow> t \<le> cutoff)"

definition purgeDeletedBefore :: "instant \<Rightarrow> nat dbtx" where
  "purgeDeletedBefore cutoff = (\<lambda>s. Inr (countWhere (purgeable cutoff) (featureFlags s),
     s\<lparr>featureFlags := filter (\<lambda>f. \<not> purgeable cutoff f) (featureFlags s)\<rparr>))"

definition listNames :: "db \<Rightarrow> FlagNameRow list" where
  "listNames s = map (\<lambda>f. \<lparr>nr_name = f_name f, nr_deletedAt = f_deletedAt f\<rparr>) (featureFlags s)"

section \<open>Use cases\<close>

definition upsertFlag :: "engine \<Rightarrow> FlagUpsert \<Rightarrow> flag_row dbtx" where
  "upsertFlag eng input =
     bindT (liftT (planFlagUpsert input)) (\<lambda>data.
     run (e_session eng)
       (bindT (readT (\<lambda>s. Inr (findLiveByName (fup_name data) s))) (\<lambda>live.
        case live of Some f \<Rightarrow> updateFlag (f_id f) data | None \<Rightarrow> insertFlag eng data)))"

definition removeFlag :: "engine \<Rightarrow> instant \<Rightarrow> int \<Rightarrow> flag_row dbtx" where
  "removeFlag eng clockNow i = run (e_session eng) (softDelete i clockNow)"

definition purgeDeleted :: "engine \<Rightarrow> dayjs \<Rightarrow> instant \<Rightarrow> instant option \<Rightarrow> int option \<Rightarrow> nat dbtx" where
  "purgeDeleted eng dj clockNow optsNow retentionDays =
     (let cutoff = purgeCutoff dj (case optsNow of Some t \<Rightarrow> t | None \<Rightarrow> clockNow) retentionDays
      in run (e_session eng) (purgeDeletedBefore cutoff))"

definition reconcile :: "engine \<Rightarrow> string list \<Rightarrow> FlagDriftReport dbtx" where
  "reconcile eng declaredNames =
     bindT (run (e_session eng) (readT (\<lambda>s. Inr (listNames s)))) (\<lambda>rows.
     returnT (reconcileFlagNames rows declaredNames))"

section \<open>Provider\<close>

datatype reason = ReasonError | ReasonDefault | ReasonTargetingMatch | ReasonDisabled

record 'v ResolutionDetails =
  res_value :: 'v
  res_reason :: reason
  res_errorCode :: "string option"
  res_errorMessage :: "string option"

definition details :: "'v \<Rightarrow> reason \<Rightarrow> 'v ResolutionDetails" where
  "details v r = \<lparr>res_value = v, res_reason = r, res_errorCode = None, res_errorMessage = None\<rparr>"

definition unknownStage :: "'v \<Rightarrow> 'v ResolutionDetails" where
  "unknownStage v = \<lparr>res_value = v, res_reason = ReasonError, res_errorCode = Some ''PARSE_ERROR'',
     res_errorMessage = Some ''STAGE is unset or not a known deploy stage''\<rparr>"

definition resolveBooleanEvaluation :: "db \<Rightarrow> Stage option \<Rightarrow> instant \<Rightarrow> string \<Rightarrow> bool \<Rightarrow> bool ResolutionDetails" where
  "resolveBooleanEvaluation s stage now flagKey defaultValue =
     (case stage of
        None \<Rightarrow> unknownStage defaultValue
      | Some st \<Rightarrow> (case findLiveByName flagKey s of
          None \<Rightarrow> details defaultValue ReasonDefault
        | Some row \<Rightarrow> (let on = isActive row st now
            in details on (if on then ReasonTargetingMatch else ReasonDisabled))))"

definition resolveStringEvaluation :: "db \<Rightarrow> Stage option \<Rightarrow> instant \<Rightarrow> string \<Rightarrow> string \<Rightarrow> string ResolutionDetails" where
  "resolveStringEvaluation s stage now flagKey defaultValue =
     (case stage of
        None \<Rightarrow> unknownStage defaultValue
      | Some st \<Rightarrow> (case findLiveByName flagKey s of
          Some row \<Rightarrow> (case f_value row of
              Some v \<Rightarrow> (if isActive row st now then details v ReasonTargetingMatch
                else details defaultValue ReasonDefault)
            | None \<Rightarrow> details defaultValue ReasonDefault)
        | None \<Rightarrow> details defaultValue ReasonDefault))"

text \<open>Numbers and objects are not stored.\<close>

definition resolveNumberEvaluation :: "string \<Rightarrow> js_number \<Rightarrow> js_number ResolutionDetails" where
  "resolveNumberEvaluation flagKey defaultValue = details defaultValue ReasonDefault"

definition resolveObjectEvaluation :: "string \<Rightarrow> js \<Rightarrow> js ResolutionDetails" where
  "resolveObjectEvaluation flagKey defaultValue = details defaultValue ReasonDefault"

section \<open>The job\<close>

definition FEATURE_FLAG_PURGE_JOB :: string where
  "FEATURE_FLAG_PURGE_JOB = ''feature-flag:purge-deleted''"

text \<open>The handler, over the database and the warnings of the delivery layer's logger.\<close>

definition featureFlagJobHandler ::
  "engine \<Rightarrow> dayjs \<Rightarrow> instant \<Rightarrow> string list \<Rightarrow> (thrown, db \<times> FlagDriftReport list, unit) tx" where
  "featureFlagJobHandler eng dj now declaredNames = (\<lambda>(s, warnings).
     case reconcile eng declaredNames s of
       Inl e \<Rightarrow> Inl e
     | Inr (drift, s1) \<Rightarrow>
         (let warnings' = (if 0 < length (orphanLive drift) \<or> 0 < length (killedButDeclared drift)
              then warnings @ [drift] else warnings)
          in case purgeDeleted eng dj now None None s1 of
               Inl e \<Rightarrow> Inl e
             | Inr (n, s2) \<Rightarrow> Inr ((), (s2, warnings'))))"

text \<open>The name, the schedule and the time zone it is read in.\<close>

definition registerFeatureFlagJobs :: "(string \<times> string \<times> string option) list" where
  "registerFeatureFlagJobs = [(FEATURE_FLAG_PURGE_JOB, ''0 3 * * *'', Some ''Asia/Seoul'')]"

end
