(* ===== verification/FeatureFlagLaws.thy ===== *)
theory FeatureFlagLaws
  imports FeatureFlag
begin

text \<open>
  What the flag store guarantees: every stored row is one the admin decision let through, and a
  name has at most one live row; what was upserted is what lookups answer; a kill turns a gate
  off; the purge removes exactly what the retention policy names and changes no answer; the
  drift report is exact.
\<close>

section \<open>Stages and windows\<close>

lemma stageText_inject [simp]: "stageText a = stageText b \<longleftrightarrow> a = b"
  by (cases a; cases b) simp_all

lemma parseStage_eq_Some: "parseStage v = Some st \<longleftrightarrow> v = Some (stageText st)"
  by (cases st) (auto simp: parseStage_def STAGES_def split: option.splits if_splits)

lemma planFlagUpsert_eq_Inr:
  "planFlagUpsert input = Inr data \<longleftrightarrow> data = input \<and>
     (fup_stage input = None \<or> (\<exists>st. fup_stage input = Some (stageText st))) \<and>
     (\<forall>a b. fup_enableAfter input = Some a \<longrightarrow> fup_disableAfter input = Some b \<longrightarrow> a \<le> b)"
proof -
  have "parseStage (fup_stage input) \<noteq> None \<longleftrightarrow> (\<exists>st. fup_stage input = Some (stageText st))"
    using parseStage_eq_Some [of "fup_stage input"] by auto
  then show ?thesis by (auto simp: planFlagUpsert_def)
qed

section \<open>The stored rows\<close>

definition live :: "flag_row \<Rightarrow> bool" where
  "live f \<longleftrightarrow> f_deletedAt f = None"

definition flag_ok :: "flag_row \<Rightarrow> bool" where
  "flag_ok f \<longleftrightarrow> (f_stage f = None \<or> (\<exists>st. f_stage f = Some (stageText st))) \<and>
     (\<forall>a b. f_enableAfter f = Some a \<longrightarrow> f_disableAfter f = Some b \<longrightarrow> a \<le> b)"

definition flags_ok :: "db \<Rightarrow> bool" where
  "flags_ok s \<longleftrightarrow> distinct (map f_id (featureFlags s)) \<and>
     distinct (map f_name (filter live (featureFlags s))) \<and> (\<forall>f \<in> set (featureFlags s). flag_ok f)"

lemma liveNameTaken_iff:
  "liveNameTaken n ex s \<longleftrightarrow> (\<exists>f \<in> set (featureFlags s). f_name f = n \<and> live f \<and> Some (f_id f) \<noteq> ex)"
  by (auto simp: liveNameTaken_def list_ex_iff live_def)

lemma insertFlag_eq_Inr:
  "insertFlag eng data s = Inr (f, s') \<longleftrightarrow> \<not> liveNameTaken (fup_name data) None s \<and>
     f = overwriteFlag data \<lparr>f_id = e_nextId eng ''FeatureFlag'' s, f_name = fup_name data, f_description = None,
       f_stage = None, f_value = None, f_enableAfter = None, f_disableAfter = None, f_deletedAt = None\<rparr> \<and>
     s' = s\<lparr>featureFlags := featureFlags s @ [f]\<rparr>"
  by (auto simp: insertFlag_def Let_def overwriteFlag_def)

lemma overwriteFlag_simps [simp]:
  "f_id (overwriteFlag d f) = f_id f" "f_name (overwriteFlag d f) = fup_name d"
  "f_deletedAt (overwriteFlag d f) = f_deletedAt f" "f_stage (overwriteFlag d f) = fup_stage d"
  "f_value (overwriteFlag d f) = fup_value d" "f_description (overwriteFlag d f) = fup_description d"
  "f_enableAfter (overwriteFlag d f) = fup_enableAfter d" "f_disableAfter (overwriteFlag d f) = fup_disableAfter d"
  "live (overwriteFlag d f) = live f"
  by (simp_all add: overwriteFlag_def live_def)

lemma map_updateWhere_same:
  "(\<And>r. r \<in> set rows \<Longrightarrow> p r \<Longrightarrow> k (f r) = k r) \<Longrightarrow> map k (updateWhere p f rows) = map k rows"
  by (simp add: updateWhere_def)

lemma filter_updateWhere:
  "(\<And>r. r \<in> set rows \<Longrightarrow> p r \<Longrightarrow> q (f r) = q r) \<Longrightarrow> filter q (updateWhere p f rows) = updateWhere p f (filter q rows)"
  by (induction rows) (auto simp: updateWhere_def)

lemma set_updateWhere_one:
  assumes "\<And>g. g \<in> set rows \<Longrightarrow> p g \<longleftrightarrow> g = f" "f \<in> set rows"
  shows "set (updateWhere p h rows) = insert (h f) (set rows - {f})"
  using assms by (auto simp: set_updateWhere image_iff)

text \<open>The live row of a name is the one live member with the name.\<close>

lemma findLive_iff:
  assumes "flags_ok s"
  shows "findLiveByName n s = Some f \<longleftrightarrow> f \<in> set (featureFlags s) \<and> f_name f = n \<and> live f"
proof
  assume "findLiveByName n s = Some f"
  then show "f \<in> set (featureFlags s) \<and> f_name f = n \<and> live f"
    by (auto simp: findLiveByName_def live_def dest: findRow_Some)
next
  assume f: "f \<in> set (featureFlags s) \<and> f_name f = n \<and> live f"
  then have "findLiveByName n s \<noteq> None" by (auto simp: findLiveByName_def findRow_None live_def)
  then obtain g where g: "findLiveByName n s = Some g" by blast
  then have "g \<in> set (filter live (featureFlags s))" "f_name g = n"
    by (auto simp: findLiveByName_def live_def dest: findRow_Some)
  moreover have "f \<in> set (filter live (featureFlags s))" using f by simp
  ultimately have "g = f" using assms f distinct_key_unique [of f_name] unfolding flags_ok_def by metis
  with g show "findLiveByName n s = Some f" by simp
qed

lemma findLive_eqI:
  assumes "flags_ok s" "flags_ok t"
    "\<And>f. f \<in> set (featureFlags s) \<and> f_name f = n \<and> live f \<longleftrightarrow> f \<in> set (featureFlags t) \<and> f_name f = n \<and> live f"
  shows "findLiveByName n s = findLiveByName n t"
proof (cases "findLiveByName n t")
  case None
  then show ?thesis using assms by (metis findLive_iff option.exhaust)
next
  case (Some f)
  then show ?thesis using assms by (metis findLive_iff)
qed

text \<open>What an upsert writes: the one live row of the name, the others untouched.\<close>

lemma upsertFlag_effect:
  assumes ok: "flags_ok s" and fresh: "engine_fresh eng" and up: "upsertFlag eng input s = Inr (row, s')"
  shows "flags_ok s'" "findLiveByName (fup_name input) s' = Some row" "row = overwriteFlag input row"
    "n \<noteq> fup_name input \<Longrightarrow> findLiveByName n s' = findLiveByName n s"
proof -
  from up obtain data where "planFlagUpsert input = Inr data" and
    b: "(case findLiveByName (fup_name data) s of Some f \<Rightarrow> updateFlag (f_id f) data s | None \<Rightarrow> insertFlag eng data s)
      = Inr (row, s')"
    by (auto simp: upsertFlag_def run_def runTx_eq_Inr bindT_eq_Inr liftT_eq_Inr readT_eq_Inr split: option.splits)
  then have data: "data = input" and good: "flag_ok (overwriteFlag input f)" for f
    by (auto simp: planFlagUpsert_eq_Inr flag_ok_def)
  have d: "distinct (map f_id (featureFlags s))" and names: "distinct (map f_name (filter live (featureFlags s)))"
    and rows: "\<forall>f \<in> set (featureFlags s). flag_ok f" using ok by (simp_all add: flags_ok_def)
  have "flags_ok s' \<and> row \<in> set (featureFlags s') \<and> f_name row = fup_name input \<and> live row \<and>
    row = overwriteFlag input row \<and> (\<forall>f. f_name f \<noteq> fup_name input \<longrightarrow> f \<in> set (featureFlags s') \<longleftrightarrow> f \<in> set (featureFlags s))"
  proof (cases "findLiveByName (fup_name input) s")
    case None
    with b data have ins: "\<not> liveNameTaken (fup_name input) None s"
      "row = overwriteFlag input \<lparr>f_id = e_nextId eng ''FeatureFlag'' s, f_name = fup_name input, f_description = None,
       f_stage = None, f_value = None, f_enableAfter = None, f_disableAfter = None, f_deletedAt = None\<rparr>"
      "s' = s\<lparr>featureFlags := featureFlags s @ [row]\<rparr>"
      by (simp_all add: insertFlag_eq_Inr)
    have "e_nextId eng ''FeatureFlag'' s \<notin> f_id ` set (featureFlags s)"
      using fresh unfolding engine_fresh_def by blast
    then have new: "f_id row \<notin> f_id ` set (featureFlags s)" by (simp add: ins(2))
    have row: "f_name row = fup_name input" "live row" "row = overwriteFlag input row" "flag_ok row"
      using good [of row] by (simp_all add: ins(2) live_def overwriteFlag_def flag_ok_def)
    have "fup_name input \<notin> f_name ` set (filter live (featureFlags s))"
      using ins(1) by (auto simp: liveNameTaken_iff)
    then have "flags_ok s'" using d names rows new row by (auto simp: flags_ok_def ins(3))
    with row show ?thesis by (auto simp: ins(3))
  next
    case (Some f)
    then have f: "f \<in> set (featureFlags s)" "f_name f = fup_name input" "live f" using findLive_iff [OF ok] by auto
    from b data Some findRow_key [OF d f(1)] have
      row: "row = overwriteFlag input f" and
      s': "s' = s\<lparr>featureFlags := updateWhere (\<lambda>g. f_id g = f_id f) (overwriteFlag input) (featureFlags s)\<rparr>"
      by (auto simp: updateFlag_def split: if_splits)
    have only: "g = f" if "g \<in> set (featureFlags s)" "f_id g = f_id f" for g
      using distinct_key_unique [OF d that(1) f(1) that(2)] .
    have rows': "set (featureFlags s') = insert row (set (featureFlags s) - {f})"
      unfolding s' row db.select_convs db.update_convs
      by (simp, rule set_updateWhere_one [OF _ f(1)]) (use only in blast)
    then have mem: "g \<in> set (featureFlags s') \<longleftrightarrow> g = row \<or> g \<in> set (featureFlags s) \<and> g \<noteq> f" for g by blast
    have "map f_id (featureFlags s') = map f_id (featureFlags s)"
      unfolding s' by (simp add: map_key_updateWhere)
    moreover have "filter live (featureFlags s') =
        updateWhere (\<lambda>g. f_id g = f_id f) (overwriteFlag input) (filter live (featureFlags s))"
      by (simp add: s' filter_updateWhere)
    then have "map f_name (filter live (featureFlags s')) = map f_name (filter live (featureFlags s))"
      by (simp, intro map_updateWhere_same) (use only f(2) in force)
    moreover have "flag_ok g" if "g \<in> set (featureFlags s')" for g
      using that rows good [of f] row unfolding mem by blast
    ultimately have ok': "flags_ok s'" using d names by (simp add: flags_ok_def)
    have row': "f_name row = fup_name input" "live row" "row = overwriteFlag input row"
      unfolding row using f(3) by (simp_all add: f(2) overwriteFlag_def live_def)
    have "g \<in> set (featureFlags s') \<longleftrightarrow> g \<in> set (featureFlags s)" if "f_name g \<noteq> fup_name input" for g
      unfolding mem using that row'(1) f(2) by metis
    with ok' row' mem [of row] show ?thesis by blast
  qed
  then have ok': "flags_ok s'" and row: "row \<in> set (featureFlags s')" "f_name row = fup_name input" "live row"
    "row = overwriteFlag input row" and
    others: "\<And>f. f_name f \<noteq> fup_name input \<Longrightarrow> f \<in> set (featureFlags s') \<longleftrightarrow> f \<in> set (featureFlags s)" by blast+
  show "flags_ok s'" "row = overwriteFlag input row" by (rule ok', rule row(4))
  show "findLiveByName (fup_name input) s' = Some row" using row by (simp add: findLive_iff [OF ok'])
  show "findLiveByName n s' = findLiveByName n s" if "n \<noteq> fup_name input"
    by (rule findLive_eqI [OF ok' ok]) (use others that in auto)
qed

text \<open>C30: what an admin upserts is what lookups answer: after an upsert the gate of that name is on
  exactly at the named stage within the named window, the variant lookup answers the stored
  value there and the default elsewhere, and no other flag's answer changes.
\<close>

theorem upserted_flag_is_answered:
  assumes "flags_ok s" "engine_fresh eng" "upsertFlag eng input s = Inr (row, s')"
  shows "(res_value (resolveBooleanEvaluation s' (Some stage) now (fup_name input) d) \<longleftrightarrow>
      fup_stage input = Some (stageText stage) \<and> (\<exists>a. fup_enableAfter input = Some a \<and> a \<le> now) \<and>
      (\<forall>b. fup_disableAfter input = Some b \<longrightarrow> now \<le> b)) \<and>
    res_value (resolveStringEvaluation s' (Some stage) now (fup_name input) v) =
      (if res_value (resolveBooleanEvaluation s' (Some stage) now (fup_name input) d)
       then (case fup_value input of Some w \<Rightarrow> w | None \<Rightarrow> v) else v) \<and>
    (\<forall>n. n \<noteq> fup_name input \<longrightarrow> resolveBooleanEvaluation s' st now n d = resolveBooleanEvaluation s st now n d \<and>
       resolveStringEvaluation s' st now n v = resolveStringEvaluation s st now n v)"
proof -
  note e = upsertFlag_effect [OF assms]
  from e(3) have row: "f_stage row = fup_stage input" "f_value row = fup_value input"
    "f_enableAfter row = fup_enableAfter input" "f_disableAfter row = fup_disableAfter input"
    by (metis overwriteFlag_simps)+
  have "live row" using e(2) by (auto simp: findLiveByName_def live_def dest: findRow_Some)
  then have del: "f_deletedAt row = None" by (simp add: live_def)
  have act: "isActive row stage now \<longleftrightarrow> fup_stage input = Some (stageText stage) \<and>
      (\<exists>a. fup_enableAfter input = Some a \<and> a \<le> now) \<and> (\<forall>b. fup_disableAfter input = Some b \<longrightarrow> now \<le> b)"
    by (auto simp: isActive_def del row parseStage_eq_Some split: option.splits)
  show ?thesis
    using e(4) by (auto simp: resolveBooleanEvaluation_def resolveStringEvaluation_def e(2) details_def Let_def act row
        split: option.splits)
qed

section \<open>Kill and purge\<close>

lemma resolve_same_row:
  assumes "findLiveByName key s' = findLiveByName key s"
  shows "resolveBooleanEvaluation s' stage at key d = resolveBooleanEvaluation s stage at key d"
    "resolveStringEvaluation s' stage at key v = resolveStringEvaluation s stage at key v"
  unfolding resolveBooleanEvaluation_def resolveStringEvaluation_def assms by (rule refl)+

lemma softDelete_effect:
  assumes ok: "flags_ok s" and del: "softDelete i t s = Inr (row, s')"
  shows "flags_ok s'" "f_id row = i" "f_deletedAt row = Some t"
    "\<exists>f \<in> set (featureFlags s). f_id f = i \<and> f_name row = f_name f \<and> (live f \<longrightarrow> findLiveByName (f_name f) s' = None)"
    "\<And>n. n \<noteq> f_name row \<Longrightarrow> findLiveByName n s' = findLiveByName n s"
proof -
  let ?kill = "\<lambda>f :: flag_row. f\<lparr>f_deletedAt := Some t\<rparr>"
  from del obtain f where f: "findRow (\<lambda>f. f_id f = i) (featureFlags s) = Some f" and row: "row = ?kill f" and
    s': "s' = s\<lparr>featureFlags := updateWhere (\<lambda>f. f_id f = i) ?kill (featureFlags s)\<rparr>"
    by (auto simp: softDelete_def split: option.splits)
  from findRow_Some [OF f] have fm: "f \<in> set (featureFlags s)" "f_id f = i" by auto
  have d: "distinct (map f_id (featureFlags s))" and names: "distinct (map f_name (filter live (featureFlags s)))"
    and rows: "\<forall>f \<in> set (featureFlags s). flag_ok f" using ok by (simp_all add: flags_ok_def)
  have only: "g = f" if "g \<in> set (featureFlags s)" "f_id g = i" for g
    using distinct_key_unique [OF d that(1) fm(1)] that(2) fm(2) by simp
  have rows': "set (featureFlags s') = insert row (set (featureFlags s) - {f})"
    unfolding s' row by (simp, rule set_updateWhere_one [OF _ fm(1)]) (use only fm(2) in blast)
  then have mem: "g \<in> set (featureFlags s') \<longleftrightarrow> g = row \<or> g \<in> set (featureFlags s) \<and> g \<noteq> f" for g by blast
  have "filter live (updateWhere (\<lambda>f. f_id f = i) ?kill fs) = filter (\<lambda>g. f_id g \<noteq> i) (filter live fs)" for fs
    by (induction fs) (auto simp: live_def updateWhere_def)
  then have "map f_name (filter live (featureFlags s')) = map f_name (filter (\<lambda>g. f_id g \<noteq> i) (filter live (featureFlags s)))"
    by (simp add: s')
  then have "distinct (map f_name (filter live (featureFlags s')))"
    using names by (simp add: distinct_map_filter del: filter_filter)
  moreover have "map f_id (featureFlags s') = map f_id (featureFlags s)" by (simp add: s' map_key_updateWhere)
  moreover have "flag_ok row" using rows fm(1) by (simp add: row flag_ok_def)
  then have "\<forall>g \<in> set (featureFlags s'). flag_ok g" using rows by (simp add: rows')
  ultimately show ok': "flags_ok s'" using d by (simp add: flags_ok_def)
  show "f_id row = i" "f_deletedAt row = Some t" by (simp_all add: row fm)
  have "findLiveByName (f_name f) s' = None" if "live f"
  proof (rule ccontr)
    assume "findLiveByName (f_name f) s' \<noteq> None"
    then obtain g where "g \<in> set (featureFlags s')" "f_name g = f_name f" "live g"
      using findLive_iff [OF ok'] by blast
    moreover from this have "g \<noteq> row" by (auto simp: row live_def)
    ultimately have "g \<in> set (filter live (featureFlags s))" "g \<noteq> f" "f_name g = f_name f" using mem by auto
    with distinct_key_unique [OF names, of g f] fm that show False by simp
  qed
  then show "\<exists>f \<in> set (featureFlags s). f_id f = i \<and> f_name row = f_name f \<and> (live f \<longrightarrow> findLiveByName (f_name f) s' = None)"
    using fm by (intro bexI [of _ f]) (simp_all add: row)
  show "findLiveByName n s' = findLiveByName n s" if "n \<noteq> f_name row" for n
    by (rule findLive_eqI [OF ok' ok]) (use mem that in \<open>auto simp: row\<close>)
qed

lemma purge_effect:
  assumes ok: "flags_ok s" and t_def: "t = s\<lparr>featureFlags := filter (\<lambda>f. \<not> purgeable cutoff f) (featureFlags s)\<rparr>"
  shows "flags_ok t" "findLiveByName n t = findLiveByName n s"
proof -
  have "filter live (filter p fs) = filter p (filter live fs)" for p fs by (induction fs) auto
  then have "distinct (map f_name (filter live (featureFlags t)))"
    using ok by (simp add: t_def flags_ok_def distinct_map_filter del: filter_filter)
  then show ok': "flags_ok t"
    using ok by (simp add: flags_ok_def distinct_map_filter t_def)
  show "findLiveByName n t = findLiveByName n s"
    by (rule findLive_eqI [OF ok' ok]) (auto simp: t_def live_def purgeable_def)
qed

text \<open>C31: the purge keeps the retention policy and changes no answer: it removes exactly the rows
  deleted at least thirty days (or the days asked for) before its instant, counts them, leaves
  every live row, and every lookup of every flag answers as before.
\<close>

theorem purge_keeps_retention:
  assumes "flags_ok s" "dayjs_utc dj" "purgeDeleted eng dj clockNow optsNow retentionDays s = Inr (n, s')"
    "now = (case optsNow of Some t \<Rightarrow> t | None \<Rightarrow> clockNow)" "days = (case retentionDays of Some m \<Rightarrow> m | None \<Rightarrow> 30)"
  shows "(\<forall>f. f \<in> set (featureFlags s') \<longleftrightarrow> f \<in> set (featureFlags s) \<and>
      (\<forall>t. f_deletedAt f = Some t \<longrightarrow> now - days * msPerDay < t)) \<and>
    n + length (featureFlags s') = length (featureFlags s) \<and> flags_ok s' \<and>
    (\<forall>stage at key d v. resolveBooleanEvaluation s' stage at key d = resolveBooleanEvaluation s stage at key d \<and>
       resolveStringEvaluation s' stage at key v = resolveStringEvaluation s stage at key v)"
proof -
  define cutoff where "cutoff = purgeCutoff dj now retentionDays"
  have c: "cutoff = now - days * msPerDay"
    using assms(2) by (simp add: cutoff_def purgeCutoff_def addDays_def dayjs_utc_def assms(5) PURGE_RETENTION_DAYS_def
        split: option.split)
  from assms(3) have n: "n = countWhere (purgeable cutoff) (featureFlags s)" and
    s': "s' = s\<lparr>featureFlags := filter (\<lambda>f. \<not> purgeable cutoff f) (featureFlags s)\<rparr>"
    by (auto simp: purgeDeleted_def run_def runTx_eq_Inr purgeDeletedBefore_def cutoff_def assms(4) Let_def)
  note e = purge_effect [OF assms(1) s']
  have "n + length (featureFlags s') = length (featureFlags s)"
    by (simp add: n s' countWhere_def sum_length_filter_compl)
  moreover have "f \<in> set (featureFlags s') \<longleftrightarrow> f \<in> set (featureFlags s) \<and>
      (\<forall>t. f_deletedAt f = Some t \<longrightarrow> now - days * msPerDay < t)" for f
    by (auto simp: s' purgeable_def c split: option.split)
  ultimately show ?thesis using e(1) resolve_same_row [OF e(2)] by blast
qed

text \<open>a kill takes effect at once: after the live row of a flag is removed, the gate and the
  variant answer the caller's default, whatever stage and instant, and no other flag's answer
  changes.
\<close>

theorem removed_flag_answers_default:
  assumes "flags_ok s" "findLiveByName key s = Some f" "removeFlag eng clockNow (f_id f) s = Inr (row, s')"
  shows "f_deletedAt row = Some clockNow \<and> flags_ok s' \<and>
    res_value (resolveBooleanEvaluation s' stage at key d) = d \<and>
    res_value (resolveStringEvaluation s' stage at key v) = v \<and>
    (\<forall>n. n \<noteq> key \<longrightarrow> resolveBooleanEvaluation s' stage at n d = resolveBooleanEvaluation s stage at n d)"
proof -
  from assms(3) have del: "softDelete (f_id f) clockNow s = Inr (row, s')"
    by (simp add: removeFlag_def run_def runTx_eq_Inr)
  note e = softDelete_effect [OF assms(1) del]
  have f: "f \<in> set (featureFlags s)" "f_name f = key" "live f" using assms(1,2) by (simp_all add: findLive_iff)
  from e(4) obtain g where g: "g \<in> set (featureFlags s)" "f_id g = f_id f" "f_name row = f_name g"
    "live g \<longrightarrow> findLiveByName (f_name g) s' = None" by blast
  have "distinct (map f_id (featureFlags s))" using assms(1) by (simp add: flags_ok_def)
  from distinct_key_unique [OF this g(1) f(1) g(2)] have "g = f" .
  with g f have none: "findLiveByName key s' = None" "f_name row = key" by simp_all
  show ?thesis
    using e(1,3,5) none by (auto simp: resolveBooleanEvaluation_def resolveStringEvaluation_def details_def
        unknownStage_def split: option.split)
qed

section \<open>Any sequence of operations\<close>

inductive flag_step :: "engine \<Rightarrow> dayjs \<Rightarrow> db \<Rightarrow> db \<Rightarrow> bool" for eng dj where
  Upsert: "upsertFlag eng input s = Inr (row, s') \<Longrightarrow> flag_step eng dj s s'"
| Remove: "removeFlag eng now i s = Inr (row, s') \<Longrightarrow> flag_step eng dj s s'"
| Purge: "purgeDeleted eng dj now optsNow days s = Inr (n, s') \<Longrightarrow> flag_step eng dj s s'"

interpretation flagStore: invariant_system "\<lambda>s :: db. engine_fresh eng \<and> featureFlags s = []" "flag_step eng dj"
  "\<lambda>s. engine_fresh eng \<and> flags_ok s" for eng dj
proof unfold_locales
  fix s :: db
  assume "engine_fresh eng \<and> featureFlags s = []"
  then show "engine_fresh eng \<and> flags_ok s" by (simp add: flags_ok_def)
next
  fix s s' :: db
  assume step: "flag_step eng dj s s'" and inv: "engine_fresh eng \<and> flags_ok s"
  from step have "flags_ok s'"
  proof cases
    case (Upsert input row)
    with upsertFlag_effect(1) inv show ?thesis by blast
  next
    case (Remove now i row)
    then have "softDelete i now s = Inr (row, s')" by (simp add: removeFlag_def run_def runTx_eq_Inr)
    with softDelete_effect(1) inv show ?thesis by blast
  next
    case (Purge now optsNow days n)
    then have "\<exists>cutoff. s' = s\<lparr>featureFlags := filter (\<lambda>f. \<not> purgeable cutoff f) (featureFlags s)\<rparr>"
      by (auto simp: purgeDeleted_def run_def runTx_eq_Inr purgeDeletedBefore_def Let_def)
    with purge_effect(1) inv show ?thesis by blast
  qed
  with inv show "engine_fresh eng \<and> flags_ok s'" by simp
qed

text \<open>C32: after any sequence of upserts, kills and purges on an empty store, every stored row has
  a known stage or none and a window that does not end before it starts, and a name has at
  most one live row, so that the lookup of a live flag is single-valued.
\<close>

theorem stored_flags_are_well_formed:
  assumes "engine_fresh eng" "featureFlags (s :: db) = []" "rtranclp (flag_step eng dj) s s'"
  shows "(\<forall>f \<in> set (featureFlags s'). (f_stage f = None \<or> (\<exists>stage. parseStage (f_stage f) = Some stage)) \<and>
      (\<forall>a b. f_enableAfter f = Some a \<longrightarrow> f_disableAfter f = Some b \<longrightarrow> a \<le> b)) \<and>
    (\<forall>f \<in> set (featureFlags s'). f_deletedAt f = None \<longrightarrow> findLiveByName (f_name f) s' = Some f)"
proof -
  have "engine_fresh eng \<and> featureFlags s = []" using assms by simp
  from flagStore.reachable_inv [OF this assms(3)] have ok: "flags_ok s'" by blast
  then show ?thesis by (simp add: findLive_iff live_def parseStage_eq_Some) (auto simp: flags_ok_def flag_ok_def)
qed

section \<open>Drift\<close>

lemma set_addToSet [simp]: "set (addToSet x xs) = insert x (set xs)"
  by (auto simp: addToSet_def)

lemma distinct_addToSet [simp]: "distinct (addToSet x xs) = distinct xs"
  by (simp add: addToSet_def)

lemma reconcile_sets:
  "foldl (\<lambda>(stored, live) row. (addToSet (nr_name row) stored,
      if nr_deletedAt row = None then addToSet (nr_name row) live else live)) (st, li) rows = (st', li') \<Longrightarrow>
     distinct st \<Longrightarrow> distinct li \<Longrightarrow>
     set st' = set st \<union> nr_name ` set rows \<and> set li' = set li \<union> nr_name ` {r \<in> set rows. nr_deletedAt r = None} \<and>
     distinct st' \<and> distinct li'"
proof (induction rows arbitrary: st li)
  case Nil
  then show ?case by simp
next
  case (Cons row rows)
  show ?case
    using Cons.prems Cons.IH [of "addToSet (nr_name row) st"
      "if nr_deletedAt row = None then addToSet (nr_name row) li else li"]
    by (cases "nr_deletedAt row = None") auto
qed

text \<open>the drift report is exact and stable: the orphans are the names with a live row that the
  code does not declare, the killed ones the declared names that have rows and no live one,
  each name once and in order; a declared name without rows is in neither list.
\<close>

theorem reconcile_report_exact:
  "reconcile eng declaredNames s = Inr (report, s') \<Longrightarrow> s' = s \<and>
     set (orphanLive report) = f_name ` set (filter live (featureFlags s)) - set declaredNames \<and>
     set (killedButDeclared report) = {n \<in> set declaredNames. (\<exists>f \<in> set (featureFlags s). f_name f = n) \<and>
        (\<forall>f \<in> set (featureFlags s). f_name f = n \<longrightarrow> \<not> live f)} \<and>
     sorted (orphanLive report) \<and> distinct (orphanLive report) \<and>
     sorted (killedButDeclared report) \<and> distinct (killedButDeclared report)"
proof -
  assume "reconcile eng declaredNames s = Inr (report, s')"
  then have s': "s' = s" and r: "report = reconcileFlagNames (listNames s) declaredNames"
    by (auto simp: reconcile_def run_def runTx_eq_Inr bindT_eq_Inr readT_eq_Inr returnT_eq_Inr)
  obtain st li where f: "foldl (\<lambda>(stored, live) row. (addToSet (nr_name row) stored,
      if nr_deletedAt row = None then addToSet (nr_name row) live else live)) ([], []) (listNames s) = (st, li)"
    by (rule prod.exhaust)
  from reconcile_sets [OF f] have sets: "set st = f_name ` set (featureFlags s)"
    "set li = f_name ` {f \<in> set (featureFlags s). live f}" "distinct st" "distinct li"
    by (auto simp: listNames_def live_def image_iff) force
  have rep: "orphanLive report = sort (filter (\<lambda>n. n \<notin> set declaredNames) li)"
    "killedButDeclared report = sort (filter (\<lambda>n. n \<notin> set li \<and> n \<in> set declaredNames) st)"
    by (simp_all add: r reconcileFlagNames_def f)
  show ?thesis by (auto simp: s' rep sets image_iff)
qed

section \<open>Sample flags\<close>

definition sampleFlags :: db where
  "sampleFlags = emptyDb\<lparr>featureFlags := [
     \<lparr>f_id = 1, f_name = ''a'', f_description = None, f_stage = Some ''DEV'', f_value = None,
      f_enableAfter = Some 5, f_disableAfter = None, f_deletedAt = None\<rparr>,
     \<lparr>f_id = 2, f_name = ''b'', f_description = None, f_stage = None, f_value = None,
      f_enableAfter = None, f_disableAfter = None, f_deletedAt = Some 7\<rparr>]\<rparr>"

definition sampleUpsert :: FlagUpsert where
  "sampleUpsert = \<lparr>fup_name = ''b'', fup_description = None, fup_stage = Some ''DEV'', fup_value = Some ''v'',
     fup_enableAfter = Some 10, fup_disableAfter = Some 20\<rparr>"

lemma sampleFlags_ok: "flags_ok sampleFlags"
proof -
  have "(\<exists>st. ''DEV'' = stageText st) \<longleftrightarrow> True" using stageText.simps(2) by metis
  then show ?thesis by (simp add: flags_ok_def sampleFlags_def live_def flag_ok_def)
qed

definition utcDays :: dayjs where
  "utcDays = \<lparr>addDay = (\<lambda>t n. t + n * msPerDay), addHour = (\<lambda>t n. t + n * msPerHour),
     subtractHour = (\<lambda>t n. t - n * msPerHour), endOfDay = (\<lambda>t. t div msPerDay * msPerDay + msPerDay - 1),
     formatYMD = (\<lambda>_. [])\<rparr>"

lemma utcDays_utc: "dayjs_utc utcDays"
  by (simp add: dayjs_utc_def utcDays_def)

theorem upserted_flag_is_answered_witness:
  "\<exists>row s'. upsertFlag refEngine sampleUpsert sampleFlags = Inr (row, s') \<and>
     res_value (resolveBooleanEvaluation s' (Some Dev) 15 ''b'' False) \<and>
     res_value (resolveStringEvaluation s' (Some Dev) 15 ''b'' ''d'') = ''v''"
proof -
  have "case upsertFlag refEngine sampleUpsert sampleFlags of Inl e \<Rightarrow> False | Inr z \<Rightarrow> True" by code_simp
  then obtain row s' where r: "upsertFlag refEngine sampleUpsert sampleFlags = Inr (row, s')"
    by (auto split: sum.splits)
  from upserted_flag_is_answered [OF sampleFlags_ok refEngine_fresh r, of Dev 15 False] r
  show ?thesis by (auto simp: sampleUpsert_def)
qed

theorem purge_keeps_retention_witness:
  "\<exists>n s'. purgeDeleted refEngine utcDays (7 + 30 * msPerDay) None None sampleFlags = Inr (n, s') \<and>
     n + length (featureFlags s') = 2 \<and> map f_id (featureFlags s') = [1]"
proof -
  have "case purgeDeleted refEngine utcDays (7 + 30 * msPerDay) None None sampleFlags of
      Inl e \<Rightarrow> False | Inr (n, s') \<Rightarrow> map f_id (featureFlags s') = [1]" by code_simp
  then obtain n s' where r: "purgeDeleted refEngine utcDays (7 + 30 * msPerDay) None None sampleFlags = Inr (n, s')"
    "map f_id (featureFlags s') = [1]"
    by (auto split: sum.splits)
  have "7 + 30 * msPerDay = (case None of Some t \<Rightarrow> t | None \<Rightarrow> 7 + 30 * msPerDay)"
    "(30::int) = (case None of Some m \<Rightarrow> m | None \<Rightarrow> 30)" by simp_all
  from purge_keeps_retention [OF sampleFlags_ok utcDays_utc r(1) this]
  have "n + length (featureFlags s') = length (featureFlags sampleFlags)" by blast
  then have "n + length (featureFlags s') = 2" by (simp add: sampleFlags_def)
  with r show ?thesis by (intro exI [of _ n] exI [of _ s'] conjI)
qed

theorem removed_flag_answers_default_witness:
  "\<exists>row s'. removeFlag refEngine 9 1 sampleFlags = Inr (row, s') \<and>
     res_value (resolveBooleanEvaluation sampleFlags (Some Dev) 15 ''a'' False) \<and>
     \<not> res_value (resolveBooleanEvaluation s' (Some Dev) 15 ''a'' False)"
proof -
  have "case removeFlag refEngine 9 1 sampleFlags of Inl e \<Rightarrow> False | Inr z \<Rightarrow> True" by code_simp
  then obtain row s' where r: "removeFlag refEngine 9 1 sampleFlags = Inr (row, s')"
    by (auto split: sum.splits)
  have on: "res_value (resolveBooleanEvaluation sampleFlags (Some Dev) 15 ''a'' False)" by code_simp
  have f: "findLiveByName ''a'' sampleFlags = Some (hd (featureFlags sampleFlags))"
    "f_id (hd (featureFlags sampleFlags)) = 1" by code_simp+
  with r have "removeFlag refEngine 9 (f_id (hd (featureFlags sampleFlags))) sampleFlags = Inr (row, s')" by simp
  from removed_flag_answers_default [OF sampleFlags_ok f(1) this, of "Some Dev" 15 False] r on show ?thesis by auto
qed

theorem stored_flags_are_well_formed_witness:
  "\<exists>row s'. upsertFlag refEngine sampleUpsert emptyDb = Inr (row, s') \<and> findLiveByName ''b'' s' = Some row"
proof -
  have "case upsertFlag refEngine sampleUpsert emptyDb of Inl e \<Rightarrow> False
      | Inr (row, s') \<Rightarrow> featureFlags s' = [row] \<and> f_deletedAt row = None \<and> f_name row = ''b''" by code_simp
  then obtain row s' where r: "upsertFlag refEngine sampleUpsert emptyDb = Inr (row, s')"
    "featureFlags s' = [row]" "f_deletedAt row = None" "f_name row = ''b''"
    by (auto split: sum.splits)
  have "rtranclp (flag_step refEngine utcDays) emptyDb s'" using flag_step.Upsert [OF r(1)] by blast
  moreover have "featureFlags emptyDb = []" by code_simp
  ultimately show ?thesis
    using stored_flags_are_well_formed [OF refEngine_fresh, of emptyDb utcDays s'] r by auto
qed

theorem reconcile_report_exact_witness:
  "\<exists>report. reconcile refEngine [''b'', ''c''] sampleFlags = Inr (report, sampleFlags) \<and>
     set (orphanLive report) = {''a''}"
proof -
  have "case reconcile refEngine [''b'', ''c''] sampleFlags of Inl e \<Rightarrow> False | Inr z \<Rightarrow> True" by code_simp
  then obtain report s' where r: "reconcile refEngine [''b'', ''c''] sampleFlags = Inr (report, s')"
    by (auto split: sum.splits)
  have "f_name ` set (filter live (featureFlags sampleFlags)) - set [''b'', ''c''] = {''a''}" by code_simp
  with reconcile_report_exact [OF r] r show ?thesis by auto
qed

end
