(* ===== verification/FlagGate.thy ===== *)
theory FlagGate
  imports PointService FeatureFlagLaws
begin

text \<open>
  The flag store, the provider, the reader and a gated use case together: what a request reads
  through \<open>ctx.flags\<close> is what the store holds, and points move between users only while the
  store has the gate on.
\<close>

section \<open>The reader of a request\<close>

text \<open>
  Named hypothesis on the OpenFeature client, as its documentation states it: a lookup answers
  the value the registered provider resolved (here: against the database \<open>s\<close>, in the deploy
  stage, at the instant of the clock), and does not throw.
\<close>

definition answersFrom :: "'w flag_client \<Rightarrow> db \<Rightarrow> Stage option \<Rightarrow> instant \<Rightarrow> bool" where
  "answersFrom client s stage now \<longleftrightarrow>
     (\<forall>key d w. fst (getBooleanDetails client key d w) = Inr (res_value (resolveBooleanEvaluation s stage now key d))) \<and>
     (\<forall>key d w. fst (getStringDetails client key d w) = Inr (res_value (resolveStringEvaluation s stage now key d)))"

text \<open>What the registry says of a flag: the default of a gate, the set and the default of a variant.\<close>

definition registered :: "string \<Rightarrow> FlagSpec option" where
  "registered name = (case FLAGS of Inl e \<Rightarrow> None | Inr specs \<Rightarrow> map_of specs name)"

fun gateDefault :: "FlagSpec option \<Rightarrow> bool" where
  "gateDefault (Some (GateSpec d doc l)) = d"
| "gateDefault _ = False"

fun variantChoice :: "FlagSpec option \<Rightarrow> string list \<times> string" where
  "variantChoice (Some (VariantSpec vs d doc l)) = (vs, d)"
| "variantChoice _ = ([], [])"

text \<open>The members of the request's reader that use cases await, one after the other.\<close>

definition requestFlags :: "'w flag_client \<Rightarrow> 'w \<Rightarrow> FlagReader" where
  "requestFlags client w =
     (case assertFlag client ''pointTransfer'' (gateDefault (registered ''pointTransfer'')) (emptyMemo, w) of (allowed, st1) \<Rightarrow>
     (case readGate client ''pointTransferPreferFree'' (gateDefault (registered ''pointTransferPreferFree'')) st1 of (preferFree, st2) \<Rightarrow>
     (case variantChoice (registered ''welcomeVariant'') of (variants, defaultVariant) \<Rightarrow>
     (case readVariant client ''welcomeVariant'' defaultVariant st2 of (v, st3) \<Rightarrow>
       \<lparr>fr_assertPointTransfer = allowed, fr_pointTransferPreferFree = preferFree,
        fr_welcomeVariant = rbind v (\<lambda>t. Inr (if t \<in> set variants then t else defaultVariant))\<rparr>))))"

lemma registered_simps [simp]:
  "gateDefault (registered ''pointTransfer'') = False"
  "gateDefault (registered ''pointTransferPreferFree'') = False"
  "variantChoice (registered ''welcomeVariant'') = ([''classic'', ''festive'', ''minimal''], ''classic'')"
  by (simp_all add: registered_def FLAGS_defined)

lemma requestFlags_answers:
  assumes "answersFrom client s stage now"
  shows "fr_assertPointTransfer (requestFlags client w) =
      (if res_value (resolveBooleanEvaluation s stage now ''pointTransfer'' False) then Inr ()
       else Inl (FeatureDisabledError ''pointTransfer''))"
    "fr_pointTransferPreferFree (requestFlags client w) =
      Inr (res_value (resolveBooleanEvaluation s stage now ''pointTransferPreferFree'' False))"
proof -
  have bool: "\<exists>w'. getBooleanDetails client k d v = (Inr (res_value (resolveBooleanEvaluation s stage now k d)), w')" for k d v
    using assms by (cases "getBooleanDetails client k d v") (metis answersFrom_def fst_conv)
  obtain w1 where w1: "getBooleanDetails client ''pointTransfer'' False w =
      (Inr (res_value (resolveBooleanEvaluation s stage now ''pointTransfer'' False)), w1)"
    using bool by blast
  obtain w2 where w2: "getBooleanDetails client ''pointTransferPreferFree'' False w1 =
      (Inr (res_value (resolveBooleanEvaluation s stage now ''pointTransferPreferFree'' False)), w2)"
    using bool by blast
  show "fr_assertPointTransfer (requestFlags client w) =
      (if res_value (resolveBooleanEvaluation s stage now ''pointTransfer'' False) then Inr ()
       else Inl (FeatureDisabledError ''pointTransfer''))"
    "fr_pointTransferPreferFree (requestFlags client w) =
      Inr (res_value (resolveBooleanEvaluation s stage now ''pointTransferPreferFree'' False))"
    by (simp_all add: requestFlags_def assertFlag_def readGate_def emptyMemo_def w1 w2 split: prod.split)
qed

lemma gate_on_iff:
  "res_value (resolveBooleanEvaluation s stage now key False) \<longleftrightarrow>
     (\<exists>st row. stage = Some st \<and> findLiveByName key s = Some row \<and> isActive row st now)"
  by (auto simp: resolveBooleanEvaluation_def unknownStage_def details_def Let_def split: option.split)

text \<open>C33: points move between users only under a live, active flag: in a request whose client
  answers from the store, a transfer succeeds only if the deploy stage is known and the store
  has a live row \<open>pointTransfer\<close> that is active in that stage at that instant; in every other
  case (no stage, no row, killed, another stage, outside the window) it is refused as disabled,
  before any point is read.
\<close>

theorem transfer_needs_active_flag:
  assumes "answersFrom client flagDb stage flagNow"
  shows "(\<exists>st row. stage = Some st \<and> findLiveByName ''pointTransfer'' flagDb = Some row \<and> isActive row st flagNow) \<or>
    transfer eng now fromUserId toUserId amount (requestFlags client w) s = Inl (FeatureDisabledError ''pointTransfer'')"
  using requestFlags_answers(1) [OF assms, of w] gate_on_iff [of flagDb stage flagNow "''pointTransfer''"]
  by (auto simp: transfer_def bindT_def liftT_def)

definition storeClient :: "db \<Rightarrow> Stage option \<Rightarrow> instant \<Rightarrow> unit flag_client" where
  "storeClient s stage now = \<lparr>
     getBooleanDetails = (\<lambda>key d w. (Inr (res_value (resolveBooleanEvaluation s stage now key d)), w)),
     getStringDetails = (\<lambda>key d w. (Inr (res_value (resolveStringEvaluation s stage now key d)), w))\<rparr>"

lemma storeClient_answers: "answersFrom (storeClient s stage now) s stage now"
  by (simp add: answersFrom_def storeClient_def)

theorem transfer_needs_active_flag_witness:
  "transfer refEngine 9 7 8 (JInt 90) (requestFlags (storeClient sampleFlags (Some Dev) 15) ()) sampleDb =
     Inl (FeatureDisabledError ''pointTransfer'')"
proof -
  have "findLiveByName ''pointTransfer'' sampleFlags = None" by code_simp
  with transfer_needs_active_flag [OF storeClient_answers [of sampleFlags "Some Dev" 15],
      of refEngine 9 7 8 "JInt 90" "()" sampleDb] show ?thesis by simp
qed

end
