(* ===== verification/JsText.thy ===== *)
theory JsText
  imports Prelude
begin

text \<open>
  The text operations of the language that the components use: \<open>trim\<close>, \<open>toLowerCase\<close>, the
  white space of \<open>\s\<close>, and \<open>includes\<close>. A text is the list of its code points, below 256 (the
  Latin-1 block); the white space of the language in that range is the tabs and line ends, the
  blank and the no-break space, and the upper-case letters are the ASCII ones and those of the
  block U+00C0 to U+00DE but the multiplication sign.
\<close>

definition codeOf :: "char \<Rightarrow> nat" where
  "codeOf c = of_char c"

definition jsSpace :: "char \<Rightarrow> bool" where
  "jsSpace c \<longleftrightarrow> (9 \<le> codeOf c \<and> codeOf c \<le> 13) \<or> codeOf c = 32 \<or> codeOf c = 160"

definition isUpper :: "char \<Rightarrow> bool" where
  "isUpper c \<longleftrightarrow> (65 \<le> codeOf c \<and> codeOf c \<le> 90) \<or>
     (192 \<le> codeOf c \<and> codeOf c \<le> 222 \<and> codeOf c \<noteq> 215)"

definition lowerChar :: "char \<Rightarrow> char" where
  "lowerChar c = (if isUpper c then char_of (codeOf c + 32) else c)"

definition toLowerCase :: "string \<Rightarrow> string" where
  "toLowerCase text = map lowerChar text"

definition trimText :: "string \<Rightarrow> string" where
  "trimText text = rev (dropWhile jsSpace (rev (dropWhile jsSpace text)))"

fun startsWith :: "string \<Rightarrow> string \<Rightarrow> bool" where
  "startsWith [] text = True"
| "startsWith (p # ps) [] = False"
| "startsWith (p # ps) (c # cs) \<longleftrightarrow> p = c \<and> startsWith ps cs"

fun includesText :: "string \<Rightarrow> string \<Rightarrow> bool" where
  "includesText part [] \<longleftrightarrow> part = []"
| "includesText part (c # cs) \<longleftrightarrow> startsWith part (c # cs) \<or> includesText part cs"

section \<open>Laws\<close>

lemma codeOf_inject: "codeOf c = codeOf d \<longleftrightarrow> c = d"
  by (simp add: codeOf_def)

lemma codeOf_lower: "codeOf (lowerChar c) = (if isUpper c then codeOf c + 32 else codeOf c)"
  by (auto simp: lowerChar_def isUpper_def codeOf_def)

lemma isUpper_lower [simp]: "\<not> isUpper (lowerChar c)"
  by (auto simp: isUpper_def codeOf_lower split: if_splits)

lemma lowerChar_idem [simp]: "lowerChar (lowerChar c) = lowerChar c"
  by (subst lowerChar_def) simp

lemma jsSpace_lower [simp]: "jsSpace (lowerChar c) = jsSpace c"
  by (auto simp: jsSpace_def isUpper_def codeOf_lower)

text \<open>A character that no upper-case letter is lowered to is kept apart from all others.\<close>

lemma lowerChar_eq_iff:
  assumes "codeOf d < 97"
  shows "lowerChar c = d \<longleftrightarrow> c = d \<and> \<not> isUpper c"
  using assms by (auto simp: lowerChar_def isUpper_def codeOf_def)

lemma toLowerCase_idem [simp]: "toLowerCase (toLowerCase t) = toLowerCase t"
  by (simp add: toLowerCase_def)

lemma toLowerCase_id_iff: "toLowerCase t = t \<longleftrightarrow> list_all (\<lambda>c. \<not> isUpper c) t"
proof (induction t)
  case Nil
  then show ?case by (simp add: toLowerCase_def)
next
  case (Cons c t)
  have "lowerChar c = c \<longleftrightarrow> \<not> isUpper c"
  proof
    assume "lowerChar c = c"
    then show "\<not> isUpper c" using isUpper_lower [of c] by simp
  qed (simp add: lowerChar_def)
  with Cons show ?case by (simp add: toLowerCase_def)
qed

lemma trimText_id:
  assumes "t \<noteq> [] \<Longrightarrow> \<not> jsSpace (hd t) \<and> \<not> jsSpace (last t)"
  shows "trimText t = t"
proof (cases "t = []")
  case False
  with assms have "dropWhile jsSpace t = t" by (simp add: dropWhile_eq_self_iff)
  moreover from False assms have "dropWhile jsSpace (rev t) = rev t"
    by (simp add: dropWhile_eq_self_iff hd_rev)
  ultimately show ?thesis by (simp add: trimText_def)
qed (simp add: trimText_def)

lemma startsWith_iff: "startsWith part t \<longleftrightarrow> prefix part t"
  by (induction part t rule: startsWith.induct) auto

text \<open>\<open>includes\<close> finds exactly the texts with the part somewhere in them.\<close>

lemma includesText_iff: "includesText part t \<longleftrightarrow> sublist part t"
  by (induction part t rule: includesText.induct) (auto simp: startsWith_iff sublist_Cons_right)

end
