(* ===== verification/UserModule.thy ===== *)
theory UserModule
  imports Schema JsText
begin

text \<open>
  The user module: the status state machine of \<open>src/modules/user/user.state.ts\<close>, the e-mail
  value of \<open>user.value.ts\<close>, the persistence of \<open>user.repo.ts\<close> and the use cases of
  \<open>user.service.ts\<close>; then the module as a system of concurrent clients, whose status changes
  are decided on one state of the database and carried out on a later one.
\<close>

section \<open>Status\<close>

datatype UserStatus = ACTIVE | SUSPENDED | DEACTIVATED

fun statusText :: "UserStatus \<Rightarrow> string" where
  "statusText ACTIVE = ''ACTIVE''"
| "statusText SUSPENDED = ''SUSPENDED''"
| "statusText DEACTIVATED = ''DEACTIVATED''"

text \<open>The statuses as an enumerated type, so that a statement on all of them evaluates.\<close>

instantiation UserStatus :: enum
begin

definition enum_UserStatus :: "UserStatus list" where
  "enum_UserStatus = [ACTIVE, SUSPENDED, DEACTIVATED]"

definition enum_all_UserStatus :: "(UserStatus \<Rightarrow> bool) \<Rightarrow> bool" where
  "enum_all_UserStatus P \<longleftrightarrow> P ACTIVE \<and> P SUSPENDED \<and> P DEACTIVATED"

definition enum_ex_UserStatus :: "(UserStatus \<Rightarrow> bool) \<Rightarrow> bool" where
  "enum_ex_UserStatus P \<longleftrightarrow> P ACTIVE \<or> P SUSPENDED \<or> P DEACTIVATED"

instance
proof
  have all: "x = ACTIVE \<or> x = SUSPENDED \<or> x = DEACTIVATED" for x by (cases x) simp_all
  show "(UNIV :: UserStatus set) = set enum_class.enum" using all by (auto simp: enum_UserStatus_def)
  show "distinct (enum_class.enum :: UserStatus list)" by (simp add: enum_UserStatus_def)
  show "enum_class.enum_all P \<longleftrightarrow> Ball UNIV P" for P :: "UserStatus \<Rightarrow> bool"
    using all by (metis enum_all_UserStatus_def UNIV_I)
  show "enum_class.enum_ex P \<longleftrightarrow> Bex UNIV P" for P :: "UserStatus \<Rightarrow> bool"
    using all by (metis enum_ex_UserStatus_def UNIV_I)
qed

end

definition USER_STATUSES :: "string list" where
  "USER_STATUSES = [''ACTIVE'', ''SUSPENDED'', ''DEACTIVATED'']"

fun ALLOWED_TRANSITIONS :: "UserStatus \<Rightarrow> UserStatus list" where
  "ALLOWED_TRANSITIONS ACTIVE = [SUSPENDED, DEACTIVATED]"
| "ALLOWED_TRANSITIONS SUSPENDED = [ACTIVE, DEACTIVATED]"
| "ALLOWED_TRANSITIONS DEACTIVATED = []"

definition isUserStatus :: "string \<Rightarrow> bool" where
  "isUserStatus value \<longleftrightarrow> value \<in> set USER_STATUSES"

definition UnknownUserStatusError :: "string \<Rightarrow> thrown" where
  "UnknownUserStatusError value = PlainError ''UnknownUserStatusError''
     (''Unknown user status read from the database: '' @ jsonString value)"

definition parseUserStatus :: "string \<Rightarrow> thrown + UserStatus" where
  "parseUserStatus value =
     (if \<not> isUserStatus value then Inl (UnknownUserStatusError value)
      else Inr (if value = ''ACTIVE'' then ACTIVE else if value = ''SUSPENDED'' then SUSPENDED else DEACTIVATED))"

definition canTransition :: "UserStatus \<Rightarrow> UserStatus \<Rightarrow> bool" where
  "canTransition from to \<longleftrightarrow> to \<in> set (ALLOWED_TRANSITIONS from)"

definition InvalidStatusTransitionError :: "UserStatus \<Rightarrow> UserStatus \<Rightarrow> thrown" where
  "InvalidStatusTransitionError from to = DomainError ''InvalidStatusTransitionError''
     (''Invalid user status transition: '' @ statusText from @ '' -> '' @ statusText to)
     ''INVALID_STATUS_TRANSITION''"

definition assertTransition :: "UserStatus \<Rightarrow> UserStatus \<Rightarrow> thrown + unit" where
  "assertTransition from to =
     (if from = to then Inr ()
      else if \<not> canTransition from to then Inl (InvalidStatusTransitionError from to) else Inr ())"

datatype TransitionPlan = Noop | Transition UserStatus UserStatus

definition planTransition :: "UserStatus \<Rightarrow> UserStatus \<Rightarrow> thrown + TransitionPlan" where
  "planTransition from to = rbind (assertTransition from to) (\<lambda>_.
     Inr (if from = to then Noop else Transition from to))"

section \<open>E-mail\<close>

definition emailChar :: "char \<Rightarrow> bool" where
  "emailChar c \<longleftrightarrow> \<not> jsSpace c \<and> c \<noteq> CHR ''@''"

text \<open>
  \<open>/^[^\s@]+@[^\s@]+\.[^\s@]+$/\<close>: the run of admitted characters before the first other one, an
  \<open>@\<close>, and admitted characters to the end with a dot that is neither the first nor the last.
\<close>

definition isEmail :: "string \<Rightarrow> bool" where
  "isEmail value = (case dropWhile emailChar value of
      [] \<Rightarrow> False
    | c # domain \<Rightarrow> c = CHR ''@'' \<and> takeWhile emailChar value \<noteq> [] \<and> list_all emailChar domain \<and>
        CHR ''.'' \<in> set (butlast (tl domain)))"

definition InvalidEmailError :: "string \<Rightarrow> thrown" where
  "InvalidEmailError value = DomainError ''InvalidEmailError''
     (''Invalid email address: '' @ jsonString value) ''INVALID_EMAIL''"

definition EmailAlreadyRegisteredError :: "string \<Rightarrow> thrown" where
  "EmailAlreadyRegisteredError email = DomainError ''EmailAlreadyRegisteredError''
     (''Email already registered: '' @ email) ''EMAIL_TAKEN''"

definition parseEmail :: "string \<Rightarrow> thrown + string" where
  "parseEmail value = (let normalized = toLowerCase (trimText value) in
     if \<not> isEmail normalized then Inl (InvalidEmailError value) else Inr normalized)"

section \<open>Rows\<close>

record UserWriteData =
  uw_email :: string
  uw_name :: "string option"

definition findUserById :: "int \<Rightarrow> db \<Rightarrow> user_row option" where
  "findUserById i s = findRow (\<lambda>u. u_id u = i) (users s)"

definition getUserById :: "int \<Rightarrow> db \<Rightarrow> thrown + user_row" where
  "getUserById i s = orThrow (findRow (\<lambda>u. u_id u = i) (users s))"

text \<open>The most recent first (of equal instants, in the order of insertion).\<close>

definition findManyUsers :: "db \<Rightarrow> user_row list" where
  "findManyUsers s = sort_key (\<lambda>u. - u_createdAt u) (users s)"

text \<open>An insert into the table; its unique index refuses a second row of an e-mail.\<close>

definition uniqueViolation :: thrown where
  "uniqueViolation = PrismaError ''P2002'' ''Unique constraint failed''"

definition insertUser :: "engine \<Rightarrow> UserWriteData \<Rightarrow> user_row dbtx" where
  "insertUser eng data = (\<lambda>s.
     if uw_email data \<in> u_email ` set (users s) then Inl uniqueViolation
     else (let row = \<lparr>u_id = e_nextId eng ''User'' s, u_email = uw_email data, u_name = uw_name data,
                 u_status = ''ACTIVE'', u_createdAt = e_now eng s\<rparr>
           in Inr (row, s\<lparr>users := users s @ [row]\<rparr>)))"

definition createUser :: "engine \<Rightarrow> UserWriteData \<Rightarrow> user_row dbtx" where
  "createUser eng data = (\<lambda>s. case insertUser eng data s of
      Inr r \<Rightarrow> Inr r
    | Inl e \<Rightarrow> (if isUniqueViolation (toJs e) then Inl (EmailAlreadyRegisteredError (uw_email data))
               else Inl e))"

text \<open>\<open>INSERT ... ON CONFLICT ("email") DO UPDATE\<close>, which writes the e-mail the row has.\<close>

definition upsertByEmail :: "engine \<Rightarrow> UserWriteData \<Rightarrow> user_row dbtx" where
  "upsertByEmail eng data = (\<lambda>s.
     case findRow (\<lambda>u. u_email u = uw_email data) (users s) of
       Some u \<Rightarrow> Inr (u\<lparr>u_email := uw_email data\<rparr>,
         s\<lparr>users := updateWhere (\<lambda>u. u_email u = uw_email data) (\<lambda>u. u\<lparr>u_email := uw_email data\<rparr>) (users s)\<rparr>)
     | None \<Rightarrow> insertUser eng data s)"

definition updateUser :: "(user_row \<Rightarrow> bool) \<Rightarrow> (user_row \<Rightarrow> user_row) \<Rightarrow> user_row dbtx" where
  "updateUser p f = (\<lambda>s. case findRow p (users s) of
      None \<Rightarrow> Inl noRowFound
    | Some u \<Rightarrow> Inr (f u, s\<lparr>users := updateWhere p f (users s)\<rparr>))"

definition transitionStatus :: "int \<Rightarrow> UserStatus \<Rightarrow> UserStatus \<Rightarrow> user_row option dbtx" where
  "transitionStatus i from to = (\<lambda>s.
     case updateUser (\<lambda>u. u_id u = i \<and> u_status u = statusText from) (\<lambda>u. u\<lparr>u_status := statusText to\<rparr>) s of
       Inr (u, s') \<Rightarrow> Inr (Some u, s')
     | Inl e \<Rightarrow> (if isRecordNotFound (toJs e) then Inr (None, s) else Inl e))"

section \<open>Use cases\<close>

record CreateUserInput =
  cu_email :: string
  cu_name :: "string option"

definition toWriteData :: "CreateUserInput \<Rightarrow> thrown + UserWriteData" where
  "toWriteData input = rbind (parseEmail (cu_email input)) (\<lambda>email.
     Inr \<lparr>uw_email = email, uw_name = cu_name input\<rparr>)"

definition registerUser :: "engine \<Rightarrow> CreateUserInput \<Rightarrow> user_row dbtx" where
  "registerUser eng input = bindT (liftT (toWriteData input)) (createUser eng)"

definition findOrCreateByEmail :: "engine \<Rightarrow> CreateUserInput \<Rightarrow> user_row dbtx" where
  "findOrCreateByEmail eng input = bindT (liftT (toWriteData input)) (upsertByEmail eng)"

text \<open>The read runs on the database as it was, \<open>s0\<close>; the write on the database as it is then.\<close>

definition changeStatus :: "int \<Rightarrow> UserStatus \<Rightarrow> db \<Rightarrow> user_row dbtx" where
  "changeStatus i to s0 =
     bindT (liftT (getUserById i s0)) (\<lambda>current.
     bindT (liftT (parseUserStatus (u_status current))) (\<lambda>from.
     bindT (liftT (planTransition from to)) (\<lambda>plan.
     case plan of
       Noop \<Rightarrow> returnT current
     | Transition f t \<Rightarrow> bindT (transitionStatus i f t) (\<lambda>updated.
         case updated of
           None \<Rightarrow> throwT (ConcurrentUpdateError (''status of user '' @ showInt i))
         | Some u \<Rightarrow> returnT u))))"

end
