(* ===== verification/UserLaws.thy ===== *)
theory UserLaws
  imports UserModule
begin

text \<open>
  What the user module guarantees: what an e-mail value looks like; that any interleaving of
  registrations, logins and status changes decided at any earlier time is a run of the status
  state machine, account by account; and the outcome of a status change on every branch.
\<close>

section \<open>Status values\<close>

lemma orThrow_simps [simp]: "orThrow (Some x) = Inr x" "orThrow None = Inl noRowFound"
  by (simp_all add: orThrow_def)

lemma parseUserStatus_statusText [simp]: "parseUserStatus (statusText st) = Inr st"
  by (cases st) (simp_all add: parseUserStatus_def isUserStatus_def USER_STATUSES_def)

lemmas parseUserStatus_texts [simp] = parseUserStatus_statusText [of ACTIVE, simplified]
  parseUserStatus_statusText [of SUSPENDED, simplified] parseUserStatus_statusText [of DEACTIVATED, simplified]

lemma parseUserStatus_eq_Inr: "parseUserStatus v = Inr st \<longleftrightarrow> v = statusText st"
proof
  assume "parseUserStatus v = Inr st"
  then show "v = statusText st"
    by (auto simp: parseUserStatus_def isUserStatus_def USER_STATUSES_def split: if_splits)
qed simp

lemma statusText_inject [simp]: "statusText a = statusText b \<longleftrightarrow> a = b"
  by (metis parseUserStatus_statusText sum.inject(2))

lemma planTransition_cases:
  "planTransition from to =
     (if from = to then Inr Noop
      else if canTransition from to then Inr (Transition from to)
      else Inl (InvalidStatusTransitionError from to))"
  by (simp add: planTransition_def assertTransition_def)

text \<open>The table, evaluated over all pairs.\<close>

lemma transition_table:
  "\<forall>from to. canTransition from to \<longleftrightarrow> from \<noteq> DEACTIVATED \<and> from \<noteq> to"
  unfolding canTransition_def by code_simp

section \<open>E-mail values\<close>

lemma emailChar_at [simp]: "\<not> emailChar (CHR ''@'')"
  by (simp add: emailChar_def)

lemma emailChar_dot [simp]: "emailChar (CHR ''.'')"
  by (simp add: emailChar_def jsSpace_def codeOf_def)

lemma inner_iff: "x \<in> set (butlast (tl xs)) \<longleftrightarrow> (\<exists>b c. xs = b @ x # c \<and> b \<noteq> [] \<and> c \<noteq> [])"
proof
  assume x: "x \<in> set (butlast (tl xs))"
  then have "tl xs \<noteq> []" by auto
  then obtain y ys where xs: "xs = y # ys" "ys \<noteq> []" by (cases xs) auto
  from x obtain us vs where "butlast ys = us @ x # vs" by (auto simp: xs in_set_conv_decomp)
  with xs have "xs = (y # us) @ x # (vs @ [last ys])" by (metis append.assoc append_Cons append_butlast_last_id)
  then show "\<exists>b c. xs = b @ x # c \<and> b \<noteq> [] \<and> c \<noteq> []" by blast
next
  assume "\<exists>b c. xs = b @ x # c \<and> b \<noteq> [] \<and> c \<noteq> []"
  then obtain b c where "xs = b @ x # c" "b \<noteq> []" "c \<noteq> []" by blast
  then show "x \<in> set (butlast (tl xs))" by (cases b) (auto simp: butlast_append)
qed

lemma isEmail_shape:
  "isEmail v \<longleftrightarrow> (\<exists>a b c. v = a @ ''@'' @ b @ ''.'' @ c \<and> a \<noteq> [] \<and> b \<noteq> [] \<and> c \<noteq> [] \<and>
     list_all emailChar (a @ b @ c))"
proof
  assume e: "isEmail v"
  then obtain domain where d: "dropWhile emailChar v = CHR ''@'' # domain" "takeWhile emailChar v \<noteq> []"
    "list_all emailChar domain" "CHR ''.'' \<in> set (butlast (tl domain))"
    by (auto simp: isEmail_def split: list.splits)
  from d(4) obtain b c where bc: "domain = b @ CHR ''.'' # c" "b \<noteq> []" "c \<noteq> []" by (auto simp: inner_iff)
  have "v = takeWhile emailChar v @ CHR ''@'' # domain"
    using takeWhile_dropWhile_id [of emailChar v] d(1) by simp
  moreover have "list_all emailChar (takeWhile emailChar v)"
    by (auto simp: list_all_iff dest: set_takeWhileD)
  ultimately show "\<exists>a b c. v = a @ ''@'' @ b @ ''.'' @ c \<and> a \<noteq> [] \<and> b \<noteq> [] \<and> c \<noteq> [] \<and>
     list_all emailChar (a @ b @ c)"
    using d(2,3) bc by (intro exI [of _ "takeWhile emailChar v"] exI [of _ b] exI [of _ c]) simp
next
  assume "\<exists>a b c. v = a @ ''@'' @ b @ ''.'' @ c \<and> a \<noteq> [] \<and> b \<noteq> [] \<and> c \<noteq> [] \<and>
     list_all emailChar (a @ b @ c)"
  then obtain a b c where v: "v = a @ CHR ''@'' # (b @ CHR ''.'' # c)" and
    ne: "a \<noteq> []" "b \<noteq> []" "c \<noteq> []" and all: "list_all emailChar (a @ b @ c)"
    by auto
  have "\<And>x. x \<in> set a \<Longrightarrow> emailChar x" using all by (auto simp: list_all_iff)
  then have "dropWhile emailChar v = CHR ''@'' # (b @ CHR ''.'' # c)" "takeWhile emailChar v = a"
    unfolding v by (simp_all add: dropWhile_append3 takeWhile_append2 dropWhile_append2)
  moreover have "CHR ''.'' \<in> set (butlast (tl (b @ CHR ''.'' # c)))" using ne by (subst inner_iff) blast
  ultimately show "isEmail v" using ne all by (simp add: isEmail_def)
qed

text \<open>the e-mail test accepts exactly the texts of the shape the regular expression names:
  three non-empty runs without white space or an at sign, an at sign after the first and a dot
  after the second.
\<close>

theorem isEmail_regex:
  "isEmail v \<longleftrightarrow> (\<exists>a b c. v = a @ ''@'' @ b @ ''.'' @ c \<and> a \<noteq> [] \<and> b \<noteq> [] \<and> c \<noteq> [] \<and>
     list_all emailChar (a @ b @ c))"
  by (rule isEmail_shape)

lemma isEmail_chars:
  assumes "isEmail v" "c \<in> set v"
  shows "\<not> jsSpace c"
proof -
  from assms(1) obtain a b d where v: "v = a @ ''@'' @ b @ ''.'' @ d" and all: "list_all emailChar (a @ b @ d)"
    unfolding isEmail_shape by blast
  have "\<not> jsSpace (CHR ''@'')" "\<not> jsSpace (CHR ''.'')" by code_simp+
  with assms(2) all v show ?thesis by (auto simp: list_all_iff emailChar_def)
qed

lemma isEmail_nonempty: "isEmail v \<Longrightarrow> v \<noteq> []"
  by (auto simp: isEmail_def)

lemma parseEmail_normal:
  assumes "parseEmail value = Inr email"
  shows "isEmail email \<and> (\<forall>c \<in> set email. \<not> jsSpace c \<and> \<not> isUpper c) \<and> parseEmail email = Inr email \<and>
    (\<forall>other. toLowerCase (trimText other) = toLowerCase (trimText value) \<longrightarrow> parseEmail other = Inr email)"
proof -
  from assms have e: "isEmail email" "email = toLowerCase (trimText value)"
    by (auto simp: parseEmail_def Let_def split: if_splits)
  have low: "toLowerCase email = email" by (simp add: e(2))
  have sp: "\<forall>c \<in> set email. \<not> jsSpace c" using isEmail_chars [OF e(1)] by blast
  then have "trimText email = email" by (intro trimText_id) simp
  with low e(1) have "parseEmail email = Inr email" by (simp add: parseEmail_def)
  moreover have "\<forall>c \<in> set email. \<not> isUpper c" using low by (simp add: toLowerCase_id_iff list_all_iff)
  ultimately show ?thesis using e sp by (auto simp: parseEmail_def Let_def)
qed

text \<open>the e-mail constructor is a normal form: what it returns is an e-mail by the test, is
  free of white space and of upper-case letters, and is returned unchanged when it is parsed
  again; and two inputs that differ only in surrounding white space and letter case give the
  same value.
\<close>

theorem parseEmail_normal_form:
  assumes "parseEmail value = Inr email"
  shows "isEmail email \<and> (\<forall>c \<in> set email. \<not> jsSpace c \<and> \<not> isUpper c) \<and> parseEmail email = Inr email \<and>
    (\<forall>other. toLowerCase (trimText other) = toLowerCase (trimText value) \<longrightarrow> parseEmail other = Inr email)"
  using assms by (rule parseEmail_normal)

theorem parseEmail_normal_form_witness:
  "parseEmail ''  Ada@Example.com'' = Inr ''ada@example.com'' \<and> parseEmail ''ada@example.com'' = Inr ''ada@example.com''"
proof -
  have "parseEmail ''  Ada@Example.com'' = Inr ''ada@example.com''" by code_simp
  with parseEmail_normal_form [OF this] show ?thesis by blast
qed

section \<open>The table of users\<close>

definition users_ok :: "db \<Rightarrow> bool" where
  "users_ok s \<longleftrightarrow> distinct (map u_id (users s)) \<and> distinct (map u_email (users s)) \<and>
     (\<forall>u \<in> set (users s). parseEmail (u_email u) = Inr (u_email u) \<and> isUserStatus (u_status u))"

text \<open>The status of every account, as the state machine sees it.\<close>

definition statuses :: "db \<Rightarrow> int \<Rightarrow> UserStatus option" where
  "statuses s i = (case findUserById i s of
      None \<Rightarrow> None
    | Some u \<Rightarrow> (case parseUserStatus (u_status u) of Inl e \<Rightarrow> None | Inr st \<Rightarrow> Some st))"

lemma isUserStatus_statusText [simp]: "isUserStatus (statusText st)"
  by (cases st) (simp_all add: isUserStatus_def USER_STATUSES_def)

lemma statuses_update_other:
  assumes "\<And>u. u_id (f u) = u_id u" "\<And>u. p u \<Longrightarrow> u_id u \<noteq> i"
  shows "statuses (s\<lparr>users := updateWhere p f (users s)\<rparr>) i = statuses s i"
proof -
  have "findRow (\<lambda>u. u_id u = i) (updateWhere p f (users s)) = findRow (\<lambda>u. u_id u = i) (users s)"
    unfolding findRow_updateWhere [of "\<lambda>u. u_id u = i" f p, OF arg_cong [where f = "\<lambda>x. x = i", OF assms(1)]]
    by (cases "findRow (\<lambda>u. u_id u = i) (users s)") (use assms(2) in \<open>auto dest!: findRow_Some\<close>)
  then show ?thesis by (simp add: statuses_def findUserById_def)
qed

text \<open>A compare-and-swap that hit moves one account along its plan.\<close>

lemma transitionStatus_eq_Inr:
  "transitionStatus i from to s = Inr (r, s') \<longleftrightarrow>
     (case findRow (\<lambda>u. u_id u = i \<and> u_status u = statusText from) (users s) of
        None \<Rightarrow> r = None \<and> s' = s
      | Some u \<Rightarrow> r = Some (u\<lparr>u_status := statusText to\<rparr>) \<and>
          s' = s\<lparr>users := updateWhere (\<lambda>u. u_id u = i \<and> u_status u = statusText from)
            (\<lambda>u. u\<lparr>u_status := statusText to\<rparr>) (users s)\<rparr>)"
  by (auto simp: transitionStatus_def updateUser_def noRowFound_def isRecordNotFound_def split: option.split)

lemma transitionStatus_hit:
  assumes ok: "users_ok s" and hit: "findRow (\<lambda>u. u_id u = i \<and> u_status u = statusText from) (users s) = Some u"
    and s': "s' = s\<lparr>users := updateWhere (\<lambda>u. u_id u = i \<and> u_status u = statusText from)
            (\<lambda>u. u\<lparr>u_status := statusText to\<rparr>) (users s)\<rparr>"
  shows "users_ok s' \<and> statuses s i = Some from \<and> statuses s' = (statuses s)(i \<mapsto> to)"
proof -
  let ?p = "\<lambda>u. u_id u = i \<and> u_status u = statusText from"
  let ?f = "\<lambda>u :: user_row. u\<lparr>u_status := statusText to\<rparr>"
  from findRow_Some [OF hit] have u: "u \<in> set (users s)" "u_id u = i" "u_status u = statusText from" by auto
  have d: "distinct (map u_id (users s))" using ok by (simp add: users_ok_def)
  from findRow_key [OF d u(1)] u(2) have f: "findRow (\<lambda>x. u_id x = i) (users s) = Some u" by simp
  have keep: "map u_id (updateWhere ?p ?f (users s)) = map u_id (users s)"
    "map u_email (updateWhere ?p ?f (users s)) = map u_email (users s)"
    by (simp_all add: map_key_updateWhere)
  have "users_ok s'"
    using ok keep by (auto simp: users_ok_def s' set_updateWhere)
  moreover have "statuses s i = Some from" by (simp add: statuses_def findUserById_def f u)
  moreover have "statuses s' = (statuses s)(i \<mapsto> to)"
  proof
    fix j
    show "statuses s' j = ((statuses s)(i \<mapsto> to)) j"
    proof (cases "j = i")
      case True
      have "findRow (\<lambda>x. u_id x = i) (updateWhere ?p ?f (users s)) = Some (?f u)"
        by (simp add: findRow_updateWhere f u)
      then show ?thesis by (simp add: True statuses_def findUserById_def s')
    next
      case False
      then show ?thesis unfolding s' by (subst statuses_update_other) auto
    qed
  qed
  ultimately show ?thesis by blast
qed

lemma insertUser_ok:
  assumes ok: "users_ok s" and fresh: "engine_fresh eng" and mail: "parseEmail (uw_email d) = Inr (uw_email d)"
    and ins: "insertUser eng d s = Inr (u, s')"
  shows "users_ok s' \<and> statuses s (u_id u) = None \<and> statuses s' = (statuses s)(u_id u \<mapsto> ACTIVE)"
proof -
  have new: "uw_email d \<notin> u_email ` set (users s)" and
    u: "u = \<lparr>u_id = e_nextId eng ''User'' s, u_email = uw_email d, u_name = uw_name d,
          u_status = ''ACTIVE'', u_createdAt = e_now eng s\<rparr>" and s': "s' = s\<lparr>users := users s @ [u]\<rparr>"
    using ins by (auto simp: insertUser_def Let_def split: if_splits)
  have "e_nextId eng ''User'' s \<notin> u_id ` set (users s)" 
    by (rule fresh [unfolded engine_fresh_def, THEN spec, THEN conjunct1])
  then have i: "u_id u \<notin> u_id ` set (users s)" by (simp add: u)
  have st: "u_status u = statusText ACTIVE" "isUserStatus (u_status u)"
    by (simp_all add: u isUserStatus_def USER_STATUSES_def)
  have m: "u_email u = uw_email d" by (simp add: u)
  have "users_ok s'" using ok new i mail by (auto simp: users_ok_def s' st(2) m)
  moreover have none: "findRow (\<lambda>x. u_id x = u_id u) (users s) = None"
    unfolding findRow_None using i by (metis imageI)
  moreover have "statuses s' j = ((statuses s)(u_id u \<mapsto> ACTIVE)) j" for j
    by (cases "j = u_id u")
      (use none in \<open>auto simp: statuses_def findUserById_def s' findRow_append st(1) split: option.split\<close>)
  ultimately show ?thesis by (auto simp: statuses_def findUserById_def)
qed

text \<open>A login of a registered e-mail changes nothing.\<close>

lemma upsert_found:
  "findRow (\<lambda>u. u_email u = uw_email d) (users s) = Some u \<Longrightarrow> upsertByEmail eng d s = Inr (u, s)"
proof -
  assume f: "findRow (\<lambda>u. u_email u = uw_email d) (users s) = Some u"
  have "updateWhere (\<lambda>u. u_email u = uw_email d) (\<lambda>u. u\<lparr>u_email := uw_email d\<rparr>) (users s) = users s"
    unfolding updateWhere_def by (rule map_idI) (auto intro: user_row.equality)
  moreover have "u\<lparr>u_email := uw_email d\<rparr> = u" using findRow_Some [OF f] by (auto intro: user_row.equality)
  ultimately show ?thesis using f by (simp add: upsertByEmail_def)
qed

section \<open>Concurrent clients\<close>

text \<open>
  A configuration is the database and the status changes decided so far (account, old and new
  status). A client registers or logs in through the use cases, decides a change from the
  present row, or carries out any decision, however old, any number of times.
\<close>

type_synonym user_config = "db \<times> (int \<times> UserStatus \<times> UserStatus) list"

inductive user_step :: "engine \<Rightarrow> user_config \<Rightarrow> user_config \<Rightarrow> bool" for eng where
  Register: "registerUser eng input s = Inr (u, s') \<Longrightarrow> user_step eng (s, ps) (s', ps)"
| Login: "findOrCreateByEmail eng input s = Inr (u, s') \<Longrightarrow> user_step eng (s, ps) (s', ps)"
| Decide: "getUserById i s = Inr u \<Longrightarrow> parseUserStatus (u_status u) = Inr st \<Longrightarrow>
    planTransition st to = Inr (Transition f t) \<Longrightarrow> user_step eng (s, ps) (s, (i, f, t) # ps)"
| Execute: "(i, f, t) \<in> set ps \<Longrightarrow> transitionStatus i f t s = Inr (r, s') \<Longrightarrow> user_step eng (s, ps) (s', ps)"

text \<open>The state machine of the accounts: an account is opened active, or moves along the table.\<close>

inductive account_step :: "(int \<Rightarrow> UserStatus option) \<Rightarrow> (int \<Rightarrow> UserStatus option) \<Rightarrow> bool" where
  Open: "m i = None \<Longrightarrow> account_step m (m(i \<mapsto> ACTIVE))"
| Move: "m i = Some f \<Longrightarrow> canTransition f t \<Longrightarrow> account_step m (m(i \<mapsto> t))"

inductive_simps account_step_iff: "account_step m m'"

definition user_inv :: "user_config \<Rightarrow> bool" where
  "user_inv c \<longleftrightarrow> users_ok (fst c) \<and> (\<forall>(i, f, t) \<in> set (snd c). canTransition f t)"

definition user_start :: "user_config \<Rightarrow> bool" where
  "user_start c \<longleftrightarrow> users_ok (fst c) \<and> snd c = []"

lemma toWriteData_mail: "toWriteData input = Inr d \<Longrightarrow> parseEmail (uw_email d) = Inr (uw_email d)"
  by (auto simp: toWriteData_def rbind_eq_Inr dest: parseEmail_normal)

lemma createUser_Inr: "createUser eng d s = Inr r \<longleftrightarrow> insertUser eng d s = Inr r"
  by (auto simp: createUser_def split: sum.splits if_splits)

text \<open>What one step does to a sound table: nothing an account machine would not do.\<close>

lemma user_write_step:
  assumes ok: "users_ok s" and fresh: "engine_fresh eng"
    and w: "registerUser eng input s = Inr (u, s') \<or> findOrCreateByEmail eng input s = Inr (u, s')"
  shows "users_ok s' \<and> (statuses s' = statuses s \<or> account_step (statuses s) (statuses s'))"
proof -
  from w obtain d where d: "toWriteData input = Inr d" and
    cases: "insertUser eng d s = Inr (u, s') \<or> (upsertByEmail eng d s = Inr (u, s'))"
    by (auto simp: registerUser_def findOrCreateByEmail_def bindT_eq_Inr liftT_eq_Inr createUser_Inr)
  have "users_ok s' \<and> account_step (statuses s) (statuses s')" if "insertUser eng d s = Inr (u, s')"
    using insertUser_ok [OF ok fresh toWriteData_mail [OF d] that] by (auto intro: account_step.Open)
  moreover have "s' = s \<or> insertUser eng d s = Inr (u, s')" if up: "upsertByEmail eng d s = Inr (u, s')"
  proof (cases "findRow (\<lambda>u. u_email u = uw_email d) (users s)")
    case None
    with up show ?thesis by (simp add: upsertByEmail_def)
  next
    case (Some v)
    from upsert_found [OF Some] up show ?thesis by simp
  qed
  ultimately show ?thesis using cases ok by blast
qed

lemma user_step_sound:
  assumes fresh: "engine_fresh eng" and step: "user_step eng c c'" and inv: "user_inv c"
  shows "user_inv c' \<and> (statuses (fst c') = statuses (fst c) \<or> account_step (statuses (fst c)) (statuses (fst c')))"
  using step
proof cases
  case (Register input s u s' ps)
  with user_write_step [OF _ fresh, of s input u s'] inv show ?thesis by (auto simp: user_inv_def)
next
  case (Login input s u s' ps)
  with user_write_step [OF _ fresh, of s input u s'] inv show ?thesis by (auto simp: user_inv_def)
next
  case (Decide i s u st to f t ps)
  then have "canTransition f t" by (auto simp: planTransition_cases split: if_splits)
  with Decide inv show ?thesis by (simp add: user_inv_def)
next
  case (Execute i f t ps s r s')
  from inv have ok: "users_ok s" and plans: "\<forall>(i, f, t) \<in> set ps. canTransition f t"
    by (simp_all add: user_inv_def Execute)
  show ?thesis
  proof (cases "findRow (\<lambda>u. u_id u = i \<and> u_status u = statusText f) (users s)")
      case None
      with Execute ok plans show ?thesis by (simp add: user_inv_def transitionStatus_eq_Inr)
    next
      case (Some u)
      with Execute have "s' = s\<lparr>users := updateWhere (\<lambda>u. u_id u = i \<and> u_status u = statusText f)
            (\<lambda>u. u\<lparr>u_status := statusText t\<rparr>) (users s)\<rparr>" by (simp add: transitionStatus_eq_Inr)
      note hit = transitionStatus_hit [OF ok Some this]
      moreover from plans Execute have "canTransition f t" by auto
      ultimately show ?thesis using plans Execute by (auto simp: user_inv_def intro: account_step.Move)
  qed
qed

interpretation userSystem: simulation "\<lambda>c. engine_fresh eng \<and> user_start c" "user_step eng"
  "\<lambda>c. engine_fresh eng \<and> user_inv c" "\<lambda>c. statuses (fst c)" account_step for eng
proof unfold_locales
  fix c
  assume "engine_fresh eng \<and> user_start c"
  then show "engine_fresh eng \<and> user_inv c" by (simp add: user_start_def user_inv_def)
next
  fix c c'
  assume step: "user_step eng c c'" and inv: "engine_fresh eng \<and> user_inv c"
  note sound = user_step_sound [OF _ step]
  from sound inv show "engine_fresh eng \<and> user_inv c'" by blast
  from sound inv show "statuses (fst c') = statuses (fst c) \<or> account_step (statuses (fst c)) (statuses (fst c'))"
    by blast
qed

lemma deactivated_stays: "rtranclp account_step m m' \<Longrightarrow> m i = Some DEACTIVATED \<Longrightarrow> m' i = Some DEACTIVATED"
proof (induction rule: rtranclp_induct)
  case base
  then show ?case by simp
next
  case (step m1 m2)
  then show ?case by (auto simp: account_step_iff transition_table)
qed

text \<open>C26: however registrations, logins and status changes interleave, and however late or often a
  decided change is carried out, the table of users behaves as the status machine: each account
  is opened active and moves only along the transition table; e-mails stay unique and in
  normal form.
\<close>

theorem user_statuses_refine_machine:
  assumes "engine_fresh eng" "users_ok s" "rtranclp (user_step eng) (s, []) (s', ps)"
  shows "rtranclp account_step (statuses s) (statuses s') \<and> users_ok s'"
proof -
  have inv: "engine_fresh eng \<and> user_inv (s, [])" using assms(1,2) by (simp add: user_inv_def)
  from userSystem.simulates [OF assms(3) inv] userSystem.reach_inv [OF assms(3) inv]
  show ?thesis by (simp add: user_inv_def)
qed

text \<open>C27: a deactivated account stays deactivated, whatever was decided about it before and
  whenever that is carried out.
\<close>

theorem deactivation_is_final:
  assumes "engine_fresh eng" "users_ok s" "\<forall>(i, f, t) \<in> set ps. canTransition f t"
    "statuses s i = Some DEACTIVATED" "rtranclp (user_step eng) (s, ps) (s', ps')"
  shows "statuses s' i = Some DEACTIVATED"
proof -
  have "engine_fresh eng \<and> user_inv (s, ps)" using assms(1-3) by (simp add: user_inv_def)
  from userSystem.simulates [OF assms(5) this] have "rtranclp account_step (statuses s) (statuses s')" by simp
  then show ?thesis using assms(4) by (rule deactivated_stays)
qed

section \<open>The outcome of a status change\<close>

lemma findRow_conj_unique:
  assumes "distinct (map u_id us)"
  shows "findRow (\<lambda>v. u_id v = i \<and> P v) us =
    (case findRow (\<lambda>v. u_id v = i) us of None \<Rightarrow> None | Some v \<Rightarrow> if P v then Some v else None)"
  using assms
proof (induction us)
  case Nil
  then show ?case by (simp add: findRow_def)
next
  case (Cons u us)
  show ?case
  proof (cases "u_id u = i")
    case True
    with Cons.prems have "\<forall>v \<in> set us. u_id v \<noteq> i" by (metis distinct.simps(2) image_eqI list.map(2) set_map)
    then have "findRow (\<lambda>v. u_id v = i \<and> P v) us = None" by (simp add: findRow_None)
    with True show ?thesis by (simp add: findRow_def)
  next
    case False
    with Cons show ?thesis by (simp add: findRow_def)
  qed
qed

lemma updateWhere_unique_user:
  assumes d: "distinct (map u_id us)" and u: "u \<in> set us" "u_id u = i" "P u"
  shows "updateWhere (\<lambda>v. u_id v = i \<and> P v) g us = map (\<lambda>v. if u_id v = i then g v else v) us"
  unfolding updateWhere_def using distinct_key_unique [OF d _ u(1)] u(2,3) by auto

text \<open>C28: a status change on every branch. The row is read outside the transaction (\<open>s0\<close>) and
  written in it (\<open>s\<close>), and anything may happen in between. No row is the not-found error, a
  row whose status is no status is reported as such, the status the account has already is
  answered with the row read and nothing written, a deactivated account is refused with the
  transition error, and otherwise the account moves, with no other row touched, exactly when
  it still has the status that was read; when it has another one, or is gone, nothing is
  written and the answer is the retryable conflict.
\<close>

theorem changeStatus_outcome:
  assumes ids: "distinct (map u_id (users s))"
  shows "case findUserById i s0 of
      None \<Rightarrow> changeStatus i to s0 s = Inl noRowFound
    | Some u0 \<Rightarrow>
        if u_status u0 \<notin> {''ACTIVE'', ''SUSPENDED'', ''DEACTIVATED''}
        then changeStatus i to s0 s = Inl (UnknownUserStatusError (u_status u0))
        else if u_status u0 = statusText to then changeStatus i to s0 s = Inr (u0, s)
        else if u_status u0 = ''DEACTIVATED''
        then changeStatus i to s0 s = Inl (InvalidStatusTransitionError DEACTIVATED to)
        else changeStatus i to s0 s = (case findUserById i s of
            None \<Rightarrow> Inl (ConcurrentUpdateError (''status of user '' @ showInt i))
          | Some u \<Rightarrow>
              if u_status u \<noteq> u_status u0
              then Inl (ConcurrentUpdateError (''status of user '' @ showInt i))
              else Inr (u\<lparr>u_status := statusText to\<rparr>, s\<lparr>users :=
                map (\<lambda>v. if u_id v = i then v\<lparr>u_status := statusText to\<rparr> else v) (users s)\<rparr>))"
proof (cases "findUserById i s0")
  case None
  then show ?thesis by (simp add: changeStatus_def getUserById_def findUserById_def orThrow_def bindT_def)
next
  case (Some u0)
  then have read: "getUserById i s0 = Inr u0" by (simp add: getUserById_def findUserById_def orThrow_def)
  show ?thesis
  proof (cases "\<exists>from. u_status u0 = statusText from")
    case False
    then have bad: "u_status u0 \<notin> {''ACTIVE'', ''SUSPENDED'', ''DEACTIVATED''}"
      by (metis empty_iff insert_iff statusText.simps)
    then show ?thesis
      using Some by (simp add: changeStatus_def read bindT_def liftT_def parseUserStatus_def isUserStatus_def USER_STATUSES_def)
  next
    case True
    then obtain fr where fr: "u_status u0 = statusText fr" by blast
    have texts: "statusText fr \<in> {''ACTIVE'', ''SUSPENDED'', ''DEACTIVATED''}" by (cases fr) simp_all
    have dead: "statusText fr = ''DEACTIVATED'' \<longleftrightarrow> fr = DEACTIVATED" by (cases fr) simp_all
    have wr: "transitionStatus i fr to s = (case findUserById i s of
        None \<Rightarrow> Inr (None, s)
      | Some u \<Rightarrow> if u_status u \<noteq> statusText fr then Inr (None, s)
          else Inr (Some (u\<lparr>u_status := statusText to\<rparr>), s\<lparr>users :=
            map (\<lambda>v. if u_id v = i then v\<lparr>u_status := statusText to\<rparr> else v) (users s)\<rparr>))"
    proof (cases "findUserById i s")
      case None
      then show ?thesis
        by (simp add: transitionStatus_eq_Inr findRow_conj_unique [OF ids] findUserById_def)
    next
      case (Some u)
      then have u: "u \<in> set (users s)" "u_id u = i" by (auto simp: findUserById_def dest: findRow_Some)
      from Some show ?thesis
        using updateWhere_unique_user [OF ids u, of "\<lambda>v. u_status v = statusText fr"]
        by (simp add: transitionStatus_eq_Inr findRow_conj_unique [OF ids] findUserById_def)
    qed
    have "changeStatus i to s0 s = (if fr = to then Inr (u0, s)
        else if fr = DEACTIVATED then Inl (InvalidStatusTransitionError DEACTIVATED to)
        else (case findUserById i s of
            None \<Rightarrow> Inl (ConcurrentUpdateError (''status of user '' @ showInt i))
          | Some u \<Rightarrow> if u_status u \<noteq> statusText fr
              then Inl (ConcurrentUpdateError (''status of user '' @ showInt i))
              else Inr (u\<lparr>u_status := statusText to\<rparr>, s\<lparr>users :=
                map (\<lambda>v. if u_id v = i then v\<lparr>u_status := statusText to\<rparr> else v) (users s)\<rparr>)))"
      by (auto simp: changeStatus_def read fr bindT_def liftT_def planTransition_cases
          transition_table [rule_format] wr split: option.split)
    then show ?thesis using texts unfolding Some option.case fr statusText_inject dead by simp
  qed
qed

text \<open>a status change decided on a row that changed meanwhile writes nothing and is the
  retryable conflict.
\<close>

theorem stale_status_change_conflicts:
  assumes "findUserById i s0 = Some u0" "u_status u0 = statusText from" "from \<noteq> to" "from \<noteq> DEACTIVATED"
    "\<forall>u \<in> set (users s). u_id u = i \<longrightarrow> u_status u \<noteq> statusText from"
  shows "changeStatus i to s0 s = Inl (ConcurrentUpdateError (''status of user '' @ showInt i))"
proof -
  have "findRow (\<lambda>u. u_id u = i \<and> u_status u = statusText from) (users s) = None"
    using assms(5) by (auto simp: findRow_None)
  then have "transitionStatus i from to s = Inr (None, s)" by (simp add: transitionStatus_eq_Inr)
  with assms(1-4) show ?thesis
    by (simp add: changeStatus_def getUserById_def findUserById_def bindT_def liftT_def planTransition_cases
        transition_table [rule_format])
qed

section \<open>Sample users\<close>

definition sampleUsers :: db where
  "sampleUsers = emptyDb\<lparr>users := [
     \<lparr>u_id = 1, u_email = ''ada@example.com'', u_name = None, u_status = ''ACTIVE'', u_createdAt = 5\<rparr>,
     \<lparr>u_id = 2, u_email = ''bob@example.com'', u_name = Some ''Bob'', u_status = ''DEACTIVATED'', u_createdAt = 6\<rparr>]\<rparr>"

lemma sampleUsers_ok: "users_ok sampleUsers"
  by code_simp

theorem user_statuses_refine_machine_witness:
  "rtranclp account_step (statuses sampleUsers)
     (statuses (stateAfter sampleUsers (transitionStatus 1 ACTIVE SUSPENDED sampleUsers)))"
proof -
  let ?s' = "stateAfter sampleUsers (transitionStatus 1 ACTIVE SUSPENDED sampleUsers)"
  have "user_step refEngine (sampleUsers, []) (sampleUsers, [(1, ACTIVE, SUSPENDED)])"
    by (rule user_step.Decide [where u = "hd (users sampleUsers)" and st = ACTIVE and to = SUSPENDED]) code_simp+
  moreover have "user_step refEngine (sampleUsers, [(1, ACTIVE, SUSPENDED)]) (?s', [(1, ACTIVE, SUSPENDED)])"
  proof (rule user_step.Execute)
    show "(1, ACTIVE, SUSPENDED) \<in> set [(1, ACTIVE, SUSPENDED)]" by simp
    show "transitionStatus 1 ACTIVE SUSPENDED sampleUsers =
        Inr (Some ((hd (users sampleUsers))\<lparr>u_status := ''SUSPENDED''\<rparr>), ?s')" by code_simp
  qed
  ultimately have "rtranclp (user_step refEngine) (sampleUsers, []) (?s', [(1, ACTIVE, SUSPENDED)])" by auto
  from user_statuses_refine_machine [OF refEngine_fresh sampleUsers_ok this] show ?thesis by blast
qed

theorem deactivation_is_final_witness:
  "statuses (stateAfter sampleUsers (transitionStatus 2 ACTIVE SUSPENDED sampleUsers)) 2 = Some DEACTIVATED"
proof -
  let ?s' = "stateAfter sampleUsers (transitionStatus 2 ACTIVE SUSPENDED sampleUsers)"
  have "transitionStatus 2 ACTIVE SUSPENDED sampleUsers = Inr (None, ?s')" by code_simp
  then have "user_step refEngine (sampleUsers, [(2, ACTIVE, SUSPENDED)]) (?s', [(2, ACTIVE, SUSPENDED)])"
    by (intro user_step.Execute) simp_all
  moreover have "\<forall>(i, f, t) \<in> set [(2::int, ACTIVE, SUSPENDED)]. canTransition f t" by code_simp
  moreover have "statuses sampleUsers 2 = Some DEACTIVATED" by code_simp
  ultimately show ?thesis using deactivation_is_final [OF refEngine_fresh sampleUsers_ok] by blast
qed

theorem changeStatus_outcome_witness:
  "changeStatus 1 DEACTIVATED sampleUsers (sampleUsers\<lparr>users := [(hd (users sampleUsers))\<lparr>u_status := ''SUSPENDED''\<rparr>]\<rparr>)
     = Inl (ConcurrentUpdateError ''status of user 1'') \<and>
   changeStatus 2 ACTIVE sampleUsers sampleUsers = Inl (InvalidStatusTransitionError DEACTIVATED ACTIVE)"
proof
  let ?later = "sampleUsers\<lparr>users := [(hd (users sampleUsers))\<lparr>u_status := ''SUSPENDED''\<rparr>]\<rparr>"
  have f: "findUserById 1 sampleUsers = Some (hd (users sampleUsers))"
    "u_status (hd (users sampleUsers)) = ''ACTIVE''"
    "findUserById 1 ?later = Some ((hd (users sampleUsers))\<lparr>u_status := ''SUSPENDED''\<rparr>)"
    "findUserById 2 sampleUsers = Some (users sampleUsers ! 1)"
    "u_status (users sampleUsers ! 1) = ''DEACTIVATED''" by code_simp+
  note g = f(4,5) [simplified]
  have d: "distinct (map u_id (users ?later))" "distinct (map u_id (users sampleUsers))" by code_simp+
  have "showInt 1 = ''1''" by code_simp
  with changeStatus_outcome [OF d(1), of 1 DEACTIVATED sampleUsers]
  show "changeStatus 1 DEACTIVATED sampleUsers ?later = Inl (ConcurrentUpdateError ''status of user 1'')"
    by (simp add: f)
  from changeStatus_outcome [OF d(2), of 2 ACTIVE sampleUsers]
  show "changeStatus 2 ACTIVE sampleUsers sampleUsers = Inl (InvalidStatusTransitionError DEACTIVATED ACTIVE)"
    by (simp add: g)
qed

theorem stale_status_change_conflicts_witness:
  "changeStatus 1 DEACTIVATED sampleUsers (sampleUsers\<lparr>users := [(hd (users sampleUsers))\<lparr>u_status := ''SUSPENDED''\<rparr>]\<rparr>)
     = Inl (ConcurrentUpdateError ''status of user 1'')"
proof -
  have f: "findUserById 1 sampleUsers = Some (hd (users sampleUsers))"
    "u_status (hd (users sampleUsers)) = statusText ACTIVE"
    "\<forall>u \<in> set (users (sampleUsers\<lparr>users := [(hd (users sampleUsers))\<lparr>u_status := ''SUSPENDED''\<rparr>]\<rparr>)).
       u_id u = 1 \<longrightarrow> u_status u \<noteq> statusText ACTIVE" by code_simp+
  have "showInt 1 = ''1''" by code_simp
  with stale_status_change_conflicts [OF f(1,2) _ _ f(3), of DEACTIVATED] show ?thesis by simp
qed

end
