(* ===== verification/Posts.thy ===== *)
theory Posts
  imports Schema
begin

text \<open>
  Posts and their search: the persistence of \<open>src/modules/post/post.repo.ts\<close> (with the default
  selection) and the search use case of \<open>src/modules/search\<close>, whose index is an argument: the
  index ranks identifiers, the database turns them into rows.
\<close>

section \<open>Rows\<close>

record CreatePostInput =
  cp_title :: string
  cp_content :: "string option"
  cp_authorId :: int

definition findPostById :: "int \<Rightarrow> db \<Rightarrow> post_row option" where
  "findPostById i s = findRow (\<lambda>p. po_id p = i) (posts s)"

text \<open>The most recent first (of equal instants, in the order of insertion).\<close>

definition findManyPosts :: "bool \<Rightarrow> db \<Rightarrow> post_row list" where
  "findManyPosts onlyPublished s = sort_key (\<lambda>p. - po_createdAt p)
     (filter (\<lambda>p. onlyPublished \<longrightarrow> po_published p) (posts s))"

text \<open>
  \<open>WHERE id IN (...)\<close>, whose rows may come in any order: the query is an argument of
  \<open>findByIds\<close>, and \<open>whereIdIn\<close> the reference answer. The map by identifier then puts the rows
  in the order of the identifiers, without those that have none.
\<close>

definition whereIdIn :: "int list \<Rightarrow> db \<Rightarrow> post_row list" where
  "whereIdIn ids s = filter (\<lambda>p. po_id p \<in> set ids) (posts s)"

definition byId :: "post_row list \<Rightarrow> int \<rightharpoonup> post_row" where
  "byId rows = foldl (\<lambda>m row. m(po_id row \<mapsto> row)) Map.empty rows"

definition findByIds :: "(int list \<Rightarrow> db \<Rightarrow> post_row list) \<Rightarrow> int list \<Rightarrow> db \<Rightarrow> post_row list" where
  "findByIds query ids s =
     (let rows = query ids s; index = byId rows
      in map the (filter (\<lambda>row. row \<noteq> None) (map index ids)))"

text \<open>A \<open>connect\<close> of an author that does not exist is the database client's error.\<close>

definition requiredRecordMissing :: thrown where
  "requiredRecordMissing = PrismaError ''P2025'' ''An operation failed because it depends on one or more records that were required but not found.''"

definition createPost :: "engine \<Rightarrow> CreatePostInput \<Rightarrow> post_row dbtx" where
  "createPost eng input = (\<lambda>s.
     if cp_authorId input \<notin> u_id ` set (users s) then Inl requiredRecordMissing
     else (let row = \<lparr>po_id = e_nextId eng ''Post'' s, po_title = cp_title input, po_content = cp_content input,
                 po_published = False, po_authorId = cp_authorId input, po_createdAt = e_now eng s\<rparr>
           in Inr (row, s\<lparr>posts := posts s @ [row]\<rparr>)))"

definition publishPost :: "int \<Rightarrow> post_row dbtx" where
  "publishPost i = (\<lambda>s. case findRow (\<lambda>p. po_id p = i) (posts s) of
      None \<Rightarrow> Inl noRowFound
    | Some p \<Rightarrow> Inr (p\<lparr>po_published := True\<rparr>,
        s\<lparr>posts := updateWhere (\<lambda>p. po_id p = i) (\<lambda>p. p\<lparr>po_published := True\<rparr>) (posts s)\<rparr>))"

section \<open>Search\<close>

record PostSearchResult =
  ps_total :: int
  ps_ids :: "int list"

type_synonym post_search_index = "string \<Rightarrow> int \<Rightarrow> thrown + PostSearchResult"

definition stubPostSearchIndex :: post_search_index where
  "stubPostSearchIndex term limit = Inl (PlainError ''Error''
     ''PostSearchIndex.search not implemented: configure the search backend'')"

definition search :: "post_search_index \<Rightarrow> string \<Rightarrow> int \<Rightarrow> thrown + PostSearchResult" where
  "search index term limit = index term limit"

text \<open>The \<open>searchPosts\<close> field: the page with ten hits unless the caller says otherwise, and its \<open>hits\<close>.\<close>

definition searchPosts :: "post_search_index \<Rightarrow> string \<Rightarrow> int option \<Rightarrow> thrown + PostSearchResult" where
  "searchPosts index term limit =
     rbind (search index term (case limit of Some n \<Rightarrow> n | None \<Rightarrow> 10)) (\<lambda>page.
     Inr \<lparr>ps_total = ps_total page, ps_ids = ps_ids page\<rparr>)"

definition searchHits :: "(int list \<Rightarrow> db \<Rightarrow> post_row list) \<Rightarrow> PostSearchResult \<Rightarrow> db \<Rightarrow> post_row list" where
  "searchHits query page s = findByIds query (ps_ids page) s"

section \<open>Hydration\<close>

text \<open>Named hypothesis: the query answers the rows with one of the identifiers, in some order.\<close>

definition answersIn :: "(int list \<Rightarrow> db \<Rightarrow> post_row list) \<Rightarrow> bool" where
  "answersIn query \<longleftrightarrow> (\<forall>ids s. mset (query ids s) = mset (whereIdIn ids s))"

lemma byId_foldl:
  "distinct (map po_id rows) \<Longrightarrow> foldl (\<lambda>m row. m(po_id row \<mapsto> row)) m rows i =
     (case findRow (\<lambda>p. po_id p = i) rows of None \<Rightarrow> m i | Some p \<Rightarrow> Some p)"
proof (induction rows arbitrary: m)
  case Nil
  then show ?case by simp
next
  case (Cons row rows)
  show ?case
  proof (cases "i = po_id row")
    case True
    then have "findRow (\<lambda>p. po_id p = i) rows = None" unfolding findRow_None using Cons.prems by (auto simp: image_iff)
    with Cons True show ?thesis by simp
  next
    case False
    with Cons show ?thesis by (simp split: option.split)
  qed
qed

lemma byId_eq: "distinct (map po_id rows) \<Longrightarrow> byId rows i = findRow (\<lambda>p. po_id p = i) rows"
  by (auto simp: byId_def byId_foldl split: option.split)

lemma findRow_filter: "(\<And>x. p x \<Longrightarrow> q x) \<Longrightarrow> findRow p (filter q xs) = findRow p xs"
  by (induction xs) (auto simp: findRow_def)

lemma findRow_mset:
  assumes d: "distinct (map k rows)" and m: "mset rows' = mset rows"
  shows "findRow (\<lambda>r. k r = i) rows' = findRow (\<lambda>r. k r = i) rows"
proof -
  have s: "set rows' = set rows" using m by (metis set_mset_mset)
  have "mset (map k rows') = mset (map k rows)" using m by simp
  then have d': "distinct (map k rows')" using d by (metis mset_eq_imp_distinct_iff)
  show ?thesis
  proof (cases "findRow (\<lambda>r. k r = i) rows")
    case None
    then show ?thesis using s by (metis (mono_tags, lifting) findRow_None)
  next
    case (Some r)
    from findRow_Some [OF Some] have r: "r \<in> set rows'" "k r = i" using s by auto
    from findRow_key [OF d' r(1)] r(2) Some show ?thesis by simp
  qed
qed

lemma filter_found:
  "map the (filter (\<lambda>r. r \<noteq> None) (map f xs)) = concat (map (\<lambda>x. case f x of None \<Rightarrow> [] | Some y \<Rightarrow> [y]) xs)"
  by (induction xs) (auto split: option.split)

text \<open>hydration keeps the index's order and drops what the database no longer has: whatever
  order the query answers in, the hits are the posts of the ranked identifiers, one for each
  identifier that exists (repeats included), in rank order.
\<close>

theorem findByIds_keeps_rank:
  assumes "distinct (map po_id (posts s))" "answersIn query"
  shows "findByIds query ids s = concat (map (\<lambda>i. case findPostById i s of None \<Rightarrow> [] | Some p \<Rightarrow> [p]) ids)"
proof -
  have d: "distinct (map po_id (whereIdIn ids s))"
    unfolding whereIdIn_def by (rule distinct_map_filter [OF assms(1)])
  have m: "mset (query ids s) = mset (whereIdIn ids s)" using assms(2) by (simp add: answersIn_def)
  have "mset (map po_id (query ids s)) = mset (map po_id (whereIdIn ids s))" using m by simp
  then have d': "distinct (map po_id (query ids s))" using d by (metis mset_eq_imp_distinct_iff)
  have found: "byId (query ids s) i = findPostById i s" if "i \<in> set ids" for i
  proof -
    have "byId (query ids s) i = findRow (\<lambda>p. po_id p = i) (whereIdIn ids s)"
      by (simp add: byId_eq [OF d'] findRow_mset [OF d m])
    also have "\<dots> = findRow (\<lambda>p. po_id p = i) (posts s)"
      unfolding whereIdIn_def by (rule findRow_filter) (use that in simp)
    finally show ?thesis by (simp add: findPostById_def)
  qed
  then have "map (byId (query ids s)) ids = map (\<lambda>i. findPostById i s) ids" by simp
  then show ?thesis unfolding findByIds_def Let_def by (simp only: filter_found)
qed

definition samplePosts :: db where
  "samplePosts = emptyDb\<lparr>posts := [
     \<lparr>po_id = 1, po_title = ''a'', po_content = None, po_published = True, po_authorId = 1, po_createdAt = 3\<rparr>,
     \<lparr>po_id = 2, po_title = ''b'', po_content = None, po_published = False, po_authorId = 1, po_createdAt = 4\<rparr>]\<rparr>"

theorem findByIds_keeps_rank_witness:
  "map po_id (findByIds (\<lambda>ids s. rev (whereIdIn ids s)) [2, 9, 1] samplePosts) = [2, 1]"
proof -
  have "distinct (map po_id (posts samplePosts))" by code_simp
  moreover have "answersIn (\<lambda>ids s. rev (whereIdIn ids s))" by (simp add: answersIn_def)
  ultimately have "findByIds (\<lambda>ids s. rev (whereIdIn ids s)) [2, 9, 1] samplePosts =
      concat (map (\<lambda>i. case findPostById i samplePosts of None \<Rightarrow> [] | Some p \<Rightarrow> [p]) [2, 9, 1])"
    by (rule findByIds_keeps_rank)
  also have "map po_id \<dots> = [2, 1]" by code_simp
  finally show ?thesis .
qed

end
