(* ===== verification/Statements.thy ===== *)
theory Statements
  imports Uow
begin

text \<open>
  Programs of database calls before any unit of work is around them. A body of type \<open>tx\<close> drops
  the state it reached when it throws, which is what a transaction makes of it; here a throw
  leaves behind every call that was done before it, as autocommit does, and the unit of work
  of \<open>src/db/uow.ts\<close> is what restores the state at its start. The laws at the end say that
  \<open>tx\<close> is exactly what a program is inside a unit of work.
\<close>

section \<open>Programs\<close>

type_synonym ('e, 's, 'a) work = "'s \<Rightarrow> ('e + 'a) \<times> 's"

text \<open>One call: a single statement of the database, which is done or not done.\<close>

definition callW :: "('e, 's, 'a) tx \<Rightarrow> ('e, 's, 'a) work" where
  "callW m = (\<lambda>s. case m s of Inl e \<Rightarrow> (Inl e, s) | Inr (a, s') \<Rightarrow> (Inr a, s'))"

definition returnW :: "'a \<Rightarrow> ('e, 's, 'a) work" where
  "returnW a = (\<lambda>s. (Inr a, s))"

definition liftW :: "'e + 'a \<Rightarrow> ('e, 's, 'a) work" where
  "liftW r = (\<lambda>s. (r, s))"

definition bindW :: "('e, 's, 'a) work \<Rightarrow> ('a \<Rightarrow> ('e, 's, 'b) work) \<Rightarrow> ('e, 's, 'b) work" where
  "bindW m f = (\<lambda>s. case m s of (Inl e, s') \<Rightarrow> (Inl e, s') | (Inr a, s') \<Rightarrow> f a s')"

section \<open>The unit of work\<close>

text \<open>
  \<open>$transaction\<close> begins at \<open>s\<close> and returns to it when the body throws or the commit is
  refused; \<open>runTx\<close> translates a serialization failure.
\<close>

definition transactionW :: "'s session \<Rightarrow> (thrown, 's, 'a) work \<Rightarrow> (thrown, 's, 'a) work" where
  "transactionW db body s = (case body s of
      (Inl e, s') \<Rightarrow> (Inl e, s)
    | (Inr a, s') \<Rightarrow> (case ses_reject db s s' of Some e \<Rightarrow> (Inl e, s) | None \<Rightarrow> (Inr a, s')))"

definition runTxW :: "'s session \<Rightarrow> (thrown, 's, 'a) work \<Rightarrow> (thrown, 's, 'a) work" where
  "runTxW db body s = (case transactionW db body s of
      (Inr a, s') \<Rightarrow> (Inr a, s')
    | (Inl error, s') \<Rightarrow> (Inl (if isSerializationConflict (toJs error)
                      then ConcurrentUpdateError ''the transaction'' else error), s'))"

definition runW :: "'s session \<Rightarrow> (thrown, 's, 'a) work \<Rightarrow> (thrown, 's, 'a) work" where
  "runW db body = runTxW db body"

section \<open>Laws\<close>

text \<open>What a program is inside a unit of work.\<close>

definition asTx :: "('e, 's, 'a) work \<Rightarrow> ('e, 's, 'a) tx" where
  "asTx m = (\<lambda>s. case m s of (Inl e, s') \<Rightarrow> Inl e | (Inr a, s') \<Rightarrow> Inr (a, s'))"

text \<open>A program that leaves no trace when it throws.\<close>

definition atomicW :: "('e, 's, 'a) work \<Rightarrow> bool" where
  "atomicW m \<longleftrightarrow> (\<forall>s e s'. m s = (Inl e, s') \<longrightarrow> s' = s)"

lemma asTx_callW [simp]: "asTx (callW m) = m"
  by (rule ext) (simp add: asTx_def callW_def split: sum.split prod.split)

lemma asTx_returnW [simp]: "asTx (returnW a) = returnT a"
  by (rule ext) (simp add: asTx_def returnW_def)

lemma asTx_liftW [simp]: "asTx (liftW r) = liftT r"
  by (rule ext) (simp add: asTx_def liftW_def liftT_def split: sum.split)

lemma asTx_bindW [simp]: "asTx (bindW m f) = bindT (asTx m) (\<lambda>a. asTx (f a))"
  by (rule ext) (simp add: asTx_def bindW_def bindT_def split: sum.split prod.split)

lemma asTx_eq_Inr: "asTx m s = Inr (a, s') \<longleftrightarrow> m s = (Inr a, s')"
  by (auto simp: asTx_def split: sum.splits prod.splits)

lemma callW_eq_Inr: "callW m s = (Inr a, s') \<longleftrightarrow> m s = Inr (a, s')"
  by (auto simp: callW_def split: sum.splits prod.splits)

lemma fst_asTx: "map_sum id fst (asTx m s) = fst (m s)"
  by (simp add: asTx_def split: sum.split prod.split)

text \<open>A unit of work is atomic, and does what the transaction body it encloses says.\<close>

lemma runW_transaction: "runW db m = callW (run db (asTx m))"
proof
  fix s
  obtain r s' where "m s = (r, s')" by fastforce
  then show "runW db m s = callW (run db (asTx m)) s"
    by (cases r; cases "ses_reject db s s'")
      (simp_all add: runW_def runTxW_def transactionW_def run_def runTx_def transaction_def callW_def asTx_def)
qed

lemma asTx_runW [simp]: "asTx (runW db m) = run db (asTx m)"
  by (simp add: runW_transaction)

lemma callW_atomic: "atomicW (callW m)"
  by (simp add: atomicW_def callW_def split: sum.split prod.split)

lemma runW_atomic: "atomicW (runW db m)"
  by (simp add: runW_transaction callW_atomic)

lemma atomicW_iff: "atomicW m \<longleftrightarrow> callW (asTx m) = m"
proof
  assume "atomicW m"
  then show "callW (asTx m) = m"
    by (intro ext) (auto simp: atomicW_def callW_def asTx_def split: sum.split prod.split)
next
  assume "callW (asTx m) = m"
  with callW_atomic [of "asTx m"] show "atomicW m" by simp
qed

text \<open>Checks before the first write keep a program atomic; two writes in a row do not.\<close>

lemma atomicW_check: "(\<And>a. r = Inr a \<Longrightarrow> atomicW (f a)) \<Longrightarrow> atomicW (bindW (liftW r) f)"
  by (auto simp: atomicW_def bindW_def liftW_def split: sum.split)

lemma two_calls_not_atomic:
  "\<not> atomicW (bindW (callW (\<lambda>s. Inr ((), s + 1))) (\<lambda>_. callW (throwT e)) :: (thrown, int, unit) work)"
  by (simp add: atomicW_def bindW_def callW_def)

end
