(* ===== verification/Onboarding.thy ===== *)
theory Onboarding
  imports UserLaws Posts Flags Statements
begin

text \<open>
  Sign-up across the user and post modules: the welcome copy of
  \<open>src/modules/onboarding/onboarding.content.ts\<close> and the use case of \<open>onboarding.service.ts\<close>,
  which writes a user and a welcome post in one unit of work. It is a program of database calls
  (\<open>Statements\<close>): its rollback is the unit of work's, and nothing else's. The copy has two characters
  outside the alphabet of the model (U+1F389 and U+2014): how they are written is the argument
  \<open>glyph\<close>.
\<close>

section \<open>Content\<close>

record WelcomePostContent =
  wel_title :: string
  wel_content :: string

definition WELCOME_VARIANTS :: "string list" where
  "WELCOME_VARIANTS = [''classic'', ''festive'', ''minimal'']"

definition displayName :: "string option \<Rightarrow> string" where
  "displayName name = (case name of Some n \<Rightarrow> n | None \<Rightarrow> ''there'')"

definition apostrophe :: string where
  "apostrophe = [CHR 0x27]"

text \<open>The record of builders: a lookup that may find none.\<close>

definition welcomePostBuilders ::
  "(nat \<Rightarrow> string) \<Rightarrow> string \<Rightarrow> (string option \<Rightarrow> WelcomePostContent) option" where
  "welcomePostBuilders glyph chosen =
     (if chosen = ''classic'' then Some (\<lambda>name. \<lparr>wel_title = ''Welcome!'',
        wel_content = ''Hi '' @ displayName name @ '', welcome aboard. This is your first post '' @
          glyph 0x2014 @ '' edit or delete it anytime.''\<rparr>)
      else if chosen = ''festive'' then Some (\<lambda>name. \<lparr>wel_title = glyph 0x1F389 @ '' Welcome aboard!'',
        wel_content = ''Hey '' @ displayName name @ '' '' @ glyph 0x2014 @ '' so glad you'' @ apostrophe @
          ''re here! This is your first post; make it your own.''\<rparr>)
      else if chosen = ''minimal'' then Some (\<lambda>name. \<lparr>wel_title = ''Welcome'',
        wel_content = ''Hi '' @ displayName name @ ''. Your account is ready.''\<rparr>)
      else None)"

text \<open>A call of what the record does not have is the runtime's type error.\<close>

definition notAFunction :: thrown where
  "notAFunction = PlainError ''TypeError'' ''welcomePostBuilders[variant] is not a function''"

definition buildWelcomePost :: "(nat \<Rightarrow> string) \<Rightarrow> string option \<Rightarrow> string option \<Rightarrow> thrown + WelcomePostContent" where
  "buildWelcomePost glyph name chosen =
     (case welcomePostBuilders glyph (case chosen of Some v \<Rightarrow> v | None \<Rightarrow> ''classic'') of
        None \<Rightarrow> Inl notAFunction
      | Some builder \<Rightarrow> Inr (builder name))"

section \<open>Use case\<close>

text \<open>
  \<open>create\<close> is the injectable writer of the welcome post, any program; by default it is the one
  call \<open>callW (createPost eng _)\<close>.
\<close>

definition register ::
  "engine \<Rightarrow> (nat \<Rightarrow> string) \<Rightarrow> (CreatePostInput \<Rightarrow> (thrown, db, post_row) work) \<Rightarrow> CreateUserInput \<Rightarrow> FlagReader \<Rightarrow>
   (thrown, db, user_row) work" where
  "register eng glyph create input flags =
     bindW (liftW (parseEmail (cu_email input))) (\<lambda>email.
     bindW (liftW (fr_welcomeVariant flags)) (\<lambda>chosen.
     runW (e_session eng)
       (bindW (callW (createUser eng \<lparr>uw_email = email, uw_name = cu_name input\<rparr>)) (\<lambda>user.
        bindW (liftW (buildWelcomePost glyph (u_name user) (Some chosen))) (\<lambda>content.
        bindW (create \<lparr>cp_title = wel_title content, cp_content = Some (wel_content content),
                 cp_authorId = u_id user\<rparr>) (\<lambda>_.
        returnW user))))))"

section \<open>Guarantees\<close>

lemma builders_total: "v \<in> set WELCOME_VARIANTS \<longleftrightarrow> welcomePostBuilders glyph v \<noteq> None"
  by (auto simp: WELCOME_VARIANTS_def welcomePostBuilders_def)

text \<open>the variant a request reads from the registered flag always has a builder: whatever text
  the flag backend answers, the reader narrows it to one of the declared variants, and the
  record has a builder for each of them, so the missing-builder error cannot be thrown.
\<close>

theorem welcome_variant_has_builder:
  assumes "FLAGS = Inr specs" "(''welcomeVariant'', spec) \<in> set specs"
    "readFlag client ''welcomeVariant'' spec st = (Inr (VariantValue v), st')"
  shows "\<exists>content. buildWelcomePost glyph name (Some v) = Inr content"
proof -
  from assms(1,2) have "spec = VariantSpec [''classic'', ''festive'', ''minimal''] ''classic''
      ''Welcome-post copy variant.'' Permanent"
    by (auto simp: FLAGS_defined)
  with assms(3) have "v \<in> set WELCOME_VARIANTS"
    by (auto simp: readFlag_def WELCOME_VARIANTS_def rbind_def split: prod.splits sum.splits if_splits)
  then show ?thesis using builders_total [of v glyph] by (auto simp: buildWelcomePost_def)
qed

definition oddClient :: "unit flag_client" where
  "oddClient = \<lparr>getBooleanDetails = (\<lambda>_ d w. (Inr d, w)), getStringDetails = (\<lambda>_ _ w. (Inr ''surprise'', w))\<rparr>"

theorem welcome_variant_has_builder_witness:
  "\<exists>spec v st'. readFlag oddClient ''welcomeVariant'' spec (emptyMemo, ()) = (Inr (VariantValue v), st') \<and>
     (\<exists>content. buildWelcomePost (\<lambda>_. []) None (Some v) = Inr content)"
proof -
  let ?spec = "VariantSpec [''classic'', ''festive'', ''minimal''] ''classic'' ''Welcome-post copy variant.'' Permanent"
  obtain st' where r: "readFlag oddClient ''welcomeVariant'' ?spec (emptyMemo, ()) = (Inr (VariantValue ''classic''), st')"
    by (simp add: readFlag_def readVariant_def emptyMemo_def oddClient_def)
  have "(''welcomeVariant'', ?spec) \<in> set [
      (''pointTransfer'', GateSpec False ''Enablement gate for peer-to-peer point transfers.'' (Temporary ''2030-12-31'')),
      (''pointTransferPreferFree'', GateSpec False ''Spend free points before paid ones on a transfer.'' (Temporary ''2030-12-31'')),
      (''welcomeVariant'', ?spec)]" by simp
  from welcome_variant_has_builder [OF FLAGS_defined this r] r show ?thesis by blast
qed

lemma register_eq_Inr:
  "register eng glyph create input flags s = (Inr u, s') \<longleftrightarrow>
     (\<exists>email chosen content s1 p. parseEmail (cu_email input) = Inr email \<and> fr_welcomeVariant flags = Inr chosen \<and>
       createUser eng \<lparr>uw_email = email, uw_name = cu_name input\<rparr> s = Inr (u, s1) \<and>
       buildWelcomePost glyph (u_name u) (Some chosen) = Inr content \<and>
       create \<lparr>cp_title = wel_title content, cp_content = Some (wel_content content), cp_authorId = u_id u\<rparr> s1
         = (Inr p, s') \<and>
       ses_reject (e_session eng) s s' = None)"
  unfolding asTx_eq_Inr [symmetric]
  by (auto simp: register_def run_def runTx_eq_Inr bindT_eq_Inr liftT_eq_Inr returnT_eq_Inr asTx_eq_Inr)

lemma register_atomic: "atomicW (register eng glyph create input flags)"
  unfolding register_def by (intro atomicW_check runW_atomic)

lemma inserted_user:
  assumes "createUser eng \<lparr>uw_email = email, uw_name = name\<rparr> s = Inr (u, s1)"
  shows "email \<notin> u_email ` set (users s)" "u_email u = email" "u_name u = name" "u_status u = ''ACTIVE''"
    "s1 = s\<lparr>users := users s @ [u]\<rparr>"
  using assms by (auto simp: createUser_Inr insertUser_def Let_def split: if_splits)

lemma register_taken_email:
  assumes "parseEmail (cu_email input) = Inr email" "fr_welcomeVariant flags = Inr chosen"
    and "email \<in> u_email ` set (users s)"
  shows "register eng glyph create input flags s = (Inl (EmailAlreadyRegisteredError email), s)"
  using assms by (simp add: register_def bindW_def liftW_def runW_def runTxW_def transactionW_def callW_def
      createUser_def insertUser_def uniqueViolation_def isUniqueViolation_def
      isSerializationConflict_def EmailAlreadyRegisteredError_def)

lemma register_free_email:
  assumes "parseEmail (cu_email input) = Inr email" "fr_welcomeVariant flags = Inr chosen"
    and "email \<notin> u_email ` set (users s)" "session_quiet (e_session eng)" "chosen \<in> {''classic'', ''festive'', ''minimal''}"
  shows "\<exists>u s'. register eng glyph (\<lambda>d. callW (createPost eng d)) input flags s = (Inr u, s')"
proof -
  obtain u s1 where ins: "createUser eng \<lparr>uw_email = email, uw_name = cu_name input\<rparr> s = Inr (u, s1)"
    using assms(3) by (simp add: createUser_def insertUser_def Let_def)
  obtain content where c: "buildWelcomePost glyph (u_name u) (Some chosen) = Inr content"
    using assms(5) builders_total [of chosen glyph] by (auto simp: buildWelcomePost_def WELCOME_VARIANTS_def)
  have "u_id u \<in> u_id ` set (users s1)" by (simp add: inserted_user(5) [OF ins])
  then obtain p s' where "createPost eng \<lparr>cp_title = wel_title content, cp_content = Some (wel_content content),
      cp_authorId = u_id u\<rparr> s1 = Inr (p, s')"
    by (simp add: createPost_def Let_def)
  moreover have "ses_reject (e_session eng) s s' = None" using assms(4) by (simp add: session_quiet_def)
  ultimately show ?thesis
    unfolding register_eq_Inr callW_eq_Inr using assms(1,2) ins c by blast
qed

text \<open>C29: sign-up writes both rows or none, whatever the writer of the welcome post does. When it
  fails, at any point (an unusable e-mail, a flag that cannot be read, a taken e-mail, a copy
  that does not exist, a writer that throws after any writes of its own, a commit that is
  refused), the database is exactly what it was: the user row written before the failure is
  gone. When it succeeds, with the default writer, the e-mail was free and there is exactly one
  new user, active, with the parsed e-mail, and exactly one new post, by that user, with the copy
  of the variant the flag chose; and with nothing failing outside, a free valid e-mail and a
  variant that has a copy do succeed.
\<close>

theorem register_all_or_nothing:
  assumes fresh: "engine_fresh eng" and ok: "users_ok s"
  shows "(\<forall>e s'. register eng glyph create input flags s = (Inl e, s') \<longrightarrow> s' = s) \<and>
    ((\<forall>d t. \<exists>e t'. create d t = (Inl e, t')) \<longrightarrow> (\<exists>e. register eng glyph create input flags s = (Inl e, s))) \<and>
    (\<forall>u s'. register eng glyph (\<lambda>d. callW (createPost eng d)) input flags s = (Inr u, s') \<longrightarrow>
      (\<exists>email chosen content p. parseEmail (cu_email input) = Inr email \<and> fr_welcomeVariant flags = Inr chosen \<and>
        email \<notin> u_email ` set (users s) \<and> buildWelcomePost glyph (cu_name input) (Some chosen) = Inr content \<and>
        u_email u = email \<and> u_name u = cu_name input \<and> u_status u = ''ACTIVE'' \<and>
        po_authorId p = u_id u \<and> po_title p = wel_title content \<and> po_content p = Some (wel_content content) \<and>
        s' = s\<lparr>users := users s @ [u], posts := posts s @ [p]\<rparr> \<and> users_ok s')) \<and>
    (\<forall>email chosen. parseEmail (cu_email input) = Inr email \<longrightarrow> fr_welcomeVariant flags = Inr chosen \<longrightarrow>
      (if email \<in> u_email ` set (users s)
       then register eng glyph create input flags s = (Inl (EmailAlreadyRegisteredError email), s)
       else session_quiet (e_session eng) \<longrightarrow> chosen \<in> {''classic'', ''festive'', ''minimal''} \<longrightarrow>
         (\<exists>u s'. register eng glyph (\<lambda>d. callW (createPost eng d)) input flags s = (Inr u, s'))))"
proof (intro conjI allI impI)
  fix e s'
  assume "register eng glyph create input flags s = (Inl e, s')"
  then show "s' = s" using register_atomic unfolding atomicW_def by blast
next
  assume throws: "\<forall>d t. \<exists>e t'. create d t = (Inl e, t')"
  show "\<exists>e. register eng glyph create input flags s = (Inl e, s)"
  proof (cases "register eng glyph create input flags s")
    case (Pair r s')
    have "r \<noteq> Inr u" for u
    proof
      assume "r = Inr u"
      from Pair [unfolded this] obtain d t p where "create d t = (Inr p, s')" unfolding register_eq_Inr by blast
      with throws show False by (metis Inl_Inr_False prod.inject)
    qed
    then obtain e where "r = Inl e" by (cases r) auto
    with Pair show ?thesis using register_atomic unfolding atomicW_def by blast
  qed
next
  fix u s'
  assume "register eng glyph (\<lambda>d. callW (createPost eng d)) input flags s = (Inr u, s')"
  then obtain email chosen content s1 p where
    a: "parseEmail (cu_email input) = Inr email" "fr_welcomeVariant flags = Inr chosen" and
    ins: "createUser eng \<lparr>uw_email = email, uw_name = cu_name input\<rparr> s = Inr (u, s1)" and
    c: "buildWelcomePost glyph (u_name u) (Some chosen) = Inr content" and
    post: "createPost eng \<lparr>cp_title = wel_title content, cp_content = Some (wel_content content),
      cp_authorId = u_id u\<rparr> s1 = Inr (p, s')"
    unfolding register_eq_Inr callW_eq_Inr by blast
  note u = inserted_user [OF ins]
  have "parseEmail email = Inr email" using parseEmail_normal [OF a(1)] by blast
  moreover have inserted: "insertUser eng \<lparr>uw_email = email, uw_name = cu_name input\<rparr> s = Inr (u, s1)"
    using ins by (simp add: createUser_Inr)
  ultimately have "users_ok s1" using insertUser_ok [OF ok fresh _ inserted] by simp
  moreover from post have "s' = s1\<lparr>posts := posts s @ [p]\<rparr>" "po_authorId p = u_id u" "po_title p = wel_title content"
    "po_content p = Some (wel_content content)"
    by (auto simp: createPost_def Let_def u(5) split: if_splits)
  ultimately show "\<exists>email chosen content p. parseEmail (cu_email input) = Inr email \<and> fr_welcomeVariant flags = Inr chosen \<and>
        email \<notin> u_email ` set (users s) \<and> buildWelcomePost glyph (cu_name input) (Some chosen) = Inr content \<and>
        u_email u = email \<and> u_name u = cu_name input \<and> u_status u = ''ACTIVE'' \<and>
        po_authorId p = u_id u \<and> po_title p = wel_title content \<and> po_content p = Some (wel_content content) \<and>
        s' = s\<lparr>users := users s @ [u], posts := posts s @ [p]\<rparr> \<and> users_ok s'"
    using a c u by (intro exI [of _ email] exI [of _ chosen] exI [of _ content] exI [of _ p]) (simp add: users_ok_def)
next
  fix email chosen
  assume a: "parseEmail (cu_email input) = Inr email" "fr_welcomeVariant flags = Inr chosen"
  show "if email \<in> u_email ` set (users s)
       then register eng glyph create input flags s = (Inl (EmailAlreadyRegisteredError email), s)
       else session_quiet (e_session eng) \<longrightarrow> chosen \<in> {''classic'', ''festive'', ''minimal''} \<longrightarrow>
         (\<exists>u s'. register eng glyph (\<lambda>d. callW (createPost eng d)) input flags s = (Inr u, s'))"
  proof (cases "email \<in> u_email ` set (users s)")
    case True
    then show ?thesis using register_taken_email [OF a True] by simp
  next
    case False
    then show ?thesis using register_free_email [OF a False] by auto
  qed
qed

theorem register_all_or_nothing_witness:
  "\<exists>e. register refEngine (\<lambda>_. ''-'') (\<lambda>d t. (Inl noRowFound, t\<lparr>users := []\<rparr>)) \<lparr>cu_email = ''Cy@x.org'', cu_name = None\<rparr>
     \<lparr>fr_assertPointTransfer = Inr (), fr_pointTransferPreferFree = Inr True, fr_welcomeVariant = Inr ''minimal''\<rparr>
     sampleUsers = (Inl e, sampleUsers)"
  using register_all_or_nothing [OF refEngine_fresh sampleUsers_ok, of "\<lambda>_. ''-''"
      "\<lambda>d t. (Inl noRowFound, t\<lparr>users := []\<rparr>)" "\<lparr>cu_email = ''Cy@x.org'', cu_name = None\<rparr>"
      "\<lparr>fr_assertPointTransfer = Inr (), fr_pointTransferPreferFree = Inr True, fr_welcomeVariant = Inr ''minimal''\<rparr>"]
  by blast

end
