(* ===== verification/CommerceFields.thy ===== *)
theory CommerceFields
  imports GraphqlContext WithdrawalReplay
begin

text \<open>
  The mutations of the money use cases in the GraphQL schema: \<open>checkoutCommission\<close>,
  \<open>settleCommission\<close> and \<open>requestIncomeWithdrawal\<close> (the \<open>*.mutation.ts\<close> of the three
  modules). Each hands its input to the use case and answers the result as it is, with no
  re-fetch; the use case runs on the primary.
\<close>

section \<open>Resolvers\<close>

definition answersDirectly :: "'a dbtx \<Rightarrow> Context \<Rightarrow> views \<Rightarrow> (thrown + 'a) \<times> views" where
  "answersDirectly service ctx view =
     (let rw = db_rw (cx_services ctx) in
      case service (view rw) of Inl e \<Rightarrow> (Inl e, view) | Inr (a, s') \<Rightarrow> (Inr a, view(rw := s')))"

text \<open>The reads a use case makes before its transaction see the databases \<open>s0\<close> and \<open>s1\<close>.\<close>

definition checkoutCommissionField ::
  "runtime \<Rightarrow> engine \<Rightarrow> int \<Rightarrow> int \<Rightarrow> string \<Rightarrow> db \<Rightarrow> db \<Rightarrow> Context \<Rightarrow> views \<Rightarrow>
     (thrown + CommissionCheckoutResult) \<times> views" where
  "checkoutCommissionField rt eng orderPaymentId actorId commandKey s0 s1 =
     answersDirectly (complete rt eng \<lparr>ci_orderPaymentId = orderPaymentId, ci_actorId = actorId,
       ci_commandKey = commandKey\<rparr> s0 s1)"

definition settleCommissionField ::
  "runtime \<Rightarrow> engine \<Rightarrow> CommissionSettlementInput \<Rightarrow> db \<Rightarrow> db \<Rightarrow> Context \<Rightarrow> views \<Rightarrow>
     (thrown + CommissionSettlementResult) \<times> views" where
  "settleCommissionField rt eng input s0 s1 = answersDirectly (settle rt eng input s0 s1)"

definition requestIncomeWithdrawalField ::
  "runtime \<Rightarrow> engine \<Rightarrow> int \<Rightarrow> int \<Rightarrow> string \<Rightarrow> db \<Rightarrow> Context \<Rightarrow> views \<Rightarrow>
     (thrown + IncomeWithdrawalResult) \<times> views" where
  "requestIncomeWithdrawalField rt eng actorId amount commandKey s0 =
     answersDirectly (requestWithdrawal rt eng \<lparr>wi_actorId = actorId, wi_amount = JInt amount,
       wi_commandKey = commandKey\<rparr> s0)"

section \<open>Output types\<close>

text \<open>The fields of the result types, each exposing the property of its name.\<close>

abbreviation intField :: "int \<Rightarrow> js" where
  "intField n \<equiv> JNum (JInt n)"

definition checkoutOutput :: "CommissionCheckoutResult \<Rightarrow> (string \<times> js) list" where
  "checkoutOutput r = [(''orderId'', intField (co_orderId r)), (''orderPaymentId'', intField (co_orderPaymentId r)),
     (''contractId'', intField (co_contractId r)), (''reservationId'', intField (co_reservationId r)),
     (''referenceId'', JStr (co_referenceId r)), (''commandId'', JStr (co_commandId r)),
     (''operationId'', JStr (co_operationId r)), (''replayed'', JBool (co_replayed r))]"

definition settlementOutput :: "CommissionSettlementResult \<Rightarrow> (string \<times> js) list" where
  "settlementOutput r = [(''contractId'', intField (se_contractId r)), (''reservationId'', intField (se_reservationId r)),
     (''incomeLotId'', intField (se_incomeLotId r)), (''referenceId'', JStr (se_referenceId r)),
     (''commandId'', JStr (se_commandId r)), (''operationId'', JStr (se_operationId r)),
     (''replayed'', JBool (se_replayed r))]"

definition sourceOutput :: "string \<times> int \<Rightarrow> js" where
  "sourceOutput p = JObject [(''commissionReferenceId'', JStr (fst p)), (''amount'', intField (snd p))]"

definition withdrawalOutput :: "IncomeWithdrawalResult \<Rightarrow> (string \<times> js) list" where
  "withdrawalOutput r = [(''withdrawalId'', JStr (wo_withdrawalId r)), (''reservationId'', intField (wo_reservationId r)),
     (''referenceId'', JStr (wo_referenceId r)), (''commandId'', JStr (wo_commandId r)),
     (''operationId'', JStr (wo_operationId r)), (''replayed'', JBool (wo_replayed r)),
     (''sources'', JArray (map sourceOutput (wo_sources r)))]"

section \<open>A mutation sent again\<close>

text \<open>What a client compares two answers by: every field but \<open>replayed\<close>.\<close>

definition answerOf :: "(string \<times> js) list \<Rightarrow> (string \<times> js) list" where
  "answerOf out = filter (\<lambda>p. fst p \<noteq> ''replayed'') out"

lemma answersDirectly_Inr:
  "answersDirectly service ctx view = (Inr a, view') \<longleftrightarrow>
     (\<exists>s'. service (view (db_rw (cx_services ctx))) = Inr (a, s') \<and> view' = view(db_rw (cx_services ctx) := s'))"
  by (auto simp: answersDirectly_def Let_def split: sum.splits)

lemma complete_of_body:
  assumes q: "session_quiet (e_session eng)" and p: "prepareCommissionCheckout rt input t0 t1 = Inr p"
    and body: "\<And>scope. checkoutBody rt eng input scope s = Inr z"
  shows "complete rt eng input t0 t1 s = Inr z"
proof -
  from p have "pc_input p = input" "pc_payloadHash p = hashCommissionCheckoutPayload rt input"
    by (auto simp: prepareCommissionCheckout_def read_simps)
  then have "executeCommissionCheckout rt eng p s = Inr z"
    using body [of "(pc_lockedTargets p, pc_lockKeys p)"] by (cases p) (simp add: checkoutBody_def)
  with complete_quiet [OF q p] show ?thesis .
qed

text \<open>What a checkout that was carried out answers: the rows it wrote, under their own names.\<close>

definition answerNames :: "int \<Rightarrow> int \<Rightarrow> string \<Rightarrow> db \<Rightarrow> (string \<times> js) list \<Rightarrow> bool" where
  "answerNames i actor key s out \<longleftrightarrow>
     (\<exists>order \<in> set (orders s). \<exists>payment \<in> set (orderPayments s). \<exists>k \<in> set (contracts s).
      \<exists>link \<in> set (orderFinancialLinks s). \<exists>v \<in> set (financialReservations s).
      \<exists>c \<in> set (financialCommandRuns s). \<exists>op \<in> set (financialOperations s).
        pay_id payment = i \<and> pay_orderId payment = o_id order \<and> pay_state payment = ''PAID'' \<and>
        o_state order = ''PAID'' \<and> k_orderId k = o_id order \<and> k_flowId k = pay_flowId payment \<and>
        ln_orderPaymentId link = i \<and> ln_reservationId link = r_id v \<and> r_flowId v = pay_flowId payment \<and>
        cm_principalId c = actor \<and> cm_idempotencyKey c = key \<and> cm_resultOperationId c = Some (oper_id op) \<and>
        oper_commandId op = cm_id c \<and>
        out = [(''orderId'', intField (o_id order)), (''orderPaymentId'', intField i),
          (''contractId'', intField (k_id k)), (''reservationId'', intField (r_id v)),
          (''referenceId'', JStr (''COMMISSION-'' @ pay_flowId payment)),
          (''commandId'', JStr (''CMD-PAY-'' @ cm_id c)), (''operationId'', JStr (''OP-PAY-'' @ oper_id op))])"

lemma carried_out_answer:
  assumes frame: "session_frame (e_session eng)" and fresh: "engine_fresh eng" and fin: "fin_ok s"
    and ok: "complete rt eng \<lparr>ci_orderPaymentId = i, ci_actorId = actor, ci_commandKey = key\<rparr> s0 s1 s = Inr (r, s')"
    and new: "\<not> co_replayed r"
  shows "answerNames i actor key s' (answerOf (checkoutOutput r))"
proof -
  from complete_success [OF frame ok] obtain prepared where prep: "pc_input prepared =
      \<lparr>ci_orderPaymentId = i, ci_actorId = actor, ci_commandKey = key\<rparr>"
    and exec: "executeCommissionCheckout rt eng prepared s = Inr (r, s')" by blast
  from replayed_iff [OF exec] new have perf: "performCommissionCheckout eng prepared s = Inr (r, s')" by simp
  obtain plan acct as ci oi ct ri ki where
    load: "loadCommissionCheckoutPlan prepared s = Inr (plan, acct, as)" and
    r: "r = \<lparr>co_orderId = cp_paidOrderId plan, co_orderPaymentId = cp_paidPaymentId plan, co_contractId = ki,
      co_reservationId = ri, co_referenceId = formatTransactionReference COMMISSION (cp_flowId plan),
      co_commandId = formatCommandId PAY ci, co_operationId = formatOperationId PAY oi, co_replayed = False\<rparr>" and
    tables: "financialCommandRuns s' = financialCommandRuns s @
        [commandOf (requestFor (cp_flowId plan) (cp_commandRequest plan) (pc_payloadHash prepared)) ci ct (Some oi)]"
      "financialOperations s' = financialOperations s @
        [\<lparr>oper_id = oi, oper_flowId = cp_flowId plan, oper_kind = PAY, oper_commandId = ci\<rparr>]"
      "financialReservations s' = financialReservations s @ [reservationOf (cp_financialRequest plan) ri]"
      "contracts s' = contracts s @ [contractOf (cp_contract plan) ki]"
      "orderFinancialLinks s' = orderFinancialLinks s @
        [\<lparr>ln_orderPaymentId = cp_paidPaymentId plan, ln_flowId = cp_paidFlowId plan, ln_reservationId = ri\<rparr>]"
      "orderPayments s' = updateWhere (\<lambda>p. pay_id p = cp_paidPaymentId plan \<and> pay_orderId p = cp_paidOrderId plan \<and>
        pay_state p = ''PENDING'') (\<lambda>p. p\<lparr>pay_state := ''PAID''\<rparr>) (orderPayments s)"
      "orders s' = updateWhere (\<lambda>r. o_id r = cp_paidOrderId plan \<and> o_state r = ''REQUESTED'')
        (\<lambda>r. r\<lparr>o_state := ''PAID''\<rparr>) (orders s)"
    by (rule performE [OF perf fin fresh]) (rule that, (assumption | simp)+)
  from loadCommissionCheckoutPlan_Inr [OF load] obtain order payment slot workerId holderId where
    found: "findRow (\<lambda>p. pay_id p = i) (orderPayments s) = Some payment"
      "findRow (\<lambda>r. o_id r = pay_orderId payment \<and> o_flowId r = pay_flowId payment) (orders s) = Some order" and
    pay: "payable \<lparr>cw_order = order, cw_payment = paymentFacts payment, cw_termsWorkerId = workerId,
      cw_termsPrice = o_amount order, cw_slot = slot, cw_holderId = holderId\<rparr> (pc_input prepared)" and
    plan: "plan = checkoutPlan \<lparr>cw_order = order, cw_payment = paymentFacts payment, cw_termsWorkerId = workerId,
      cw_termsPrice = o_amount order, cw_slot = slot, cw_holderId = holderId\<rparr> (pc_input prepared)"
    by (auto simp: prep)
  note rows = findRow_Some [OF found(1)] findRow_Some [OF found(2)]
  have states: "o_state order = ''REQUESTED''" "pay_state payment = ''PENDING''"
    using pay by (simp_all add: payable_def paymentFacts_def)
  have p: "cp_paidOrderId plan = o_id order" "cp_paidPaymentId plan = i" "cp_flowId plan = pay_flowId payment"
    "rr_flowId (cp_financialRequest plan) = pay_flowId payment" "fo_orderId (cp_contract plan) = o_id order"
    "fo_flowId (cp_contract plan) = pay_flowId payment"
    "cpl_principalId (cp_commandRequest plan) = actor" "cpl_idempotencyKey (cp_commandRequest plan) = key"
    using rows by (simp_all add: plan checkoutPlan_def paymentFacts_def planCommissionCheckoutCommand_def prep)
  have paid: "order\<lparr>o_state := ''PAID''\<rparr> \<in> set (orders s')" "payment\<lparr>pay_state := ''PAID''\<rparr> \<in> set (orderPayments s')"
    unfolding tables by (rule updated_member; use rows states p in simp)+
  let ?k = "contractOf (cp_contract plan) ki" and ?v = "reservationOf (cp_financialRequest plan) ri"
  let ?link = "\<lparr>ln_orderPaymentId = cp_paidPaymentId plan, ln_flowId = cp_paidFlowId plan, ln_reservationId = ri\<rparr>"
  let ?c = "commandOf (requestFor (cp_flowId plan) (cp_commandRequest plan) (pc_payloadHash prepared)) ci ct (Some oi)"
  let ?op = "\<lparr>oper_id = oi, oper_flowId = cp_flowId plan, oper_kind = PAY, oper_commandId = ci\<rparr>"
  show ?thesis
    unfolding answerNames_def
    by (rule bexI [OF _ paid(1)], rule bexI [OF _ paid(2)], rule bexI [of _ ?k], rule bexI [of _ ?link],
        rule bexI [of _ ?v], rule bexI [of _ ?c], rule bexI [of _ ?op])
      (use rows in \<open>simp_all add: r p tables(1-5) answerOf_def checkoutOutput_def contractOf_def reservationOf_def
        commandOf_def formatTransactionReference_def formatCommandId_def formatOperationId_def\<close>)
qed

text \<open>Only a payment with a recorded command is answered from the record.\<close>

lemma replay_needs_command:
  assumes frame: "session_frame (e_session eng)"
    and ok: "complete rt eng \<lparr>ci_orderPaymentId = i, ci_actorId = actor, ci_commandKey = key\<rparr> s0 s1 s = Inr (r, s')"
    and old: "co_replayed r"
  shows "\<exists>c \<in> set (financialCommandRuns s). cm_kind c = PAY \<and> cm_subjectKey c = showInt i"
proof -
  from complete_success [OF frame ok] obtain prepared where prep: "pc_input prepared =
      \<lparr>ci_orderPaymentId = i, ci_actorId = actor, ci_commandKey = key\<rparr>"
    and exec: "executeCommissionCheckout rt eng prepared s = Inr (r, s')" by blast
  have "performCommissionCheckout eng prepared s \<noteq> Inr (r, s')" using performed_result old by blast
  with exec obtain x where x: "replayCompletedCommissionCheckout rt eng prepared s = Inr (x, s')" "x \<noteq> None"
    unfolding execute_cases using replayed_iff [OF exec] by (metis (no_types) performed_result old option.distinct(1))
  from x(1) show ?thesis
  proof (cases rule: replay_cases)
    case (Stored stored buyer result)
    from findCommand_Some [OF Stored(1)] Stored(2) show ?thesis
      by (auto simp: assertCommissionCheckoutReplayIdentity_def planCommissionCheckoutCommand_def prep
          mapStoredCommand_def Let_def split: if_splits)
  next
    case (Alias identity result ci)
    from findCompleted_Some [OF Alias(2)] show ?thesis by (auto simp: planCommissionCheckoutCommand_def prep)
  next
    case Nothing
    with x(2) show ?thesis by simp
  qed
qed

text \<open>C7: a payment sent again is answered again, and the answer is the right one. When a checkout was
  carried out by one request (and it is, unless a payment command for this payment was recorded
  before), the fields the client receives name, each under its own name, the
  paid order of the payment, the payment itself, the contract of that order, the reservation
  linked to the payment, the reference of its flow, and the command of this caller and key with
  its operation, as the database then has them, not marked as replayed. The same mutation in
  any other request of the same application, whatever its operation was classified as and
  whatever it read before its transaction, answers the same fields, now marked as replayed, and
  changes nothing on any server; and so it does after a checkout that was itself a replay.
\<close>

theorem repeated_checkout_answers_alike:
  assumes eng: "session_quiet (e_session eng)" "engine_fresh eng" and rt: "runtime_ok rt"
    and fin: "fin_ok (view (db_rw d))" and safe: "isSafeInteger (JInt i)"
    and dbs: "cx_services ctx = d" "cx_services ctx' = d"
    and first: "checkoutCommissionField rt eng i actor key s0 s1 ctx view = (Inr r, view')"
    and commit: "unique_ok (view' (db_rw d))"
    and again: "prepareCommissionCheckout rt \<lparr>ci_orderPaymentId = i, ci_actorId = actor, ci_commandKey = key\<rparr> t0 t1 = Inr p"
  shows "(if co_replayed r
      then map_of (checkoutOutput r) ''replayed'' = Some (JBool True) \<and>
        (\<exists>c \<in> set (financialCommandRuns (view (db_rw d))). cm_kind c = PAY \<and> cm_subjectKey c = showInt i)
      else map_of (checkoutOutput r) ''replayed'' = Some (JBool False) \<and>
        answerNames i actor key (view' (db_rw d)) (answerOf (checkoutOutput r))) \<and>
    (\<exists>r'. checkoutCommissionField rt eng i actor key t0 t1 ctx' view' = (Inr r', view') \<and>
      map_of (checkoutOutput r') ''replayed'' = Some (JBool True) \<and>
      answerOf (checkoutOutput r') = answerOf (checkoutOutput r))"
proof
  let ?input = "\<lparr>ci_orderPaymentId = i, ci_actorId = actor, ci_commandKey = key\<rparr>"
  from first obtain s' where ok: "complete rt eng ?input s0 s1 (view (db_rw d)) = Inr (r, s')"
    and view': "view' = view(db_rw d := s')"
    by (auto simp: checkoutCommissionField_def answersDirectly_Inr dbs)
  show "if co_replayed r
      then map_of (checkoutOutput r) ''replayed'' = Some (JBool True) \<and>
        (\<exists>c \<in> set (financialCommandRuns (view (db_rw d))). cm_kind c = PAY \<and> cm_subjectKey c = showInt i)
      else map_of (checkoutOutput r) ''replayed'' = Some (JBool False) \<and>
        answerNames i actor key (view' (db_rw d)) (answerOf (checkoutOutput r))"
    using replay_needs_command [OF session_quiet_frame [OF eng(1)] ok] carried_out_answer [OF session_quiet_frame [OF eng(1)] eng(2) fin ok]
    by (cases "co_replayed r") (simp_all add: checkoutOutput_def view')
  from complete_body [OF session_quiet_frame [OF eng(1)] ok] obtain scope where
    body: "checkoutBody rt eng ?input scope (view (db_rw d)) = Inr (r, s')" by blast
  have sound: "checkoutSound rt eng (view (db_rw d))" "checkoutOk ?input s'"
    using eng rt fin safe commit by (simp_all add: checkoutSound_def checkoutOk_def view')
  have "complete rt eng ?input t0 t1 s' = Inr (mark r, s')"
    by (rule complete_of_body [OF eng(1) again checkoutBody_retry [OF body sound]])
  then have "checkoutCommissionField rt eng i actor key t0 t1 ctx' view' = (Inr (mark r), view')"
    by (simp add: checkoutCommissionField_def answersDirectly_Inr dbs view')
  then show "\<exists>r'. checkoutCommissionField rt eng i actor key t0 t1 ctx' view' = (Inr r', view') \<and>
      map_of (checkoutOutput r') ''replayed'' = Some (JBool True) \<and>
      answerOf (checkoutOutput r') = answerOf (checkoutOutput r)"
    by (intro exI [of _ "mark r"]) (simp add: mark_def answerOf_def checkoutOutput_def)
qed

definition shopViews :: views where
  "shopViews c = (if c = db_rw sampleHandles then sampleShop else emptyDb)"

theorem repeated_checkout_answers_alike_witness:
  "\<exists>ctx ctx' r r' view'. cx_operation ctx = Mutation \<and> cx_operation ctx' = Other \<and>
     checkoutCommissionField refRuntime refEngine 4 1 ''k'' sampleShop sampleShop ctx shopViews = (Inr r, view') \<and>
     checkoutCommissionField refRuntime refEngine 4 1 ''k'' sampleShop sampleShop ctx' view' = (Inr r', view') \<and>
     answerOf (checkoutOutput r') = answerOf (checkoutOutput r) \<and> accountFunds 20 (view' (db_rw sampleHandles)) = 30"
proof -
  define ctx where "ctx = createContext sampleParser sampleHandles (storeClient emptyDb None 0) ()
    (Some \<lparr>rp_query = Some ''mutation'', rp_operationName = None\<rparr>)"
  define ctx' where "ctx' = createContext sampleParser sampleHandles (storeClient emptyDb None 0) () None"
  have ctx: "cx_services ctx = sampleHandles" "cx_services ctx' = sampleHandles" "cx_operation ctx = Mutation"
    "cx_operation ctx' = Other"
    by (simp_all add: ctx_def ctx'_def createContext_simps classifyOperation_def sampleParser_def)
  obtain r s' where run: "complete refRuntime refEngine sampleCheckout sampleShop sampleShop sampleShop = Inr (r, s')"
    and left: "accountFunds 20 s' = 30" and u: "unique_ok s'" by (rule sample_run)
  define view' where "view' = shopViews(db_rw sampleHandles := s')"
  have first: "checkoutCommissionField refRuntime refEngine 4 1 ''k'' sampleShop sampleShop ctx shopViews = (Inr r, view')"
    using run by (simp add: checkoutCommissionField_def answersDirectly_Inr ctx view'_def shopViews_def sampleCheckout_def)
  have q: "session_quiet (e_session refEngine)" by simp
  have rw: "fin_ok (shopViews (db_rw sampleHandles))" "unique_ok (view' (db_rw sampleHandles))"
    using sampleShop_ok u by (simp_all add: shopViews_def view'_def)
  have safe: "isSafeInteger (JInt 4)" by code_simp
  from repeated_checkout_answers_alike [OF q refEngine_fresh refRuntime_ok rw(1) safe ctx(1,2) first rw(2)
      sample_prepare [unfolded sampleCheckout_def]]
  obtain r' where "checkoutCommissionField refRuntime refEngine 4 1 ''k'' sampleShop sampleShop ctx' view' = (Inr r', view')"
    "answerOf (checkoutOutput r') = answerOf (checkoutOutput r)" by blast
  moreover have "accountFunds 20 (view' (db_rw sampleHandles)) = 30" by (simp add: view'_def left)
  ultimately show ?thesis using first ctx(3,4) by blast
qed

end
