(* ===== verification/IsoDate.thy ===== *)
theory IsoDate
  imports TimeKst Uow
begin

text \<open>
  \<open>Date.prototype.toISOString\<close>, the text in which the GraphQL types show an instant: the
  proleptic Gregorian calendar of the language, computed from the number of the day.
\<close>

section \<open>Years and months\<close>

definition dayFromYear :: "int \<Rightarrow> int" where
  "dayFromYear y = 365 * (y - 1970) + (y - 1969) div 4 - (y - 1901) div 100 + (y - 1601) div 400"

definition isLeapYear :: "int \<Rightarrow> bool" where
  "isLeapYear y \<longleftrightarrow> y mod 4 = 0 \<and> (y mod 100 \<noteq> 0 \<or> y mod 400 = 0)"

text \<open>An estimate by the mean length of a year, which is at most one year off.\<close>

definition yearFromDay :: "int \<Rightarrow> int" where
  "yearFromDay day =
     (let y = 1970 + day * 400 div 146097 in
      if day < dayFromYear y then y - 1 else if dayFromYear (y + 1) \<le> day then y + 1 else y)"

definition monthLengths :: "bool \<Rightarrow> int list" where
  "monthLengths leap = [31, if leap then 29 else 28, 31, 30, 31, 30, 31, 31, 30, 31, 30, 31]"

text \<open>The month of a day of the year and the day within it, both counted from 0.\<close>

fun monthAndDay :: "int list \<Rightarrow> int \<Rightarrow> nat \<times> int" where
  "monthAndDay [] n = (0, n)"
| "monthAndDay (l # ls) n = (if n < l then (0, n)
     else (let (m, d) = monthAndDay ls (n - l) in (Suc m, d)))"

section \<open>The text\<close>

definition padded :: "nat \<Rightarrow> int \<Rightarrow> string" where
  "padded k n = (let t = showNat (nat n) in replicate (k - length t) (digitChar 0) @ t)"

definition yearText :: "int \<Rightarrow> string" where
  "yearText y = (if 0 \<le> y \<and> y \<le> 9999 then padded 4 y
     else (if y < 0 then ''-'' else ''+'') @ padded 6 \<bar>y\<bar>)"

definition timeText :: "int \<Rightarrow> string" where
  "timeText ms = padded 2 (ms div 3600000) @ '':'' @ padded 2 (ms div 60000 mod 60) @ '':'' @
     padded 2 (ms div 1000 mod 60) @ ''.'' @ padded 3 (ms mod 1000)"

definition dayText :: "int \<Rightarrow> string" where
  "dayText day =
     (let y = yearFromDay day;
          (m, d) = monthAndDay (monthLengths (isLeapYear y)) (day - dayFromYear y)
      in yearText y @ ''-'' @ padded 2 (int m + 1) @ ''-'' @ padded 2 (d + 1))"

definition maxInstant :: int where
  "maxInstant = 8640000000000000"

definition toISOString :: "instant \<Rightarrow> thrown + string" where
  "toISOString t = (if maxInstant < \<bar>t\<bar> then Inl (PlainError ''RangeError'' ''Invalid time value'')
     else Inr (dayText (t div msPerDay) @ ''T'' @ timeText (t mod msPerDay) @ ''Z''))"

section \<open>The calendar is exact\<close>

lemma div_range:
  fixes x k :: int
  assumes "0 < k"
  shows "k * (x div k) \<le> x" and "x < k * (x div k) + k"
proof -
  have "k * (x div k) + x mod k = x" by simp
  with pos_mod_sign [OF assms, of x] pos_mod_bound [OF assms, of x]
  show "k * (x div k) \<le> x" and "x < k * (x div k) + k" by linarith+
qed

text \<open>Years counted from 1970: the estimate is at most one year off.\<close>

lemma estimate_low:
  fixes n :: int
  assumes "146097 * n \<le> day * 400"
  shows "365 * (n - 1) + n div 4 - (n + 68) div 100 + (n + 368) div 400 \<le> day"
  using assms div_range(1) [of 4 n] div_range(2) [of 100 "n + 68"] div_range(1) [of 400 "n + 368"] by simp

lemma estimate_high:
  fixes n :: int
  assumes "day * 400 < 146097 * n + 146097"
  shows "day < 365 * (n + 2) + (n + 3) div 4 - (n + 71) div 100 + (n + 371) div 400"
  using assms div_range(2) [of 4 "n + 3"] div_range(1) [of 100 "n + 71"] div_range(2) [of 400 "n + 371"] by simp

lemma yearFromDay_bounds:
  "dayFromYear (yearFromDay day) \<le> day \<and> day < dayFromYear (yearFromDay day + 1)"
proof -
  define n where "n = day * 400 div 146097"
  have est: "146097 * n \<le> day * 400" "day * 400 < 146097 * n + 146097"
    unfolding n_def by (rule div_range; simp)+
  have low: "dayFromYear (1970 + n - 1) \<le> day" and high: "day < dayFromYear (1970 + n + 1 + 1)"
    using estimate_low [OF est(1)] estimate_high [OF est(2)] by (simp_all add: dayFromYear_def algebra_simps)
  show ?thesis using low high by (auto simp: yearFromDay_def Let_def n_def [symmetric])
qed

text \<open>So a day is found back from its year, its month and its day.\<close>

lemma monthAndDay_sum:
  assumes "monthAndDay ls n = (m, d)"
  shows "n = sum_list (take m ls) + d"
  using assms by (induction ls n arbitrary: m d rule: monthAndDay.induct) (auto split: if_splits prod.splits)

lemma isoSamples:
  "toISOString 0 = Inr ''1970-01-01T00:00:00.000Z''"
  "toISOString 951782400123 = Inr ''2000-02-29T00:00:00.123Z''"
  "toISOString (- 1) = Inr ''1969-12-31T23:59:59.999Z''"
  by (code_simp, code_simp, code_simp)

end
