(* ===== verification/ObjectTypes.thy ===== *)
theory ObjectTypes
  imports CommerceFields PointSystem IsoDate
begin

text \<open>
  The object types of the GraphQL schema over stored rows (\<open>user.type.ts\<close>, \<open>post.type.ts\<close>,
  \<open>point.type.ts\<close>): every field with what it answers, an error included, and the relations and
  counts over the database the request reads from.
\<close>

section \<open>Fields\<close>

text \<open>An identifier is shown as a text, an absent value as null, a parsed status or its error.\<close>

abbreviation idField :: "int \<Rightarrow> thrown + js" where
  "idField i \<equiv> Inr (JStr (showInt i))"

definition nullableText :: "string option \<Rightarrow> js" where
  "nullableText v = (case v of None \<Rightarrow> JNull | Some t \<Rightarrow> JStr t)"

definition instantField :: "instant \<Rightarrow> thrown + js" where
  "instantField t = rbind (toISOString t) (\<lambda>text. Inr (JStr text))"

definition userFields :: "user_row \<Rightarrow> (string \<times> (thrown + js)) list" where
  "userFields user = [(''id'', idField (u_id user)), (''email'', Inr (JStr (u_email user))),
     (''name'', Inr (nullableText (u_name user))),
     (''status'', rbind (userStatusField user) (\<lambda>st. Inr (JStr (statusText st)))),
     (''createdAt'', instantField (u_createdAt user))]"

definition postFields :: "post_row \<Rightarrow> (string \<times> (thrown + js)) list" where
  "postFields post = [(''id'', idField (po_id post)), (''title'', Inr (JStr (po_title post))),
     (''content'', Inr (nullableText (po_content post))), (''published'', Inr (JBool (po_published post))),
     (''createdAt'', instantField (po_createdAt post))]"



definition spendFields :: "spend_row \<Rightarrow> (string \<times> (thrown + js)) list" where
  "spendFields sp = [(''id'', idField (sp_id sp)), (''paidAmount'', Inr (intField (sp_paidAmount sp))),
     (''freeAmount'', Inr (intField (sp_freeAmount sp))), (''totalAmount'', Inr (intField (sp_totalAmount sp))),
     (''reason'', Inr (JStr (sp_reason sp))), (''createdAt'', instantField (sp_createdAt sp))]"

section \<open>Relations and counts\<close>

text \<open>The rows a relation names; the posts of a user come in any order, so they are a multiset.\<close>

definition postsOfUser :: "user_row \<Rightarrow> db \<Rightarrow> post_row multiset" where
  "postsOfUser user s = mset (filter (\<lambda>p. po_authorId p = u_id user) (posts s))"

definition pointBalanceOfUser :: "user_row \<Rightarrow> db \<Rightarrow> balance_row option" where
  "pointBalanceOfUser user s = findRow (\<lambda>b. b_userId b = u_id user) (pointBalances s)"

definition ownerOf :: "int \<Rightarrow> db \<Rightarrow> user_row option" where
  "ownerOf userId s = findRow (\<lambda>u. u_id u = userId) (users s)"

definition postCount :: "user_row \<Rightarrow> db \<Rightarrow> int" where
  "postCount user s = int (size (postsOfUser user s))"

definition publishedPostCount :: "user_row \<Rightarrow> db \<Rightarrow> int" where
  "publishedPostCount user s = int (size (filter_mset po_published (postsOfUser user s)))"

section \<open>What a client sees adds up\<close>








end
