(* ===== verification/SchemaBuilder.thy ===== *)
theory SchemaBuilder
  imports UserModule PointCore "HOL-Library.Multiset"
begin

text \<open>
  How the GraphQL schema is put together: the calls every \<open>registerXxxModule\<close> makes on the builder
  (\<open>src/graphql/builder.ts\<close>, \<open>src/graphql/schema.ts\<close> and the \<open>schemas\<close> of the modules). The
  builder is a library, so a registration is the list of its calls, in order; the resolvers it
  hands over are the fields modelled in \<open>GraphqlContext\<close>, \<open>CommerceFields\<close> and \<open>ObjectTypes\<close>.
  Shown is that the order of the modules is free, and that together they make exactly the schema
  committed as a snapshot.
\<close>

section \<open>Calls of the builder\<close>

text \<open>
  A type is named by its text (a scalar, or an object of the database looked up when the schema
  is made), or by the reference an earlier call returned, which is a variable of the program.
\<close>

datatype type_ref = Named string | Reference string

record arg_spec =
  ag_name :: string
  ag_type :: type_ref
  ag_required :: bool

record field_spec =
  fs_name :: string
  fs_type :: type_ref
  fs_list :: bool
  fs_nullable :: "bool option"
  fs_count :: bool
  fs_args :: "arg_spec list"

datatype builder_call =
    QueryType "field_spec list"
  | MutationType
  | EnumType string "string list"
  | InputType string "arg_spec list"
  | PrismaObject string "field_spec list"
  | PrismaObjectField string field_spec
  | ObjectRef string
  | Implement string "field_spec list"
  | QueryField field_spec
  | MutationField field_spec

text \<open>\<open>t.exposeInt\<close>, \<open>t.string\<close> and the like; \<open>t.field\<close>, \<open>t.prismaField\<close>; \<open>t.arg\<close> and \<open>t.int\<close> of an input.\<close>

definition plainField :: "string \<Rightarrow> type_ref \<Rightarrow> field_spec" where
  "plainField name t = \<lparr>fs_name = name, fs_type = t, fs_list = False, fs_nullable = None, fs_count = False, fs_args = []\<rparr>"

definition nullableField :: "string \<Rightarrow> type_ref \<Rightarrow> field_spec" where
  "nullableField name t = (plainField name t)\<lparr>fs_nullable := Some True\<rparr>"

definition listField :: "string \<Rightarrow> type_ref \<Rightarrow> field_spec" where
  "listField name t = (plainField name t)\<lparr>fs_list := True\<rparr>"

definition countField :: "string \<Rightarrow> field_spec" where
  "countField name = (plainField name (Named ''Int''))\<lparr>fs_count := True\<rparr>"

definition withArgs :: "field_spec \<Rightarrow> arg_spec list \<Rightarrow> field_spec" where
  "withArgs f args = f\<lparr>fs_args := args\<rparr>"

definition required :: "string \<Rightarrow> type_ref \<Rightarrow> arg_spec" where
  "required name t = \<lparr>ag_name = name, ag_type = t, ag_required = True\<rparr>"

definition optional :: "string \<Rightarrow> type_ref \<Rightarrow> arg_spec" where
  "optional name t = \<lparr>ag_name = name, ag_type = t, ag_required = False\<rparr>"

abbreviation "ID' \<equiv> Named ''ID''"
abbreviation "Int' \<equiv> Named ''Int''"
abbreviation "String' \<equiv> Named ''String''"
abbreviation "Boolean' \<equiv> Named ''Boolean''"

text \<open>\<open>t.relation\<close>: the target and whether it is a list, as the models of \<open>prisma/schema.prisma\<close> declare it.\<close>

definition manyRelation :: "string \<Rightarrow> string \<Rightarrow> field_spec" where
  "manyRelation name model = listField name (Named model)"

definition oneRelation :: "string \<Rightarrow> string \<Rightarrow> field_spec" where
  "oneRelation name model = plainField name (Named model)"

section \<open>The registrations\<close>

definition builderCalls :: "builder_call list" where
  "builderCalls = [QueryType [plainField ''health'' String'], MutationType]"

definition registerUserTypes :: "builder_call list" where
  "registerUserTypes = [
     EnumType ''UserStatus'' USER_STATUSES,
     PrismaObject ''User'' [plainField ''id'' ID', plainField ''email'' String', nullableField ''name'' String',
       plainField ''status'' (Reference ''UserStatus''), plainField ''createdAt'' String',
       manyRelation ''posts'' ''Post'', (oneRelation ''pointBalance'' ''PointBalance'')\<lparr>fs_nullable := Some True\<rparr>]]"

definition registerUserQueries :: "builder_call list" where
  "registerUserQueries = [
     QueryField (withArgs (nullableField ''user'' (Named ''User'')) [required ''id'' Int']),
     QueryField (listField ''users'' (Named ''User''))]"

definition registerUserMutations :: "builder_call list" where
  "registerUserMutations = [
     MutationField (withArgs (plainField ''changeUserStatus'' (Named ''User''))
       [required ''id'' Int', required ''status'' (Reference ''UserStatus'')])]"

definition registerPostTypes :: "builder_call list" where
  "registerPostTypes = [
     PrismaObject ''Post'' [plainField ''id'' ID', plainField ''title'' String', nullableField ''content'' String',
       plainField ''published'' Boolean', plainField ''createdAt'' String', oneRelation ''author'' ''User''],
     PrismaObjectField ''User'' (countField ''postCount''),
     PrismaObjectField ''User'' (countField ''publishedPostCount'')]"

definition registerPostQueries :: "builder_call list" where
  "registerPostQueries = [
     QueryField (withArgs (nullableField ''post'' (Named ''Post'')) [required ''id'' Int']),
     QueryField (withArgs (listField ''posts'' (Named ''Post'')) [optional ''onlyPublished'' Boolean'])]"

definition registerPostMutations :: "builder_call list" where
  "registerPostMutations = [
     InputType ''CreatePostInput'' [required ''title'' String', optional ''content'' String', required ''authorId'' Int'],
     MutationField (withArgs (plainField ''createPost'' (Named ''Post'')) [required ''input'' (Reference ''CreatePostInput'')]),
     MutationField (withArgs (plainField ''publishPost'' (Named ''Post'')) [required ''id'' Int'])]"

definition registerPointTypes :: "builder_call list" where
  "registerPointTypes = [
     EnumType ''PointChargeState'' POINT_CHARGE_STATES,
     PrismaObject ''PointBalance'' [plainField ''paidAmount'' Int', plainField ''freeAmount'' Int',
       plainField ''totalAmount'' Int', oneRelation ''user'' ''User''],
     PrismaObject ''PointCharge'' [plainField ''id'' ID', plainField ''state'' (Reference ''PointChargeState''),
       plainField ''paidAmount'' Int', plainField ''freeAmount'' Int', plainField ''unspentPaidAmount'' Int',
       plainField ''unspentFreeAmount'' Int', plainField ''chargedAt'' String', oneRelation ''user'' ''User''],
     PrismaObject ''PointSpend'' [plainField ''id'' ID', plainField ''paidAmount'' Int', plainField ''freeAmount'' Int',
       plainField ''totalAmount'' Int', plainField ''reason'' String', plainField ''createdAt'' String',
       oneRelation ''user'' ''User'']]"

definition registerPointQueries :: "builder_call list" where
  "registerPointQueries = [
     QueryField (withArgs (nullableField ''pointBalance'' (Named ''PointBalance'')) [required ''userId'' Int']),
     QueryField (withArgs (listField ''pointCharges'' (Named ''PointCharge'')) [required ''userId'' Int']),
     QueryField (withArgs (listField ''pointSpends'' (Named ''PointSpend'')) [required ''userId'' Int'])]"

definition registerPointMutations :: "builder_call list" where
  "registerPointMutations = [
     InputType ''ChargePointInput'' [required ''userId'' Int', required ''paidAmount'' Int', required ''freeAmount'' Int'],
     InputType ''SpendPointInput'' [required ''userId'' Int', required ''amount'' Int', required ''reason'' String'],
     InputType ''TransferPointInput'' [required ''fromUserId'' Int', required ''toUserId'' Int', required ''amount'' Int'],
     MutationField (withArgs (plainField ''chargePoint'' (Named ''PointCharge'')) [required ''input'' (Reference ''ChargePointInput'')]),
     MutationField (withArgs (plainField ''spendPoint'' (Named ''PointSpend'')) [required ''input'' (Reference ''SpendPointInput'')]),
     MutationField (withArgs (plainField ''transferPoint'' (Named ''PointSpend'')) [required ''input'' (Reference ''TransferPointInput'')])]"

definition registerCommissionCheckoutMutations :: "builder_call list" where
  "registerCommissionCheckoutMutations = [
     InputType ''CommissionCheckoutInput'' [required ''orderPaymentId'' Int', required ''actorId'' Int', required ''commandKey'' String'],
     ObjectRef ''CommissionCheckoutResult'',
     Implement ''CommissionCheckoutResult'' [plainField ''orderId'' Int', plainField ''orderPaymentId'' Int',
       plainField ''contractId'' Int', plainField ''reservationId'' Int', plainField ''referenceId'' String',
       plainField ''commandId'' String', plainField ''operationId'' String', plainField ''replayed'' Boolean'],
     MutationField (withArgs (plainField ''checkoutCommission'' (Reference ''CommissionCheckoutResult''))
       [required ''input'' (Reference ''CommissionCheckoutInput'')])]"

definition registerCommissionSettlementMutations :: "builder_call list" where
  "registerCommissionSettlementMutations = [
     InputType ''CommissionSettlementInput'' [required ''contractId'' Int', required ''actorId'' Int', required ''commandKey'' String'],
     ObjectRef ''CommissionSettlementResult'',
     Implement ''CommissionSettlementResult'' [plainField ''contractId'' Int', plainField ''reservationId'' Int',
       plainField ''incomeLotId'' Int', plainField ''referenceId'' String', plainField ''commandId'' String',
       plainField ''operationId'' String', plainField ''replayed'' Boolean'],
     MutationField (withArgs (plainField ''settleCommission'' (Reference ''CommissionSettlementResult''))
       [required ''input'' (Reference ''CommissionSettlementInput'')])]"

definition registerIncomeWithdrawalMutations :: "builder_call list" where
  "registerIncomeWithdrawalMutations = [
     InputType ''IncomeWithdrawalInput'' [required ''actorId'' Int', required ''amount'' Int', required ''commandKey'' String'],
     ObjectRef ''IncomeWithdrawalSource'',
     Implement ''IncomeWithdrawalSource'' [plainField ''commissionReferenceId'' String', plainField ''amount'' Int'],
     ObjectRef ''IncomeWithdrawalResult'',
     Implement ''IncomeWithdrawalResult'' [plainField ''withdrawalId'' String', plainField ''reservationId'' Int',
       plainField ''referenceId'' String', plainField ''commandId'' String', plainField ''operationId'' String',
       plainField ''replayed'' Boolean', listField ''sources'' (Reference ''IncomeWithdrawalSource'')],
     MutationField (withArgs (plainField ''requestIncomeWithdrawal'' (Reference ''IncomeWithdrawalResult''))
       [required ''input'' (Reference ''IncomeWithdrawalInput'')])]"

definition registerOnboardingMutations :: "builder_call list" where
  "registerOnboardingMutations = [
     InputType ''SignUpInput'' [required ''email'' String', optional ''name'' String'],
     MutationField (withArgs (plainField ''signUp'' (Named ''User'')) [required ''input'' (Reference ''SignUpInput'')])]"

definition registerPostSearchQueries :: "builder_call list" where
  "registerPostSearchQueries = [
     ObjectRef ''SearchPostsResult'',
     Implement ''SearchPostsResult'' [plainField ''total'' Int', listField ''hits'' (Named ''Post'')],
     QueryField (withArgs (plainField ''searchPosts'' (Reference ''SearchPostsResult''))
       [required ''term'' String', optional ''limit'' Int'])]"

definition registerUserModule :: "builder_call list" where
  "registerUserModule = registerUserTypes @ registerUserQueries @ registerUserMutations"

definition registerPostModule :: "builder_call list" where
  "registerPostModule = registerPostTypes @ registerPostQueries @ registerPostMutations"

definition registerPointModule :: "builder_call list" where
  "registerPointModule = registerPointTypes @ registerPointQueries @ registerPointMutations"

definition registerCommissionCheckoutModule :: "builder_call list" where
  "registerCommissionCheckoutModule = registerCommissionCheckoutMutations"

definition registerCommissionSettlementModule :: "builder_call list" where
  "registerCommissionSettlementModule = registerCommissionSettlementMutations"

definition registerIncomeWithdrawalModule :: "builder_call list" where
  "registerIncomeWithdrawalModule = registerIncomeWithdrawalMutations"

definition registerOnboardingModule :: "builder_call list" where
  "registerOnboardingModule = registerOnboardingMutations"

definition registerSearchModule :: "builder_call list" where
  "registerSearchModule = registerPostSearchQueries"

datatype schema_module = ModuleUser | ModulePost | ModulePoint | ModuleCommissionCheckout
  | ModuleCommissionSettlement | ModuleIncomeWithdrawal | ModuleOnboarding | ModuleSearch

text \<open>What \<open>schema.ts\<close> calls for a module, and the modules it calls it for.\<close>

fun registerModule :: "schema_module \<Rightarrow> builder_call list" where
  "registerModule ModuleUser = registerUserModule"
| "registerModule ModulePost = registerPostModule"
| "registerModule ModulePoint = registerPointModule"
| "registerModule ModuleCommissionCheckout = registerCommissionCheckoutModule"
| "registerModule ModuleCommissionSettlement = registerCommissionSettlementModule"
| "registerModule ModuleIncomeWithdrawal = registerIncomeWithdrawalModule"
| "registerModule ModuleOnboarding = registerOnboardingModule"
| "registerModule ModuleSearch = registerSearchModule"

definition schemaModules :: "schema_module list" where
  "schemaModules = [ModuleUser, ModulePost, ModulePoint, ModuleCommissionCheckout,
     ModuleCommissionSettlement, ModuleIncomeWithdrawal, ModuleOnboarding, ModuleSearch]"

definition schemaCalls :: "schema_module list \<Rightarrow> builder_call list" where
  "schemaCalls modules = builderCalls @ concat (map registerModule modules)"

section \<open>References\<close>

text \<open>
  A reference is a variable that the call creating it assigns. Reading it earlier finds it
  unassigned, so the calls are in order when each names references made before it.
\<close>

fun referencesIn :: "type_ref \<Rightarrow> string list" where
  "referencesIn (Named t) = []"
| "referencesIn (Reference r) = [r]"

definition argReferences :: "arg_spec list \<Rightarrow> string list" where
  "argReferences args = concat (map (\<lambda>a. referencesIn (ag_type a)) args)"

definition fieldReferences :: "field_spec \<Rightarrow> string list" where
  "fieldReferences f = referencesIn (fs_type f) @ argReferences (fs_args f)"

fun readReferences :: "builder_call \<Rightarrow> string list" where
  "readReferences (QueryType fs) = concat (map fieldReferences fs)"
| "readReferences (InputType name args) = argReferences args"
| "readReferences (PrismaObject name fs) = concat (map fieldReferences fs)"
| "readReferences (PrismaObjectField owner f) = fieldReferences f"
| "readReferences (Implement name fs) = name # concat (map fieldReferences fs)"
| "readReferences (QueryField f) = fieldReferences f"
| "readReferences (MutationField f) = fieldReferences f"
| "readReferences _ = []"

fun madeReferences :: "builder_call \<Rightarrow> string list" where
  "madeReferences (EnumType name values) = [name]"
| "madeReferences (InputType name args) = [name]"
| "madeReferences (ObjectRef name) = [name]"
| "madeReferences _ = []"

fun inOrder :: "string list \<Rightarrow> builder_call list \<Rightarrow> bool" where
  "inOrder made [] = True"
| "inOrder made (c # cs) \<longleftrightarrow> set (readReferences c) \<subseteq> set made \<and> inOrder (madeReferences c @ made) cs"

text \<open>The root types exist before a root field is added to them.\<close>

fun rootsFirst :: "bool \<Rightarrow> bool \<Rightarrow> builder_call list \<Rightarrow> bool" where
  "rootsFirst q m [] = True"
| "rootsFirst q m (QueryType fs # cs) = rootsFirst True m cs"
| "rootsFirst q m (MutationType # cs) = rootsFirst q True cs"
| "rootsFirst q m (QueryField f # cs) \<longleftrightarrow> q \<and> rootsFirst q m cs"
| "rootsFirst q m (MutationField f # cs) \<longleftrightarrow> m \<and> rootsFirst q m cs"
| "rootsFirst q m (_ # cs) = rootsFirst q m cs"

section \<open>The schema\<close>

text \<open>
  What the library makes of the options of a field, as documented for the version in use: an
  output field may be null unless it says otherwise, the items of a list and a count may not,
  and an argument or input field may be null unless it is required.
\<close>

record pothos =
  po_nullable :: "bool option \<Rightarrow> bool"
  po_nullableItems :: bool
  po_nullableCount :: bool

definition pothos_documented :: "pothos \<Rightarrow> bool" where
  "pothos_documented po \<longleftrightarrow> po_nullable po None \<and> (\<forall>b. po_nullable po (Some b) = b) \<and>
     \<not> po_nullableItems po \<and> \<not> po_nullableCount po"

fun typeName :: "type_ref \<Rightarrow> string" where
  "typeName (Named t) = t"
| "typeName (Reference r) = r"

definition nonNull :: "bool \<Rightarrow> string \<Rightarrow> string" where
  "nonNull nullable t = (if nullable then t else t @ ''!'')"

definition fieldType :: "pothos \<Rightarrow> field_spec \<Rightarrow> string" where
  "fieldType po f = nonNull (if fs_count f then po_nullableCount po else po_nullable po (fs_nullable f))
     (if fs_list f then ''['' @ nonNull (po_nullableItems po) (typeName (fs_type f)) @ '']'' else typeName (fs_type f))"

definition argType :: "arg_spec \<Rightarrow> string" where
  "argType a = nonNull (\<not> ag_required a) (typeName (ag_type a))"

text \<open>The lines of a schema, whatever the order it is printed in; descriptions are left out.\<close>

datatype sdl_line =
    FieldLine string string string
  | ArgumentLine string string string string
  | InputLine string string string
  | ValueLine string string

definition fieldLines :: "pothos \<Rightarrow> string \<Rightarrow> field_spec \<Rightarrow> sdl_line list" where
  "fieldLines po owner f = FieldLine owner (fs_name f) (fieldType po f) #
     map (\<lambda>a. ArgumentLine owner (fs_name f) (ag_name a) (argType a)) (fs_args f)"

fun callLines :: "pothos \<Rightarrow> builder_call \<Rightarrow> sdl_line list" where
  "callLines po (QueryType fs) = concat (map (fieldLines po ''Query'') fs)"
| "callLines po MutationType = []"
| "callLines po (EnumType name values) = map (ValueLine name) values"
| "callLines po (InputType name args) = map (\<lambda>a. InputLine name (ag_name a) (argType a)) args"
| "callLines po (PrismaObject name fs) = concat (map (fieldLines po name) fs)"
| "callLines po (PrismaObjectField owner f) = fieldLines po owner f"
| "callLines po (ObjectRef name) = []"
| "callLines po (Implement name fs) = concat (map (fieldLines po name) fs)"
| "callLines po (QueryField f) = fieldLines po ''Query'' f"
| "callLines po (MutationField f) = fieldLines po ''Mutation'' f"

definition schemaLines :: "pothos \<Rightarrow> builder_call list \<Rightarrow> sdl_line list" where
  "schemaLines po calls = concat (map (callLines po) calls)"

text \<open>The snapshot committed beside the test of the schema.\<close>

definition committedSchema :: "sdl_line list" where
  "committedSchema = [
     InputLine ''ChargePointInput'' ''freeAmount'' ''Int!'',
     InputLine ''ChargePointInput'' ''paidAmount'' ''Int!'',
     InputLine ''ChargePointInput'' ''userId'' ''Int!'',
     InputLine ''CommissionCheckoutInput'' ''actorId'' ''Int!'',
     InputLine ''CommissionCheckoutInput'' ''commandKey'' ''String!'',
     InputLine ''CommissionCheckoutInput'' ''orderPaymentId'' ''Int!'',
     FieldLine ''CommissionCheckoutResult'' ''commandId'' ''String'',
     FieldLine ''CommissionCheckoutResult'' ''contractId'' ''Int'',
     FieldLine ''CommissionCheckoutResult'' ''operationId'' ''String'',
     FieldLine ''CommissionCheckoutResult'' ''orderId'' ''Int'',
     FieldLine ''CommissionCheckoutResult'' ''orderPaymentId'' ''Int'',
     FieldLine ''CommissionCheckoutResult'' ''referenceId'' ''String'',
     FieldLine ''CommissionCheckoutResult'' ''replayed'' ''Boolean'',
     FieldLine ''CommissionCheckoutResult'' ''reservationId'' ''Int'',
     InputLine ''CommissionSettlementInput'' ''actorId'' ''Int!'',
     InputLine ''CommissionSettlementInput'' ''commandKey'' ''String!'',
     InputLine ''CommissionSettlementInput'' ''contractId'' ''Int!'',
     FieldLine ''CommissionSettlementResult'' ''commandId'' ''String'',
     FieldLine ''CommissionSettlementResult'' ''contractId'' ''Int'',
     FieldLine ''CommissionSettlementResult'' ''incomeLotId'' ''Int'',
     FieldLine ''CommissionSettlementResult'' ''operationId'' ''String'',
     FieldLine ''CommissionSettlementResult'' ''referenceId'' ''String'',
     FieldLine ''CommissionSettlementResult'' ''replayed'' ''Boolean'',
     FieldLine ''CommissionSettlementResult'' ''reservationId'' ''Int'',
     InputLine ''CreatePostInput'' ''authorId'' ''Int!'',
     InputLine ''CreatePostInput'' ''content'' ''String'',
     InputLine ''CreatePostInput'' ''title'' ''String!'',
     InputLine ''IncomeWithdrawalInput'' ''actorId'' ''Int!'',
     InputLine ''IncomeWithdrawalInput'' ''amount'' ''Int!'',
     InputLine ''IncomeWithdrawalInput'' ''commandKey'' ''String!'',
     FieldLine ''IncomeWithdrawalResult'' ''commandId'' ''String'',
     FieldLine ''IncomeWithdrawalResult'' ''operationId'' ''String'',
     FieldLine ''IncomeWithdrawalResult'' ''referenceId'' ''String'',
     FieldLine ''IncomeWithdrawalResult'' ''replayed'' ''Boolean'',
     FieldLine ''IncomeWithdrawalResult'' ''reservationId'' ''Int'',
     FieldLine ''IncomeWithdrawalResult'' ''sources'' ''[IncomeWithdrawalSource!]'',
     FieldLine ''IncomeWithdrawalResult'' ''withdrawalId'' ''String'',
     FieldLine ''IncomeWithdrawalSource'' ''amount'' ''Int'',
     FieldLine ''IncomeWithdrawalSource'' ''commissionReferenceId'' ''String'',
     FieldLine ''Mutation'' ''changeUserStatus'' ''User'',
     ArgumentLine ''Mutation'' ''changeUserStatus'' ''id'' ''Int!'',
     ArgumentLine ''Mutation'' ''changeUserStatus'' ''status'' ''UserStatus!'',
     FieldLine ''Mutation'' ''chargePoint'' ''PointCharge'',
     ArgumentLine ''Mutation'' ''chargePoint'' ''input'' ''ChargePointInput!'',
     FieldLine ''Mutation'' ''checkoutCommission'' ''CommissionCheckoutResult'',
     ArgumentLine ''Mutation'' ''checkoutCommission'' ''input'' ''CommissionCheckoutInput!'',
     FieldLine ''Mutation'' ''createPost'' ''Post'',
     ArgumentLine ''Mutation'' ''createPost'' ''input'' ''CreatePostInput!'',
     FieldLine ''Mutation'' ''publishPost'' ''Post'',
     ArgumentLine ''Mutation'' ''publishPost'' ''id'' ''Int!'',
     FieldLine ''Mutation'' ''requestIncomeWithdrawal'' ''IncomeWithdrawalResult'',
     ArgumentLine ''Mutation'' ''requestIncomeWithdrawal'' ''input'' ''IncomeWithdrawalInput!'',
     FieldLine ''Mutation'' ''settleCommission'' ''CommissionSettlementResult'',
     ArgumentLine ''Mutation'' ''settleCommission'' ''input'' ''CommissionSettlementInput!'',
     FieldLine ''Mutation'' ''signUp'' ''User'',
     ArgumentLine ''Mutation'' ''signUp'' ''input'' ''SignUpInput!'',
     FieldLine ''Mutation'' ''spendPoint'' ''PointSpend'',
     ArgumentLine ''Mutation'' ''spendPoint'' ''input'' ''SpendPointInput!'',
     FieldLine ''Mutation'' ''transferPoint'' ''PointSpend'',
     ArgumentLine ''Mutation'' ''transferPoint'' ''input'' ''TransferPointInput!'',
     FieldLine ''PointBalance'' ''freeAmount'' ''Int'',
     FieldLine ''PointBalance'' ''paidAmount'' ''Int'',
     FieldLine ''PointBalance'' ''totalAmount'' ''Int'',
     FieldLine ''PointBalance'' ''user'' ''User'',
     FieldLine ''PointCharge'' ''chargedAt'' ''String'',
     FieldLine ''PointCharge'' ''freeAmount'' ''Int'',
     FieldLine ''PointCharge'' ''id'' ''ID'',
     FieldLine ''PointCharge'' ''paidAmount'' ''Int'',
     FieldLine ''PointCharge'' ''state'' ''PointChargeState'',
     FieldLine ''PointCharge'' ''unspentFreeAmount'' ''Int'',
     FieldLine ''PointCharge'' ''unspentPaidAmount'' ''Int'',
     FieldLine ''PointCharge'' ''user'' ''User'',
     ValueLine ''PointChargeState'' ''CONSUMED'',
     ValueLine ''PointChargeState'' ''EXPIRED'',
     ValueLine ''PointChargeState'' ''USABLE'',
     FieldLine ''PointSpend'' ''createdAt'' ''String'',
     FieldLine ''PointSpend'' ''freeAmount'' ''Int'',
     FieldLine ''PointSpend'' ''id'' ''ID'',
     FieldLine ''PointSpend'' ''paidAmount'' ''Int'',
     FieldLine ''PointSpend'' ''reason'' ''String'',
     FieldLine ''PointSpend'' ''totalAmount'' ''Int'',
     FieldLine ''PointSpend'' ''user'' ''User'',
     FieldLine ''Post'' ''author'' ''User'',
     FieldLine ''Post'' ''content'' ''String'',
     FieldLine ''Post'' ''createdAt'' ''String'',
     FieldLine ''Post'' ''id'' ''ID'',
     FieldLine ''Post'' ''published'' ''Boolean'',
     FieldLine ''Post'' ''title'' ''String'',
     FieldLine ''Query'' ''health'' ''String'',
     FieldLine ''Query'' ''pointBalance'' ''PointBalance'',
     ArgumentLine ''Query'' ''pointBalance'' ''userId'' ''Int!'',
     FieldLine ''Query'' ''pointCharges'' ''[PointCharge!]'',
     ArgumentLine ''Query'' ''pointCharges'' ''userId'' ''Int!'',
     FieldLine ''Query'' ''pointSpends'' ''[PointSpend!]'',
     ArgumentLine ''Query'' ''pointSpends'' ''userId'' ''Int!'',
     FieldLine ''Query'' ''post'' ''Post'',
     ArgumentLine ''Query'' ''post'' ''id'' ''Int!'',
     FieldLine ''Query'' ''posts'' ''[Post!]'',
     ArgumentLine ''Query'' ''posts'' ''onlyPublished'' ''Boolean'',
     FieldLine ''Query'' ''searchPosts'' ''SearchPostsResult'',
     ArgumentLine ''Query'' ''searchPosts'' ''limit'' ''Int'',
     ArgumentLine ''Query'' ''searchPosts'' ''term'' ''String!'',
     FieldLine ''Query'' ''user'' ''User'',
     ArgumentLine ''Query'' ''user'' ''id'' ''Int!'',
     FieldLine ''Query'' ''users'' ''[User!]'',
     FieldLine ''SearchPostsResult'' ''hits'' ''[Post!]'',
     FieldLine ''SearchPostsResult'' ''total'' ''Int'',
     InputLine ''SignUpInput'' ''email'' ''String!'',
     InputLine ''SignUpInput'' ''name'' ''String'',
     InputLine ''SpendPointInput'' ''amount'' ''Int!'',
     InputLine ''SpendPointInput'' ''reason'' ''String!'',
     InputLine ''SpendPointInput'' ''userId'' ''Int!'',
     InputLine ''TransferPointInput'' ''amount'' ''Int!'',
     InputLine ''TransferPointInput'' ''fromUserId'' ''Int!'',
     InputLine ''TransferPointInput'' ''toUserId'' ''Int!'',
     FieldLine ''User'' ''createdAt'' ''String'',
     FieldLine ''User'' ''email'' ''String'',
     FieldLine ''User'' ''id'' ''ID'',
     FieldLine ''User'' ''name'' ''String'',
     FieldLine ''User'' ''pointBalance'' ''PointBalance'',
     FieldLine ''User'' ''postCount'' ''Int!'',
     FieldLine ''User'' ''posts'' ''[Post!]'',
     FieldLine ''User'' ''publishedPostCount'' ''Int!'',
     FieldLine ''User'' ''status'' ''UserStatus'',
     ValueLine ''UserStatus'' ''ACTIVE'',
     ValueLine ''UserStatus'' ''DEACTIVATED'',
     ValueLine ''UserStatus'' ''SUSPENDED'']"

section \<open>Any order of the modules\<close>

lemma inOrder_mono: "inOrder made cs \<Longrightarrow> set made \<subseteq> set made' \<Longrightarrow> inOrder made' cs"
proof (induction cs arbitrary: made made')
  case (Cons c cs)
  have "inOrder (madeReferences c @ made') cs"
    by (rule Cons.IH [of "madeReferences c @ made"]) (use Cons.prems in auto)
  then show ?case using Cons.prems by auto
qed simp

lemma inOrder_append: "inOrder made xs \<Longrightarrow> inOrder made ys \<Longrightarrow> inOrder made (xs @ ys)"
proof (induction xs arbitrary: made)
  case (Cons c xs)
  have "inOrder (madeReferences c @ made) ys" by (rule inOrder_mono [OF Cons.prems(2)]) simp
  with Cons show ?case by simp
qed simp

lemma every_module: "list_all p schemaModules \<Longrightarrow> p m"
  by (cases m) (simp_all add: schemaModules_def)

lemma module_inOrder: "inOrder [] (registerModule m)"
  by (rule every_module) code_simp

lemma modules_inOrder: "inOrder [] (concat (map registerModule modules))"
  by (induction modules) (simp_all add: inOrder_append module_inOrder)

lemma module_rootsFirst: "rootsFirst True True (registerModule m)"
  by (rule every_module) code_simp

lemma rootsFirst_append: "rootsFirst True True xs \<Longrightarrow> rootsFirst True True ys \<Longrightarrow> rootsFirst True True (xs @ ys)"
proof (induction xs)
  case (Cons c xs)
  then show ?case by (cases c) simp_all
qed simp

lemma modules_rootsFirst: "rootsFirst True True (concat (map registerModule modules))"
  by (induction modules) (simp_all add: rootsFirst_append module_rootsFirst)

text \<open>Within the user module it matters: its mutation reads the enumeration its types create.\<close>

lemma user_types_first: "\<not> inOrder [] (registerUserMutations @ registerUserTypes)"
  by code_simp

definition documentedPothos :: pothos where
  "documentedPothos = \<lparr>po_nullable = (\<lambda>n. n \<noteq> Some False), po_nullableItems = False, po_nullableCount = False\<rparr>"

lemma documented_lines: "pothos_documented po \<Longrightarrow> schemaLines po calls = schemaLines documentedPothos calls"
proof -
  assume d: "pothos_documented po"
  have n: "po_nullable po n = (n \<noteq> Some False)" for n using d by (cases n) (auto simp: pothos_documented_def)
  have f: "fieldType po f = fieldType documentedPothos f" for f
    using d n by (simp add: fieldType_def documentedPothos_def pothos_documented_def)
  have "callLines po c = callLines documentedPothos c" for c
    by (cases c) (simp_all add: fieldLines_def [abs_def] f)
  then have "callLines po = callLines documentedPothos" by blast
  then show ?thesis by (simp add: schemaLines_def)
qed

lemmas registration_defs = schemaLines_def schemaCalls_def schemaModules_def builderCalls_def registerUserModule_def
  registerPostModule_def registerPointModule_def registerCommissionCheckoutModule_def registerCommissionSettlementModule_def
  registerIncomeWithdrawalModule_def registerOnboardingModule_def registerSearchModule_def registerUserTypes_def
  registerUserQueries_def registerUserMutations_def registerPostTypes_def registerPostQueries_def registerPostMutations_def
  registerPointTypes_def registerPointQueries_def registerPointMutations_def registerCommissionCheckoutMutations_def
  registerCommissionSettlementMutations_def registerIncomeWithdrawalMutations_def registerOnboardingMutations_def
  registerPostSearchQueries_def USER_STATUSES_def POINT_CHARGE_STATES_def plainField_def nullableField_def listField_def
  countField_def withArgs_def required_def optional_def manyRelation_def oneRelation_def
  fieldLines_def fieldType_def argType_def nonNull_def documentedPothos_def

text \<open>Where each line that is registered stands in the snapshot.\<close>

definition snapshotOrder :: "nat list" where
  "snapshotOrder = [
     88, 124, 126, 125, 117, 116, 118, 123, 115, 121, 119, 102, 103, 104, 39, 40, 41, 85, 87, 83, 86, 84, 82, 120,
     122, 95, 96, 97, 98, 26, 25, 24, 46, 47, 48, 49, 74, 72, 73, 61, 60, 62, 63, 66, 68, 67, 65, 70, 69, 64, 71,
     77, 78, 76, 80, 79, 75, 81, 89, 90, 91, 92, 93, 94, 2, 1, 0, 111, 109, 110, 113, 114, 112, 42, 43, 56, 57, 58,
     59, 5, 3, 4, 9, 10, 7, 13, 11, 6, 8, 12, 44, 45, 16, 14, 15, 18, 23, 19, 21, 17, 20, 22, 52, 53, 27, 28, 29,
     38, 37, 36, 34, 32, 30, 31, 33, 35, 50, 51, 107, 108, 54, 55, 106, 105, 99, 101, 100]"

lemma registered_lines:
  "schemaLines documentedPothos (schemaCalls schemaModules) = map (\<lambda>i. committedSchema ! i) snapshotOrder"
  by (simp add: registration_defs committedSchema_def snapshotOrder_def)

lemma committed: "mset (schemaLines documentedPothos (schemaCalls schemaModules)) = mset committedSchema"
proof -
  have "sort snapshotOrder = [0..<length committedSchema]" by code_simp
  then have "mset snapshotOrder = mset [0..<length committedSchema]" by (metis mset_sort)
  then have "mset (map (\<lambda>i. committedSchema ! i) snapshotOrder) = mset (map (\<lambda>i. committedSchema ! i) [0..<length committedSchema])"
    by simp
  then show ?thesis by (simp add: registered_lines map_nth)
qed

text \<open>A line that only one module contributes, and contributes once.\<close>

fun ownLine :: "schema_module \<Rightarrow> sdl_line" where
  "ownLine ModuleUser = FieldLine ''Query'' ''users'' ''[User!]''"
| "ownLine ModulePost = FieldLine ''Query'' ''posts'' ''[Post!]''"
| "ownLine ModulePoint = FieldLine ''Query'' ''pointCharges'' ''[PointCharge!]''"
| "ownLine ModuleCommissionCheckout = FieldLine ''Mutation'' ''checkoutCommission'' ''CommissionCheckoutResult''"
| "ownLine ModuleCommissionSettlement = FieldLine ''Mutation'' ''settleCommission'' ''CommissionSettlementResult''"
| "ownLine ModuleIncomeWithdrawal = FieldLine ''Mutation'' ''requestIncomeWithdrawal'' ''IncomeWithdrawalResult''"
| "ownLine ModuleOnboarding = FieldLine ''Mutation'' ''signUp'' ''User''"
| "ownLine ModuleSearch = FieldLine ''Query'' ''searchPosts'' ''SearchPostsResult''"

lemma own_line_count:
  "count_list (schemaLines documentedPothos (registerModule n)) (ownLine m) = (if n = m then 1 else 0)"
proof -
  have "list_all (\<lambda>m. list_all (\<lambda>n. count_list (schemaLines documentedPothos (registerModule n)) (ownLine m) =
      (if n = m then 1 else 0)) schemaModules) schemaModules" by code_simp
  from every_module [OF every_module [OF this]] show ?thesis .
qed

lemma schemaLines_modules:
  "schemaLines po (schemaCalls modules) =
     schemaLines po builderCalls @ concat (map (\<lambda>m. schemaLines po (registerModule m)) modules)"
  by (simp add: schemaLines_def schemaCalls_def) (induction modules; simp)

lemma own_lines:
  "count (mset (concat (map (\<lambda>m. schemaLines documentedPothos (registerModule m)) modules))) (ownLine m) =
     count (mset modules) m"
  by (induction modules) (simp_all add: own_line_count count_mset)

lemma lines_of_modules: "mset (concat (map f modules)) = (\<Sum>m \<in># mset modules. mset (f m))"
  by (induction modules) simp_all

text \<open>C34: the modules may be registered in any order: the root types come before the root fields and
  every reference is made before it is read, whatever modules are registered and in whatever
  order, and what is registered is line for line the schema committed as a snapshot exactly when
  each of the eight modules is registered once.
\<close>

theorem schema_is_the_committed_one:
  assumes "pothos_documented po"
  shows "inOrder [] (schemaCalls modules) \<and> rootsFirst False False (schemaCalls modules) \<and>
    (mset (schemaLines po (schemaCalls modules)) = mset committedSchema \<longleftrightarrow> mset modules = mset schemaModules)"
proof (intro conjI iffI)
  show "inOrder [] (schemaCalls modules)" "rootsFirst False False (schemaCalls modules)"
    using modules_inOrder modules_rootsFirst
    by (simp_all add: schemaCalls_def builderCalls_def fieldReferences_def argReferences_def plainField_def)
  let ?lines = "\<lambda>modules. mset (schemaLines documentedPothos (schemaCalls modules))"
  have lines: "mset (schemaLines po (schemaCalls modules)) = ?lines modules" using documented_lines [OF assms] by simp
  have parts: "?lines ms = mset (schemaLines documentedPothos builderCalls) +
      mset (concat (map (\<lambda>m. schemaLines documentedPothos (registerModule m)) ms))" for ms
    by (simp add: schemaLines_modules)
  show "mset modules = mset schemaModules" if "mset (schemaLines po (schemaCalls modules)) = mset committedSchema"
  proof (rule multiset_eqI)
    fix m
    from that have "?lines modules = ?lines schemaModules" by (simp add: lines committed)
    then show "count (mset modules) m = count (mset schemaModules) m"
      unfolding parts using own_lines [of _ m] by (metis add_left_imp_eq)
  qed
  show "mset (schemaLines po (schemaCalls modules)) = mset committedSchema" if "mset modules = mset schemaModules"
    unfolding lines committed [symmetric] parts lines_of_modules that ..
qed

theorem schema_is_the_committed_one_witness:
  "mset (schemaLines documentedPothos (schemaCalls (rev schemaModules))) = mset committedSchema \<and>
   mset (schemaLines documentedPothos (schemaCalls [ModuleUser, ModulePost])) \<noteq> mset committedSchema"
proof -
  have "pothos_documented documentedPothos" by (simp add: pothos_documented_def documentedPothos_def)
  note whole = schema_is_the_committed_one [OF this]
  have "mset [ModuleUser, ModulePost] \<noteq> mset schemaModules" by (auto simp: schemaModules_def dest: arg_cong [where f = size])
  then show ?thesis using whole [of "rev schemaModules"] whole [of "[ModuleUser, ModulePost]"] by simp
qed

end
