(* ===== verification/PathPattern.thy ===== *)
theory PathPattern
  imports Prelude
begin

text \<open>
  The path patterns of \<open>.dependency-cruiser.mjs\<close>. They are JavaScript regular expressions
  of a small kind: literal text, alternatives in parentheses, the group \<open>([^/]+)\<close>, the
  text \<open>$1\<close> that stands for what that group matched in the importing path, and the two
  anchors. A pattern is matched by backtracking, as \<open>RegExp.prototype.test\<close> does.
\<close>

section \<open>Patterns and their matcher\<close>

datatype rx =
    Chars string
  | Segment
  | FirstGroup
  | EndOfPath
  | Seq rx rx
  | Alt rx rx

datatype path_pattern = AtStart rx | Anywhere rx

fun inOrder :: "rx list \<Rightarrow> rx" where
  "inOrder [] = Chars []"
| "inOrder [r] = r"
| "inOrder (r # rs) = Seq r (inOrder rs)"

fun oneOf :: "rx list \<Rightarrow> rx" where
  "oneOf [] = Chars []"
| "oneOf [r] = r"
| "oneOf (r # rs) = Alt r (oneOf rs)"

text \<open>
  What is left of a text after a match at its start, every way of matching in the order in
  which they are tried, each with the text of the group so far. \<open>g\<close> is what \<open>$1\<close> stands
  for. The group is greedy: the longest run of characters other than a slash comes first.
\<close>

primrec after :: "string \<Rightarrow> rx \<Rightarrow> string option \<times> string \<Rightarrow> (string option \<times> string) list" where
  "after g (Chars w) = (\<lambda>(c, s). if prefix w s then [(c, drop (length w) s)] else [])"
| "after g Segment = (\<lambda>(c, s).
     map (\<lambda>n. (Some (take n s), drop n s)) (rev [1..<Suc (length (takeWhile (\<lambda>x. x \<noteq> CHR ''/'') s))]))"
| "after g FirstGroup = (\<lambda>(c, s). if prefix g s then [(c, drop (length g) s)] else [])"
| "after g EndOfPath = (\<lambda>(c, s). if s = [] then [(c, s)] else [])"
| "after g (Seq a b) = (\<lambda>cs. concat (map (after g b) (after g a cs)))"
| "after g (Alt a b) = (\<lambda>cs. after g a cs @ after g b cs)"

primrec matchesOf :: "string \<Rightarrow> path_pattern \<Rightarrow> string \<Rightarrow> (string option \<times> string) list" where
  "matchesOf g (AtStart r) s = after g r (None, s)"
| "matchesOf g (Anywhere r) s = concat (map (\<lambda>n. after g r (None, drop n s)) [0..<Suc (length s)])"

definition testPath :: "string \<Rightarrow> path_pattern \<Rightarrow> string \<Rightarrow> bool" where
  "testPath g p s \<longleftrightarrow> matchesOf g p s \<noteq> []"

text \<open>The text of the group in the first match, the empty text where there is none.\<close>

definition groupOf :: "path_pattern \<Rightarrow> string \<Rightarrow> string" where
  "groupOf p s = (case matchesOf [] p s of
      [] \<Rightarrow> []
    | m # _ \<Rightarrow> (case fst m of None \<Rightarrow> [] | Some t \<Rightarrow> t))"


section \<open>What a pattern matches\<close>

text \<open>Whether a match at the start of a text can go on with a pattern.\<close>

definition startsWith :: "string \<Rightarrow> rx \<Rightarrow> string \<Rightarrow> bool" where
  "startsWith g r s \<longleftrightarrow> after g r (None, s) \<noteq> []"

lemma after_group_free: "map snd (after g r (c, s)) = map snd (after g r (c', s))"
proof (induction r arbitrary: c c' s)
  case (Seq a b)
  have conc: "map snd (concat (map (after g b) xs)) = concat (map (\<lambda>v. map snd (after g b (None, v))) (map snd xs))"
    for xs
  proof (induction xs)
    case (Cons x xs)
    then show ?case using Seq.IH(2) [of "fst x" "snd x" None] by simp
  qed simp
  show ?case by (simp add: conc Seq.IH(1) [of c s c'])
next
  case (Alt a b)
  show ?case using Alt.IH(1) [of c s c'] Alt.IH(2) [of c s c'] by simp
qed auto

lemma after_nonempty: "after g r (c, s) \<noteq> [] \<longleftrightarrow> startsWith g r s"
  using after_group_free [of g r c s None] by (metis map_is_Nil_conv startsWith_def)

lemma startsWith_Chars: "startsWith g (Chars w) s \<longleftrightarrow> prefix w s"
  by (simp add: startsWith_def)

lemma startsWith_FirstGroup: "startsWith g FirstGroup s \<longleftrightarrow> prefix g s"
  by (simp add: startsWith_def)

lemma startsWith_EndOfPath: "startsWith g EndOfPath s \<longleftrightarrow> s = []"
  by (simp add: startsWith_def)

lemma startsWith_Seq_Chars: "startsWith g (Seq (Chars w) r) s \<longleftrightarrow> (\<exists>t. s = w @ t \<and> startsWith g r t)"
  by (auto simp: startsWith_def prefix_def)

lemma startsWith_Seq_FirstGroup: "startsWith g (Seq FirstGroup r) s \<longleftrightarrow> (\<exists>t. s = g @ t \<and> startsWith g r t)"
  by (auto simp: startsWith_def prefix_def)

lemma after_Seq_Chars: "after g (Seq (Chars w) r) (c, w @ t) = after g r (c, t)"
  by simp

lemma startsWith_Alt: "startsWith g (Alt a b) s \<longleftrightarrow> startsWith g a s \<or> startsWith g b s"
  by (simp add: startsWith_def)

lemma startsWith_Seq_Alt:
  "startsWith g (Seq (Alt a b) r) s \<longleftrightarrow> startsWith g (Seq a r) s \<or> startsWith g (Seq b r) s"
  by (simp add: startsWith_def)

lemma startsWith_Seq_oneOf:
  "rs \<noteq> [] \<Longrightarrow> startsWith g (Seq (oneOf rs) k) s \<longleftrightarrow> (\<exists>r \<in> set rs. startsWith g (Seq r k) s)"
  by (induction rs rule: oneOf.induct) (auto simp: startsWith_Seq_Alt)

lemma testPath_AtStart: "testPath g (AtStart r) s \<longleftrightarrow> startsWith g r s"
  by (simp add: testPath_def startsWith_def)

lemma testPath_Anywhere: "testPath g (Anywhere r) s \<longleftrightarrow> (\<exists>u v. s = u @ v \<and> startsWith g r v)"
proof -
  have "testPath g (Anywhere r) s \<longleftrightarrow> (\<exists>n \<le> length s. startsWith g r (drop n s))"
    unfolding testPath_def startsWith_def
    by (simp del: upt_Suc) (metis atLeastLessThan_iff le0 less_Suc_eq_le)
  also have "\<dots> \<longleftrightarrow> (\<exists>u v. s = u @ v \<and> startsWith g r v)"
    by (metis append_eq_conv_conj append_take_drop_id length_append le_add1)
  finally show ?thesis .
qed

text \<open>The three forms the rules use: text, one of some texts, and more text.\<close>

lemma startsWith_oneOf: "rs \<noteq> [] \<Longrightarrow> startsWith g (oneOf rs) s \<longleftrightarrow> (\<exists>r \<in> set rs. startsWith g r s)"
  by (induction rs rule: oneOf.induct) (auto simp: startsWith_Alt)

lemma testPath_under:
  "ls \<noteq> [] \<Longrightarrow> testPath g (AtStart (inOrder [Chars a, oneOf (map Chars ls), Chars b])) p
     \<longleftrightarrow> list_ex (\<lambda>l. prefix (a @ l @ b) p) ls"
  by (auto simp: testPath_AtStart startsWith_Seq_Chars startsWith_Seq_oneOf startsWith_Chars prefix_def list_ex_iff)

lemma testPath_named:
  "ls \<noteq> [] \<Longrightarrow> testPath g (AtStart (inOrder [Chars a, oneOf (map Chars ls), Chars b, EndOfPath])) p
     \<longleftrightarrow> p \<in> set (map (\<lambda>l. a @ l @ b) ls)"
  by (auto simp: testPath_AtStart startsWith_Seq_Chars startsWith_Seq_oneOf startsWith_EndOfPath)

lemma testPath_inside:
  "ls \<noteq> [] \<Longrightarrow> testPath g (Anywhere (inOrder [Chars a, oneOf (map Chars ls)])) p
     \<longleftrightarrow> list_ex (\<lambda>l. sublist (a @ l) p) ls"
  by (simp add: testPath_Anywhere startsWith_Seq_Chars startsWith_oneOf startsWith_Chars prefix_def list_ex_iff
      sublist_def) blast

lemma testPath_file: "testPath g (AtStart (inOrder [Chars a, EndOfPath])) p \<longleftrightarrow> p = a"
  by (auto simp: testPath_AtStart startsWith_Seq_Chars startsWith_EndOfPath)

text \<open>A group followed by a slash matches in one way only: up to the first slash.\<close>

lemma after_Segment_slash:
  "after g (Seq Segment (Chars ''/'')) (c, s) =
     (let k = length (takeWhile (\<lambda>x. x \<noteq> CHR ''/'') s)
      in if 0 < k \<and> k < length s then [(Some (take k s), drop (Suc k) s)] else [])"
proof -
  define k where "k = length (takeWhile (\<lambda>x. x \<noteq> CHR ''/'') s)"
  have here: "prefix ''/'' (drop n s) \<longleftrightarrow> n = k \<and> k < length s" if "n \<le> k" for n
  proof (cases "n < length s")
    case True
    then have "drop n s = s ! n # drop (Suc n) s" by (rule Cons_nth_drop_Suc [symmetric])
    moreover have "s ! n = CHR ''/'' \<longleftrightarrow> n = k"
      using that True nth_length_takeWhile [of "\<lambda>x. x \<noteq> CHR ''/''" s]
        nth_mem [of n "takeWhile (\<lambda>x. x \<noteq> CHR ''/'') s"] takeWhile_nth [of n "\<lambda>x. x \<noteq> CHR ''/''" s]
      unfolding k_def by (metis (mono_tags, lifting) le_neq_implies_less set_takeWhileD)
    ultimately show ?thesis using True that by auto
  next
    case False
    then show ?thesis by auto
  qed
  let ?tail = "\<lambda>n. after g (Chars ''/'') (Some (take n s), drop n s)"
  have "?tail n = []" if "n \<in> set (rev [1..<k])" for n
    using that here [of n] by auto
  then have before: "concat (map ?tail (rev [1..<k])) = []" by simp
  show ?thesis
  proof (cases "0 < k")
    case True
    then have "rev [1..<Suc k] = k # rev [1..<k]" by simp
    then have "after g (Seq Segment (Chars ''/'')) (c, s) = ?tail k @ concat (map ?tail (rev [1..<k]))"
      by (simp add: k_def [symmetric] comp_def del: upt_Suc)
    also have "\<dots> = ?tail k" by (simp only: before append_Nil2)
    finally show ?thesis using True here [of k] by (simp add: k_def [symmetric])
  next
    case False
    then show ?thesis by (simp add: k_def [symmetric])
  qed
qed

text \<open>A pattern without a group leaves the group unset.\<close>

primrec hasGroup :: "rx \<Rightarrow> bool" where
  "hasGroup (Chars w) = False"
| "hasGroup Segment = True"
| "hasGroup FirstGroup = False"
| "hasGroup EndOfPath = False"
| "hasGroup (Seq a b) = (hasGroup a \<or> hasGroup b)"
| "hasGroup (Alt a b) = (hasGroup a \<or> hasGroup b)"

lemma after_no_group: "\<not> hasGroup r \<Longrightarrow> x \<in> set (after g r (c, s)) \<Longrightarrow> fst x = c"
proof (induction r arbitrary: c s x)
  case (Seq a b)
  then obtain y where "y \<in> set (after g a (c, s))" "x \<in> set (after g b (fst y, snd y))" by auto
  with Seq.IH Seq.prems(1) show ?case by (metis hasGroup.simps(5))
qed (auto split: if_splits)

lemma hasGroup_oneOf [simp]: "hasGroup (oneOf rs) \<longleftrightarrow> (\<exists>r \<in> set rs. hasGroup r)"
  by (induction rs rule: oneOf.induct) auto

lemma groupOf_AtStart: "\<not> hasGroup r \<Longrightarrow> groupOf (AtStart r) s = []"
  using after_no_group [of r _ "[]" None s]
  by (auto simp: groupOf_def split: list.splits)

end
