(* ===== verification/ModuleGraph.thy ===== *)
theory ModuleGraph
  imports PathPattern
begin

text \<open>
  The module-graph rules of \<open>.dependency-cruiser.mjs\<close>: every rule of \<open>forbidden\<close>, with its
  patterns, and what the rules promise together of a code base they accept. The tool that
  reads the rules is third-party, so a run of it is an argument of the statements, with its
  documented reading of a rule as the hypothesis \<open>readsRules\<close>.
\<close>

section \<open>Dependencies and rules\<close>

text \<open>
  A dependency as the tool reports it: the importing file, the resolved imported file and
  the types of the dependency (\<open>type-only\<close> for an import that is erased).
\<close>

record dependency =
  importer :: string
  imported :: string
  dependencyTypes :: "string list"

record importing =
  f_path :: "path_pattern option"
  f_pathNot :: "path_pattern list"

record importedFile =
  t_path :: "path_pattern option"
  t_pathNot :: "path_pattern list"
  t_dependencyTypesNot :: "string list"
  t_circular :: bool
  t_viaOnlyTypesNot :: "string list"

record moduleRule =
  ruleName :: string
  ruleFrom :: importing
  ruleTo :: importedFile

definition anyImporter :: importing where
  "anyImporter = \<lparr>f_path = None, f_pathNot = []\<rparr>"

definition anyImported :: importedFile where
  "anyImported = \<lparr>t_path = None, t_pathNot = [], t_dependencyTypesNot = [], t_circular = False,
     t_viaOnlyTypesNot = []\<rparr>"

definition forbid :: "string \<Rightarrow> importing \<Rightarrow> importedFile \<Rightarrow> moduleRule" where
  "forbid nm f t = \<lparr>ruleName = nm, ruleFrom = f, ruleTo = t\<rparr>"

text \<open>\<open>^src/modules/(a|b|...)/\<close>, and the same with file names for the last part.\<close>

definition inModules :: "string list \<Rightarrow> path_pattern" where
  "inModules ms = AtStart (inOrder [Chars ''src/modules/'', oneOf (map Chars ms), Chars ''/''])"

definition moduleSources :: "rx list \<Rightarrow> path_pattern" where
  "moduleSources fs = AtStart (inOrder [Chars ''src/modules/'', oneOf fs, Chars ''.ts'', EndOfPath])"

definition anyModule :: path_pattern where
  "anyModule = AtStart (Chars ''src/modules/'')"

definition fromModules :: "string list \<Rightarrow> importing" where
  "fromModules ms = anyImporter\<lparr>f_path := Some (inModules ms)\<rparr>"

text \<open>The three shapes most rules have: which modules a module may reach, which of their
  files, and from which of its own files.\<close>

definition reachesOnly :: "string \<Rightarrow> string \<Rightarrow> string list \<Rightarrow> moduleRule" where
  "reachesOnly nm m ms = forbid nm (fromModules [m])
     (anyImported\<lparr>t_path := Some anyModule, t_pathNot := [inModules ms]\<rparr>)"

definition importsFilesOnly :: "string \<Rightarrow> string \<Rightarrow> string list \<Rightarrow> rx list \<Rightarrow> moduleRule" where
  "importsFilesOnly nm m ms fs = forbid nm (fromModules [m])
     (anyImported\<lparr>t_path := Some (inModules ms), t_pathNot := [moduleSources fs]\<rparr>)"

definition importsLiveIn :: "string \<Rightarrow> string \<Rightarrow> string \<Rightarrow> string list \<Rightarrow> moduleRule" where
  "importsLiveIn nm m f ms = forbid nm
     ((fromModules [m])\<lparr>f_pathNot :=
       [AtStart (inOrder [Chars (''src/modules/'' @ m @ ''/'' @ f @ ''.ts''), EndOfPath])]\<rparr>)
     (anyImported\<lparr>t_path := Some (inModules ms)\<rparr>)"

section \<open>The rules\<close>

definition noRuntimeCycles :: moduleRule where
  "noRuntimeCycles = forbid ''no-runtime-cycles'' anyImporter
     (anyImported\<lparr>t_circular := True, t_viaOnlyTypesNot := [''type-only'']\<rparr>)"

definition composingModules :: "string list" where
  "composingModules = [''auth'', ''commission-checkout'', ''commission-settlement'',
     ''income-withdrawal'', ''point-charge'', ''onboarding'', ''search'']"

definition crossModuleDeps :: moduleRule where
  "crossModuleDeps = forbid ''cross-module-deps-are-allowlisted''
     (anyImporter\<lparr>f_path := Some (AtStart (inOrder [Chars ''src/modules/'', Segment, Chars ''/''])),
        f_pathNot := [inModules composingModules]\<rparr>)
     (anyImported\<lparr>t_path := Some anyModule,
        t_pathNot := [AtStart (inOrder [Chars ''src/modules/'', FirstGroup, Chars ''/''])]\<rparr>)"

definition onboardingReaches :: moduleRule where
  "onboardingReaches = reachesOnly ''onboarding-reaches-user-and-post-only'' ''onboarding''
     [''onboarding'', ''user'', ''post'']"

definition searchReaches :: moduleRule where
  "searchReaches = reachesOnly ''search-reaches-post-only'' ''search'' [''search'', ''post'']"

definition authReaches :: moduleRule where
  "authReaches = reachesOnly ''auth-reaches-user-only'' ''auth'' [''auth'', ''user'']"

definition authToUser :: moduleRule where
  "authToUser = forbid ''auth-to-user-is-type-only'' (fromModules [''auth''])
     (anyImported\<lparr>t_path := Some (inModules [''user'']), t_dependencyTypesNot := [''type-only'']\<rparr>)"

definition checkoutReaches :: moduleRule where
  "checkoutReaches = reachesOnly ''commission-checkout-reaches-reviewed-owners-only'' ''commission-checkout''
     [''commission-checkout'', ''commission-type'', ''contract'', ''financial-ledger'', ''order'',
      ''slot'', ''transaction-flow'']"

definition checkoutOwners :: "string list" where
  "checkoutOwners = [''commission-type'', ''contract'', ''financial-ledger'', ''order'', ''slot'',
     ''transaction-flow'']"

definition checkoutFiles :: moduleRule where
  "checkoutFiles = importsFilesOnly ''commission-checkout-imports-owner-plan-repos-only''
     ''commission-checkout'' checkoutOwners
     [Chars ''commission-type/commission-type.repo'', Chars ''contract/contract.repo'',
      inOrder [Chars ''financial-ledger/financial-ledger.'', oneOf [Chars ''core'', Chars ''repo'']],
      Chars ''order/order.repo'', Chars ''slot/slot.repo'',
      inOrder [Chars ''transaction-flow/transaction-flow.'', oneOf [Chars ''core'', Chars ''repo'']]]"

definition checkoutService :: moduleRule where
  "checkoutService = importsLiveIn ''commission-checkout-owner-imports-live-in-service''
     ''commission-checkout'' ''commission-checkout.service'' checkoutOwners"

definition settlementReaches :: moduleRule where
  "settlementReaches = reachesOnly ''commission-settlement-reaches-reviewed-owners-only''
     ''commission-settlement''
     [''commission-settlement'', ''contract'', ''financial-ledger'', ''order'', ''transaction-flow'']"

definition settlementOwners :: "string list" where
  "settlementOwners = [''contract'', ''financial-ledger'', ''order'', ''transaction-flow'']"

definition settlementFiles :: moduleRule where
  "settlementFiles = importsFilesOnly ''commission-settlement-imports-owner-repos-only''
     ''commission-settlement'' settlementOwners
     [Chars ''contract/contract.repo'', Chars ''financial-ledger/financial-ledger.repo'',
      Chars ''order/order.repo'',
      inOrder [Chars ''transaction-flow/transaction-flow.'', oneOf [Chars ''core'', Chars ''repo'']]]"

definition settlementService :: moduleRule where
  "settlementService = importsLiveIn ''commission-settlement-owner-imports-live-in-service''
     ''commission-settlement'' ''commission-settlement.service'' settlementOwners"

definition moneyOwners :: "string list" where
  "moneyOwners = [''financial-ledger'', ''transaction-flow'']"

definition moneyFiles :: "rx list" where
  "moneyFiles = [Chars ''financial-ledger/financial-ledger.repo'',
     inOrder [Chars ''transaction-flow/transaction-flow.'', oneOf [Chars ''core'', Chars ''repo'']]]"

definition withdrawalReaches :: moduleRule where
  "withdrawalReaches = reachesOnly ''income-withdrawal-reaches-reviewed-owners-only''
     ''income-withdrawal'' [''income-withdrawal'', ''financial-ledger'', ''transaction-flow'']"

definition withdrawalFiles :: moduleRule where
  "withdrawalFiles = importsFilesOnly ''income-withdrawal-imports-owner-repos-only''
     ''income-withdrawal'' moneyOwners moneyFiles"

definition withdrawalService :: moduleRule where
  "withdrawalService = importsLiveIn ''income-withdrawal-owner-imports-live-in-service''
     ''income-withdrawal'' ''income-withdrawal.service'' moneyOwners"

definition pointChargeReaches :: moduleRule where
  "pointChargeReaches = reachesOnly ''point-charge-reaches-reviewed-owners-only''
     ''point-charge'' [''point-charge'', ''financial-ledger'', ''transaction-flow'']"

definition pointChargeFiles :: moduleRule where
  "pointChargeFiles = importsFilesOnly ''point-charge-imports-owner-repos-only''
     ''point-charge'' moneyOwners moneyFiles"

definition pointChargeService :: moduleRule where
  "pointChargeService = importsLiveIn ''point-charge-owner-imports-live-in-service''
     ''point-charge'' ''point-charge.service'' moneyOwners"

definition compositionRoot :: moduleRule where
  "compositionRoot = forbid ''composition-root-is-the-top''
     (anyImporter\<lparr>f_path := Some (AtStart (inOrder [Chars ''src/'',
        oneOf (map Chars [''modules'', ''db'', ''flags'', ''foundation'', ''graphql'', ''scheduler'']),
        Chars ''/'']))\<rparr>)
     (anyImported\<lparr>t_path := Some (AtStart (inOrder [Chars ''src/'',
        oneOf (map Chars [''app'', ''services'', ''server'']), Chars ''.ts'', EndOfPath])),
        t_dependencyTypesNot := [''type-only'']\<rparr>)"

definition compositionPoints :: "string list" where
  "compositionPoints = [''src/app.ts'', ''src/services.ts'', ''src/graphql/schema.ts'',
     ''src/scheduler/scheduler.ts'']"

definition modulesEnter :: moduleRule where
  "modulesEnter = forbid ''modules-enter-at-composition-points''
     (anyImporter\<lparr>f_path := Some (AtStart (Chars ''src/'')),
        f_pathNot := anyModule # map (\<lambda>p. AtStart (inOrder [Chars p, EndOfPath])) compositionPoints\<rparr>)
     (anyImported\<lparr>t_path := Some anyModule\<rparr>)"

definition dateLibLives :: moduleRule where
  "dateLibLives = forbid ''date-lib-lives-in-time-only''
     (anyImporter\<lparr>f_path := Some (AtStart (Chars ''src/'')),
        f_pathNot := [AtStart (inOrder [Chars ''src/foundation/time.ts'', EndOfPath])]\<rparr>)
     (anyImported\<lparr>t_path := Some (Anywhere (inOrder [Chars ''node_modules/'',
        oneOf (map Chars [''dayjs'', ''luxon'', ''moment'', ''date-fns'', ''@js-joda''])]))\<rparr>)"

definition forbiddenRules :: "moduleRule list" where
  "forbiddenRules = [noRuntimeCycles, crossModuleDeps, onboardingReaches, searchReaches, authReaches,
     authToUser, checkoutReaches, checkoutFiles, checkoutService, settlementReaches, settlementFiles,
     settlementService, withdrawalReaches, withdrawalFiles, withdrawalService, pointChargeReaches,
     pointChargeFiles, pointChargeService, compositionRoot, modulesEnter, dateLibLives]"

text \<open>\<open>options.exclude\<close>: files under these paths are not part of the graph.\<close>

definition excludedPaths :: "path_pattern list" where
  "excludedPaths = [AtStart (Chars ''src/tests''), AtStart (Chars ''src/generated'')]"

section \<open>How a rule is read\<close>

text \<open>
  A dependency breaks a rule when the importing file is one the rule is about, the imported
  file is one it names, the dependency has none of the types it excuses, and, for a rule on
  cycles, the dependency lies on a cycle all of whose members have none of the types listed
  under \<open>viaOnly\<close>. Such a cycle is looked for up to the number of dependencies.
\<close>

definition fromApplies :: "importing \<Rightarrow> string \<Rightarrow> bool" where
  "fromApplies f p \<longleftrightarrow>
     (case f_path f of None \<Rightarrow> True | Some pat \<Rightarrow> testPath [] pat p) \<and>
     \<not> list_ex (\<lambda>pat. testPath [] pat p) (f_pathNot f)"

definition groupIn :: "importing \<Rightarrow> string \<Rightarrow> string" where
  "groupIn f p = (case f_path f of None \<Rightarrow> [] | Some pat \<Rightarrow> groupOf pat p)"

definition hasNoneOf :: "string list \<Rightarrow> dependency \<Rightarrow> bool" where
  "hasNoneOf ts d \<longleftrightarrow> \<not> list_ex (\<lambda>t. t \<in> set (dependencyTypes d)) ts"

primrec reachesWithin :: "nat \<Rightarrow> dependency list \<Rightarrow> string \<Rightarrow> string \<Rightarrow> bool" where
  "reachesWithin 0 ds a b \<longleftrightarrow> a = b"
| "reachesWithin (Suc n) ds a b \<longleftrightarrow> a = b \<or>
     list_ex (\<lambda>d. importer d = a \<and> reachesWithin n ds (imported d) b) ds"

definition onCycle :: "dependency list \<Rightarrow> string list \<Rightarrow> dependency \<Rightarrow> bool" where
  "onCycle ds ts d \<longleftrightarrow> hasNoneOf ts d \<and>
     reachesWithin (length ds) (filter (hasNoneOf ts) ds) (imported d) (importer d)"

definition breaksRule :: "dependency list \<Rightarrow> moduleRule \<Rightarrow> dependency \<Rightarrow> bool" where
  "breaksRule ds r d \<longleftrightarrow>
     fromApplies (ruleFrom r) (importer d) \<and>
     (case t_path (ruleTo r) of None \<Rightarrow> True
        | Some pat \<Rightarrow> testPath (groupIn (ruleFrom r) (importer d)) pat (imported d)) \<and>
     \<not> list_ex (\<lambda>pat. testPath (groupIn (ruleFrom r) (importer d)) pat (imported d)) (t_pathNot (ruleTo r)) \<and>
     hasNoneOf (t_dependencyTypesNot (ruleTo r)) d \<and>
     (t_circular (ruleTo r) \<longrightarrow> onCycle ds (t_viaOnlyTypesNot (ruleTo r)) d)"

text \<open>
  A run of the tool says which dependencies violate which rule. It reads the rules as
  documented when, among the dependencies between files that are not excluded, it reports
  exactly those that break a rule. The text of the group is put for \<open>$1\<close> as it stands, so
  this is asked only where that text has no character that is special in a pattern. A code
  base is accepted when nothing is reported.
\<close>

type_synonym cruiser = "dependency list \<Rightarrow> moduleRule \<Rightarrow> dependency \<Rightarrow> bool"

definition inGraph :: "dependency \<Rightarrow> bool" where
  "inGraph d \<longleftrightarrow>
     \<not> list_ex (\<lambda>pat. testPath [] pat (importer d) \<or> testPath [] pat (imported d)) excludedPaths"

definition graphOf :: "dependency list \<Rightarrow> dependency list" where
  "graphOf ds = filter inGraph ds"

definition plainChar :: "char \<Rightarrow> bool" where
  "plainChar c \<longleftrightarrow> c \<in> set ''abcdefghijklmnopqrstuvwxyz0123456789-_''"

definition readsRules :: "cruiser \<Rightarrow> bool" where
  "readsRules cruise \<longleftrightarrow>
     (\<forall>ds r d. d \<in> set (graphOf ds) \<longrightarrow> list_all plainChar (groupIn (ruleFrom r) (importer d)) \<longrightarrow>
        cruise ds r d = breaksRule (graphOf ds) r d)"

definition acceptsGraph :: "cruiser \<Rightarrow> dependency list \<Rightarrow> bool" where
  "acceptsGraph cruise ds \<longleftrightarrow>
     list_all (\<lambda>r. list_all (\<lambda>d. \<not> cruise ds r d) (graphOf ds)) forbiddenRules"

section \<open>Modules of files\<close>

text \<open>The module of a file: the first directory below \<open>src/modules\<close>.\<close>

definition moduleOf :: "string \<Rightarrow> string option" where
  "moduleOf p = (let t = drop 12 p; m = takeWhile (\<lambda>x. x \<noteq> CHR ''/'') t in
     if prefix ''src/modules/'' p \<and> m \<noteq> [] \<and> length m < length t then Some m else None)"

definition slashFree :: "string \<Rightarrow> bool" where
  "slashFree m \<longleftrightarrow> m \<noteq> [] \<and> CHR ''/'' \<notin> set m"

lemma moduleOf_eq_Some:
  "moduleOf p = Some m \<longleftrightarrow> slashFree m \<and> (\<exists>t. p = ''src/modules/'' @ m @ ''/'' @ t)"
proof
  assume some: "moduleOf p = Some m"
  then obtain t where p: "p = ''src/modules/'' @ t" and m: "m = takeWhile (\<lambda>x. x \<noteq> CHR ''/'') t"
    and ne: "m \<noteq> []" and len: "length m < length t"
    by (auto simp: moduleOf_def Let_def prefix_def split: if_splits)
  have "t ! length m = CHR ''/''" using len nth_length_takeWhile [of "\<lambda>x. x \<noteq> CHR ''/''" t] m by simp
  then have "t = m @ ''/'' @ drop (Suc (length m)) t"
    using len m by (metis append_Cons append_Nil append_take_drop_id Cons_nth_drop_Suc takeWhile_eq_take)
  moreover have "slashFree m" using ne m by (auto simp: slashFree_def dest: set_takeWhileD)
  ultimately show "slashFree m \<and> (\<exists>t. p = ''src/modules/'' @ m @ ''/'' @ t)" using p by blast
next
  assume "slashFree m \<and> (\<exists>t. p = ''src/modules/'' @ m @ ''/'' @ t)"
  then obtain t where p: "p = ''src/modules/'' @ m @ ''/'' @ t" and m: "slashFree m" by blast
  have "takeWhile (\<lambda>x. x \<noteq> CHR ''/'') (m @ ''/'' @ t) = m"
    using m by (auto simp: slashFree_def takeWhile_append)
  then show "moduleOf p = Some m" using m by (simp add: p moduleOf_def slashFree_def)
qed

lemma moduleOf_slashFree: "moduleOf p = Some m \<Longrightarrow> slashFree m"
  by (simp add: moduleOf_eq_Some)

lemma inModules_iff:
  assumes "ms \<noteq> []" and "list_all slashFree ms"
  shows "testPath g (inModules ms) p \<longleftrightarrow> (\<exists>m. moduleOf p = Some m \<and> m \<in> set ms)"
proof -
  have "testPath g (inModules ms) p \<longleftrightarrow> (\<exists>m \<in> set ms. \<exists>t. p = ''src/modules/'' @ m @ ''/'' @ t)"
    using assms(1)
    by (auto simp: inModules_def testPath_AtStart startsWith_Seq_Chars startsWith_Seq_oneOf startsWith_Chars
        prefix_def)
  with assms(2) show ?thesis by (auto simp: moduleOf_eq_Some list_all_iff)
qed

lemma anyModule_iff: "testPath g anyModule p \<longleftrightarrow> prefix ''src/modules/'' p"
  by (simp add: anyModule_def testPath_AtStart startsWith_Chars)

lemma moduleOf_prefix: "moduleOf p = Some m \<Longrightarrow> prefix ''src/modules/'' p"
  by (auto simp: moduleOf_eq_Some prefix_def)

definition segmentPattern :: path_pattern where
  "segmentPattern = AtStart (inOrder [Chars ''src/modules/'', Segment, Chars ''/''])"

lemma segmentPattern_matches:
  "matchesOf g segmentPattern p =
     (case moduleOf p of None \<Rightarrow> [] | Some m \<Rightarrow> [(Some m, drop (Suc (length m)) (drop 12 p))])"
proof (cases "prefix ''src/modules/'' p")
  case True
  then obtain t where p: "p = ''src/modules/'' @ t" by (auto simp: prefix_def)
  have "matchesOf g segmentPattern p = after g (Seq Segment (Chars ''/'')) (None, t)"
    unfolding segmentPattern_def p inOrder.simps matchesOf.simps by (rule after_Seq_Chars)
  then show ?thesis
    unfolding after_Segment_slash by (simp add: p moduleOf_def Let_def takeWhile_eq_take [symmetric])
next
  case False
  then show ?thesis by (auto simp: segmentPattern_def moduleOf_def Let_def)
qed

lemma segmentPattern_test: "testPath g segmentPattern p \<longleftrightarrow> (\<exists>m. moduleOf p = Some m)"
  by (auto simp: testPath_def segmentPattern_matches split: option.splits)

lemma segmentPattern_group: "moduleOf p = Some m \<Longrightarrow> groupOf segmentPattern p = m"
  by (simp add: groupOf_def segmentPattern_matches)

section \<open>What an accepted code base obeys\<close>

lemma moduleRule_fields [simp]:
  "ruleFrom (forbid nm f t) = f" "ruleTo (forbid nm f t) = t"
  by (simp_all add: forbid_def)

lemma hasNoneOf_Nil [simp]: "hasNoneOf [] d"
  by (simp add: hasNoneOf_def)

lemma fromModules_applies:
  "list_all slashFree [m] \<Longrightarrow> fromApplies (fromModules [m]) p \<longleftrightarrow> moduleOf p = Some m"
  by (simp add: fromApplies_def fromModules_def anyImporter_def inModules_iff)

lemma reachesOnly_obeyed:
  assumes "\<not> breaksRule ds (reachesOnly nm m ms) d"
    and "moduleOf (importer d) = Some m" and "moduleOf (imported d) = Some m'"
    and "ms \<noteq> []" and "list_all slashFree ms"
  shows "m' \<in> set ms"
  using assms moduleOf_prefix [OF assms(3)] moduleOf_slashFree [OF assms(2)]
  by (simp add: breaksRule_def reachesOnly_def fromModules_applies anyImported_def anyModule_iff inModules_iff)

lemma crossModuleDeps_obeyed:
  assumes ok: "\<not> breaksRule ds crossModuleDeps d"
    and m: "moduleOf (importer d) = Some m" and m': "moduleOf (imported d) = Some m'"
    and owner: "m \<notin> set composingModules"
  shows "m' = m"
proof -
  have names: "list_all slashFree composingModules" "composingModules \<noteq> []"
    by (simp_all add: composingModules_def slashFree_def)
  have "fromApplies (ruleFrom crossModuleDeps) (importer d)"
    using m owner by (simp add: crossModuleDeps_def fromApplies_def anyImporter_def inModules_iff [OF names(2,1)]
        segmentPattern_def [symmetric] segmentPattern_test del: inOrder.simps)
  moreover have "groupIn (ruleFrom crossModuleDeps) (importer d) = m"
    using m by (simp add: crossModuleDeps_def groupIn_def segmentPattern_def [symmetric] segmentPattern_group
        del: inOrder.simps)
  ultimately have "testPath m (AtStart (inOrder [Chars ''src/modules/'', FirstGroup, Chars ''/''])) (imported d)"
    using ok moduleOf_prefix [OF m'] by (simp add: breaksRule_def crossModuleDeps_def anyImported_def anyModule_iff)
  then have "moduleOf (imported d) = Some m"
    using moduleOf_slashFree [OF m]
    by (auto simp: testPath_AtStart startsWith_Seq_Chars startsWith_Seq_FirstGroup startsWith_Chars moduleOf_eq_Some
        prefix_def)
  then show ?thesis using m' by simp
qed

text \<open>The rules a module of the second kind, one that composes others, is under.\<close>

definition mayReach :: "string \<Rightarrow> string list" where
  "mayReach m = (case map_of
     [(''onboarding'', [''onboarding'', ''user'', ''post'']),
      (''search'', [''search'', ''post'']),
      (''auth'', [''auth'', ''user'']),
      (''commission-checkout'', ''commission-checkout'' # checkoutOwners),
      (''commission-settlement'', ''commission-settlement'' # settlementOwners),
      (''income-withdrawal'', ''income-withdrawal'' # moneyOwners),
      (''point-charge'', ''point-charge'' # moneyOwners)] m of None \<Rightarrow> [m] | Some ms \<Rightarrow> ms)"

lemma rule_broken_none:
  assumes "readsRules cruise" and "acceptsGraph cruise ds"
    and "r \<in> set forbiddenRules" and "d \<in> set (graphOf ds)"
    and "list_all plainChar (groupIn (ruleFrom r) (importer d))"
  shows "\<not> breaksRule (graphOf ds) r d"
  using assms unfolding readsRules_def acceptsGraph_def list_all_iff by blast

lemma groupIn_fromModules [simp]:
  "groupIn (fromModules [m]) p = []" "groupIn ((fromModules [m])\<lparr>f_pathNot := ps\<rparr>) p = []"
  by (simp_all add: groupIn_def fromModules_def inModules_def groupOf_AtStart)

text \<open>Every composing module has its rule, and what it may reach is an owner or itself.\<close>

lemma composing_rules:
  "list_all (\<lambda>m. list_ex (\<lambda>r. r = reachesOnly (ruleName r) m (mayReach m)) forbiddenRules \<and>
     list_all (\<lambda>n. slashFree n \<and> (n = m \<or> n \<notin> set composingModules)) (mayReach m) \<and> mayReach m \<noteq> [])
   composingModules"
  by code_simp

lemma accepted_reach:
  assumes cruise: "readsRules cruise" "acceptsGraph cruise ds" and d: "d \<in> set (graphOf ds)"
    and m: "moduleOf (importer d) = Some m" and m': "moduleOf (imported d) = Some m'"
    and plain: "list_all plainChar m"
  shows "m' \<in> set (mayReach m)"
proof (cases "m \<in> set composingModules")
  case False
  have "groupIn (ruleFrom crossModuleDeps) (importer d) = m"
    using m by (simp add: crossModuleDeps_def groupIn_def segmentPattern_def [symmetric] segmentPattern_group
        del: inOrder.simps)
  then have "\<not> breaksRule (graphOf ds) crossModuleDeps d"
    using rule_broken_none [OF cruise _ d, of crossModuleDeps] plain by (simp add: forbiddenRules_def)
  then have "m' = m" using m m' False by (rule crossModuleDeps_obeyed)
  moreover have "mayReach m = [m]"
    using False by (auto simp: mayReach_def composingModules_def)
  ultimately show ?thesis by simp
next
  case True
  with composing_rules obtain r where r: "r \<in> set forbiddenRules" "r = reachesOnly (ruleName r) m (mayReach m)"
    and ms: "mayReach m \<noteq> []" "list_all slashFree (mayReach m)"
    unfolding list_all_iff list_ex_iff by blast
  have "groupIn (ruleFrom r) (importer d) = []"
    by (subst r(2)) (simp add: reachesOnly_def)
  then have "\<not> breaksRule (graphOf ds) (reachesOnly (ruleName r) m (mayReach m)) d"
    using rule_broken_none [OF cruise r(1) d] r(2) by simp
  then show ?thesis using m m' ms by (rule reachesOnly_obeyed)
qed

section \<open>The shape of an accepted module graph\<close>

definition moduleEdges :: "dependency list \<Rightarrow> (string \<times> string) set" where
  "moduleEdges ds = {(m, m'). m \<noteq> m' \<and>
     (\<exists>d \<in> set (graphOf ds). moduleOf (importer d) = Some m \<and> moduleOf (imported d) = Some m')}"

definition plainModules :: "dependency list \<Rightarrow> bool" where
  "plainModules ds \<longleftrightarrow> list_all (\<lambda>d. case moduleOf (importer d) of None \<Rightarrow> True | Some m \<Rightarrow> list_all plainChar m) (graphOf ds)"

lemma mayReach_owner: "m \<notin> set composingModules \<Longrightarrow> mayReach m = [m]"
  by (auto simp: mayReach_def composingModules_def)

lemma mayReach_composing: "m' \<in> set (mayReach m) \<Longrightarrow> m' \<noteq> m \<Longrightarrow> m \<in> set composingModules \<and> m' \<notin> set composingModules"
  using composing_rules mayReach_owner [of m] unfolding list_all_iff by (cases "m \<in> set composingModules") auto

text \<open>C39: Imports across modules go one way. In a code base the rules accept, every import from one
  module into another goes from a module that composes others to one that composes none and
  is on its list; so no module can reach itself through others, whatever the files import.
\<close>

theorem module_imports_go_one_way:
  assumes "readsRules cruise" and "acceptsGraph cruise ds" and "plainModules ds"
  shows "(\<forall>(m, m') \<in> moduleEdges ds. m \<in> set composingModules \<and> m' \<notin> set composingModules \<and> m' \<in> set (mayReach m)) \<and>
    acyclic (moduleEdges ds)"
proof -
  have edge: "m \<in> set composingModules \<and> m' \<notin> set composingModules \<and> m' \<in> set (mayReach m)"
    if e: "(m, m') \<in> moduleEdges ds" for m m'
  proof -
    from e obtain d where ne: "m \<noteq> m'" and d: "d \<in> set (graphOf ds)"
      and m: "moduleOf (importer d) = Some m" and m': "moduleOf (imported d) = Some m'"
      by (auto simp: moduleEdges_def)
    have "list_all plainChar m" using assms(3) d m by (auto simp: plainModules_def list_all_iff)
    with accepted_reach [OF assms(1,2) d m m'] mayReach_composing [of m' m] ne show ?thesis by auto
  qed
  have "m \<in> set composingModules \<and> m' \<notin> set composingModules" if "(m, m') \<in> (moduleEdges ds)\<^sup>+" for m m'
    using that by (induction rule: trancl_induct) (auto dest: edge)
  then have "acyclic (moduleEdges ds)" by (auto simp: acyclic_def)
  with edge show ?thesis by auto
qed

text \<open>Rules without a group are read whatever the importing file is called.\<close>

lemma obeyed_without_group:
  assumes "readsRules cruise" and "acceptsGraph cruise ds" and "d \<in> set (graphOf ds)"
    and "r \<in> set forbiddenRules" and "groupIn (ruleFrom r) (importer d) = []"
  shows "\<not> breaksRule (graphOf ds) r d"
  using rule_broken_none [OF assms(1,2,4,3)] assms(5) by simp

definition ownerModules :: "string \<Rightarrow> string list" where
  "ownerModules m = (if m = ''commission-checkout'' then checkoutOwners
     else if m = ''commission-settlement'' then settlementOwners else moneyOwners)"

definition financialModules :: "string list" where
  "financialModules = [''commission-checkout'', ''commission-settlement'', ''income-withdrawal'', ''point-charge'']"

lemma service_rules:
  "list_all (\<lambda>m. list_ex (\<lambda>r. r = importsLiveIn (ruleName r) m (m @ ''.service'') (ownerModules m)) forbiddenRules)
   financialModules"
  by code_simp

lemma service_rule:
  assumes "m \<in> set financialModules"
  shows "\<exists>nm. importsLiveIn nm m (m @ ''.service'') (ownerModules m) \<in> set forbiddenRules"
proof -
  from assms service_rules obtain r where "r \<in> set forbiddenRules"
    "r = importsLiveIn (ruleName r) m (m @ ''.service'') (ownerModules m)"
    unfolding list_all_iff list_ex_iff by blast
  then show ?thesis by metis
qed

lemma service_names:
  assumes "m \<in> set financialModules"
  shows "mayReach m = m # ownerModules m" and "list_all slashFree (ownerModules m)" and "ownerModules m \<noteq> []"
    and "list_all plainChar m"
proof -
  have "list_all (\<lambda>m. mayReach m = m # ownerModules m \<and> list_all slashFree (ownerModules m) \<and> ownerModules m \<noteq> [] \<and>
     list_all plainChar m) financialModules"
    by code_simp
  with assms show "mayReach m = m # ownerModules m" and "list_all slashFree (ownerModules m)" and "ownerModules m \<noteq> []"
    and "list_all plainChar m" by (simp_all add: list_all_iff)
qed

lemma importsLiveIn_obeyed:
  assumes "\<not> breaksRule ds (importsLiveIn nm m f ms) d"
    and "moduleOf (importer d) = Some m" and "moduleOf (imported d) = Some m'" and "m' \<in> set ms"
    and "list_all slashFree ms" and "ms \<noteq> []"
  shows "importer d = ''src/modules/'' @ m @ ''/'' @ f @ ''.ts''"
  using assms moduleOf_slashFree [OF assms(2)]
  by (auto simp: breaksRule_def importsLiveIn_def fromApplies_def fromModules_def anyImporter_def anyImported_def
      inModules_iff testPath_AtStart startsWith_Seq_Chars startsWith_EndOfPath)

lemma compositionRoot_obeyed:
  assumes "\<not> breaksRule ds compositionRoot d"
    and "list_ex (\<lambda>l. prefix (''src/'' @ l @ ''/'') (importer d))
      [''modules'', ''db'', ''flags'', ''foundation'', ''graphql'', ''scheduler'']"
    and "imported d \<in> set (map (\<lambda>f. ''src/'' @ f @ ''.ts'') [''app'', ''services'', ''server''])"
  shows "''type-only'' \<in> set (dependencyTypes d)"
  using assms
  unfolding breaksRule_def compositionRoot_def fromApplies_def anyImporter_def anyImported_def moduleRule_fields
    importing.simps importedFile.simps option.case testPath_under [OF list.distinct(2)] testPath_named [OF list.distinct(2)]
  by (auto simp only: list_ex_iff hasNoneOf_def list.set)

lemma dateLibLives_obeyed:
  assumes "\<not> breaksRule ds dateLibLives d" and "prefix ''src/'' (importer d)"
    and "list_ex (\<lambda>l. sublist (''node_modules/'' @ l) (imported d)) [''dayjs'', ''luxon'', ''moment'', ''date-fns'', ''@js-joda'']"
  shows "importer d = ''src/foundation/time.ts''"
  using assms
  unfolding breaksRule_def dateLibLives_def fromApplies_def anyImporter_def anyImported_def moduleRule_fields
    importing.simps importedFile.simps option.case testPath_inside [OF list.distinct(2)] testPath_file
    testPath_AtStart startsWith_Chars
  by (auto simp only: list_ex_iff hasNoneOf_Nil list.set testPath_file)

text \<open>
  What else an accepted code base obeys: a file outside the modules that imports one is a
  composition point; nothing below the root takes a value from the application, the service
  container or the server; the date library is imported by the calendar alone; the login
  takes only types from the user module; and in the four financial modules the owners are
  imported by the service and by no other file.
\<close>

theorem accepted_imports_respect_the_layers:
  assumes cruise: "readsRules cruise" "acceptsGraph cruise ds" and d: "d \<in> set (graphOf ds)"
  shows "(prefix ''src/'' (importer d) \<longrightarrow> \<not> prefix ''src/modules/'' (importer d) \<longrightarrow>
      prefix ''src/modules/'' (imported d) \<longrightarrow> importer d \<in> set compositionPoints) \<and>
    (list_ex (\<lambda>l. prefix (''src/'' @ l @ ''/'') (importer d))
        [''modules'', ''db'', ''flags'', ''foundation'', ''graphql'', ''scheduler''] \<longrightarrow>
      imported d \<in> set (map (\<lambda>f. ''src/'' @ f @ ''.ts'') [''app'', ''services'', ''server'']) \<longrightarrow>
      ''type-only'' \<in> set (dependencyTypes d)) \<and>
    (prefix ''src/'' (importer d) \<longrightarrow>
      list_ex (\<lambda>l. sublist (''node_modules/'' @ l) (imported d)) [''dayjs'', ''luxon'', ''moment'', ''date-fns'', ''@js-joda''] \<longrightarrow>
      importer d = ''src/foundation/time.ts'') \<and>
    (moduleOf (importer d) = Some ''auth'' \<longrightarrow> moduleOf (imported d) = Some ''user'' \<longrightarrow>
      ''type-only'' \<in> set (dependencyTypes d)) \<and>
    (\<forall>m m'. m \<in> set financialModules \<longrightarrow> moduleOf (importer d) = Some m \<longrightarrow> moduleOf (imported d) = Some m' \<longrightarrow>
      m' \<noteq> m \<longrightarrow> importer d = ''src/modules/'' @ m @ ''/'' @ m @ ''.service.ts'')"
proof (intro conjI)
  have obeyed: "\<not> breaksRule (graphOf ds) r d"
    if "r \<in> set forbiddenRules" "groupIn (ruleFrom r) (importer d) = []" for r
    using obeyed_without_group [OF cruise d that] .
  have enter: "\<not> breaksRule (graphOf ds) modulesEnter d"
    by (rule obeyed) (simp_all add: forbiddenRules_def modulesEnter_def groupIn_def anyImporter_def groupOf_AtStart)
  have root: "\<not> breaksRule (graphOf ds) compositionRoot d"
    by (rule obeyed) (simp_all add: forbiddenRules_def compositionRoot_def groupIn_def anyImporter_def groupOf_AtStart)
  have date: "\<not> breaksRule (graphOf ds) dateLibLives d"
    by (rule obeyed) (simp_all add: forbiddenRules_def dateLibLives_def groupIn_def anyImporter_def groupOf_AtStart)
  have login: "\<not> breaksRule (graphOf ds) authToUser d"
    by (rule obeyed) (simp_all add: forbiddenRules_def authToUser_def)
  show "prefix ''src/'' (importer d) \<longrightarrow> \<not> prefix ''src/modules/'' (importer d) \<longrightarrow>
      prefix ''src/modules/'' (imported d) \<longrightarrow> importer d \<in> set compositionPoints"
    using enter by (auto simp: breaksRule_def modulesEnter_def fromApplies_def anyImporter_def anyImported_def
        anyModule_iff testPath_AtStart startsWith_Chars list_ex_iff startsWith_Seq_Chars startsWith_EndOfPath)
  show "list_ex (\<lambda>l. prefix (''src/'' @ l @ ''/'') (importer d))
        [''modules'', ''db'', ''flags'', ''foundation'', ''graphql'', ''scheduler''] \<longrightarrow>
      imported d \<in> set (map (\<lambda>f. ''src/'' @ f @ ''.ts'') [''app'', ''services'', ''server'']) \<longrightarrow>
      ''type-only'' \<in> set (dependencyTypes d)"
    using compositionRoot_obeyed [OF root] by blast
  show "prefix ''src/'' (importer d) \<longrightarrow>
      list_ex (\<lambda>l. sublist (''node_modules/'' @ l) (imported d)) [''dayjs'', ''luxon'', ''moment'', ''date-fns'', ''@js-joda''] \<longrightarrow>
      importer d = ''src/foundation/time.ts''"
    using dateLibLives_obeyed [OF date] by blast
  show "moduleOf (importer d) = Some ''auth'' \<longrightarrow> moduleOf (imported d) = Some ''user'' \<longrightarrow>
      ''type-only'' \<in> set (dependencyTypes d)"
    using login by (auto simp: breaksRule_def authToUser_def fromModules_applies slashFree_def anyImported_def
        inModules_iff hasNoneOf_def)
  show "\<forall>m m'. m \<in> set financialModules \<longrightarrow> moduleOf (importer d) = Some m \<longrightarrow> moduleOf (imported d) = Some m' \<longrightarrow>
      m' \<noteq> m \<longrightarrow> importer d = ''src/modules/'' @ m @ ''/'' @ m @ ''.service.ts''"
  proof (intro allI impI)
    fix m m' assume fin: "m \<in> set financialModules" and m: "moduleOf (importer d) = Some m"
      and m': "moduleOf (imported d) = Some m'" and ne: "m' \<noteq> m"
    from service_rule [OF fin] obtain nm where r: "importsLiveIn nm m (m @ ''.service'') (ownerModules m) \<in> set forbiddenRules"
      by blast
    note names = service_names [OF fin]
    have own: "m' \<in> set (ownerModules m)"
      using accepted_reach [OF cruise d m m' names(4)] names(1) ne by simp
    have "\<not> breaksRule (graphOf ds) (importsLiveIn nm m (m @ ''.service'') (ownerModules m)) d"
      by (rule obeyed [OF r]) (simp add: importsLiveIn_def)
    from importsLiveIn_obeyed [OF this m m' own names(2,3)]
    show "importer d = ''src/modules/'' @ m @ ''/'' @ m @ ''.service.ts''" by simp
  qed
qed

end
