(* ===== verification/ModuleImports.thy ===== *)
theory ModuleImports
  imports ModuleGraph
begin

text \<open>
  The imports of the services that compose modules, checked against the rules: the graph
  they form is accepted, so what the rules promise holds of it.
\<close>

section \<open>The imports of the composing services\<close>

text \<open>
  The imports of the services that compose modules, of the container that wires them and of
  the scheduler, resolved to the files they name; imports of packages are left out.
\<close>

definition valueImport :: "string \<Rightarrow> string \<times> string list" where
  "valueImport p = (p, [''local''])"

definition typeImport :: "string \<Rightarrow> string \<times> string list" where
  "typeImport p = (p, [''local'', ''type-only''])"

definition importsOf :: "string \<Rightarrow> (string \<times> string list) list \<Rightarrow> dependency list" where
  "importsOf p fs = map (\<lambda>f. \<lparr>importer = p, imported = fst f, dependencyTypes = snd f\<rparr>) fs"

definition checkoutServiceImports :: "dependency list" where
  "checkoutServiceImports = importsOf ''src/modules/commission-checkout/commission-checkout.service.ts''
    [typeImport ''src/db/db.ts'',
     valueImport ''src/db/lock-registry.ts'',
     typeImport ''src/db/locks.ts'',
     valueImport ''src/db/uow.ts'',
     valueImport ''src/modules/commission-type/commission-type.repo.ts'',
     valueImport ''src/modules/contract/contract.repo.ts'',
     valueImport ''src/modules/financial-ledger/financial-ledger.core.ts'',
     valueImport ''src/modules/financial-ledger/financial-ledger.repo.ts'',
     valueImport ''src/modules/order/order.repo.ts'',
     valueImport ''src/modules/slot/slot.repo.ts'',
     valueImport ''src/modules/transaction-flow/transaction-flow.core.ts'',
     valueImport ''src/modules/transaction-flow/transaction-flow.repo.ts'',
     valueImport ''src/modules/commission-checkout/commission-checkout.core.ts'',
     valueImport ''src/modules/commission-checkout/commission-checkout.repo.ts'']"

definition pointChargeServiceImports :: "dependency list" where
  "pointChargeServiceImports = importsOf ''src/modules/point-charge/point-charge.service.ts''
    [typeImport ''src/db/db.ts'',
     valueImport ''src/db/lock-registry.ts'',
     valueImport ''src/db/uow.ts'',
     valueImport ''src/modules/financial-ledger/financial-ledger.repo.ts'',
     valueImport ''src/modules/transaction-flow/transaction-flow.core.ts'',
     valueImport ''src/modules/transaction-flow/transaction-flow.repo.ts'',
     valueImport ''src/modules/point-charge/point-charge.core.ts'']"

definition oauthServiceImports :: "dependency list" where
  "oauthServiceImports = importsOf ''src/modules/auth/oauth.service.ts''
    [typeImport ''src/modules/user/user.service.ts'',
     typeImport ''src/modules/auth/oauth.provider.ts'',
     typeImport ''src/modules/auth/oauth.value.ts'']"

definition onboardingServiceImports :: "dependency list" where
  "onboardingServiceImports = importsOf ''src/modules/onboarding/onboarding.service.ts''
    [typeImport ''src/db/db.ts'',
     valueImport ''src/db/uow.ts'',
     typeImport ''src/flags/flag-registry.ts'',
     valueImport ''src/modules/post/post.repo.ts'',
     typeImport ''src/modules/user/user.service.ts'',
     valueImport ''src/modules/user/user.repo.ts'',
     valueImport ''src/modules/user/user.value.ts'',
     valueImport ''src/modules/onboarding/onboarding.content.ts'']"

definition composingImports :: "dependency list" where
  "composingImports = checkoutServiceImports @ pointChargeServiceImports @ oauthServiceImports @ onboardingServiceImports"

text \<open>None of these services is imported by one of them, so none lies on a cycle.\<close>

lemma no_cycle_at_source:
  assumes "\<And>e. e \<in> set ds \<Longrightarrow> importer e \<noteq> imported d" and "imported d \<noteq> importer d"
  shows "\<not> onCycle ds ts d"
proof -
  have "reachesWithin n (filter (hasNoneOf ts) ds) (imported d) b \<Longrightarrow> imported d = b" for n b
    using assms(1) by (cases n) (auto simp: list_ex_iff)
  then show ?thesis using assms(2) by (auto simp: onCycle_def)
qed

lemma composing_rules_obeyed:
  "list_all (\<lambda>d. inGraph d \<and> list_all (\<lambda>r. \<not> breaksRule [] r d) (tl forbiddenRules)) composingImports"
  by code_simp

lemma composingImports_sources:
  "list_all (\<lambda>d. list_all (\<lambda>e. importer e \<noteq> imported d) composingImports \<and> imported d \<noteq> importer d) composingImports"
  by code_simp

lemma breaksRule_acyclic: "\<not> t_circular (ruleTo r) \<Longrightarrow> breaksRule ds r d = breaksRule [] r d"
  by (simp add: breaksRule_def)

lemma tl_rules_acyclic: "list_all (\<lambda>r. \<not> t_circular (ruleTo r)) (tl forbiddenRules)"
  by code_simp

abbreviation documentedRun :: cruiser where
  "documentedRun \<equiv> \<lambda>ds. breaksRule (graphOf ds)"

lemma composingImports_graph: "graphOf composingImports = composingImports"
  using composing_rules_obeyed by (auto simp: graphOf_def list_all_iff filter_id_conv)

lemma composingImports_accepted:
  shows "readsRules documentedRun" and "acceptsGraph documentedRun composingImports"
proof -
  show "readsRules documentedRun" by (simp add: readsRules_def)
  have rules: "forbiddenRules = noRuntimeCycles # tl forbiddenRules" by (simp add: forbiddenRules_def)
  have "\<not> breaksRule composingImports r d" if d: "d \<in> set composingImports" and r: "r \<in> set forbiddenRules" for r d
  proof (cases "r = noRuntimeCycles")
    case True
    have "\<not> onCycle composingImports [''type-only''] d"
      using composingImports_sources d by (intro no_cycle_at_source) (auto simp: list_all_iff)
    then show ?thesis by (simp add: True breaksRule_def noRuntimeCycles_def anyImported_def)
  next
    case False
    with r rules have "r \<in> set (tl forbiddenRules)" by (metis set_ConsD)
    with d composing_rules_obeyed tl_rules_acyclic show ?thesis
      unfolding list_all_iff by (metis breaksRule_acyclic)
  qed
  then show "acceptsGraph documentedRun composingImports"
    by (simp add: acceptsGraph_def composingImports_graph list_all_iff)
qed

theorem module_imports_go_one_way_witness:
  "acyclic (moduleEdges composingImports) \<and> (''onboarding'', ''user'') \<in> moduleEdges composingImports"
proof
  have "plainModules composingImports"
    unfolding plainModules_def composingImports_graph by code_simp
  with module_imports_go_one_way [OF composingImports_accepted, THEN conjunct2]
  show "acyclic (moduleEdges composingImports)" by simp
  have "list_ex (\<lambda>d. moduleOf (importer d) = Some ''onboarding'' \<and> moduleOf (imported d) = Some ''user'') composingImports"
    by code_simp
  then show "(''onboarding'', ''user'') \<in> moduleEdges composingImports"
    by (auto simp: moduleEdges_def composingImports_graph list_ex_iff)
qed

theorem accepted_imports_respect_the_layers_witness:
  "list_all (\<lambda>d. moduleOf (importer d) = Some ''commission-checkout'' \<longrightarrow> moduleOf (imported d) = Some ''slot'' \<longrightarrow>
     importer d = ''src/modules/commission-checkout/commission-checkout.service.ts'') composingImports \<and>
   list_ex (\<lambda>d. moduleOf (importer d) = Some ''commission-checkout'' \<and> moduleOf (imported d) = Some ''slot'') composingImports"
proof
  show "list_all (\<lambda>d. moduleOf (importer d) = Some ''commission-checkout'' \<longrightarrow> moduleOf (imported d) = Some ''slot'' \<longrightarrow>
     importer d = ''src/modules/commission-checkout/commission-checkout.service.ts'') composingImports"
    unfolding list_all_iff
  proof (intro ballI impI)
    fix d assume "d \<in> set composingImports"
      and mods: "moduleOf (importer d) = Some ''commission-checkout''" "moduleOf (imported d) = Some ''slot''"
    then have d: "d \<in> set (graphOf composingImports)" by (simp add: composingImports_graph)
    show "importer d = ''src/modules/commission-checkout/commission-checkout.service.ts''"
      using accepted_imports_respect_the_layers [OF composingImports_accepted d] mods
      by (simp add: financialModules_def)
  qed
  show "list_ex (\<lambda>d. moduleOf (importer d) = Some ''commission-checkout'' \<and> moduleOf (imported d) = Some ''slot'')
    composingImports" by code_simp
qed

end
