(* ===== verification/OperationLog.thy ===== *)
theory OperationLog
  imports GraphqlContext JsText
begin

text \<open>
  The per-operation log of \<open>src/graphql/plugins/operation-log.ts\<close>: which variables are redacted,
  and which lines and measurements an executed operation leaves behind.
\<close>

section \<open>Redaction\<close>

definition SENSITIVE_SUBSTRINGS :: "string list" where
  "SENSITIVE_SUBSTRINGS = [''password'', ''passwd'', ''secret'', ''token'', ''apikey'', ''authorization'',
     ''cookie'', ''credential'', ''privatekey'', ''ssn'']"

text \<open>The characters \<open>[a-z0-9]\<close>.\<close>

definition alnum :: "char \<Rightarrow> bool" where
  "alnum c \<longleftrightarrow> (97 \<le> codeOf c \<and> codeOf c \<le> 122) \<or> (48 \<le> codeOf c \<and> codeOf c \<le> 57)"

definition normalizeKey :: "string \<Rightarrow> string" where
  "normalizeKey key = filter alnum (toLowerCase key)"

definition isSensitiveKey :: "string \<Rightarrow> bool" where
  "isSensitiveKey key = list_ex (\<lambda>s. includesText s (normalizeKey key)) SENSITIVE_SUBSTRINGS"

definition REDACTED :: js where
  "REDACTED = JStr ''[REDACTED]''"

fun redactVariables :: "js \<Rightarrow> js" where
  "redactVariables (JArray vs) = JArray (map redactVariables vs)"
| "redactVariables (JObject fs) =
     JObject (map (\<lambda>(key, val). (key, if isSensitiveKey key then REDACTED else redactVariables val)) fs)"
| "redactVariables JUndefined = JUndefined"
| "redactVariables JNull = JNull"
| "redactVariables (JBool b) = JBool b"
| "redactVariables (JNum n) = JNum n"
| "redactVariables (JStr t) = JStr t"

section \<open>The plugin\<close>

text \<open>
  What execution yields: an incremental result (an async iterator), or a result whose
  \<open>errors\<close> are absent or a list.
\<close>

datatype execution_result = Incremental | Completed "thrown list option"

text \<open>A number with a fraction: a mantissa and its decimal places; \<open>(25, 1)\<close> is 2.5.\<close>

type_synonym decimal = "int \<times> nat"

definition overThousand :: "decimal \<Rightarrow> decimal" where
  "overThousand = (\<lambda>(mantissa, places). (mantissa, places + 3))"

record operation_line =
  ol_gqlOperationName :: string
  ol_gqlOperationType :: string
  ol_durationMs :: decimal
  ol_errorCount :: nat

datatype log_entry =
    LogDebug operation_line js
  | LogWarn operation_line "thrown list option"
  | LogInfo operation_line

text \<open>A measurement of the histogram: seconds (the line above has milliseconds), operation type and status.\<close>

record measurement =
  ms_seconds :: decimal
  ms_operationType :: string
  ms_status :: string

fun operationText :: "OperationTypeNode \<Rightarrow> string" where
  "operationText OpQuery = ''query''"
| "operationText OpMutation = ''mutation''"
| "operationText OpSubscription = ''subscription''"

definition operationType :: "operation_node option \<Rightarrow> string" where
  "operationType operation = (case operation of Some node \<Rightarrow> operationText (on_operation node) | None \<Rightarrow> ''other'')"

definition operationName :: "string option \<Rightarrow> operation_node option \<Rightarrow> string" where
  "operationName requested operation = (case requested of Some name \<Rightarrow> name
    | None \<Rightarrow> (case operation of
        Some node \<Rightarrow> (case on_name node of Some name \<Rightarrow> name | None \<Rightarrow> ''anonymous'')
      | None \<Rightarrow> ''anonymous''))"

text \<open>
  A logger is absent or there, and answers \<open>isLevelEnabled\<close> when it has that method;
  \<open>durationMs\<close> is the time since \<open>onExecute\<close>, which the runtime rounds to a tenth of a
  millisecond.
\<close>

record logger =
  lg_isLevelEnabled :: "(string \<Rightarrow> bool) option"

definition debugEnabled :: "logger option \<Rightarrow> bool" where
  "debugEnabled lg = (case lg of None \<Rightarrow> False
    | Some l \<Rightarrow> (case lg_isLevelEnabled l of None \<Rightarrow> False | Some enabled \<Rightarrow> enabled ''debug''))"

definition onExecuteDone ::
  "logger option \<Rightarrow> operation_node option \<Rightarrow> string option \<Rightarrow> js option \<Rightarrow> decimal \<Rightarrow> execution_result \<Rightarrow>
   log_entry list \<times> measurement list" where
  "onExecuteDone lg operation requested variableValues durationMs result =
     (case result of
        Incremental \<Rightarrow> ([], [])
      | Completed errors \<Rightarrow>
         (let errorCount = (case errors of None \<Rightarrow> 0 | Some es \<Rightarrow> length es);
              status = (if errorCount > 0 then ''error'' else ''ok'');
              line = \<lparr>ol_gqlOperationName = operationName requested operation,
                ol_gqlOperationType = operationType operation, ol_durationMs = durationMs, ol_errorCount = errorCount\<rparr>;
              debug = (if debugEnabled lg
                then [LogDebug line (redactVariables (case variableValues of Some v \<Rightarrow> v | None \<Rightarrow> JObject []))] else []);
              outcome = (if lg = None then [] else if errorCount > 0 then [LogWarn line errors] else [LogInfo line])
          in (debug @ outcome, [\<lparr>ms_seconds = overThousand durationMs, ms_operationType = operationType operation, ms_status = status\<rparr>])))"

text \<open>\<open>onExecute\<close>: the operation is looked up in the document the request names.\<close>

definition useOperationLog ::
  "'doc graphql \<Rightarrow> logger option \<Rightarrow> 'doc \<Rightarrow> string option \<Rightarrow> js option \<Rightarrow> decimal \<Rightarrow> execution_result \<Rightarrow>
   log_entry list \<times> measurement list" where
  "useOperationLog lib lg doc requested variableValues =
     onExecuteDone lg (gq_operationAST lib doc requested) requested variableValues"

section \<open>What a redacted value shows\<close>

text \<open>A path into a value, and the value it leads to.\<close>

datatype js_step = Key string | Index nat

fun valueAt :: "js_step list \<Rightarrow> js \<Rightarrow> js option" where
  "valueAt [] v = Some v"
| "valueAt (Key k # path) (JObject fs) = (case map_of fs k of None \<Rightarrow> None | Some v \<Rightarrow> valueAt path v)"
| "valueAt (Index i # path) (JArray vs) = (if i < length vs then valueAt path (vs ! i) else None)"
| "valueAt _ _ = None"

fun sensitiveStep :: "js_step \<Rightarrow> bool" where
  "sensitiveStep (Key k) = isSensitiveKey k"
| "sensitiveStep (Index i) = False"

text \<open>What redaction shows at a path: nothing below a sensitive key but the mark itself.\<close>

fun shownAt :: "js_step list \<Rightarrow> js \<Rightarrow> js option" where
  "shownAt [] v = Some (redactVariables v)"
| "shownAt (step # path) v =
     (case valueAt [step] v of
        None \<Rightarrow> None
      | Some w \<Rightarrow> (if sensitiveStep step then (if path = [] then Some REDACTED else None) else shownAt path w))"

lemma map_of_redacted:
  "map_of (map (\<lambda>(key, val). (key, if isSensitiveKey key then REDACTED else redactVariables val)) fs) k =
     map_option (\<lambda>val. if isSensitiveKey k then REDACTED else redactVariables val) (map_of fs k)"
  by (induction fs) auto

lemma valueAt_REDACTED: "valueAt path REDACTED = (if path = [] then Some REDACTED else None)"
  by (cases path) (auto simp: REDACTED_def)

lemma valueAt_redacted: "valueAt path (redactVariables v) = shownAt path v"
proof (induction path arbitrary: v)
  case Nil
  then show ?case by simp
next
  case (Cons step path)
  show ?case
  proof (cases step)
    case (Key k)
    then show ?thesis
      by (cases v) (auto simp: Cons.IH map_of_redacted valueAt_REDACTED split: option.split)
  next
    case (Index i)
    then show ?thesis by (cases v) (auto simp: Cons.IH)
  qed
qed

lemma redactVariables_idem: "redactVariables (redactVariables v) = redactVariables v"
  by (induction v rule: redactVariables.induct) (auto simp: REDACTED_def)

lemma shownAt_below_sensitive:
  "list_ex sensitiveStep path \<Longrightarrow> shownAt path v \<in> {None, Some REDACTED}"
  by (induction path arbitrary: v) (auto split: option.split)

lemma shownAt_elsewhere:
  "\<not> list_ex sensitiveStep path \<Longrightarrow> shownAt path v = map_option redactVariables (valueAt path v)"
proof (induction path arbitrary: v)
  case Nil
  then show ?case by simp
next
  case (Cons step path)
  then show ?case by (cases step; cases v) (auto split: option.split)
qed

lemma alnum_set: "alnum = (\<lambda>c. c \<in> set ''abcdefghijklmnopqrstuvwxyz0123456789'')"
proof
  fix c
  have chars: "map char_of ([97..<123] @ [48..<58]) = ''abcdefghijklmnopqrstuvwxyz0123456789''"
    by code_simp
  have "alnum c \<longleftrightarrow> (of_char c :: nat) \<in> set ([97..<123] @ [48..<58])"
    unfolding alnum_def codeOf_def set_append set_upt Un_iff atLeastLessThan_iff by linarith
  also have "\<dots> \<longleftrightarrow> c \<in> char_of ` set ([97..<123] @ [48..<58] :: nat list)"
  proof
    assume "(of_char c :: nat) \<in> set ([97..<123] @ [48..<58])"
    then have "char_of (of_char c :: nat) \<in> char_of ` set ([97..<123] @ [48..<58] :: nat list)" by (rule imageI)
    then show "c \<in> char_of ` set ([97..<123] @ [48..<58] :: nat list)" by (simp only: char_of_char)
  next
    assume "c \<in> char_of ` set ([97..<123] @ [48..<58] :: nat list)"
    then obtain n :: nat where n: "c = char_of n" "n \<in> set ([97..<123] @ [48..<58])" by blast
    then have "n < 256" unfolding set_append set_upt Un_iff atLeastLessThan_iff by linarith
    then have "(of_char c :: nat) = n" by (simp add: n(1) of_char_of)
    with n(2) show "(of_char c :: nat) \<in> set ([97..<123] @ [48..<58])" by (simp only:)
  qed
  finally show "alnum c = (c \<in> set ''abcdefghijklmnopqrstuvwxyz0123456789'')"
    by (simp only: set_map [symmetric] chars)
qed

text \<open>A key is sensitive when one of the words occurs in it, whatever its case and its separators.\<close>

lemma isSensitiveKey_iff:
  "isSensitiveKey key \<longleftrightarrow> (\<exists>word \<in> set SENSITIVE_SUBSTRINGS. sublist word (normalizeKey key))"
  by (auto simp: isSensitiveKey_def list_ex_iff includesText_iff)

text \<open>What an original value and its redacted form share, leaf by leaf and container by container.\<close>

lemma redacted_leaf_or_container:
  "case v of
      JArray vs \<Rightarrow> \<exists>ws. redactVariables v = JArray ws \<and> length ws = length vs
    | JObject fs \<Rightarrow> \<exists>gs. redactVariables v = JObject gs \<and> map fst gs = map fst fs \<and>
        (\<forall>(k, w) \<in> set gs. isSensitiveKey k \<longrightarrow> w = REDACTED)
    | _ \<Rightarrow> redactVariables v = v"
  by (cases v) (auto simp: split_beta comp_def)

text \<open>C36: redaction shows no secret and hides nothing else. A key is sensitive when one of the ten
  words occurs in it, in any case and with any separators. At every path of the redacted value
  that passes a sensitive key, at any depth and inside lists, there is nothing but the mark. At
  every other path there is something exactly when there is in the original: a leaf (a text, a
  number, a boolean, null or undefined) is the original leaf, a list has the original's length,
  and an object the original's keys in their order, each sensitive one with the mark as its
  value. Redacting twice is redacting once.
\<close>

theorem redaction_hides_exactly_the_secrets:
  "(list_ex sensitiveStep path \<longrightarrow> valueAt path (redactVariables v) \<in> {None, Some (JStr ''[REDACTED]'')}) \<and>
   (\<not> list_ex sensitiveStep path \<longrightarrow>
      (case valueAt path v of
        None \<Rightarrow> valueAt path (redactVariables v) = None
      | Some (JArray vs) \<Rightarrow> (\<exists>ws. valueAt path (redactVariables v) = Some (JArray ws) \<and> length ws = length vs)
      | Some (JObject fs) \<Rightarrow> (\<exists>gs. valueAt path (redactVariables v) = Some (JObject gs) \<and> map fst gs = map fst fs \<and>
          (\<forall>(k, w) \<in> set gs. sensitiveStep (Key k) \<longrightarrow> w = JStr ''[REDACTED]''))
      | Some leaf \<Rightarrow> valueAt path (redactVariables v) = Some leaf)) \<and>
   (sensitiveStep (Key k) \<longleftrightarrow>
      (\<exists>word \<in> {''password'', ''passwd'', ''secret'', ''token'', ''apikey'', ''authorization'',
         ''cookie'', ''credential'', ''privatekey'', ''ssn''}.
       sublist word (filter (\<lambda>c. c \<in> set ''abcdefghijklmnopqrstuvwxyz0123456789'') (toLowerCase k)))) \<and>
   redactVariables (redactVariables v) = redactVariables v"
proof (intro conjI impI)
  assume "list_ex sensitiveStep path"
  with shownAt_below_sensitive [of path v]
  show "valueAt path (redactVariables v) \<in> {None, Some (JStr ''[REDACTED]'')}"
    by (simp add: valueAt_redacted REDACTED_def)
next
  assume "\<not> list_ex sensitiveStep path"
  then have at: "valueAt path (redactVariables v) = map_option redactVariables (valueAt path v)"
    by (simp add: valueAt_redacted shownAt_elsewhere)
  show "case valueAt path v of
        None \<Rightarrow> valueAt path (redactVariables v) = None
      | Some (JArray vs) \<Rightarrow> (\<exists>ws. valueAt path (redactVariables v) = Some (JArray ws) \<and> length ws = length vs)
      | Some (JObject fs) \<Rightarrow> (\<exists>gs. valueAt path (redactVariables v) = Some (JObject gs) \<and> map fst gs = map fst fs \<and>
          (\<forall>(k, w) \<in> set gs. sensitiveStep (Key k) \<longrightarrow> w = JStr ''[REDACTED]''))
      | Some leaf \<Rightarrow> valueAt path (redactVariables v) = Some leaf"
  proof (cases "valueAt path v")
    case None
    then show ?thesis by (simp add: at)
  next
    case (Some w)
    then show ?thesis
      using redacted_leaf_or_container [of w] by (cases w) (auto simp: at REDACTED_def)
  qed
next
  show "sensitiveStep (Key k) \<longleftrightarrow>
      (\<exists>word \<in> {''password'', ''passwd'', ''secret'', ''token'', ''apikey'', ''authorization'',
         ''cookie'', ''credential'', ''privatekey'', ''ssn''}.
       sublist word (filter (\<lambda>c. c \<in> set ''abcdefghijklmnopqrstuvwxyz0123456789'') (toLowerCase k)))"
    by (simp add: isSensitiveKey_iff SENSITIVE_SUBSTRINGS_def normalizeKey_def alnum_set)
qed (rule redactVariables_idem)

theorem redaction_hides_exactly_the_secrets_witness:
  "valueAt [Key ''input'', Index 0, Key ''Access-Token'']
     (redactVariables (JObject [(''input'', JArray [JObject [(''Access-Token'', JStr ''abc''), (''shipping'', JStr ''x'')]])]))
       \<in> {None, Some (JStr ''[REDACTED]'')} \<and>
   valueAt [Key ''input'', Index 0, Key ''shipping'']
     (redactVariables (JObject [(''input'', JArray [JObject [(''Access-Token'', JStr ''abc''), (''shipping'', JStr ''x'')]])]))
       = Some (JStr ''x'')"
proof
  let ?v = "JObject [(''input'', JArray [JObject [(''Access-Token'', JStr ''abc''), (''shipping'', JStr ''x'')]])]"
  have h: "list_ex sensitiveStep [Key ''input'', Index 0, Key ''Access-Token'']"
    "\<not> list_ex sensitiveStep [Key ''input'', Index 0, Key ''shipping'']"
    "valueAt [Key ''input'', Index 0, Key ''shipping''] ?v = Some (JStr ''x'')"
    by code_simp+
  show "valueAt [Key ''input'', Index 0, Key ''Access-Token''] (redactVariables ?v) \<in> {None, Some (JStr ''[REDACTED]'')}"
    using redaction_hides_exactly_the_secrets [where path = "[Key ''input'', Index 0, Key ''Access-Token'']" and v = ?v] h(1)
    by blast
  show "valueAt [Key ''input'', Index 0, Key ''shipping''] (redactVariables ?v) = Some (JStr ''x'')"
    using redaction_hides_exactly_the_secrets [where path = "[Key ''input'', Index 0, Key ''shipping'']" and v = ?v]
      h(2) unfolding h(3) option.case js.case by blast
qed

text \<open>every executed operation leaves one measurement, whose labels come from a fixed set whatever the
  client sends, and with a logger exactly one line beside the debug line: a warning with the
  errors when there are any, information otherwise. Variables appear only when the debug level
  is on, and only redacted.
\<close>

theorem one_line_per_operation:
  "case useOperationLog lib lg doc requested variableValues durationMs (Completed errors) of (lines, measured) \<Rightarrow>
     (\<exists>m. measured = [m] \<and> ms_seconds m = (fst durationMs, snd durationMs + 3) \<and> ms_operationType m \<in> {''query'', ''mutation'', ''subscription'', ''other''} \<and>
        ms_status m = (if errors \<in> {None, Some []} then ''ok'' else ''error'')) \<and>
     length (filter (\<lambda>l. case l of LogDebug _ _ \<Rightarrow> False | _ \<Rightarrow> True) lines) = (if lg = None then 0 else 1) \<and>
     ((\<exists>line es. LogWarn line es \<in> set lines) \<longleftrightarrow> lg \<noteq> None \<and> errors \<notin> {None, Some []}) \<and>
     (\<forall>line v. LogDebug line v \<in> set lines \<longrightarrow> debugEnabled lg \<and> redactVariables v = v)"
proof -
  have "operationType (gq_operationAST lib doc requested) \<in> {''query'', ''mutation'', ''subscription'', ''other''}"
  proof (cases "gq_operationAST lib doc requested")
    case (Some node)
    then show ?thesis by (cases "on_operation node") (simp_all add: operationType_def)
  qed (simp add: operationType_def)
  then show ?thesis
    by (cases errors) (auto simp: useOperationLog_def onExecuteDone_def Let_def redactVariables_idem overThousand_def split_beta)
qed

theorem one_line_per_operation_witness:
  "\<exists>line v m. useOperationLog sampleParser (Some \<lparr>lg_isLevelEnabled = Some (\<lambda>level. True)\<rparr>) ''mutation'' None
      (Some (JObject [(''password'', JStr ''x'')])) (25, 1) (Completed None) = ([LogDebug line v, LogInfo line], [m]) \<and>
     redactVariables v = v \<and> ms_status m = ''ok'' \<and> ms_seconds m = (25, 4)"
  using one_line_per_operation [where lib = sampleParser and lg = "Some \<lparr>lg_isLevelEnabled = Some (\<lambda>level. True)\<rparr>"
      and doc = "''mutation''" and requested = None and variableValues = "Some (JObject [(''password'', JStr ''x'')])"
      and durationMs = "(25, 1)" and errors = None]
  by (auto simp: useOperationLog_def onExecuteDone_def debugEnabled_def Let_def overThousand_def)

end
