(* ===== verification/Auth.thy ===== *)
theory Auth
  imports UserLaws
begin

text \<open>
  The OAuth login, the one surface that is not GraphQL: the callback value
  (\<open>src/modules/auth/oauth.value.ts\<close>), the provider port (\<open>oauth.provider.ts\<close>), the use case
  (\<open>oauth.service.ts\<close>) and the two routes (\<open>routes/oauth.route.ts\<close>), whose handler turns
  every throw into a response.
\<close>

section \<open>Callback\<close>

record OAuthCallbackQuery =
  q_code :: js
  q_state :: js
  q_error :: js

record OAuthCallback =
  cb_code :: string
  cb_state :: string

record OAuthProfile =
  pf_providerAccountId :: string
  pf_email :: string
  pf_name :: "string option"

definition OAuthError :: "string \<Rightarrow> thrown" where
  "OAuthError message = DomainError ''OAuthError'' message ''INVALID_OAUTH_CALLBACK''"

definition asNonEmptyString :: "js \<Rightarrow> string option" where
  "asNonEmptyString v = (case v of JStr t \<Rightarrow> (if 0 < length t then Some t else None) | _ \<Rightarrow> None)"

definition parseOAuthCallback :: "OAuthCallbackQuery \<Rightarrow> thrown + OAuthCallback" where
  "parseOAuthCallback query =
     (case asNonEmptyString (q_error query) of
        Some error \<Rightarrow> Inl (OAuthError (''OAuth provider returned an error: '' @ error))
      | None \<Rightarrow> (case (asNonEmptyString (q_code query), asNonEmptyString (q_state query)) of
          (Some c, Some st) \<Rightarrow> Inr \<lparr>cb_code = c, cb_state = st\<rparr>
        | _ \<Rightarrow> Inl (OAuthError ''OAuth callback is missing the code or state parameter'')))"

section \<open>Provider\<close>

record OAuthTokens =
  tok_accessToken :: string
  tok_idToken :: "string option"
  tok_expiresIn :: "int option"

record GoogleOAuthClient =
  buildAuthUrl :: "string \<Rightarrow> thrown + string"
  exchangeCode :: "string \<Rightarrow> thrown + OAuthTokens"
  fetchProfile :: "OAuthTokens \<Rightarrow> thrown + OAuthProfile"

definition notImplemented :: "string \<Rightarrow> thrown" where
  "notImplemented operation = PlainError ''Error''
     (''GoogleOAuthClient.'' @ operation @ '' not implemented: configure Google OAuth'')"

definition stubGoogleOAuthClient :: GoogleOAuthClient where
  "stubGoogleOAuthClient = \<lparr>buildAuthUrl = (\<lambda>_. Inl (notImplemented ''buildAuthUrl'')),
     exchangeCode = (\<lambda>_. Inl (notImplemented ''exchangeCode'')),
     fetchProfile = (\<lambda>_. Inl (notImplemented ''fetchProfile''))\<rparr>"

section \<open>Use case\<close>

definition startUrl :: "GoogleOAuthClient \<Rightarrow> string \<Rightarrow> thrown + string" where
  "startUrl google st = buildAuthUrl google st"

definition completeLogin :: "engine \<Rightarrow> GoogleOAuthClient \<Rightarrow> OAuthCallback \<Rightarrow> user_row dbtx" where
  "completeLogin eng google callback =
     bindT (liftT (exchangeCode google (cb_code callback))) (\<lambda>tokens.
     bindT (liftT (fetchProfile google tokens)) (\<lambda>profile.
     findOrCreateByEmail eng \<lparr>cu_email = pf_email profile, cu_name = pf_name profile\<rparr>))"

section \<open>Routes\<close>

datatype response = Redirect string | Reply int js

text \<open>The beginning of the flow: \<open>uuid\<close> is what \<open>randomUUID()\<close> yields; a throw is left to the framework.\<close>

definition googleOAuthStart :: "GoogleOAuthClient \<Rightarrow> string \<Rightarrow> thrown + response" where
  "googleOAuthStart google uuid = rbind (startUrl google uuid) (\<lambda>url. Inr (Redirect url))"

text \<open>
  The callback runs on the database, the lines of the request's log and the world of the error
  reporter, and always answers.
\<close>

definition googleOAuthCallback ::
  "engine \<Rightarrow> GoogleOAuthClient \<Rightarrow> 'w reporter \<Rightarrow> OAuthCallbackQuery \<Rightarrow> db \<times> thrown list \<times> 'w \<Rightarrow>
   response \<times> (db \<times> thrown list \<times> 'w)" where
  "googleOAuthCallback eng google report query = (\<lambda>(s, log, w).
     case bindT (liftT (parseOAuthCallback query)) (completeLogin eng google) s of
       Inr (user, s') \<Rightarrow> (Reply 200 (JObject [(''userId'', JNum (JInt (u_id user))), (''email'', JStr (u_email user)),
         (''status'', JStr (u_status user))]), (s', log, w))
     | Inl e \<Rightarrow>
         (if isDomainError (toJs e)
          then (Reply 400 (JObject [(''code'', jsProp ''code'' (toJs e)), (''message'', jsProp ''message'' (toJs e))]),
            (s, log, w))
          else (Reply 500 (JObject [(''code'', JStr ''INTERNAL''), (''message'', JStr ''Internal Server Error'')]),
            (s, log @ [e], snd (report (toJs e) (JObject [(''route'', JStr ''google-oauth-callback'')]) w)))))"

section \<open>Guarantees\<close>

lemma parseOAuthCallback_eq_Inr:
  "parseOAuthCallback query = Inr cb \<longleftrightarrow> asNonEmptyString (q_error query) = None \<and>
     q_code query = JStr (cb_code cb) \<and> cb_code cb \<noteq> [] \<and> q_state query = JStr (cb_state cb) \<and> cb_state cb \<noteq> []"
  by (cases cb) (auto simp: parseOAuthCallback_def asNonEmptyString_def split: js.splits if_splits)

lemma parseOAuthCallback_Inl: "parseOAuthCallback query = Inl e \<Longrightarrow> \<exists>m. e = OAuthError m"
  by (auto simp: parseOAuthCallback_def split: option.splits)

text \<open>the callback answers every query and hides what it must: 200 with the provisioned user on
  success; 400 with the code and the message of a domain error, which is the answer to every
  malformed query, with the database untouched and nothing reported; and otherwise 500 with one
  fixed body that says nothing of the error, which is logged and reported once.
\<close>

theorem oauth_callback_outcomes:
  "case googleOAuthCallback eng google report query (s, log, w) of (answer, s', log', w') \<Rightarrow>
     (\<exists>user. answer = Reply 200 (JObject [(''userId'', JNum (JInt (u_id user))), (''email'', JStr (u_email user)),
         (''status'', JStr (u_status user))]) \<and> user \<in> set (users s') \<and>
         asNonEmptyString (q_error query) = None \<and> log' = log \<and> w' = w) \<or>
     (\<exists>code message. answer = Reply 400 (JObject [(''code'', code), (''message'', message)]) \<and>
         s' = s \<and> log' = log \<and> w' = w) \<or>
     (\<exists>e. answer = Reply 500 (JObject [(''code'', JStr ''INTERNAL''), (''message'', JStr ''Internal Server Error'')]) \<and>
         \<not> isDomainError (toJs e) \<and> s' = s \<and> log' = log @ [e] \<and>
         w' = snd (report (toJs e) (JObject [(''route'', JStr ''google-oauth-callback'')]) w) \<and>
         (\<exists>cb. parseOAuthCallback query = Inr cb))"
proof (cases "bindT (liftT (parseOAuthCallback query)) (completeLogin eng google) s")
  case (Inr z)
  then obtain user s' where z: "bindT (liftT (parseOAuthCallback query)) (completeLogin eng google) s = Inr (user, s')"
    by (metis surj_pair)
  then obtain cb d where cb: "parseOAuthCallback query = Inr cb" and
    w: "upsertByEmail eng d s = Inr (user, s')"
    by (auto simp: bindT_eq_Inr liftT_eq_Inr completeLogin_def findOrCreateByEmail_def)
  have "user \<in> set (users s')"
  proof (cases "findRow (\<lambda>u. u_email u = uw_email d) (users s)")
    case None
    with w show ?thesis by (auto simp: upsertByEmail_def insertUser_def Let_def split: if_splits)
  next
    case (Some v)
    with upsert_found [OF Some] w show ?thesis by (auto dest: findRow_Some)
  qed
  moreover from z have "googleOAuthCallback eng google report query (s, log, w) =
      (Reply 200 (JObject [(''userId'', JNum (JInt (u_id user))), (''email'', JStr (u_email user)),
         (''status'', JStr (u_status user))]), (s', log, w))"
    by (simp add: googleOAuthCallback_def)
  moreover from cb have "asNonEmptyString (q_error query) = None" by (simp add: parseOAuthCallback_eq_Inr)
  ultimately show ?thesis by auto
next
  case (Inl e)
  show ?thesis
  proof (cases "isDomainError (toJs e)")
    case False
    have "\<exists>cb. parseOAuthCallback query = Inr cb"
    proof (cases "parseOAuthCallback query")
      case (Inl e')
      with \<open>bindT _ _ s = Inl e\<close> have "e = e'" by (simp add: bindT_def)
      with parseOAuthCallback_Inl [OF Inl] False show ?thesis by (auto simp: OAuthError_def)
    qed simp
    with Inl False show ?thesis by (simp add: googleOAuthCallback_def)
  qed (simp add: googleOAuthCallback_def Inl)
qed

text \<open>a login repeated is the same login: once an account answered a profile, every later login
  with an e-mail of the same normal form answers that account and changes nothing.
\<close>

theorem repeated_login_is_same_user:
  assumes "findOrCreateByEmail eng input s = Inr (user, s')"
    "parseEmail (cu_email again) = parseEmail (cu_email input)"
  shows "findOrCreateByEmail eng again s' = Inr (user, s')"
proof -
  from assms(1) obtain email where mail: "parseEmail (cu_email input) = Inr email" and
    w: "upsertByEmail eng \<lparr>uw_email = email, uw_name = cu_name input\<rparr> s = Inr (user, s')"
    by (auto simp: findOrCreateByEmail_def bindT_eq_Inr liftT_eq_Inr toWriteData_def rbind_eq_Inr)
  have "findRow (\<lambda>u. u_email u = email) (users s') = Some user"
  proof (cases "findRow (\<lambda>u. u_email u = email) (users s)")
    case None
    with w show ?thesis by (auto simp: upsertByEmail_def insertUser_def Let_def findRow_append split: if_splits)
  next
    case (Some v)
    with upsert_found [of "\<lparr>uw_email = email, uw_name = cu_name input\<rparr>" s v eng] w show ?thesis by simp
  qed
  then have "upsertByEmail eng \<lparr>uw_email = email, uw_name = cu_name again\<rparr> s' = Inr (user, s')"
    by (intro upsert_found) simp
  with mail assms(2) show ?thesis by (simp add: findOrCreateByEmail_def toWriteData_def bindT_def)
qed

definition sampleGoogle :: GoogleOAuthClient where
  "sampleGoogle = \<lparr>buildAuthUrl = (\<lambda>st. Inr (''https://accounts/'' @ st)),
     exchangeCode = (\<lambda>c. Inr \<lparr>tok_accessToken = c, tok_idToken = None, tok_expiresIn = None\<rparr>),
     fetchProfile = (\<lambda>t. Inr \<lparr>pf_providerAccountId = ''1'', pf_email = ''New@x.org'', pf_name = None\<rparr>)\<rparr>"

theorem repeated_login_is_same_user_witness:
  "\<exists>user s'. findOrCreateByEmail refEngine \<lparr>cu_email = ''New@x.org'', cu_name = None\<rparr> sampleUsers = Inr (user, s') \<and>
     findOrCreateByEmail refEngine \<lparr>cu_email = '' NEW@x.org'', cu_name = Some ''N''\<rparr> s' = Inr (user, s')"
proof -
  let ?first = "\<lparr>cu_email = ''New@x.org'', cu_name = None\<rparr>"
  have "case findOrCreateByEmail refEngine ?first sampleUsers of Inl e \<Rightarrow> False | Inr z \<Rightarrow> True" by code_simp
  then obtain user s' where r: "findOrCreateByEmail refEngine ?first sampleUsers = Inr (user, s')"
    by (auto split: sum.splits)
  have "parseEmail (cu_email \<lparr>cu_email = '' NEW@x.org'', cu_name = Some ''N''\<rparr>) = parseEmail (cu_email ?first)" by code_simp
  from repeated_login_is_same_user [OF r this] r show ?thesis by blast
qed

end
