(* ===== verification/AppRoot.thy ===== *)
theory AppRoot
  imports OperationLog Auth
begin

text \<open>
  The composition root: the logger's configuration (\<open>src/foundation/logger.ts\<close>), the service
  container (\<open>src/services.ts\<close>) and the application (\<open>src/app.ts\<close>) with what it shows of an
  error and what it closes.
\<close>

section \<open>Logger\<close>

definition LOG_REDACT_PATHS :: "string list" where
  "LOG_REDACT_PATHS = [''req.headers.authorization'', ''req.headers.cookie'',
     ''req.headers['' @ [CHR 0x22] @ ''x-api-key'' @ [CHR 0x22] @ '']'',
     ''res.headers['' @ [CHR 0x22] @ ''set-cookie'' @ [CHR 0x22] @ '']'']"

text \<open>The active span is read from OpenTelemetry, whose validity test is an argument.\<close>

record span_context =
  sc_traceId :: string
  sc_spanId :: string

definition traceContextMixin :: "(span_context \<Rightarrow> bool) \<Rightarrow> span_context option \<Rightarrow> (string \<times> string) list" where
  "traceContextMixin isSpanContextValid active = (case active of
      None \<Rightarrow> []
    | Some ctx \<Rightarrow> (if \<not> isSpanContextValid ctx then []
        else [(''trace_id'', sc_traceId ctx), (''span_id'', sc_spanId ctx)]))"

text \<open>The option is absent, a boolean, or a configuration of the logging library.\<close>

datatype logger_option = LoggerSwitch bool | LoggerConfig js

datatype logger_setup =
    NoLogger
  | StructuredLogger string "string list"
  | GivenLogger js

definition resolveLogger :: "js \<Rightarrow> logger_option option \<Rightarrow> logger_setup" where
  "resolveLogger envLevel option = (case option of
      Some (LoggerSwitch False) \<Rightarrow> NoLogger
    | Some (LoggerConfig config) \<Rightarrow> GivenLogger config
    | _ \<Rightarrow> StructuredLogger (parseLogLevel envLevel) LOG_REDACT_PATHS)"

section \<open>Services\<close>

text \<open>
  The container: the bindings the services are created with. \<open>systemClock\<close> is the clock of the
  system; the flag catalogue is the list of keys of the registry.
\<close>

record 'c service_options =
  so_googleOAuth :: "GoogleOAuthClient option"
  so_postSearchIndex :: "post_search_index option"
  so_clock :: "'c option"

record 'c services =
  sv_db :: Db
  sv_clock :: 'c
  sv_google :: GoogleOAuthClient
  sv_index :: post_search_index
  sv_declaredNames :: "string list"

definition createServices :: "'c \<Rightarrow> Db \<Rightarrow> 'c service_options \<Rightarrow> thrown + 'c services" where
  "createServices systemClock d options = rbind FLAGS (\<lambda>specs. Inr \<lparr>
     sv_db = d,
     sv_clock = (case so_clock options of Some c \<Rightarrow> c | None \<Rightarrow> systemClock),
     sv_google = (case so_googleOAuth options of Some g \<Rightarrow> g | None \<Rightarrow> stubGoogleOAuthClient),
     sv_index = (case so_postSearchIndex options of Some i \<Rightarrow> i | None \<Rightarrow> stubPostSearchIndex),
     sv_declaredNames = map fst specs\<rparr>)"

section \<open>Application\<close>

text \<open>What a client sees of an error: its message, and the code in its extensions.\<close>

datatype graphql_error = GraphQLError js "js option"

text \<open>\<open>a ?? b\<close>\<close>

definition nullish :: "js \<Rightarrow> js \<Rightarrow> js" where
  "nullish a b = (if a = JUndefined \<or> a = JNull then b else a)"

text \<open>The reporter may throw, and then so does the mask.\<close>

definition maskError :: "'w reporter \<Rightarrow> js \<Rightarrow> string \<Rightarrow> 'w \<Rightarrow> (js + graphql_error) \<times> 'w" where
  "maskError report error message w =
     (let original = nullish (jsProp ''originalError'' error) error in
      if isDomainError original
      then (Inr (GraphQLError (jsProp ''message'' original) (Some (jsProp ''code'' original))), w)
      else (case report original JUndefined w of
         (Some threw, w') \<Rightarrow> (Inl threw, w')
       | (None, w') \<Rightarrow> (Inr (GraphQLError (JStr message) None), w')))"

text \<open>The options the root chooses by; \<open>bo_stage\<close> may be absent, \<open>null\<close> or a stage.\<close>

record ('p, 'c) build_options =
  bo_db :: "Db option"
  bo_prisma :: "prisma_client option"
  bo_services :: "'c service_options"
  bo_flagProvider :: "'p option"
  bo_stage :: "Stage option option"
  bo_logger :: "logger_option option"

datatype 'p flag_provider = InjectedProvider 'p | DbFeatureFlagProvider prisma_client "Stage option"

record ('p, 'c) app =
  app_db :: Db
  app_ownsDb :: bool
  app_services :: "'c services"
  app_provider :: "'p flag_provider"
  app_logger :: logger_setup

text \<open>The environment: both database URLs, the stage and the log level.\<close>

record environment =
  env_databaseUrl :: "string option"
  env_readonlyUrl :: "string option"
  env_stage :: "string option"
  env_logLevel :: js

definition injectedDb :: "('p, 'c) build_options \<Rightarrow> Db option" where
  "injectedDb options = (case bo_db options of
      Some d \<Rightarrow> Some d
    | None \<Rightarrow> map_option (\<lambda>client. \<lparr>db_rw = client, db_ro = client\<rparr>) (bo_prisma options))"

definition chosenStage :: "string option \<Rightarrow> Stage option option \<Rightarrow> Stage option" where
  "chosenStage envStage option = (case option of Some (Some stage) \<Rightarrow> Some stage | _ \<Rightarrow> parseStage envStage)"

definition buildApp :: "'c \<Rightarrow> environment \<Rightarrow> nat \<Rightarrow> ('p, 'c) build_options \<Rightarrow> thrown + ('p, 'c) app" where
  "buildApp systemClock env object options =
     rbind (case injectedDb options of
         Some d \<Rightarrow> Inr d | None \<Rightarrow> createDb (env_databaseUrl env) (env_readonlyUrl env) object) (\<lambda>d.
     rbind (createServices systemClock d (bo_services options)) (\<lambda>services.
     Inr \<lparr>app_db = d, app_ownsDb = (injectedDb options = None), app_services = services,
       app_provider = (case bo_flagProvider options of
           Some p \<Rightarrow> InjectedProvider p
         | None \<Rightarrow> DbFeatureFlagProvider (db_rw d) (chosenStage (env_stage env) (bo_stage options))),
       app_logger = resolveLogger (env_logLevel env) (bo_logger options)\<rparr>))"

definition onClose :: "(prisma_client \<Rightarrow> thrown option) \<Rightarrow> ('p, 'c) app \<Rightarrow> prisma_client list \<Rightarrow> thrown option \<times> prisma_client list" where
  "onClose disconnect a log = (if app_ownsDb a then disconnectDb disconnect (app_db a) log else (None, log))"

section \<open>The HTTP surface\<close>

text \<open>
  What \<open>buildApp\<close> registers with the server: the routes with their methods, the plugins of the
  GraphQL server from the outermost to the innermost (with the switches of the tracing plugin),
  the identifier a request gets, whatever its headers say, and where log calls go.
\<close>

datatype app_handler = YogaHandler | OAuthStartHandler | OAuthCallbackHandler

definition registeredRoutes :: "(string list \<times> string \<times> app_handler) list" where
  "registeredRoutes = [([''GET'', ''POST'', ''OPTIONS''], ''/graphql'', YogaHandler),
     ([''GET''], ''/google/oauth'', OAuthStartHandler),
     ([''GET''], ''/google/oauth/callback'', OAuthCallbackHandler)]"

datatype yoga_plugin = OperationLogPlugin | OpenTelemetryPlugin (traceResolvers: bool) (traceVariables: bool) (traceResult: bool)

definition yogaPlugins :: "yoga_plugin list" where
  "yogaPlugins = [OperationLogPlugin, OpenTelemetryPlugin False False False]"

definition genReqId :: "(nat \<Rightarrow> string) \<Rightarrow> nat \<Rightarrow> (string \<times> string) list \<Rightarrow> string" where
  "genReqId randomUUID n headers = randomUUID n"

definition yogaLogging :: "string \<Rightarrow> js list \<Rightarrow> (string \<times> js) list" where
  "yogaLogging level args = map (\<lambda>arg. (level, arg)) args"

section \<open>What the application owns, shows and reports\<close>

lemma createServices_Inr:
  "\<exists>services. createServices systemClock d options = Inr services \<and> sv_db services = d \<and>
     sv_declaredNames services = [''pointTransfer'', ''pointTransferPreferFree'', ''welcomeVariant'']"
  by (simp add: createServices_def FLAGS_defined)

text \<open>an application closes what it opened and nothing else: with an injected database it opens no
  client and closes none; otherwise it fails to start for a replica without a primary, and else
  its closing disconnects each client it opened exactly once. Its flags are read on the primary.
\<close>

theorem app_closes_what_it_opened:
  "case buildApp systemClock env object options of
     Inl e \<Rightarrow> injectedDb options = None \<and> e = replicaWithoutPrimary \<and>
       isSet (env_readonlyUrl env) \<and> \<not> isSet (env_databaseUrl env)
   | Inr a \<Rightarrow> (case onClose (\<lambda>c. None) a [] of (threw, closed) \<Rightarrow>
       threw = None \<and> distinct closed \<and> sv_db (app_services a) = app_db a \<and>
       set closed = (if injectedDb options = None then {db_rw (app_db a), db_ro (app_db a)} else {}) \<and>
       (length closed = 2 \<longleftrightarrow> injectedDb options = None \<and> isSet (env_readonlyUrl env) \<and>
          env_readonlyUrl env \<noteq> env_databaseUrl env)) \<and>
       app_provider a \<in> {DbFeatureFlagProvider (db_rw (app_db a)) (chosenStage (env_stage env) (bo_stage options))}
         \<union> InjectedProvider ` set_option (bo_flagProvider options)"
proof -
  have s: "\<exists>services. createServices systemClock d (bo_services options) = Inr services \<and> sv_db services = d" for d
    by (simp add: createServices_def FLAGS_defined)
  show ?thesis
  proof (cases "injectedDb options")
    case (Some d)
    with s [of d] show ?thesis by (auto simp: buildApp_def onClose_def split: option.split)
  next
    case None
    show ?thesis
    proof (cases "createDb (env_databaseUrl env) (env_readonlyUrl env) object")
      case (Inl e)
      then show ?thesis by (auto simp: buildApp_def None createDb_def Let_def split: if_splits)
    next
      case (Inr d)
      from s [of d] Inr createDb_same_client [OF Inr] show ?thesis
        by (auto simp: buildApp_def None onClose_def disconnectDb_def split: option.split)
    qed
  qed
qed

text \<open>How GraphQL hands a thrown value to the mask: wrapped, with the value as its origin.\<close>

definition located :: "thrown \<Rightarrow> js" where
  "located e = JObject [(''message'', jsProp ''message'' (toJs e)), (''originalError'', toJs e)]"

lemma maskError_located:
  "maskError report (located e) message w =
     (if isDomainError (toJs e)
      then (Inr (GraphQLError (jsProp ''message'' (toJs e)) (Some (jsProp ''code'' (toJs e)))), w)
      else (case report (nullish (toJs e) (located e)) JUndefined w of
         (Some threw, w') \<Rightarrow> (Inl threw, w') | (None, w') \<Rightarrow> (Inr (GraphQLError (JStr message) None), w')))"
  by (auto simp: maskError_def located_def nullish_def Let_def isDomainError_def)

text \<open>C37: both surfaces show the same of an error: the code and the message of a domain error and
  nothing is reported, or a fixed answer that does not depend on the error, which is reported
  once; GraphQL's mask and the callback of the login never disagree about which it is.
\<close>

theorem both_surfaces_mask_alike:
  assumes "parseOAuthCallback query = Inr callback" "completeLogin eng google callback s = Inl e"
    and "\<And>x c v. fst (report x c v) = None"
  shows "(\<exists>code text. isDomainError (toJs e) \<and>
      maskError report (located e) message w = (Inr (GraphQLError text (Some code)), w) \<and>
      googleOAuthCallback eng google report query (s, log, w) =
        (Reply 400 (JObject [(''code'', code), (''message'', text)]), (s, log, w))) \<or>
    (\<not> isDomainError (toJs e) \<and>
      maskError report (located e) message w =
        (Inr (GraphQLError (JStr message) None), snd (report (nullish (toJs e) (located e)) JUndefined w)) \<and>
      googleOAuthCallback eng google report query (s, log, w) =
        (Reply 500 (JObject [(''code'', JStr ''INTERNAL''), (''message'', JStr ''Internal Server Error'')]),
         (s, log @ [e], snd (report (toJs e) (JObject [(''route'', JStr ''google-oauth-callback'')]) w))))"
proof -
  from assms(1,2) have c: "bindT (liftT (parseOAuthCallback query)) (completeLogin eng google) s = Inl e"
    by (simp add: bindT_def)
  obtain w' where "report (nullish (toJs e) (located e)) JUndefined w = (None, w')"
    using assms(3) by (metis surj_pair fst_conv)
  then show ?thesis by (auto simp: maskError_located googleOAuthCallback_def c)
qed

theorem both_surfaces_mask_alike_witness:
  "maskError (compositeErrorReporter [\<lambda>x c n. (Some x, Suc n)]) (located (notImplemented ''exchangeCode'')) ''Unexpected error.'' (0 :: nat) =
     (Inr (GraphQLError (JStr ''Unexpected error.'') None), 1) \<and>
   fst (googleOAuthCallback refEngine stubGoogleOAuthClient (compositeErrorReporter [\<lambda>x c n. (Some x, Suc n)])
     \<lparr>q_code = JStr ''c'', q_state = JStr ''s'', q_error = JUndefined\<rparr> (emptyDb, [], 0 :: nat)) =
     Reply 500 (JObject [(''code'', JStr ''INTERNAL''), (''message'', JStr ''Internal Server Error'')])"
proof -
  let ?q = "\<lparr>q_code = JStr ''c'', q_state = JStr ''s'', q_error = JUndefined\<rparr>"
  let ?e = "notImplemented ''exchangeCode''"
  have p: "parseOAuthCallback ?q = Inr \<lparr>cb_code = ''c'', cb_state = ''s''\<rparr>"
    by (simp add: parseOAuthCallback_def asNonEmptyString_def)
  have l: "completeLogin refEngine stubGoogleOAuthClient \<lparr>cb_code = ''c'', cb_state = ''s''\<rparr> emptyDb = Inl ?e"
    by (simp add: completeLogin_def stubGoogleOAuthClient_def bindT_def)
  have d: "\<not> isDomainError (toJs ?e)" by (simp add: notImplemented_def)
  have "toJs ?e \<noteq> JUndefined" "toJs ?e \<noteq> JNull" by (simp_all add: notImplemented_def toJs.simps)
  then show ?thesis
    using both_surfaces_mask_alike [where report = "compositeErrorReporter [\<lambda>x c n. (Some x, Suc n)]" and w = 0
        and log = "[]" and message = "''Unexpected error.''", OF p l composite_never_throws] d
    by (simp add: nullish_def)
qed

end
