(* ===== verification/Lifecycle.thy ===== *)
theory Lifecycle
  imports AppRoot
begin

text \<open>
  The process around the application: the job scheduler (\<open>src/scheduler\<close>), the telemetry
  bootstrap (\<open>src/instrumentation.ts\<close>) and the entry point with its shutdown
  (\<open>src/server.ts\<close>).
\<close>

section \<open>Job queue\<close>

record EveryOptions =
  eo_timezone :: "string option"
  eo_skipImmediate :: "bool option"

record JobSchedule =
  js_name :: string
  js_interval :: string
  js_options :: "EveryOptions option"

text \<open>
  The queue library, over its own state \<open>'a\<close>: \<open>define\<close> gives a name its handler, \<open>every\<close>
  upserts a recurring row, \<open>purge\<close> deletes the rows whose names have no handler.
\<close>

record ('a, 'h) agenda =
  ag_define :: "string \<Rightarrow> 'h \<Rightarrow> 'a \<Rightarrow> 'a"
  ag_start :: "(thrown, 'a, unit) tx"
  ag_every :: "string \<Rightarrow> string \<Rightarrow> EveryOptions option \<Rightarrow> (thrown, 'a, unit) tx"
  ag_purge :: "(thrown, 'a, unit) tx"
  ag_drain :: "(thrown, 'a, unit) tx"

text \<open>Named hypothesis: the documented effect of these calls on the handlers and on the named rows.\<close>

definition agenda_documented :: "('a, 'h) agenda \<Rightarrow> ('a \<Rightarrow> string \<rightharpoonup> 'h) \<Rightarrow> ('a \<Rightarrow> string set) \<Rightarrow> bool" where
  "agenda_documented ag handlers rows \<longleftrightarrow>
     (\<forall>n h a. handlers (ag_define ag n h a) = (handlers a)(n \<mapsto> h) \<and> rows (ag_define ag n h a) = rows a) \<and>
     (\<forall>a a'. ag_start ag a = Inr ((), a') \<longrightarrow> handlers a' = handlers a \<and> rows a' = rows a) \<and>
     (\<forall>i n opts a a'. ag_every ag i n opts a = Inr ((), a') \<longrightarrow> handlers a' = handlers a \<and> rows a' = insert n (rows a)) \<and>
     (\<forall>a a'. ag_purge ag a = Inr ((), a') \<longrightarrow> handlers a' = handlers a \<and> rows a' = rows a \<inter> dom (handlers a))"

definition defineJob :: "('a, 'h) agenda \<Rightarrow> string \<Rightarrow> 'h \<Rightarrow> 'a \<Rightarrow> 'a" where
  "defineJob ag name handler = ag_define ag name handler"

text \<open>The two registrars as schedules of the same shape.\<close>

definition jobSchedules :: "JobSchedule list" where
  "jobSchedules =
     map (\<lambda>(n, i, tz). \<lparr>js_name = n, js_interval = i,
        js_options = map_option (\<lambda>z. \<lparr>eo_timezone = Some z, eo_skipImmediate = None\<rparr>) tz\<rparr>) registerFeatureFlagJobs @
     map (\<lambda>(n, i). \<lparr>js_name = n, js_interval = i, js_options = None\<rparr>) registerPointJobs"

text \<open>Assembling defines the handlers, the purge job's and the verification job's, and collects the schedules.\<close>

definition buildScheduler :: "('a, 'h) agenda \<Rightarrow> 'h \<Rightarrow> 'h \<Rightarrow> 'a \<Rightarrow> JobSchedule list \<times> 'a" where
  "buildScheduler ag flagHandler pointHandler a =
     (jobSchedules, defineJob ag POINT_BALANCE_VERIFY_JOB pointHandler (defineJob ag FEATURE_FLAG_PURGE_JOB flagHandler a))"

definition startScheduler :: "('a, 'h) agenda \<Rightarrow> JobSchedule list \<Rightarrow> (thrown, 'a, unit) tx" where
  "startScheduler ag schedules =
     bindT (ag_start ag) (\<lambda>_.
     bindT (forEachT (\<lambda>j. ag_every ag (js_interval j) (js_name j) (js_options j)) schedules) (\<lambda>_.
     ag_purge ag))"

definition stopScheduler :: "('a, 'h) agenda \<Rightarrow> (thrown, 'a, unit) tx" where
  "stopScheduler ag = ag_drain ag"

text \<open>\<open>job.attrs?.name ?? job.jobName ?? 'unknown'\<close>\<close>

definition eventJobName :: "js \<Rightarrow> js" where
  "eventJobName job = nullish (jsProp ''name'' (jsProp ''attrs'' job)) (nullish (jsProp ''jobName'' job) (JStr ''unknown''))"

text \<open>
  The lifecycle listeners, over the log lines written so far and the reporter's world: the
  informative ones exist only with a logger, failures are reported in any case.
\<close>

datatype agenda_event = Ready | Started js | Succeeded js | Failed js js | QueueError js

datatype job_line = JobInfo "js option" string | JobError "js option" js string

definition onAgendaEvent :: "bool \<Rightarrow> 'w reporter \<Rightarrow> agenda_event \<Rightarrow> job_line list \<times> 'w \<Rightarrow> js option \<times> job_line list \<times> 'w" where
  "onAgendaEvent hasLogger report event = (\<lambda>(lines, w).
     let note = (\<lambda>line. if hasLogger then lines @ [line] else lines) in
     case event of
       Ready \<Rightarrow> (None, note (JobInfo None ''scheduler ready''), w)
     | Started job \<Rightarrow> (None, note (JobInfo (Some (eventJobName job)) ''job started''), w)
     | Succeeded job \<Rightarrow> (None, note (JobInfo (Some (eventJobName job)) ''job succeeded''), w)
     | Failed error job \<Rightarrow>
         (let (threw, w') = report error (JObject [(''job'', eventJobName job)]) w
          in (threw, note (JobError (Some (eventJobName job)) error ''job failed''), w'))
     | QueueError error \<Rightarrow>
         (let (threw, w') = report error (JObject [(''scope'', JStr ''scheduler'')]) w
          in (threw, note (JobError None error ''scheduler error''), w')))"

lemma forEach_every_rows:
  assumes "agenda_documented ag handlers rows"
    and "forEachT (\<lambda>j. ag_every ag (js_interval j) (js_name j) (js_options j)) schedules a = Inr ((), a')"
  shows "handlers a' = handlers a \<and> rows a' = js_name ` set schedules \<union> rows a"
  using assms(2)
proof (induction schedules arbitrary: a)
  case Nil
  then show ?case by (simp add: returnT_def)
next
  case (Cons j schedules)
  then obtain b where "ag_every ag (js_interval j) (js_name j) (js_options j) a = Inr ((), b)"
    and rest: "forEachT (\<lambda>j. ag_every ag (js_interval j) (js_name j) (js_options j)) schedules b = Inr ((), a')"
    by (auto simp: bindT_eq_Inr)
  then have "handlers b = handlers a" "rows b = insert (js_name j) (rows a)"
    using assms(1) unfolding agenda_documented_def by blast+
  with Cons.IH [OF rest] show ?case by auto
qed

text \<open>every schedule has its handler and survives the start: whatever rows an earlier version left
  in the queue, after a start there is exactly one row per schedule of this version, each has
  a handler, and every row without one is gone.
\<close>

theorem started_scheduler_runs_exactly_its_jobs:
  assumes doc: "agenda_documented ag handlers rows" and new: "handlers a = Map.empty"
    and built: "buildScheduler ag flagHandler pointHandler a = (schedules, b)"
    and started: "startScheduler ag schedules b = Inr ((), c)"
  shows "rows c = js_name ` set schedules \<and> distinct (map js_name schedules) \<and>
    handlers c = [FEATURE_FLAG_PURGE_JOB \<mapsto> flagHandler, POINT_BALANCE_VERIFY_JOB \<mapsto> pointHandler] \<and>
    rows c = dom (handlers c)"
proof -
  have sch: "schedules = jobSchedules"
    and b: "b = ag_define ag POINT_BALANCE_VERIFY_JOB pointHandler (ag_define ag FEATURE_FLAG_PURGE_JOB flagHandler a)"
    using built by (auto simp: buildScheduler_def defineJob_def)
  have hb: "handlers b = [FEATURE_FLAG_PURGE_JOB \<mapsto> flagHandler, POINT_BALANCE_VERIFY_JOB \<mapsto> pointHandler]"
    using doc new by (simp add: agenda_documented_def b)
  from started obtain b1 b2 where st: "ag_start ag b = Inr ((), b1)"
    and ev: "forEachT (\<lambda>j. ag_every ag (js_interval j) (js_name j) (js_options j)) schedules b1 = Inr ((), b2)"
    and pu: "ag_purge ag b2 = Inr ((), c)"
    by (auto simp: startScheduler_def bindT_eq_Inr)
  from doc st have "handlers b1 = handlers b" unfolding agenda_documented_def by blast
  with forEach_every_rows [OF doc ev] have b2: "handlers b2 = handlers b" "js_name ` set schedules \<subseteq> rows b2" by auto
  from doc pu have c: "handlers c = handlers b2" "rows c = rows b2 \<inter> dom (handlers b2)"
    unfolding agenda_documented_def by blast+
  have names: "map js_name schedules = [FEATURE_FLAG_PURGE_JOB, POINT_BALANCE_VERIFY_JOB]"
    by (simp add: sch jobSchedules_def registerFeatureFlagJobs_def registerPointJobs_def)
  have "js_name ` set schedules = {FEATURE_FLAG_PURGE_JOB, POINT_BALANCE_VERIFY_JOB}"
    using arg_cong [OF names, of set] by simp
  moreover have "FEATURE_FLAG_PURGE_JOB \<noteq> POINT_BALANCE_VERIFY_JOB"
    by (simp add: FEATURE_FLAG_PURGE_JOB_def POINT_BALANCE_VERIFY_JOB_def)
  ultimately show ?thesis using b2 c hb names by auto
qed

text \<open>A queue in memory: the handlers and the names of its rows.\<close>

definition memoryAgenda :: "((string \<rightharpoonup> nat) \<times> string set, nat) agenda" where
  "memoryAgenda = \<lparr>ag_define = (\<lambda>n h (hs, rows). (hs(n \<mapsto> h), rows)), ag_start = (\<lambda>a. Inr ((), a)),
     ag_every = (\<lambda>i n opts (hs, rows). Inr ((), (hs, insert n rows))),
     ag_purge = (\<lambda>(hs, rows). Inr ((), (hs, rows \<inter> dom hs))), ag_drain = (\<lambda>a. Inr ((), a))\<rparr>"

theorem started_scheduler_runs_exactly_its_jobs_witness:
  "\<exists>c. startScheduler memoryAgenda jobSchedules
     (snd (buildScheduler memoryAgenda 1 2 (Map.empty, {''removed:job''}))) = Inr ((), c) \<and>
     snd c = {FEATURE_FLAG_PURGE_JOB, POINT_BALANCE_VERIFY_JOB}"
proof -
  have doc: "agenda_documented memoryAgenda fst snd"
    by (auto simp: agenda_documented_def memoryAgenda_def)
  let ?a = "(Map.empty, {''removed:job''}) :: (string \<rightharpoonup> nat) \<times> string set"
  obtain b where b: "buildScheduler memoryAgenda 1 2 ?a = (jobSchedules, b)" by (simp add: buildScheduler_def)
  have "\<exists>c. startScheduler memoryAgenda jobSchedules b = Inr ((), c)"
    by (cases b) (simp add: startScheduler_def memoryAgenda_def jobSchedules_def registerFeatureFlagJobs_def
        registerPointJobs_def bindT_def returnT_def)
  then obtain c where c: "startScheduler memoryAgenda jobSchedules b = Inr ((), c)" ..
  from started_scheduler_runs_exactly_its_jobs [OF doc _ b c] b c show ?thesis by auto
qed

section \<open>Telemetry\<close>

text \<open>\<open>parsed\<close> is \<open>Number(process.env.METRICS_PORT)\<close>.\<close>

definition metricsPort :: "js_number \<Rightarrow> int" where
  "metricsPort parsed = (if isInteger parsed \<and> 0 < intOf parsed \<and> intOf parsed < 65536 then intOf parsed else 9464)"

text \<open>The first call starts the shutdown, with its timeout; later calls wait for the same one.\<close>

definition shutdownTelemetry :: "int \<Rightarrow> int option \<Rightarrow> int option" where
  "shutdownTelemetry timeoutMs pending = (case pending of None \<Rightarrow> Some timeoutMs | Some p \<Rightarrow> Some p)"

lemma metricsPort_valid: "0 < metricsPort parsed \<and> metricsPort parsed < 65536"
  by (simp add: metricsPort_def)

lemma shutdownTelemetry_idem: "shutdownTelemetry t (shutdownTelemetry t' p) = shutdownTelemetry t' p"
  by (simp add: shutdownTelemetry_def split: option.split)

section \<open>Entry point\<close>

text \<open>An absent or empty DSN leaves error tracking off.\<close>

definition sentryEnabled :: "string option \<Rightarrow> bool" where
  "sentryEnabled dsn = isSet dsn"

definition sentryIntegrations :: "string list \<Rightarrow> string list" where
  "sentryIntegrations defaults =
     filter (\<lambda>name. name \<notin> set [''RequestData'', ''LocalVariables'', ''LocalVariablesAsync'', ''ContextLines'']) defaults"

definition beforeSend :: "(string \<times> js) list \<Rightarrow> (string \<times> js) list" where
  "beforeSend event = filter (\<lambda>(key, val). key \<noteq> ''request'') event"

definition serverErrorReporter :: "bool \<Rightarrow> 'w reporter \<Rightarrow> 'w reporter \<Rightarrow> 'w reporter" where
  "serverErrorReporter sentry otelErrorReporter sentryErrorReporter =
     (if sentry then compositeErrorReporter [otelErrorReporter, sentryErrorReporter] else otelErrorReporter)"

definition schedulerEnabled :: "string option \<Rightarrow> bool" where
  "schedulerEnabled env = (env \<noteq> Some ''false'')"

text \<open>
  The start: what listening and, when there is a scheduler, starting it yield, and what the
  process then logs or does.
\<close>

datatype boot_event = LogSchedulerStarted | LogReady int | LogError thrown | ExitBoot int

definition startServer :: "int \<Rightarrow> thrown option \<Rightarrow> thrown option option \<Rightarrow> boot_event list" where
  "startServer port listen scheduler = (case listen of
      Some e \<Rightarrow> [LogError e, ExitBoot 1]
    | None \<Rightarrow> (case scheduler of
        None \<Rightarrow> [LogReady port]
      | Some None \<Rightarrow> [LogSchedulerStarted, LogReady port]
      | Some (Some e) \<Rightarrow> [LogError e, ExitBoot 1]))"

text \<open>The teardown, in the order of the awaits.\<close>

datatype teardown = StopScheduler | CloseApp | ShutdownTelemetry | CloseSentry int | ExitProcess int

definition teardownOf :: "bool \<Rightarrow> bool \<Rightarrow> teardown list" where
  "teardownOf scheduler sentry =
     (if scheduler then [StopScheduler] else []) @ [CloseApp, ShutdownTelemetry] @
     (if sentry then [CloseSentry 2000] else []) @ [ExitProcess 0]"

text \<open>
  The process between its start and its end: the guard, what the running teardown has still to
  await, what it has begun, whether an await of it rejected (the promise of \<open>shutdown\<close>, which
  nothing handles), and the exit code. Signals come at any moment, any number of them.
\<close>

record process =
  pr_shuttingDown :: bool
  pr_todo :: "teardown list"
  pr_done :: "teardown list"
  pr_rejected :: bool
  pr_exited :: "int option"

definition runningServer :: process where
  "runningServer = \<lparr>pr_shuttingDown = False, pr_todo = [], pr_done = [], pr_rejected = False, pr_exited = None\<rparr>"

definition onSignal :: "bool \<Rightarrow> bool \<Rightarrow> process \<Rightarrow> process" where
  "onSignal scheduler sentry p =
     (if pr_shuttingDown p then p
      else p\<lparr>pr_shuttingDown := True, pr_todo := teardownOf scheduler sentry\<rparr>)"

fun exitCode :: "teardown \<Rightarrow> int option" where
  "exitCode (ExitProcess code) = Some code"
| "exitCode _ = None"

text \<open>
  \<open>Proceed\<close>: the next await is done. \<open>Fail\<close>: it rejects, and nothing handles the promise of
  \<open>shutdown\<close>, so the runtime ends the process, or a hook of the tracker keeps it alive.
\<close>

inductive process_step :: "bool \<Rightarrow> bool \<Rightarrow> process \<Rightarrow> process \<Rightarrow> bool" for scheduler sentry where
  Signal: "pr_exited p = None \<Longrightarrow> process_step scheduler sentry p (onSignal scheduler sentry p)"
| Proceed: "pr_exited p = None \<Longrightarrow> pr_todo p = action # rest \<Longrightarrow>
    process_step scheduler sentry p (p\<lparr>pr_todo := rest, pr_done := pr_done p @ [action], pr_exited := exitCode action\<rparr>)"
| Fail: "pr_exited p = None \<Longrightarrow> pr_todo p = action # rest \<Longrightarrow> exitCode action = None \<Longrightarrow> code \<in> {None, Some 1} \<Longrightarrow>
    process_step scheduler sentry p
      (p\<lparr>pr_todo := [], pr_done := pr_done p @ [action], pr_rejected := True, pr_exited := code\<rparr>)"

inductive_cases process_stepE: "process_step scheduler sentry p q"

definition process_inv :: "bool \<Rightarrow> bool \<Rightarrow> process \<Rightarrow> bool" where
  "process_inv scheduler sentry p \<longleftrightarrow>
     prefix (pr_done p @ pr_todo p) (teardownOf scheduler sentry) \<and>
     (pr_shuttingDown p \<or> pr_todo p = [] \<and> pr_done p = [] \<and> pr_exited p = None) \<and>
     (pr_todo p \<noteq> [] \<longrightarrow> teardownOf scheduler sentry = pr_done p @ pr_todo p) \<and>
     (pr_exited p = Some 0 \<longrightarrow> pr_done p = teardownOf scheduler sentry) \<and>
     (pr_shuttingDown p \<and> \<not> pr_rejected p \<and> pr_exited p = None \<longrightarrow> pr_todo p \<noteq> [])"

lemma teardown_exits:
  assumes "teardownOf scheduler sentry = xs @ a # ys" "exitCode a = Some code"
  shows "code = 0 \<and> ys = []"
proof -
  let ?init = "butlast (teardownOf scheduler sentry)"
  have init: "teardownOf scheduler sentry = ?init @ [ExitProcess 0]" "\<forall>x \<in> set ?init. exitCode x = None"
    by (auto simp: teardownOf_def butlast_append)
  have "ys = []"
  proof (rule ccontr)
    assume "ys \<noteq> []"
    then have "a \<in> set ?init" using assms(1) by (simp add: butlast_append)
    with init(2) assms(2) show False by simp
  qed
  with assms(1) have "last (teardownOf scheduler sentry) = a" by simp
  with init(1) have "a = ExitProcess 0" by (metis last_snoc)
  with assms(2) \<open>ys = []\<close> show ?thesis by simp
qed

lemma teardown_continues:
  assumes "teardownOf scheduler sentry = xs @ a # ys" "exitCode a = None"
  shows "ys \<noteq> []"
proof
  assume "ys = []"
  with assms(1) have "last (teardownOf scheduler sentry) = a" by simp
  with assms(2) show False by (auto simp: teardownOf_def)
qed

lemma process_inv_step:
  assumes inv: "process_inv scheduler sentry p" and todo: "pr_todo p = action # rest"
    and q: "pr_done q = pr_done p @ [action]" "pr_shuttingDown q = pr_shuttingDown p" 
      "pr_todo q = [] \<or> pr_todo q = rest" "pr_exited q = Some 0 \<Longrightarrow> exitCode action = Some 0"
      "\<not> pr_rejected q \<Longrightarrow> pr_todo q = rest \<and> pr_exited q = exitCode action"
  shows "process_inv scheduler sentry q"
proof -
  have t: "teardownOf scheduler sentry = pr_done p @ action # rest" and "pr_shuttingDown p"
    using inv by (simp_all add: process_inv_def todo)
  moreover have "pr_done q = teardownOf scheduler sentry" if "pr_exited q = Some 0"
    using teardown_exits [OF t q(4) [OF that]] t q(1) by simp
  moreover have "prefix (pr_done q @ pr_todo q) (teardownOf scheduler sentry)"
    using q(3) by (auto simp: t q(1) prefix_def)
  moreover have "pr_todo q \<noteq> []" if "\<not> pr_rejected q" "pr_exited q = None"
    using q(5) [OF that(1)] that(2) teardown_continues [OF t] by auto
  ultimately show ?thesis using q(1,2,3) by (auto simp: process_inv_def)
qed

interpretation serverProcess: invariant_system "\<lambda>p. p = runningServer" "process_step scheduler sentry"
  "process_inv scheduler sentry" for scheduler sentry
proof unfold_locales
  fix p
  show "p = runningServer \<Longrightarrow> process_inv scheduler sentry p"
    by (simp add: runningServer_def process_inv_def)
next
  fix p q
  assume step: "process_step scheduler sentry p q" and inv: "process_inv scheduler sentry p"
  show "process_inv scheduler sentry q"
    using step
  proof cases
    case Signal
    have "teardownOf scheduler sentry \<noteq> []" by (simp add: teardownOf_def)
    with Signal show ?thesis using inv by (cases "pr_shuttingDown p") (simp_all add: onSignal_def process_inv_def)
  next
    case (Proceed action rest)
    show ?thesis by (rule process_inv_step [OF inv Proceed(3)]) (simp_all add: Proceed(1))
  next
    case (Fail action rest code)
    show ?thesis by (rule process_inv_step [OF inv Fail(3)]) (use Fail(5) in \<open>auto simp: Fail(1)\<close>)
  qed
qed

text \<open>A process that has ended does nothing more.\<close>

lemma exited_is_final: "pr_exited p = Some code \<Longrightarrow> \<not> process_step scheduler sentry p q"
  by (auto elim: process_stepE)

lemma teardown_distinct: "distinct (teardownOf scheduler sentry)"
  by (simp add: teardownOf_def)

lemma shutdown_finishes:
  assumes "pr_exited p = None" "pr_shuttingDown p" "teardownOf scheduler sentry = pr_done p @ pr_todo p" "pr_todo p \<noteq> []"
  shows "\<exists>q. (process_step scheduler sentry)\<^sup>*\<^sup>* p q \<and> pr_exited q = Some 0 \<and> pr_done q = teardownOf scheduler sentry"
  using assms
proof (induction "pr_todo p" arbitrary: p)
  case Nil
  then show ?case by simp
next
  case (Cons action rest)
  let ?q = "p\<lparr>pr_todo := rest, pr_done := pr_done p @ [action], pr_exited := exitCode action\<rparr>"
  have t: "teardownOf scheduler sentry = pr_done p @ action # rest" using Cons.prems(3) Cons.hyps(2) by simp
  have step: "process_step scheduler sentry p ?q" by (rule Proceed) (use Cons in auto)
  show ?case
  proof (cases "exitCode action")
    case None
    have "rest \<noteq> []" by (rule teardown_continues [OF t None])
    then have "\<exists>r. (process_step scheduler sentry)\<^sup>*\<^sup>* ?q r \<and> pr_exited r = Some 0 \<and> pr_done r = teardownOf scheduler sentry"
      by (intro Cons.hyps(1)) (use Cons.prems None t in auto)
    with step show ?thesis by (meson converse_rtranclp_into_rtranclp)
  next
    case (Some code)
    with teardown_exits [OF t Some] t have "pr_exited ?q = Some 0 \<and> pr_done ?q = teardownOf scheduler sentry" by simp
    with step show ?thesis by blast
  qed
qed

text \<open>C38: one orderly teardown, however many signals come and whenever they come: what has been begun is
  at every moment an initial part of the one sequence (drain the jobs when there is a scheduler,
  close the server, flush telemetry, flush the tracker when it is on, exit with success), no
  step twice, nothing before a signal; the process ends with success only after all of it; and
  a signal, at any moment at which the process is alive and no await of a teardown has
  rejected, is answered: from the state it leaves, the whole sequence can be carried out to
  the exit with success.
\<close>

theorem shutdown_runs_once:
  assumes "(process_step scheduler sentry)\<^sup>*\<^sup>* runningServer p"
  shows "let complete = (if scheduler then [StopScheduler] else []) @ [CloseApp, ShutdownTelemetry] @
      (if sentry then [CloseSentry 2000] else []) @ [ExitProcess 0] in
    prefix (pr_done p) complete \<and> distinct (pr_done p) \<and>
    (pr_exited p = Some 0 \<longrightarrow> pr_done p = complete) \<and>
    (\<not> pr_shuttingDown p \<longrightarrow> pr_done p = [] \<and> pr_exited p = None) \<and>
    (pr_exited p = None \<and> \<not> pr_rejected p \<longrightarrow>
      (\<exists>q. (process_step scheduler sentry)\<^sup>*\<^sup>* (onSignal scheduler sentry p) q \<and>
        pr_exited q = Some 0 \<and> pr_done q = complete))"
proof -
  have inv: "process_inv scheduler sentry p" by (rule serverProcess.reachable_inv [OF refl assms])
  then obtain rest where rest: "teardownOf scheduler sentry = pr_done p @ pr_todo p @ rest"
    by (auto simp: process_inv_def prefix_def)
  have "distinct (pr_done p)" using teardown_distinct [of scheduler sentry] unfolding rest by simp
  moreover have "\<exists>q. (process_step scheduler sentry)\<^sup>*\<^sup>* (onSignal scheduler sentry p) q \<and> pr_exited q = Some 0 \<and>
      pr_done q = teardownOf scheduler sentry"
    if alive: "pr_exited p = None" "\<not> pr_rejected p"
  proof -
    let ?p = "onSignal scheduler sentry p"
    have "process_step scheduler sentry p ?p" by (rule Signal [OF alive(1)])
    then have inv': "process_inv scheduler sentry ?p"
      by (meson serverProcess.reachable_inv [OF refl] assms rtranclp.rtrancl_into_rtrancl)
    have flags: "pr_exited ?p = None" "\<not> pr_rejected ?p" "pr_shuttingDown ?p"
      using alive by (simp_all add: onSignal_def)
    with inv' have todo: "pr_todo ?p \<noteq> []" by (auto simp: process_inv_def)
    with inv' have "teardownOf scheduler sentry = pr_done ?p @ pr_todo ?p" by (simp add: process_inv_def)
    from shutdown_finishes [OF flags(1,3) this todo] show ?thesis .
  qed
  moreover have "pr_exited p = Some 0 \<longrightarrow> pr_done p = teardownOf scheduler sentry"
    "\<not> pr_shuttingDown p \<longrightarrow> pr_done p = [] \<and> pr_exited p = None"
    using inv by (auto simp: process_inv_def)
  moreover have "prefix (pr_done p) (teardownOf scheduler sentry)" unfolding rest by simp
  ultimately show ?thesis unfolding Let_def teardownOf_def [symmetric] by blast
qed

theorem shutdown_runs_once_witness:
  "\<exists>p. (process_step True False)\<^sup>*\<^sup>* runningServer p \<and> pr_done p = [StopScheduler] \<and>
     (\<exists>q. (process_step True False)\<^sup>*\<^sup>* (onSignal True False p) q \<and> pr_exited q = Some 0 \<and>
        pr_done q = [StopScheduler, CloseApp, ShutdownTelemetry, ExitProcess 0])"
proof -
  let ?p1 = "onSignal True False runningServer"
  let ?p2 = "?p1\<lparr>pr_todo := [CloseApp, ShutdownTelemetry, ExitProcess 0], pr_done := pr_done ?p1 @ [StopScheduler],
    pr_exited := exitCode StopScheduler\<rparr>"
  let ?p3 = "onSignal True False ?p2"
  have "process_step True False runningServer ?p1" by (rule Signal) (simp add: runningServer_def)
  moreover have "process_step True False ?p1 ?p2"
    by (rule Proceed) (simp_all add: onSignal_def runningServer_def teardownOf_def)
  moreover have "process_step True False ?p2 ?p3" by (rule Signal) simp
  ultimately have reach: "(process_step True False)\<^sup>*\<^sup>* runningServer ?p3" by auto
  moreover have "pr_exited ?p3 = None" "\<not> pr_rejected ?p3" and done1: "pr_done ?p3 = [StopScheduler]"
    by (simp_all add: onSignal_def runningServer_def teardownOf_def)
  ultimately have "\<exists>q. (process_step True False)\<^sup>*\<^sup>* (onSignal True False ?p3) q \<and> pr_exited q = Some 0 \<and>
      pr_done q = [StopScheduler, CloseApp, ShutdownTelemetry, ExitProcess 0]"
    using shutdown_runs_once [OF reach] by (simp add: Let_def)
  with reach done1 show ?thesis by blast
qed

end
