(* ===== verification/Reporting.thy ===== *)
theory Reporting
  imports Lifecycle
begin

text \<open>
  The bindings of the error-reporter port (\<open>src/foundation/error-reporter.ts\<close>), the queue a
  scheduler is built on (\<open>createAgenda\<close> of \<open>src/scheduler/agenda.ts\<close>) and the settings
  telemetry and error tracking start with (\<open>src/instrumentation.ts\<close>, \<open>src/server.ts\<close>). What a binding asks of OpenTelemetry or
  Sentry is a value; how those libraries carry it out is an argument.
\<close>

section \<open>Error-reporter bindings\<close>

datatype span_call = RecordException js | SetErrorStatus js | SetAttribute string js

text \<open>
  OpenTelemetry as the binding sees it: whether a span is active, and a call on that span, which
  may throw. \<open>isError\<close> is \<open>instanceof Error\<close>, \<open>asString\<close> is \<open>String\<close>.
\<close>

record 'w otel =
  ot_activeSpan :: "'w \<Rightarrow> span_context option"
  ot_call :: "span_call \<Rightarrow> 'w \<Rightarrow> js option \<times> 'w"
  ot_isError :: "js \<Rightarrow> bool"
  ot_asString :: "js \<Rightarrow> string"

definition newError :: "string \<Rightarrow> js" where
  "newError message = JObject [(''name'', JStr ''Error''), (''message'', JStr message)]"

fun isScalar :: "js \<Rightarrow> bool" where
  "isScalar (JStr t) = True"
| "isScalar (JNum n) = True"
| "isScalar (JBool b) = True"
| "isScalar _ = False"

fun entries :: "js \<Rightarrow> (string \<times> js) list" where
  "entries (JObject fs) = fs"
| "entries _ = []"

text \<open>Calls made one after the other; the first that throws ends the sequence.\<close>

fun callAll :: "('c \<Rightarrow> 'w \<Rightarrow> js option \<times> 'w) \<Rightarrow> 'c list \<Rightarrow> 'w \<Rightarrow> js option \<times> 'w" where
  "callAll call [] w = (None, w)"
| "callAll call (c # cs) w = (case call c w of
     (Some e, w') \<Rightarrow> (Some e, w') | (None, w') \<Rightarrow> callAll call cs w')"

definition otelCalls :: "'w otel \<Rightarrow> js \<Rightarrow> js \<Rightarrow> span_call list" where
  "otelCalls ot error context =
     (let err = (if ot_isError ot error then error else newError (ot_asString ot error))
      in [RecordException err, SetErrorStatus (jsProp ''message'' err)] @
         map (\<lambda>(key, v). SetAttribute (''app.'' @ key) v) (filter (\<lambda>(key, v). isScalar v) (entries context)))"

definition otelErrorReporter :: "'w otel \<Rightarrow> 'w reporter" where
  "otelErrorReporter ot error context w = (case ot_activeSpan ot w of
      None \<Rightarrow> (None, w)
    | Some ctx \<Rightarrow> callAll (ot_call ot) (otelCalls ot error context) w)"

text \<open>What Sentry is given: the error, the context when there is one, the trace identifier when valid.\<close>

record sentry_event =
  se_error :: js
  se_extra :: "js option"
  se_traceTag :: "string option"

definition sentryErrorReporter ::
  "(span_context \<Rightarrow> bool) \<Rightarrow> ('w \<Rightarrow> span_context option) \<Rightarrow> (sentry_event \<Rightarrow> 'w \<Rightarrow> js option \<times> 'w) \<Rightarrow> 'w reporter" where
  "sentryErrorReporter isSpanContextValid activeSpan captureException error context w =
     (let traceId = (case activeSpan w of
          Some ctx \<Rightarrow> (if isSpanContextValid ctx then Some (sc_traceId ctx) else None) | None \<Rightarrow> None)
      in captureException \<lparr>se_error = error,
           se_extra = (if isObject context then Some context else None),
           se_traceTag = (case traceId of Some t \<Rightarrow> (if t \<noteq> [] then Some t else None) | None \<Rightarrow> None)\<rparr> w)"

section \<open>The queue of the scheduler\<close>

datatype 'b agenda_backend = InjectedBackend 'b | PostgresBackend "string option" string

record ('b, 'w) agenda_options =
  go_backend :: "'b option"
  go_connectionString :: "string option"
  go_name :: "string option"
  go_hasLogger :: bool
  go_errorReporter :: "'w reporter option"

definition agendaBackend :: "string option \<Rightarrow> ('b, 'w) agenda_options \<Rightarrow> 'b agenda_backend" where
  "agendaBackend databaseUrl options = (case go_backend options of
      Some b \<Rightarrow> InjectedBackend b
    | None \<Rightarrow> PostgresBackend
        (case go_connectionString options of Some url \<Rightarrow> Some url | None \<Rightarrow> databaseUrl) ''agenda_jobs'')"

text \<open>The queue built: its backend, its name, and the listener of its events.\<close>

definition createAgenda ::
  "string option \<Rightarrow> ('b, 'w) agenda_options \<Rightarrow>
     'b agenda_backend \<times> string option \<times> (agenda_event \<Rightarrow> job_line list \<times> 'w \<Rightarrow> js option \<times> job_line list \<times> 'w)" where
  "createAgenda databaseUrl options =
     (agendaBackend databaseUrl options, go_name options,
      onAgendaEvent (go_hasLogger options)
        (case go_errorReporter options of Some r \<Rightarrow> r | None \<Rightarrow> noopErrorReporter))"

section \<open>Telemetry settings\<close>

text \<open>The exporters are library objects; the settings say which are created and with what.\<close>

record telemetry_settings =
  ts_prometheus :: "(int \<times> string option) option"
  ts_traceExporter :: bool
  ts_resource :: "(string \<times> string) list"

definition metricsEnabled :: "string option \<Rightarrow> bool" where
  "metricsEnabled env = (env \<noteq> Some ''false'')"

definition telemetrySettings ::
  "string option \<Rightarrow> js_number \<Rightarrow> string option \<Rightarrow> string option \<Rightarrow> string option \<Rightarrow> string option \<Rightarrow> string option \<Rightarrow>
     telemetry_settings" where
  "telemetrySettings metrics parsedPort host otlpEndpoint serviceName version stage = \<lparr>
     ts_prometheus = (if metricsEnabled metrics then Some (metricsPort parsedPort, host) else None),
     ts_traceExporter = isSet otlpEndpoint,
     ts_resource = [
       (''service.name'', case serviceName of Some t \<Rightarrow> t | None \<Rightarrow> ''gannet''),
       (''service.version'', case version of Some t \<Rightarrow> t | None \<Rightarrow> ''0.0.0''),
       (''deployment.environment'', case stage of Some t \<Rightarrow> t | None \<Rightarrow> ''local'')]\<rparr>"

section \<open>Error-tracking settings\<close>

text \<open>
  What \<open>Sentry.init\<close> is given, and whether it is called. There is no sample rate: tracing stays
  with OpenTelemetry. \<open>defaults\<close> names the integrations of the library without performance.
\<close>

record sentry_options =
  so_dsn :: "string option"
  so_environment :: "string option"
  so_release :: "string option"
  so_skipOpenTelemetrySetup :: bool
  so_sendDefaultPii :: bool
  so_includeLocalVariables :: bool
  so_defaultIntegrations :: "string list"

definition sentryInit ::
  "string option \<Rightarrow> string option \<Rightarrow> string option \<Rightarrow> string option \<Rightarrow> string list \<Rightarrow> sentry_options option" where
  "sentryInit dsn environment stage release defaults =
     (if sentryEnabled dsn then Some \<lparr>so_dsn = dsn,
        so_environment = (case environment of Some t \<Rightarrow> Some t | None \<Rightarrow> stage), so_release = release,
        so_skipOpenTelemetrySetup = True, so_sendDefaultPii = False, so_includeLocalVariables = False,
        so_defaultIntegrations = sentryIntegrations defaults\<rparr>
      else None)"

section \<open>What reporting promises\<close>

lemma otelCalls_attributes:
  "SetAttribute k v \<in> set (otelCalls ot e c) \<Longrightarrow> isScalar v \<and> (\<exists>key. k = ''app.'' @ key \<and> (key, v) \<in> set (entries c))"
  by (auto simp: otelCalls_def Let_def)

text \<open>
  The reporter of production, with error tracking on: it never throws, whatever OpenTelemetry and
  Sentry do; Sentry receives the error in the world the span calls left, even when one of them
  threw; and nothing but scalar values of the context goes onto the span.
\<close>

theorem production_reporting:
  "serverErrorReporter True (otelErrorReporter ot) (sentryErrorReporter valid activeSpan capture) error context w =
     (None, snd (capture \<lparr>se_error = error, se_extra = (if isObject context then Some context else None),
        se_traceTag = (let w' = snd (otelErrorReporter ot error context w) in
          case activeSpan w' of
            Some ctx \<Rightarrow> (if valid ctx \<and> sc_traceId ctx \<noteq> [] then Some (sc_traceId ctx) else None) | None \<Rightarrow> None)\<rparr>
        (snd (otelErrorReporter ot error context w))))"
  by (auto simp: serverErrorReporter_def sentryErrorReporter_def Let_def case_prod_beta split: option.split)

end
