(* ===== verification/Spec2Isabelle.thy ===== *)
theory Spec2Isabelle
  imports LockProtocol PointSystem MoneySystem GuardSystem FundingTrail ObjectTypes SchemaBuilder ModuleImports Reporting
begin

text \<open>
  A verification development of the GraphQL reference server: a TypeScript application in which
  modules of the same shape (a pure \<open>core\<close> that decides, a \<open>repo\<close> that reads and writes, a
  \<open>service\<close> that opens the transaction, \<open>schemas\<close> that deliver) are served through Fastify and
  GraphQL Yoga over PostgreSQL. All of it is TypeScript under \<open>src/\<close>; paths below are
  relative to it.

  \<^bold>\<open>How the program is modelled.\<close> A use case is a function of the database: a value of the
  type \<open>'a dbtx\<close> (\<open>Schema\<close>), which takes the state and yields either what was thrown
  (\<open>Inl\<close>) or the answer and the new state (\<open>Inr\<close>). The state \<open>db\<close> is the rows of every table
  as lists of records. A transaction that throws leaves no trace: its caller keeps the state
  it had. That is what a program of database calls becomes inside a unit of work, and
  \<open>Statements\<close> proves it: there a throw leaves behind the calls done before it, as it does
  outside a transaction, and only the unit of work restores the start; sign-up is modelled in
  that form. Errors are the type \<open>thrown\<close> (\<open>Foundation\<close>), with the class, message and code of the
  source. Money, points and identifiers are JavaScript integers (\<open>int\<close>) and an input number
  that may be anything is \<open>js_number\<close> (integer or not); instants are milliseconds. A read made
  before a transaction sees a state of its own, so what it read may be stale. Statements that
  run concurrently in the program are interleavings of steps here (\<open>inductive\<close> relations).

  \<^bold>\<open>The theories, from the ground up.\<close>

  \<^item> \<open>Prelude\<close>: results, transaction bodies and their equations (the collections \<open>tx_simps\<close>
    and \<open>read_simps\<close>), guarded updates, numbers and their texts, and the interfaces
    \<open>invariant_system\<close> and \<open>simulation\<close> (reachable states satisfy an invariant; every step
    is a step of an abstract machine). \<open>JsText\<close>, \<open>IsoDate\<close>: text and date operations of
    the language. \<open>Fifo\<close>: first-in-first-out consumption with its specification, as the
    interface \<open>fifo_loop\<close> shared by the three loops of the program that consume lots.
  \<^item> \<open>Foundation\<close> (\<open>src/foundation/errors.ts\<close>, \<open>src/db/prisma-errors.ts\<close>, the
    error-reporter port), \<open>TimeKst\<close> (\<open>src/foundation/time.ts\<close>), \<open>Flags\<close> (\<open>src/flags\<close>: specs,
    the registry, the per-request reader and its memo).
  \<^item> \<open>Uow\<close>, \<open>Statements\<close>, \<open>Locks\<close>, \<open>LockProtocol\<close> (\<open>src/db/uow.ts\<close>, \<open>src/db/locks.ts\<close>,
    \<open>src/db/lock-registry.ts\<close>): the four ways to open a transaction over a database session,
    programs of calls with and without a unit of work around them, the key registry with its FNV-1a hash on 32-bit words, the acquisition order, and any
    number of transactions acquiring keys in it (interface \<open>lock_discipline\<close>).
  \<^item> \<open>Schema\<close> (\<open>prisma/schema.prisma\<close>): rows, the database, the engine that supplies
    identifiers, \<open>now()\<close>, deferred constraints and the session.
  \<^item> \<open>PointCore\<close>, \<open>PointRepo\<close>, \<open>PointService\<close>, \<open>PointSystem\<close> (\<open>src/modules/point\<close>): the
    decisions, the guarded executors with the ledger invariant \<open>ledger_ok\<close>, the use cases and
    the sweep, and decisions and executions in any interleaving.
  \<^item> \<open>TransactionFlow\<close>, \<open>LedgerCore\<close>, \<open>LedgerRepo\<close>, \<open>LedgerInvariant\<close>, \<open>CommerceRepos\<close>
    (\<open>src/modules/transaction-flow\<close>, \<open>financial-ledger\<close>, \<open>order\<close>, \<open>slot\<close>, \<open>contract\<close>,
    \<open>commission-type\<close>): idempotent commands, lots, reservations, transfers and swaps, with the
    invariant \<open>fin_ok\<close>; the interface \<open>idempotent_request\<close> states what a repeated command
    promises.
  \<^item> \<open>Checkout\<close>, \<open>CheckoutLaws\<close>, \<open>CheckoutReplay\<close>; \<open>Settlement\<close>, \<open>SettlementLaws\<close>,
    \<open>SettlementReplay\<close>; \<open>Withdrawal\<close>, \<open>WithdrawalLaws\<close>, \<open>WithdrawalReplay\<close>;
    \<open>PointChargeFlow\<close>, \<open>PointChargeLaws\<close> (the modules \<open>commission-checkout\<close>,
    \<open>commission-settlement\<close>, \<open>income-withdrawal\<close>, \<open>point-charge\<close>): the model of the use case,
    what one execution does, and what repeated deliveries do.
  \<^item> \<open>MoneySystem\<close>, \<open>MoneyTrail\<close>, \<open>FundingTrail\<close>: the four money use cases together.
  \<^item> \<open>Guards\<close>, \<open>History\<close>, \<open>GuardLaws\<close>, \<open>GuardSystem\<close> (\<open>prisma/migrations\<close>): the triggers of the
    financial tables as the last migration leaves them, which rewrites of a row they let
    through and which deferred checks a transaction queues, and that the money use cases
    satisfy both (a check is queued for a row that changed; for a row written back unchanged the
    database queues it too, with the verdict it already had). \<open>rejected s s'\<close> names the deferred constraints a transaction from \<open>s\<close> to
    \<open>s'\<close> violates; \<open>constraintsFrom\<close> gives it the form the engine's argument has.
  \<^item> \<open>UserModule\<close>, \<open>UserLaws\<close>, \<open>Posts\<close>, \<open>Onboarding\<close>, \<open>Auth\<close>, \<open>FeatureFlag\<close>,
    \<open>FeatureFlagLaws\<close>, \<open>FlagGate\<close> (\<open>src/modules/user\<close>, \<open>post\<close>, \<open>search\<close>, \<open>onboarding\<close>,
    \<open>auth\<close>, \<open>feature-flag\<close>).
  \<^item> \<open>GraphqlContext\<close>, \<open>CommerceFields\<close>, \<open>ObjectTypes\<close>, \<open>OperationLog\<close>, \<open>AppRoot\<close>,
    \<open>Lifecycle\<close>, \<open>Reporting\<close> (\<open>src/graphql\<close>, the \<open>schemas\<close> of the modules, \<open>src/app.ts\<close>,
    \<open>src/services.ts\<close>, \<open>src/server.ts\<close>, \<open>src/scheduler\<close>, \<open>src/instrumentation.ts\<close>): routing of
    a request to the primary or the replica, resolvers and object types (interface
    \<open>refetching\<close>), redaction and logging, what the root owns and masks, start and shutdown.
  \<^item> \<open>SchemaBuilder\<close> (\<open>src/graphql/builder.ts\<close>, \<open>src/graphql/schema.ts\<close>, the \<open>register\<close>
    functions of the \<open>schemas\<close>): the calls that make up the GraphQL schema, in order.
  \<^item> \<open>PathPattern\<close>, \<open>ModuleGraph\<close>, \<open>ModuleImports\<close> (\<open>.dependency-cruiser.mjs\<close> and the
    imports of the services that compose modules): the rules of the module graph, and what they
    promise of any code base they accept.
\<close>

text \<open>
  \<^bold>\<open>What the theorems show.\<close> Points: under any interleaving of charges, decisions and late or
  repeated plans, the guards alone keep every balance equal to the sum of its charges, and a
  client is shown figures that add up; a spend succeeds exactly when it should, moves exactly
  its amount, and equals a closed form; a stale plan is the retryable conflict; the sweep finds
  exactly the drift there is. An expiry leaves exactly the rows it should.
  Money: each use case does exactly what it promises to rows of
  the ledger, a command delivered again changes nothing and answers alike, the answer names
  the rows that were written, a key used for one payment is refused for another, over any run the
  ledger conserves money and its history is append-only, no deferred check of the database
  refuses what a use case carried out, and income and funding are traced to the commission
  and the charge they came from. Locks: the acquisition order makes deadlock impossible. Users and flags:
  the table refines a status machine, a deactivated account stays so, a status change has the
  outcome its branch promises even on a stale read, a sign-up that fails at any point leaves
  nothing, what is upserted is what
  is answered, and a purge keeps the retention. Delivery: a mutation reads its own write
  whatever the replica shows, secrets are redacted at every depth, unexpected errors are
  masked on both surfaces and reported once, and shutdown runs once whatever signals come; the
  modules make the committed GraphQL schema in whatever order they are registered.
  Modules: imports the rules accept make no cycle of modules.

  \<^bold>\<open>Bounds.\<close> Every loop of the source is structural recursion here, so nothing runs on fuel
  but the search for import cycles, \<open>reachesWithin\<close>, which is given the number of
  dependencies: a shortest path visits none twice. The hash of lock keys is on \<open>32 word\<close>, read as
  a signed number at the end; it is defined on any code points, while the texts of the model are
  lists of 8-bit characters, so a key with a code point above 255 has no text here. A safe integer is within \<open>2 ^ 53 - 1\<close>, as \<open>Number.isSafeInteger\<close>
  decides.

  \<^bold>\<open>What is assumed of others.\<close> Third-party code is an argument with its documented behaviour as
  a named hypothesis, and every property with such a hypothesis has a witness that discharges it
  on a concrete function: \<open>engine_fresh\<close> (a sequence or \<open>uuid()\<close> never hands out an identifier in
  use), \<open>session_frame\<close> and \<open>session_quiet\<close> (opening a transaction changes no row; nothing contends or fails),
  \<open>later\<close> of a re-fetch (replication may do anything to the replica, and no other request writes
  the primary between the commit and the re-fetch), \<open>unique_ok\<close> (the unique indexes of the commands), \<open>declaredOk\<close> and \<open>reservationTyped\<close> (keys,
  foreign keys and row checks the database declares), \<open>holdersKept\<close> (a holder read before the
  transaction still exists: the table only grows), \<open>runtime_ok\<close> (\<open>Number\<close> reads the
  text of a safe integer back), \<open>dayjs_utc\<close> (dayjs in UTC mode),
  \<open>agenda_documented\<close>, \<open>pothos_documented\<close> (nullability as the schema builder documents it), \<open>readsRules\<close> and \<open>acceptsGraph\<close> (the dependency checker reports what its
  documentation says). The OpenFeature client, the GraphQL parser, the search index, the OAuth
  provider, OpenTelemetry, Sentry and the queue are arguments with no hypothesis.

  \<^bold>\<open>What is not modelled.\<close> The descriptions in the GraphQL schema and the settings of
  the plugins of its builder. Fastify and Yoga, which
  \<open>src/app.ts\<close> assembles: what it chooses and registers is modelled, the servers are third-party. The construction of the SDKs in \<open>src/instrumentation.ts\<close> beyond
  their settings; \<open>src/foundation/env.ts\<close>, which loads a file; the type-level code of
  \<open>src/db/db.ts\<close> and \<open>src/flags/flags.ts\<close>, which is erased. Of the SQL of the migrations, \<open>Guards\<close> has the deferred
  constraint triggers and the triggers on rewritten rows; the triggers that run at an insert
  (first state of a reservation, origin of an operation, an allocation as it is written), the
  points and flags tables and the definition of tables and indexes are not modelled, and a
  command that is an alias of an earlier one is not under \<open>carriedOut\<close>. In the use cases the
  deferred constraints stay the argument \<open>e_deferred\<close> of the engine, whatever they do, and a
  unique index appears where the code reacts to its violation. Tests, generated
  code and the drawing options of the dependency checker.
\<close>

end
